(* ===== verification/Prelude.thy ===== *)
theory Prelude
  imports Main "HOL-Library.Sublist"
begin

text \<open>
  The vocabulary every component shares: the operations of Go's \<open>strings\<close>, \<open>strconv\<close> and
  \<open>fmt\<close> packages that the program uses, on byte strings (\<open>string\<close>, a list of \<open>char\<close>), and the
  generic list lemmas the component theories use.  Go's \<open>range\<close> loop over a string visits runes;
  every such loop of the program accepts ASCII ranges only and rejects any rune from 128 up, so
  visiting the bytes accepts and rejects the same strings.  Case folding and white space are
  modelled on ASCII; the Unicode letters and spaces above 127 are left as they are.
\<close>

named_theorems code_defs \<open>definitions of the program that proofs unfold\<close>
named_theorems table_simps \<open>what an operation does to the tables of the database\<close>

section \<open>Characters\<close>

definition code :: "char \<Rightarrow> nat" where
  "code c = of_char c"

definition is_lower :: "char \<Rightarrow> bool" where
  "is_lower c \<longleftrightarrow> 97 \<le> code c \<and> code c \<le> 122"

definition is_upper :: "char \<Rightarrow> bool" where
  "is_upper c \<longleftrightarrow> 65 \<le> code c \<and> code c \<le> 90"

definition is_digit :: "char \<Rightarrow> bool" where
  "is_digit c \<longleftrightarrow> 48 \<le> code c \<and> code c \<le> 57"

definition is_space :: "char \<Rightarrow> bool" where
  "is_space c \<longleftrightarrow> code c \<in> {9, 10, 11, 12, 13, 32}"

definition lower_char :: "char \<Rightarrow> char" where
  "lower_char c = (if is_upper c then char_of (code c + 32) else c)"

lemma code_inj: "code c = code d \<longleftrightarrow> c = d"
  by (simp add: code_def)

lemma code_less_256: "code c < 256"
  by (simp add: code_def)

lemma code_char_of: "n < 256 \<Longrightarrow> code (char_of n) = n"
  by (simp add: code_def)

lemma lower_char_idem [simp]: "lower_char (lower_char c) = lower_char c"
  by (auto simp: lower_char_def is_upper_def code_char_of)

lemma is_upper_lower_char [simp]: "\<not> is_upper (lower_char c)"
  by (auto simp: lower_char_def is_upper_def code_char_of)

section \<open>Go's strings package\<close>

definition to_lower :: "string \<Rightarrow> string" where
  "to_lower s = map lower_char s"

definition equal_fold :: "string \<Rightarrow> string \<Rightarrow> bool" where
  "equal_fold s t \<longleftrightarrow> to_lower s = to_lower t"

definition trim_left_by :: "(char \<Rightarrow> bool) \<Rightarrow> string \<Rightarrow> string" where
  "trim_left_by P s = dropWhile P s"

definition trim_right_by :: "(char \<Rightarrow> bool) \<Rightarrow> string \<Rightarrow> string" where
  "trim_right_by P s = rev (dropWhile P (rev s))"

definition trim_space :: "string \<Rightarrow> string" where
  "trim_space s = trim_right_by is_space (trim_left_by is_space s)"

definition has_prefix :: "string \<Rightarrow> string \<Rightarrow> bool" where
  "has_prefix s p \<longleftrightarrow> take (length p) s = p"

definition has_suffix :: "string \<Rightarrow> string \<Rightarrow> bool" where
  "has_suffix s p \<longleftrightarrow> has_prefix (rev s) (rev p)"

definition trim_prefix :: "string \<Rightarrow> string \<Rightarrow> string" where
  "trim_prefix s p = (if has_prefix s p then drop (length p) s else s)"

definition trim_suffix :: "string \<Rightarrow> string \<Rightarrow> string" where
  "trim_suffix s p = (if has_suffix s p then take (length s - length p) s else s)"

fun contains :: "string \<Rightarrow> string \<Rightarrow> bool" where
  "contains [] p = (p = [])"
| "contains (c # s) p = (has_prefix (c # s) p \<or> contains s p)"

text \<open>\<open>strings.Split(s, sep)\<close> for a separator of one byte: always at least one part.\<close>

fun split_on :: "char \<Rightarrow> string \<Rightarrow> string list" where
  "split_on sep [] = [[]]"
| "split_on sep (c # s) =
     (if c = sep then [] # split_on sep s
      else (case split_on sep s of [] \<Rightarrow> [[c]] | p # ps \<Rightarrow> (c # p) # ps))"

text \<open>\<open>strings.SplitN(s, sep, 2)\<close> and \<open>strings.Cut\<close>: \<open>None\<close> when the separator is absent.\<close>

fun cut_at :: "char \<Rightarrow> string \<Rightarrow> (string \<times> string) option" where
  "cut_at sep [] = None"
| "cut_at sep (c # s) =
     (if c = sep then Some ([], s) else map_option (\<lambda>(a, b). (c # a, b)) (cut_at sep s))"

text \<open>\<open>strings.Join\<close>.\<close>

fun join_with :: "string \<Rightarrow> string list \<Rightarrow> string" where
  "join_with sep [] = []"
| "join_with sep [x] = x"
| "join_with sep (x # y # ys) = x @ sep @ join_with sep (y # ys)"

section \<open>Decimal numbers, as \<open>fmt\<close> prints them with \<open>%d\<close>\<close>

definition digit_char :: "nat \<Rightarrow> char" where
  "digit_char d = char_of (48 + d)"

fun nat_str :: "nat \<Rightarrow> string" where
  "nat_str n = (if n < 10 then [digit_char n] else nat_str (n div 10) @ [digit_char (n mod 10)])"

declare nat_str.simps [simp del]

definition int_str :: "int \<Rightarrow> string" where
  "int_str i = (if i < 0 then CHR ''-'' # nat_str (nat (- i)) else nat_str (nat i))"

text \<open>Reading the digits back, to state that printing is injective.\<close>

definition read_nat :: "string \<Rightarrow> nat" where
  "read_nat s = foldl (\<lambda>n c. 10 * n + (code c - 48)) 0 s"

lemma code_digit_char: "d < 10 \<Longrightarrow> code (digit_char d) = 48 + d"
  by (simp add: digit_char_def code_char_of)

lemma is_digit_digit_char: "d < 10 \<Longrightarrow> is_digit (digit_char d)"
  by (simp add: is_digit_def code_digit_char)

lemma nat_str_digits: "c \<in> set (nat_str n) \<Longrightarrow> is_digit c"
proof (induction n rule: nat_str.induct)
  case (1 n)
  show ?case
  proof (cases "n < 10")
    case True
    then show ?thesis
      using "1.prems" by (simp add: nat_str.simps [of n] is_digit_digit_char)
  next
    case False
    then show ?thesis
      using 1 by (auto simp: nat_str.simps [of n] is_digit_digit_char)
  qed
qed

lemma nat_str_nonempty [simp]: "nat_str n \<noteq> []"
  by (subst nat_str.simps) simp

lemma read_nat_str [simp]: "read_nat (nat_str n) = n"
proof (induction n rule: nat_str.induct)
  case (1 n)
  show ?case
  proof (cases "n < 10")
    case True
    then show ?thesis
      by (simp add: nat_str.simps [of n] read_nat_def code_digit_char)
  next
    case False
    then have "read_nat (nat_str (n div 10)) = n div 10"
      using 1 by simp
    with False show ?thesis
      by (simp add: nat_str.simps [of n] read_nat_def code_digit_char)
  qed
qed

lemma nat_str_inj: "nat_str m = nat_str n \<longleftrightarrow> m = n"
  by (metis read_nat_str)

lemma minus_not_digit: "\<not> is_digit (CHR ''-'')"
  by (simp add: is_digit_def code_def)

lemma nat_str_not_minus: "nat_str n \<noteq> CHR ''-'' # s"
  using nat_str_digits [of "CHR ''-''" n] by (auto simp: minus_not_digit)

lemma int_str_inj: "int_str i = int_str j \<longleftrightarrow> i = j"
  by (auto simp: int_str_def nat_str_inj nat_str_not_minus nat_str_not_minus [symmetric]
      split: if_splits)

lemma int_str_chars: "c \<in> set (int_str i) \<Longrightarrow> is_digit c \<or> c = CHR ''-''"
  by (auto simp: int_str_def dest: nat_str_digits split: if_splits)

section \<open>Facts about the string operations\<close>

lemma to_lower_idem [simp]: "to_lower (to_lower s) = to_lower s"
  by (simp add: to_lower_def comp_def)

lemma has_prefix_append [simp]: "has_prefix (p @ s) p"
  by (simp add: has_prefix_def)

lemma has_prefix_iff: "has_prefix s p \<longleftrightarrow> (\<exists>t. s = p @ t)"
  by (metis append_take_drop_id has_prefix_append has_prefix_def)

lemma has_prefix_extend: "has_prefix s p \<Longrightarrow> has_prefix (s @ t) p"
  by (auto simp: has_prefix_iff)

lemma contains_iff: "contains s p \<longleftrightarrow> (\<exists>a b. s = a @ p @ b)"
proof (induction s)
  case Nil
  then show ?case by auto
next
  case (Cons c s)
  have "(\<exists>a b. c # s = a @ p @ b) \<longleftrightarrow> has_prefix (c # s) p \<or> (\<exists>a b. s = a @ p @ b)"
    by (auto simp: has_prefix_iff Cons_eq_append_conv)
  with Cons.IH show ?case by simp
qed

lemma contains_append: "contains s p \<Longrightarrow> contains (a @ s @ b) p"
  unfolding contains_iff by (metis append.assoc)

lemma split_on_nonempty [simp]: "split_on sep s \<noteq> []"
  by (induction s) (auto split: list.splits)

lemma split_on_plain: "sep \<notin> set p \<Longrightarrow> split_on sep p = [p]"
  by (induction p) auto

lemma split_on_append: "sep \<notin> set p \<Longrightarrow> split_on sep (p @ sep # r) = p # split_on sep r"
  by (induction p) auto

lemma split_on_concat: "split_on sep (a @ sep # b) = split_on sep a @ split_on sep b"
  by (induction a) (auto split: list.split)

lemma join_split_on: "join_with [sep] (split_on sep s) = s"
proof (induction s)
  case Nil
  then show ?case by simp
next
  case (Cons c s)
  then show ?case
    by (cases "split_on sep s" rule: remdups_adj.cases) auto
qed

lemma cut_at_Some: "cut_at sep s = Some (a, b) \<Longrightarrow> s = a @ sep # b \<and> sep \<notin> set a"
  by (induction s arbitrary: a) (auto split: if_splits)

lemma cut_at_append: "sep \<notin> set a \<Longrightarrow> cut_at sep (a @ sep # b) = Some (a, b)"
  by (induction a) auto

lemma cut_at_None: "cut_at sep s = None \<longleftrightarrow> sep \<notin> set s"
  by (induction s) auto

lemma trim_left_fix: "(s = [] \<or> \<not> P (hd s)) \<Longrightarrow> trim_left_by P s = s"
  by (cases s) (auto simp: trim_left_by_def)

lemma trim_right_fix: "(s = [] \<or> \<not> P (last s)) \<Longrightarrow> trim_right_by P s = s"
  by (cases s rule: rev_cases) (auto simp: trim_right_by_def)

lemma trim_space_fix:
  "(s = [] \<or> (\<not> is_space (hd s) \<and> \<not> is_space (last s))) \<Longrightarrow> trim_space s = s"
  by (auto simp: trim_space_def trim_left_fix trim_right_fix)

lemma set_trim_space: "set (trim_space s) \<subseteq> set s"
  by (auto simp: trim_space_def trim_right_by_def trim_left_by_def) (metis set_dropWhileD set_rev)

lemma trim_space_ends:
  "trim_space s \<noteq> [] \<Longrightarrow> \<not> is_space (hd (trim_space s)) \<and> \<not> is_space (last (trim_space s))"
proof -
  assume ne: "trim_space s \<noteq> []"
  let ?t = "dropWhile is_space s"
  have last: "\<not> is_space (last (trim_space s))"
    using ne hd_dropWhile [of is_space "rev ?t"]
    by (simp add: trim_space_def trim_right_by_def trim_left_by_def last_rev)
  obtain z where "?t = trim_space s @ z"
    using takeWhile_dropWhile_id [of is_space "rev ?t"]
    by (metis rev_append rev_rev_ident trim_left_by_def trim_right_by_def trim_space_def)
  then have "hd (trim_space s) = hd ?t" "?t \<noteq> []" using ne by (auto simp: hd_append)
  with last show ?thesis using hd_dropWhile [of is_space s] by auto
qed

lemma trim_space_split: "\<exists>l r. s = l @ trim_space s @ r"
proof -
  let ?t = "dropWhile is_space s"
  have "s = takeWhile is_space s @ ?t" by simp
  moreover have "?t = trim_space s @ rev (takeWhile is_space (rev ?t))"
    by (metis rev_append rev_rev_ident takeWhile_dropWhile_id trim_left_by_def trim_right_by_def
        trim_space_def)
  ultimately show ?thesis by metis
qed

lemma trim_space_keeps:
  assumes "t \<noteq> []" "\<not> is_space (hd t)" "\<not> is_space (last t)"
  shows "\<exists>l r. trim_space (x @ t @ y) = l @ t @ r"
proof -
  have left: "dropWhile P (z @ u @ w) = dropWhile P z @ u @ w"
    if "u \<noteq> []" "\<not> P (hd u)" for P and z u w :: string
    using that by (induction z) (cases u; simp)+
  have "trim_left_by is_space (x @ t @ y) = dropWhile is_space x @ t @ y"
    unfolding trim_left_by_def by (rule left) (use assms in auto)
  moreover have "trim_right_by is_space (a @ t @ y) = a @ t @ rev (dropWhile is_space (rev y))" for a
    using left [of "rev t" is_space "rev y" "rev a"] assms
    by (simp add: trim_right_by_def hd_rev)
  ultimately show ?thesis unfolding trim_space_def by auto
qed

lemma trim_space_infix: "\<exists>l r. trim_space (a @ c @ b) = l @ trim_space c @ r"
proof (cases "trim_space c = []")
  case True
  then show ?thesis by auto
next
  case False
  obtain l r where "c = l @ trim_space c @ r" using trim_space_split by blast
  then have "a @ c @ b = (a @ l) @ trim_space c @ (r @ b)" by (metis append.assoc)
  then show ?thesis using trim_space_keeps [OF False] trim_space_ends [OF False] by metis
qed


section \<open>Lists as tables\<close>

text \<open>An SQL update rewrites the rows that satisfy its condition and counts them.\<close>

definition update_where :: "('a \<Rightarrow> bool) \<Rightarrow> ('a \<Rightarrow> 'a) \<Rightarrow> 'a list \<Rightarrow> 'a list" where
  "update_where P f xs = map (\<lambda>x. if P x then f x else x) xs"

definition count_where :: "('a \<Rightarrow> bool) \<Rightarrow> 'a list \<Rightarrow> nat" where
  "count_where P xs = length (filter P xs)"

lemma update_where_Nil [simp]: "update_where P f [] = []"
  by (simp add: update_where_def)

lemma update_where_Cons [simp]:
  "update_where P f (x # xs) = (if P x then f x else x) # update_where P f xs"
  by (simp add: update_where_def)

lemma length_update_where [simp]: "length (update_where P f xs) = length xs"
  by (simp add: update_where_def)

lemma set_update_where:
  "set (update_where P f xs) = (\<lambda>x. if P x then f x else x) ` set xs"
  by (simp add: update_where_def)

lemma update_where_none: "(\<And>x. x \<in> set xs \<Longrightarrow> \<not> P x) \<Longrightarrow> update_where P f xs = xs"
  by (induction xs) auto

lemma map_update_where: "(\<And>x. g (f x) = g x) \<Longrightarrow> map g (update_where P f xs) = map g xs"
  by (induction xs) auto

lemma count_where_0: "count_where P xs = 0 \<longleftrightarrow> (\<forall>x \<in> set xs. \<not> P x)"
  by (simp add: count_where_def filter_empty_conv)

lemma count_where_pos: "0 < count_where P xs \<longleftrightarrow> (\<exists>x \<in> set xs. P x)"
  by (auto simp: count_where_def filter_empty_conv)

lemma find_Some_set: "List.find P xs = Some x \<Longrightarrow> x \<in> set xs \<and> P x"
  by (induction xs) (auto split: if_splits)

lemma distinct_map_eqD: "distinct (map f xs) \<Longrightarrow> x \<in> set xs \<Longrightarrow> y \<in> set xs \<Longrightarrow> f x = f y \<Longrightarrow> x = y"
  by (meson distinct_map inj_onD)

text \<open>\<open>ORDER BY\<close>: a stable insertion sort by a \<open>\<le>\<close> on rows.\<close>

fun insert_by :: "('a \<Rightarrow> 'a \<Rightarrow> bool) \<Rightarrow> 'a \<Rightarrow> 'a list \<Rightarrow> 'a list" where
  "insert_by le x [] = [x]"
| "insert_by le x (y # ys) = (if le x y then x # y # ys else y # insert_by le x ys)"

definition order_by :: "('a \<Rightarrow> 'a \<Rightarrow> bool) \<Rightarrow> 'a list \<Rightarrow> 'a list" where
  "order_by le xs = foldr (insert_by le) xs []"

lemma set_insert_by [simp]: "set (insert_by le x ys) = insert x (set ys)"
  by (induction ys) auto

lemma set_order_by [simp]: "set (order_by le xs) = set xs"
  by (induction xs) (auto simp: order_by_def)

lemma length_insert_by [simp]: "length (insert_by le x ys) = Suc (length ys)"
  by (induction ys) auto

lemma length_order_by [simp]: "length (order_by le xs) = length xs"
  by (induction xs) (auto simp: order_by_def)

lemma insert_by_last: "(\<And>y. y \<in> set ys \<Longrightarrow> \<not> le x y) \<Longrightarrow> insert_by le x ys = ys @ [x]"
  by (induction ys) auto

lemma insert_by_snoc: "le x z \<Longrightarrow> insert_by le x (ys @ [z]) = insert_by le x ys @ [z]"
  by (induction ys) auto

text \<open>A row that is not below any other comes last.\<close>

lemma order_by_snoc:
  "(\<And>y. y \<in> set xs \<Longrightarrow> le y z) \<Longrightarrow> order_by le (xs @ [z]) = order_by le xs @ [z]"
  by (induction xs) (auto simp: order_by_def insert_by_snoc)


lemma update_where_cong:
  "(\<And>x. x \<in> set xs \<Longrightarrow> P x \<longleftrightarrow> Q x) \<Longrightarrow> (\<And>x. x \<in> set xs \<Longrightarrow> Q x \<Longrightarrow> f x = g x) \<Longrightarrow>
     update_where P f xs = update_where Q g xs"
  by (induction xs) auto

text \<open>Updating the one row a condition selects.\<close>

lemma set_update_one:
  "x \<in> set xs \<Longrightarrow> P x \<Longrightarrow> (\<And>y. y \<in> set xs \<Longrightarrow> P y \<Longrightarrow> y = x) \<Longrightarrow>
     set (update_where P f xs) = insert (f x) (set xs - {x})"
proof -
  assume a: "x \<in> set xs" "P x" "\<And>y. y \<in> set xs \<Longrightarrow> P y \<Longrightarrow> y = x"
  have "(if P y then f y else y) = (if y = x then f x else y)" if "y \<in> set xs" for y
    using a(2) a(3) [OF that] by (cases "P y") auto
  then have "set (update_where P f xs) = (\<lambda>y. if y = x then f x else y) ` set xs"
    unfolding set_update_where by (rule image_cong [OF refl])
  with a(1) show ?thesis by auto
qed

lemma update_where_twice:
  "(\<And>x. P x \<Longrightarrow> P (f x)) \<Longrightarrow> update_where P g (update_where P f xs) = update_where P (\<lambda>x. g (f x)) xs"
  by (induction xs) auto

lemma count_where_le_1:
  "distinct (map k xs) \<Longrightarrow> (\<And>x. x \<in> set xs \<Longrightarrow> P x \<Longrightarrow> k x = i) \<Longrightarrow> count_where P xs \<le> 1"
proof (induction xs)
  case (Cons a xs)
  show ?case
  proof (cases "P a")
    case True
    then have "k a = i" using Cons.prems(2) by simp
    have "\<not> P x" if x: "x \<in> set xs" for x
    proof
      assume "P x"
      then have "k x = k a" using Cons.prems(2) x \<open>k a = i\<close> by simp
      with x Cons.prems(1) show False by (auto simp: image_iff dest: sym)
    qed
    then have "count_where P xs = 0" by (simp add: count_where_0)
    with True show ?thesis by (simp add: count_where_def)
  qed (use Cons in \<open>auto simp: count_where_def\<close>)
qed (simp add: count_where_def)


end
