(* ===== verification/Json.thy ===== *)
theory Json
  imports Prelude
begin

text \<open>
  What the program uses of Go's \<open>encoding/json\<close>: the compact text that \<open>json.Marshal\<close> writes for
  strings, integers, booleans, arrays and objects.  Strings are escaped byte by byte as Go's
  \<open>appendString\<close> does with HTML escaping on: control bytes, quotes, backslashes and the three HTML
  characters become escapes, a byte that starts no valid UTF-8 sequence becomes \<open>\ufffd\<close>, the
  line separators U+2028 and U+2029 become escapes, and every other sequence is copied.
  A Go map is written with its keys in order (\<open>jmap\<close>), a struct in declaration order (\<open>JObj\<close>).
\<close>

datatype json =
    JNull
  | JBool bool
  | JInt int
  | JStr string
  | JArr "json list"
  | JObj "(string \<times> json) list"

section \<open>String escapes\<close>

definition hex_digit :: "nat \<Rightarrow> char" where
  "hex_digit n = (if n < 10 then char_of (48 + n) else char_of (87 + n))"

definition hex_val :: "char \<Rightarrow> nat" where
  "hex_val c = (if is_digit c then code c - 48 else code c - 87)"

text \<open>The escape of a byte below 128.\<close>

definition esc_ascii :: "char \<Rightarrow> string" where
  "esc_ascii c =
     (if c = CHR 0x22 then [CHR 0x5C, CHR 0x22]
      else if c = CHR 0x5C then [CHR 0x5C, CHR 0x5C]
      else if code c = 8 then [CHR 0x5C, CHR ''b'']
      else if code c = 12 then [CHR 0x5C, CHR ''f'']
      else if code c = 10 then [CHR 0x5C, CHR ''n'']
      else if code c = 13 then [CHR 0x5C, CHR ''r'']
      else if code c = 9 then [CHR 0x5C, CHR ''t'']
      else if code c < 32 \<or> c = CHR ''<'' \<or> c = CHR ''>'' \<or> c = CHR ''&''
        then [CHR 0x5C, CHR ''u'', CHR ''0'', CHR ''0'',
              hex_digit (code c div 16), hex_digit (code c mod 16)]
      else [c])"

definition cont_byte :: "char \<Rightarrow> bool" where
  "cont_byte c \<longleftrightarrow> 128 \<le> code c \<and> code c \<le> 191"

text \<open>The second byte after a lead byte of three or four: the ranges of Go's \<open>unicode/utf8\<close>.\<close>

definition second_ok :: "nat \<Rightarrow> nat \<Rightarrow> bool" where
  "second_ok lead b =
     (if lead = 224 then 160 \<le> b \<and> b \<le> 191
      else if lead = 237 then 128 \<le> b \<and> b \<le> 159
      else if lead = 240 then 144 \<le> b \<and> b \<le> 191
      else if lead = 244 then 128 \<le> b \<and> b \<le> 143
      else 128 \<le> b \<and> b \<le> 191)"

text \<open>The length of the valid sequence of two to four bytes a string starts with, 0 if none.\<close>

fun utf8_len :: "string \<Rightarrow> nat" where
  "utf8_len (a # b # s) =
     (if 194 \<le> code a \<and> code a \<le> 223 then (if cont_byte b then 2 else 0)
      else if 224 \<le> code a \<and> code a \<le> 239 then
        (if second_ok (code a) (code b) \<and> s \<noteq> [] \<and> cont_byte (hd s) then 3 else 0)
      else if 240 \<le> code a \<and> code a \<le> 244 then
        (if second_ok (code a) (code b) \<and> 2 \<le> length s \<and> cont_byte (hd s) \<and> cont_byte (hd (tl s))
         then 4 else 0)
      else 0)"
| "utf8_len _ = 0"

definition line_sep :: string where
  "line_sep = [CHR 0xE2, CHR 0x80, CHR 0xA8]"

definition para_sep :: string where
  "para_sep = [CHR 0xE2, CHR 0x80, CHR 0xA9]"

function json_body :: "string \<Rightarrow> string" where
  "json_body [] = []"
| "json_body (c # s) =
     (if code c < 128 then esc_ascii c @ json_body s
      else if utf8_len (c # s) = 0 then CHR 0x5C # ''ufffd'' @ json_body s
      else if take 3 (c # s) = line_sep then CHR 0x5C # ''u2028'' @ json_body (drop 3 (c # s))
      else if take 3 (c # s) = para_sep then CHR 0x5C # ''u2029'' @ json_body (drop 3 (c # s))
      else take (utf8_len (c # s)) (c # s) @ json_body (drop (utf8_len (c # s)) (c # s)))"
  by pat_completeness auto
termination
  by (relation "measure length") auto

function valid_utf8 :: "string \<Rightarrow> bool" where
  "valid_utf8 [] = True"
| "valid_utf8 (c # s) =
     (if code c < 128 then valid_utf8 s
      else if utf8_len (c # s) = 0 then False
      else valid_utf8 (drop (utf8_len (c # s)) (c # s)))"
  by pat_completeness auto
termination
  by (relation "measure length") auto

declare json_body.simps(2) [simp del] valid_utf8.simps(2) [simp del]

definition json_str :: "string \<Rightarrow> string" where
  "json_str s = CHR 0x22 # json_body s @ [CHR 0x22]"

fun json_text :: "json \<Rightarrow> string" where
  "json_text JNull = ''null''"
| "json_text (JBool b) = (if b then ''true'' else ''false'')"
| "json_text (JInt i) = int_str i"
| "json_text (JStr s) = json_str s"
| "json_text (JArr xs) = ''['' @ join_with '','' (map json_text xs) @ '']''"
| "json_text (JObj fs) =
     ''{'' @ join_with '','' (map (\<lambda>(k, v). json_str k @ '':'' @ json_text v) fs) @ ''}''"

text \<open>A Go map is marshalled with its keys sorted as byte strings.\<close>

fun str_le :: "string \<Rightarrow> string \<Rightarrow> bool" where
  "str_le [] _ = True"
| "str_le (_ # _) [] = False"
| "str_le (c # s) (d # t) = (code c < code d \<or> c = d \<and> str_le s t)"

fun insert_key :: "string \<times> json \<Rightarrow> (string \<times> json) list \<Rightarrow> (string \<times> json) list" where
  "insert_key x [] = [x]"
| "insert_key x (y # ys) = (if str_le (fst x) (fst y) then x # y # ys else y # insert_key x ys)"

definition jmap :: "(string \<times> json) list \<Rightarrow> json" where
  "jmap kvs = JObj (foldr insert_key kvs [])"

section \<open>Reading a string back\<close>

text \<open>
  The reader of a JSON string body up to its closing quote: the value and the rest of the text.
  It states that the escapes lose nothing; the program itself never reads JSON this way.
\<close>

definition push :: "string \<Rightarrow> (string \<times> string) option \<Rightarrow> (string \<times> string) option" where
  "push p r = map_option (\<lambda>(a, b). (p @ a, b)) r"

fun unescape :: "char \<Rightarrow> char" where
  "unescape e =
     (if e = CHR ''b'' then char_of (8::nat) else if e = CHR ''f'' then char_of (12::nat)
      else if e = CHR ''n'' then char_of (10::nat) else if e = CHR ''r'' then char_of (13::nat)
      else if e = CHR ''t'' then char_of (9::nat) else e)"

fun unhex :: "string \<Rightarrow> string" where
  "unhex h =
     (if h = ''2028'' then line_sep else if h = ''2029'' then para_sep
      else [char_of (16 * hex_val (h ! 2) + hex_val (h ! 3))])"

fun unjson :: "string \<Rightarrow> (string \<times> string) option" where
  "unjson [] = None"
| "unjson (c # s) =
     (if c = CHR 0x22 then Some ([], s)
      else if c = CHR 0x5C then
        (case s of
           [] \<Rightarrow> None
         | e # r \<Rightarrow>
             (if e = CHR ''u'' then
                (if length r < 4 then None else push (unhex (take 4 r)) (unjson (drop 4 r)))
              else push [unescape e] (unjson r)))
      else push [c] (unjson s))"

declare unjson.simps(2) [simp del] unescape.simps [simp del] unhex.simps [simp del]

lemma push_push [simp]: "push p (push q r) = push (p @ q) r"
  by (cases r) (auto simp: push_def)

lemma push_Nil [simp]: "push [] r = r"
  by (cases r) (auto simp: push_def)

lemma push_Some [simp]: "push p (Some (a, b)) = Some (p @ a, b)"
  by (simp add: push_def)

lemma unjson_quote [simp]: "unjson (CHR 0x22 # s) = Some ([], s)"
  by (simp add: unjson.simps)

lemma unjson_plain: "c \<noteq> CHR 0x22 \<Longrightarrow> c \<noteq> CHR 0x5C \<Longrightarrow> unjson (c # s) = push [c] (unjson s)"
  by (simp add: unjson.simps)

lemma unjson_escape: "e \<noteq> CHR ''u'' \<Longrightarrow> unjson (CHR 0x5C # e # s) = push [unescape e] (unjson s)"
  by (simp add: unjson.simps)

lemma unjson_unicode:
  "unjson (CHR 0x5C # CHR ''u'' # a # b # c # d # s) = push (unhex [a, b, c, d]) (unjson s)"
  by (simp add: unjson.simps)

lemma unjson_highs:
  "(\<And>c. c \<in> set p \<Longrightarrow> 128 \<le> code c) \<Longrightarrow> unjson (p @ s) = push p (unjson s)"
proof (induction p)
  case Nil
  then show ?case by simp
next
  case (Cons c p)
  have "c \<noteq> CHR 0x22" "c \<noteq> CHR 0x5C"
    using Cons.prems [of c] by (auto simp: code_def)
  with Cons show ?case by (simp add: unjson_plain)
qed

lemma hex_val_digit: "n < 16 \<Longrightarrow> hex_val (hex_digit n) = n"
  by (auto simp: hex_val_def hex_digit_def is_digit_def code_char_of)

lemma unhex_00: "unhex [CHR ''0'', CHR ''0'', a, b] = [char_of (16 * hex_val a + hex_val b)]"
  by (simp add: unhex.simps)

lemma char_of_code: "char_of (code c) = c"
  by (simp add: code_def)

lemma char_of_hex: "char_of (16 * (code c div 16) + code c mod 16) = c"
  by (simp add: char_of_code)

lemma unescape_ctrl:
  "code c = 8 \<Longrightarrow> unescape (CHR ''b'') = c" "code c = 12 \<Longrightarrow> unescape (CHR ''f'') = c"
  "code c = 10 \<Longrightarrow> unescape (CHR ''n'') = c" "code c = 13 \<Longrightarrow> unescape (CHR ''r'') = c"
  "code c = 9 \<Longrightarrow> unescape (CHR ''t'') = c"
  by (use char_of_code [of c] in \<open>simp add: unescape.simps\<close>)+

lemma unescape_self: "unescape (CHR 0x22) = CHR 0x22" "unescape (CHR 0x5C) = CHR 0x5C"
  by (simp_all add: unescape.simps)

lemma unjson_esc_ascii:
  assumes "code c < 128"
  shows "unjson (esc_ascii c @ s) = push [c] (unjson s)"
proof -
  have hex: "unjson (CHR 0x5C # CHR ''u'' # CHR ''0'' # CHR ''0''
      # hex_digit (code c div 16) # hex_digit (code c mod 16) # s) = push [c] (unjson s)"
    using assms by (simp add: unjson_unicode unhex_00 hex_val_digit char_of_code)
  show ?thesis
    by (auto simp: esc_ascii_def unjson_escape unescape_self unescape_ctrl hex unjson_plain)
qed


lemma second_ok_high: "second_ok l b \<Longrightarrow> 128 \<le> b"
  by (auto simp: second_ok_def split: if_splits)

lemma utf8_len_high: "c \<in> set (take (utf8_len s) s) \<Longrightarrow> 128 \<le> code c"
proof (cases s rule: utf8_len.cases)
  case (1 a b t)
  assume c: "c \<in> set (take (utf8_len s) s)"
  show ?thesis
  proof (cases t)
    case Nil
    with 1 c show ?thesis by (auto simp: cont_byte_def split: if_splits)
  next
    case (Cons x u)
    with 1 c show ?thesis
      by (cases u) (auto simp: cont_byte_def dest: second_ok_high split: if_splits)
  qed
qed auto

lemma utf8_len_seps: "utf8_len (line_sep @ t) = 3" "utf8_len (para_sep @ t) = 3"
  by (simp_all add: line_sep_def para_sep_def cont_byte_def second_ok_def code_def)

lemma utf8_len_line_sep: "take 3 s = line_sep \<Longrightarrow> utf8_len s = 3"
  by (metis append_take_drop_id utf8_len_seps(1))

lemma utf8_len_para_sep: "take 3 s = para_sep \<Longrightarrow> utf8_len s = 3"
  by (metis append_take_drop_id utf8_len_seps(2))

theorem unjson_json_body:
  "valid_utf8 s \<Longrightarrow> unjson (json_body s @ CHR 0x22 # r) = Some (s, r)"
proof (induction s rule: json_body.induct)
  case 1
  then show ?case by simp
next
  case (2 c s)
  let ?n = "utf8_len (c # s)"
  show ?case
  proof (cases "code c < 128")
    case True
    with "2.prems" have "valid_utf8 s" by (simp add: valid_utf8.simps)
    with True "2.IH"(1) show ?thesis
      by (simp add: json_body.simps unjson_esc_ascii)
  next
    case False
    with "2.prems" have n: "?n \<noteq> 0" and v: "valid_utf8 (drop ?n (c # s))"
      by (auto simp: valid_utf8.simps split: if_splits)
    consider "take 3 (c # s) = line_sep"
      | "take 3 (c # s) \<noteq> line_sep" "take 3 (c # s) = para_sep"
      | "take 3 (c # s) \<noteq> line_sep" "take 3 (c # s) \<noteq> para_sep" by blast
    then show ?thesis
    proof cases
      case 1
      then have "drop ?n (c # s) = drop 3 (c # s)" by (simp only: utf8_len_line_sep)
      with False n 1 v "2.IH"(3) have IH: "unjson (json_body (drop 3 (c # s)) @ CHR 0x22 # r)
          = Some (drop 3 (c # s), r)" by simp
      have "line_sep @ drop 3 (c # s) = c # s"
        using 1 by (metis append_take_drop_id)
      with False n 1 IH show ?thesis
        by (simp add: json_body.simps unjson_unicode unhex.simps)
    next
      case 2
      then have "drop ?n (c # s) = drop 3 (c # s)" by (simp only: utf8_len_para_sep)
      with False n 2 v "2.IH"(4) have IH: "unjson (json_body (drop 3 (c # s)) @ CHR 0x22 # r)
          = Some (drop 3 (c # s), r)" by simp
      have "para_sep @ drop 3 (c # s) = c # s"
        using 2 by (metis append_take_drop_id)
      with False n 2 IH show ?thesis
        by (simp add: json_body.simps unjson_unicode unhex.simps)
    next
      case 3
      with False n v "2.IH"(5) have IH: "unjson (json_body (drop ?n (c # s)) @ CHR 0x22 # r)
          = Some (drop ?n (c # s), r)" by simp
      with False n 3 show ?thesis
        by (simp add: json_body.simps unjson_highs utf8_len_high)
    qed
  qed
qed

lemma json_str_inj:
  assumes "valid_utf8 s" "valid_utf8 t" "json_str s @ r = json_str t @ r'"
  shows "s = t \<and> r = r'"
proof -
  have "json_body s @ CHR 0x22 # r = json_body t @ CHR 0x22 # r'"
    using assms(3) by (simp add: json_str_def)
  then have "unjson (json_body s @ CHR 0x22 # r) = unjson (json_body t @ CHR 0x22 # r')"
    by (rule arg_cong)
  then show ?thesis
    by (simp only: unjson_json_body assms option.inject prod.inject)
qed

lemma int_str_prefix:
  assumes "int_str i @ x # r = int_str j @ y # r'"
    and "\<not> is_digit x" "x \<noteq> CHR ''-''" "\<not> is_digit y" "y \<noteq> CHR ''-''"
  shows "i = j \<and> x # r = y # r'"
proof -
  let ?P = "\<lambda>c. is_digit c \<or> c = CHR ''-''"
  have "takeWhile ?P (int_str i @ x # r) = int_str i" "dropWhile ?P (int_str i @ x # r) = x # r"
    "takeWhile ?P (int_str j @ y # r') = int_str j" "dropWhile ?P (int_str j @ y # r') = y # r'"
    using assms(2-) by (auto simp: takeWhile_append dropWhile_append dest: int_str_chars)
  with assms(1) show ?thesis
    by (metis int_str_inj)
qed

end
