(* ===== verification/Jobsign.thy ===== *)
theory Jobsign
  imports Json
begin

text \<open>
  \<open>packages/jobsign/jobsign.go\<close>: the message authentication code over a dispatched job.
  \<open>claims\<close> is the struct \<open>Claims\<close>, \<open>canonical\<close>, \<open>new_signer\<close>, \<open>sign\<close> and \<open>verify\<close> the functions of
  the same names.  HMAC-SHA256 is the parameter \<open>mac\<close> (key, message, 32 bytes); the URL-safe base64
  without padding is modelled and proved to round-trip.  Times are Unix seconds.
\<close>

section \<open>Raw URL base64\<close>

definition b64_char :: "nat \<Rightarrow> char" where
  "b64_char n =
     (if n < 26 then char_of (65 + n) else if n < 52 then char_of (71 + n)
      else if n < 62 then char_of (n - 4) else if n = 62 then CHR ''-'' else CHR ''_'')"

definition b64_val :: "char \<Rightarrow> nat option" where
  "b64_val c =
     (if is_upper c then Some (code c - 65) else if is_lower c then Some (code c - 71)
      else if is_digit c then Some (code c + 4) else if c = CHR ''-'' then Some 62
      else if c = CHR ''_'' then Some 63 else None)"

fun b64_sextets :: "nat list \<Rightarrow> nat list" where
  "b64_sextets [] = []"
| "b64_sextets [a] = [a div 4, a mod 4 * 16]"
| "b64_sextets [a, b] = [a div 4, a mod 4 * 16 + b div 16, b mod 16 * 4]"
| "b64_sextets (a # b # c # r) =
     a div 4 # (a mod 4 * 16 + b div 16) # (b mod 16 * 4 + c div 64) # c mod 64 # b64_sextets r"

text \<open>The decoder ignores the unused low bits of a short last group, as Go's does.\<close>

fun b64_bytes :: "nat list \<Rightarrow> nat list option" where
  "b64_bytes [] = Some []"
| "b64_bytes [a] = None"
| "b64_bytes [a, b] = Some [a * 4 + b div 16]"
| "b64_bytes [a, b, c] = Some [a * 4 + b div 16, b mod 16 * 16 + c div 4]"
| "b64_bytes (a # b # c # d # r) =
     map_option (\<lambda>bs. (a * 4 + b div 16) # (b mod 16 * 16 + c div 4) # (c mod 4 * 64 + d) # bs)
       (b64_bytes r)"

fun all_some :: "'a option list \<Rightarrow> 'a list option" where
  "all_some [] = Some []"
| "all_some (None # _) = None"
| "all_some (Some x # r) = map_option ((#) x) (all_some r)"

definition b64_encode :: "string \<Rightarrow> string" where
  "b64_encode s = map b64_char (b64_sextets (map code s))"

text \<open>Go's decoder skips carriage returns and line feeds.\<close>

definition b64_decode :: "string \<Rightarrow> string option" where
  "b64_decode s =
     (case all_some (map b64_val (filter (\<lambda>c. code c \<noteq> 10 \<and> code c \<noteq> 13) s)) of
        None \<Rightarrow> None
      | Some vs \<Rightarrow> map_option (map char_of) (b64_bytes vs))"

section \<open>Claims and their canonical bytes\<close>

record claims =
  cl_execution_id :: string
  cl_target_id :: string
  cl_lease_id :: string
  cl_runner_id :: string
  cl_command :: string
  cl_host :: string
  cl_port :: int
  cl_user :: string
  cl_timeout :: int
  cl_credential_ref :: string
  cl_host_key_fingerprint :: string
  cl_expires_at_unix :: int

datatype sign_error = ErrNoKey | ErrKeyTooShort | ErrMalformed | ErrMismatch | ErrExpired

definition sig_version :: string where
  "sig_version = ''v1''"

definition min_key_length :: nat where
  "min_key_length = 32"

definition canonical :: "claims \<Rightarrow> string" where
  "canonical c = sig_version @ [CHR 0x0A] @ json_text (JObj
     [(''execution_id'', JStr (cl_execution_id c)),
      (''target_id'', JStr (cl_target_id c)),
      (''lease_id'', JStr (cl_lease_id c)),
      (''runner_id'', JStr (cl_runner_id c)),
      (''command'', JStr (cl_command c)),
      (''host'', JStr (cl_host c)),
      (''port'', JInt (cl_port c)),
      (''user'', JStr (cl_user c)),
      (''timeout'', JInt (cl_timeout c)),
      (''credential_ref'', JStr (cl_credential_ref c)),
      (''host_key_fingerprint'', JStr (cl_host_key_fingerprint c)),
      (''expires_at_unix'', JInt (cl_expires_at_unix c))])"

definition new_signer :: "string \<Rightarrow> sign_error + string" where
  "new_signer key =
     (let trimmed = trim_space key
      in if trimmed = [] then Inl ErrNoKey
         else if length trimmed < min_key_length then Inl ErrKeyTooShort
         else Inr trimmed)"

text \<open>A signer is \<open>None\<close> for Go's nil pointer, otherwise the key.\<close>

definition sign :: "(string \<Rightarrow> string \<Rightarrow> string) \<Rightarrow> string option \<Rightarrow> claims \<Rightarrow> sign_error + string" where
  "sign mac s c =
     (case s of
        None \<Rightarrow> Inl ErrNoKey
      | Some key \<Rightarrow>
          if key = [] then Inl ErrNoKey
          else Inr (sig_version @ CHR '':'' # b64_encode (mac key (canonical c))))"

definition verify ::
  "(string \<Rightarrow> string \<Rightarrow> string) \<Rightarrow> string option \<Rightarrow> claims \<Rightarrow> string \<Rightarrow> int \<Rightarrow> sign_error option" where
  "verify mac s c signature now =
     (case s of
        None \<Rightarrow> Some ErrNoKey
      | Some key \<Rightarrow>
          if key = [] then Some ErrNoKey
          else case cut_at (CHR '':'') (trim_space signature) of
            None \<Rightarrow> Some ErrMalformed
          | Some (version, encoded) \<Rightarrow>
              if version \<noteq> sig_version \<or> encoded = [] then Some ErrMalformed
              else case b64_decode encoded of
                None \<Rightarrow> Some ErrMalformed
              | Some provided \<Rightarrow>
                  if mac key (canonical c) \<noteq> provided then Some ErrMismatch
                  else if cl_expires_at_unix c \<noteq> 0 \<and> now > cl_expires_at_unix c then Some ErrExpired
                  else None)"

section \<open>Base64 loses nothing\<close>

lemma pack: "y < m \<Longrightarrow> (x * m + y) div m = x" "y < m \<Longrightarrow> (x * m + y) mod m = (y :: nat)"
  by simp_all

lemma byte_parts:
  "x < 256 \<Longrightarrow> x div 4 < 64" "x < 256 \<Longrightarrow> x div 16 < 16" "(x::nat) < 256 \<Longrightarrow> x div 64 < 4"
  by auto

lemma b64_bytes_sextets:
  "(\<And>x. x \<in> set bs \<Longrightarrow> x < 256) \<Longrightarrow> b64_bytes (b64_sextets bs) = Some bs"
  by (induction bs rule: b64_sextets.induct) (simp_all add: pack byte_parts)

lemma b64_sextets_less:
  "(\<And>x. x \<in> set bs \<Longrightarrow> x < 256) \<Longrightarrow> y \<in> set (b64_sextets bs) \<Longrightarrow> y < 64"
proof (induction bs rule: b64_sextets.induct)
  case (4 a b c r)
  then have "a < 256" "b < 256" "c < 256" by simp_all
  note p = byte_parts(1) [OF this(1)] byte_parts(2) [OF this(2)] byte_parts(3) [OF this(3)]
  have "a mod 4 < 4" "b mod 16 < 16" "c mod 64 < 64" by simp_all
  with p have "a mod 4 * 16 + b div 16 < 64" "b mod 16 * 4 + c div 64 < 64" by linarith+
  with 4 p show ?case by auto
next
  case (3 a b)
  then have "a < 256" "b < 256" by simp_all
  note p = byte_parts(1) [OF this(1)] byte_parts(2) [OF this(2)]
  have "a mod 4 < 4" "b mod 16 < 16" by simp_all
  with p have "a mod 4 * 16 + b div 16 < 64" "b mod 16 * 4 < 64" by linarith+
  with 3 p show ?case by auto
next
  case (2 a)
  then have "a div 4 < 64" by (simp add: byte_parts)
  moreover have "a mod 4 < 4" by simp
  then have "a mod 4 * 16 < 64" by linarith
  ultimately show ?case using 2 by auto
qed auto

lemma code_b64_char:
  "n < 64 \<Longrightarrow> code (b64_char n) =
     (if n < 26 then 65 + n else if n < 52 then 71 + n else if n < 62 then n - 4
      else if n = 62 then 45 else 95)"
  by (auto simp: b64_char_def code_char_of) (simp_all add: code_def)

lemma b64_val_char: "n < 64 \<Longrightarrow> b64_val (b64_char n) = Some n"
proof -
  assume n: "n < 64"
  have "b64_char n = CHR ''-'' \<longleftrightarrow> code (b64_char n) = 45"
    "b64_char n = CHR ''_'' \<longleftrightarrow> code (b64_char n) = 95"
    using code_inj [of "b64_char n" "CHR ''-''"] code_inj [of "b64_char n" "CHR ''_''"]
    by (simp_all add: code_def)
  then show ?thesis
    using n by (auto simp: b64_val_def is_upper_def is_lower_def is_digit_def code_b64_char)
qed

lemma b64_char_not_space: "n < 64 \<Longrightarrow> \<not> is_space (b64_char n)"
  by (auto simp: is_space_def code_b64_char)

lemma all_some_map_Some: "all_some (map Some xs) = Some xs"
  by (induction xs) auto

lemma b64_sextets_code: "y \<in> set (b64_sextets (map code s)) \<Longrightarrow> y < 64"
  using b64_sextets_less [where bs = "map code s"] by (fastforce simp: code_less_256)

lemma b64_encode_chars: "c \<in> set (b64_encode s) \<Longrightarrow> \<exists>n < 64. c = b64_char n"
  using b64_sextets_code by (fastforce simp: b64_encode_def)

lemma b64_decode_encode: "b64_decode (b64_encode s) = Some s"
proof -
  let ?v = "b64_sextets (map code s)"
  have "filter (\<lambda>c. code c \<noteq> 10 \<and> code c \<noteq> 13) (map b64_char ?v) = map b64_char ?v"
    by (auto simp: filter_id_conv code_b64_char dest!: b64_sextets_code split: if_splits)
  moreover have "map b64_val (map b64_char ?v) = map Some ?v"
    by (simp add: b64_val_char b64_sextets_code)
  moreover have "b64_bytes ?v = Some (map code s)"
    by (rule b64_bytes_sextets) (auto simp: code_less_256)
  ultimately show ?thesis
    unfolding b64_decode_def b64_encode_def
    by (simp only: all_some_map_Some option.case) (simp add: comp_def code_def)
qed

lemma b64_encode_nonempty: "s \<noteq> [] \<Longrightarrow> b64_encode s \<noteq> []"
  by (cases "map code s" rule: b64_sextets.cases) (auto simp: b64_encode_def)

section \<open>The canonical bytes determine the claims\<close>

text \<open>What Go strings are meant to hold: the fields are valid UTF-8.\<close>

definition claims_utf8 :: "claims \<Rightarrow> bool" where
  "claims_utf8 c \<longleftrightarrow>
     valid_utf8 (cl_execution_id c) \<and> valid_utf8 (cl_target_id c) \<and> valid_utf8 (cl_lease_id c)
     \<and> valid_utf8 (cl_runner_id c) \<and> valid_utf8 (cl_command c) \<and> valid_utf8 (cl_host c)
     \<and> valid_utf8 (cl_user c) \<and> valid_utf8 (cl_credential_ref c)
     \<and> valid_utf8 (cl_host_key_fingerprint c)"

lemma json_str_eq:
  "valid_utf8 s \<Longrightarrow> valid_utf8 t \<Longrightarrow> json_str s @ r = json_str t @ r' \<longleftrightarrow> s = t \<and> r = r'"
  using json_str_inj by blast

lemma int_str_eq:
  "int_str i @ CHR '','' # r = int_str j @ CHR '','' # r' \<longleftrightarrow> i = j \<and> r = r'"
  "int_str i @ [CHR ''}''] = int_str j @ [CHR ''}''] \<longleftrightarrow> i = j"
  using int_str_prefix [of i "CHR '',''" r j "CHR '',''" r']
    int_str_prefix [of i "CHR ''}''" "[]" j "CHR ''}''" "[]"]
  by (auto simp: is_digit_def code_def)

lemma canonical_eq_fields:
  assumes "claims_utf8 c" "claims_utf8 c'" "canonical c = canonical c'"
  shows "c = c'"
proof -
  note u = assms(1,2) [unfolded claims_utf8_def]
  from assms(3) have "claims.truncate c = claims.truncate c'"
    by (simp add: canonical_def json_str_eq int_str_eq int_str_inj u claims.defs)
  then show ?thesis
    by (simp add: claims.defs)
qed

text \<open>
  C24: the canonical bytes that are signed determine the claims: two jobs whose text fields are
  valid UTF-8 and whose canonical serialisations are equal are the same job in every field, so no
  field can be traded against another under one signature.
\<close>

theorem canonical_inj:
  assumes "claims_utf8 c" "claims_utf8 c'" "canonical c = canonical c'"
  shows "c = c'"
  using assms by (rule canonical_eq_fields)

section \<open>Signing and verifying\<close>

lemma new_signer_key: "new_signer k = Inr key \<Longrightarrow> key = trim_space k \<and> min_key_length \<le> length key"
  by (auto simp: new_signer_def Let_def split: if_splits)

lemma new_signer_nonempty: "new_signer k = Inr key \<Longrightarrow> key \<noteq> []"
  by (auto dest!: new_signer_key simp: min_key_length_def)

lemma b64_encode_last: "s \<noteq> [] \<Longrightarrow> \<not> is_space (last (b64_encode s))"
  using b64_encode_chars [of "last (b64_encode s)" s] b64_encode_nonempty [of s]
  by (auto simp: b64_char_not_space)

lemma trim_signature:
  "s \<noteq> [] \<Longrightarrow>
     trim_space (sig_version @ CHR '':'' # b64_encode s) = sig_version @ CHR '':'' # b64_encode s"
  using b64_encode_last [of s] b64_encode_nonempty [of s]
  by (intro trim_space_fix) (auto simp: sig_version_def is_space_def code_def)

lemma verify_own_signature:
  assumes "key \<noteq> []" "mac key (canonical c) \<noteq> []"
  shows "verify mac (Some key) c' (sig_version @ CHR '':'' # b64_encode (mac key (canonical c))) now =
    (if mac key (canonical c') \<noteq> mac key (canonical c) then Some ErrMismatch
     else if cl_expires_at_unix c' \<noteq> 0 \<and> now > cl_expires_at_unix c' then Some ErrExpired
     else None)"
proof -
  let ?b = "b64_encode (mac key (canonical c))"
  have "cut_at (CHR '':'') (sig_version @ '':'' @ ?b) = Some (sig_version, ?b)"
    using cut_at_append [of "CHR '':''" sig_version ?b] by (simp add: sig_version_def)
  then have "cut_at (CHR '':'') (sig_version @ CHR '':'' # ?b) = Some (sig_version, ?b)"
    by simp
  then show ?thesis
    using assms by (simp add: verify_def trim_signature b64_encode_nonempty b64_decode_encode
        del: cut_at.simps split del: if_split cong: if_cong)
qed

lemma sign_verify_lemma:
  assumes "new_signer k = Inr key" "\<forall>m. mac key m \<noteq> []"
  shows "\<exists>sg. sign mac (Some key) c = Inr sg \<and>
    verify mac (Some key) c sg now =
      (if cl_expires_at_unix c \<noteq> 0 \<and> now > cl_expires_at_unix c then Some ErrExpired else None)"
  using assms(2) new_signer_nonempty [OF assms(1)]
  by (auto simp: sign_def verify_own_signature [where mac = mac])

text \<open>
  With a key that \<open>NewSigner\<close> accepts, the signature that \<open>Sign\<close> produces for a job verifies
  for that job exactly until its expiry (0 meaning that it never expires): \<open>Verify\<close> answers ok up to
  and including the expiry second and the expiry error afterwards.  The authentication code is
  assumed to be a nonempty byte string.
\<close>

theorem sign_verify:
  assumes "new_signer k = Inr key" "\<forall>m. mac key m \<noteq> []"
  shows "\<exists>sg. sign mac (Some key) c = Inr sg \<and>
    verify mac (Some key) c sg now =
      (if cl_expires_at_unix c \<noteq> 0 \<and> now > cl_expires_at_unix c then Some ErrExpired else None)"
  using assms by (rule sign_verify_lemma)

definition sample_key :: string where
  "sample_key = ''0123456789abcdef0123456789abcdef''"

definition sample_claims :: claims where
  "sample_claims = \<lparr>cl_execution_id = ''exec-1'', cl_target_id = ''target-1'', cl_lease_id = ''lease-1'',
     cl_runner_id = ''run-1'', cl_command = ''uptime'', cl_host = ''10.0.0.5'', cl_port = 22,
     cl_user = ''deploy'', cl_timeout = 60, cl_credential_ref = ''ref'',
     cl_host_key_fingerprint = ''SHA256:x'', cl_expires_at_unix = 100\<rparr>"

definition sample_mac :: "string \<Rightarrow> string \<Rightarrow> string" where
  "sample_mac k m = k @ m"

lemma sample_mac_nonempty: "\<forall>m. sample_mac sample_key m \<noteq> []"
  by (simp add: sample_mac_def sample_key_def)

lemma sample_expires: "cl_expires_at_unix sample_claims = 100"
  by (simp add: sample_claims_def)

lemma sample_key_ok: "new_signer sample_key = Inr sample_key"
  by code_simp

lemma sample_claims_utf8: "claims_utf8 sample_claims"
  by code_simp

theorem sign_verify_witness:
  "\<exists>sg. sign sample_mac (Some sample_key) sample_claims = Inr sg \<and>
    verify sample_mac (Some sample_key) sample_claims sg 101 = Some ErrExpired"
  using sign_verify [where mac = sample_mac, OF sample_key_ok sample_mac_nonempty, of sample_claims 101]
  by (simp add: sample_expires)

text \<open>
  C25: a signature authenticates every field of the job.  If the runner accepts for the job \<open>c'\<close> the
  signature the control plane made for \<open>c\<close>, then \<open>c'\<close> is \<open>c\<close>, field by field, unless the
  authentication code of the two different messages collides under the key.
\<close>

theorem verify_authentic:
  assumes "new_signer k = Inr key" "\<forall>m. mac key m \<noteq> []"
    and "sign mac (Some key) c = Inr sg" "verify mac (Some key) c' sg now = None"
    and "claims_utf8 c" "claims_utf8 c'"
    and "mac key (canonical c) = mac key (canonical c') \<Longrightarrow> canonical c = canonical c'"
  shows "c' = c \<and> (cl_expires_at_unix c = 0 \<or> now \<le> cl_expires_at_unix c)"
proof -
  note key = new_signer_nonempty [OF assms(1)]
  have "sg = sig_version @ CHR '':'' # b64_encode (mac key (canonical c))"
    using assms(3) key by (simp add: sign_def)
  then have v: "(if mac key (canonical c') \<noteq> mac key (canonical c) then Some ErrMismatch
     else if cl_expires_at_unix c' \<noteq> 0 \<and> now > cl_expires_at_unix c' then Some ErrExpired
     else None) = None"
    using verify_own_signature [of key mac c c' now, OF key] assms(2,4) by (simp only: simp_thms)
  then have eq: "mac key (canonical c') = mac key (canonical c)"
    by (rule contrapos_pp) (simp only: if_True simp_thms option.distinct)
  have "c' = c"
    by (rule canonical_eq_fields [OF assms(5,6) assms(7) [OF eq [symmetric]], symmetric])
  with v show ?thesis
    by (cases "cl_expires_at_unix c = 0"; cases "now \<le> cl_expires_at_unix c") simp_all
qed

theorem verify_authentic_witness:
  "\<exists>sg. sign sample_mac (Some sample_key) sample_claims = Inr sg
    \<and> 100 \<le> cl_expires_at_unix sample_claims"
proof -
  obtain sg where sg: "sign sample_mac (Some sample_key) sample_claims = Inr sg"
    "verify sample_mac (Some sample_key) sample_claims sg 100 = None"
    using sign_verify_lemma [where mac = sample_mac, OF sample_key_ok sample_mac_nonempty, of sample_claims 100]
    by (auto simp: sample_expires)
  have "sample_claims = sample_claims \<and>
      (cl_expires_at_unix sample_claims = 0 \<or> 100 \<le> cl_expires_at_unix sample_claims)"
    by (rule verify_authentic [where mac = sample_mac, OF sample_key_ok sample_mac_nonempty sg
          sample_claims_utf8 sample_claims_utf8]) (rule refl)
  then show ?thesis
    using sg(1) sample_expires by (intro exI [of _ sg] conjI) simp_all
qed

theorem canonical_inj_witness:
  "claims_utf8 sample_claims \<and> sample_claims = sample_claims"
  using canonical_inj [OF sample_claims_utf8 sample_claims_utf8 refl] sample_claims_utf8 by simp

end
