(* ===== verification/Authz.thy ===== *)
theory Authz
  imports Prelude
begin

text \<open>
  \<open>packages/authz\<close>: who may do what.  \<open>actor\<close> is the struct \<open>Actor\<close>; roles, environments and risk
  levels are the strings of the source.  \<open>classify_risk\<close> is \<open>ClassifyRisk\<close>, and the \<open>check_\<dots>\<close>
  functions are the methods of \<open>Policy\<close>, each returning a \<open>decision\<close> with the same reason and
  message as the code.  The facts proved are the exact conditions under which a decision allows,
  and that wrapping a command in more text never lowers its risk.
\<close>

record actor =
  a_user_id :: string
  a_email :: string
  a_display_name :: string
  a_org :: string
  a_role :: string

definition role_owner :: string where "role_owner = ''owner''"
definition role_admin :: string where "role_admin = ''admin''"
definition role_senior :: string where "role_senior = ''senior_engineer''"
definition role_junior :: string where "role_junior = ''junior_engineer''"
definition role_auditor :: string where "role_auditor = ''auditor''"

lemmas role_defs = role_owner_def role_admin_def role_senior_def role_junior_def role_auditor_def

fun has_role :: "actor \<Rightarrow> string list \<Rightarrow> bool" where
  "has_role a [] = False"
| "has_role a (r # rs) = (if r = a_role a then True else has_role a rs)"

lemma has_role_iff: "has_role a rs \<longleftrightarrow> a_role a \<in> set rs"
  by (induction rs) auto

definition is_senior :: "actor \<Rightarrow> bool" where
  "is_senior a = has_role a [role_owner, role_admin, role_senior]"

definition is_auditor :: "actor \<Rightarrow> bool" where
  "is_auditor a \<longleftrightarrow> a_role a = role_auditor"

definition is_privileged :: "actor \<Rightarrow> bool" where
  "is_privileged a = has_role a [role_owner, role_admin, role_senior]"

definition can_manage_servers :: "actor \<Rightarrow> bool" where
  "can_manage_servers a = is_privileged a"

definition can_manage_runners :: "actor \<Rightarrow> bool" where
  "can_manage_runners a = is_privileged a"

definition can_execute_raw :: "actor \<Rightarrow> bool" where
  "can_execute_raw a = is_senior a"

section \<open>Risk of a command\<close>

definition dangerous_patterns :: "string list" where
  "dangerous_patterns =
     [''rm '', ''dd '', ''mkfs'', ''fdisk'', ''reboot'', ''shutdown'', ''kill '', ''killall'',
      ''iptables'', ''nf_tables'', ''sysctl'', ''chmod 777'', ''> /dev/sda'', ''mkfs.'', ''format'']"

definition high_risk_patterns :: "string list" where
  "high_risk_patterns =
     [''systemctl restart'', ''service '', ''docker rm'', ''docker stop'', ''kubectl delete'',
      ''pip uninstall'', ''npm uninstall -g'', ''apt-get purge'', ''yum remove'']"

definition medium_risk_patterns :: "string list" where
  "medium_risk_patterns =
     [''systemctl stop'', ''systemctl start'', ''systemctl reload'', ''docker restart'', ''docker run'',
      ''kubectl apply'', ''curl '', ''wget '', ''pip install'', ''npm install -g'', ''apt-get install'',
      ''yum install'']"

fun contains_any :: "string \<Rightarrow> string list \<Rightarrow> bool" where
  "contains_any s [] = False"
| "contains_any s (p # ps) = (if contains s p then True else contains_any s ps)"

definition classify_risk :: "string \<Rightarrow> string" where
  "classify_risk command =
     (let cmd = to_lower (trim_space command)
      in if contains_any cmd dangerous_patterns then ''critical''
         else if contains_any cmd high_risk_patterns then ''high''
         else if contains_any cmd medium_risk_patterns then ''medium''
         else ''low'')"

definition risk_rank :: "string \<Rightarrow> nat" where
  "risk_rank r =
     (if r = ''critical'' then 3 else if r = ''high'' then 2 else if r = ''medium'' then 1 else 0)"

section \<open>Decisions\<close>

record decision =
  d_allowed :: bool
  d_reason :: string
  d_message :: string

definition deny :: "string \<Rightarrow> string \<Rightarrow> decision" where
  "deny reason message = \<lparr>d_allowed = False, d_reason = reason, d_message = message\<rparr>"

definition allow :: decision where
  "allow = \<lparr>d_allowed = True, d_reason = [], d_message = []\<rparr>"

definition check_execution :: "actor \<Rightarrow> string \<Rightarrow> string \<Rightarrow> string \<Rightarrow> decision" where
  "check_execution a environment risk reason =
     (if is_auditor a then
        deny ''auditor_cannot_execute''
          ''Auditors cannot execute operations. Use the audit search view instead.''
      else if risk = ''critical'' \<and> \<not> has_role a [role_owner, role_admin] then
        deny ''critical_requires_admin''
          ''Critical-risk commands require Owner or Admin role. Request an admin to run this.''
      else if risk = ''high'' \<and> \<not> is_senior a then
        deny ''high_risk_requires_senior''
          (''High-risk commands require senior engineer or above.'' @ [CHR 0x0A] @
           ''Junior engineers can execute a pre-approved runbook instead.'')
      else if \<not> can_execute_raw a then
        deny ''junior_raw_command_denied''
          (''Junior engineers cannot run arbitrary commands.'' @ [CHR 0x0A] @
           ''Use 'vps runbook list' to see permitted runbooks, then 'vps runbook run <name> --target <server>'.'')
      else if environment = ''production'' \<and> reason = [] then
        deny ''production_requires_reason''
          (''Production environment actions require a reason. Use --reason '' @ [CHR 0x22] @ ''...'' @
           [CHR 0x22] @ '' to explain why.'')
      else if environment = ''production'' \<and> \<not> is_senior a then
        deny ''junior_production_denied''
          ''Junior engineers cannot target production environments directly.''
      else allow)"

definition check_server_management :: "actor \<Rightarrow> decision" where
  "check_server_management a =
     (if \<not> can_manage_servers a then
        deny ''manage_servers_requires_privileged''
          (''Adding servers requires senior_engineer or above (current: '' @ a_role a @ '')'')
      else allow)"

definition check_server_check :: "actor \<Rightarrow> decision" where
  "check_server_check a =
     (if \<not> is_privileged a then
        deny ''check_requires_privileged'' ''Server health checks require senior_engineer or above.''
      else allow)"

definition check_runner_management :: "actor \<Rightarrow> decision" where
  "check_runner_management a =
     (if \<not> can_manage_runners a then
        deny ''manage_runners_requires_privileged''
          (''Managing runners requires senior_engineer or above (current: '' @ a_role a @ '')'')
      else allow)"

definition check_runbook_execution :: "actor \<Rightarrow> string \<Rightarrow> string \<Rightarrow> string \<Rightarrow> decision" where
  "check_runbook_execution a environment risk reason =
     (if is_auditor a then deny ''auditor_cannot_execute'' ''Auditors cannot execute operations.''
      else if risk = ''critical'' \<and> \<not> has_role a [role_owner, role_admin] then
        deny ''critical_requires_admin'' ''Critical-risk runbooks require Owner or Admin role.''
      else if risk = ''high'' \<and> \<not> is_senior a then
        deny ''high_risk_requires_senior'' ''High-risk runbooks require senior engineer or above.''
      else if environment = ''production'' \<and> reason = [] then
        deny ''production_requires_reason'' ''Production environment actions require a reason.''
      else if environment = ''production'' \<and> \<not> is_senior a then
        deny ''junior_production_denied''
          ''Junior engineers cannot target production environments directly.''
      else allow)"

definition deny_message :: "decision \<Rightarrow> string" where
  "deny_message d = (if d_message d \<noteq> [] then d_message d else ''Action denied: '' @ d_reason d)"

section \<open>Risk never drops by wrapping a command\<close>

lemma contains_any_iff: "contains_any s ps \<longleftrightarrow> (\<exists>p \<in> set ps. contains s p)"
  by (induction ps) auto

lemma contains_any_infix: "contains_any t ps \<Longrightarrow> contains_any (a @ t @ b) ps"
  unfolding contains_any_iff by (metis contains_append)

text \<open>
  Surrounding a command with any other text (a wrapper such as \<open>sudo sh -c\<close>, arguments, further
  commands) never lowers the risk level that \<open>ClassifyRisk\<close> gives it, although the command is trimmed
  before it is scanned.
\<close>

theorem classify_risk_mono: "risk_rank (classify_risk c) \<le> risk_rank (classify_risk (a @ c @ b))"
proof -
  obtain l r where "trim_space (a @ c @ b) = l @ trim_space c @ r"
    using trim_space_infix by blast
  then have low: "to_lower (trim_space (a @ c @ b)) = to_lower l @ to_lower (trim_space c) @ to_lower r"
    by (simp add: to_lower_def)
  have "contains_any (to_lower (trim_space c)) ps \<Longrightarrow>
      contains_any (to_lower (trim_space (a @ c @ b))) ps" for ps
    unfolding low by (rule contains_any_infix)
  then show ?thesis
    by (auto simp: classify_risk_def Let_def risk_rank_def)
qed

text \<open>
  \<open>CheckExecution\<close> allows a raw command exactly when the actor is an owner, an admin or, for a
  command that is not critical, a senior engineer, and, in production, a reason is given.  In
  particular a junior engineer, an auditor and any unknown role are always refused.
\<close>

theorem check_execution_allowed_iff:
  "d_allowed (check_execution a env risk reason) \<longleftrightarrow>
     (a_role a = role_owner \<or> a_role a = role_admin
       \<or> a_role a = role_senior \<and> risk \<noteq> ''critical'')
     \<and> (env = ''production'' \<longrightarrow> reason \<noteq> [])"
  by (auto simp: check_execution_def deny_def allow_def is_auditor_def is_senior_def
      can_execute_raw_def has_role_iff role_defs)

lemma check_execution_reason: "\<not> d_allowed (check_execution a env risk reason) \<Longrightarrow>
    d_reason (check_execution a env risk reason) \<noteq> []"
  by (auto simp: check_execution_def deny_def allow_def split: if_splits)

text \<open>
  \<open>CheckRunbookExecution\<close> lets a role other than auditor run a runbook exactly when a critical
  one is run by an owner or admin, a high-risk one by a senior engineer or above, and in production
  the actor is senior or above and gives a reason.  The comparison is with the lower-case level
  names: any other spelling of a level counts as no restriction.
\<close>

theorem check_runbook_allowed_iff:
  "d_allowed (check_runbook_execution a env risk reason) \<longleftrightarrow>
     a_role a \<noteq> role_auditor
     \<and> (risk = ''critical'' \<longrightarrow> a_role a \<in> {role_owner, role_admin})
     \<and> (risk = ''high'' \<or> env = ''production'' \<longrightarrow> is_senior a)
     \<and> (env = ''production'' \<longrightarrow> reason \<noteq> [])"
  by (auto simp: check_runbook_execution_def deny_def allow_def is_auditor_def is_senior_def
      has_role_iff role_defs)

definition sample_senior :: actor where
  "sample_senior = \<lparr>a_user_id = ''u1'', a_email = [], a_display_name = [], a_org = ''org-1'',
     a_role = ''senior_engineer''\<rparr>"

theorem check_execution_allowed_iff_witness:
  "d_allowed (check_execution sample_senior ''production'' ''high'' ''deploy'')"
  using check_execution_allowed_iff [of sample_senior "''production''" "''high''" "''deploy''"]
  by (simp add: sample_senior_def role_defs)

theorem check_runbook_allowed_iff_witness:
  "\<not> d_allowed (check_runbook_execution sample_senior ''staging'' ''critical'' [])"
  using check_runbook_allowed_iff [of sample_senior "''staging''" "''critical''" "[]"]
  by (simp add: sample_senior_def role_defs)

end
