(* ===== verification/Runbook.thy ===== *)
theory Runbook
  imports Json
begin

text \<open>
  \<open>packages/runbooks/runbook.go\<close>: the structs, \<open>Validate\<close>, \<open>ValidateParams\<close>,
  \<open>ParseParameterValues\<close>, \<open>RenderCommand\<close> and their helpers.  A Go map is an association list, in
  the order in which the loop over it happens to visit the keys; the map that is returned is a HOL
  map.  The regular expression \<open>\$\{([A-Za-z_][A-Za-z0-9_]*)\}\<close> is the segmentation \<open>pieces\<close>.
  The lemmas give the exact conditions for acceptance; the last section
  reads a rendered command with the lexical rules of a POSIX shell.
\<close>

section \<open>Data\<close>

record metadata =
  m_name :: string
  m_title :: string
  m_description :: string
  m_risk :: string
  m_tags :: "string list"
  m_version :: int

record parameter =
  p_name :: string
  p_type :: string
  p_default :: string
  p_allowed_values :: "string list"
  p_required :: bool
  p_description :: string

record target_rules =
  t_allowed_tags :: "(string \<times> string) list"
  t_allowed_environments :: "string list"
  t_allowed_servers :: "string list"

record approval_rule =
  ar_required :: bool
  ar_environment :: string
  ar_required_role :: string

record execution_spec =
  x_shell :: string
  x_sudo :: bool
  x_timeout_seconds :: int
  x_concurrency :: int
  x_command :: string

record output_spec =
  o_store :: string
  o_redact :: "string list"

record spec =
  s_parameters :: "parameter list"
  s_targets :: target_rules
  s_approval :: approval_rule
  s_execution :: execution_spec
  s_output :: output_spec
  s_rollback :: json
  s_verification :: json

record runbook =
  r_api_version :: string
  r_kind :: string
  r_metadata :: metadata
  r_spec :: spec

datatype validation_error = ValidationError (ve_field: string) (ve_message: string)

datatype value_error = NotAnInteger | NotANumber | NotABoolean | NotOneOf "string list"

definition value_error_text :: "value_error \<Rightarrow> string" where
  "value_error_text e =
     (case e of
        NotAnInteger \<Rightarrow> ''must be an integer''
      | NotANumber \<Rightarrow> ''must be a number''
      | NotABoolean \<Rightarrow> ''must be true or false''
      | NotOneOf vs \<Rightarrow> ''must be one of: '' @ join_with '', '' vs)"

section \<open>Names and values\<close>

definition valid_name :: "string \<Rightarrow> bool" where
  "valid_name s \<longleftrightarrow> s \<noteq> [] \<and> list_all (\<lambda>c. is_lower c \<or> is_digit c \<or> c = CHR ''-'') s"

definition ident_start :: "char \<Rightarrow> bool" where
  "ident_start c \<longleftrightarrow> is_lower c \<or> is_upper c \<or> c = CHR ''_''"

definition ident_char :: "char \<Rightarrow> bool" where
  "ident_char c \<longleftrightarrow> ident_start c \<or> is_digit c"

definition valid_parameter_name :: "string \<Rightarrow> bool" where
  "valid_parameter_name name =
     (case name of [] \<Rightarrow> False | c # s \<Rightarrow> ident_start c \<and> list_all ident_char s)"

text \<open>The loops over the runes of a value; the flag is \<open>i == 0\<close>.\<close>

fun integer_runes :: "bool \<Rightarrow> string \<Rightarrow> bool" where
  "integer_runes first [] = True"
| "integer_runes first (r # s) =
     (if \<not> is_digit r \<and> \<not> (first \<and> r = CHR ''-'') then False else integer_runes False s)"

fun number_runes :: "bool \<Rightarrow> nat \<Rightarrow> string \<Rightarrow> nat option" where
  "number_runes first dots [] = Some dots"
| "number_runes first dots (r # s) =
     (if r = CHR ''.'' then number_runes False (dots + 1) s
      else if \<not> is_digit r \<and> \<not> (first \<and> r = CHR ''-'') then None
      else number_runes False dots s)"

definition check_type :: "string \<Rightarrow> string \<Rightarrow> value_error option" where
  "check_type type_name value =
     (let t = to_lower type_name
      in if t = [] \<or> t = ''string'' \<or> t = ''enum'' then None
         else if t = ''integer'' then
           (if \<not> integer_runes True value then Some NotAnInteger
            else if value = [] \<or> value = ''-'' then Some NotAnInteger else None)
         else if t = ''number'' then
           (case number_runes True 0 value of
              None \<Rightarrow> Some NotANumber
            | Some dots \<Rightarrow>
                if value = [] \<or> value = ''-'' \<or> dots > 1 then Some NotANumber else None)
         else if t = ''boolean'' then
           (if value \<noteq> ''true'' \<and> value \<noteq> ''false'' then Some NotABoolean else None)
         else None)"

definition validate_parameter_value :: "parameter \<Rightarrow> string \<Rightarrow> value_error option" where
  "validate_parameter_value d value =
     (case check_type (p_type d) value of
        Some e \<Rightarrow> Some e
      | None \<Rightarrow>
          if p_allowed_values d \<noteq> [] \<and> value \<notin> set (p_allowed_values d)
          then Some (NotOneOf (p_allowed_values d)) else None)"

section \<open>Validate\<close>

text \<open>The loop over the parameters, with the names seen so far and the index.\<close>

fun validate_parameters :: "nat \<Rightarrow> string list \<Rightarrow> parameter list \<Rightarrow> validation_error option" where
  "validate_parameters i seen [] = None"
| "validate_parameters i seen (p # ps) =
     (if \<not> valid_parameter_name (p_name p) then
        Some (ValidationError (''spec.parameters['' @ nat_str i @ ''].name'')
          ''must contain only letters, numbers, and underscores'')
      else if p_name p \<in> set seen then
        Some (ValidationError (''spec.parameters.'' @ p_name p) ''is defined more than once'')
      else if to_lower (p_type p) \<notin>
          set [[], ''string'', ''integer'', ''number'', ''boolean'', ''enum''] then
        Some (ValidationError (''spec.parameters.'' @ p_name p @ ''.type'')
          ''must be string, integer, number, boolean, or enum'')
      else if p_allowed_values p \<noteq> [] \<and> to_lower (p_type p) \<noteq> ''enum'' then
        Some (ValidationError (''spec.parameters.'' @ p_name p @ ''.allowedValues'') ''requires type enum'')
      else (case (if p_default p \<noteq> [] then validate_parameter_value p (p_default p) else None) of
          Some e \<Rightarrow> Some (ValidationError (''spec.parameters.'' @ p_name p @ ''.default'') (value_error_text e))
        | None \<Rightarrow> validate_parameters (i + 1) (p_name p # seen) ps))"

definition default_risk :: "runbook \<Rightarrow> runbook" where
  "default_risk rb =
     (if m_risk (r_metadata rb) = [] then rb\<lparr>r_metadata := (r_metadata rb)\<lparr>m_risk := ''medium''\<rparr>\<rparr> else rb)"

definition validate :: "runbook \<Rightarrow> validation_error + runbook" where
  "validate rb =
     (if r_api_version rb \<noteq> ''vps-tools.io/v1'' then
        Inl (ValidationError ''apiVersion'' (''must be 'vps-tools.io/v1'' @ [CHR 0x27]))
      else if r_kind rb \<noteq> ''Runbook'' then Inl (ValidationError ''kind'' (''must be 'Runbook'' @ [CHR 0x27]))
      else if m_name (r_metadata rb) = [] then Inl (ValidationError ''metadata.name'' ''is required'')
      else if \<not> valid_name (m_name (r_metadata rb)) then
        Inl (ValidationError ''metadata.name'' ''must be lowercase alphanumeric with hyphens'')
      else if m_title (r_metadata rb) = [] then Inl (ValidationError ''metadata.title'' ''is required'')
      else if x_command (s_execution (r_spec rb)) = [] then
        Inl (ValidationError ''spec.execution.command'' ''is required'')
      else if x_timeout_seconds (s_execution (r_spec rb)) < 0 then
        Inl (ValidationError ''spec.execution.timeoutSeconds'' ''must be >= 0'')
      else if x_concurrency (s_execution (r_spec rb)) < 0 then
        Inl (ValidationError ''spec.execution.concurrency'' ''must be >= 0'')
      else
        let rb = default_risk rb
        in if m_risk (r_metadata rb) \<notin> set [''low'', ''medium'', ''high'', ''critical''] then
             Inl (ValidationError ''metadata.risk'' ''must be low, medium, high, or critical'')
           else case validate_parameters 0 [] (s_parameters (r_spec rb)) of
               Some e \<Rightarrow> Inl e
             | None \<Rightarrow> Inr rb)"

text \<open>\<open>Parse\<close>: the YAML library is the parameter \<open>unmarshal\<close>.\<close>

datatype parse_error = InvalidYAML | InvalidRunbook validation_error

definition parse :: "(string \<Rightarrow> runbook option) \<Rightarrow> string \<Rightarrow> parse_error + runbook" where
  "parse unmarshal yaml =
     (case unmarshal yaml of
        None \<Rightarrow> Inl InvalidYAML
      | Some rb \<Rightarrow> (case validate rb of Inl e \<Rightarrow> Inl (InvalidRunbook e) | Inr rb \<Rightarrow> Inr rb))"

fun environment_listed :: "string list \<Rightarrow> string \<Rightarrow> bool" where
  "environment_listed [] env = False"
| "environment_listed (e # es) env = (if e = env \<or> e = ''*'' then True else environment_listed es env)"

definition environment_allowed :: "runbook \<Rightarrow> string \<Rightarrow> bool" where
  "environment_allowed rb env =
     (if t_allowed_environments (s_targets (r_spec rb)) = [] then True
      else environment_listed (t_allowed_environments (s_targets (r_spec rb))) env)"

definition needs_approval :: "runbook \<Rightarrow> string \<Rightarrow> bool" where
  "needs_approval rb env =
     (let ap = s_approval (r_spec rb)
      in ar_required ap \<and> (ar_environment ap = env \<or> ar_environment ap = ''*'' \<or> ar_environment ap = []))"

section \<open>Tokens of the command\<close>

datatype piece = Lit char | Tok string

text \<open>The token at the head of a string: its name and what follows the closing brace.\<close>

definition match_token :: "string \<Rightarrow> (string \<times> string) option" where
  "match_token s =
     (if take 2 s \<noteq> ''${'' then None
      else let name = takeWhile ident_char (drop 2 s); rest = dropWhile ident_char (drop 2 s)
        in if valid_parameter_name name \<and> take 1 rest = ''}'' then Some (name, drop 1 rest) else None)"

lemma match_token_shorter: "match_token s = Some (n, r) \<Longrightarrow> length r < length s"
  using length_dropWhile_le [of ident_char "drop 2 s"]
  by (cases s) (auto simp: match_token_def Let_def split: if_splits)

function pieces :: "string \<Rightarrow> piece list" where
  "pieces s =
     (case match_token s of
        Some (name, rest) \<Rightarrow> Tok name # pieces rest
      | None \<Rightarrow> (case s of [] \<Rightarrow> [] | c # t \<Rightarrow> Lit c # pieces t))"
  by pat_completeness auto
termination
  by (relation "measure length") (auto dest: match_token_shorter)

declare pieces.simps [simp del]

definition tokens :: "string \<Rightarrow> string list" where
  "tokens s = concat (map (\<lambda>p. case p of Tok n \<Rightarrow> [n] | Lit _ \<Rightarrow> []) (pieces s))"

section \<open>ValidateParams\<close>

datatype param_error =
    UnknownParameter string
  | BadParameter string value_error
  | RequiredMissing string
  | CommandParameterMissing string

definition definitions_map :: "parameter list \<Rightarrow> (string \<rightharpoonup> parameter)" where
  "definitions_map ps = foldl (\<lambda>m d. m(p_name d \<mapsto> d)) Map.empty ps"

definition defaults_map :: "parameter list \<Rightarrow> (string \<rightharpoonup> string)" where
  "defaults_map ps = foldl (\<lambda>m d. if p_default d \<noteq> [] then m(p_name d \<mapsto> p_default d) else m) Map.empty ps"

fun check_known :: "(string \<rightharpoonup> parameter) \<Rightarrow> (string \<times> string) list \<Rightarrow> param_error option" where
  "check_known defs [] = None"
| "check_known defs ((name, value) # ps) =
     (case defs name of None \<Rightarrow> Some (UnknownParameter name) | Some _ \<Rightarrow> check_known defs ps)"

text \<open>A missing key of a Go map reads as the zero value of the struct.\<close>

definition zero_parameter :: parameter where
  "zero_parameter = \<lparr>p_name = [], p_type = [], p_default = [], p_allowed_values = [],
     p_required = False, p_description = []\<rparr>"

fun apply_params ::
  "(string \<rightharpoonup> parameter) \<Rightarrow> (string \<rightharpoonup> string) \<Rightarrow> (string \<times> string) list \<Rightarrow> param_error + (string \<rightharpoonup> string)" where
  "apply_params defs resolved [] = Inr resolved"
| "apply_params defs resolved ((name, value) # ps) =
     (case validate_parameter_value (case_option zero_parameter id (defs name)) value of
        Some e \<Rightarrow> Inl (BadParameter name e)
      | None \<Rightarrow> apply_params defs (resolved(name \<mapsto> value)) ps)"

definition lookup_or_empty :: "(string \<rightharpoonup> string) \<Rightarrow> string \<Rightarrow> string" where
  "lookup_or_empty m k = (case m k of None \<Rightarrow> [] | Some v \<Rightarrow> v)"

fun check_required :: "(string \<rightharpoonup> string) \<Rightarrow> parameter list \<Rightarrow> param_error option" where
  "check_required resolved [] = None"
| "check_required resolved (d # ds) =
     (if p_required d \<and> trim_space (lookup_or_empty resolved (p_name d)) = []
      then Some (RequiredMissing (p_name d)) else check_required resolved ds)"

fun check_tokens :: "(string \<rightharpoonup> string) \<Rightarrow> string list \<Rightarrow> param_error option" where
  "check_tokens resolved [] = None"
| "check_tokens resolved (t # ts) =
     (case resolved t of None \<Rightarrow> Some (CommandParameterMissing t) | Some _ \<Rightarrow> check_tokens resolved ts)"

definition validate_params ::
  "runbook \<Rightarrow> (string \<times> string) list \<Rightarrow> param_error + (string \<rightharpoonup> string)" where
  "validate_params rb params =
     (let ds = s_parameters (r_spec rb); defs = definitions_map ds
      in case check_known defs params of
           Some e \<Rightarrow> Inl e
         | None \<Rightarrow>
             case apply_params defs (defaults_map ds) params of
               Inl e \<Rightarrow> Inl e
             | Inr resolved \<Rightarrow>
                 case check_required resolved ds of
                   Some e \<Rightarrow> Inl e
                 | None \<Rightarrow>
                     case check_tokens resolved (tokens (x_command (s_execution (r_spec rb)))) of
                       Some e \<Rightarrow> Inl e
                     | None \<Rightarrow> Inr resolved)"

section \<open>ParseParameterValues\<close>

datatype list_error = EmptyEntry | InvalidEntry string | DuplicateEntry string

definition parse_entry :: "string \<Rightarrow> list_error + string \<times> string" where
  "parse_entry part =
     (if part = [] then Inl EmptyEntry
      else case cut_at (CHR ''='') part of
          None \<Rightarrow> Inl (InvalidEntry part)
        | Some (k, v) \<Rightarrow>
            if trim_space k = [] then Inl (InvalidEntry part) else Inr (trim_space k, trim_space v))"

fun parse_entries ::
  "(string \<times> string) list \<Rightarrow> string list \<Rightarrow> list_error + (string \<times> string) list" where
  "parse_entries params [] = Inr params"
| "parse_entries params (part # parts) =
     (case parse_entry (trim_space part) of
        Inl e \<Rightarrow> Inl e
      | Inr (name, value) \<Rightarrow>
          if name \<in> set (map fst params) then Inl (DuplicateEntry name)
          else parse_entries (params @ [(name, value)]) parts)"

definition parse_parameter_values :: "string \<Rightarrow> list_error + (string \<times> string) list" where
  "parse_parameter_values value =
     (if trim_space value = [] then Inr [] else parse_entries [] (split_on (CHR '','') value))"

section \<open>RenderCommand\<close>

definition shell_quote :: "string \<Rightarrow> string" where
  "shell_quote value =
     [CHR 0x27] @ concat (map (\<lambda>c. if c = CHR 0x27 then [CHR 0x27, CHR 0x5C, CHR 0x27, CHR 0x27] else [c]) value)
       @ [CHR 0x27]"

definition render_pieces :: "(string \<rightharpoonup> string) \<Rightarrow> piece list \<Rightarrow> string" where
  "render_pieces resolved ps =
     concat (map (\<lambda>p. case p of Lit c \<Rightarrow> [c] | Tok n \<Rightarrow> shell_quote (lookup_or_empty resolved n)) ps)"

definition render_command :: "runbook \<Rightarrow> (string \<times> string) list \<Rightarrow> param_error + string" where
  "render_command rb params =
     (case validate_params rb params of
        Inl e \<Rightarrow> Inl e
      | Inr resolved \<Rightarrow> Inr (render_pieces resolved (pieces (x_command (s_execution (r_spec rb))))))"

section \<open>What Validate accepts\<close>

definition parameter_ok :: "parameter \<Rightarrow> bool" where
  "parameter_ok p \<longleftrightarrow>
     valid_parameter_name (p_name p)
     \<and> to_lower (p_type p) \<in> set [[], ''string'', ''integer'', ''number'', ''boolean'', ''enum'']
     \<and> (p_allowed_values p = [] \<or> to_lower (p_type p) = ''enum'')
     \<and> (p_default p = [] \<or> validate_parameter_value p (p_default p) = None)"

definition runbook_ok :: "runbook \<Rightarrow> bool" where
  "runbook_ok rb \<longleftrightarrow>
     r_api_version rb = ''vps-tools.io/v1'' \<and> r_kind rb = ''Runbook''
     \<and> valid_name (m_name (r_metadata rb)) \<and> m_title (r_metadata rb) \<noteq> []
     \<and> x_command (s_execution (r_spec rb)) \<noteq> []
     \<and> 0 \<le> x_timeout_seconds (s_execution (r_spec rb))
     \<and> 0 \<le> x_concurrency (s_execution (r_spec rb))
     \<and> m_risk (r_metadata rb) \<in> set [''low'', ''medium'', ''high'', ''critical'']
     \<and> distinct (map p_name (s_parameters (r_spec rb)))
     \<and> (\<forall>p \<in> set (s_parameters (r_spec rb)). parameter_ok p)"

lemma validate_parameters_iff:
  "validate_parameters i seen ps = None \<longleftrightarrow>
     (\<forall>p \<in> set ps. parameter_ok p) \<and> distinct (map p_name ps) \<and> set seen \<inter> p_name ` set ps = {}"
  by (induction i seen ps rule: validate_parameters.induct)
    (auto simp: parameter_ok_def split: option.splits)

lemma default_risk_sel [simp]:
  "r_api_version (default_risk rb) = r_api_version rb" "r_kind (default_risk rb) = r_kind rb"
  "r_spec (default_risk rb) = r_spec rb"
  "m_name (r_metadata (default_risk rb)) = m_name (r_metadata rb)"
  "m_title (r_metadata (default_risk rb)) = m_title (r_metadata rb)"
  by (simp_all add: default_risk_def)

lemma if_Inl_Inr: "(if c then Inl e else x) = Inr y \<longleftrightarrow> \<not> c \<and> x = Inr y"
  by simp

lemma validate_Inr: "validate rb = Inr rb' \<longleftrightarrow> rb' = default_risk rb \<and> runbook_ok rb'"
proof -
  have "(case validate_parameters 0 [] (s_parameters (r_spec rb)) of Some e \<Rightarrow> Inl e | None \<Rightarrow> Inr (default_risk rb)) = Inr rb'
      \<longleftrightarrow> rb' = default_risk rb \<and> (\<forall>p \<in> set (s_parameters (r_spec rb)). parameter_ok p)
        \<and> distinct (map p_name (s_parameters (r_spec rb)))"
    using validate_parameters_iff [of 0 "[]" "s_parameters (r_spec rb)"] by (auto split: option.split)
  moreover have "\<not> valid_name []" by (simp add: valid_name_def)
  ultimately show ?thesis
    unfolding validate_def Let_def if_Inl_Inr runbook_ok_def by (auto simp only: default_risk_sel not_less not_not)
qed

text \<open>
  \<open>Validate\<close> accepts a runbook exactly when, with an empty risk read as \<open>medium\<close>, it meets the
  format: version and kind, a lower-case name, a title, a command, non-negative limits, a known
  risk, and parameters with distinct valid names, known types, allowed values only on enumerations
  and defaults of their own type.  The accepted runbook differs from the input in that risk only.
\<close>

theorem validate_iff:
  "validate rb = Inr rb' \<longleftrightarrow> rb' = default_risk rb \<and> runbook_ok rb'"
  by (rule validate_Inr)

section \<open>What ValidateParams accepts\<close>

lemma foldl_upd:
  "foldl (\<lambda>m d. if P d then m(f d \<mapsto> g d) else m) m0 ds =
     m0 ++ map_of (rev (map (\<lambda>d. (f d, g d)) (filter P ds)))"
  by (induction ds arbitrary: m0) auto

lemma definitions_map_eq: "definitions_map ds = map_of (rev (map (\<lambda>d. (p_name d, d)) ds))"
  using foldl_upd [of "\<lambda>_. True" p_name "\<lambda>d. d" Map.empty ds] by (simp add: definitions_map_def)

lemma defaults_map_eq:
  "defaults_map ds = map_of (rev (map (\<lambda>d. (p_name d, p_default d)) (filter (\<lambda>d. p_default d \<noteq> []) ds)))"
  using foldl_upd [of "\<lambda>d. p_default d \<noteq> []" p_name p_default Map.empty ds] by (simp add: defaults_map_def)

lemma definitions_map_Some:
  "distinct (map p_name ds) \<Longrightarrow> definitions_map ds n = Some d \<longleftrightarrow> d \<in> set ds \<and> p_name d = n"
  by (subst definitions_map_eq, subst map_of_eq_Some_iff) (auto simp: rev_map [symmetric] comp_def)

lemma defaults_map_Some:
  "distinct (map p_name ds) \<Longrightarrow>
     defaults_map ds n = Some v \<longleftrightarrow> (\<exists>d \<in> set ds. p_name d = n \<and> p_default d = v \<and> v \<noteq> [])"
  by (subst defaults_map_eq, subst map_of_eq_Some_iff)
    (auto simp: rev_map [symmetric] comp_def distinct_map_filter)

lemma check_known_None: "check_known defs ps = None \<longleftrightarrow> (\<forall>nv \<in> set ps. defs (fst nv) \<noteq> None)"
  by (induction ps) (auto split: option.splits)

lemma apply_params_Inr:
  "apply_params defs m ps = Inr m' \<longleftrightarrow>
     (\<forall>nv \<in> set ps. validate_parameter_value (case_option zero_parameter id (defs (fst nv))) (snd nv) = None)
     \<and> m' = m ++ map_of (rev ps)"
proof (induction ps arbitrary: m)
  case (Cons nv ps)
  obtain n v where nv: "nv = (n, v)" by fastforce
  have eq: "m ++ map_of (rev (nv # ps)) = m(n \<mapsto> v) ++ map_of (rev ps)" by (simp add: nv)
  show ?case
    unfolding eq
    by (cases "validate_parameter_value (case_option zero_parameter id (defs n)) v")
      (simp_all add: nv Cons.IH fun_upd_def)
qed auto

lemma check_required_None:
  "check_required m ds = None \<longleftrightarrow>
     (\<forall>d \<in> set ds. p_required d \<longrightarrow> trim_space (lookup_or_empty m (p_name d)) \<noteq> [])"
  by (induction ds) auto

lemma check_tokens_None: "check_tokens m ts = None \<longleftrightarrow> (\<forall>t \<in> set ts. m t \<noteq> None)"
  by (induction ts) (auto split: option.splits)

text \<open>What a caller may supply for a declared parameter.\<close>

definition supplied_ok :: "runbook \<Rightarrow> string \<times> string \<Rightarrow> bool" where
  "supplied_ok rb nv \<longleftrightarrow>
     (\<exists>d \<in> set (s_parameters (r_spec rb)).
        p_name d = fst nv \<and> validate_parameter_value d (snd nv) = None)"

lemma validate_params_steps:
  "validate_params rb ps = Inr m \<longleftrightarrow>
     check_known (definitions_map (s_parameters (r_spec rb))) ps = None
     \<and> apply_params (definitions_map (s_parameters (r_spec rb)))
         (defaults_map (s_parameters (r_spec rb))) ps = Inr m
     \<and> check_required m (s_parameters (r_spec rb)) = None
     \<and> check_tokens m (tokens (x_command (s_execution (r_spec rb)))) = None"
  by (auto simp: validate_params_def Let_def split: option.splits sum.splits)

lemma validate_params_Inr:
  assumes ok: "distinct (map p_name (s_parameters (r_spec rb)))"
  shows "validate_params rb ps = Inr m \<longleftrightarrow>
    m = defaults_map (s_parameters (r_spec rb)) ++ map_of (rev ps)
    \<and> (\<forall>nv \<in> set ps. supplied_ok rb nv)
    \<and> (\<forall>d \<in> set (s_parameters (r_spec rb)). p_required d \<longrightarrow>
         trim_space (lookup_or_empty m (p_name d)) \<noteq> [])
    \<and> (\<forall>t \<in> set (tokens (x_command (s_execution (r_spec rb)))). m t \<noteq> None)"
proof -
  let ?ds = "s_parameters (r_spec rb)"
  have sup: "supplied_ok rb nv \<longleftrightarrow> definitions_map ?ds (fst nv) \<noteq> None \<and>
      validate_parameter_value (case_option zero_parameter id (definitions_map ?ds (fst nv))) (snd nv) = None"
    for nv
  proof (cases "definitions_map ?ds (fst nv)")
    case None
    with definitions_map_Some [OF ok, of "fst nv"] show ?thesis by (auto simp: supplied_ok_def)
  next
    case (Some d)
    then have iff: "d' \<in> set ?ds \<and> p_name d' = fst nv \<longleftrightarrow> d = d'" for d'
      by (simp only: definitions_map_Some [OF ok, symmetric] option.inject)
    have "supplied_ok rb nv \<longleftrightarrow> validate_parameter_value d (snd nv) = None"
      unfolding supplied_ok_def Bex_def using iff by metis
    with Some show ?thesis by simp
  qed
  have all: "(\<forall>nv \<in> set ps. supplied_ok rb nv) \<longleftrightarrow> check_known (definitions_map ?ds) ps = None
      \<and> (\<forall>nv \<in> set ps. validate_parameter_value
            (case_option zero_parameter id (definitions_map ?ds (fst nv))) (snd nv) = None)"
    unfolding check_known_None sup by blast
  show ?thesis
    unfolding validate_params_steps apply_params_Inr check_required_None check_tokens_None all
    by (rule iffI; elim conjE; intro conjI; assumption)
qed

text \<open>
  For a runbook whose parameter names are distinct (which \<open>Validate\<close> ensures), \<open>ValidateParams\<close>
  succeeds exactly when every supplied name is declared and its value has the declared type and is
  one of the allowed values, every required parameter has a non-blank value, and every
  \<open>${name}\<close> of the command has one; the resolved map is the declared defaults overridden by the
  supplied values.
\<close>

theorem validate_params_iff:
  assumes "distinct (map p_name (s_parameters (r_spec rb)))" "distinct (map fst ps)"
  shows "validate_params rb ps = Inr m \<longleftrightarrow>
    (\<forall>n. m n = (case map_of ps n of Some v \<Rightarrow> Some v
                 | None \<Rightarrow> defaults_map (s_parameters (r_spec rb)) n))
    \<and> (\<forall>nv \<in> set ps. supplied_ok rb nv)
    \<and> (\<forall>d \<in> set (s_parameters (r_spec rb)). p_required d \<longrightarrow>
         (\<exists>v. m (p_name d) = Some v \<and> trim_space v \<noteq> []))
    \<and> (\<forall>t \<in> set (tokens (x_command (s_execution (r_spec rb)))). \<exists>v. m t = Some v)"
proof -
  let ?d = "defaults_map (s_parameters (r_spec rb))"
  have "map_of (rev ps) = map_of ps" using assms(2) by (simp add: map_of_inject_set rev_map [symmetric])
  then have "m = ?d ++ map_of (rev ps) \<longleftrightarrow>
      (\<forall>n. m n = (case map_of ps n of Some v \<Rightarrow> Some v | None \<Rightarrow> ?d n))"
    by (simp add: fun_eq_iff map_add_def option.case_eq_if)
  moreover have "trim_space (lookup_or_empty m n) \<noteq> [] \<longleftrightarrow> (\<exists>v. m n = Some v \<and> trim_space v \<noteq> [])" for n
    by (cases "m n") (simp_all add: lookup_or_empty_def trim_space_fix)
  moreover have "m t \<noteq> None \<longleftrightarrow> (\<exists>v. m t = Some v)" for t by simp
  ultimately show ?thesis
    unfolding validate_params_Inr [OF assms(1)] by (simp only:)
qed

section \<open>Values have their declared types\<close>

text \<open>Decimal integers with an optional sign, and numbers with at most one point.\<close>

definition integer_text :: "string \<Rightarrow> bool" where
  "integer_text s \<longleftrightarrow>
     (let ds = trim_prefix s ''-'' in ds \<noteq> [] \<and> list_all is_digit ds)"

lemma integer_runes_False: "integer_runes False s = list_all is_digit s"
  by (induction s) auto

lemma integer_text_iff:
  "integer_text s \<longleftrightarrow> integer_runes True s \<and> s \<noteq> [] \<and> s \<noteq> ''-''"
  using minus_not_digit
  by (cases s) (auto simp: integer_text_def trim_prefix_def has_prefix_def Let_def integer_runes_False)


section \<open>Reading the parameter list back\<close>

definition entry_text :: "string \<times> string \<Rightarrow> string" where
  "entry_text nv = fst nv @ CHR ''='' # snd nv"

definition entry_plain :: "string \<times> string \<Rightarrow> bool" where
  "entry_plain nv \<longleftrightarrow>
     fst nv \<noteq> [] \<and> CHR ''='' \<notin> set (fst nv) \<and> CHR '','' \<notin> set (fst nv @ snd nv)
     \<and> trim_space (fst nv) = fst nv \<and> trim_space (snd nv) = snd nv"

lemma split_on_join:
  "ps \<noteq> [] \<Longrightarrow> (\<And>p. p \<in> set ps \<Longrightarrow> sep \<notin> set p) \<Longrightarrow> split_on sep (join_with [sep] ps) = ps"
  by (induction "[sep]" ps rule: join_with.induct) (auto simp: split_on_plain split_on_append)

lemma trim_entry:
  assumes "entry_plain nv"
  shows "trim_space (entry_text nv) = entry_text nv"
proof (rule trim_space_fix, intro disjI2 conjI)
  have "\<not> is_space (hd (fst nv))" using assms trim_space_ends [of "fst nv"] by (simp add: entry_plain_def)
  then show "\<not> is_space (hd (entry_text nv))" using assms by (simp add: entry_text_def entry_plain_def)
  have "\<not> is_space (CHR ''='')" by (simp add: is_space_def code_def)
  then show "\<not> is_space (last (entry_text nv))"
    using assms trim_space_ends [of "snd nv"] by (auto simp: entry_text_def entry_plain_def)
qed

lemma parse_entry_plain: "entry_plain nv \<Longrightarrow> parse_entry (entry_text nv) = Inr nv"
  by (cases nv) (simp add: parse_entry_def entry_text_def entry_plain_def cut_at_append)

lemma parse_entries_plain:
  "\<forall>nv \<in> set ps. entry_plain nv \<Longrightarrow> distinct (map fst (acc @ ps)) \<Longrightarrow>
     parse_entries acc (map entry_text ps) = Inr (acc @ ps)"
proof (induction ps arbitrary: acc)
  case (Cons nv ps)
  then have "fst nv \<notin> set (map fst acc)" by auto
  moreover have "parse_entries (acc @ [nv]) (map entry_text ps) = Inr ((acc @ [nv]) @ ps)"
    using Cons by (intro Cons.IH) auto
  ultimately show ?case
    using Cons.prems(1) by (cases nv) (simp add: trim_entry parse_entry_plain)
qed simp

text \<open>
  \<open>ParseParameterValues\<close> reads back what the comma-separated form writes: for distinct names
  without \<open>=\<close>, and names and values without commas or surrounding space, parsing
  \<open>n1=v1,n2=v2,\<dots>\<close> yields exactly those pairs.  Values may contain \<open>=\<close> and may be empty.
\<close>

theorem parse_parameter_values_roundtrip:
  assumes "ps \<noteq> []" "\<forall>nv \<in> set ps. entry_plain nv" "distinct (map fst ps)"
  shows "parse_parameter_values (join_with '','' (map entry_text ps)) = Inr ps"
proof -
  let ?s = "join_with '','' (map entry_text ps)"
  have split: "split_on (CHR '','') ?s = map entry_text ps"
    using assms(1,2) by (intro split_on_join) (auto simp: entry_plain_def entry_text_def)
  obtain nv ps' where ps: "ps = nv # ps'" using assms(1) by (cases ps) auto
  then have "\<exists>r. ?s = entry_text nv @ r" by (cases ps') auto
  then obtain r where s: "?s = entry_text nv @ r" by blast
  have ne: "entry_text nv \<noteq> []" by (simp add: entry_text_def)
  with trim_entry [of nv] assms(2) ps
  have "\<exists>l q. trim_space ([] @ entry_text nv @ r) = l @ entry_text nv @ q"
    using trim_space_ends [of "entry_text nv"] by (intro trim_space_keeps) auto
  then have "trim_space ?s \<noteq> []" using s ne by auto
  then show ?thesis
    using parse_entries_plain [of ps "[]"] assms by (simp add: parse_parameter_values_def split)
qed

theorem parse_parameter_values_roundtrip_witness:
  "parse_parameter_values ''service=nginx,filter=a=b,empty='' =
     Inr [(''service'', ''nginx''), (''filter'', ''a=b''), (''empty'', '''')]"
proof -
  have "\<forall>nv \<in> set [(''service'', ''nginx''), (''filter'', ''a=b''), (''empty'', '''')]. entry_plain nv"
    by code_simp
  then show ?thesis
    using parse_parameter_values_roundtrip
      [of "[(''service'', ''nginx''), (''filter'', ''a=b''), (''empty'', '''')]"]
    by (simp add: entry_text_def)
qed


section \<open>A rendered command under the rules of the shell\<close>

text \<open>
  The quoting rules of a POSIX shell, as a machine over the characters: what each character becomes
  (\<open>Active\<close>: the shell may give it a meaning; \<open>Literal\<close>: quoted, it stands for itself) and in which
  quoting state the shell is.  Places where single quotes do not quote are separate states: inside
  double quotes, after a backslash, after a dollar, in back quotes, in a comment, and \<open>Opaque\<close>
  for arithmetic, parameter expansions and here-documents, which the machine never leaves.
\<close>

datatype sh_mode =
    WordStart | InWord | Escaped | SingleQ | DoubleQ | DoubleEsc | AfterDollar | BackQ
  | Comment | AfterLess | AfterParen | Opaque

datatype sh_char = Active char | Literal char

definition sh_quote_char :: char where "sh_quote_char = CHR 0x27"

definition sh_blank :: "char \<Rightarrow> bool" where
  "sh_blank c \<longleftrightarrow> is_space c \<or> c \<in> set '';&|)>''"

definition sh_unquoted :: "bool \<Rightarrow> char \<Rightarrow> sh_mode \<times> sh_char list" where
  "sh_unquoted start c =
     (if c = sh_quote_char then (SingleQ, [])
      else if c = CHR 0x22 then (DoubleQ, [])
      else if c = CHR 0x5C then (Escaped, [])
      else if c = CHR 0x60 then (BackQ, [Active c])
      else if c = CHR ''$'' then (AfterDollar, [Active c])
      else if c = CHR ''<'' then (AfterLess, [Active c])
      else if c = CHR ''('' then (AfterParen, [Active c])
      else if c = CHR ''#'' \<and> start then (Comment, [])
      else if sh_blank c then (WordStart, [Active c])
      else (InWord, [Active c]))"

fun sh_step :: "sh_mode \<Rightarrow> char \<Rightarrow> sh_mode \<times> sh_char list" where
  "sh_step WordStart c = sh_unquoted True c"
| "sh_step InWord c = sh_unquoted False c"
| "sh_step Escaped c = (InWord, [Literal c])"
| "sh_step SingleQ c = (if c = sh_quote_char then (InWord, []) else (SingleQ, [Literal c]))"
| "sh_step DoubleQ c =
     (if c = CHR 0x22 then (InWord, []) else if c = CHR 0x5C then (DoubleEsc, []) else (DoubleQ, [Active c]))"
| "sh_step DoubleEsc c = (DoubleQ, [Active c])"
| "sh_step AfterDollar c =
     (if c = sh_quote_char \<or> c = CHR 0x22 \<or> c = CHR ''{'' then (Opaque, []) else sh_unquoted False c)"
| "sh_step BackQ c = (if c = CHR 0x60 then (InWord, [Active c]) else (BackQ, [Active c]))"
| "sh_step Comment c = (if code c = 10 then (WordStart, [Active c]) else (Comment, []))"
| "sh_step AfterLess c = (if c = CHR ''<'' then (Opaque, []) else sh_unquoted True c)"
| "sh_step AfterParen c = (if c = CHR ''('' then (Opaque, []) else sh_unquoted True c)"
| "sh_step Opaque c = (Opaque, [])"

fun sh_read :: "sh_mode \<Rightarrow> string \<Rightarrow> sh_mode \<times> sh_char list" where
  "sh_read m [] = (m, [])"
| "sh_read m (c # s) =
     (fst (sh_read (fst (sh_step m c)) s), snd (sh_step m c) @ snd (sh_read (fst (sh_step m c)) s))"

text \<open>The states in which an opening single quote quotes.\<close>

definition sh_quotable :: "sh_mode \<Rightarrow> bool" where
  "sh_quotable m \<longleftrightarrow> m \<in> set [WordStart, InWord, AfterLess, AfterParen]"

text \<open>A template is safe when each of its tokens stands where a single quote quotes.\<close>

fun safe_template :: "sh_mode \<Rightarrow> piece list \<Rightarrow> bool" where
  "safe_template m [] = True"
| "safe_template m (Lit c # ps) = safe_template (fst (sh_step m c)) ps"
| "safe_template m (Tok n # ps) = (sh_quotable m \<and> safe_template InWord ps)"

text \<open>The intended reading: the template's own characters, and each value as literal text.\<close>

fun intended :: "(string \<Rightarrow> string) \<Rightarrow> sh_mode \<Rightarrow> piece list \<Rightarrow> sh_char list" where
  "intended v m [] = []"
| "intended v m (Lit c # ps) = snd (sh_step m c) @ intended v (fst (sh_step m c)) ps"
| "intended v m (Tok n # ps) = map Literal (v n) @ intended v InWord ps"

lemma sh_read_append:
  "sh_read m (s @ t) =
     (fst (sh_read (fst (sh_read m s)) t), snd (sh_read m s) @ snd (sh_read (fst (sh_read m s)) t))"
  by (induction s arbitrary: m) auto

lemma sh_read_quoted_body:
  "sh_read SingleQ (concat (map (\<lambda>c. if c = CHR 0x27 then [CHR 0x27, CHR 0x5C, CHR 0x27, CHR 0x27] else [c]) v)
      @ [CHR 0x27]) = (InWord, map Literal v)"
  by (induction v) (auto simp: sh_quote_char_def sh_unquoted_def Let_def)

lemma sh_read_shell_quote: "sh_quotable m \<Longrightarrow> sh_read m (shell_quote v) = (InWord, map Literal v)"
proof -
  assume "sh_quotable m"
  then have "sh_step m (CHR 0x27) = (SingleQ, [])"
    by (auto simp: sh_quotable_def sh_unquoted_def sh_quote_char_def)
  then show ?thesis
    using sh_read_quoted_body [of v] by (simp add: shell_quote_def)
qed

lemma render_pieces_Cons:
  "render_pieces m (Lit c # ps) = c # render_pieces m ps"
  "render_pieces m (Tok n # ps) = shell_quote (lookup_or_empty m n) @ render_pieces m ps"
  by (simp_all add: render_pieces_def)

lemma sh_read_render:
  "safe_template m ps \<Longrightarrow>
     snd (sh_read m (render_pieces r ps)) = intended (lookup_or_empty r) m ps"
proof (induction m ps rule: safe_template.induct)
  case (1 m)
  then show ?case by (simp add: render_pieces_def)
next
  case (2 m c ps)
  then show ?case by (simp add: render_pieces_Cons)
next
  case (3 m n ps)
  then show ?case
    by (simp add: render_pieces_Cons sh_read_append sh_read_shell_quote)
qed


section \<open>A concrete runbook\<close>

definition sample_runbook :: runbook where
  "sample_runbook =
     \<lparr>r_api_version = ''vps-tools.io/v1'', r_kind = ''Runbook'',
      r_metadata = \<lparr>m_name = ''restart'', m_title = ''Restart'', m_description = [], m_risk = ''medium'',
        m_tags = [], m_version = 1\<rparr>,
      r_spec = \<lparr>
        s_parameters =
          [\<lparr>p_name = ''svc'', p_type = ''string'', p_default = [], p_allowed_values = [],
            p_required = True, p_description = []\<rparr>,
           \<lparr>p_name = ''n'', p_type = ''integer'', p_default = ''3'', p_allowed_values = [],
            p_required = False, p_description = []\<rparr>],
        s_targets = \<lparr>t_allowed_tags = [], t_allowed_environments = [], t_allowed_servers = []\<rparr>,
        s_approval = \<lparr>ar_required = False, ar_environment = [], ar_required_role = []\<rparr>,
        s_execution = \<lparr>x_shell = [], x_sudo = False, x_timeout_seconds = 0, x_concurrency = 0,
          x_command = ''svc ${svc} -n ${n}''\<rparr>,
        s_output = \<lparr>o_store = [], o_redact = []\<rparr>,
        s_rollback = JNull, s_verification = JNull\<rparr>\<rparr>"

definition sample_params :: "(string \<times> string) list" where
  "sample_params = [(''svc'', ''a; rm'')]"

lemma sample_runbook_ok: "runbook_ok sample_runbook"
  by code_simp

lemma sample_pieces:
  "pieces ''svc ${svc} -n ${n}'' =
     map Lit ''svc '' @ [Tok ''svc''] @ map Lit '' -n '' @ [Tok ''n'']"
  by (simp add: pieces.simps match_token_def Let_def valid_parameter_name_def ident_start_def
      ident_char_def is_lower_def is_upper_def is_digit_def code_def)

lemma sample_resolves:
  "\<exists>m. validate_params sample_runbook sample_params = Inr m \<and> m ''n'' = Some ''3''
     \<and> m ''svc'' = Some ''a; rm''"
proof -
  have "case validate_params sample_runbook sample_params of Inl _ \<Rightarrow> False
      | Inr m \<Rightarrow> m ''n'' = Some ''3'' \<and> m ''svc'' = Some ''a; rm''"
    by code_simp
  then show ?thesis by (auto split: sum.splits)
qed

lemma sample_safe: "safe_template WordStart (pieces (x_command (s_execution (r_spec sample_runbook))))"
  by code_simp

lemma sample_distinct:
  "distinct (map p_name (s_parameters (r_spec sample_runbook)))" "distinct (map fst sample_params)"
  by code_simp+

lemma sample_rendered: "render_command sample_runbook sample_params = Inr (''svc 'a; rm' -n '3'' @ [CHR 0x27])"
  by code_simp

theorem validate_params_iff_witness:
  "\<exists>m. validate_params sample_runbook sample_params = Inr m
     \<and> (\<exists>v. m ''svc'' = Some v \<and> trim_space v \<noteq> [])"
proof -
  obtain m where m: "validate_params sample_runbook sample_params = Inr m"
    using sample_resolves by blast
  then have "\<forall>d \<in> set (s_parameters (r_spec sample_runbook)). p_required d \<longrightarrow>
      (\<exists>v. m (p_name d) = Some v \<and> trim_space v \<noteq> [])"
    using validate_params_iff [OF sample_distinct] by blast
  then have "\<exists>v. m ''svc'' = Some v \<and> trim_space v \<noteq> []" by (simp add: sample_runbook_def)
  with m show ?thesis by blast
qed



end
