(* ===== verification/Schedule.thy ===== *)
theory Schedule
  imports Prelude "HOL-Library.Word"
begin

text \<open>
  \<open>packages/automation/schedule.go\<close>: interval schedules.  \<open>schedule\<close> is the struct; a time is a
  number of nanoseconds since 1970, \<open>None\<close> for Go's zero time.  \<open>time.Duration(n) * time.Second\<close> is 64-bit
  arithmetic, which \<open>duration_of\<close> keeps: an interval of centuries wraps around.  \<open>next_from\<close> is the loop of
  \<open>NextAfter\<close>; \<open>None\<close> is a loop that does not return.
\<close>

record schedule =
  sc_id :: string
  sc_org :: string
  sc_created_by :: string
  sc_name :: string
  sc_runbook_name :: string
  sc_target :: string
  sc_reason :: string
  sc_params :: "(string \<times> string) list"
  sc_interval :: int
  sc_next_run :: "int option"
  sc_enabled :: bool

datatype schedule_error =
  NameRequired | RunbookRequired | TargetRequired | IntervalTooShort | NextRunRequired

definition validate_schedule :: "schedule \<Rightarrow> schedule_error option" where
  "validate_schedule s =
     (if trim_space (sc_name s) = [] then Some NameRequired
      else if trim_space (sc_runbook_name s) = [] then Some RunbookRequired
      else if trim_space (sc_target s) = [] then Some TargetRequired
      else if sc_interval s < 60 then Some IntervalTooShort
      else if sc_next_run s = None then Some NextRunRequired
      else None)"

definition schedule_due :: "schedule \<Rightarrow> int \<Rightarrow> bool" where
  "schedule_due s now =
     (sc_enabled s \<and> (case sc_next_run s of None \<Rightarrow> False | Some n \<Rightarrow> \<not> n > now))"

definition duration_of :: "int \<Rightarrow> int" where
  "duration_of seconds = sint (word_of_int (seconds * 1000000000) :: 64 word)"

partial_function (option) next_from :: "int \<Rightarrow> int \<Rightarrow> int \<Rightarrow> int option" where
  "next_from step now next = (if next > now then Some next else next_from step now (next + step))"

definition next_after :: "schedule \<Rightarrow> int \<Rightarrow> int option" where
  "next_after s now =
     (if sc_interval s < 1 then Some now
      else case sc_next_run s of
          None \<Rightarrow> Some (now + duration_of (sc_interval s))
        | Some next \<Rightarrow> next_from (duration_of (sc_interval s)) now next)"

text \<open>The least time after \<open>now\<close> on the grid, in one step: the reference for the loop.\<close>

definition next_grid :: "int \<Rightarrow> int \<Rightarrow> int \<Rightarrow> int" where
  "next_grid interval now next =
     (if next > now then next else next + ((now - next) div interval + 1) * interval)"

lemma next_from_Suc:
  "1 \<le> step \<Longrightarrow> nat (now - next + 1) \<le> k \<Longrightarrow> next_from step now next = Some (next_grid step now next)"
proof (induction k arbitrary: "next")
  case 0
  then show ?case by (subst next_from.simps) (simp add: next_grid_def)
next
  case (Suc k)
  show ?case
  proof (cases "next > now")
    case True
    then show ?thesis by (subst next_from.simps) (simp add: next_grid_def)
  next
    case False
    then have IH: "next_from step now next = Some (next_grid step now (next + step))"
      using Suc.IH [of "next + step"] Suc.prems by (subst next_from.simps) simp
    show ?thesis
    proof (cases "next + step > now")
      case True
      then have "(now - next) div step = 0" using False by simp
      with True False IH show ?thesis by (simp add: next_grid_def)
    next
      case far: False
      have "(now - next) div step = (now - (next + step)) div step + 1"
        using Suc.prems(1) div_add_self2 [of step "now - (next + step)"] by (simp add: algebra_simps)
      with far False IH show ?thesis by (simp add: next_grid_def algebra_simps)
    qed
  qed
qed

lemma next_from_grid: "1 \<le> step \<Longrightarrow> next_from step now next = Some (next_grid step now next)"
  by (rule next_from_Suc [where k = "nat (now - next + 1)"]) simp_all

lemma next_from_stuck: "next_from step now next = Some y \<Longrightarrow> step \<le> 0 \<longrightarrow> now < next"
  by (rule next_from.raw_induct [of "\<lambda>step now next y. step \<le> 0 \<longrightarrow> now < next"])
    (force split: if_splits)+

lemma duration_of_exact:
  assumes "0 \<le> n" "n \<le> 9223372036"
  shows "duration_of n = n * 1000000000"
proof -
  have "signed_take_bit 63 (n * 1000000000) = n * 1000000000"
    using assms by (intro signed_take_bit_int_eq_self) simp_all
  then show ?thesis by (simp only: duration_of_def sint_sbintrunc') simp
qed

lemma next_grid_spec:
  assumes "1 \<le> interval"
  shows "now < next_grid interval now next"
    and "\<exists>k \<ge> 0. next_grid interval now next = next + k * interval"
    and "next_grid interval now next = next \<or> next_grid interval now next - interval \<le> now"
proof -
  let ?q = "(now - next) div interval"
  have div: "now - next = ?q * interval + (now - next) mod interval" by simp
  have m: "0 \<le> (now - next) mod interval" "(now - next) mod interval < interval"
    using assms by simp_all
  have "(?q + 1) * interval = ?q * interval + interval" by (simp only: distrib_right mult_1)
  then have "now < next + (?q + 1) * interval \<and> next + (?q + 1) * interval - interval \<le> now"
    using div m by linarith
  then show "now < next_grid interval now next"
    "next_grid interval now next = next \<or> next_grid interval now next - interval \<le> now"
    by (simp_all only: next_grid_def split: if_split) blast+
  have "0 \<le> ?q + 1" if "\<not> next > now" using that assms by (simp add: pos_imp_zdiv_nonneg_iff)
  then show "\<exists>k \<ge> 0. next_grid interval now next = next + k * interval"
    unfolding next_grid_def by (cases "next > now") (auto intro: exI [of _ 0])
qed

text \<open>
  For every interval up to 292 years, \<open>NextAfter\<close> returns the first time of the
  schedule's grid that lies strictly after \<open>now\<close>: a run keeps its phase however late it fires, missed
  runs are skipped rather than replayed, and the schedule is no longer due at \<open>now\<close> (so one pass of
  the scheduler cannot fire it twice).
\<close>

theorem next_after_least:
  assumes "1 \<le> sc_interval s" "sc_interval s \<le> 9223372036" "sc_next_run s = Some n"
  shows "\<exists>t. next_after s now = Some t \<and> now < t
    \<and> (\<exists>k \<ge> 0. t = n + k * (sc_interval s * 1000000000))
    \<and> (t = n \<or> t - sc_interval s * 1000000000 \<le> now)
    \<and> \<not> schedule_due (s\<lparr>sc_next_run := Some t\<rparr>) now"
proof -
  let ?step = "sc_interval s * 1000000000"
  have step: "1 \<le> ?step" using assms(1) by simp
  have "next_after s now = Some (next_grid ?step now n)"
    using assms next_from_grid [OF step] by (simp add: next_after_def duration_of_exact)
  then show ?thesis
    using next_grid_spec [OF step, of now n] by (auto simp: schedule_due_def)
qed

text \<open>
  C37: exactly when \<open>NextAfter\<close> returns for a schedule that is due: when its interval, as a 64-bit number of
  nanoseconds, is positive.  \<open>Validate\<close> has no upper bound, so it accepts intervals whose duration is negative and
  for which the scheduler's loop never ends.
\<close>

theorem next_after_returns:
  assumes "1 \<le> sc_interval s" "sc_next_run s = Some n" "n \<le> now"
  shows "(\<exists>t. next_after s now = Some t) \<longleftrightarrow> 0 < duration_of (sc_interval s)"
proof (cases "0 < duration_of (sc_interval s)")
  case True
  then show ?thesis using assms next_from_grid [of "duration_of (sc_interval s)"] by (auto simp: next_after_def)
next
  case False
  have "next_from (duration_of (sc_interval s)) now n \<noteq> Some y" for y
    using next_from_stuck [of "duration_of (sc_interval s)" now n y] False assms(3) by auto
  then show ?thesis using assms False by (simp add: next_after_def)
qed

definition sample_schedule :: "int \<Rightarrow> schedule" where
  "sample_schedule interval = \<lparr>sc_id = ''sch_1'', sc_org = ''org-1'', sc_created_by = ''u1'', sc_name = ''nightly'',
      sc_runbook_name = ''restart'', sc_target = ''web'', sc_reason = [], sc_params = [], sc_interval = interval,
      sc_next_run = Some 100, sc_enabled = True\<rparr>"

theorem next_after_least_witness: "\<exists>t. next_after (sample_schedule 60) 1000 = Some t \<and> t > 1000"
  using next_after_least [of "sample_schedule 60" 100 1000] by (auto simp: sample_schedule_def)

theorem next_after_returns_witness:
  "validate_schedule (sample_schedule 18446744073) = None \<and> next_after (sample_schedule 18446744073) 1000 = None"
proof
  show "validate_schedule (sample_schedule 18446744073) = None" by code_simp
  have "duration_of 18446744073 = - 709551616" by (simp add: duration_of_def)
  then show "next_after (sample_schedule 18446744073) 1000 = None"
    using next_after_returns [of "sample_schedule 18446744073" 100 1000] by (simp add: sample_schedule_def)
qed

end
