(* ===== verification/RateLimit.thy ===== *)
theory RateLimit
  imports Prelude
begin

text \<open>
  \<open>apps/api/ratelimit.go\<close>, \<open>reconcile_throttle.go\<close> and the two middlewares of \<open>middleware.go\<close>.
  A Go map is an association list in the order in which a \<open>range\<close> loop visits it; the clock reading
  is an argument (in seconds).  The mutex makes each call one atomic step.
\<close>

section \<open>The bounded rate limiter\<close>

record bucket =
  bk_started :: int
  bk_count :: nat

record limiter =
  lm_entries :: "(string \<times> bucket) list"
  lm_max_keys :: nat
  lm_limit :: nat
  lm_window :: int

definition new_limiter :: "nat \<Rightarrow> nat \<Rightarrow> int \<Rightarrow> limiter" where
  "new_limiter max_keys limit window =
     \<lparr>lm_entries = [], lm_max_keys = max_keys, lm_limit = limit, lm_window = window\<rparr>"

definition api_rate_limit_max_entries :: nat where "api_rate_limit_max_entries = 2048"
definition api_mutation_limit :: nat where "api_mutation_limit = 60"
definition api_auth_limit :: nat where "api_auth_limit = 20"
definition api_rate_limit_window :: int where "api_rate_limit_window = 60"

definition new_api_rate_limiter :: limiter where
  "new_api_rate_limiter =
     new_limiter api_rate_limit_max_entries api_mutation_limit api_rate_limit_window"

definition delete_key :: "string \<Rightarrow> (string \<times> 'a) list \<Rightarrow> (string \<times> 'a) list" where
  "delete_key k es = filter (\<lambda>(k', _). k' \<noteq> k) es"

definition put_key :: "string \<Rightarrow> 'a \<Rightarrow> (string \<times> 'a) list \<Rightarrow> (string \<times> 'a) list" where
  "put_key k v es =
     (if k \<in> set (map fst es) then map (\<lambda>(k', v'). if k' = k then (k, v) else (k', v')) es
      else es @ [(k, v)])"

text \<open>The loop of \<open>evictOldest\<close>, with the oldest key and time so far.\<close>

fun oldest_entry :: "string \<times> int \<Rightarrow> (string \<times> bucket) list \<Rightarrow> string \<times> int" where
  "oldest_entry (ok, ot) [] = (ok, ot)"
| "oldest_entry (ok, ot) ((k, b) # es) =
     (if ok = [] \<or> bk_started b < ot then oldest_entry (k, bk_started b) es
      else oldest_entry (ok, ot) es)"

definition evict_oldest :: "limiter \<Rightarrow> limiter" where
  "evict_oldest l =
     (let oldest_key = fst (oldest_entry ([], 0) (lm_entries l))
      in if oldest_key \<noteq> [] then l\<lparr>lm_entries := delete_key oldest_key (lm_entries l)\<rparr> else l)"

definition allow_key :: "limiter \<Rightarrow> int \<Rightarrow> string \<Rightarrow> bool \<times> limiter" where
  "allow_key l now key =
     (let fresh = \<lparr>bk_started = now, bk_count = 1\<rparr>
      in case map_of (lm_entries l) key of
           None \<Rightarrow>
             let l = (if length (lm_entries l) \<ge> lm_max_keys l then evict_oldest l else l)
             in (True, l\<lparr>lm_entries := put_key key fresh (lm_entries l)\<rparr>)
         | Some e \<Rightarrow>
             if now - bk_started e \<ge> lm_window l
             then (True, l\<lparr>lm_entries := put_key key fresh (lm_entries l)\<rparr>)
             else if bk_count e \<ge> lm_limit l then (False, l)
             else (True, l\<lparr>lm_entries := put_key key (e\<lparr>bk_count := bk_count e + 1\<rparr>) (lm_entries l)\<rparr>))"

text \<open>A sequence of requests, each with the clock reading and the key, and the answers.\<close>

fun allow_run :: "limiter \<Rightarrow> (int \<times> string) list \<Rightarrow> bool list \<times> limiter" where
  "allow_run l [] = ([], l)"
| "allow_run l ((now, key) # rs) =
     (fst (allow_key l now key) # fst (allow_run (snd (allow_key l now key)) rs),
      snd (allow_run (snd (allow_key l now key)) rs))"

section \<open>Classes and clients\<close>

record http_request =
  rq_method :: string
  rq_path :: string
  rq_remote :: string
  rq_request_id :: string
  rq_origin :: string

definition rate_limit_class :: "http_request \<Rightarrow> string option" where
  "rate_limit_class r =
     (if rq_method r = ''GET'' \<or> rq_method r = ''HEAD'' \<or> rq_method r = ''OPTIONS'' then None
      else if \<not> has_prefix (rq_path r) ''/api/'' \<or> has_prefix (rq_path r) ''/api/v1/jobs/''
        \<or> rq_path r = ''/api/v1/runners'' \<or> rq_path r = ''/api/v1/runners/heartbeat'' then None
      else if has_prefix (rq_path r) ''/api/v1/auth/'' then Some ''auth''
      else Some ''mutation'')"

text \<open>\<open>net.SplitHostPort\<close>: the host before the last colon, or between brackets; \<open>None\<close> on an error.\<close>

definition split_host_port :: "string \<Rightarrow> string option" where
  "split_host_port s =
     (if CHR '':'' \<notin> set s then None
      else
        let host = rev (drop 1 (dropWhile (\<lambda>c. c \<noteq> CHR '':'') (rev s)));
            port = rev (takeWhile (\<lambda>c. c \<noteq> CHR '':'') (rev s))
        in if take 1 s = ''['' then
             (case cut_at (CHR '']'') s of
                None \<Rightarrow> None
              | Some (a, b) \<Rightarrow>
                  if b \<noteq> CHR '':'' # port \<or> CHR ''['' \<in> set (drop 1 a) \<or> CHR ''['' \<in> set port
                  then None else Some (drop 1 a))
           else if CHR '':'' \<in> set host \<or> CHR ''['' \<in> set s \<or> CHR '']'' \<in> set s then None
           else Some host)"

definition rate_limit_client :: "http_request \<Rightarrow> string" where
  "rate_limit_client r =
     (case split_host_port (rq_remote r) of
        Some host \<Rightarrow> if host \<noteq> [] then host else if rq_remote r \<noteq> [] then rq_remote r else ''unknown''
      | None \<Rightarrow> if rq_remote r \<noteq> [] then rq_remote r else ''unknown'')"

section \<open>The middlewares\<close>

definition valid_request_id :: "string \<Rightarrow> bool" where
  "valid_request_id v \<longleftrightarrow>
     v \<noteq> [] \<and> length v \<le> 128 \<and> list_all (\<lambda>r. 0x21 \<le> code r \<and> code r \<le> 0x7e) v"

text \<open>
  What \<open>requestMiddleware\<close> decides: the request id it answers with, and either 429 with the
  \<open>Retry-After\<close> header or the next handler.  The state is the pair of the mutation limiter and the
  limiter of the authentication routes that the middleware creates.
\<close>

datatype middleware_outcome =
    TooManyRequests string string
  | NextHandler string

definition request_middleware ::
  "string \<Rightarrow> int \<Rightarrow> http_request \<Rightarrow> limiter \<times> limiter \<Rightarrow> middleware_outcome \<times> (limiter \<times> limiter)" where
  "request_middleware new_uuid now r st =
     (let request_id = (if valid_request_id (rq_request_id r) then rq_request_id r else new_uuid);
          retry_after = int_str api_rate_limit_window
      in case rate_limit_class r of
           None \<Rightarrow> (NextHandler request_id, st)
         | Some cls \<Rightarrow>
             let key = cls @ '':'' @ rate_limit_client r
             in if cls = ''auth'' then
                  (case allow_key (snd st) now key of
                     (ok, l) \<Rightarrow> (if ok then NextHandler request_id else TooManyRequests request_id retry_after,
                                 (fst st, l)))
                else
                  (case allow_key (fst st) now key of
                     (ok, l) \<Rightarrow> (if ok then NextHandler request_id else TooManyRequests request_id retry_after,
                                 (l, snd st))))"

text \<open>The headers of \<open>corsMiddleware\<close>, and whether it answers a preflight request itself (204).\<close>

definition cors_middleware :: "string \<Rightarrow> http_request \<Rightarrow> (string \<times> string) list \<times> bool" where
  "cors_middleware web_origin r =
     ([(''X-Content-Type-Options'', ''nosniff''), (''X-Frame-Options'', ''DENY''),
       (''Referrer-Policy'', ''no-referrer''), (''Cache-Control'', ''no-store'')]
      @ (if rq_origin r \<noteq> [] \<and> rq_origin r = web_origin
         then [(''Access-Control-Allow-Origin'', rq_origin r), (''Vary'', ''Origin'')] else [])
      @ [(''Access-Control-Allow-Methods'', ''GET, POST, PUT, DELETE, OPTIONS''),
         (''Access-Control-Allow-Headers'',
          ''Content-Type, X-VPS-User, X-VPS-Runner-Token, X-VPS-Internal-Secret, X-VPS-OIDC-Subject, X-VPS-OIDC-Email'')],
      rq_method r = ''OPTIONS'')"

section \<open>The reconcile throttle\<close>

type_synonym throttle = "string \<rightharpoonup> int"

definition lease_reconcile_interval :: int where "lease_reconcile_interval = 15"

definition due :: "throttle \<Rightarrow> string \<Rightarrow> int \<Rightarrow> bool \<times> throttle" where
  "due t org now =
     (case t org of
        Some previous \<Rightarrow>
          if now - previous < lease_reconcile_interval then (False, t) else (True, t(org \<mapsto> now))
      | None \<Rightarrow> (True, t(org \<mapsto> now)))"

definition forget :: "throttle \<Rightarrow> string \<Rightarrow> throttle" where
  "forget t org = t(org := None)"

fun due_run :: "throttle \<Rightarrow> (string \<times> int) list \<Rightarrow> bool list" where
  "due_run t [] = []"
| "due_run t ((org, now) # cs) = fst (due t org now) # due_run (snd (due t org now)) cs"

section \<open>Memory stays bounded\<close>

lemma map_fst_put_key:
  "map fst (put_key k v es) = (if k \<in> set (map fst es) then map fst es else map fst es @ [k])"
  by (auto simp: put_key_def comp_def split_beta)

lemma put_key_present: "map_of (map (\<lambda>(k', v'). if k' = k then (k, v) else (k', v')) es) x =
    (if x = k then map_option (\<lambda>_. v) (map_of es k) else map_of es x)"
  by (induction es) auto

lemma set_put_key: "e \<in> set (put_key k v es) \<Longrightarrow> e = (k, v) \<or> e \<in> set es"
  by (auto simp: put_key_def split: if_splits)

lemma map_of_put_key: "map_of (put_key k v es) = (map_of es)(k \<mapsto> v)"
proof (cases "k \<in> set (map fst es)")
  case True
  then have "map_of (map (\<lambda>(k', v'). if k' = k then (k, v) else (k', v')) es) x =
      ((map_of es)(k \<mapsto> v)) x" for x
    by (cases "map_of es k") (auto simp: put_key_present map_of_eq_None_iff)
  with True show ?thesis by (simp add: put_key_def fun_eq_iff)
next
  case False
  then have "map_of es k = None" by (simp add: map_of_eq_None_iff)
  with False show ?thesis by (auto simp: put_key_def fun_eq_iff map_add_def split: option.splits)
qed

lemma length_put_key:
  "length (put_key k v es) = (if k \<in> set (map fst es) then length es else Suc (length es))"
  by (simp add: put_key_def)

lemma oldest_entry_mem:
  "ok \<noteq> [] \<Longrightarrow> (\<forall>e \<in> set es. fst e \<noteq> []) \<Longrightarrow>
     fst (oldest_entry (ok, ot) es) \<noteq> [] \<and> fst (oldest_entry (ok, ot) es) \<in> insert ok (fst ` set es)"
  by (induction "(ok, ot)" es arbitrary: ok ot rule: oldest_entry.induct)
    (auto simp del: fst_conv split: if_splits simp: fst_conv)

lemma oldest_entry_key:
  "es \<noteq> [] \<Longrightarrow> (\<forall>e \<in> set es. fst e \<noteq> []) \<Longrightarrow>
     fst (oldest_entry ([], 0) es) \<noteq> [] \<and> fst (oldest_entry ([], 0) es) \<in> fst ` set es"
proof (cases es)
  case (Cons e es')
  assume "\<forall>e \<in> set es. fst e \<noteq> []"
  with Cons have m: "fst (oldest_entry (fst e, bk_started (snd e)) es') \<noteq> []
      \<and> fst (oldest_entry (fst e, bk_started (snd e)) es') \<in> insert (fst e) (fst ` set es')"
    by (intro oldest_entry_mem) simp_all
  moreover have "oldest_entry ([], 0) es = oldest_entry (fst e, bk_started (snd e)) es'"
    using Cons by (cases e) simp
  ultimately show ?thesis by (simp add: Cons del: insert_iff oldest_entry.simps)
qed simp

lemma length_delete_key: "k \<in> fst ` set es \<Longrightarrow> length (delete_key k es) < length es"
  by (auto simp: delete_key_def split_beta intro!: length_filter_less)

text \<open>The invariant: no empty key, no duplicate, no more keys than the cap.\<close>

definition limiter_ok :: "limiter \<Rightarrow> bool" where
  "limiter_ok l \<longleftrightarrow>
     0 < lm_max_keys l \<and> length (lm_entries l) \<le> lm_max_keys l
     \<and> distinct (map fst (lm_entries l)) \<and> (\<forall>e \<in> set (lm_entries l). fst e \<noteq> [])"

lemma evict_oldest_ok:
  assumes "limiter_ok l" "lm_max_keys l \<le> length (lm_entries l)"
  shows "limiter_ok (evict_oldest l) \<and> length (lm_entries (evict_oldest l)) < lm_max_keys l
    \<and> lm_max_keys (evict_oldest l) = lm_max_keys l
    \<and> set (lm_entries (evict_oldest l)) \<subseteq> set (lm_entries l)"
proof -
  let ?k = "fst (oldest_entry ([], 0) (lm_entries l))"
  have k: "?k \<noteq> [] \<and> ?k \<in> fst ` set (lm_entries l)"
    using assms by (intro oldest_entry_key) (auto simp: limiter_ok_def)
  have e: "evict_oldest l = l\<lparr>lm_entries := delete_key ?k (lm_entries l)\<rparr>"
    using k by (simp add: evict_oldest_def Let_def)
  have "length (delete_key ?k (lm_entries l)) < length (lm_entries l)"
    using k by (intro length_delete_key) simp
  moreover have "distinct (map fst (delete_key ?k (lm_entries l)))"
    using assms by (auto simp: limiter_ok_def delete_key_def distinct_map_filter)
  moreover have "set (delete_key ?k (lm_entries l)) \<subseteq> set (lm_entries l)"
    by (auto simp: delete_key_def)
  ultimately show ?thesis using assms by (auto simp: e limiter_ok_def)
qed

lemma put_fresh_ok:
  "limiter_ok l \<Longrightarrow> key \<noteq> [] \<Longrightarrow> key \<in> fst ` set (lm_entries l) \<or> length (lm_entries l) < lm_max_keys l \<Longrightarrow>
     limiter_ok (l\<lparr>lm_entries := put_key key b (lm_entries l)\<rparr>)"
proof -
  assume l: "limiter_ok l" "key \<noteq> []"
    "key \<in> fst ` set (lm_entries l) \<or> length (lm_entries l) < lm_max_keys l"
  have "\<forall>e \<in> set (put_key key b (lm_entries l)). fst e \<noteq> []"
    using l set_put_key [of _ key b "lm_entries l"] by (fastforce simp: limiter_ok_def)
  moreover have "distinct (map fst (put_key key b (lm_entries l)))"
    using l by (simp add: map_fst_put_key limiter_ok_def)
  moreover have "length (put_key key b (lm_entries l)) \<le> lm_max_keys l"
    using l by (auto simp: length_put_key limiter_ok_def)
  ultimately show ?thesis using l by (simp add: limiter_ok_def)
qed

lemma allow_key_ok:
  assumes "limiter_ok l" "key \<noteq> []"
  shows "limiter_ok (snd (allow_key l now key))"
proof (cases "map_of (lm_entries l) key")
  case None
  show ?thesis
  proof (cases "lm_max_keys l \<le> length (lm_entries l)")
    case True
    with evict_oldest_ok [OF assms(1) True] assms(2) None show ?thesis
      by (auto simp: allow_key_def Let_def intro!: put_fresh_ok)
  next
    case False
    with assms None show ?thesis
      by (auto simp: allow_key_def Let_def intro!: put_fresh_ok)
  qed
next
  case (Some e)
  then have "key \<in> fst ` set (lm_entries l)"
    by (metis domI dom_map_of_conv_image_fst)
  with assms Some show ?thesis
    by (auto simp: allow_key_def Let_def intro!: put_fresh_ok)
qed

lemma limiter_const:
  "lm_max_keys (snd (allow_key l now key)) = lm_max_keys l"
  "lm_limit (snd (allow_key l now key)) = lm_limit l"
  "lm_window (snd (allow_key l now key)) = lm_window l"
  by (auto simp: allow_key_def evict_oldest_def Let_def split: option.split)

lemma allow_run_ok:
  "limiter_ok l \<Longrightarrow> (\<forall>r \<in> set rs. snd r \<noteq> []) \<Longrightarrow> limiter_ok (snd (allow_run l rs))"
  by (induction l rs rule: allow_run.induct) (auto simp: allow_key_ok)

text \<open>
  Memory is bounded: after any sequence of requests, at any times and with any (non-empty) keys,
  the rate limiter of the API keeps at most 2048 entries, one per key, so a flood of
  client addresses cannot grow it.
\<close>

theorem limiter_bounded:
  assumes "\<forall>r \<in> set rs. snd r \<noteq> []"
  shows "length (lm_entries (snd (allow_run new_api_rate_limiter rs))) \<le> 2048
    \<and> distinct (map fst (lm_entries (snd (allow_run new_api_rate_limiter rs))))"
proof -
  have "lm_max_keys (snd (allow_run l rs)) = lm_max_keys l" for l
    by (induction l rs rule: allow_run.induct) (simp_all add: limiter_const)
  moreover have "limiter_ok new_api_rate_limiter"
    by (simp add: limiter_ok_def new_api_rate_limiter_def new_limiter_def api_rate_limit_max_entries_def)
  ultimately show ?thesis
    using allow_run_ok [OF _ assms] unfolding limiter_ok_def
    by (metis (no_types) api_rate_limit_max_entries_def limiter.select_convs(2) new_api_rate_limiter_def
        new_limiter_def)
qed

theorem limiter_bounded_witness:
  "length (lm_entries (snd (allow_run new_api_rate_limiter [(0, ''a''), (1, ''b''), (2, ''a'')]))) \<le> 2048"
  using limiter_bounded [of "[(0, ''a''), (1, ''b''), (2, ''a'')]"] by simp

section \<open>The limit is enforced exactly\<close>

lemma allow_key_other:
  assumes "key \<noteq> k" "lm_max_keys l > length (lm_entries l) \<or> k \<in> fst ` set (lm_entries l)"
  shows "map_of (lm_entries (snd (allow_key l now k))) key = map_of (lm_entries l) key"
  using assms
  by (auto simp: allow_key_def Let_def map_of_put_key map_of_eq_None_iff split: option.split)

lemma allow_key_length:
  assumes "lm_max_keys l > length (lm_entries l) \<or> k \<in> fst ` set (lm_entries l)"
  shows "length (lm_entries (snd (allow_key l now k))) \<le> Suc (length (lm_entries l))"
  using assms
  by (auto simp: allow_key_def Let_def length_put_key map_of_eq_None_iff split: option.split)

lemma allow_key_present:
  assumes "map_of (lm_entries l) key = Some e" "now - bk_started e < lm_window l"
  shows "allow_key l now key =
    (if bk_count e \<ge> lm_limit l then (False, l)
     else (True, l\<lparr>lm_entries := put_key key (e\<lparr>bk_count := bk_count e + 1\<rparr>) (lm_entries l)\<rparr>))"
  using assms by (simp add: allow_key_def Let_def)

text \<open>How many requests of a run are for a key, and how many of those were allowed.\<close>

definition asked :: "string \<Rightarrow> (int \<times> string) list \<Rightarrow> nat" where
  "asked key rs = count_where (\<lambda>r. snd r = key) rs"

definition granted :: "string \<Rightarrow> limiter \<Rightarrow> (int \<times> string) list \<Rightarrow> nat" where
  "granted key l rs =
     count_where (\<lambda>(ok, r). ok \<and> snd r = key) (zip (fst (allow_run l rs)) rs)"

lemma granted_Cons: "granted key l ((now, k) # rs) =
    (if fst (allow_key l now k) \<and> k = key then 1 else 0) + granted key (snd (allow_key l now k)) rs"
  by (auto simp: granted_def count_where_def)

lemma granted_in_window:
  assumes "map_of (lm_entries l) key = Some e" "bk_count e \<le> lm_limit l"
    and "\<forall>r \<in> set rs. fst r - bk_started e < lm_window l"
    and "length (lm_entries l) + length rs \<le> lm_max_keys l"
  shows "granted key l rs = min (asked key rs) (lm_limit l - bk_count e)"
  using assms
proof (induction rs arbitrary: l e)
  case Nil
  then show ?case by (simp add: granted_def asked_def count_where_def)
next
  case (Cons r rs)
  obtain now k where r: "r = (now, k)" by fastforce
  have room: "lm_max_keys l > length (lm_entries l)" using Cons.prems(4) by simp
  let ?l = "snd (allow_key l now k)"
  show ?case
  proof (cases "k = key")
    case False
    have "granted key ?l rs = min (asked key rs) (lm_limit ?l - bk_count e)"
      using Cons.prems allow_key_other [of key k l now] allow_key_length [of l k now] room False
      by (intro Cons.IH) (auto simp: r limiter_const)
    with False show ?thesis by (simp add: r granted_Cons asked_def count_where_def limiter_const)
  next
    case True
    have now: "now - bk_started e < lm_window l" using Cons.prems(3) by (simp add: r)
    note step = allow_key_present [OF Cons.prems(1) now]
    show ?thesis
    proof (cases "bk_count e \<ge> lm_limit l")
      case full: True
      then have same: "allow_key l now k = (False, l)" using step True by simp
      have "granted key l rs = min (asked key rs) (lm_limit l - bk_count e)"
        using Cons.prems by (intro Cons.IH) (auto simp: r)
      with same True full Cons.prems(2) show ?thesis
        by (simp add: r granted_Cons asked_def count_where_def)
    next
      case False
      let ?e = "e\<lparr>bk_count := bk_count e + 1\<rparr>"
      have "granted key ?l rs = min (asked key rs) (lm_limit ?l - bk_count ?e)"
        using Cons.prems False step True room allow_key_length [of l k now]
        by (intro Cons.IH) (auto simp: r map_of_put_key limiter_const)
      with step True False show ?thesis
        by (simp add: r granted_Cons asked_def count_where_def limiter_const)
    qed
  qed
qed

text \<open>
  Within one window a client gets exactly its limit.  Take a limiter in which the key has no
  entry, and any interleaving of requests by this and other clients, all within one window of the
  key's first request and too few to fill the table.  Then of the
  \<open>n\<close> requests for the key the first \<open>limit\<close> are allowed and all others refused.
\<close>

theorem limiter_exact:
  assumes "map_of (lm_entries l) key = None" "0 < lm_limit l"
    and "\<forall>r \<in> set rs. fst r - now < lm_window l"
    and "length (lm_entries l) + length rs < lm_max_keys l"
  shows "granted key l ((now, key) # rs) = min (asked key ((now, key) # rs)) (lm_limit l)"
proof -
  let ?e = "\<lparr>bk_started = now, bk_count = 1\<rparr>"
  let ?l = "l\<lparr>lm_entries := put_key key ?e (lm_entries l)\<rparr>"
  have step: "allow_key l now key = (True, ?l)"
    using assms(1,4) by (simp add: allow_key_def Let_def)
  have "granted key ?l rs = min (asked key rs) (lm_limit ?l - bk_count ?e)"
    using assms by (intro granted_in_window) (auto simp: map_of_put_key length_put_key)
  then show ?thesis
    using assms(2) by (simp add: granted_Cons step asked_def count_where_def)
qed

theorem limiter_exact_witness:
  "granted ''a'' (new_limiter 8 2 60) [(0, ''a''), (1, ''b''), (5, ''a''), (59, ''a'')] = 2"
  using limiter_exact [of "new_limiter 8 2 60" "''a''" "[(1, ''b''), (5, ''a''), (59, ''a'')]" 0]
  by (simp add: new_limiter_def asked_def count_where_def)

section \<open>At most one reconciliation per interval\<close>

text \<open>The times at which calls for an organisation were granted, with the first one it may be.\<close>

fun due_times :: "throttle \<Rightarrow> (string \<times> int) list \<Rightarrow> string \<Rightarrow> int list" where
  "due_times t [] org = []"
| "due_times t ((o', now) # cs) org =
     (if fst (due t o' now) \<and> o' = org then now # due_times (snd (due t o' now)) cs org
      else due_times (snd (due t o' now)) cs org)"

lemma due_other: "o' \<noteq> org \<Longrightarrow> snd (due t o' now) org = t org"
  by (simp add: due_def split: option.split)

lemma due_granted: "fst (due t org now) \<longleftrightarrow>
    (\<forall>p. t org = Some p \<longrightarrow> lease_reconcile_interval \<le> now - p)"
  by (auto simp: due_def split: option.split)

lemma due_state: "snd (due t org now) org = (if fst (due t org now) then Some now else t org)"
  by (auto simp: due_def split: option.split)

lemma due_times_spaced:
  "sorted_wrt (\<lambda>a b. a + lease_reconcile_interval \<le> b) (case_option [] (\<lambda>p. [p]) (t org) @ due_times t cs org)"
proof (induction t cs org rule: due_times.induct)
  case (2 t o' now cs org)
  show ?case
  proof (cases "fst (due t o' now) \<and> o' = org")
    case False
    then have "snd (due t o' now) org = t org" using due_other due_state by (metis (full_types))
    with False 2(2) show ?thesis by auto
  next
    case True
    then have "snd (due t o' now) org = Some now" using due_state [of t org now] by auto
    with 2(1) [OF True] have "sorted_wrt (\<lambda>a b. a + lease_reconcile_interval \<le> b)
        (now # due_times (snd (due t o' now)) cs org)" by simp
    moreover have "p + lease_reconcile_interval \<le> now" if "t org = Some p" for p
      using True that by (auto simp: due_granted)
    moreover have "0 \<le> lease_reconcile_interval" by (simp add: lease_reconcile_interval_def)
    ultimately show ?thesis using True by (fastforce split: option.split)
  qed
qed (simp split: option.split)

text \<open>
  The reconciliation throttle grants calls of one organisation at least 15 seconds apart,
  whatever other organisations do in between, and never refuses a call that comes 15 seconds or
  more after the last granted one.
\<close>

theorem throttle_spacing:
  "sorted_wrt (\<lambda>a b. a + 15 \<le> b) (due_times t cs org)
   \<and> fst (due t org now) = (case t org of None \<Rightarrow> True | Some p \<Rightarrow> p + 15 \<le> now)"
  using due_times_spaced [of t org cs]
  by (auto simp: due_def lease_reconcile_interval_def sorted_wrt_append split: option.split)

end
