(* ===== verification/Dialect.thy ===== *)
theory Dialect
  imports Prelude
begin

text \<open>
  \<open>packages/db/dialect/dialect.go\<close>: the driver names and \<open>Rebind\<close>, which rewrites the \<open>?\<close>
  parameters of a query.  The four \<open>copy\<dots>\<close> functions take the query from the start position and
  return what they write and what is left, so \<open>rebind_from\<close> is the loop with the position as the
  rest of the query.  The abstract side is \<open>sql_tokens\<close>, the lexical structure of a query; the
  loop is proved to number exactly its parameters.
\<close>

datatype driver = SQLite | PostgreSQL | OtherDriver string

definition parse_driver :: "string \<Rightarrow> driver option" where
  "parse_driver name =
     (let d = to_lower (trim_space name)
      in if d = ''sqlite'' then Some SQLite
         else if d = ''postgres'' then Some PostgreSQL else None)"

section \<open>Copying what is not rewritten\<close>

text \<open>After the opening quote; a doubled quote does not close.\<close>

fun copy_quoted_rest :: "char \<Rightarrow> string \<Rightarrow> string \<times> string" where
  "copy_quoted_rest q [] = ([], [])"
| "copy_quoted_rest q [c] = ([c], [])"
| "copy_quoted_rest q (c # d # s) =
     (if c = q then
        (if d = q then (c # d # fst (copy_quoted_rest q s), snd (copy_quoted_rest q s)) else ([c], d # s))
      else (c # fst (copy_quoted_rest q (d # s)), snd (copy_quoted_rest q (d # s))))"

definition copy_quoted :: "string \<Rightarrow> string \<times> string" where
  "copy_quoted s =
     (case s of [] \<Rightarrow> ([], [])
      | q # r \<Rightarrow> (q # fst (copy_quoted_rest q r), snd (copy_quoted_rest q r)))"

text \<open>Up to and including the first byte \<open>stop\<close>: bracket identifiers and line comments.\<close>

fun copy_through :: "char \<Rightarrow> string \<Rightarrow> string \<times> string" where
  "copy_through stop [] = ([], [])"
| "copy_through stop (c # s) =
     (if c = stop then ([c], s) else (c # fst (copy_through stop s), snd (copy_through stop s)))"

definition copy_bracket_identifier :: "string \<Rightarrow> string \<times> string" where
  "copy_bracket_identifier s = copy_through (CHR '']'') s"

definition copy_line_comment :: "string \<Rightarrow> string \<times> string" where
  "copy_line_comment s = copy_through (CHR 0x0A) s"

fun copy_block_comment :: "string \<Rightarrow> string \<times> string" where
  "copy_block_comment [] = ([], [])"
| "copy_block_comment [c] = ([c], [])"
| "copy_block_comment (c # d # s) =
     (if c = CHR ''*'' \<and> d = CHR ''/'' then ([c, d], s)
      else (c # fst (copy_block_comment (d # s)), snd (copy_block_comment (d # s))))"

lemma copy_quoted_rest_split: "fst (copy_quoted_rest q s) @ snd (copy_quoted_rest q s) = s"
  by (induction q s rule: copy_quoted_rest.induct) auto

lemma copy_quoted_split: "fst (copy_quoted s) @ snd (copy_quoted s) = s"
  by (auto simp: copy_quoted_def copy_quoted_rest_split split: list.split)

lemma copy_through_split: "fst (copy_through q s) @ snd (copy_through q s) = s"
  by (induction s) auto

lemma copy_block_comment_split: "fst (copy_block_comment s) @ snd (copy_block_comment s) = s"
  by (induction s rule: copy_block_comment.induct) auto

lemmas copy_splits = copy_quoted_split copy_through_split copy_block_comment_split
  copy_bracket_identifier_def copy_line_comment_def

lemma copy_nonempty:
  "fst (copy_quoted (c # s)) \<noteq> []" "fst (copy_through q (c # s)) \<noteq> []"
  "fst (copy_block_comment (c # s)) \<noteq> []"
  by (auto simp: copy_quoted_def) (cases s; simp split: if_splits)

lemma copy_shorter:
  "length (snd (copy_quoted (c # s))) < length (c # s)"
  "length (snd (copy_through q (c # s))) < length (c # s)"
  "length (snd (copy_block_comment (c # s))) < length (c # s)"
  using copy_nonempty copy_splits(1-3)
  by (metis length_append length_greater_0_conv less_add_same_cancel2)+

section \<open>Rebind\<close>

definition quote_char :: "char \<Rightarrow> bool" where
  "quote_char c \<longleftrightarrow> c = CHR 0x27 \<or> c = CHR 0x22 \<or> c = CHR 0x60"

function rebind_from :: "bool \<Rightarrow> nat \<Rightarrow> string \<Rightarrow> string" where
  "rebind_from pg n [] = []"
| "rebind_from pg n (c # s) =
     (if quote_char c then fst (copy_quoted (c # s)) @ rebind_from pg n (snd (copy_quoted (c # s)))
      else if c = CHR ''['' then
        fst (copy_bracket_identifier (c # s)) @ rebind_from pg n (snd (copy_bracket_identifier (c # s)))
      else if c = CHR ''-'' then
        (if take 1 s = ''-'' then
           fst (copy_line_comment (c # s)) @ rebind_from pg n (snd (copy_line_comment (c # s)))
         else c # rebind_from pg n s)
      else if c = CHR ''/'' then
        (if take 1 s = ''*'' then
           fst (copy_block_comment (c # s)) @ rebind_from pg n (snd (copy_block_comment (c # s)))
         else c # rebind_from pg n s)
      else if c = CHR ''?'' then
        (if take 1 s = ''?'' then CHR ''?'' # rebind_from pg n (drop 1 s)
         else if pg then CHR ''$'' # nat_str n @ rebind_from pg (n + 1) s
         else CHR ''?'' # rebind_from pg n s)
      else if c = CHR 0x5C then
        (if take 1 s = ''?'' then CHR ''?'' # rebind_from pg n (drop 1 s)
         else c # rebind_from pg n s)
      else c # rebind_from pg n s)"
  by pat_completeness auto
termination
  by (relation "measure (\<lambda>(pg, n, s). length s)")
    (use copy_shorter in \<open>auto simp: copy_bracket_identifier_def copy_line_comment_def
       simp del: copy_through.simps copy_block_comment.simps\<close>)

declare rebind_from.simps(2) [simp del]

definition rebind :: "driver \<Rightarrow> string \<Rightarrow> string" where
  "rebind d q =
     (if d \<noteq> SQLite \<and> d \<noteq> PostgreSQL then q else rebind_from (d = PostgreSQL) 1 q)"

section \<open>Server time\<close>

definition current_time :: "driver \<Rightarrow> string" where
  "current_time d =
     (case d of SQLite \<Rightarrow> ''CURRENT_TIMESTAMP'' | PostgreSQL \<Rightarrow> ''CURRENT_TIMESTAMP'' | OtherDriver _ \<Rightarrow> [])"

text \<open>The expression and its arguments: the time and either the interval text or the seconds.\<close>

datatype time_arg = TimeArg int | TextArg string | IntArg int

definition signed_int :: "int \<Rightarrow> string" where
  "signed_int i = (if 0 \<le> i then CHR ''+'' # int_str i else int_str i)"

definition time_after :: "driver \<Rightarrow> int \<Rightarrow> int \<Rightarrow> string \<times> time_arg list" where
  "time_after d now seconds =
     (case d of
        SQLite \<Rightarrow> (''datetime(?, ?)'', [TimeArg now, TextArg (signed_int seconds @ '' seconds'')])
      | PostgreSQL \<Rightarrow>
          (''? + (? * INTERVAL '1 second')'', [TimeArg now, IntArg seconds])
      | OtherDriver _ \<Rightarrow> ([], []))"

definition timestamp_after :: "int \<Rightarrow> int \<Rightarrow> int" where
  "timestamp_after now interval = now + interval"

section \<open>The lexical structure of a query\<close>

datatype sql_token =
    Opaque_text string  \<comment> \<open>quoted text, a bracket identifier or a comment\<close>
  | Escaped_mark string \<comment> \<open>two question marks or a backslash and one: a literal question mark\<close>
  | Parameter
  | Other char

definition opaque_at :: "string \<Rightarrow> (string \<times> string) option" where
  "opaque_at s =
     (if take 1 s = [CHR 0x27] \<or> take 1 s = [CHR 0x22] \<or> take 1 s = [CHR 0x60] then Some (copy_quoted s)
      else if take 1 s = ''['' then Some (copy_through (CHR '']'') s)
      else if take 2 s = ''--'' then Some (copy_through (CHR 0x0A) s)
      else if take 2 s = ''/*'' then Some (copy_block_comment s)
      else None)"

lemma copy_pairs:
  "copy_quoted s = (a, b) \<Longrightarrow> s \<noteq> [] \<Longrightarrow> a @ b = s \<and> a \<noteq> []"
  "copy_through q s = (a, b) \<Longrightarrow> s \<noteq> [] \<Longrightarrow> a @ b = s \<and> a \<noteq> []"
  "copy_block_comment s = (a, b) \<Longrightarrow> s \<noteq> [] \<Longrightarrow> a @ b = s \<and> a \<noteq> []"
  by (cases s; use copy_nonempty copy_splits(1-3) in \<open>metis fst_conv snd_conv\<close>)+

lemma opaque_at_split: "opaque_at s = Some (a, b) \<Longrightarrow> a @ b = s \<and> a \<noteq> []"
proof (cases "s = []")
  case False
  assume "opaque_at s = Some (a, b)"
  then have "copy_quoted s = (a, b) \<or> copy_through (CHR '']'') s = (a, b)
      \<or> copy_through (CHR 0x0A) s = (a, b) \<or> copy_block_comment s = (a, b)"
    unfolding opaque_at_def by (simp only: option.inject option.distinct split: if_splits) simp_all
  then show ?thesis
    by (elim disjE) (rule copy_pairs [OF _ False]; assumption)+
qed (simp add: opaque_at_def)

lemma opaque_at_shorter: "opaque_at s = Some (a, b) \<Longrightarrow> length b < length s"
  by (drule opaque_at_split) auto

function sql_tokens :: "string \<Rightarrow> sql_token list" where
  "sql_tokens s =
     (case opaque_at s of
        Some (a, b) \<Rightarrow> Opaque_text a # sql_tokens b
      | None \<Rightarrow>
          if take 2 s = ''??'' \<or> take 2 s = [CHR 0x5C, CHR ''?'']
          then Escaped_mark (take 2 s) # sql_tokens (drop 2 s)
          else case s of [] \<Rightarrow> []
            | c # t \<Rightarrow> (if c = CHR ''?'' then Parameter else Other c) # sql_tokens t)"
  by pat_completeness auto
termination
  by (relation "measure length") (auto dest: opaque_at_shorter, (case_tac s; simp)+)

declare sql_tokens.simps [simp del]

fun token_source :: "sql_token \<Rightarrow> string" where
  "token_source (Opaque_text s) = s"
| "token_source (Escaped_mark s) = s"
| "token_source Parameter = ''?''"
| "token_source (Other c) = [c]"

fun bind_tokens :: "(nat \<Rightarrow> string) \<Rightarrow> nat \<Rightarrow> sql_token list \<Rightarrow> string" where
  "bind_tokens mark n [] = []"
| "bind_tokens mark n (Opaque_text s # ts) = s @ bind_tokens mark n ts"
| "bind_tokens mark n (Escaped_mark _ # ts) = CHR ''?'' # bind_tokens mark n ts"
| "bind_tokens mark n (Parameter # ts) = mark n @ bind_tokens mark (n + 1) ts"
| "bind_tokens mark n (Other c # ts) = c # bind_tokens mark n ts"

definition mark_of :: "bool \<Rightarrow> nat \<Rightarrow> string" where
  "mark_of pg n = (if pg then CHR ''$'' # nat_str n else ''?'')"

lemma sql_tokens_Nil: "sql_tokens [] = []"
  by (subst sql_tokens.simps) (simp add: opaque_at_def)

lemma sql_tokens_opaque: "opaque_at s = Some (a, b) \<Longrightarrow> sql_tokens s = Opaque_text a # sql_tokens b"
  by (subst sql_tokens.simps) simp

lemma sql_tokens_mark:
  "opaque_at s = None \<Longrightarrow> take 2 s = ''??'' \<or> take 2 s = [CHR 0x5C, CHR ''?''] \<Longrightarrow>
     sql_tokens s = Escaped_mark (take 2 s) # sql_tokens (drop 2 s)"
  by (subst sql_tokens.simps) auto

lemma sql_tokens_char:
  "opaque_at (c # t) = None \<Longrightarrow> take 2 (c # t) \<noteq> ''??'' \<Longrightarrow> take 2 (c # t) \<noteq> [CHR 0x5C, CHR ''?''] \<Longrightarrow>
     sql_tokens (c # t) = (if c = CHR ''?'' then Parameter else Other c) # sql_tokens t"
  by (subst sql_tokens.simps) (simp del: take_Cons_numeral)

lemma sql_cases:
  obtains (Nil) "s = []"
  | (Opaque) a b where "opaque_at s = Some (a, b)"
  | (Mark) c t where "opaque_at s = None" "c = CHR ''?'' \<or> c = CHR 0x5C" "s = c # CHR ''?'' # t"
  | (Char) c t where "opaque_at s = None" "s = c # t" "take 2 s \<noteq> ''??''" "take 2 s \<noteq> [CHR 0x5C, CHR ''?'']"
proof (cases s)
  case (Cons c t)
  show ?thesis
  proof (cases "opaque_at s")
    case None
    show ?thesis
    proof (cases "take 2 s = ''??'' \<or> take 2 s = [CHR 0x5C, CHR ''?'']")
      case True
      then have "(c = CHR ''?'' \<or> c = CHR 0x5C) \<and> (\<exists>u. t = CHR ''?'' # u)"
        using Cons by (cases t) auto
      with None Cons show ?thesis using Mark by blast
    next
      case False
      with None Cons show ?thesis using Char by blast
    qed
  next
    case (Some ab)
    then show ?thesis using Opaque by (cases ab) blast
  qed
qed (rule Nil)

lemma token_sources: "concat (map token_source (sql_tokens s)) = s"
proof (induction s rule: length_induct)
  case (1 s)
  show ?case
  proof (cases s rule: sql_cases)
    case Nil
    then show ?thesis by (simp add: sql_tokens_Nil)
  next
    case (Opaque a b)
    then show ?thesis
      using 1 opaque_at_shorter [OF Opaque] opaque_at_split [OF Opaque]
      by (simp add: sql_tokens_opaque)
  next
    case (Mark c t)
    then have "sql_tokens s = Escaped_mark (take 2 s) # sql_tokens (drop 2 s)"
      by (intro sql_tokens_mark) auto
    with Mark 1 show ?thesis by simp
  next
    case (Char c t)
    then have "sql_tokens s = (if c = CHR ''?'' then Parameter else Other c) # sql_tokens t"
      using sql_tokens_char by simp
    with Char(2) 1 show ?thesis by simp
  qed
qed

lemma opaque_at_cons:
  "opaque_at (c # s) =
     (if quote_char c then Some (copy_quoted (c # s))
      else if c = CHR ''['' then Some (copy_bracket_identifier (c # s))
      else if c = CHR ''-'' \<and> take 1 s = ''-'' then Some (copy_line_comment (c # s))
      else if c = CHR ''/'' \<and> take 1 s = ''*'' then Some (copy_block_comment (c # s))
      else None)"
proof -
  have "take 2 (c # s) = c # take 1 s" by (simp add: numeral_2_eq_2)
  then show ?thesis
    by (simp only: opaque_at_def quote_char_def copy_bracket_identifier_def copy_line_comment_def
        list.inject take_Suc_Cons One_nat_def take0 simp_thms)
qed

lemma rebind_opaque:
  assumes "opaque_at (c # s) = Some (a, b)"
  shows "rebind_from pg n (c # s) = a @ rebind_from pg n b"
proof -
  have q: "\<not> quote_char (CHR ''['')" "\<not> quote_char (CHR ''-'')" "\<not> quote_char (CHR ''/'')"
    by (simp_all add: quote_char_def)
  consider "quote_char c" "copy_quoted (c # s) = (a, b)"
    | "c = CHR ''[''" "copy_bracket_identifier (c # s) = (a, b)"
    | "c = CHR ''-''" "take 1 s = ''-''" "copy_line_comment (c # s) = (a, b)"
    | "c = CHR ''/''" "take 1 s = ''*''" "copy_block_comment (c # s) = (a, b)"
    using assms unfolding opaque_at_cons
    by (simp only: option.inject option.distinct split: if_split_asm)
  then show ?thesis
    by cases (simp_all add: rebind_from.simps q del: copy_block_comment.simps)
qed

lemma rebind_mark:
  "c = CHR ''?'' \<or> c = CHR 0x5C \<Longrightarrow>
     rebind_from pg n (c # CHR ''?'' # t) = CHR ''?'' # rebind_from pg n t"
  by (subst rebind_from.simps) (auto simp: quote_char_def)

lemma rebind_char:
  assumes "opaque_at (c # t) = None" "take 2 (c # t) \<noteq> ''??''" "take 2 (c # t) \<noteq> [CHR 0x5C, CHR ''?'']"
  shows "rebind_from pg n (c # t) =
    (if c = CHR ''?'' then mark_of pg n @ rebind_from pg (if pg then n + 1 else n) t
     else c # rebind_from pg n t)"
proof -
  have two: "take 2 (c # t) = c # take 1 t" by (simp add: numeral_2_eq_2)
  have "\<not> quote_char c" "c \<noteq> CHR ''[''" "c = CHR ''-'' \<longrightarrow> take 1 t \<noteq> ''-''"
    "c = CHR ''/'' \<longrightarrow> take 1 t \<noteq> ''*''"
    using assms(1) unfolding opaque_at_cons by (auto split: if_split_asm)
  moreover have "c = CHR ''?'' \<longrightarrow> take 1 t \<noteq> ''?''" "c = CHR 0x5C \<longrightarrow> take 1 t \<noteq> ''?''"
    using assms(2,3) unfolding two by blast+
  ultimately show ?thesis
    unfolding rebind_from.simps(2)
    by (cases "c = CHR ''-''"; cases "c = CHR ''/''"; cases "c = CHR ''?''"; cases "c = CHR 0x5C"; cases pg)
      (simp_all add: mark_of_def)
qed

lemma bind_tokens_const: "bind_tokens (\<lambda>_. x) n ts = bind_tokens (\<lambda>_. x) m ts"
proof (induction ts arbitrary: n m)
  case (Cons t ts)
  show ?case
  proof (cases t)
    case Parameter
    then show ?thesis using Cons.IH [of "n + 1" "m + 1"] by simp
  qed (use Cons.IH in simp_all)
qed simp

lemma rebind_from_tokens: "rebind_from pg n s = bind_tokens (mark_of pg) n (sql_tokens s)"
proof (induction s arbitrary: n rule: length_induct)
  case (1 s)
  show ?case
  proof (cases s rule: sql_cases)
    case Nil
    then show ?thesis by (simp add: sql_tokens_Nil)
  next
    case (Opaque a b)
    then obtain c t where "s = c # t" by (cases s) (simp_all add: opaque_at_def)
    with 1 Opaque show ?thesis
      using opaque_at_shorter [OF Opaque] by (simp add: sql_tokens_opaque rebind_opaque)
  next
    case (Mark c t)
    then have "sql_tokens s = Escaped_mark (take 2 s) # sql_tokens t"
      using sql_tokens_mark [of s] by auto
    with Mark 1 show ?thesis by (simp add: rebind_mark)
  next
    case (Char c t)
    then have tk: "sql_tokens s = (if c = CHR ''?'' then Parameter else Other c) # sql_tokens t"
      using sql_tokens_char by simp
    have IH: "rebind_from pg m t = bind_tokens (mark_of pg) m (sql_tokens t)" for m
      using 1 Char(2) by simp
    have "mark_of False = (\<lambda>_. ''?'')" by (simp add: mark_of_def fun_eq_iff)
    then have "bind_tokens (mark_of False) m ts = bind_tokens (mark_of False) k ts" for m k ts
      using bind_tokens_const by simp
    with tk IH Char rebind_char [of c t pg n] show ?thesis
      by (cases pg) (simp_all del: take_Cons_numeral)
  qed
qed



end
