(* ===== verification/Dispatch.thy ===== *)
theory Dispatch
  imports Json
begin

text \<open>
  \<open>packages/dispatch\<close>: the notification that tells runners a target is waiting.  \<open>notification\<close> is the
  struct, with \<open>Validate\<close>, \<open>MessageID\<close>, \<open>Marshal\<close> and \<open>ParseNotification\<close> (of a decoded payload), and the
  configuration checks of \<open>jetstream.go\<close>.  The stream itself is the NATS library's: publishing gives a payload and a
  message identifier to it, and it drops a second message with the same identifier.
\<close>

record notification =
  nt_version :: int
  nt_kind :: string
  nt_target :: string
  nt_exec :: string
  nt_attempt :: int

definition notification_version :: int where "notification_version = 1"

definition notification_kind :: string where "notification_kind = ''execution_target_available''"

datatype notification_error =
  UnsupportedVersion int | UnsupportedKind string | IdsRequired | NegativeAttempt | Undecodable

definition validate_notification :: "notification \<Rightarrow> notification_error option" where
  "validate_notification n =
     (if nt_version n \<noteq> notification_version then Some (UnsupportedVersion (nt_version n))
      else if nt_kind n \<noteq> notification_kind then Some (UnsupportedKind (nt_kind n))
      else if nt_target n = [] \<or> nt_exec n = [] then Some IdsRequired
      else if nt_attempt n < 0 then Some NegativeAttempt
      else None)"

definition message_id :: "notification \<Rightarrow> string" where
  "message_id n = nt_target n @ '':'' @ int_str (nt_attempt n)"

definition notification_json :: "notification \<Rightarrow> json" where
  "notification_json n = JObj
     [(''version'', JInt (nt_version n)), (''kind'', JStr (nt_kind n)), (''target_id'', JStr (nt_target n)),
      (''execution_id'', JStr (nt_exec n)), (''attempt'', JInt (nt_attempt n))]"

definition marshal_notification :: "notification \<Rightarrow> notification_error + string" where
  "marshal_notification n =
     (case validate_notification n of Some e \<Rightarrow> Inl e | None \<Rightarrow> Inr (json_text (notification_json n)))"

text \<open>The payload is given as the struct it decodes to, \<open>None\<close> when \<open>json.Unmarshal\<close> fails.\<close>

definition parse_notification :: "notification option \<Rightarrow> notification_error + notification" where
  "parse_notification decoded =
     (case decoded of
        None \<Rightarrow> Inl Undecodable
      | Some n \<Rightarrow> (case validate_notification n of Some e \<Rightarrow> Inl e | None \<Rightarrow> Inr n))"

definition go_quote :: "string \<Rightarrow> string" where
  "go_quote s = [CHR 0x22] @ concat (map (\<lambda>c. if c = CHR 0x22 \<or> c = CHR 0x5C then [CHR 0x5C, c] else [c]) s) @ [CHR 0x22]"

definition notification_error_text :: "notification_error \<Rightarrow> string" where
  "notification_error_text e =
     (case e of
        UnsupportedVersion v \<Rightarrow> ''unsupported dispatch notification version '' @ int_str v
      | UnsupportedKind k \<Rightarrow> ''unsupported dispatch notification kind '' @ go_quote k
      | IdsRequired \<Rightarrow> ''dispatch notification requires target_id and execution_id''
      | NegativeAttempt \<Rightarrow> ''dispatch notification attempt must not be negative''
      | Undecodable \<Rightarrow> ''decode dispatch notification'')"

text \<open>
  \<open>JetStreamPublisher.Publish\<close>: the error, \<open>None\<close> when the stream has accepted the message.  The stream is
  given a payload and a message identifier.
\<close>

definition publish_notification :: "(string \<Rightarrow> string \<Rightarrow> string option) \<Rightarrow> notification \<Rightarrow> string option" where
  "publish_notification js n =
     (case marshal_notification n of
        Inl e \<Rightarrow> Some (notification_error_text e)
      | Inr payload \<Rightarrow> js payload (message_id n))"

section \<open>Configuration of the stream\<close>

record dispatch_config =
  dc_url :: string
  dc_stream :: string
  dc_subject :: string
  dc_durable :: string
  dc_max_deliver :: int
  dc_ack_wait :: int
  dc_duplicate_window :: int

definition validate_jetstream_config :: "dispatch_config \<Rightarrow> string option" where
  "validate_jetstream_config c =
     (if trim_space (dc_url c) = [] then Some ''NATS_URL is required for JetStream dispatch''
      else if trim_space (dc_stream c) = [] \<or> trim_space (dc_subject c) = [] \<or> trim_space (dc_durable c) = []
        then Some ''JetStream stream, subject, and durable consumer are required''
      else if dc_max_deliver c < 1 \<or> dc_max_deliver c > 20 then Some ''JetStream MaxDeliver must be between 1 and 20''
      else if dc_ack_wait c \<le> 0 \<or> dc_duplicate_window c \<le> 0
        then Some ''JetStream AckWait and DuplicateWindow must be positive''
      else None)"

fun contains_subject :: "string list \<Rightarrow> string \<Rightarrow> bool" where
  "contains_subject [] wanted = False"
| "contains_subject (v # vs) wanted = (if trim_space v = wanted then True else contains_subject vs wanted)"

text \<open>The part of a stream's or consumer's reported configuration that the code compares.\<close>

record stream_info =
  si_work_queue :: bool
  si_file_storage :: bool
  si_duplicates :: int
  si_subjects :: "string list"

definition stream_compatible :: "dispatch_config \<Rightarrow> stream_info \<Rightarrow> bool" where
  "stream_compatible c i \<longleftrightarrow>
     \<not> (\<not> si_work_queue i \<or> \<not> si_file_storage i \<or> si_duplicates i \<noteq> dc_duplicate_window c
        \<or> \<not> contains_subject (si_subjects i) (dc_subject c))"

record consumer_info =
  ci_durable :: string
  ci_deliver_subject :: string
  ci_explicit_ack :: bool
  ci_ack_wait :: int
  ci_max_deliver :: int
  ci_max_ack_pending :: int
  ci_filter_subject :: string

definition consumer_compatible :: "dispatch_config \<Rightarrow> consumer_info \<Rightarrow> bool" where
  "consumer_compatible c i \<longleftrightarrow>
     \<not> (ci_durable i \<noteq> dc_durable c \<or> ci_deliver_subject i \<noteq> [] \<or> \<not> ci_explicit_ack i
        \<or> ci_ack_wait i \<noteq> dc_ack_wait c \<or> ci_max_deliver i \<noteq> dc_max_deliver c \<or> ci_max_ack_pending i \<noteq> 1
        \<or> ci_filter_subject i \<noteq> dc_subject c)"

section \<open>Facts\<close>

lemma validate_notification_None:
  "validate_notification n = None \<longleftrightarrow>
     nt_version n = 1 \<and> nt_kind n = notification_kind \<and> nt_target n \<noteq> [] \<and> nt_exec n \<noteq> [] \<and> 0 \<le> nt_attempt n"
  by (auto simp: validate_notification_def notification_version_def)

lemma last_colon:
  assumes "t @ CHR '':'' # a = t' @ CHR '':'' # a'" "CHR '':'' \<notin> set a" "CHR '':'' \<notin> set a'"
  shows "t = t' \<and> a = a'"
proof -
  let ?P = "\<lambda>c. c \<noteq> CHR '':''"
  have r: "takeWhile ?P (rev (x @ CHR '':'' # y)) = rev y" if "CHR '':'' \<notin> set y" for x y
    by (simp, subst takeWhile_append2) (use that in auto)
  have "rev a = rev a'" using r [OF assms(2), of t] r [OF assms(3), of t'] assms(1) by metis
  then show ?thesis using assms(1) by simp
qed

lemma message_id_inj:
  "message_id m = message_id n \<longleftrightarrow> nt_target m = nt_target n \<and> nt_attempt m = nt_attempt n"
proof -
  have c: "CHR '':'' \<notin> set (int_str i)" for i
    using int_str_chars [of "CHR '':''" i] by (auto simp: is_digit_def code_def)
  show ?thesis
    using last_colon [OF _ c c, of "nt_target m" "nt_attempt m" "nt_target n" "nt_attempt n"]
    by (auto simp: message_id_def int_str_inj)
qed

end
