(* ===== verification/Database.thy ===== *)
theory Database
  imports Runbook Dispatch
begin

text \<open>
  The metadata database of the API (\<open>apps/api/migrate.go\<close>): one record per table row and the record
  \<open>db\<close> of all tables, each a list of rows in insertion order.  A nullable column is an option; a
  status that drives the queue is a datatype, other enumerations are the strings of the source; a time is an
  instant in seconds.  A column that holds the JSON text of a structure is the structure, with \<open>None\<close> for a
  text that does not decode to one; columns that no modelled operation reads are left out.
  \<open>env\<close> is what a request reads from outside: the two clocks (the process's and
  the database's), the random identifiers, the configuration, and \<open>fails\<close>, which says for each
  database statement, by a label for its place in the code and an index for loops, whether it
  returns an error.  The second part is \<open>apps/api/helpers.go\<close>: responses, the hash-chained audit log
  and the execution timeline.
\<close>

section \<open>Rows\<close>

datatype exec_status = ECreated | EQueued | ERunning | ESucceeded | EFailed | ECancelled

datatype target_status = TPending | TRunning | TSucceeded | TFailed | TDeadLetter | TCancelled

definition exec_status_text :: "exec_status \<Rightarrow> string" where
  "exec_status_text s =
     (case s of ECreated \<Rightarrow> ''created'' | EQueued \<Rightarrow> ''queued'' | ERunning \<Rightarrow> ''running''
      | ESucceeded \<Rightarrow> ''succeeded'' | EFailed \<Rightarrow> ''failed'' | ECancelled \<Rightarrow> ''cancelled'')"

definition target_status_text :: "target_status \<Rightarrow> string" where
  "target_status_text s =
     (case s of TPending \<Rightarrow> ''pending'' | TRunning \<Rightarrow> ''running'' | TSucceeded \<Rightarrow> ''succeeded''
      | TFailed \<Rightarrow> ''failed'' | TDeadLetter \<Rightarrow> ''dead_letter'' | TCancelled \<Rightarrow> ''cancelled'')"

record organisation =
  og_id :: string
  og_name :: string

record user =
  us_id :: string
  us_email :: string
  us_display_name :: string
  us_status :: string
  us_external_subject :: "string option"
  us_last_login :: "int option"

record membership =
  mb_org :: string
  mb_user :: string
  mb_role :: string
  mb_status :: string

record server =
  sv_id :: string
  sv_org :: string
  sv_name :: string
  sv_hostname :: "string option"
  sv_public_ip :: "string option"
  sv_private_ip :: "string option"
  sv_ssh_port :: int
  sv_ssh_username :: "string option"
  sv_credential_ref :: "string option"
  sv_host_key :: "string option"
  sv_environment :: string
  sv_provider :: "string option"
  sv_os_name :: "string option"
  sv_os_version :: "string option"
  sv_kernel :: "string option"
  sv_architecture :: "string option"
  sv_status :: string
  sv_last_seen :: "int option"
  sv_last_check :: "int option"
  sv_created_at :: int

record server_tag =
  tg_org :: string
  tg_server :: string
  tg_key :: string
  tg_value :: string

record runner =
  rn_id :: string
  rn_org :: string
  rn_name :: string
  rn_type :: string
  rn_status :: string
  rn_version :: "string option"
  rn_hostname :: "string option"
  rn_platform :: "string option"
  rn_ip :: "string option"
  rn_last_seen :: "int option"
  rn_registered_at :: "int option"
  rn_revoked_at :: "int option"
  rn_created_at :: int

record runner_scope =
  rs_id :: string
  rs_org :: string
  rs_runner :: string
  rs_type :: string
  rs_value :: string

record runner_credential =
  rc_id :: string
  rc_org :: string
  rc_runner :: "string option"
  rc_token_hash :: string
  rc_expires_at :: int
  rc_revoked_at :: "int option"

record api_token =
  at_id :: string
  at_org :: string
  at_user :: string
  at_name :: string
  at_prefix :: string
  at_hash :: string
  at_expires_at :: int
  at_revoked_at :: "int option"
  at_last_used :: "int option"

record execution =
  ex_id :: string
  ex_org :: string
  ex_actor :: string
  ex_actor_role :: string
  ex_delegated_by :: "string option"
  ex_approval_id :: "string option"
  ex_type :: string
  ex_status :: exec_status
  ex_risk :: string
  ex_environment :: string
  ex_reason :: string
  ex_command :: string
  ex_command_preview :: string
  ex_command_hash :: string
  ex_timeout :: int
  ex_requested_at :: int
  ex_started_at :: "int option"
  ex_finished_at :: "int option"
  ex_error :: "string option"
  ex_metadata :: json

record target =
  et_id :: string
  et_org :: string
  et_exec :: string
  et_server :: string
  et_runner :: "string option"
  et_status :: target_status
  et_snapshot :: json
  et_started_at :: "int option"
  et_finished_at :: "int option"
  et_exit_code :: "int option"
  et_stdout_bytes :: nat
  et_stderr_bytes :: nat
  et_stdout :: string
  et_stderr :: string
  et_stdout_artifact :: "string option"
  et_stderr_artifact :: "string option"
  et_lease_id :: "string option"
  et_lease_expires :: "int option"
  et_attempt :: int
  et_max_attempts :: int
  et_next_attempt :: "int option"
  et_error :: "string option"

record receipt =
  rp_org :: string
  rp_exec :: string
  rp_target :: string
  rp_lease :: string
  rp_runner :: string
  rp_hash :: string
  rp_code :: nat
  rp_body :: string

record exec_idem =
  xi_org :: string
  xi_user :: string
  xi_key :: string
  xi_hash :: string
  xi_exec :: string
  xi_body :: string

record runbook_idem =
  ri_org :: string
  ri_user :: string
  ri_key :: string
  ri_hash :: string
  ri_resource_type :: string
  ri_resource_id :: string
  ri_status :: nat
  ri_body :: string

record audit_event =
  au_id :: string
  au_org :: string
  au_actor :: string
  au_actor_type :: string
  au_action :: string
  au_target_type :: string
  au_target_id :: string
  au_result :: string
  au_metadata :: string
  au_occurred_at :: string
  au_previous_hash :: string
  au_event_hash :: string

record runbook_row =
  rb_id :: string
  rb_org :: string
  rb_name :: string
  rb_title :: string
  rb_description :: "string option"
  rb_status :: string
  rb_current_version :: "string option"
  rb_created_by :: string
  rb_created_at :: int

record version_row =
  rv_id :: string
  rv_org :: string
  rv_runbook :: string
  rv_version :: int
  rv_status :: string
  rv_risk :: string
  rv_definition :: "runbook option"
  rv_allowed_roles :: "string list option"
  rv_command_preview :: "string option"
  rv_command_hash :: "string option"
  rv_created_by :: string
  rv_published_by :: "string option"
  rv_published_at :: "int option"

record approval_payload =
  pl_runbook_id :: string
  pl_runbook_name :: string
  pl_target :: string
  pl_command :: string
  pl_risk :: string
  pl_reason :: string
  pl_params :: "(string \<times> string) list option"
  pl_target_ids :: "string list"
  pl_snapshot :: "json list"
  pl_environment :: string
  pl_rollback :: json
  pl_verification :: json
  pl_timeout :: int

record approval =
  ap_id :: string
  ap_org :: string
  ap_requester :: string
  ap_approver :: "string option"
  ap_action :: string
  ap_status :: string
  ap_risk :: string
  ap_reason :: string
  ap_target_type :: string
  ap_target_id :: "string option"
  ap_snapshot :: "json list"
  ap_payload :: "approval_payload option"
  ap_expires_at :: int
  ap_created_at :: int
  ap_decided_at :: "int option"
  ap_note :: "string option"

record exec_event =
  ev_id :: string
  ev_org :: string
  ev_exec :: string
  ev_target :: "string option"
  ev_from :: "string option"
  ev_to :: string
  ev_type :: string
  ev_metadata :: string
  ev_occurred_at :: int

record artifact_record =
  af_id :: string
  af_org :: string
  af_owner_type :: string
  af_owner_id :: string
  af_content_type :: string
  af_size :: int
  af_sha256 :: string
  af_backend :: string

record schedule_row =
  sr_id :: string
  sr_org :: string
  sr_created_by :: string
  sr_name :: string
  sr_runbook_name :: string
  sr_target :: string
  sr_reason :: string
  sr_params :: "(string \<times> string) list option"
  sr_interval :: int
  sr_next_run :: int
  sr_enabled :: bool
  sr_last_run :: "int option"
  sr_last_error :: "string option"

record control_row =
  ct_org :: string
  ct_paused :: bool
  ct_paused_at :: "int option"
  ct_paused_by :: "string option"
  ct_reason :: string

record db =
  organisations :: "organisation list"
  users :: "user list"
  memberships :: "membership list"
  servers :: "server list"
  server_tags :: "server_tag list"
  runners :: "runner list"
  runner_scopes :: "runner_scope list"
  runner_credentials :: "runner_credential list"
  api_tokens :: "api_token list"
  executions :: "execution list"
  execution_targets :: "target list"
  receipts :: "receipt list"
  exec_idems :: "exec_idem list"
  runbook_idems :: "runbook_idem list"
  audit_events :: "audit_event list"
  runbook_rows :: "runbook_row list"
  runbook_versions :: "version_row list"
  approvals :: "approval list"
  execution_events :: "exec_event list"
  artifact_records :: "artifact_record list"
  schedules :: "schedule_row list"
  controls :: "control_row list"

definition empty_db :: db where
  "empty_db = \<lparr>organisations = [], users = [], memberships = [], servers = [], server_tags = [],
     runners = [], runner_scopes = [], runner_credentials = [], api_tokens = [], executions = [],
     execution_targets = [], receipts = [], exec_idems = [], runbook_idems = [], audit_events = [],
     runbook_rows = [], runbook_versions = [], approvals = [], execution_events = [],
     artifact_records = [], schedules = [], controls = []\<rparr>"

section \<open>What a request reads from outside\<close>

text \<open>
  \<open>mac\<close> and \<open>sha_hex\<close> are HMAC-SHA256 and the hexadecimal SHA-256; \<open>redact_text\<close> is
  \<open>redact.Stdout\<close> (a list of regular expressions); \<open>artifact_put\<close> is \<open>None\<close> when no artifact store is
  configured, else the store's \<open>Put\<close>, which returns the stored size and hash or fails; \<open>artifact_get\<close>
  its \<open>Get\<close> (\<open>None\<close> also without a store); \<open>time_text\<close> is how an instant is written in a response;
  \<open>yaml_parse\<close> is the YAML library, with its error text; \<open>approval_expiry\<close> the configured seconds;
  \<open>js_publish\<close> gives a payload and a message identifier to the notification stream (\<open>None\<close> without a dispatcher) and
  returns its error; \<open>error_text\<close> is the database driver's text for the error of a statement.
\<close>

record env =
  go_now :: int
  sql_now :: int
  fails :: "string \<Rightarrow> nat \<Rightarrow> bool"
  short_id :: "string \<Rightarrow> nat \<Rightarrow> string"
  audit_stamp :: "string \<Rightarrow> string"
  mac :: "string \<Rightarrow> string \<Rightarrow> string"
  sha_hex :: "string \<Rightarrow> string"
  redact_text :: "string \<Rightarrow> string"
  signer_key :: "string option"
  artifact_put :: "(string \<Rightarrow> string \<Rightarrow> string \<Rightarrow> (int \<times> string) option) option"
  artifact_backend :: string
  artifact_get :: "string \<Rightarrow> string option"
  new_token :: "string \<Rightarrow> string"
  time_text :: "int \<Rightarrow> string"
  yaml_parse :: "string \<Rightarrow> string + runbook"
  approval_expiry :: int
  js_publish :: "(string \<Rightarrow> string \<Rightarrow> string option) option"
  error_text :: "string \<Rightarrow> string"

section \<open>Responses\<close>

datatype body = JsonBody json | RawBody string

datatype resp = Resp (resp_code: nat) (resp_headers: "(string \<times> string) list") (resp_body: body)

definition reply :: "nat \<Rightarrow> (string \<times> json) list \<Rightarrow> resp" where
  "reply status kvs = Resp status [] (JsonBody (jmap kvs))"

definition write_raw_json :: "nat \<Rightarrow> string \<Rightarrow> resp" where
  "write_raw_json status text = Resp status [] (RawBody text)"

definition err :: "nat \<Rightarrow> string \<Rightarrow> resp" where
  "err status message = reply status [(''error'', JStr message)]"

lemma resp_code_reply [simp]:
  "resp_code (reply c kvs) = c" "resp_code (err c m) = c" "resp_code (write_raw_json c t) = c"
  by (simp_all add: reply_def err_def write_raw_json_def)

section \<open>Helpers\<close>

definition sql_null_string :: "string \<Rightarrow> string option" where
  "sql_null_string s = (if s = [] then None else Some s)"

definition or_empty :: "string option \<Rightarrow> string" where
  "or_empty v = (case v of None \<Rightarrow> [] | Some s \<Rightarrow> s)"

definition hash_cmd :: "env \<Rightarrow> string \<Rightarrow> string" where
  "hash_cmd env cmd = sha_hex env cmd"

definition hash_payload :: "env \<Rightarrow> json \<Rightarrow> string" where
  "hash_payload env v = hash_cmd env (json_text v)"

definition hash_token :: "env \<Rightarrow> string \<Rightarrow> string" where
  "hash_token env token = sha_hex env token"

definition json_string :: "json \<Rightarrow> string" where
  "json_string v = json_text v"

definition valid_idempotency_key :: "string \<Rightarrow> bool" where
  "valid_idempotency_key key \<longleftrightarrow>
     key \<noteq> [] \<and> length key \<le> 128
     \<and> list_all (\<lambda>r. is_lower r \<or> is_upper r \<or> is_digit r
          \<or> r = CHR ''.'' \<or> r = CHR ''_'' \<or> r = CHR ''-'') key"

section \<open>The execution timeline\<close>

definition record_execution_event ::
  "env \<Rightarrow> string \<Rightarrow> nat \<Rightarrow> string \<Rightarrow> string \<Rightarrow> string \<Rightarrow> string \<Rightarrow> string \<Rightarrow> string \<Rightarrow> (string \<times> json) list
     \<Rightarrow> db \<Rightarrow> db option" where
  "record_execution_event env at i org execution_id target_id from_status to_status event_type metadata d =
     (let ev = \<lparr>ev_id = ''evt_'' @ short_id env at i, ev_org = org, ev_exec = execution_id,
            ev_target = sql_null_string target_id, ev_from = sql_null_string from_status,
            ev_to = to_status, ev_type = event_type, ev_metadata = json_text (jmap metadata),
            ev_occurred_at = sql_now env\<rparr>
      in if fails env at i \<or> ev_id ev \<in> ev_id ` set (execution_events d) then None
         else Some (d\<lparr>execution_events := execution_events d @ [ev]\<rparr>))"

section \<open>The audit log\<close>

definition str_less :: "string \<Rightarrow> string \<Rightarrow> bool" where
  "str_less s t \<longleftrightarrow> \<not> str_le t s"

text \<open>\<open>ORDER BY occurred_at, id\<close>.\<close>

definition audit_le :: "audit_event \<Rightarrow> audit_event \<Rightarrow> bool" where
  "audit_le a b \<longleftrightarrow>
     str_less (au_occurred_at a) (au_occurred_at b)
     \<or> au_occurred_at a = au_occurred_at b \<and> str_le (au_id a) (au_id b)"

definition audit_rows :: "string \<Rightarrow> db \<Rightarrow> audit_event list" where
  "audit_rows org d = order_by audit_le (filter (\<lambda>e. au_org e = org) (audit_events d))"

definition audit_event_hash :: "env \<Rightarrow> audit_event \<Rightarrow> string" where
  "audit_event_hash env e = hash_payload env (JObj
     [(''id'', JStr (au_id e)), (''organisation_id'', JStr (au_org e)),
      (''actor_user_id'', JStr (au_actor e)), (''actor_type'', JStr (au_actor_type e)),
      (''action'', JStr (au_action e)), (''target_type'', JStr (au_target_type e)),
      (''target_id'', JStr (au_target_id e)), (''result'', JStr (au_result e)),
      (''metadata'', JStr (au_metadata e)), (''occurred_at'', JStr (au_occurred_at e)),
      (''previous_hash'', JStr (au_previous_hash e))])"

definition latest_audit_hash :: "string \<Rightarrow> db \<Rightarrow> string" where
  "latest_audit_hash org d =
     (case rev (audit_rows org d) of [] \<Rightarrow> [] | e # _ \<Rightarrow> au_event_hash e)"

text \<open>\<open>None\<close> is the error return; a \<open>nil\<close> metadata map is the JSON value null.\<close>

definition write_audit_event_type ::
  "env \<Rightarrow> string \<Rightarrow> string \<Rightarrow> string \<Rightarrow> string \<Rightarrow> string \<Rightarrow> string \<Rightarrow> string \<Rightarrow> string \<Rightarrow> json \<Rightarrow> db \<Rightarrow> db option" where
  "write_audit_event_type env at org actor actor_type action target_type target_id result metadata d =
     (if fails env (''latest_hash:'' @ at) 0 then None
      else
        let e = \<lparr>au_id = ''aud_'' @ short_id env at 0, au_org = org, au_actor = actor,
              au_actor_type = actor_type, au_action = action, au_target_type = target_type,
              au_target_id = target_id, au_result = result, au_metadata = json_text metadata,
              au_occurred_at = audit_stamp env at, au_previous_hash = latest_audit_hash org d,
              au_event_hash = []\<rparr>
        in if fails env at 0 \<or> au_id e \<in> au_id ` set (audit_events d) then None
           else Some (d\<lparr>audit_events := audit_events d @ [e\<lparr>au_event_hash := audit_event_hash env e\<rparr>]\<rparr>))"

definition write_audit_event_tx ::
  "env \<Rightarrow> string \<Rightarrow> string \<Rightarrow> string \<Rightarrow> string \<Rightarrow> string \<Rightarrow> string \<Rightarrow> string \<Rightarrow> json \<Rightarrow> db \<Rightarrow> db option" where
  "write_audit_event_tx env at org actor action target_type target_id result metadata d =
     write_audit_event_type env at org actor ''user'' action target_type target_id result metadata d"

text \<open>Outside a transaction an error is logged and ignored.\<close>

definition write_audit_event ::
  "env \<Rightarrow> string \<Rightarrow> string \<Rightarrow> string \<Rightarrow> string \<Rightarrow> string \<Rightarrow> string \<Rightarrow> string \<Rightarrow> json \<Rightarrow> db \<Rightarrow> db" where
  "write_audit_event env at org actor action target_type target_id result metadata d =
     (case write_audit_event_type env at org actor ''user'' action target_type target_id result metadata d of
        None \<Rightarrow> d | Some d' \<Rightarrow> d')"

text \<open>The loop of \<open>verifyAuditHashChain\<close>: the events checked, and the event it failed at.\<close>

fun verify_chain :: "env \<Rightarrow> string \<Rightarrow> nat \<Rightarrow> audit_event list \<Rightarrow> nat \<times> string option" where
  "verify_chain env previous checked [] = (checked, None)"
| "verify_chain env previous checked (e # es) =
     (if au_previous_hash e \<noteq> previous \<or> au_event_hash e = [] \<or> au_event_hash e \<noteq> audit_event_hash env e
      then (checked, Some (au_id e))
      else verify_chain env (au_event_hash e) (checked + 1) es)"

definition verify_audit_hash_chain :: "env \<Rightarrow> string \<Rightarrow> db \<Rightarrow> nat \<times> string option" where
  "verify_audit_hash_chain env org d = verify_chain env [] 0 (audit_rows org d)"

text \<open>The loop of \<open>backfillAuditHashChain\<close> over the events of all organisations in order.\<close>

fun backfill_chain :: "env \<Rightarrow> (string \<rightharpoonup> string) \<Rightarrow> audit_event list \<Rightarrow> audit_event list" where
  "backfill_chain env prev [] = []"
| "backfill_chain env prev (e # es) =
     (let e' = (if au_event_hash e = []
                then let p = e\<lparr>au_previous_hash := or_empty (prev (au_org e))\<rparr>
                     in p\<lparr>au_event_hash := audit_event_hash env p\<rparr>
                else e)
      in e' # backfill_chain env (prev(au_org e \<mapsto> au_event_hash e')) es)"

section \<open>A concrete environment\<close>

text \<open>For the witnesses: every statement succeeds and the hash function is injective.\<close>

definition sample_env :: env where
  "sample_env = \<lparr>go_now = 1000, sql_now = 1000, fails = (\<lambda>_ _. False), short_id = (\<lambda>at i. at @ nat_str i),
     audit_stamp = (\<lambda>_. ''2026-01-01 00:00:00.000001''), mac = (\<lambda>k m. k @ m), sha_hex = (\<lambda>m. CHR ''h'' # m),
     redact_text = (\<lambda>s. s), signer_key = Some ''0123456789abcdef0123456789abcdef'', artifact_put = None,
     artifact_backend = ''local'', artifact_get = (\<lambda>_. None), new_token = (\<lambda>at. ''token''),
     time_text = int_str, yaml_parse = (\<lambda>_. Inl ''no yaml''), approval_expiry = 0,
     js_publish = None, error_text = (\<lambda>at. ''error in '' @ at)\<rparr>"


definition sample_target :: target where
  "sample_target = \<lparr>et_id = ''t1'', et_org = ''org-1'', et_exec = ''e1'', et_server = ''s1'', et_runner = None,
     et_status = TPending, et_snapshot = JNull, et_started_at = None, et_finished_at = None,
     et_exit_code = None, et_stdout_bytes = 0, et_stderr_bytes = 0, et_stdout = [], et_stderr = [],
     et_stdout_artifact = None, et_stderr_artifact = None, et_lease_id = None, et_lease_expires = None,
     et_attempt = 0, et_max_attempts = 3, et_next_attempt = None, et_error = None\<rparr>"

definition sample_execution :: execution where
  "sample_execution = \<lparr>ex_id = ''e1'', ex_org = ''org-1'', ex_actor = ''u1'', ex_actor_role = ''owner'',
     ex_delegated_by = None, ex_approval_id = None, ex_type = ''raw_command'', ex_status = EQueued,
     ex_risk = ''low'', ex_environment = ''staging'', ex_reason = [], ex_command = ''uptime'',
     ex_command_preview = ''uptime'', ex_command_hash = ''huptime'', ex_timeout = 300, ex_requested_at = 900,
     ex_started_at = None, ex_finished_at = None, ex_error = None, ex_metadata = JObj []\<rparr>"

definition sample_server :: server where
  "sample_server = \<lparr>sv_id = ''s1'', sv_org = ''org-1'', sv_name = ''web'', sv_hostname = Some ''10.0.0.5'',
     sv_public_ip = None, sv_private_ip = None, sv_ssh_port = 22, sv_ssh_username = Some ''deploy'', sv_credential_ref = None,
     sv_host_key = None, sv_environment = ''staging'', sv_provider = None, sv_os_name = None,
     sv_os_version = None, sv_kernel = None,
     sv_architecture = None, sv_status = ''active'', sv_last_seen = None, sv_last_check = None,
     sv_created_at = 0\<rparr>"

definition sample_runner :: runner where
  "sample_runner = \<lparr>rn_id = ''r1'', rn_org = ''org-1'', rn_name = ''runner'',
     rn_type = ''customer_managed'', rn_status = ''active'',
     rn_version = None, rn_hostname = None, rn_platform = None, rn_ip = None, rn_last_seen = None,
     rn_registered_at = None, rn_revoked_at = None, rn_created_at = 0\<rparr>"

definition sample_db :: db where
  "sample_db = empty_db\<lparr>
     organisations := [\<lparr>og_id = ''org-1'', og_name = ''Org''\<rparr>],
     users := [\<lparr>us_id = ''u1'', us_email = ''u1@x'', us_display_name = ''U'', us_status = ''active'',
        us_external_subject = None, us_last_login = None\<rparr>],
     memberships := [\<lparr>mb_org = ''org-1'', mb_user = ''u1'', mb_role = ''owner'', mb_status = ''active''\<rparr>],
     servers := [sample_server],
     runners := [sample_runner],
     runner_scopes := [\<lparr>rs_id = ''rs1'', rs_org = ''org-1'', rs_runner = ''r1'', rs_type = ''all'', rs_value = ''all''\<rparr>],
     runner_credentials := [\<lparr>rc_id = ''rc1'', rc_org = ''org-1'', rc_runner = Some ''r1'',
        rc_token_hash = ''hsecret'', rc_expires_at = 100000, rc_revoked_at = None\<rparr>],
     api_tokens := [\<lparr>at_id = ''pat1'', at_org = ''org-1'', at_user = ''u1'', at_name = ''cli'', at_prefix = ''p'',
        at_hash = ''hpat'', at_expires_at = 100000, at_revoked_at = None, at_last_used = None\<rparr>],
     executions := [sample_execution],
     execution_targets := [sample_target]\<rparr>"


end
