(* ===== verification/AuditLog.thy ===== *)
theory AuditLog
  imports Database Authz
begin

text \<open>
  \<open>apps/api/audit.go\<close> and what the hash chain of \<open>apps/api/helpers.go\<close> guarantees: a new event extends
  a valid chain of its organisation and leaves the chains of the others alone, and two different
  valid histories cannot end in the same hash.
\<close>

section \<open>Handlers\<close>

text \<open>The query string: \<open>actor\<close> and \<open>limit\<close> (already an integer here; SQLite rejects other text).\<close>

definition handle_search_audit :: "env \<Rightarrow> db \<Rightarrow> actor \<Rightarrow> string \<Rightarrow> nat \<Rightarrow> resp" where
  "handle_search_audit env d a actor_filter limit =
     (if fails env ''audit.search'' 0 then err 500 ''query failed''
      else
        let rows = filter (\<lambda>e. au_org e = a_org a \<and> (actor_filter = [] \<or> au_actor e = actor_filter)) (audit_events d);
            sorted = take limit (order_by (\<lambda>x y. str_le (au_occurred_at y) (au_occurred_at x)) rows)
        in reply 200 [(''events'', if sorted = [] then JNull else JArr (map (\<lambda>e. jmap
             [(''id'', JStr (au_id e)), (''organisation_id'', JStr (au_org e)),
              (''actor_id'', JStr (au_actor e)), (''action'', JStr (au_action e)),
              (''target_type'', JStr (au_target_type e)), (''target_id'', JStr (au_target_id e)),
              (''result'', JStr (au_result e)), (''metadata'', JStr (au_metadata e)),
              (''created_at'', JStr (au_occurred_at e))]) sorted))])"

definition handle_verify_audit :: "env \<Rightarrow> db \<Rightarrow> actor \<Rightarrow> resp" where
  "handle_verify_audit env d a =
     (if \<not> is_senior a \<and> to_lower (a_role a) \<noteq> ''auditor'' then
        err 403 ''audit verification requires an auditor or senior operator''
      else if fails env ''audit.verify'' 0 then
        reply 409 [(''valid'', JBool False), (''checked_events'', JInt 0), (''error'', JStr ''query failed'')]
      else case verify_audit_hash_chain env (a_org a) d of
          (n, Some bad) \<Rightarrow> reply 409 [(''valid'', JBool False), (''checked_events'', JInt (int n)),
             (''error'', JStr (''audit chain verification failed at event '' @ bad))]
        | (n, None) \<Rightarrow> reply 200 [(''valid'', JBool True), (''checked_events'', JInt (int n))])"

definition write_denial ::
  "env \<Rightarrow> string \<Rightarrow> actor \<Rightarrow> string \<Rightarrow> string \<Rightarrow> string \<Rightarrow> decision \<Rightarrow> db \<Rightarrow> resp \<times> db" where
  "write_denial env at a action target_type target_id dec d =
     (reply 403 [(''error'', JStr (d_message dec)), (''reason'', JStr (d_reason dec)),
        (''next'', JStr ''Contact your admin or request approval if available.'')],
      write_audit_event env at (a_org a) (a_user_id a) action target_type target_id ''denied''
        (jmap [(''reason'', JStr (d_reason dec)), (''message'', JStr (d_message dec))]) d)"

section \<open>Which tables the log touches\<close>

lemma write_audit_shape:
  "write_audit_event_type env at org actor actor_type action target_type target_id result metadata d = Some d' \<Longrightarrow>
     \<exists>e. d' = d\<lparr>audit_events := audit_events d @ [e]\<rparr> \<and> au_org e = org
       \<and> au_previous_hash e = latest_audit_hash org d \<and> au_event_hash e = audit_event_hash env e
       \<and> au_occurred_at e = audit_stamp env at \<and> au_action e = action \<and> au_result e = result
       \<and> au_actor e = actor \<and> au_target_id e = target_id"
  by (auto simp: write_audit_event_type_def Let_def audit_event_hash_def split: if_splits)

lemma write_audit_tx_shape:
  "write_audit_event_tx env at org actor action target_type target_id result metadata d = Some d' \<Longrightarrow>
     \<exists>es. d' = d\<lparr>audit_events := es\<rparr>"
  unfolding write_audit_event_tx_def by (drule write_audit_shape) blast

lemma write_audit_plain_shape:
  "\<exists>es. write_audit_event env at org actor action target_type target_id result metadata d = d\<lparr>audit_events := es\<rparr>"
proof (cases "write_audit_event_type env at org actor ''user'' action target_type target_id result metadata d")
  case None
  have "d = d\<lparr>audit_events := audit_events d\<rparr>" by simp
  with None show ?thesis by (metis option.simps(4) write_audit_event_def)
next
  case (Some d')
  with write_audit_shape [OF Some] show ?thesis by (auto simp: write_audit_event_def)
qed

lemma record_event_shape:
  "record_execution_event env at i org ex tg fr to ty md d = Some d' \<Longrightarrow>
     \<exists>es. d' = d\<lparr>execution_events := es\<rparr>"
  by (auto simp: record_execution_event_def Let_def split: if_splits)

lemma write_audit_event_tables [simp]:
  "organisations (write_audit_event env at org actor action target_type target_id result metadata d) = organisations d"
  "users (write_audit_event env at org actor action target_type target_id result metadata d) = users d"
  "memberships (write_audit_event env at org actor action target_type target_id result metadata d) = memberships d"
  "servers (write_audit_event env at org actor action target_type target_id result metadata d) = servers d"
  "server_tags (write_audit_event env at org actor action target_type target_id result metadata d) = server_tags d"
  "runners (write_audit_event env at org actor action target_type target_id result metadata d) = runners d"
  "runner_scopes (write_audit_event env at org actor action target_type target_id result metadata d) = runner_scopes d"
  "runner_credentials (write_audit_event env at org actor action target_type target_id result metadata d) = runner_credentials d"
  "api_tokens (write_audit_event env at org actor action target_type target_id result metadata d) = api_tokens d"
  "executions (write_audit_event env at org actor action target_type target_id result metadata d) = executions d"
  "execution_targets (write_audit_event env at org actor action target_type target_id result metadata d) = execution_targets d"
  "receipts (write_audit_event env at org actor action target_type target_id result metadata d) = receipts d"
  "exec_idems (write_audit_event env at org actor action target_type target_id result metadata d) = exec_idems d"
  "runbook_idems (write_audit_event env at org actor action target_type target_id result metadata d) = runbook_idems d"
  "runbook_rows (write_audit_event env at org actor action target_type target_id result metadata d) = runbook_rows d"
  "runbook_versions (write_audit_event env at org actor action target_type target_id result metadata d) = runbook_versions d"
  "approvals (write_audit_event env at org actor action target_type target_id result metadata d) = approvals d"
  "execution_events (write_audit_event env at org actor action target_type target_id result metadata d) = execution_events d"
  "artifact_records (write_audit_event env at org actor action target_type target_id result metadata d) = artifact_records d"
  "schedules (write_audit_event env at org actor action target_type target_id result metadata d) = schedules d"
  "controls (write_audit_event env at org actor action target_type target_id result metadata d) = controls d"
proof -
  obtain es where es: "write_audit_event env at org actor action target_type target_id result metadata d = d\<lparr>audit_events := es\<rparr>"
    using write_audit_plain_shape by blast
  show "organisations (write_audit_event env at org actor action target_type target_id result metadata d) = organisations d"
    "users (write_audit_event env at org actor action target_type target_id result metadata d) = users d"
    "memberships (write_audit_event env at org actor action target_type target_id result metadata d) = memberships d"
    "servers (write_audit_event env at org actor action target_type target_id result metadata d) = servers d"
    "server_tags (write_audit_event env at org actor action target_type target_id result metadata d) = server_tags d"
    "runners (write_audit_event env at org actor action target_type target_id result metadata d) = runners d"
    "runner_scopes (write_audit_event env at org actor action target_type target_id result metadata d) = runner_scopes d"
    "runner_credentials (write_audit_event env at org actor action target_type target_id result metadata d) = runner_credentials d"
    "api_tokens (write_audit_event env at org actor action target_type target_id result metadata d) = api_tokens d"
    "executions (write_audit_event env at org actor action target_type target_id result metadata d) = executions d"
    "execution_targets (write_audit_event env at org actor action target_type target_id result metadata d) = execution_targets d"
    "receipts (write_audit_event env at org actor action target_type target_id result metadata d) = receipts d"
    "exec_idems (write_audit_event env at org actor action target_type target_id result metadata d) = exec_idems d"
    "runbook_idems (write_audit_event env at org actor action target_type target_id result metadata d) = runbook_idems d"
    "runbook_rows (write_audit_event env at org actor action target_type target_id result metadata d) = runbook_rows d"
    "runbook_versions (write_audit_event env at org actor action target_type target_id result metadata d) = runbook_versions d"
    "approvals (write_audit_event env at org actor action target_type target_id result metadata d) = approvals d"
    "execution_events (write_audit_event env at org actor action target_type target_id result metadata d) = execution_events d"
    "artifact_records (write_audit_event env at org actor action target_type target_id result metadata d) = artifact_records d"
    "schedules (write_audit_event env at org actor action target_type target_id result metadata d) = schedules d"
    "controls (write_audit_event env at org actor action target_type target_id result metadata d) = controls d"
    by (simp_all add: es)
qed

lemma write_audit_tx_tables:
  assumes "write_audit_event_tx env at org actor action target_type target_id result metadata d = Some d'"
  shows "organisations d' = organisations d"
    "users d' = users d"
    "memberships d' = memberships d"
    "servers d' = servers d"
    "server_tags d' = server_tags d"
    "runners d' = runners d"
    "runner_scopes d' = runner_scopes d"
    "runner_credentials d' = runner_credentials d"
    "api_tokens d' = api_tokens d"
    "executions d' = executions d"
    "execution_targets d' = execution_targets d"
    "receipts d' = receipts d"
    "exec_idems d' = exec_idems d"
    "runbook_idems d' = runbook_idems d"
    "runbook_rows d' = runbook_rows d"
    "runbook_versions d' = runbook_versions d"
    "approvals d' = approvals d"
    "execution_events d' = execution_events d"
    "artifact_records d' = artifact_records d"
    "schedules d' = schedules d"
    "controls d' = controls d"
  using write_audit_tx_shape [OF assms] by auto

lemma record_event_tables:
  assumes "record_execution_event env at i org ex tg fr to ty md d = Some d'"
  shows "organisations d' = organisations d"
    "users d' = users d"
    "memberships d' = memberships d"
    "servers d' = servers d"
    "server_tags d' = server_tags d"
    "runners d' = runners d"
    "runner_scopes d' = runner_scopes d"
    "runner_credentials d' = runner_credentials d"
    "api_tokens d' = api_tokens d"
    "executions d' = executions d"
    "execution_targets d' = execution_targets d"
    "receipts d' = receipts d"
    "exec_idems d' = exec_idems d"
    "runbook_idems d' = runbook_idems d"
    "runbook_rows d' = runbook_rows d"
    "runbook_versions d' = runbook_versions d"
    "approvals d' = approvals d"
    "artifact_records d' = artifact_records d"
    "schedules d' = schedules d"
    "controls d' = controls d"
    "audit_events d' = audit_events d"
  using record_event_shape [OF assms] by auto

section \<open>The chain\<close>

lemma verify_chain_append:
  "verify_chain env p n (xs @ ys) =
     (case verify_chain env p n xs of
        (m, Some b) \<Rightarrow> (m, Some b)
      | (m, None) \<Rightarrow> verify_chain env (if xs = [] then p else au_event_hash (last xs)) m ys)"
  by (induction env p n xs rule: verify_chain.induct) auto

lemma str_le_refl [simp]: "str_le s s"
  by (induction s) auto

lemma str_le_total: "str_le s t \<or> str_le t s"
  by (induction s t rule: str_le.induct) (auto simp: code_inj [symmetric])

lemma str_le_antisym: "str_le s t \<Longrightarrow> str_le t s \<Longrightarrow> s = t"
proof (induction s t rule: str_le.induct)
  case (1 t)
  then show ?case by (cases t) auto
qed auto

lemma audit_rows_filter_other:
  "au_org e \<noteq> org \<Longrightarrow> audit_rows org (d\<lparr>audit_events := audit_events d @ [e]\<rparr>) = audit_rows org d"
  by (simp add: audit_rows_def)

lemma audit_rows_snoc:
  assumes "au_org e = org"
    "\<forall>x \<in> set (audit_events d). au_org x = org \<longrightarrow> str_less (au_occurred_at x) (au_occurred_at e)"
  shows "audit_rows org (d\<lparr>audit_events := audit_events d @ [e]\<rparr>) = audit_rows org d @ [e]"
  using assms by (auto simp: audit_rows_def audit_le_def intro!: order_by_snoc)

lemma latest_audit_hash_last:
  "latest_audit_hash org d = (if audit_rows org d = [] then [] else au_event_hash (last (audit_rows org d)))"
  by (cases "audit_rows org d" rule: rev_cases) (auto simp: latest_audit_hash_def)

lemma audit_write_chain:
  assumes "verify_audit_hash_chain env org d = (n, None)"
    and "\<forall>x \<in> set (audit_events d). au_org x = org \<longrightarrow> str_less (au_occurred_at x) (audit_stamp env at)"
    and "\<forall>m. sha_hex env m \<noteq> []"
    and "write_audit_event_tx env at org actor action target_type target_id result metadata d = Some d'"
  shows "verify_audit_hash_chain env org d' = (n + 1, None)
    \<and> (\<forall>org'. org' \<noteq> org \<longrightarrow> verify_audit_hash_chain env org' d' = verify_audit_hash_chain env org' d)"
proof -
  obtain e where e: "d' = d\<lparr>audit_events := audit_events d @ [e]\<rparr>" "au_org e = org"
    "au_previous_hash e = latest_audit_hash org d" "au_event_hash e = audit_event_hash env e"
    "au_occurred_at e = audit_stamp env at"
    using write_audit_shape assms(4) unfolding write_audit_event_tx_def by meson
  have rows: "audit_rows org d' = audit_rows org d @ [e]"
    using e assms(2) audit_rows_snoc by simp
  have "au_event_hash e \<noteq> []"
    using e(4) assms(3) by (simp add: audit_event_hash_def hash_payload_def hash_cmd_def)
  then have "verify_audit_hash_chain env org d' = (n + 1, None)"
    using assms(1) e(3,4) by (simp add: verify_audit_hash_chain_def rows verify_chain_append latest_audit_hash_last)
  moreover have "audit_rows org' d' = audit_rows org' d" if "org' \<noteq> org" for org'
    using that e(1,2) audit_rows_filter_other by metis
  ultimately show ?thesis by (simp add: verify_audit_hash_chain_def)
qed


section \<open>Tampering shows\<close>

definition audit_utf8 :: "audit_event \<Rightarrow> bool" where
  "audit_utf8 e \<longleftrightarrow>
     valid_utf8 (au_id e) \<and> valid_utf8 (au_org e) \<and> valid_utf8 (au_actor e) \<and> valid_utf8 (au_actor_type e)
     \<and> valid_utf8 (au_action e) \<and> valid_utf8 (au_target_type e) \<and> valid_utf8 (au_target_id e)
     \<and> valid_utf8 (au_result e) \<and> valid_utf8 (au_metadata e) \<and> valid_utf8 (au_occurred_at e)
     \<and> valid_utf8 (au_previous_hash e)"

text \<open>The text that is hashed for an event.\<close>

definition audit_text :: "audit_event \<Rightarrow> string" where
  "audit_text e = json_text (JObj
     [(''id'', JStr (au_id e)), (''organisation_id'', JStr (au_org e)),
      (''actor_user_id'', JStr (au_actor e)), (''actor_type'', JStr (au_actor_type e)),
      (''action'', JStr (au_action e)), (''target_type'', JStr (au_target_type e)),
      (''target_id'', JStr (au_target_id e)), (''result'', JStr (au_result e)),
      (''metadata'', JStr (au_metadata e)), (''occurred_at'', JStr (au_occurred_at e)),
      (''previous_hash'', JStr (au_previous_hash e))])"

lemma audit_event_hash_text: "audit_event_hash env e = sha_hex env (audit_text e)"
  by (simp add: audit_event_hash_def audit_text_def hash_payload_def hash_cmd_def)

lemma json_str_append_eq:
  "valid_utf8 s \<Longrightarrow> valid_utf8 t \<Longrightarrow> json_str s @ r = json_str t @ r' \<longleftrightarrow> s = t \<and> r = r'"
  using json_str_inj by blast

lemma json_str_eq0: "valid_utf8 s \<Longrightarrow> valid_utf8 t \<Longrightarrow> json_str s = json_str t \<longleftrightarrow> s = t"
  using json_str_append_eq [of s t "[]" "[]"] by simp

lemma audit_text_inj:
  assumes "audit_utf8 a" "audit_utf8 b" "audit_text a = audit_text b" "au_event_hash a = au_event_hash b"
  shows "a = b"
proof -
  note u = assms(1,2) [unfolded audit_utf8_def]
  have "audit_event.truncate a = audit_event.truncate b"
    using assms(3,4) by (simp add: audit_text_def json_str_append_eq json_str_eq0 u audit_event.defs)
  then show ?thesis by (simp add: audit_event.defs)
qed

lemma verify_chain_snoc:
  "verify_chain env [] 0 (xs @ [e]) = (n, None) \<longleftrightarrow>
     (\<exists>m. n = Suc m \<and> verify_chain env [] 0 xs = (m, None)
        \<and> au_previous_hash e = (if xs = [] then [] else au_event_hash (last xs))
        \<and> au_event_hash e \<noteq> [] \<and> au_event_hash e = audit_event_hash env e)"
  by (auto simp: verify_chain_append split: prod.splits option.splits if_splits)

definition chain_end :: "audit_event list \<Rightarrow> string" where
  "chain_end xs = (if xs = [] then [] else au_event_hash (last xs))"

lemma chain_unique:
  assumes "verify_chain env [] 0 xs = (n, None)" "verify_chain env [] 0 ys = (m, None)"
    and "\<forall>e \<in> set (xs @ ys). audit_utf8 e"
    and "inj_on (sha_hex env) (audit_text ` set (xs @ ys))"
    and "chain_end xs = chain_end ys"
  shows "xs = ys"
  using assms
proof (induction xs arbitrary: ys n m rule: rev_induct)
  case Nil
  show ?case
  proof (cases ys rule: rev_cases)
    case (snoc ys' e)
    with Nil show ?thesis by (auto simp: chain_end_def verify_chain_snoc)
  qed simp
next
  case (snoc a xs)
  show ?case
  proof (cases ys rule: rev_cases)
    case Nil
    with snoc.prems show ?thesis by (auto simp: chain_end_def verify_chain_snoc)
  next
    case ys: (snoc ys' b)
    from snoc.prems(1,2) ys obtain k l where
      xs': "verify_chain env [] 0 xs = (k, None)" and ys': "verify_chain env [] 0 ys' = (l, None)"
      and prev: "au_previous_hash a = chain_end xs" "au_previous_hash b = chain_end ys'"
      and hash: "au_event_hash a = audit_event_hash env a" "au_event_hash b = audit_event_hash env b"
      by (auto simp: verify_chain_snoc chain_end_def)
    have same: "au_event_hash a = au_event_hash b"
      using snoc.prems(5) ys by (simp add: chain_end_def)
    then have "audit_text a = audit_text b"
      using hash snoc.prems(4) ys by (auto simp: audit_event_hash_text dest!: inj_onD)
    then have "a = b"
      using snoc.prems(3) ys same by (intro audit_text_inj) auto
    moreover have "xs = ys'"
    proof (rule snoc.IH [OF xs' ys'])
      show "\<forall>e \<in> set (xs @ ys'). audit_utf8 e" using snoc.prems(3) ys by auto
      show "inj_on (sha_hex env) (audit_text ` set (xs @ ys'))"
        using snoc.prems(4) ys by (auto intro: inj_on_subset)
      show "chain_end xs = chain_end ys'" using prev \<open>a = b\<close> by simp
    qed
    ultimately show ?thesis using ys by simp
  qed
qed

text \<open>
  C28: the audit chain is tamper-evident: if the histories of an organisation in two databases both
  verify and end in the same hash, then they are the same events with the same contents, in the same
  order, unless SHA-256 collides on two of their entries.  In particular no event can be
  altered, inserted, dropped or reordered once the last hash is known.
\<close>

theorem audit_tamper_evident:
  assumes "verify_audit_hash_chain env org d = (n, None)" "verify_audit_hash_chain env org d' = (m, None)"
    and "\<forall>e \<in> set (audit_rows org d @ audit_rows org d'). audit_utf8 e"
    and "inj_on (sha_hex env) (audit_text ` set (audit_rows org d @ audit_rows org d'))"
    and "latest_audit_hash org d = latest_audit_hash org d'"
  shows "audit_rows org d = audit_rows org d'"
proof (rule chain_unique)
  show "verify_chain env [] 0 (audit_rows org d) = (n, None)"
    "verify_chain env [] 0 (audit_rows org d') = (m, None)"
    using assms(1,2) by (simp_all add: verify_audit_hash_chain_def)
  show "chain_end (audit_rows org d) = chain_end (audit_rows org d')"
    using assms(5) by (simp add: chain_end_def latest_audit_hash_last)
qed (use assms in auto)

definition sample_log :: db where
  "sample_log = write_audit_event sample_env ''a'' ''org-1'' ''u1'' ''server.created'' ''server'' ''s1'' ''success'' JNull empty_db"

lemma sample_log_written:
  "write_audit_event_tx sample_env ''a'' ''org-1'' ''u1'' ''server.created'' ''server'' ''s1'' ''success'' JNull empty_db
     = Some sample_log"
  by (simp add: sample_log_def write_audit_event_def write_audit_event_tx_def write_audit_event_type_def
      sample_env_def empty_db_def Let_def)


lemma sample_log_chain: "verify_audit_hash_chain sample_env ''org-1'' sample_log = (1, None)"
proof -
  have "verify_audit_hash_chain sample_env ''org-1'' empty_db = (0, None)"
    by (simp add: verify_audit_hash_chain_def audit_rows_def empty_db_def order_by_def)
  then show ?thesis
    using audit_write_chain [OF _ _ _ sample_log_written, of 0] by (simp add: empty_db_def sample_env_def)
qed

text \<open>The same history beside another organisation's.\<close>

definition sample_log2 :: db where
  "sample_log2 = sample_log\<lparr>audit_events := audit_events sample_log @
     [\<lparr>au_id = ''aud_b'', au_org = ''org-2'', au_actor = ''u2'', au_actor_type = ''user'', au_action = ''server.created'',
       au_target_type = ''server'', au_target_id = ''s2'', au_result = ''success'', au_metadata = ''null'',
       au_occurred_at = ''2026-01-01 00:00:00.000002'', au_previous_hash = [], au_event_hash = ''h''\<rparr>]\<rparr>"

lemma sample_log2_rows: "audit_rows ''org-1'' sample_log2 = audit_rows ''org-1'' sample_log"
  by (simp add: sample_log2_def audit_rows_filter_other)

lemma sample_log_rows: "\<exists>h. audit_rows ''org-1'' sample_log =
   [\<lparr>au_id = ''aud_a0'', au_org = ''org-1'', au_actor = ''u1'', au_actor_type = ''user'', au_action = ''server.created'',
     au_target_type = ''server'', au_target_id = ''s1'', au_result = ''success'', au_metadata = ''null'',
     au_occurred_at = ''2026-01-01 00:00:00.000001'', au_previous_hash = [], au_event_hash = h\<rparr>]"
  by (simp add: sample_log_def write_audit_event_def write_audit_event_type_def Let_def audit_rows_def order_by_def
      sample_env_def empty_db_def latest_audit_hash_def) code_simp

theorem audit_tamper_evident_witness: "audit_rows ''org-1'' sample_log = audit_rows ''org-1'' sample_log2"
proof (rule audit_tamper_evident [OF sample_log_chain])
  show "verify_audit_hash_chain sample_env ''org-1'' sample_log2 = (1, None)"
    using sample_log_chain by (simp add: verify_audit_hash_chain_def sample_log2_rows)
  have "audit_utf8 e" if "e \<in> set (audit_rows ''org-1'' sample_log)" for e
  proof -
    have "valid_utf8 ''aud_a0'' \<and> valid_utf8 ''org-1'' \<and> valid_utf8 ''u1'' \<and> valid_utf8 ''user'' \<and> valid_utf8 ''server.created''
      \<and> valid_utf8 ''server'' \<and> valid_utf8 ''s1'' \<and> valid_utf8 ''success'' \<and> valid_utf8 ''null''
      \<and> valid_utf8 ''2026-01-01 00:00:00.000001'' \<and> valid_utf8 []" by code_simp
    then show ?thesis using that sample_log_rows by (auto simp: audit_utf8_def)
  qed
  then show "\<forall>e \<in> set (audit_rows ''org-1'' sample_log @ audit_rows ''org-1'' sample_log2). audit_utf8 e"
    by (auto simp: sample_log2_rows)
  show "inj_on (sha_hex sample_env) (audit_text ` set (audit_rows ''org-1'' sample_log @ audit_rows ''org-1'' sample_log2))"
    by (simp add: inj_on_def sample_env_def)
  show "latest_audit_hash ''org-1'' sample_log = latest_audit_hash ''org-1'' sample_log2"
    by (simp add: latest_audit_hash_def sample_log2_rows)
qed

end
