(* ===== verification/Auth.thy ===== *)
theory Auth
  imports AuditLog
begin

text \<open>
  \<open>apps/api/auth.go\<close>, \<open>auth_external.go\<close>, \<open>tenant_context.go\<close> and \<open>authz.ResolveDevUser\<close>: how a request gets an
  actor and how a runner credential gets a tenant.  Headers and environment variables
  are records; a handler is a function from the actor and the database to a response and the
  database, and \<open>with_auth\<close> composes it with the identity checks.  The tenant binding only matters for
  PostgreSQL with row-level security, where it may fail: \<open>fails env ''tenant''\<close>.
\<close>

section \<open>Headers and configuration\<close>

record headers =
  h_authorization :: string
  h_internal_secret :: string
  h_oidc_subject :: string
  h_oidc_email :: string
  h_user :: string
  h_runner_token :: string
  h_idempotency_key :: string

record auth_config =
  cfg_shared_secret :: string
  cfg_dev_auth :: string
  cfg_production :: bool

definition dev_auth_enabled :: "auth_config \<Rightarrow> bool" where
  "dev_auth_enabled cfg =
     (if \<not> equal_fold (trim_space (cfg_dev_auth cfg)) ''true'' then False else \<not> cfg_production cfg)"

definition secure_string_equal :: "string \<Rightarrow> string \<Rightarrow> bool" where
  "secure_string_equal got want =
     (if got = [] \<or> want = [] \<or> length got \<noteq> length want then False else got = want)"

definition bearer_token :: "headers \<Rightarrow> string" where
  "bearer_token h =
     (let value = trim_space (h_authorization h)
      in if length value < length ''Bearer '' \<or> \<not> equal_fold (take (length ''Bearer '') value) ''Bearer ''
         then [] else trim_space (drop (length ''Bearer '') value))"

definition validate_auth_config :: "auth_config \<Rightarrow> string option" where
  "validate_auth_config cfg =
     (if \<not> cfg_production cfg then None
      else if dev_auth_enabled cfg then Some ''VPS_DEV_AUTH must be disabled in production''
      else if length (cfg_shared_secret cfg) < 32
        then Some ''VPS_WEB_SHARED_SECRET must be at least 32 characters in production''
      else None)"

definition bind_tenant_connection :: "env \<Rightarrow> string \<Rightarrow> bool" where
  "bind_tenant_connection env org = (\<not> fails env (''tenant:'' @ org) 0)"

section \<open>Actors\<close>

definition actor_of :: "user \<Rightarrow> membership \<Rightarrow> actor" where
  "actor_of u m = \<lparr>a_user_id = us_id u, a_email = us_email u, a_display_name = us_display_name u,
     a_org = mb_org m, a_role = mb_role m\<rparr>"

text \<open>SQL's \<open>LIKE\<close>: per cent for any bytes, underscore for one, letters without case.\<close>

fun sql_like :: "string \<Rightarrow> string \<Rightarrow> bool" where
  "sql_like [] s = (s = [])"
| "sql_like (p # ps) [] = (p = CHR ''%'' \<and> sql_like ps [])"
| "sql_like (p # ps) (c # s) =
     (if p = CHR ''%'' then sql_like ps (c # s) \<or> sql_like (p # ps) s
      else (p = CHR ''_'' \<or> lower_char p = lower_char c) \<and> sql_like ps s)"

text \<open>\<open>users JOIN memberships\<close>, both active.\<close>

definition active_members :: "db \<Rightarrow> (user \<times> membership) list" where
  "active_members d =
     concat (map (\<lambda>u. map (\<lambda>m. (u, m))
        (filter (\<lambda>m. mb_user m = us_id u \<and> mb_status m = ''active'') (memberships d)))
       (filter (\<lambda>u. us_status u = ''active'') (users d)))"

definition resolve_dev_user :: "env \<Rightarrow> db \<Rightarrow> string \<Rightarrow> actor option" where
  "resolve_dev_user env d user_id =
     (if user_id = [] then None
      else case (if fails env ''dev_user.id'' 0 then []
                 else filter (\<lambda>(u, m). us_id u = user_id) (active_members d)) of
          (u, m) # _ \<Rightarrow> Some (actor_of u m)
        | [] \<Rightarrow>
            (case (if fails env ''dev_user.email'' 0 then []
                   else filter (\<lambda>(u, m). sql_like (user_id @ ''%'') (us_email u)) (active_members d)) of
               (u, m) # _ \<Rightarrow> Some (actor_of u m)
             | [] \<Rightarrow> None))"

definition resolve_api_token_actor :: "env \<Rightarrow> string \<Rightarrow> db \<Rightarrow> actor option \<times> db" where
  "resolve_api_token_actor env token d =
     (if token = [] then (None, d)
      else
        let hash = hash_token env token;
            rows = (if fails env ''api_token.select'' 0 then []
              else concat (map (\<lambda>t. filter (\<lambda>(u, m). us_id u = at_user t \<and> mb_org m = at_org t) (active_members d))
                (filter (\<lambda>t. at_hash t = hash \<and> at_revoked_at t = None \<and> at_expires_at t > sql_now env)
                  (api_tokens d))))
        in case rows of
             [] \<Rightarrow> (None, d)
           | (u, m) # _ \<Rightarrow>
               (Some (actor_of u m),
                if fails env ''api_token.touch'' 0 then d
                else d\<lparr>api_tokens := update_where (\<lambda>t. at_hash t = hash \<and> at_revoked_at t = None)
                       (\<lambda>t. t\<lparr>at_last_used := Some (sql_now env)\<rparr>) (api_tokens d)\<rparr>))"

definition resolve_external_actor :: "env \<Rightarrow> string \<Rightarrow> string \<Rightarrow> db \<Rightarrow> actor option \<times> db" where
  "resolve_external_actor env subject email d =
     (let subject = trim_space subject; email = to_lower (trim_space email)
      in if subject = [] \<or> email = [] then (None, d)
         else case (if fails env ''external.subject'' 0 then []
                    else filter (\<lambda>u. us_external_subject u = Some subject \<and> us_status u = ''active'') (users d)) of
             u # _ \<Rightarrow>
               let d' = (if fails env ''external.touch'' 0 then d
                     else d\<lparr>users := update_where (\<lambda>x. us_id x = us_id u)
                            (\<lambda>x. x\<lparr>us_last_login := Some (sql_now env)\<rparr>) (users d)\<rparr>)
               in (resolve_dev_user env d' (us_id u), d')
           | [] \<Rightarrow>
               (case (if fails env ''external.email'' 0 then []
                      else filter (\<lambda>u. us_email u = email \<and> us_status u = ''active''
                              \<and> (us_external_subject u = None \<or> us_external_subject u = Some [])) (users d)) of
                  [] \<Rightarrow> (None, d)
                | u # _ \<Rightarrow>
                    if fails env ''external.bind'' 0 then (None, d)
                    else
                      let d' = d\<lparr>users := update_where (\<lambda>x. us_id x = us_id u)
                           (\<lambda>x. x\<lparr>us_external_subject := Some subject, us_last_login := Some (sql_now env)\<rparr>) (users d)\<rparr>
                      in (resolve_dev_user env d' (us_id u), d')))"

text \<open>The identity part of \<open>withAuth\<close>: an error response or the actor.\<close>

definition authenticate :: "env \<Rightarrow> auth_config \<Rightarrow> headers \<Rightarrow> db \<Rightarrow> (resp + actor) \<times> db" where
  "authenticate env cfg h d =
     (let bearer = bearer_token h
      in if bearer \<noteq> [] then
           (case resolve_api_token_actor env bearer d of
              (None, d') \<Rightarrow> (Inl (err 401 ''invalid or expired API token''), d')
            | (Some a, d') \<Rightarrow> (Inr a, d'))
         else if cfg_shared_secret cfg \<noteq> [] \<and> secure_string_equal (h_internal_secret h) (cfg_shared_secret cfg) then
           (case resolve_external_actor env (h_oidc_subject h) (h_oidc_email h) d of
              (None, d') \<Rightarrow> (Inl (err 401 ''OIDC identity is not provisioned''), d')
            | (Some a, d') \<Rightarrow> (Inr a, d'))
         else if \<not> dev_auth_enabled cfg then (Inl (err 401 ''authentication required''), d)
         else if trim_space (h_user h) = [] then (Inl (err 401 ''authentication required''), d)
         else case resolve_dev_user env d (h_user h) of
             None \<Rightarrow> (Inl (err 401 (''authentication failed: user not found or inactive: '' @ h_user h)), d)
           | Some a \<Rightarrow> (Inr a, d))"

definition with_auth ::
  "env \<Rightarrow> auth_config \<Rightarrow> headers \<Rightarrow> (actor \<Rightarrow> db \<Rightarrow> resp \<times> db) \<Rightarrow> db \<Rightarrow> resp \<times> db" where
  "with_auth env cfg h handler d =
     (case authenticate env cfg h d of
        (Inl r, d') \<Rightarrow> (r, d')
      | (Inr a, d') \<Rightarrow>
          if \<not> bind_tenant_connection env (a_org a)
          then (err 500 ''tenant database context unavailable'', d')
          else handler a d')"

section \<open>Runner credentials\<close>

datatype runner_auth_error =
    CredentialRequired | CredentialInvalid | TenantUnavailable | CredentialRevoked
  | BoundCredentialRequired | RunnerIdRequired | BoundToOther

definition runner_auth_message :: "runner_auth_error \<Rightarrow> string" where
  "runner_auth_message e =
     (case e of
        CredentialRequired \<Rightarrow> ''runner registration credential required''
      | CredentialInvalid \<Rightarrow> ''invalid or expired runner registration credential''
      | TenantUnavailable \<Rightarrow> ''set PostgreSQL tenant context''
      | CredentialRevoked \<Rightarrow> ''runner credential is no longer valid''
      | BoundCredentialRequired \<Rightarrow>
          ''this endpoint requires a runner-bound credential; register the runner first''
      | RunnerIdRequired \<Rightarrow> ''runner_id is required''
      | BoundToOther \<Rightarrow> ''runner credential is bound to a different runner'')"

definition authenticate_runner_credential ::
  "env \<Rightarrow> db \<Rightarrow> string \<Rightarrow> runner_auth_error + string \<times> string" where
  "authenticate_runner_credential env d token =
     (if token = [] then Inl CredentialRequired
      else case (if fails env ''credential.select'' 0 then []
                 else filter (\<lambda>c. rc_token_hash c = hash_token env token \<and> rc_revoked_at c = None
                        \<and> rc_expires_at c > sql_now env) (runner_credentials d)) of
          [] \<Rightarrow> Inl CredentialInvalid
        | c # _ \<Rightarrow>
            let org = rc_org c; runner_id = or_empty (rc_runner c)
            in if runner_id \<noteq> [] then
                 (if \<not> bind_tenant_connection env org then Inl TenantUnavailable
                  else case (if fails env ''credential.runner'' 0 then []
                             else filter (\<lambda>r. rn_id r = runner_id \<and> rn_org r = org) (runners d)) of
                      [] \<Rightarrow> Inl CredentialRevoked
                    | r # _ \<Rightarrow> if rn_status r = ''revoked'' then Inl CredentialRevoked else Inr (org, runner_id))
               else Inr (org, runner_id))"

definition authenticate_runner_registration :: "env \<Rightarrow> db \<Rightarrow> string \<Rightarrow> runner_auth_error + string" where
  "authenticate_runner_registration env d token =
     (case authenticate_runner_credential env d token of Inl e \<Rightarrow> Inl e | Inr (org, _) \<Rightarrow> Inr org)"

definition authenticate_bound_runner ::
  "env \<Rightarrow> db \<Rightarrow> string \<Rightarrow> string \<Rightarrow> runner_auth_error + string" where
  "authenticate_bound_runner env d token requested =
     (case authenticate_runner_credential env d token of
        Inl e \<Rightarrow> Inl e
      | Inr (org, credential_runner) \<Rightarrow>
          if credential_runner = [] then Inl BoundCredentialRequired
          else if requested = [] then Inl RunnerIdRequired
          else if credential_runner \<noteq> requested then Inl BoundToOther
          else Inr org)"

section \<open>Handlers\<close>

definition handle_who_am_i :: "env \<Rightarrow> db \<Rightarrow> actor \<Rightarrow> resp" where
  "handle_who_am_i env d a =
     (let org_name = (if fails env ''whoami'' 0 then []
          else case filter (\<lambda>o'. og_id o' = a_org a) (organisations d) of [] \<Rightarrow> [] | o' # _ \<Rightarrow> og_name o')
      in reply 200 [(''user_id'', JStr (a_user_id a)), (''email'', JStr (a_email a)),
           (''name'', JStr (a_display_name a)), (''organisation_id'', JStr (a_org a)),
           (''organisation'', JStr org_name), (''role'', JStr (a_role a))])"

record token_request =
  tq_user_id :: string
  tq_name :: string
  tq_expires_in :: int

text \<open>A request body is \<open>None\<close> when it does not decode.\<close>

definition handle_create_api_token ::
  "env \<Rightarrow> actor \<Rightarrow> token_request option \<Rightarrow> db \<Rightarrow> resp \<times> db" where
  "handle_create_api_token env a body d =
     (if \<not> is_privileged a then (err 403 ''API token management requires a privileged role'', d)
      else case body of
          None \<Rightarrow> (err 400 ''invalid request body'', d)
        | Some q \<Rightarrow>
            let user_id = (if trim_space (tq_user_id q) = [] then a_user_id a else tq_user_id q);
                name = (if tq_name q = [] then ''cli-token'' else tq_name q);
                expires_in = (if tq_expires_in q = 0 then 30 * 24 * 60 * 60 else tq_expires_in q)
            in if length name > 100 then (err 400 ''name must be 100 characters or fewer'', d)
               else if expires_in < 60 \<or> expires_in > 90 * 24 * 60 * 60
                 then (err 400 ''expires_in must be between 60 seconds and 90 days'', d)
               else if fails env ''token.user'' 0
                   \<or> (\<forall>(u, m) \<in> set (active_members d). \<not> (us_id u = user_id \<and> mb_org m = a_org a))
                 then (err 400 ''user is not an active member of your organisation'', d)
               else
                 let token = new_token env ''token.new''
                 in if token = [] then (err 500 ''failed to generate API token'', d)
                    else
                      let expires_at = go_now env + expires_in;
                          token_id = ''pat_'' @ short_id env ''token.id'' 0;
                          row = \<lparr>at_id = token_id, at_org = a_org a, at_user = user_id, at_name = name,
                            at_prefix = take 8 token, at_hash = hash_token env token,
                            at_expires_at = expires_at, at_revoked_at = None, at_last_used = None\<rparr>
                      in if fails env ''token.insert'' 0 \<or> token_id \<in> at_id ` set (api_tokens d)
                           \<or> at_hash row \<in> at_hash ` set (api_tokens d)
                         then (err 500 ''failed to create API token'', d)
                         else
                           (reply 201 [(''token_id'', JStr token_id), (''token'', JStr token),
                              (''user_id'', JStr user_id), (''organisation_id'', JStr (a_org a)),
                              (''expires_at'', JStr (time_text env expires_at))],
                            write_audit_event env ''token.audit'' (a_org a) (a_user_id a) ''auth.token.created''
                              ''api_token'' token_id ''success''
                              (jmap [(''user_id'', JStr user_id), (''name'', JStr name),
                                 (''token_prefix'', JStr (take 8 token)), (''expires_at'', JStr (time_text env expires_at))])
                              (d\<lparr>api_tokens := api_tokens d @ [row]\<rparr>)))"

definition handle_revoke_api_token :: "env \<Rightarrow> actor \<Rightarrow> string \<Rightarrow> db \<Rightarrow> resp \<times> db" where
  "handle_revoke_api_token env a token_id d =
     (if \<not> is_privileged a then (err 403 ''API token management requires a privileged role'', d)
      else if token_id = [] \<or> CHR ''/'' \<in> set token_id then (err 400 ''invalid token id'', d)
      else if fails env ''token.revoke'' 0 then (err 500 ''failed to revoke API token'', d)
      else
        let P = (\<lambda>t. at_id t = token_id \<and> at_org t = a_org a \<and> at_revoked_at t = None)
        in if count_where P (api_tokens d) = 0 then (err 404 ''active API token not found'', d)
           else (reply 200 [(''token_id'', JStr token_id), (''status'', JStr ''revoked'')],
             write_audit_event env ''token.revoke.audit'' (a_org a) (a_user_id a) ''auth.token.revoked''
               ''api_token'' token_id ''success'' JNull
               (d\<lparr>api_tokens := update_where P (\<lambda>t. t\<lparr>at_revoked_at := Some (sql_now env)\<rparr>) (api_tokens d)\<rparr>)))"

section \<open>An authenticated actor is provisioned\<close>

text \<open>An actor read from an active user and an active membership of that user.\<close>

definition provisioned :: "db \<Rightarrow> actor \<Rightarrow> bool" where
  "provisioned d a \<longleftrightarrow>
     (\<exists>u \<in> set (users d). \<exists>m \<in> set (memberships d).
        us_status u = ''active'' \<and> mb_status m = ''active'' \<and> mb_user m = us_id u
        \<and> a_user_id a = us_id u \<and> a_org a = mb_org m \<and> a_role a = mb_role m)"

lemma active_members_provisioned: "(u, m) \<in> set (active_members d) \<Longrightarrow> provisioned d (actor_of u m)"
  unfolding active_members_def provisioned_def actor_of_def by fastforce

lemma Cons_mem: "filter P xs = y # ys \<Longrightarrow> y \<in> set xs \<and> P y"
  by (metis filter_eq_ConsD in_set_conv_decomp)

lemma resolve_dev_user_provisioned: "resolve_dev_user env d u = Some a \<Longrightarrow> provisioned d a"
  by (auto simp: resolve_dev_user_def active_members_provisioned dest!: Cons_mem
      split: if_splits list.splits)

lemma provisioned_tokens [simp]: "provisioned (d\<lparr>api_tokens := ts\<rparr>) a = provisioned d a"
  by (simp add: provisioned_def)

lemma resolve_api_token_provisioned:
  "resolve_api_token_actor env token d = (Some a, d') \<Longrightarrow> provisioned d' a"
proof -
  assume r: "resolve_api_token_actor env token d = (Some a, d')"
  let ?rows = "if fails env ''api_token.select'' 0 then []
    else concat (map (\<lambda>t. filter (\<lambda>(u, m). us_id u = at_user t \<and> mb_org m = at_org t) (active_members d))
      (filter (\<lambda>t. at_hash t = hash_token env token \<and> at_revoked_at t = None \<and> at_expires_at t > sql_now env)
        (api_tokens d)))"
  from r obtain u m rest where "?rows = (u, m) # rest" and a: "a = actor_of u m"
    and d': "\<exists>ts. d' = d\<lparr>api_tokens := ts\<rparr>"
  proof (cases ?rows)
    case Nil
    with r show ?thesis
      by (simp only: resolve_api_token_actor_def Let_def list.case split: if_split_asm)
        (simp_all only: prod.inject option.distinct simp_thms)
  next
    case (Cons x rest)
    have same: "\<exists>ts. d = d\<lparr>api_tokens := ts\<rparr>" by (rule exI [of _ "api_tokens d"]) simp
    obtain u m where x: "x = (u, m)" by fastforce
    from r Cons show ?thesis
      by (intro that [of u m rest])
        (use x same in \<open>auto simp only: resolve_api_token_actor_def Let_def list.case prod.case
           prod.inject option.inject option.distinct split: if_split_asm\<close>)
  qed
  then have "(u, m) \<in> set ?rows" by (simp only: list.set_intros)
  then have "(u, m) \<in> set (active_members d)" by (auto split: if_splits)
  with a d' show ?thesis using active_members_provisioned by auto
qed

lemma resolve_external_provisioned:
  "resolve_external_actor env subject email d = (Some a, d') \<Longrightarrow> provisioned d' a"
  by (auto simp: resolve_external_actor_def Let_def resolve_dev_user_provisioned
      split: if_splits list.splits)


section \<open>Bound runner credentials\<close>

lemma runner_credential_sound:
  assumes "authenticate_runner_credential env d token = Inr (org, rid)"
  shows "token \<noteq> [] \<and> (\<exists>c \<in> set (runner_credentials d). rc_token_hash c = hash_token env token
      \<and> rc_revoked_at c = None \<and> sql_now env < rc_expires_at c \<and> rc_org c = org \<and> or_empty (rc_runner c) = rid)
    \<and> (rid \<noteq> [] \<longrightarrow> (\<exists>r \<in> set (runners d). rn_id r = rid \<and> rn_org r = org \<and> rn_status r \<noteq> ''revoked''))"
  using assms
  by (auto simp: authenticate_runner_credential_def Let_def dest!: Cons_mem split: if_splits list.splits)

text \<open>
  Acting as a runner takes that runner's own live credential.  If \<open>authenticateBoundRunner\<close>
  accepts a token for a runner id, then the token's hash is stored on a credential that is bound to
  exactly that runner in the organisation it returns, is neither revoked nor expired, and the runner is
  registered there and not revoked.  So an organisation-wide registration credential, another
  runner's credential and any credential of a revoked runner are all refused.
\<close>

theorem bound_runner_sound:
  assumes "authenticate_bound_runner env d token rid = Inr org"
  shows "rid \<noteq> [] \<and> token \<noteq> []
    \<and> (\<exists>c \<in> set (runner_credentials d). rc_token_hash c = hash_token env token
        \<and> rc_revoked_at c = None \<and> sql_now env < rc_expires_at c
        \<and> rc_org c = org \<and> rc_runner c = Some rid)
    \<and> (\<exists>r \<in> set (runners d). rn_id r = rid \<and> rn_org r = org \<and> rn_status r \<noteq> ''revoked'')"
proof -
  from assms have c: "authenticate_runner_credential env d token = Inr (org, rid)" and r: "rid \<noteq> []"
    by (auto simp: authenticate_bound_runner_def split: sum.splits if_splits)
  have "or_empty x = rid \<Longrightarrow> x = Some rid" for x
    using r by (cases x) (auto simp: or_empty_def)
  with runner_credential_sound [OF c] r show ?thesis by blast
qed

text \<open>
  A revoked API token is dead at once: after \<open>handleRevokeAPIToken\<close> answers 200, the token with
  that id no longer resolves to an actor, at any later time.
\<close>

theorem revoked_token_dead:
  assumes "handle_revoke_api_token env a token_id d = (r, d')" "resp_code r = 200"
    and "t \<in> set (api_tokens d)" "at_id t = token_id" "at_org t = a_org a"
    and "distinct (map at_hash (api_tokens d))" "hash_token env' token = at_hash t"
  shows "fst (resolve_api_token_actor env' token d') = None"
proof -
  let ?P = "\<lambda>t. at_id t = token_id \<and> at_org t = a_org a \<and> at_revoked_at t = None"
  let ?ts = "update_where ?P (\<lambda>t. t\<lparr>at_revoked_at := Some (sql_now env)\<rparr>) (api_tokens d)"
  have d': "api_tokens d' = ?ts"
    using assms(1,2) by (auto simp: handle_revoke_api_token_def Let_def split: if_splits)
  have "at_revoked_at x \<noteq> None" if x: "x \<in> set ?ts" "at_hash x = hash_token env' token" for x
  proof -
    obtain y where y: "y \<in> set (api_tokens d)" "x = (if ?P y then y\<lparr>at_revoked_at := Some (sql_now env)\<rparr> else y)"
      using x(1) by (auto simp: set_update_where)
    then have "at_hash y = at_hash t" using x(2) assms(7) by (auto split: if_splits)
    then have "y = t" using y(1) assms(3,6) by (meson distinct_map_eqD)
    with y(2) assms(4,5) show ?thesis by (auto split: if_splits)
  qed
  then have "filter (\<lambda>t. at_hash t = hash_token env' token \<and> at_revoked_at t = None
      \<and> at_expires_at t > sql_now env') ?ts = []"
    by (auto simp: filter_empty_conv)
  then show ?thesis by (simp add: resolve_api_token_actor_def d' Let_def)
qed


section \<open>Witnesses\<close>

definition sample_owner :: actor where
  "sample_owner = \<lparr>a_user_id = ''u1'', a_email = ''u1@x'', a_display_name = ''U'', a_org = ''org-1'',
     a_role = ''owner''\<rparr>"

definition sample_headers :: headers where
  "sample_headers = \<lparr>h_authorization = ''Bearer pat'', h_internal_secret = [], h_oidc_subject = [],
     h_oidc_email = [], h_user = [], h_runner_token = ''secret'', h_idempotency_key = []\<rparr>"

definition sample_config :: auth_config where
  "sample_config = \<lparr>cfg_shared_secret = [], cfg_dev_auth = [], cfg_production = True\<rparr>"

lemma sample_authenticated: "fst (authenticate sample_env sample_config sample_headers sample_db) = Inr sample_owner"
  by code_simp


lemma sample_bound: "authenticate_bound_runner sample_env sample_db ''secret'' ''r1'' = Inr ''org-1''"
  by code_simp

theorem bound_runner_sound_witness:
  "\<exists>c \<in> set (runner_credentials sample_db). rc_runner c = Some ''r1'' \<and> rc_revoked_at c = None"
  using bound_runner_sound [OF sample_bound] by blast

theorem revoked_token_dead_witness:
  "fst (resolve_api_token_actor sample_env ''pat''
     (snd (handle_revoke_api_token sample_env sample_owner ''pat1'' sample_db))) = None"
proof -
  let ?r = "handle_revoke_api_token sample_env sample_owner ''pat1'' sample_db"
  have "resp_code (fst ?r) = 200" by code_simp
  moreover obtain t where "t = hd (api_tokens sample_db)" by blast
  moreover have "distinct (map at_hash (api_tokens sample_db))"
    by (simp add: sample_db_def)
  ultimately show ?thesis
    by (intro revoked_token_dead [where t = t and r = "fst ?r" and env = sample_env and a = sample_owner
          and token_id = "''pat1''" and d = sample_db])
      (simp_all add: sample_db_def sample_owner_def hash_token_def sample_env_def)
qed


end
