(* ===== verification/Queue.thy ===== *)
theory Queue
  imports Auth Jobsign RateLimit
begin

text \<open>
  \<open>apps/api/queue.go\<close> and \<open>jobs.go\<close>: the job queue the runners work from.  \<open>reconcile_expired_leases\<close>,
  \<open>handle_claim_job\<close>, \<open>handle_submit_result\<close> and \<open>handle_renew_lease\<close> follow the functions of those names.
  A transaction works on a copy: an early return gives back the database it started from, the
  commit the new one.
\<close>

section \<open>Reconciling expired leases\<close>

function backoff_loop :: "int \<Rightarrow> int \<Rightarrow> int \<Rightarrow> int" where
  "backoff_loop i attempt backoff =
     (if i < attempt \<and> backoff < 60 then backoff_loop (i + 1) attempt (backoff * 2) else backoff)"
  by pat_completeness auto
termination
  by (relation "measure (\<lambda>(i, attempt, backoff). nat (attempt - i))") auto

declare backoff_loop.simps [simp del]

definition retry_backoff_seconds :: "int \<Rightarrow> int" where
  "retry_backoff_seconds attempt =
     (let backoff = backoff_loop 1 attempt 1 in if backoff > 60 then 60 else backoff)"

definition exec_active :: "execution \<Rightarrow> bool" where
  "exec_active e \<longleftrightarrow> ex_status e = EQueued \<or> ex_status e = ERunning"

definition lease_expired :: "env \<Rightarrow> target \<Rightarrow> bool" where
  "lease_expired env t \<longleftrightarrow>
     et_status t = TRunning \<and> (case et_lease_expires t of None \<Rightarrow> False | Some l \<Rightarrow> l \<le> sql_now env)"

definition expired_targets :: "env \<Rightarrow> string \<Rightarrow> db \<Rightarrow> target list" where
  "expired_targets env org d =
     filter (\<lambda>t. et_org t = org \<and> lease_expired env t
        \<and> (\<exists>e \<in> set (executions d). ex_id e = et_exec t \<and> ex_org e = org \<and> exec_active e))
       (execution_targets d)"

text \<open>The two updates of the loop body, on the row of one target.\<close>

definition dead_letter_row :: "env \<Rightarrow> target \<Rightarrow> target" where
  "dead_letter_row env t = t\<lparr>et_status := TDeadLetter, et_runner := None, et_lease_id := None,
     et_lease_expires := None, et_finished_at := Some (sql_now env),
     et_error := Some ''runner lease expired after maximum attempts''\<rparr>"

definition requeue_row :: "env \<Rightarrow> int \<Rightarrow> target \<Rightarrow> target" where
  "requeue_row env backoff t = t\<lparr>et_status := TPending, et_runner := None, et_lease_id := None,
     et_lease_expires := None, et_next_attempt := Some (go_now env + backoff)\<rparr>"

definition set_running_target :: "string \<Rightarrow> (target \<Rightarrow> target) \<Rightarrow> db \<Rightarrow> db" where
  "set_running_target tid f d =
     d\<lparr>execution_targets :=
        update_where (\<lambda>t. et_id t = tid \<and> et_status t = TRunning) f (execution_targets d)\<rparr>"

fun reconcile_targets :: "env \<Rightarrow> string \<Rightarrow> nat \<Rightarrow> target list \<Rightarrow> db \<Rightarrow> db option" where
  "reconcile_targets env org i [] d = Some d"
| "reconcile_targets env org i (t # ts) d =
     (if et_attempt t \<ge> et_max_attempts t then
        (if fails env ''reconcile.dead_letter'' i then None
         else case record_execution_event env ''reconcile.dead_letter.event'' i org (et_exec t) (et_id t)
                ''running'' ''dead_letter'' ''execution.target.dead_lettered''
                [(''reason'', JStr ''lease_expired''), (''attempt'', JInt (et_attempt t)),
                 (''max_attempts'', JInt (et_max_attempts t))]
                (set_running_target (et_id t) (dead_letter_row env) d) of
             None \<Rightarrow> None
           | Some d' \<Rightarrow> reconcile_targets env org (i + 1) ts d')
      else
        let backoff = retry_backoff_seconds (et_attempt t)
        in if fails env ''reconcile.requeue'' i then None
           else case record_execution_event env ''reconcile.requeue.event'' i org (et_exec t) (et_id t)
                ''running'' ''pending'' ''execution.target.lease_expired''
                [(''retry_at_seconds'', JInt backoff), (''attempt'', JInt (et_attempt t)),
                 (''max_attempts'', JInt (et_max_attempts t))]
                (set_running_target (et_id t) (requeue_row env backoff) d) of
             None \<Rightarrow> None
           | Some d' \<Rightarrow> reconcile_targets env org (i + 1) ts d')"

definition unfinished :: "target \<Rightarrow> bool" where
  "unfinished t \<longleftrightarrow> et_status t = TPending \<or> et_status t = TRunning"

definition unsuccessful :: "target \<Rightarrow> bool" where
  "unsuccessful t \<longleftrightarrow> et_status t = TFailed \<or> et_status t = TDeadLetter"

definition finalize_reconciled_executions :: "env \<Rightarrow> string \<Rightarrow> db \<Rightarrow> db option" where
  "finalize_reconciled_executions env org d =
     (if fails env ''reconcile.finalize'' 0 then None
      else Some (d\<lparr>executions := update_where
        (\<lambda>e. ex_org e = org \<and> exec_active e
           \<and> \<not> (\<exists>t \<in> set (execution_targets d). et_exec t = ex_id e \<and> unfinished t)
           \<and> (\<exists>t \<in> set (execution_targets d). et_exec t = ex_id e \<and> unsuccessful t))
        (\<lambda>e. e\<lparr>ex_status := EFailed, ex_finished_at := Some (sql_now env),
               ex_error := Some ''one or more targets were dead-lettered''\<rparr>)
        (executions d)\<rparr>))"

definition reconcile_expired_leases :: "env \<Rightarrow> string \<Rightarrow> db \<Rightarrow> db option" where
  "reconcile_expired_leases env org d =
     (if fails env ''reconcile.select'' 0 then None
      else case reconcile_targets env org 0 (expired_targets env org d) d of
          None \<Rightarrow> None
        | Some d' \<Rightarrow> finalize_reconciled_executions env org d')"

section \<open>Claiming a job\<close>

definition claim_ready :: "env \<Rightarrow> target \<Rightarrow> bool" where
  "claim_ready env t \<longleftrightarrow>
     et_status t = TPending
       \<and> (case et_next_attempt t of None \<Rightarrow> True | Some n \<Rightarrow> n \<le> sql_now env)
     \<or> lease_expired env t"

definition runner_in_scope :: "string \<Rightarrow> string \<Rightarrow> string \<Rightarrow> db \<Rightarrow> bool" where
  "runner_in_scope org runner_id server_id d \<longleftrightarrow>
     (\<exists>r \<in> set (runners d). \<exists>s \<in> set (runner_scopes d).
        rs_runner s = rn_id r \<and> rn_id r = runner_id \<and> rn_org r = org \<and> rn_status r = ''active''
        \<and> (rs_type s = ''all'' \<or> rs_type s = ''server'' \<and> rs_value s = server_id))"

definition claim_candidates ::
  "env \<Rightarrow> string \<Rightarrow> string \<Rightarrow> string \<Rightarrow> db \<Rightarrow> (target \<times> execution \<times> server) list" where
  "claim_candidates env org runner_id target_filter d =
     order_by (\<lambda>(_, e, _) (_, e', _). ex_requested_at e \<le> ex_requested_at e')
       (filter (\<lambda>(t, e, s). ex_id e = et_exec t \<and> sv_id s = et_server t
            \<and> exec_active e \<and> ex_org e = org
            \<and> (target_filter = [] \<or> et_id t = target_filter)
            \<and> claim_ready env t \<and> et_attempt t < et_max_attempts t
            \<and> runner_in_scope org runner_id (et_server t) d)
          (List.product (execution_targets d) (List.product (executions d) (servers d))))"

text \<open>The row of the claimed target.\<close>

definition claim_row :: "env \<Rightarrow> string \<Rightarrow> string \<Rightarrow> int \<Rightarrow> target \<Rightarrow> target" where
  "claim_row env runner_id lease_id lease_expires t =
     t\<lparr>et_status := TRunning, et_runner := Some runner_id, et_lease_id := Some lease_id,
       et_lease_expires := Some lease_expires, et_attempt := et_attempt t + 1,
       et_started_at := (case et_started_at t of None \<Rightarrow> Some (sql_now env) | Some x \<Rightarrow> Some x)\<rparr>"

definition start_execution_row :: "env \<Rightarrow> execution \<Rightarrow> execution" where
  "start_execution_row env e =
     e\<lparr>ex_status := ERunning,
       ex_started_at := (case ex_started_at e of None \<Rightarrow> Some (sql_now env) | Some x \<Rightarrow> Some x)\<rparr>"

definition claim_condition :: "env \<Rightarrow> string \<Rightarrow> target_status \<Rightarrow> target \<Rightarrow> bool" where
  "claim_condition env tid source_status t \<longleftrightarrow>
     et_id t = tid \<and> et_status t = source_status \<and> et_attempt t < et_max_attempts t \<and> claim_ready env t"

definition claim_host :: "server \<Rightarrow> string" where
  "claim_host s =
     (case sv_hostname s of Some h \<Rightarrow> h | None \<Rightarrow> or_empty (sv_public_ip s))"

definition claim_command :: "execution \<Rightarrow> string" where
  "claim_command e = (if ex_command e \<noteq> [] then ex_command e else ex_command_preview e)"

definition claim_claims ::
  "string \<Rightarrow> string \<Rightarrow> int \<Rightarrow> target \<Rightarrow> execution \<Rightarrow> server \<Rightarrow> claims" where
  "claim_claims runner_id lease_id lease_expires t e s =
     \<lparr>cl_execution_id = ex_id e, cl_target_id = et_id t, cl_lease_id = lease_id,
      cl_runner_id = runner_id, cl_command = claim_command e, cl_host = claim_host s,
      cl_port = sv_ssh_port s, cl_user = or_empty (sv_ssh_username s), cl_timeout = ex_timeout e,
      cl_credential_ref = or_empty (sv_credential_ref s),
      cl_host_key_fingerprint = or_empty (sv_host_key s), cl_expires_at_unix = lease_expires\<rparr>"

definition claim_response :: "claims \<Rightarrow> string \<Rightarrow> resp" where
  "claim_response c signature = reply 200
     [(''target_id'', JStr (cl_target_id c)), (''execution_id'', JStr (cl_execution_id c)),
      (''command'', JStr (cl_command c)), (''host'', JStr (cl_host c)), (''port'', JInt (cl_port c)),
      (''user'', JStr (cl_user c)), (''credential_ref'', JStr (cl_credential_ref c)),
      (''host_key_fingerprint'', JStr (cl_host_key_fingerprint c)), (''timeout'', JInt (cl_timeout c)),
      (''lease_id'', JStr (cl_lease_id c)), (''runner_id'', JStr (cl_runner_id c)),
      (''expires_at_unix'', JInt (cl_expires_at_unix c)), (''signature'', JStr signature)]"

text \<open>The transaction, from the selected row to the commit: an error response, or the new database.\<close>

definition claim_row_tx ::
  "env \<Rightarrow> string \<Rightarrow> string \<Rightarrow> string \<Rightarrow> int \<Rightarrow> target \<times> execution \<times> server \<Rightarrow> db \<Rightarrow> resp + db" where
  "claim_row_tx env org runner_id lease_id lease_expires cand d =
     (case cand of (t, e, s) \<Rightarrow>
        if fails env ''claim.update'' 0 then Inl (err 500 ''failed to claim job'')
        else
          let cond = claim_condition env (et_id t) (et_status t)
          in if count_where cond (execution_targets d) \<noteq> 1
             then Inl (err 409 ''job was claimed by another runner'')
             else if fails env ''claim.execution'' 0 then Inl (err 409 ''job was claimed by another runner'')
             else
               let d1 = d\<lparr>execution_targets := update_where cond
                            (claim_row env runner_id lease_id lease_expires) (execution_targets d),
                          executions := update_where (\<lambda>x. ex_id x = ex_id e \<and> exec_active x)
                            (start_execution_row env) (executions d)\<rparr>
               in case record_execution_event env ''claim.event'' 0 org (ex_id e) (et_id t)
                      (target_status_text (et_status t)) ''running'' ''execution.started''
                      [(''runner_id'', JStr runner_id), (''lease_id'', JStr lease_id)] d1 of
                    None \<Rightarrow> Inl (err 500 ''failed to record execution timeline'')
                  | Some d2 \<Rightarrow>
                      if fails env ''claim.commit'' 0 then Inl (err 500 ''failed to commit job claim'')
                      else Inr d2)"

text \<open>From the claim query to the response; \<open>d\<close> is the database before the transaction.\<close>

definition claim_next :: "env \<Rightarrow> string \<Rightarrow> string \<Rightarrow> string \<Rightarrow> db \<Rightarrow> db \<Rightarrow> resp \<times> db" where
  "claim_next env org runner_id target_filter d d1 =
     (case (if fails env ''claim.select'' 0 then []
            else claim_candidates env org runner_id target_filter d1) of
        [] \<Rightarrow> (reply 404 [(''status'', JStr ''no_jobs'')],
               if fails env ''claim.commit_empty'' 0 then d else d1)
      | cand # _ \<Rightarrow>
          let lease_id = ''lease_'' @ short_id env ''claim.lease'' 0;
              lease_expires = go_now env + 5 * 60
          in case claim_row_tx env org runner_id lease_id lease_expires cand d1 of
               Inl r \<Rightarrow> (r, d)
             | Inr d2 \<Rightarrow>
                 let c = claim_claims runner_id lease_id lease_expires
                           (fst cand) (fst (snd cand)) (snd (snd cand))
                 in case sign (mac env) (signer_key env) c of
                      Inl _ \<Rightarrow> (err 500 ''failed to sign job'', d2)
                    | Inr signature \<Rightarrow> (claim_response c signature, d2))"

definition handle_claim_job ::
  "env \<Rightarrow> string \<Rightarrow> string \<Rightarrow> string \<Rightarrow> db \<times> throttle \<Rightarrow> resp \<times> (db \<times> throttle)" where
  "handle_claim_job env token runner_id target_filter st =
     (case st of (d, th) \<Rightarrow>
      case authenticate_bound_runner env d token runner_id of
        Inl e \<Rightarrow> (err 401 (runner_auth_message e), st)
      | Inr org \<Rightarrow>
          if \<not> bind_tenant_connection env org then (err 500 ''tenant database context unavailable'', st)
          else if runner_id = [] then (err 400 ''runner_id is required'', st)
          else if fails env ''claim.begin'' 0 then (err 500 ''failed to start job claim'', st)
          else case due th org (go_now env) of (reconcile, th') \<Rightarrow>
            (case (if reconcile then reconcile_expired_leases env org d else Some d) of
               None \<Rightarrow> (err 500 ''failed to reconcile expired jobs'', d, th')
             | Some d1 \<Rightarrow>
                 (case claim_next env org runner_id target_filter d d1 of (r, d') \<Rightarrow> (r, d', th'))))"

section \<open>Submitting a result\<close>

record submit_req =
  sb_exec :: string
  sb_target :: string
  sb_runner :: string
  sb_lease :: string
  sb_exit_code :: int
  sb_stdout :: string
  sb_stderr :: string
  sb_error :: string
  sb_duration :: int

definition submit_payload :: "submit_req \<Rightarrow> json" where
  "submit_payload q = JObj
     [(''execution_id'', JStr (sb_exec q)), (''target_id'', JStr (sb_target q)),
      (''runner_id'', JStr (sb_runner q)), (''lease_id'', JStr (sb_lease q)),
      (''exit_code'', JInt (sb_exit_code q)), (''stdout'', JStr (sb_stdout q)),
      (''stderr'', JStr (sb_stderr q)), (''error'', JStr (sb_error q)),
      (''duration_ms'', JInt (sb_duration q))]"

definition artifact_inline_limit :: nat where "artifact_inline_limit = 64 * 1024"

definition upsert_artifact :: "artifact_record \<Rightarrow> db \<Rightarrow> db" where
  "upsert_artifact a d =
     (if af_id a \<in> af_id ` set (artifact_records d)
      then d\<lparr>artifact_records := update_where (\<lambda>x. af_id x = af_id a) (\<lambda>_. a) (artifact_records d)\<rparr>
      else d\<lparr>artifact_records := artifact_records d @ [a]\<rparr>)"

text \<open>The closure \<open>store\<close>: the artifact id (empty for a short value) or an error.\<close>

definition store_output ::
  "env \<Rightarrow> string \<Rightarrow> string \<Rightarrow> string \<Rightarrow> string \<Rightarrow> string \<Rightarrow> db \<Rightarrow> (string \<times> db) option" where
  "store_output env org execution_id target_id kind value d =
     (case artifact_put env of
        None \<Rightarrow> Some ([], d)
      | Some put \<Rightarrow>
          if length value \<le> artifact_inline_limit then Some ([], d)
          else
            let art_id = ''art_'' @ execution_id @ ''_'' @ target_id @ ''_'' @ kind
            in case put art_id ''text/plain'' value of
                 None \<Rightarrow> None
               | Some (sz, sha) \<Rightarrow>
                   if fails env (''artifact.insert:'' @ kind) 0 then None
                   else Some (art_id, upsert_artifact
                     \<lparr>af_id = art_id, af_org = org, af_owner_type = ''execution_target_'' @ kind,
                      af_owner_id = target_id, af_content_type = ''text/plain'', af_size = sz,
                      af_sha256 = sha,
                      af_backend = (if artifact_backend env = [] then ''local'' else artifact_backend env)\<rparr> d))"

definition persist_execution_artifacts ::
  "env \<Rightarrow> string \<Rightarrow> string \<Rightarrow> string \<Rightarrow> string \<Rightarrow> string \<Rightarrow> db \<Rightarrow> (string \<times> string \<times> db) option" where
  "persist_execution_artifacts env org execution_id target_id out errs d =
     (case store_output env org execution_id target_id ''stdout'' out d of
        None \<Rightarrow> None
      | Some (out_id, d1) \<Rightarrow>
          (case store_output env org execution_id target_id ''stderr'' errs d1 of
             None \<Rightarrow> None
           | Some (err_id, d2) \<Rightarrow> Some (out_id, err_id, d2)))"

definition insert_result_receipt ::
  "env \<Rightarrow> string \<Rightarrow> submit_req \<Rightarrow> string \<Rightarrow> string \<Rightarrow> db \<Rightarrow> db option" where
  "insert_result_receipt env org q hash response_body d =
     (if fails env ''receipt.insert'' 0
        \<or> (\<exists>r \<in> set (receipts d). rp_target r = sb_target q \<and> rp_lease r = sb_lease q) then None
      else Some (d\<lparr>receipts := receipts d @
        [\<lparr>rp_org = org, rp_exec = sb_exec q, rp_target = sb_target q, rp_lease = sb_lease q,
          rp_runner = sb_runner q, rp_hash = hash, rp_code = 200, rp_body = response_body\<rparr>]\<rparr>))"

text \<open>The condition of the \<open>SELECT\<close> and the \<open>UPDATE\<close>: the caller still holds the lease.\<close>

definition holds_lease :: "submit_req \<Rightarrow> target \<Rightarrow> bool" where
  "holds_lease q t \<longleftrightarrow>
     et_id t = sb_target q \<and> et_exec t = sb_exec q \<and> et_runner t = Some (sb_runner q)
     \<and> et_lease_id t = Some (sb_lease q) \<and> et_status t = TRunning"

definition result_row :: "env \<Rightarrow> submit_req \<Rightarrow> target_status \<Rightarrow> string \<Rightarrow> string \<Rightarrow> target \<Rightarrow> target" where
  "result_row env q status out_id err_id t =
     t\<lparr>et_status := status, et_exit_code := Some (sb_exit_code q),
       et_error := sql_null_string (sb_error q),
       et_stdout := (if out_id \<noteq> [] then [] else sb_stdout q),
       et_stderr := (if err_id \<noteq> [] then [] else sb_stderr q),
       et_stdout_artifact := sql_null_string out_id, et_stderr_artifact := sql_null_string err_id,
       et_stdout_bytes := length (sb_stdout q), et_stderr_bytes := length (sb_stderr q),
       et_lease_expires := None, et_finished_at := Some (go_now env)\<rparr>"

definition exhausted_row :: "target \<Rightarrow> target" where
  "exhausted_row t =
     t\<lparr>et_error := (case et_error t of
        None \<Rightarrow> Some ''maximum attempts exhausted''
      | Some m \<Rightarrow> if m = [] then Some ''maximum attempts exhausted'' else Some m)\<rparr>"

definition retry_row :: "env \<Rightarrow> int \<Rightarrow> target \<Rightarrow> target" where
  "retry_row env backoff t =
     t\<lparr>et_status := TPending, et_runner := None, et_lease_id := None, et_lease_expires := None,
       et_finished_at := None, et_next_attempt := Some (go_now env + backoff)\<rparr>"

text \<open>The branch that schedules a retry: the transaction from there on.\<close>

definition submit_retry ::
  "env \<Rightarrow> string \<Rightarrow> submit_req \<Rightarrow> string \<Rightarrow> int \<Rightarrow> int \<Rightarrow> db \<Rightarrow> resp + db" where
  "submit_retry env org q hash attempt max_attempts d =
     (let backoff = retry_backoff_seconds attempt;
          P = (\<lambda>t. et_id t = sb_target q \<and> et_status t = TFailed)
      in if fails env ''submit.retry'' 0 then Inl (err 500 ''failed to schedule retry'')
         else if count_where P (execution_targets d) \<noteq> 1 then Inl (err 409 ''target retry state changed'')
         else
           case record_execution_event env ''submit.retry.event'' 0 org (sb_exec q) (sb_target q)
             ''failed'' ''pending'' ''execution.target.retry_scheduled''
             [(''retry_at_seconds'', JInt backoff), (''attempt'', JInt attempt), (''max_attempts'', JInt max_attempts)]
             (d\<lparr>execution_targets := update_where P (retry_row env backoff) (execution_targets d)\<rparr>) of
           None \<Rightarrow> Inl (err 500 ''failed to record retry timeline'')
         | Some d1 \<Rightarrow>
             (case write_audit_event_tx env ''submit.retry.audit'' org [] ''execution.retry_scheduled''
                ''execution'' (sb_exec q) ''pending''
                (jmap [(''target_id'', JStr (sb_target q)), (''attempt'', JInt attempt),
                       (''max_attempts'', JInt max_attempts)]) d1 of
                None \<Rightarrow> Inl (err 500 ''failed to record retry audit'')
              | Some d2 \<Rightarrow>
                  (case insert_result_receipt env org q hash (json_text (JObj [(''status'', JStr ''retry_scheduled'')])) d2 of
                     None \<Rightarrow> Inl (err 500 ''failed to record result receipt'')
                   | Some d3 \<Rightarrow>
                       if fails env ''submit.commit'' 0 then Inl (err 500 ''failed to commit result'')
                       else Inr d3)))"

text \<open>
  The branch that completes the target, from the two counts to the commit.  \<open>status\<close> is the target's
  status; once the execution is finalised the code stores the execution's status in the same variable.
\<close>

definition submit_complete ::
  "env \<Rightarrow> string \<Rightarrow> submit_req \<Rightarrow> string \<Rightarrow> target_status \<Rightarrow> db \<Rightarrow> resp + db" where
  "submit_complete env org q hash status d =
     (if fails env ''submit.remaining'' 0 then Inl (err 500 ''failed to inspect execution state'')
      else if fails env ''submit.failed'' 0 then Inl (err 500 ''failed to inspect execution result'')
      else
        let remaining = count_where (\<lambda>t. et_exec t = sb_exec q \<and> unfinished t) (execution_targets d);
            failed = count_where (\<lambda>t. et_exec t = sb_exec q \<and> unsuccessful t) (execution_targets d);
            final_status = (if failed > 0 then EFailed else ESucceeded);
            P = (\<lambda>e. ex_id e = sb_exec q \<and> ex_org e = org \<and> ex_status e = ERunning)
        in if remaining = 0 \<and> fails env ''submit.finalize'' 0 then Inl (err 500 ''failed to finalize execution'')
           else if remaining = 0 \<and> count_where P (executions d) \<noteq> 1
             then Inl (err 409 ''execution is no longer running'')
           else
             let d1 = (if remaining = 0 then d\<lparr>executions := update_where P
                         (\<lambda>e. e\<lparr>ex_status := final_status, ex_finished_at := Some (go_now env),
                                ex_error := sql_null_string (sb_error q)\<rparr>) (executions d)\<rparr> else d);
                 status_text = (if remaining = 0 then exec_status_text final_status else target_status_text status)
             in case record_execution_event env ''submit.event'' 0 org (sb_exec q) (sb_target q)
                  ''running'' status_text ''execution.target.completed''
                  [(''exit_code'', JInt (sb_exit_code q)), (''duration_ms'', JInt (sb_duration q))] d1 of
                None \<Rightarrow> Inl (err 500 ''failed to record execution timeline'')
              | Some d2 \<Rightarrow>
                  (case (if remaining = 0 then
                           record_execution_event env ''submit.completed.event'' 0 org (sb_exec q) []
                             ''running'' status_text ''execution.completed'' [(''failed_targets'', JInt (int failed))] d2
                         else Some d2) of
                     None \<Rightarrow> Inl (err 500 ''failed to record execution timeline'')
                   | Some d3 \<Rightarrow>
                       (case write_audit_event_tx env ''submit.audit'' org []
                          (if remaining = 0 then ''execution.completed'' else ''execution.target.completed'')
                          ''execution'' (sb_exec q) status_text
                          (jmap [(''exit_code'', JInt (sb_exit_code q)), (''duration_ms'', JInt (sb_duration q))]) d3 of
                          None \<Rightarrow> Inl (err 500 ''failed to record execution audit'')
                        | Some d4 \<Rightarrow>
                            (case insert_result_receipt env org q hash (json_text (JObj [(''status'', JStr ''ok'')])) d4 of
                               None \<Rightarrow> Inl (err 500 ''failed to record result receipt'')
                             | Some d5 \<Rightarrow>
                                 if fails env ''submit.commit'' 0 then Inl (err 500 ''failed to commit result'')
                                 else Inr d5))))"

text \<open>The transaction after the receipt check: lookup of the lease, output, status, and one of the branches.\<close>

definition submit_result_tx ::
  "env \<Rightarrow> string \<Rightarrow> submit_req \<Rightarrow> string \<Rightarrow> db \<Rightarrow> resp + string \<times> db" where
  "submit_result_tx env org q hash d =
     (let failed0 = (sb_exit_code q \<noteq> 0 \<or> sb_error q \<noteq> [])
      in case (if fails env ''submit.select'' 0 then [] else filter (holds_lease q) (execution_targets d)) of
           [] \<Rightarrow> Inl (err 409 ''target is not assigned to this runner'')
         | t # _ \<Rightarrow>
             (case persist_execution_artifacts env org (sb_exec q) (sb_target q) (sb_stdout q) (sb_stderr q) d of
                None \<Rightarrow> Inl (err 500 ''failed to persist execution output'')
              | Some (out_id, err_id, d1) \<Rightarrow>
                  let attempt = et_attempt t; max_attempts = et_max_attempts t;
                      status = (if \<not> failed0 then TSucceeded
                                else if attempt \<ge> max_attempts then TDeadLetter else TFailed);
                      P = (\<lambda>x. holds_lease q x
                             \<and> (\<exists>e \<in> set (executions d1). ex_id e = et_exec x \<and> ex_org e = org)
                             \<and> (\<exists>r \<in> set (runners d1). Some (rn_id r) = et_runner x \<and> rn_org r = org))
                  in if fails env ''submit.update'' 0 \<or> count_where P (execution_targets d1) = 0
                     then Inl (err 409 ''target is not assigned to this runner'')
                     else if status = TDeadLetter \<and> fails env ''submit.dead_letter'' 0
                       then Inl (err 500 ''failed to mark dead-letter job'')
                     else
                       let d2 = d1\<lparr>execution_targets :=
                                  update_where P (result_row env q status out_id err_id) (execution_targets d1)\<rparr>;
                           d3 = (if status = TDeadLetter
                                 then d2\<lparr>execution_targets :=
                                        update_where (\<lambda>x. et_id x = sb_target q) exhausted_row (execution_targets d2)\<rparr>
                                 else d2)
                       in if status = TFailed \<and> attempt < max_attempts
                          then map_sum id (Pair ''retry_scheduled'') (submit_retry env org q hash attempt max_attempts d3)
                          else map_sum id (Pair ''ok'') (submit_complete env org q hash status d3)))"

definition redacted :: "env \<Rightarrow> submit_req \<Rightarrow> submit_req" where
  "redacted env q = q\<lparr>sb_stdout := redact_text env (sb_stdout q), sb_stderr := redact_text env (sb_stderr q)\<rparr>"

definition submit_hash :: "env \<Rightarrow> submit_req \<Rightarrow> string" where
  "submit_hash env q = sha_hex env (json_text (submit_payload (redacted env q)))"

text \<open>The part of the handler after the request has been authenticated and decoded.\<close>

definition submit_body :: "env \<Rightarrow> string \<Rightarrow> submit_req \<Rightarrow> db \<Rightarrow> resp \<times> db" where
  "submit_body env org q d =
     (if fails env ''submit.begin'' 0 then (err 500 ''failed to start result transaction'', d)
      else if fails env ''submit.receipt'' 0 then (err 500 ''failed to inspect result receipt'', d)
      else case filter (\<lambda>r. rp_target r = sb_target q \<and> rp_lease r = sb_lease q) (receipts d) of
          r # _ \<Rightarrow>
            if rp_hash r \<noteq> submit_hash env q then (err 409 ''result payload conflicts with existing receipt'', d)
            else if fails env ''submit.replay_commit'' 0 then (err 500 ''failed to replay result receipt'', d)
            else (write_raw_json (rp_code r) (rp_body r), d)
        | [] \<Rightarrow>
            (case submit_result_tx env org (redacted env q) (submit_hash env q) d of
               Inl r \<Rightarrow> (r, d)
             | Inr (status, d') \<Rightarrow> (reply 200 [(''status'', JStr status)], d')))"

definition handle_submit_result ::
  "env \<Rightarrow> string \<Rightarrow> submit_req option \<Rightarrow> db \<Rightarrow> resp \<times> db" where
  "handle_submit_result env token body d =
     (case authenticate_runner_credential env d token of
        Inl e \<Rightarrow> (err 401 (runner_auth_message e), d)
      | Inr (org, credential_runner) \<Rightarrow>
          if credential_runner = [] then (err 401 (runner_auth_message BoundCredentialRequired), d)
          else if \<not> bind_tenant_connection env org then (err 500 ''tenant database context unavailable'', d)
          else case body of
              None \<Rightarrow> (err 400 ''invalid request body'', d)
            | Some q0 \<Rightarrow>
                if sb_exec q0 = [] \<or> sb_target q0 = [] \<or> sb_runner q0 = [] \<or> sb_lease q0 = []
                then (err 400 ''invalid request body'', d)
                else case authenticate_bound_runner env d token (sb_runner q0) of
                    Inl e \<Rightarrow> (err 401 (runner_auth_message e), d)
                  | Inr _ \<Rightarrow> submit_body env org q0 d)"

section \<open>Renewing a lease\<close>

definition handle_renew_lease :: "env \<Rightarrow> string \<Rightarrow> submit_req option \<Rightarrow> db \<Rightarrow> resp \<times> db" where
  "handle_renew_lease env token body d =
     (case body of
        None \<Rightarrow> (err 400 ''invalid lease renewal body'', d)
      | Some q \<Rightarrow>
          if sb_exec q = [] \<or> sb_target q = [] \<or> sb_runner q = [] \<or> sb_lease q = []
          then (err 400 ''invalid lease renewal body'', d)
          else case authenticate_bound_runner env d token (sb_runner q) of
              Inl e \<Rightarrow> (err 401 (runner_auth_message e), d)
            | Inr org \<Rightarrow>
                if \<not> bind_tenant_connection env org then (err 500 ''tenant database context unavailable'', d)
                else if fails env ''renew.update'' 0 then (err 500 ''failed to renew lease'', d)
                else
                  let claimed = (count_where (holds_lease q) (execution_targets d) = 1);
                      d' = d\<lparr>execution_targets := update_where (holds_lease q)
                         (\<lambda>t. t\<lparr>et_lease_expires := Some (go_now env + 5 * 60)\<rparr>) (execution_targets d)\<rparr>
                  in if \<not> claimed then (err 409 ''lease is no longer active'', d')
                     else (reply 200 [(''status'', JStr ''renewed'')], d'))"

end
