(* ===== verification/QueueInv.thy ===== *)
theory QueueInv
  imports Queue
begin

text \<open>
  The invariant of the job queue and its preservation by reconciling, claiming, submitting and
  renewing: target rows are well-formed and every execution's status agrees with the statuses of
  its targets.  In particular an active execution always has a target left to work on, and a finished
  one has none.
\<close>

section \<open>The invariant\<close>

definition target_ok :: "target \<Rightarrow> bool" where
  "target_ok t \<longleftrightarrow>
     0 \<le> et_attempt t \<and> et_attempt t \<le> et_max_attempts t
     \<and> (et_status t = TRunning \<longrightarrow>
          et_runner t \<noteq> None \<and> et_lease_id t \<noteq> None \<and> et_lease_expires t \<noteq> None \<and> 1 \<le> et_attempt t)
     \<and> (et_status t = TPending \<longrightarrow> et_runner t = None \<and> et_lease_id t = None \<and> et_lease_expires t = None)"

definition statuses :: "target list \<Rightarrow> string \<Rightarrow> target_status set" where
  "statuses T x = et_status ` {t \<in> set T. et_exec t = x}"

definition status_ok :: "exec_status \<Rightarrow> target_status set \<Rightarrow> bool" where
  "status_ok st S \<longleftrightarrow>
     (case st of
        ECreated \<Rightarrow> S \<subseteq> {TPending}
      | EQueued \<Rightarrow> S = {TPending}
      | ERunning \<Rightarrow> S \<subseteq> {TPending, TRunning, TSucceeded, TDeadLetter}
          \<and> (TPending \<in> S \<or> TRunning \<in> S \<or> TDeadLetter \<in> S)
      | ESucceeded \<Rightarrow> S = {TSucceeded}
      | EFailed \<Rightarrow> S \<subseteq> {TSucceeded, TDeadLetter} \<and> TDeadLetter \<in> S
      | ECancelled \<Rightarrow> S \<subseteq> {TPending, TCancelled})"

definition queue_inv :: "execution list \<Rightarrow> target list \<Rightarrow> bool" where
  "queue_inv E T \<longleftrightarrow>
     distinct (map ex_id E) \<and> distinct (map et_id T) \<and> (\<forall>t \<in> set T. target_ok t)
     \<and> (\<forall>e \<in> set E. status_ok (ex_status e) (statuses T (ex_id e)))"

definition queue_ok :: "db \<Rightarrow> bool" where
  "queue_ok d \<longleftrightarrow> queue_inv (executions d) (execution_targets d)"

section \<open>Replacing one target row\<close>

lemma statuses_mem: "t \<in> set T \<Longrightarrow> et_exec t = x \<Longrightarrow> et_status t \<in> statuses T x"
  by (auto simp: statuses_def)

lemma statuses_iff: "s \<in> statuses T x \<longleftrightarrow> (\<exists>t \<in> set T. et_exec t = x \<and> et_status t = s)"
  by (auto simp: statuses_def)

lemma statuses_replace:
  assumes "set T' = insert t' (set T - {t})" "t \<in> set T" "et_exec t' = et_exec t"
  shows "\<exists>R. statuses T (et_exec t) = insert (et_status t) R \<and> statuses T' (et_exec t) = insert (et_status t') R"
    and "x \<noteq> et_exec t \<Longrightarrow> statuses T' x = statuses T x"
proof -
  let ?R = "et_status ` {u \<in> set T - {t}. et_exec u = et_exec t}"
  have "statuses T (et_exec t) = insert (et_status t) ?R" using assms(2) by (auto simp: statuses_def)
  moreover have "statuses T' (et_exec t) = insert (et_status t') ?R"
    using assms(1,3) by (auto simp: statuses_def)
  ultimately show "\<exists>R. statuses T (et_exec t) = insert (et_status t) R
      \<and> statuses T' (et_exec t) = insert (et_status t') R" by blast
  show "x \<noteq> et_exec t \<Longrightarrow> statuses T' x = statuses T x"
    using assms by (auto simp: statuses_def)
qed

lemma statuses_unchanged:
  "set T' = insert t' (set T - {t}) \<Longrightarrow> t \<in> set T \<Longrightarrow> et_exec t' = et_exec t \<Longrightarrow> et_status t' = et_status t \<Longrightarrow>
     statuses T' x = statuses T x"
  using statuses_replace [of T' t' T t] by (cases "x = et_exec t") auto

lemma queue_inv_replace:
  assumes inv: "queue_inv E T" and t: "t \<in> set T"
    and T': "set T' = insert t' (set T - {t})" "map et_id T' = map et_id T" "et_exec t' = et_exec t" "target_ok t'"
    and E': "map ex_id E' = map ex_id E"
    and here: "\<And>e' R. e' \<in> set E' \<Longrightarrow> ex_id e' = et_exec t \<Longrightarrow>
        statuses T (et_exec t) = insert (et_status t) R \<Longrightarrow>
        statuses T' (et_exec t) = insert (et_status t') R \<Longrightarrow> status_ok (ex_status e') (insert (et_status t') R)"
    and there: "\<And>e'. e' \<in> set E' \<Longrightarrow> ex_id e' \<noteq> et_exec t \<Longrightarrow> e' \<in> set E"
  shows "queue_inv E' T'"
proof -
  have "target_ok x" if "x \<in> set T'" for x
    using that inv T'(1,4) by (auto simp: queue_inv_def)
  moreover have "status_ok (ex_status e') (statuses T' (ex_id e'))" if e': "e' \<in> set E'" for e'
  proof (cases "ex_id e' = et_exec t")
    case True
    obtain R where R: "statuses T (et_exec t) = insert (et_status t) R"
      "statuses T' (et_exec t) = insert (et_status t') R"
      using statuses_replace(1) [OF T'(1) t T'(3)] by blast
    with here [OF e' True] True show ?thesis by simp
  next
    case False
    then show ?thesis
      using statuses_replace(2) [OF T'(1) t T'(3) False] there [OF e' False] inv by (simp add: queue_inv_def)
  qed
  ultimately show ?thesis
    using inv T'(2) E' by (simp add: queue_inv_def)
qed

text \<open>A row update by id that finds the row \<open>t\<close>.\<close>

lemma by_id_set:
  assumes "distinct (map et_id T)" "t \<in> set T"
  shows "set (update_where (\<lambda>x. et_id x = et_id t) f T) = insert (f t) (set T - {t})"
  using assms by (intro set_update_one) (auto dest: distinct_map_eqD)

lemma by_id_cond:
  assumes "distinct (map et_id T)" "t \<in> set T" "P t" "\<And>x. x \<in> set T \<Longrightarrow> P x \<Longrightarrow> et_id x = et_id t"
  shows "update_where P f T = update_where (\<lambda>x. et_id x = et_id t) f T"
proof (rule update_where_cong)
  fix x assume x: "x \<in> set T"
  show "P x \<longleftrightarrow> et_id x = et_id t"
    using assms(3,4) distinct_map_eqD [OF assms(1) x assms(2)] x by blast
qed (rule refl)

lemma exec_by_id:
  assumes "distinct (map ex_id E)" "e \<in> set E" "e' \<in> set (update_where (\<lambda>x. ex_id x = ex_id e \<and> C x) g E)"
    "\<And>x. ex_id (g x) = ex_id x"
  shows "(ex_id e' \<noteq> ex_id e \<longrightarrow> e' \<in> set E)
    \<and> (ex_id e' = ex_id e \<longrightarrow> (C e \<and> e' = g e \<or> \<not> C e \<and> e' = e))"
proof -
  obtain x where x: "x \<in> set E" "e' = (if ex_id x = ex_id e \<and> C x then g x else x)"
    using assms(3) by (auto simp: set_update_where)
  show ?thesis
  proof (cases "ex_id x = ex_id e")
    case True
    with assms(1,2) x(1) have "x = e" by (meson distinct_map_eqD)
    with x(2) assms(4) show ?thesis by (auto split: if_splits)
  qed (use x assms(4) in auto)
qed

section \<open>Claiming\<close>

lemma claim_row_ok:
  "target_ok t \<Longrightarrow> et_attempt t < et_max_attempts t \<Longrightarrow> target_ok (claim_row env r l x t)"
  by (simp add: target_ok_def claim_row_def)

lemma claim_row_sel [simp]:
  "et_id (claim_row env r l x t) = et_id t" "et_exec (claim_row env r l x t) = et_exec t"
  "et_status (claim_row env r l x t) = TRunning" "et_attempt (claim_row env r l x t) = et_attempt t + 1"
  "et_runner (claim_row env r l x t) = Some r" "et_lease_id (claim_row env r l x t) = Some l"
  "et_lease_expires (claim_row env r l x t) = Some x"
  "et_max_attempts (claim_row env r l x t) = et_max_attempts t" "et_server (claim_row env r l x t) = et_server t"
  "et_org (claim_row env r l x t) = et_org t"
  by (simp_all add: claim_row_def)

lemma start_execution_row_sel [simp]:
  "ex_id (start_execution_row env e) = ex_id e" "ex_status (start_execution_row env e) = ERunning"
  "ex_org (start_execution_row env e) = ex_org e"
  by (simp_all add: start_execution_row_def)

text \<open>What a candidate of the claim query satisfies.\<close>

lemma claim_candidates_mem:
  "(t, e, s) \<in> set (claim_candidates env org rid tf d) \<Longrightarrow>
     t \<in> set (execution_targets d) \<and> e \<in> set (executions d) \<and> s \<in> set (servers d)
     \<and> ex_id e = et_exec t \<and> sv_id s = et_server t \<and> exec_active e \<and> ex_org e = org
     \<and> claim_ready env t \<and> et_attempt t < et_max_attempts t
     \<and> runner_in_scope org rid (et_server t) d \<and> (tf = [] \<or> et_id t = tf)"
  by (auto simp: claim_candidates_def)

lemma claim_row_tx_shape:
  assumes "claim_row_tx env org rid lid lx (t, e, s) d = Inr d'"
  shows "\<exists>evs. d' = d\<lparr>execution_targets := update_where (claim_condition env (et_id t) (et_status t))
            (claim_row env rid lid lx) (execution_targets d),
       executions := update_where (\<lambda>x. ex_id x = ex_id e \<and> exec_active x) (start_execution_row env) (executions d),
       execution_events := evs\<rparr>"
  using assms by (auto simp: claim_row_tx_def Let_def dest!: record_event_shape split: if_splits option.splits)

lemma claim_row_tx_inv:
  assumes inv: "queue_ok d" and c: "(t, e, s) \<in> set (claim_candidates env org rid tf d)"
    and tx: "claim_row_tx env org rid lid lx (t, e, s) d = Inr d'"
  shows "queue_ok d'"
proof -
  note m = claim_candidates_mem [OF c]
  let ?T = "execution_targets d" and ?E = "executions d"
  have dist: "distinct (map et_id ?T)" "distinct (map ex_id ?E)" "target_ok t"
    using inv m by (auto simp: queue_ok_def queue_inv_def)
  let ?P = "claim_condition env (et_id t) (et_status t)"
  have up: "update_where ?P (claim_row env rid lid lx) ?T
      = update_where (\<lambda>x. et_id x = et_id t) (claim_row env rid lid lx) ?T"
    using dist m by (intro by_id_cond) (auto simp: claim_condition_def)
  obtain evs where d': "d' = d\<lparr>execution_targets := update_where ?P (claim_row env rid lid lx) ?T,
       executions := update_where (\<lambda>x. ex_id x = ex_id e \<and> exec_active x) (start_execution_row env) ?E,
       execution_events := evs\<rparr>"
    using claim_row_tx_shape [OF tx] by blast
  have "queue_inv (executions d') (execution_targets d')"
  proof (rule queue_inv_replace [where t = t and t' = "claim_row env rid lid lx t"])
    show "queue_inv ?E ?T" using inv by (simp add: queue_ok_def)
    show "t \<in> set ?T" using m by simp
    show "set (execution_targets d') = insert (claim_row env rid lid lx t) (set ?T - {t})"
      using by_id_set [OF dist(1)] m by (simp add: d' up)
    show "map et_id (execution_targets d') = map et_id ?T"
      by (simp add: d' map_update_where)
    show "target_ok (claim_row env rid lid lx t)" using dist(3) m by (simp add: claim_row_ok)
    show "map ex_id (executions d') = map ex_id ?E" by (simp add: d' map_update_where)
  next
    fix e' assume "e' \<in> set (executions d')"
    then have e': "(ex_id e' \<noteq> ex_id e \<longrightarrow> e' \<in> set ?E)
        \<and> (ex_id e' = ex_id e \<longrightarrow> exec_active e \<and> e' = start_execution_row env e \<or> \<not> exec_active e \<and> e' = e)"
      using exec_by_id [OF dist(2), of e e' exec_active "start_execution_row env"] m by (simp add: d')
    show "ex_id e' \<noteq> et_exec t \<Longrightarrow> e' \<in> set ?E" using e' m by simp
    fix R assume R: "ex_id e' = et_exec t" "statuses ?T (et_exec t) = insert (et_status t) R"
    have "status_ok (ex_status e) (statuses ?T (ex_id e))"
      using inv m unfolding queue_ok_def queue_inv_def by blast
    then have "status_ok ERunning (insert TRunning R)"
      using m R by (auto simp: exec_active_def status_ok_def)
    then show "status_ok (ex_status e') (insert (et_status (claim_row env rid lid lx t)) R)"
      using e' m R by auto
  qed simp_all
  then show ?thesis by (simp add: queue_ok_def)
qed

section \<open>Reconciling is one simultaneous update\<close>

definition reconciled_row :: "env \<Rightarrow> target \<Rightarrow> target" where
  "reconciled_row env t =
     (if et_attempt t \<ge> et_max_attempts t then dead_letter_row env t
      else requeue_row env (retry_backoff_seconds (et_attempt t)) t)"

lemma reconciled_row_sel [simp]:
  "et_id (reconciled_row env t) = et_id t" "et_exec (reconciled_row env t) = et_exec t"
  "et_org (reconciled_row env t) = et_org t" "et_attempt (reconciled_row env t) = et_attempt t"
  "et_max_attempts (reconciled_row env t) = et_max_attempts t"
  "et_server (reconciled_row env t) = et_server t"
  "et_status (reconciled_row env t) =
     (if et_attempt t \<ge> et_max_attempts t then TDeadLetter else TPending)"
  by (simp_all add: reconciled_row_def dead_letter_row_def requeue_row_def)

lemma reconciled_row_ok: "target_ok t \<Longrightarrow> target_ok (reconciled_row env t)"
  by (auto simp: target_ok_def reconciled_row_def dead_letter_row_def requeue_row_def)

lemma reconcile_targets_Cons:
  assumes "reconcile_targets env org i (t # ts) d = Some d'"
  obtains d1 where "reconcile_targets env org (i + 1) ts d1 = Some d'"
    "\<exists>evs. d1 = (set_running_target (et_id t)
        (if et_attempt t \<ge> et_max_attempts t then dead_letter_row env
         else requeue_row env (retry_backoff_seconds (et_attempt t))) d)\<lparr>execution_events := evs\<rparr>"
proof (cases "et_attempt t \<ge> et_max_attempts t")
  case True
  with assms that show ?thesis
    by (auto simp: Let_def dest!: record_event_shape split: if_splits option.splits)
next
  case False
  with assms that show ?thesis
    by (auto simp: Let_def dest!: record_event_shape split: if_splits option.splits)
qed

lemma reconcile_targets_rows:
  assumes "reconcile_targets env org i ts d = Some d'"
    and "distinct (map et_id (execution_targets d))" "distinct ts"
    and "set ts \<subseteq> set (execution_targets d)" "\<forall>t \<in> set ts. et_status t = TRunning"
  shows "\<exists>evs. d' = d\<lparr>execution_targets :=
           update_where (\<lambda>x. x \<in> set ts) (reconciled_row env) (execution_targets d),
         execution_events := evs\<rparr>"
  using assms
proof (induction ts arbitrary: i d)
  case Nil
  have "update_where (\<lambda>x. x \<in> set []) (reconciled_row env) (execution_targets d) = execution_targets d"
    by (rule update_where_none) simp
  moreover have "d = d\<lparr>execution_targets := execution_targets d, execution_events := execution_events d\<rparr>"
    by simp
  ultimately show ?case using Nil.prems(1) by (metis option.inject reconcile_targets.simps(1))
next
  case (Cons t ts)
  let ?T = "execution_targets d"
  let ?f = "if et_attempt t \<ge> et_max_attempts t then dead_letter_row env
         else requeue_row env (retry_backoff_seconds (et_attempt t))"
  obtain d1 evs where d1: "reconcile_targets env org (i + 1) ts d1 = Some d'"
    "d1 = (set_running_target (et_id t) ?f d)\<lparr>execution_events := evs\<rparr>"
    using reconcile_targets_Cons [OF Cons.prems(1)] by metis
  have t: "t \<in> set ?T" "et_status t = TRunning" using Cons.prems(4,5) by auto
  have T1: "execution_targets d1 = update_where (\<lambda>x. x = t) (reconciled_row env) ?T"
    unfolding d1(2) set_running_target_def
    using t distinct_map_eqD [OF Cons.prems(2)]
    by (auto simp: reconciled_row_def intro!: update_where_cong)
  have set1: "set (execution_targets d1) = insert (reconciled_row env t) (set ?T - {t})"
    unfolding T1 using t(1) by (intro set_update_one) auto
  have new: "reconciled_row env t \<notin> set ts"
    using Cons.prems(5) by (auto split: if_splits dest!: bspec [where x = "reconciled_row env t"])
  obtain evs' where "d' = d1\<lparr>execution_targets :=
           update_where (\<lambda>x. x \<in> set ts) (reconciled_row env) (execution_targets d1), execution_events := evs'\<rparr>"
    using Cons.IH [OF d1(1)] Cons.prems(2-5) set1 by (auto simp: T1 map_update_where)
  moreover have "update_where (\<lambda>x. x \<in> set ts) (reconciled_row env) (execution_targets d1)
      = update_where (\<lambda>x. x \<in> set (t # ts)) (reconciled_row env) ?T"
    unfolding T1 update_where_def using new Cons.prems(3) by auto
  ultimately show ?case
    by (auto simp: d1(2) set_running_target_def)
qed

lemma expired_targets_mem:
  "t \<in> set (expired_targets env org d) \<longleftrightarrow>
     t \<in> set (execution_targets d) \<and> et_org t = org \<and> lease_expired env t
     \<and> (\<exists>e \<in> set (executions d). ex_id e = et_exec t \<and> ex_org e = org \<and> exec_active e)"
  by (auto simp: expired_targets_def)

definition doomed :: "string \<Rightarrow> target list \<Rightarrow> execution \<Rightarrow> bool" where
  "doomed org T e \<longleftrightarrow> ex_org e = org \<and> exec_active e
     \<and> \<not> (\<exists>t \<in> set T. et_exec t = ex_id e \<and> unfinished t)
     \<and> (\<exists>t \<in> set T. et_exec t = ex_id e \<and> unsuccessful t)"

definition reconciled_targets :: "env \<Rightarrow> string \<Rightarrow> db \<Rightarrow> target list" where
  "reconciled_targets env org d =
     update_where (\<lambda>x. x \<in> set (expired_targets env org d)) (reconciled_row env) (execution_targets d)"

definition failed_execution_row :: "env \<Rightarrow> execution \<Rightarrow> execution" where
  "failed_execution_row env e = e\<lparr>ex_status := EFailed, ex_finished_at := Some (sql_now env),
               ex_error := Some ''one or more targets were dead-lettered''\<rparr>"

lemma reconcile_shape:
  assumes "reconcile_expired_leases env org d = Some d'" "queue_ok d"
  shows "\<exists>evs. d' = d\<lparr>execution_targets := reconciled_targets env org d, execution_events := evs,
       executions := update_where (doomed org (reconciled_targets env org d)) (failed_execution_row env) (executions d)\<rparr>"
proof -
  obtain d1 where d1: "reconcile_targets env org 0 (expired_targets env org d) d = Some d1"
    "finalize_reconciled_executions env org d1 = Some d'"
    using assms(1) by (auto simp: reconcile_expired_leases_def split: if_splits option.splits)
  have dist: "distinct (map et_id (execution_targets d))"
    using assms(2) by (simp add: queue_ok_def queue_inv_def)
  have "distinct (expired_targets env org d)"
    unfolding expired_targets_def using dist by (simp add: distinct_map)
  moreover have "\<forall>t \<in> set (expired_targets env org d). et_status t = TRunning"
    by (simp add: expired_targets_mem lease_expired_def)
  moreover have "set (expired_targets env org d) \<subseteq> set (execution_targets d)"
    by (auto simp: expired_targets_def)
  ultimately obtain evs where d1': "d1 = d\<lparr>execution_targets := reconciled_targets env org d, execution_events := evs\<rparr>"
    using reconcile_targets_rows [OF d1(1) dist] unfolding reconciled_targets_def by blast
  have "d' = d1\<lparr>executions := update_where (doomed org (execution_targets d1)) (failed_execution_row env) (executions d1)\<rparr>"
    using d1(2) by (simp add: finalize_reconciled_executions_def doomed_def [abs_def] failed_execution_row_def [abs_def]
        split: if_splits)
  with d1' show ?thesis by auto
qed

lemma failed_execution_row_sel [simp]:
  "ex_id (failed_execution_row env e) = ex_id e" "ex_status (failed_execution_row env e) = EFailed"
  "ex_org (failed_execution_row env e) = ex_org e"
  by (simp_all add: failed_execution_row_def)

lemma set_reconciled_targets:
  "set (reconciled_targets env org d) =
     (\<lambda>x. if x \<in> set (expired_targets env org d) then reconciled_row env x else x) ` set (execution_targets d)"
  by (simp add: reconciled_targets_def set_update_where)

lemma map_reconciled_targets: "map et_id (reconciled_targets env org d) = map et_id (execution_targets d)"
  by (simp add: reconciled_targets_def map_update_where)

text \<open>How the statuses of one execution's targets change.\<close>

lemma reconciled_statuses:
  "s \<in> statuses (reconciled_targets env org d) x \<longleftrightarrow>
     (\<exists>t \<in> set (execution_targets d). et_exec t = x \<and>
        s = (if t \<in> set (expired_targets env org d)
             then (if et_attempt t \<ge> et_max_attempts t then TDeadLetter else TPending) else et_status t))"
proof -
  let ?h = "\<lambda>t. if t \<in> set (expired_targets env org d) then reconciled_row env t else t"
  have exec: "et_exec (?h t) = et_exec t" for t by simp
  have "statuses (reconciled_targets env org d) x = (\<lambda>t. et_status (?h t)) ` {t \<in> set (execution_targets d). et_exec t = x}"
    unfolding statuses_def set_reconciled_targets using exec by (auto simp del: split_paired_Ex)
  then show ?thesis by (auto simp: image_iff split: if_splits)
qed

lemma reconciled_status_ok:
  assumes inv: "queue_ok d" and e: "e \<in> set (executions d)"
  shows "if doomed org (reconciled_targets env org d) e
    then status_ok EFailed (statuses (reconciled_targets env org d) (ex_id e))
    else status_ok (ex_status e) (statuses (reconciled_targets env org d) (ex_id e))"
proof -
  let ?X = "set (expired_targets env org d)" and ?T = "execution_targets d"
  let ?S = "statuses ?T (ex_id e)" and ?S' = "statuses (reconciled_targets env org d) (ex_id e)"
  have ok: "status_ok (ex_status e) ?S"
    using inv e unfolding queue_ok_def queue_inv_def by blast
  have dist: "distinct (map ex_id (executions d))"
    using inv by (simp add: queue_ok_def queue_inv_def)
  have run: "et_status t = TRunning" if "t \<in> ?X" for t
    using that by (simp add: expired_targets_mem lease_expired_def)
  have memS: "et_status t \<in> ?S" if "t \<in> set ?T" "et_exec t = ex_id e" for t
    using that by (auto simp: statuses_def)
  show ?thesis
  proof (cases "ex_status e = ERunning")
    case False
    then have "TRunning \<notin> ?S" using ok by (auto simp: status_ok_def split: exec_status.splits)
    then have none: "t \<notin> ?X" if "t \<in> set ?T" "et_exec t = ex_id e" for t
      using run memS that by force
    then have "s \<in> ?S' \<longleftrightarrow> s \<in> ?S" for s
      unfolding reconciled_statuses by (auto simp: statuses_def image_iff)
    then have "?S' = ?S" by blast
    moreover have "\<not> doomed org (reconciled_targets env org d) e"
    proof
      assume "doomed org (reconciled_targets env org d) e"
      then obtain t where "ex_status e = EQueued" and t: "t \<in> set (reconciled_targets env org d)"
        "et_exec t = ex_id e" "et_status t = TFailed \<or> et_status t = TDeadLetter"
        using False by (auto simp: doomed_def exec_active_def unsuccessful_def)
      then have "?S = {TPending}" using ok by (simp add: status_ok_def)
      moreover have "et_status t \<in> ?S'" using t(1,2) by (rule statuses_mem)
      ultimately show False using \<open>?S' = ?S\<close> t(3) by auto
    qed
    ultimately show ?thesis using ok by simp
  next
    case True
    then have S: "?S \<subseteq> {TPending, TRunning, TSucceeded, TDeadLetter}"
      "TPending \<in> ?S \<or> TRunning \<in> ?S \<or> TDeadLetter \<in> ?S"
      using ok by (auto simp: status_ok_def)
    have memS': "et_status t \<in> {TPending, TRunning, TSucceeded, TDeadLetter}"
      if "t \<in> set ?T" "et_exec t = ex_id e" for t
      using memS [OF that] S(1) by blast
    have S': "?S' \<subseteq> {TPending, TRunning, TSucceeded, TDeadLetter}"
    proof
      fix s assume "s \<in> ?S'"
      then show "s \<in> {TPending, TRunning, TSucceeded, TDeadLetter}"
        unfolding reconciled_statuses using memS' by (auto split: if_splits)
    qed
    obtain t where t: "t \<in> set ?T" "et_exec t = ex_id e" "et_status t \<in> {TPending, TRunning, TDeadLetter}"
      using S(2) by (auto simp: statuses_def)
    have "(if t \<in> ?X then (if et_attempt t \<ge> et_max_attempts t then TDeadLetter else TPending)
        else et_status t) \<in> ?S'"
      unfolding reconciled_statuses using t(1,2) by blast
    then have some: "TPending \<in> ?S' \<or> TRunning \<in> ?S' \<or> TDeadLetter \<in> ?S'"
      using t(3) by (auto split: if_splits)
    show ?thesis
    proof (cases "doomed org (reconciled_targets env org d) e")
      case True
      then have fin: "TPending \<notin> ?S'" "TRunning \<notin> ?S'"
        by (auto simp: doomed_def statuses_def unfinished_def)
      with True some S' show ?thesis by (auto simp: status_ok_def)
    next
      case False
      with \<open>ex_status e = ERunning\<close> S' some show ?thesis by (simp add: status_ok_def)
    qed
  qed
qed

lemma reconcile_inv:
  assumes inv: "queue_ok d" and r: "reconcile_expired_leases env org d = Some d'"
  shows "queue_ok d'"
proof -
  let ?T' = "reconciled_targets env org d"
  let ?E' = "update_where (doomed org ?T') (failed_execution_row env) (executions d)"
  have d': "executions d' = ?E'" "execution_targets d' = ?T'"
    using reconcile_shape [OF r inv] by auto
  have "target_ok t" if "t \<in> set ?T'" for t
    using that inv by (auto simp: set_reconciled_targets queue_ok_def queue_inv_def reconciled_row_ok)
  moreover have "status_ok (ex_status e') (statuses ?T' (ex_id e'))" if "e' \<in> set ?E'" for e'
    using that reconciled_status_ok [OF inv, of _ org env] by (auto simp: set_update_where split: if_splits)
  moreover have "map ex_id ?E' = map ex_id (executions d)" by (simp add: map_update_where)
  ultimately show ?thesis
    using inv by (simp add: queue_ok_def queue_inv_def d' map_reconciled_targets)
qed

section \<open>Submitting a result\<close>

lemma insert_receipt_shape:
  "insert_result_receipt env org q hash body d = Some d' \<Longrightarrow>
     \<exists>r. d' = d\<lparr>receipts := receipts d @ [r]\<rparr> \<and> rp_target r = sb_target q \<and> rp_lease r = sb_lease q
       \<and> rp_hash r = hash \<and> rp_code r = 200 \<and> rp_body r = body"
  by (auto simp: insert_result_receipt_def split: if_splits)

lemma store_output_shape:
  "store_output env org ex tg kind v d = Some (i, d') \<Longrightarrow> \<exists>as. d' = d\<lparr>artifact_records := as\<rparr>"
proof -
  assume a: "store_output env org ex tg kind v d = Some (i, d')"
  have "\<exists>as. d = d\<lparr>artifact_records := as\<rparr>" by (rule exI [of _ "artifact_records d"]) simp
  with a show ?thesis
    by (auto simp: store_output_def Let_def upsert_artifact_def split: option.splits if_splits)
qed

lemma persist_artifacts_shape:
  "persist_execution_artifacts env org ex tg out errs d = Some (i, j, d') \<Longrightarrow> \<exists>as. d' = d\<lparr>artifact_records := as\<rparr>"
  by (auto simp: persist_execution_artifacts_def dest!: store_output_shape split: option.splits) blast

lemma submit_retry_shape:
  assumes "submit_retry env org q hash attempt max_attempts d = Inr d'"
  shows "execution_targets d' = update_where (\<lambda>t. et_id t = sb_target q \<and> et_status t = TFailed)
         (retry_row env (retry_backoff_seconds attempt)) (execution_targets d)
     \<and> executions d' = executions d
     \<and> (\<exists>r. receipts d' = receipts d @ [r] \<and> rp_target r = sb_target q \<and> rp_lease r = sb_lease q \<and> rp_hash r = hash \<and> rp_code r = 200
     \<and> rp_body r = json_text (JObj [(''status'', JStr ''retry_scheduled'')]))"
  using assms
  by (auto simp: submit_retry_def Let_def dest!: record_event_shape write_audit_tx_shape insert_receipt_shape
      split: if_splits option.splits)

definition finished_row :: "env \<Rightarrow> submit_req \<Rightarrow> exec_status \<Rightarrow> execution \<Rightarrow> execution" where
  "finished_row env q st e = e\<lparr>ex_status := st, ex_finished_at := Some (go_now env),
     ex_error := sql_null_string (sb_error q)\<rparr>"

lemma finished_row_sel [simp]:
  "ex_id (finished_row env q st e) = ex_id e" "ex_status (finished_row env q st e) = st"
  "ex_org (finished_row env q st e) = ex_org e"
  by (simp_all add: finished_row_def)

definition left_over :: "submit_req \<Rightarrow> db \<Rightarrow> nat" where
  "left_over q d = count_where (\<lambda>t. et_exec t = sb_exec q \<and> unfinished t) (execution_targets d)"

definition final_exec_status :: "submit_req \<Rightarrow> db \<Rightarrow> exec_status" where
  "final_exec_status q d =
     (if count_where (\<lambda>t. et_exec t = sb_exec q \<and> unsuccessful t) (execution_targets d) > 0
      then EFailed else ESucceeded)"

lemma submit_complete_shape:
  assumes "submit_complete env org q hash status d = Inr d'"
  shows "execution_targets d' = execution_targets d
     \<and> (if left_over q d = 0
        then executions d' = update_where (\<lambda>e. ex_id e = sb_exec q \<and> ex_org e = org \<and> ex_status e = ERunning)
               (finished_row env q (final_exec_status q d)) (executions d)
          \<and> count_where (\<lambda>e. ex_id e = sb_exec q \<and> ex_org e = org \<and> ex_status e = ERunning) (executions d) = 1
        else executions d' = executions d)
     \<and> (\<exists>r. receipts d' = receipts d @ [r] \<and> rp_target r = sb_target q \<and> rp_lease r = sb_lease q \<and> rp_hash r = hash \<and> rp_code r = 200
     \<and> rp_body r = json_text (JObj [(''status'', JStr ''ok'')]))"
proof (cases "left_over q d = 0")
  case True
  with assms show ?thesis
    by (auto simp: submit_complete_def Let_def left_over_def final_exec_status_def finished_row_def [abs_def]
        dest!: record_event_shape write_audit_tx_shape insert_receipt_shape
        split: if_splits option.splits)
next
  case False
  with assms show ?thesis
    by (auto simp: submit_complete_def Let_def left_over_def
        dest!: record_event_shape write_audit_tx_shape insert_receipt_shape
        split: if_splits option.splits)
qed

lemma row_sels [simp]:
  "et_id (result_row env q st oi ei t) = et_id t" "et_exec (result_row env q st oi ei t) = et_exec t"
  "et_status (result_row env q st oi ei t) = st" "et_attempt (result_row env q st oi ei t) = et_attempt t"
  "et_max_attempts (result_row env q st oi ei t) = et_max_attempts t"
  "et_id (exhausted_row t) = et_id t" "et_exec (exhausted_row t) = et_exec t"
  "et_status (exhausted_row t) = et_status t" "et_attempt (exhausted_row t) = et_attempt t"
  "et_max_attempts (exhausted_row t) = et_max_attempts t"
  "et_id (retry_row env b t) = et_id t" "et_exec (retry_row env b t) = et_exec t"
  "et_status (retry_row env b t) = TPending" "et_attempt (retry_row env b t) = et_attempt t"
  "et_max_attempts (retry_row env b t) = et_max_attempts t"
  by (simp_all add: result_row_def exhausted_row_def retry_row_def)

text \<open>The final row of a target: the result, with the dead-letter note when it is out of attempts.\<close>

definition completed_row :: "env \<Rightarrow> submit_req \<Rightarrow> target_status \<Rightarrow> string \<Rightarrow> string \<Rightarrow> target \<Rightarrow> target" where
  "completed_row env q st oi ei t =
     (if st = TDeadLetter then exhausted_row (result_row env q st oi ei t) else result_row env q st oi ei t)"

lemma completed_row_sel [simp]:
  "et_id (completed_row env q st oi ei t) = et_id t" "et_exec (completed_row env q st oi ei t) = et_exec t"
  "et_status (completed_row env q st oi ei t) = st" "et_attempt (completed_row env q st oi ei t) = et_attempt t"
  "et_max_attempts (completed_row env q st oi ei t) = et_max_attempts t"
  by (simp_all add: completed_row_def)

definition result_failed :: "submit_req \<Rightarrow> bool" where
  "result_failed q \<longleftrightarrow> sb_exit_code q \<noteq> 0 \<or> sb_error q \<noteq> []"

definition result_status :: "submit_req \<Rightarrow> target \<Rightarrow> target_status" where
  "result_status q t =
     (if \<not> result_failed q then TSucceeded
      else if et_attempt t \<ge> et_max_attempts t then TDeadLetter else TFailed)"

text \<open>The last step of the transaction, from the row written so far.\<close>

lemma submit_tx_prefix:
  assumes tx: "submit_result_tx env org q hash d = Inr (m, d')" and ok: "queue_ok d"
  obtains t oi ei d2 where "t \<in> set (execution_targets d)" "holds_lease q t"
    "execution_targets d2 = update_where (\<lambda>x. et_id x = et_id t) (completed_row env q (result_status q t) oi ei)
       (execution_targets d)"
    "executions d2 = executions d" "receipts d2 = receipts d"
    "if result_status q t = TFailed
     then m = ''retry_scheduled'' \<and> submit_retry env org q hash (et_attempt t) (et_max_attempts t) d2 = Inr d'
     else m = ''ok'' \<and> submit_complete env org q hash (result_status q t) d2 = Inr d'"
proof -
  let ?T = "execution_targets d"
  obtain t ts where sel: "filter (holds_lease q) ?T = t # ts" and nf: "\<not> fails env ''submit.select'' 0"
    using tx by (auto simp: submit_result_tx_def Let_def split: if_splits list.splits)
  then have t: "t \<in> set ?T" "holds_lease q t" by (auto dest: Cons_mem)
  obtain oi ei d1 where pers: "persist_execution_artifacts env org (sb_exec q) (sb_target q) (sb_stdout q) (sb_stderr q) d
      = Some (oi, ei, d1)"
    using tx sel nf by (auto simp: submit_result_tx_def Let_def split: option.splits)
  obtain as where d1: "d1 = d\<lparr>artifact_records := as\<rparr>" using persist_artifacts_shape [OF pers] by blast
  let ?P = "\<lambda>x. holds_lease q x \<and> (\<exists>e \<in> set (executions d1). ex_id e = et_exec x \<and> ex_org e = org)
     \<and> (\<exists>r \<in> set (runners d1). Some (rn_id r) = et_runner x \<and> rn_org r = org)"
  let ?st = "result_status q t"
  let ?d2 = "d1\<lparr>execution_targets := update_where ?P (result_row env q ?st oi ei) ?T\<rparr>"
  let ?d3 = "if ?st = TDeadLetter
     then ?d2\<lparr>execution_targets := update_where (\<lambda>x. et_id x = sb_target q) exhausted_row (execution_targets ?d2)\<rparr>
     else ?d2"
  have st: "(if \<not> (sb_exit_code q \<noteq> 0 \<or> sb_error q \<noteq> []) then TSucceeded
      else if et_max_attempts t \<le> et_attempt t then TDeadLetter else TFailed) = ?st"
    by (simp add: result_status_def result_failed_def)
  have step: "count_where ?P ?T \<noteq> 0 \<and>
     (if ?st = TFailed
      then m = ''retry_scheduled'' \<and> submit_retry env org q hash (et_attempt t) (et_max_attempts t) ?d3 = Inr d'
      else m = ''ok'' \<and> submit_complete env org q hash ?st ?d3 = Inr d')"
  proof -
    have lt: "?st = TFailed \<Longrightarrow> et_attempt t < et_max_attempts t"
      by (auto simp: result_status_def split: if_splits)
    have T1: "execution_targets d1 = ?T" by (simp add: d1)
    show ?thesis
      using tx lt unfolding submit_result_tx_def Let_def sel pers
      by (simp only: nf if_False list.case option.case prod.case st T1 split: if_split_asm)
        (auto simp: map_sum_def split: sum.splits)
  qed
  have dist: "distinct (map et_id ?T)" using ok by (simp add: queue_ok_def queue_inv_def)
  obtain x where x: "x \<in> set ?T" "?P x" using step by (auto simp: count_where_0)
  have id: "et_id t = sb_target q" "et_id x = sb_target q" using t(2) x(2) by (auto simp: holds_lease_def)
  then have xt: "x = t" using distinct_map_eqD [OF dist x(1) t(1)] by simp
  have up: "update_where ?P (result_row env q ?st oi ei) ?T
      = update_where (\<lambda>y. et_id y = et_id t) (result_row env q ?st oi ei) ?T"
    using x(2) xt id by (intro by_id_cond [OF dist t(1)]) (auto simp: holds_lease_def)
  have "execution_targets ?d3 = update_where (\<lambda>y. et_id y = et_id t) (completed_row env q ?st oi ei) ?T"
  proof (cases "?st = TDeadLetter")
    case True
    have "execution_targets ?d3 = update_where (\<lambda>y. et_id y = et_id t) exhausted_row
        (update_where (\<lambda>y. et_id y = et_id t) (result_row env q ?st oi ei) ?T)"
      using True id(1) up by simp
    then show ?thesis
      using True by (simp add: completed_row_def [abs_def] update_where_twice)
  next
    case False
    then show ?thesis using up by (simp add: completed_row_def [abs_def])
  qed
  moreover have "executions ?d3 = executions d" "receipts ?d3 = receipts d" by (simp_all add: d1)
  ultimately show ?thesis using that [OF t, of ?d3 oi ei] step by blast
qed

lemma retry_of_completed_ok:
  "target_ok t \<Longrightarrow> target_ok (retry_row env b (completed_row env q TFailed oi ei t))"
  by (simp add: target_ok_def retry_row_def completed_row_def result_row_def)

lemma completed_row_ok:
  "target_ok t \<Longrightarrow> st \<noteq> TRunning \<Longrightarrow> st \<noteq> TPending \<Longrightarrow> target_ok (completed_row env q st oi ei t)"
  by (simp add: target_ok_def)

lemma submit_tx_inv:
  assumes ok: "queue_ok d" and tx: "submit_result_tx env org q hash d = Inr (m, d')"
  shows "queue_ok d'"
proof -
  let ?T = "execution_targets d" and ?E = "executions d"
  obtain t oi ei d2 where t: "t \<in> set ?T" "holds_lease q t"
    and T2: "execution_targets d2 = update_where (\<lambda>x. et_id x = et_id t) (completed_row env q (result_status q t) oi ei) ?T"
    and E2: "executions d2 = ?E" "receipts d2 = receipts d"
    and branch: "if result_status q t = TFailed
       then m = ''retry_scheduled'' \<and> submit_retry env org q hash (et_attempt t) (et_max_attempts t) d2 = Inr d'
       else m = ''ok'' \<and> submit_complete env org q hash (result_status q t) d2 = Inr d'"
    by (rule submit_tx_prefix [OF tx ok])
  have dist: "distinct (map et_id ?T)" "distinct (map ex_id ?E)" and inv: "queue_inv ?E ?T"
    and tok: "target_ok t"
    using ok t(1) by (auto simp: queue_ok_def queue_inv_def)
  have run: "et_status t = TRunning" and id: "et_id t = sb_target q" "et_exec t = sb_exec q"
    using t(2) by (auto simp: holds_lease_def)
  have parent: "ex_status e = ERunning"
    if "e \<in> set ?E" "ex_id e = et_exec t" for e
  proof -
    have "status_ok (ex_status e) (statuses ?T (et_exec t))" "TRunning \<in> statuses ?T (et_exec t)"
      using inv that statuses_mem [OF t(1) refl] run unfolding queue_inv_def by force+
    then show ?thesis by (auto simp: status_ok_def split: exec_status.splits)
  qed
  show ?thesis
  proof (cases "result_status q t = TFailed")
    case True
    let ?row = "\<lambda>x. retry_row env (retry_backoff_seconds (et_attempt t)) (completed_row env q TFailed oi ei x)"
    have sh: "execution_targets d' = update_where (\<lambda>x. et_id x = sb_target q \<and> et_status x = TFailed)
        (retry_row env (retry_backoff_seconds (et_attempt t))) (execution_targets d2)" "executions d' = executions d2"
      using branch True submit_retry_shape by auto
    have T2set: "set (execution_targets d2) = insert (completed_row env q TFailed oi ei t) (set ?T - {t})"
      using by_id_set [OF dist(1) t(1)] True by (simp add: T2)
    have "execution_targets d' = update_where (\<lambda>x. et_id x = et_id t) (retry_row env (retry_backoff_seconds (et_attempt t)))
        (execution_targets d2)"
      unfolding sh(1) using T2set dist(1) t(1) id(1)
      by (intro update_where_cong) (auto dest: distinct_map_eqD)
    then have T': "execution_targets d' = update_where (\<lambda>x. et_id x = et_id t) ?row ?T"
      using True by (simp add: T2 update_where_twice)
    have "queue_inv (executions d') (execution_targets d')"
    proof (rule queue_inv_replace [OF inv t(1), where t' = "?row t"])
      show "set (execution_targets d') = insert (?row t) (set ?T - {t})"
        unfolding T' by (rule by_id_set [OF dist(1) t(1)])
      show "map et_id (execution_targets d') = map et_id ?T" by (simp add: T' map_update_where)
      show "target_ok (?row t)" using tok by (rule retry_of_completed_ok)
      show "status_ok (ex_status e') (insert (et_status (?row t)) R)"
        if "e' \<in> set (executions d')" "ex_id e' = et_exec t" "statuses ?T (et_exec t) = insert (et_status t) R" for e' R
      proof -
        have "status_ok (ex_status e') (statuses ?T (et_exec t))"
          using inv that sh(2) E2 unfolding queue_inv_def by force
        with that(3) parent [of e'] that(1,2) sh(2) E2 show ?thesis by (auto simp: status_ok_def)
      qed
    qed (simp_all add: sh(2) E2)
    then show ?thesis by (simp add: queue_ok_def)
  next
    case False
    let ?st = "result_status q t"
    have st: "?st = TSucceeded \<or> ?st = TDeadLetter"
      using False by (auto simp: result_status_def split: if_splits)
    have sh: "execution_targets d' = execution_targets d2"
      and shE: "if left_over q d2 = 0
        then executions d' = update_where (\<lambda>e. ex_id e = sb_exec q \<and> ex_org e = org \<and> ex_status e = ERunning)
               (finished_row env q (final_exec_status q d2)) (executions d2)
          \<and> count_where (\<lambda>e. ex_id e = sb_exec q \<and> ex_org e = org \<and> ex_status e = ERunning) (executions d2) = 1
        else executions d' = executions d2"
      using branch False submit_complete_shape [of env org q hash ?st d2 d'] by auto
    have T': "set (execution_targets d') = insert (completed_row env q ?st oi ei t) (set ?T - {t})"
      unfolding sh T2 by (rule by_id_set [OF dist(1) t(1)])
    have counts: "left_over q d2 = 0 \<longleftrightarrow> TPending \<notin> statuses (execution_targets d') (et_exec t)
         \<and> TRunning \<notin> statuses (execution_targets d') (et_exec t)"
      "final_exec_status q d2 = (if TFailed \<in> statuses (execution_targets d') (et_exec t)
         \<or> TDeadLetter \<in> statuses (execution_targets d') (et_exec t) then EFailed else ESucceeded)"
      by (auto simp: left_over_def final_exec_status_def count_where_0 count_where_pos sh id statuses_iff
          unfinished_def unsuccessful_def)
    have "queue_inv (executions d') (execution_targets d')"
    proof (rule queue_inv_replace [OF inv t(1), where t' = "completed_row env q ?st oi ei t"])
      show "set (execution_targets d') = insert (completed_row env q ?st oi ei t) (set ?T - {t})" by (rule T')
      show "map et_id (execution_targets d') = map et_id ?T" by (simp add: sh T2 map_update_where)
      show "target_ok (completed_row env q ?st oi ei t)" using tok st by (auto intro: completed_row_ok)
      show "map ex_id (executions d') = map ex_id ?E" using shE by (auto simp: E2 map_update_where split: if_splits)
      show "e' \<in> set ?E" if "e' \<in> set (executions d')" "ex_id e' \<noteq> et_exec t" for e'
        using that shE id by (auto simp: E2 set_update_where split: if_splits)
      fix e' R assume e': "e' \<in> set (executions d')" "ex_id e' = et_exec t"
        and R: "statuses ?T (et_exec t) = insert (et_status t) R"
          "statuses (execution_targets d') (et_exec t) = insert (et_status (completed_row env q ?st oi ei t)) R"
      let ?S' = "statuses (execution_targets d') (et_exec t)"
      obtain e where e: "e \<in> set ?E" "ex_id e = et_exec t"
        using e' shE id by (auto simp: E2 set_update_where split: if_splits)
      note erun = parent [OF e]
      have "status_ok ERunning (statuses ?T (et_exec t))"
        using inv e erun unfolding queue_inv_def by force
      then have S': "?S' \<subseteq> {TPending, TRunning, TSucceeded, TDeadLetter}" "?st \<in> ?S'"
        using R st by (auto simp: status_ok_def)
      have "status_ok (ex_status e') ?S'"
      proof (cases "left_over q d2 = 0")
        case True
        then have nou: "TPending \<notin> ?S'" "TRunning \<notin> ?S'" using counts(1) by auto
        have "e' = finished_row env q (final_exec_status q d2) e"
        proof -
          obtain x where x: "x \<in> set ?E" "e' = (if ex_id x = sb_exec q \<and> ex_org x = org \<and> ex_status x = ERunning
              then finished_row env q (final_exec_status q d2) x else x)"
            using e'(1) shE True by (auto simp: E2 set_update_where)
          then have "ex_id x = et_exec t" using e'(2) by (auto split: if_splits)
          then have "x = e" using distinct_map_eqD [OF dist(2) x(1) e(1)] e(2) by simp
          moreover have "0 < count_where (\<lambda>e. ex_id e = sb_exec q \<and> ex_org e = org \<and> ex_status e = ERunning) ?E"
            using shE True E2(1) by simp
          then obtain y where y: "y \<in> set ?E" "ex_id y = sb_exec q" "ex_org y = org"
            unfolding count_where_pos by blast
          have "y = e" by (rule distinct_map_eqD [OF dist(2) y(1) e(1)]) (simp add: y(2) e(2) id)
          then have "ex_org e = org" using y(3) by simp
          ultimately show ?thesis using x(2) e(2) erun id by simp
        qed
        then show ?thesis
          using S' nou st by (auto simp: status_ok_def counts(2))
      next
        case False
        then have "e' = e" using e' shE e distinct_map_eqD [OF dist(2)] by (auto simp: E2)
        then show ?thesis using False S' counts(1) erun by (auto simp: status_ok_def)
      qed
      then show "status_ok (ex_status e') (insert (et_status (completed_row env q ?st oi ei t)) R)"
        using R(2) by simp
    qed simp
    then show ?thesis by (simp add: queue_ok_def)
  qed
qed


end
