(* ===== verification/QueueProps.thy ===== *)
theory QueueProps
  imports QueueInv
begin

text \<open>
  What the queue promises: bounded backoff, exclusive leases, fenced, atomic and idempotent results,
  what a reconciliation leaves behind, and that a granted claim carries a signature its runner
  accepts.  \<open>transactional\<close> is the contract of a handler whose refusals leave the database alone.
\<close>

section \<open>Handlers that change nothing when they refuse\<close>

locale transactional =
  fixes handle :: "'q \<Rightarrow> db \<Rightarrow> resp \<times> db"
    and granted :: "resp \<Rightarrow> bool"
  assumes refused_unchanged: "\<not> granted (fst (handle q d)) \<Longrightarrow> snd (handle q d) = d"
begin

fun serve :: "'q list \<Rightarrow> db \<Rightarrow> db" where
  "serve [] d = d"
| "serve (q # qs) d = serve qs (snd (handle q d))"

lemma invariant_step:
  assumes "\<And>q d. P d \<Longrightarrow> granted (fst (handle q d)) \<Longrightarrow> P (snd (handle q d))" "P d"
  shows "P (snd (handle q d))"
  using assms refused_unchanged by (cases "granted (fst (handle q d))") auto

lemma invariant_serve:
  assumes "\<And>q d. P d \<Longrightarrow> granted (fst (handle q d)) \<Longrightarrow> P (snd (handle q d))" "P d"
  shows "P (serve qs d)"
  using assms(2)
proof (induction qs arbitrary: d)
  case (Cons q qs)
  have "P (snd (handle q d))"
    by (rule invariant_step [where P = P]) (use assms(1) Cons.prems in auto)
  then show ?case using Cons.IH by simp
qed simp

lemma changed_granted: "snd (handle q d) \<noteq> d \<Longrightarrow> granted (fst (handle q d))"
  using refused_unchanged by blast

end

section \<open>Submitting is transactional\<close>

lemma submit_retry_refused: "submit_retry env org q hash a m d = Inl r \<Longrightarrow> resp_code r \<noteq> 200"
  by (auto simp: submit_retry_def Let_def split: if_splits option.splits)

lemma submit_complete_refused: "submit_complete env org q hash st d = Inl r \<Longrightarrow> resp_code r \<noteq> 200"
  by (auto simp: submit_complete_def Let_def split: if_splits option.splits)

lemma map_sum_Inl: "map_sum f g s = Inl r \<longleftrightarrow> (\<exists>x. s = Inl x \<and> r = f x)"
  by (cases s) auto

lemma submit_tx_refused: "submit_result_tx env org q hash d = Inl r \<Longrightarrow> resp_code r \<noteq> 200"
  by (auto simp: submit_result_tx_def Let_def map_sum_Inl submit_retry_refused submit_complete_refused
      simp del: split_paired_Ex split: if_splits list.splits option.splits)

lemma redacted_sel [simp]:
  "sb_exec (redacted env q) = sb_exec q" "sb_target (redacted env q) = sb_target q"
  "sb_runner (redacted env q) = sb_runner q" "sb_lease (redacted env q) = sb_lease q"
  "sb_error (redacted env q) = sb_error q" "sb_exit_code (redacted env q) = sb_exit_code q"
  by (simp_all add: redacted_def)

definition submit_wellformed :: "submit_req \<Rightarrow> bool" where
  "submit_wellformed q \<longleftrightarrow> sb_exec q \<noteq> [] \<and> sb_target q \<noteq> [] \<and> sb_runner q \<noteq> [] \<and> sb_lease q \<noteq> []"

lemma handle_submit_split:
  "(\<exists>r. resp_code r \<noteq> 200 \<and> handle_submit_result env token body d = (r, d))
   \<or> (\<exists>q org. body = Some q \<and> submit_wellformed q
        \<and> authenticate_bound_runner env d token (sb_runner q) = Inr org
        \<and> handle_submit_result env token body d = submit_body env org q d)"
proof (cases "authenticate_runner_credential env d token")
  case (Inl e)
  then show ?thesis by (simp add: handle_submit_result_def)
next
  case (Inr p)
  obtain org rid where p: "authenticate_runner_credential env d token = Inr (org, rid)"
    using Inr by (cases p) simp
  show ?thesis
  proof (cases "rid = [] \<or> \<not> bind_tenant_connection env org \<or> body = None")
    case True
    with p show ?thesis by (auto simp: handle_submit_result_def split: option.splits)
  next
    case False
    then obtain q where q: "body = Some q" by blast
    show ?thesis
    proof (cases "authenticate_bound_runner env d token (sb_runner q)")
      case (Inl e)
      with p q show ?thesis by (simp add: handle_submit_result_def)
    next
      case (Inr org')
      then have "org' = org" using p by (auto simp: authenticate_bound_runner_def split: if_splits)
      with Inr p q False show ?thesis
        by (auto simp: handle_submit_result_def submit_wellformed_def)
    qed
  qed
qed

lemma submit_body_refused:
  "resp_code (fst (submit_body env org q d)) \<noteq> 200 \<Longrightarrow> snd (submit_body env org q d) = d"
  by (auto simp: submit_body_def split: if_splits list.splits sum.splits prod.splits)

lemma submit_refused_unchanged:
  "resp_code (fst (handle_submit_result env token body d)) \<noteq> 200 \<Longrightarrow>
     snd (handle_submit_result env token body d) = d"
  using handle_submit_split [of env token body d] submit_body_refused by auto

interpretation submit: transactional
  "\<lambda>(env, token, body). handle_submit_result env token body" "\<lambda>r. resp_code r = 200"
  by unfold_locales (use submit_refused_unchanged in auto)

lemma submit_body_inv: "queue_ok d \<Longrightarrow> queue_ok (snd (submit_body env org q d))"
  by (auto simp: submit_body_def submit_tx_inv split: list.split sum.split)

lemma submit_inv: "queue_ok d \<Longrightarrow> queue_ok (snd (handle_submit_result env token body d))"
  using handle_submit_split [of env token body d] submit_body_inv by fastforce

lemma submit_serve_inv: "queue_ok d \<Longrightarrow> queue_ok (submit.serve qs d)"
  by (rule submit.invariant_serve) (use submit_inv in \<open>auto split: prod.splits\<close>)

lemma handle_submit_authenticated:
  assumes "authenticate_bound_runner env d token (sb_runner q) = Inr org" "submit_wellformed q"
  shows "handle_submit_result env token (Some q) d = submit_body env org q d"
proof -
  obtain rid where c: "authenticate_runner_credential env d token = Inr (org, rid)" "rid \<noteq> []"
    using assms(1) by (auto simp: authenticate_bound_runner_def split: sum.splits if_splits)
  then have "bind_tenant_connection env org"
    by (auto simp: authenticate_runner_credential_def Let_def split: if_splits list.splits)
  with c assms show ?thesis
    by (auto simp: handle_submit_result_def submit_wellformed_def)
qed

text \<open>
  A result is accepted whole or not at all: whatever database statement fails, and for every
  other refusal (authentication, a conflicting receipt, a lost lease, a finished
  execution), \<open>handleSubmitResult\<close> answers with a status other than 200 and leaves the database exactly as
  it was.
\<close>

theorem submit_atomic:
  assumes "resp_code (fst (handle_submit_result env token body d)) \<noteq> 200"
  shows "snd (handle_submit_result env token body d) = d"
  using assms by (rule submit_refused_unchanged)

lemma holds_lease_redacted [simp]: "holds_lease (redacted env q) t = holds_lease q t"
  by (simp add: holds_lease_def)

lemma submit_needs_lease:
  assumes "submit_result_tx env org q hash d = Inr (m, d')"
  shows "\<exists>t \<in> set (execution_targets d). holds_lease q t"
  using assms by (auto simp: submit_result_tx_def Let_def dest: Cons_mem split: if_splits list.splits)

text \<open>
  C2: results are fenced by the lease: when no target is running under the runner and lease a result
  names (because the lease expired and the target was requeued, reclaimed under a new lease,
  dead-lettered, cancelled or finished), and that lease has not reported before, the result is refused and
  nothing changes.
\<close>

theorem submit_fenced:
  assumes "\<forall>t \<in> set (execution_targets d). \<not> holds_lease q t"
    and "\<forall>rec \<in> set (receipts d). \<not> (rp_target rec = sb_target q \<and> rp_lease rec = sb_lease q)"
  shows "resp_code (fst (handle_submit_result env token (Some q) d)) \<noteq> 200
    \<and> snd (handle_submit_result env token (Some q) d) = d"
proof -
  have none: "filter (\<lambda>r. rp_target r = sb_target q \<and> rp_lease r = sb_lease q) (receipts d) = []"
    using assms(2) by (simp add: filter_empty_conv)
  have tx: "\<exists>r. submit_result_tx env org (redacted env q) (submit_hash env q) d = Inl r \<and> resp_code r \<noteq> 200" for org
    using submit_needs_lease [of env org "redacted env q" "submit_hash env q" d] assms(1)
      submit_tx_refused [of env org "redacted env q" "submit_hash env q" d]
    by (cases "submit_result_tx env org (redacted env q) (submit_hash env q) d") auto
  have "resp_code (fst (submit_body env org q d)) \<noteq> 200 \<and> snd (submit_body env org q d) = d" for org
    using tx [of org] none by (auto simp: submit_body_def)
  then show ?thesis
    using handle_submit_split [of env token "Some q" d] by fastforce
qed

fun body_text :: "body \<Rightarrow> string" where
  "body_text (JsonBody j) = json_text j"
| "body_text (RawBody s) = s"

lemma submit_tx_receipt:
  assumes "submit_result_tx env org q hash d = Inr (m, d')" "queue_ok d"
  shows "\<exists>rec. receipts d' = receipts d @ [rec] \<and> rp_target rec = sb_target q \<and> rp_lease rec = sb_lease q
    \<and> rp_hash rec = hash \<and> rp_code rec = 200 \<and> rp_body rec = json_text (JObj [(''status'', JStr m)])"
proof -
  obtain t d2 where "receipts d2 = receipts d" and
    branch: "if result_status q t = TFailed
       then m = ''retry_scheduled'' \<and> submit_retry env org q hash (et_attempt t) (et_max_attempts t) d2 = Inr d'
       else m = ''ok'' \<and> submit_complete env org q hash (result_status q t) d2 = Inr d'"
    by (rule submit_tx_prefix [OF assms])
  then show ?thesis
    using submit_retry_shape [of env org q hash "et_attempt t" "et_max_attempts t" d2 d']
      submit_complete_shape [of env org q hash "result_status q t" d2 d']
    by (cases "result_status q t = TFailed") auto
qed

text \<open>
  C10: submitting is idempotent: when a result has been accepted, submitting the same result again
  (the runner never saw the answer), whatever the state of the lease by then, is answered 200 with the
  same body and changes nothing; a different payload under the same lease is refused with 409.
\<close>

theorem submit_idempotent:
  assumes "queue_ok d" "handle_submit_result env token (Some q) d = (r, d')" "resp_code r = 200"
    and "authenticate_bound_runner env' d' token' (sb_runner q') = Inr org'" "submit_wellformed q'"
    and "sb_target q' = sb_target q" "sb_lease q' = sb_lease q" "\<forall>at i. \<not> fails env' at i"
    and "\<forall>rec \<in> set (receipts d). \<not> (rp_target rec = sb_target q \<and> rp_lease rec = sb_lease q)"
  shows "snd (handle_submit_result env' token' (Some q') d') = d'
    \<and> (if submit_hash env' q' = submit_hash env q
       then resp_code (fst (handle_submit_result env' token' (Some q') d')) = 200
         \<and> body_text (resp_body (fst (handle_submit_result env' token' (Some q') d'))) = body_text (resp_body r)
       else resp_code (fst (handle_submit_result env' token' (Some q') d')) = 409)"
proof -
  obtain org where b: "submit_body env org q d = (r, d')"
    using handle_submit_split [of env token "Some q" d] assms(2,3) by auto
  have none: "filter (\<lambda>r. rp_target r = sb_target q \<and> rp_lease r = sb_lease q) (receipts d) = []"
    using assms(9) by (simp add: filter_empty_conv)
  then obtain m where tx: "submit_result_tx env org (redacted env q) (submit_hash env q) d = Inr (m, d')"
    and r: "r = reply 200 [(''status'', JStr m)]"
    using b assms(3) submit_tx_refused [of env org "redacted env q" "submit_hash env q" d]
    by (auto simp: submit_body_def split: if_splits sum.splits)
  obtain rec where rec: "receipts d' = receipts d @ [rec]" "rp_target rec = sb_target q" "rp_lease rec = sb_lease q"
    "rp_hash rec = submit_hash env q" "rp_code rec = 200" "rp_body rec = json_text (JObj [(''status'', JStr m)])"
    using submit_tx_receipt [OF tx assms(1)] by auto
  have "filter (\<lambda>r. rp_target r = sb_target q' \<and> rp_lease r = sb_lease q') (receipts d') = [rec]"
    using none rec assms(6,7) by simp
  then have "submit_body env' org' q' d' = (if submit_hash env q \<noteq> submit_hash env' q'
      then (err 409 ''result payload conflicts with existing receipt'', d')
      else (write_raw_json 200 (json_text (JObj [(''status'', JStr m)])), d'))"
    using assms(8) rec by (simp add: submit_body_def)
  then show ?thesis
    using handle_submit_authenticated [OF assms(4,5)]
    by (simp add: r reply_def write_raw_json_def jmap_def)
qed

section \<open>Claiming\<close>

lemma claim_row_tx_refused: "claim_row_tx env org rid lid lx c d = Inl r \<Longrightarrow> resp_code r \<noteq> 200"
  by (auto simp: claim_row_tx_def Let_def split: prod.splits if_splits option.splits)

text \<open>The three ways a claim request can leave the database.\<close>

lemma claim_cases:
  assumes "handle_claim_job env token rid tf (d, th) = (r, d', th')"
  obtains (Unchanged) "d' = d" "resp_code r \<noteq> 200"
  | (Nothing) org where "reconcile_expired_leases env org d = Some d'" "resp_code r \<noteq> 200"
  | (Claimed) org d1 t e s where "authenticate_bound_runner env d token rid = Inr org"
      "d1 = d \<or> reconcile_expired_leases env org d = Some d1"
      "(t, e, s) \<in> set (claim_candidates env org rid tf d1)"
      "claim_row_tx env org rid (''lease_'' @ short_id env ''claim.lease'' 0) (go_now env + 5 * 60) (t, e, s) d1 = Inr d'"
      "case sign (mac env) (signer_key env)
           (claim_claims rid (''lease_'' @ short_id env ''claim.lease'' 0) (go_now env + 5 * 60) t e s) of
         Inl _ \<Rightarrow> resp_code r = 500
       | Inr sg \<Rightarrow> r = claim_response
           (claim_claims rid (''lease_'' @ short_id env ''claim.lease'' 0) (go_now env + 5 * 60) t e s) sg"
proof (cases "authenticate_bound_runner env d token rid")
  case (Inl e)
  with assms show ?thesis by (intro Unchanged) (auto simp: handle_claim_job_def)
next
  case (Inr org)
  show ?thesis
  proof (cases "\<not> bind_tenant_connection env org \<or> rid = [] \<or> fails env ''claim.begin'' 0")
    case True
    with assms Inr show ?thesis
      by (intro Unchanged) (auto simp: handle_claim_job_def split: if_splits)
  next
    case False
    obtain rc th1 where du: "due th org (go_now env) = (rc, th1)" by fastforce
    show ?thesis
    proof (cases "if rc then reconcile_expired_leases env org d else Some d")
      case None
      with assms Inr False du show ?thesis
        by (intro Unchanged) (auto simp: handle_claim_job_def split: if_splits)
    next
      case (Some d1)
      then have d1: "d1 = d \<or> reconcile_expired_leases env org d = Some d1" by (auto split: if_splits)
      then have nx: "claim_next env org rid tf d d1 = (r, d')"
        using assms Inr False du Some by (auto simp: handle_claim_job_def split: if_splits prod.splits)
      show ?thesis
      proof (cases "if fails env ''claim.select'' 0 then [] else claim_candidates env org rid tf d1")
        case Nil
        then have "d' = d \<or> d' = d1" "resp_code r \<noteq> 200"
          using nx by (auto simp: claim_next_def split: if_splits)
        with d1 Unchanged Nothing show ?thesis by blast
      next
        case (Cons c cs)
        obtain t e s where c: "c = (t, e, s)" by (cases c)
        have mem: "(t, e, s) \<in> set (claim_candidates env org rid tf d1)"
          using Cons c by (auto split: if_splits)
        show ?thesis
        proof (cases "claim_row_tx env org rid (''lease_'' @ short_id env ''claim.lease'' 0) (go_now env + 5 * 60) c d1")
          case (Inl r')
          then show ?thesis
            using nx Cons claim_row_tx_refused [OF Inl] by (intro Unchanged) (auto simp: claim_next_def Let_def)
        next
          case ok: (Inr d2)
          then have "d' = d2" "case sign (mac env) (signer_key env)
               (claim_claims rid (''lease_'' @ short_id env ''claim.lease'' 0) (go_now env + 5 * 60) t e s) of
             Inl _ \<Rightarrow> resp_code r = 500
           | Inr sg \<Rightarrow> r = claim_response
               (claim_claims rid (''lease_'' @ short_id env ''claim.lease'' 0) (go_now env + 5 * 60) t e s) sg"
            using nx Cons c by (auto simp: claim_next_def Let_def split: sum.splits)
          with ok c show ?thesis by (intro Claimed [OF Inr d1 mem]) simp_all
        qed
      qed
    qed
  qed
qed

lemma claim_inv:
  assumes "queue_ok d" "handle_claim_job env token rid tf (d, th) = (r, d', th')"
  shows "queue_ok d'"
  using assms(2)
proof (cases rule: claim_cases)
  case (Claimed org d1 t e s)
  then have "queue_ok d1" using assms(1) reconcile_inv by blast
  then show ?thesis using Claimed claim_row_tx_inv by blast
qed (use assms(1) reconcile_inv in auto)

lemma claim_update_one:
  assumes ok: "queue_ok d1" and mem: "(t, e, s) \<in> set (claim_candidates env org rid tf d1)"
  shows "update_where (claim_condition env (et_id t) (et_status t)) f (execution_targets d1)
     = update_where (\<lambda>x. x = t) f (execution_targets d1)"
proof (rule update_where_cong)
  note m = claim_candidates_mem [OF mem]
  fix x assume x: "x \<in> set (execution_targets d1)"
  have "distinct (map et_id (execution_targets d1))" using ok by (simp add: queue_ok_def queue_inv_def)
  then have "et_id x = et_id t \<Longrightarrow> x = t" using x m by (meson distinct_map_eqD)
  then show "claim_condition env (et_id t) (et_status t) x \<longleftrightarrow> x = t"
    using m by (auto simp: claim_condition_def)
qed (rule refl)

text \<open>
  C9: what a claim grants.  When \<open>handleClaimJob\<close> answers 200, then, in the database as the
  reconciliation (if it was due) left it, there is a target that was ready (pending with its backoff
  elapsed, or running with an expired lease) and had attempts left, of a queued or running execution of the runner's organisation,
  on a server in the scope of the active runner; exactly that row becomes
  running under this runner with a new lease for five minutes and one more attempt, and the response
  carries the signature over exactly the job's execution, target, lease, command, host and credential.
\<close>

theorem claim_grants:
  assumes "queue_ok d" "handle_claim_job env token rid tf (d, th) = (r, d', th')" "resp_code r = 200"
  shows "\<exists>org d1 t e s sg.
    authenticate_bound_runner env d token rid = Inr org
    \<and> (d1 = d \<or> reconcile_expired_leases env org d = Some d1)
    \<and> t \<in> set (execution_targets d1) \<and> claim_ready env t \<and> et_attempt t < et_max_attempts t
    \<and> e \<in> set (executions d1) \<and> ex_id e = et_exec t \<and> ex_org e = org \<and> exec_active e
    \<and> sv_id s = et_server t \<and> runner_in_scope org rid (et_server t) d1
    \<and> execution_targets d' = update_where (\<lambda>x. x = t)
        (claim_row env rid (''lease_'' @ short_id env ''claim.lease'' 0) (go_now env + 300)) (execution_targets d1)
    \<and> sign (mac env) (signer_key env)
        (claim_claims rid (''lease_'' @ short_id env ''claim.lease'' 0) (go_now env + 300) t e s) = Inr sg
    \<and> r = claim_response
        (claim_claims rid (''lease_'' @ short_id env ''claim.lease'' 0) (go_now env + 300) t e s) sg"
  using assms(2)
proof (cases rule: claim_cases)
  case (Claimed org d1 t e s)
  have ok: "queue_ok d1" using assms(1) Claimed(2) reconcile_inv by blast
  note m = claim_candidates_mem [OF Claimed(3)]
  have five: "go_now env + 5 * 60 = go_now env + 300" by simp
  have T: "execution_targets d' = update_where (\<lambda>x. x = t)
      (claim_row env rid (''lease_'' @ short_id env ''claim.lease'' 0) (go_now env + 300)) (execution_targets d1)"
    using claim_row_tx_shape [OF Claimed(4)] claim_update_one [OF ok Claimed(3)] by auto
  obtain sg where sg: "sign (mac env) (signer_key env)
      (claim_claims rid (''lease_'' @ short_id env ''claim.lease'' 0) (go_now env + 300) t e s) = Inr sg"
    "r = claim_response (claim_claims rid (''lease_'' @ short_id env ''claim.lease'' 0) (go_now env + 300) t e s) sg"
    using Claimed(5) assms(3) by (auto split: sum.splits)
  show ?thesis
    using Claimed(1,2) m T sg
    by (intro exI [of _ org] exI [of _ d1] exI [of _ t] exI [of _ e] exI [of _ s] exI [of _ sg] conjI) auto
qed (use assms(3) in auto)

text \<open>
  C1: a live lease is never taken away.  While a target is running and its lease has not expired, no
  claim request of any runner, whatever the response, changes the target's row.
\<close>

theorem claim_never_steals:
  assumes "queue_ok d" "handle_claim_job env token rid tf (d, th) = (r, d', th')"
    and "t \<in> set (execution_targets d)" "et_status t = TRunning"
    and "et_lease_expires t = Some x" "sql_now env < x"
  shows "t \<in> set (execution_targets d')"
proof -
  have live: "\<not> lease_expired env t" using assms(4-6) by (simp add: lease_expired_def)
  have rec: "t \<in> set (execution_targets d1)" if "reconcile_expired_leases env org d = Some d1" for org d1
  proof -
    have "execution_targets d1 = reconciled_targets env org d"
      using reconcile_shape [OF that assms(1)] by auto
    moreover have "t \<notin> set (expired_targets env org d)" using live by (simp add: expired_targets_mem)
    ultimately show ?thesis
      using assms(3) by (auto simp: set_reconciled_targets image_iff intro!: bexI [of _ t])
  qed
  from assms(2) show ?thesis
  proof (cases rule: claim_cases)
    case (Claimed org d1 t0 e s)
    have ok: "queue_ok d1" and t: "t \<in> set (execution_targets d1)"
      using assms(1,3) Claimed(2) reconcile_inv rec by blast+
    have "t \<noteq> t0" using claim_candidates_mem [OF Claimed(3)] live assms(4) by (auto simp: claim_ready_def)
    moreover have "execution_targets d' = update_where (\<lambda>x. x = t0)
       (claim_row env rid (''lease_'' @ short_id env ''claim.lease'' 0) (go_now env + 5 * 60)) (execution_targets d1)"
      using claim_row_tx_shape [OF Claimed(4)] claim_update_one [OF ok Claimed(3)] by auto
    ultimately show ?thesis using t by (auto simp: set_update_where image_iff intro!: bexI [of _ t])
  qed (use assms(3) rec in auto)
qed

text \<open>
  The two ends of the trust boundary agree.  The job in a 200 claim response, read back from its
  fields, verifies under the runner's copy of the key at any time up to the lease's expiry, which is
  five minutes after the claim.
\<close>

theorem claimed_job_verifies:
  assumes "queue_ok d" "handle_claim_job env token rid tf (d, th) = (r, d', th')" "resp_code r = 200"
    and "new_signer k = Inr key" "signer_key env = Some key" "\<forall>m. mac env key m \<noteq> []"
    and "now \<le> go_now env + 300"
  shows "\<exists>c sg. r = claim_response c sg \<and> verify (mac env) (Some key) c sg now = None
    \<and> cl_runner_id c = rid \<and> cl_expires_at_unix c = go_now env + 300"
proof -
  obtain t e s sg where s: "sign (mac env) (signer_key env)
        (claim_claims rid (''lease_'' @ short_id env ''claim.lease'' 0) (go_now env + 300) t e s) = Inr sg"
    "r = claim_response
        (claim_claims rid (''lease_'' @ short_id env ''claim.lease'' 0) (go_now env + 300) t e s) sg"
  proof -
    from assms(2) show ?thesis
    proof (cases rule: claim_cases)
      case (Claimed org d1 t e s)
      have five: "go_now env + 5 * 60 = go_now env + 300" by simp
      show ?thesis using Claimed(5) assms(3) that unfolding five by (auto split: sum.splits)
    qed (use assms(3) in auto)
  qed
  let ?c = "claim_claims rid (''lease_'' @ short_id env ''claim.lease'' 0) (go_now env + 300) t e s"
  have exp: "cl_expires_at_unix ?c = go_now env + 300" "cl_runner_id ?c = rid"
    by (simp_all add: claim_claims_def)
  obtain sg' where "sign (mac env) (Some key) ?c = Inr sg'" "verify (mac env) (Some key) ?c sg' now = None"
    using sign_verify_lemma [where mac = "mac env" and key = key, OF assms(4,6), of ?c now] exp assms(7) by auto
  with s assms(5) exp show ?thesis by auto
qed

section \<open>Reconciling\<close>

lemma no_expired_left:
  "t \<in> set (expired_targets env org d) \<Longrightarrow> \<not> lease_expired env (reconciled_row env t)"
  by (simp add: lease_expired_def)

text \<open>
  After \<open>reconcileExpiredLeases\<close> no running target of an active execution of the organisation has an expired lease:
  each one that had is pending again, with its attempts unchanged and its backoff
  set, if it has attempts left, and in \<open>dead_letter\<close> otherwise; no other target changes; and an
  execution left with no work and a dead-lettered target has failed.
\<close>

theorem reconcile_post:
  assumes "queue_ok d" "reconcile_expired_leases env org d = Some d'"
  shows "expired_targets env org d' = []
    \<and> execution_targets d' = map (\<lambda>t. if t \<in> set (expired_targets env org d) then reconciled_row env t else t)
        (execution_targets d)
    \<and> (\<forall>e \<in> set (executions d'). \<not> doomed org (execution_targets d') e)"
proof -
  let ?T' = "reconciled_targets env org d"
  have d': "execution_targets d' = ?T'"
    "executions d' = update_where (doomed org ?T') (failed_execution_row env) (executions d)"
    using reconcile_shape [OF assms(2,1)] by auto
  have none: "t \<notin> set (expired_targets env org d')" if t: "t \<in> set ?T'" for t
  proof
    assume X: "t \<in> set (expired_targets env org d')"
    obtain u where u: "u \<in> set (execution_targets d)"
      "t = (if u \<in> set (expired_targets env org d) then reconciled_row env u else u)"
      using t by (auto simp: set_reconciled_targets)
    show False
    proof (cases "u \<in> set (expired_targets env org d)")
      case True
      with u X no_expired_left show ?thesis by (auto simp: expired_targets_mem)
    next
      case False
      obtain e' where "e' \<in> set (executions d')" "ex_id e' = et_exec t" "ex_org e' = org" "exec_active e'"
        using X by (auto simp: expired_targets_mem)
      then have "\<exists>e \<in> set (executions d). ex_id e = et_exec t \<and> ex_org e = org \<and> exec_active e"
        by (auto simp: d'(2) set_update_where exec_active_def split: if_splits)
      with X u False show ?thesis by (auto simp: expired_targets_mem)
    qed
  qed
  have e1: "expired_targets env org d' = []"
  proof (cases "expired_targets env org d'")
    case (Cons t ts)
    then have m: "t \<in> set (expired_targets env org d')" by simp
    have "t \<in> set ?T'" using expired_targets_mem [THEN iffD1, OF m] d'(1) by simp
    with none m show ?thesis by blast
  qed simp
  have e2: "\<not> doomed org ?T' e" if e: "e \<in> set (executions d')" for e
  proof -
    obtain x where "e = (if doomed org ?T' x then failed_execution_row env x else x)"
      using e unfolding d'(2) set_update_where by (elim imageE)
    then show ?thesis by (auto simp: doomed_def exec_active_def)
  qed
  show ?thesis
    using e1 e2 by (simp add: d'(1)) (simp add: reconciled_targets_def update_where_def)
qed

text \<open>
  The backoff before retry \<open>n\<close> is \<open>2^(n-1)\<close> seconds, capped at one minute: it never decreases with
  the attempt number and lies between 1 and 60.
\<close>

theorem retry_backoff:
  "retry_backoff_seconds n = min 60 (2 ^ nat (n - 1))
   \<and> 1 \<le> retry_backoff_seconds n \<and> retry_backoff_seconds n \<le> 60"
proof -
  have "retry_backoff_seconds n = min 60 (2 ^ nat (n - 1))"
  proof (cases "n \<le> 6")
    case True
    consider "n \<le> 1" | "n = 2" | "n = 3" | "n = 4" | "n = 5" | "n = 6" using True by linarith
    then show ?thesis
      by cases (simp_all add: retry_backoff_seconds_def backoff_loop.simps)
  next
    case False
    then have "(2 :: int) ^ 6 \<le> 2 ^ nat (n - 1)" by (intro power_increasing) auto
    with False show ?thesis
      by (simp add: retry_backoff_seconds_def backoff_loop.simps)
  qed
  then show ?thesis by simp
qed


section \<open>Renewing\<close>

lemma statuses_Nil: "statuses [] x = {}"
  by (simp add: statuses_def)

lemma statuses_Cons:
  "statuses (t # T) x = (if et_exec t = x then insert (et_status t) (statuses T x) else statuses T x)"
  by (auto simp: statuses_def)

lemma renewed_ok: "target_ok t \<Longrightarrow> target_ok (t\<lparr>et_lease_expires := Some x\<rparr>)" if "et_status t = TRunning"
  using that by (simp add: target_ok_def)

lemma queue_inv_same_status:
  assumes "queue_inv E T" "\<And>t. t \<in> set T \<Longrightarrow> P t \<Longrightarrow> target_ok (f t)"
    and "\<And>t. et_id (f t) = et_id t" "\<And>t. et_exec (f t) = et_exec t" "\<And>t. et_status (f t) = et_status t"
  shows "queue_inv E (update_where P f T)"
proof -
  have "statuses (update_where P f T) x = statuses T x" for x
    by (induction T) (auto simp: statuses_Cons assms(4,5))
  then show ?thesis
    using assms by (auto simp: queue_inv_def map_update_where set_update_where)
qed

lemma handle_renew_shape:
  "handle_renew_lease env token body d = (r, d') \<Longrightarrow>
     d' = d \<or> (\<exists>q. body = Some q \<and> d' = d\<lparr>execution_targets := update_where (holds_lease q)
       (\<lambda>t. t\<lparr>et_lease_expires := Some (go_now env + 300)\<rparr>) (execution_targets d)\<rparr>)"
  by (auto simp: handle_renew_lease_def Let_def split: option.splits sum.splits if_splits)

lemma renew_inv:
  assumes "queue_ok d" "handle_renew_lease env token body d = (r, d')"
  shows "queue_ok d'"
  using handle_renew_shape [OF assms(2)]
proof (elim disjE exE conjE)
  fix q assume d': "d' = d\<lparr>execution_targets := update_where (holds_lease q)
       (\<lambda>t. t\<lparr>et_lease_expires := Some (go_now env + 300)\<rparr>) (execution_targets d)\<rparr>"
  have "queue_inv (executions d) (update_where (holds_lease q)
       (\<lambda>t. t\<lparr>et_lease_expires := Some (go_now env + 300)\<rparr>) (execution_targets d))"
  proof (rule queue_inv_same_status)
    fix t assume "t \<in> set (execution_targets d)" "holds_lease q t"
    then show "target_ok (t\<lparr>et_lease_expires := Some (go_now env + 300)\<rparr>)"
      using assms(1) by (auto simp: queue_ok_def queue_inv_def holds_lease_def intro: renewed_ok)
  qed (use assms(1) in \<open>simp_all add: queue_ok_def\<close>)
  then show ?thesis by (simp add: queue_ok_def d')
qed (use assms(1) in simp)

section \<open>Witnesses\<close>

text \<open>The sample database with its target claimed by runner \<open>r1\<close>, and a result for it.\<close>

definition sample_claims_granted :: claims where
  "sample_claims_granted = claim_claims ''r1'' ''lease_claim.lease0'' 1300 sample_target sample_execution sample_server"

definition sample_claimed :: db where
  "sample_claimed = sample_db\<lparr>
     execution_targets := [claim_row sample_env ''r1'' ''lease_claim.lease0'' 1300 sample_target],
     executions := [start_execution_row sample_env sample_execution],
     execution_events := [\<lparr>ev_id = ''evt_claim.event0'', ev_org = ''org-1'', ev_exec = ''e1'', ev_target = Some ''t1'',
        ev_from = Some ''pending'', ev_to = ''running'', ev_type = ''execution.started'',
        ev_metadata = json_text (jmap [(''runner_id'', JStr ''r1''), (''lease_id'', JStr ''lease_claim.lease0'')]),
        ev_occurred_at = 1000\<rparr>]\<rparr>"

definition sample_result :: submit_req where
  "sample_result = \<lparr>sb_exec = ''e1'', sb_target = ''t1'', sb_runner = ''r1'', sb_lease = ''lease_claim.lease0'',
     sb_exit_code = 0, sb_stdout = ''up'', sb_stderr = [], sb_error = [], sb_duration = 5\<rparr>"

lemma sample_env_sel [simp]:
  "go_now sample_env = 1000" "sql_now sample_env = 1000" "fails sample_env a i = False"
  "short_id sample_env a i = a @ nat_str i" "mac sample_env k m = k @ m" "sha_hex sample_env m = CHR ''h'' # m"
  "redact_text sample_env m = m" "signer_key sample_env = Some sample_key" "artifact_put sample_env = None"
  "audit_stamp sample_env a = ''2026-01-01 00:00:00.000001''"
  by (simp_all add: sample_env_def sample_key_def)

lemma sample_db_sel [simp]:
  "execution_targets sample_db = [sample_target]" "executions sample_db = [sample_execution]"
  "servers sample_db = [sample_server]" "runners sample_db = [sample_runner]" "receipts sample_db = []"
  "execution_events sample_db = []" "audit_events sample_db = []"
  by (simp_all add: sample_db_def empty_db_def)

lemma sample_db_ok: "queue_ok sample_db"
  by (simp add: queue_ok_def queue_inv_def statuses_Cons statuses_Nil status_ok_def target_ok_def
      sample_target_def sample_execution_def)

lemma sample_candidates:
  "claim_candidates sample_env ''org-1'' ''r1'' [] sample_db = [(sample_target, sample_execution, sample_server)]"
  by (simp add: claim_candidates_def order_by_def sample_target_def sample_execution_def sample_server_def
      exec_active_def claim_ready_def runner_in_scope_def sample_runner_def)
    (simp add: sample_db_def)

lemma sample_reconciled: "reconcile_expired_leases sample_env ''org-1'' sample_db = Some sample_db"
  by (simp add: reconcile_expired_leases_def expired_targets_def lease_expired_def sample_target_def
      finalize_reconciled_executions_def unfinished_def sample_execution_def)

lemma nat_str_0 [simp]: "nat_str 0 = ''0''"
  by code_simp

lemma sample_claim_tx:
  "claim_row_tx sample_env ''org-1'' ''r1'' ''lease_claim.lease0'' 1300 (sample_target, sample_execution, sample_server)
     sample_db = Inr sample_claimed"
  by (simp add: claim_row_tx_def Let_def sample_claimed_def record_execution_event_def count_where_def
      claim_condition_def claim_ready_def exec_active_def sample_target_def sample_execution_def
      target_status_text_def sql_null_string_def)

lemma sample_signed:
  "\<exists>sg. sign (mac sample_env) (Some sample_key) sample_claims_granted = Inr sg"
  by (simp add: sign_def sample_key_def)

lemma sample_lease: "''lease_'' @ short_id sample_env ''claim.lease'' 0 = ''lease_claim.lease0''"
  by simp

lemma sample_claim:
  "\<exists>sg. handle_claim_job sample_env ''secret'' ''r1'' [] (sample_db, Map.empty)
     = (claim_response sample_claims_granted sg, sample_claimed, [''org-1'' \<mapsto> 1000])"
proof -
  obtain sg where sg: "sign (mac sample_env) (Some sample_key) sample_claims_granted = Inr sg"
    using sample_signed by blast
  have "claim_next sample_env ''org-1'' ''r1'' [] sample_db sample_db = (claim_response sample_claims_granted sg, sample_claimed)"
    using sg unfolding claim_next_def sample_lease
    by (simp add: Let_def sample_candidates sample_claim_tx sample_claims_granted_def)
  then have "handle_claim_job sample_env ''secret'' ''r1'' [] (sample_db, Map.empty)
     = (claim_response sample_claims_granted sg, sample_claimed, [''org-1'' \<mapsto> 1000])"
    by (simp add: handle_claim_job_def sample_bound sample_reconciled bind_tenant_connection_def due_def)
  then show ?thesis by blast
qed

theorem submit_atomic_witness:
  "snd (handle_submit_result sample_env ''wrong'' (Some sample_result) sample_db) = sample_db"
proof (rule submit_atomic)
  show "resp_code (fst (handle_submit_result sample_env ''wrong'' (Some sample_result) sample_db)) \<noteq> 200"
    by (simp add: handle_submit_result_def authenticate_runner_credential_def hash_token_def)
      (simp add: sample_db_def)
qed

theorem submit_fenced_witness:
  "resp_code (fst (handle_submit_result sample_env ''secret'' (Some sample_result) sample_db)) \<noteq> 200"
  by (rule submit_fenced [THEN conjunct1]) (simp_all add: holds_lease_def sample_target_def)


lemma sample_claimed_ok: "queue_ok sample_claimed"
  using sample_claim claim_inv [OF sample_db_ok] by blast

lemma claim_response_code [simp]: "resp_code (claim_response c sg) = 200"
  by (simp add: claim_response_def)

theorem claim_grants_witness:
  "\<exists>t e s sg. t \<in> set [sample_target] \<and> claim_ready sample_env t
     \<and> fst (handle_claim_job sample_env ''secret'' ''r1'' [] (sample_db, Map.empty))
         = claim_response (claim_claims ''r1'' ''lease_claim.lease0'' 1300 t e s) sg"
proof -
  obtain sg where h: "handle_claim_job sample_env ''secret'' ''r1'' [] (sample_db, Map.empty)
     = (claim_response sample_claims_granted sg, sample_claimed, [''org-1'' \<mapsto> 1000])"
    using sample_claim by blast
  have org: "authenticate_bound_runner sample_env sample_db ''secret'' ''r1'' = Inr org \<Longrightarrow> org = ''org-1''" for org
    using sample_bound by simp
  show ?thesis
    using claim_grants [OF sample_db_ok h claim_response_code] org sample_reconciled h
    unfolding sample_lease by fastforce
qed

text \<open>A second runner's request while the lease of the first is live.\<close>

lemma sample_claimed_sel [simp]:
  "execution_targets sample_claimed = [claim_row sample_env ''r1'' ''lease_claim.lease0'' 1300 sample_target]"
  "executions sample_claimed = [start_execution_row sample_env sample_execution]" "receipts sample_claimed = []"
  by (simp_all add: sample_claimed_def)

theorem claim_never_steals_witness:
  "claim_row sample_env ''r1'' ''lease_claim.lease0'' 1300 sample_target \<in> set (execution_targets
     (fst (snd (handle_claim_job sample_env ''secret'' ''r1'' [] (sample_claimed, Map.empty)))))"
proof -
  obtain r d' th' where h: "handle_claim_job sample_env ''secret'' ''r1'' [] (sample_claimed, Map.empty) = (r, d', th')"
    by (metis prod_cases3)
  have "claim_row sample_env ''r1'' ''lease_claim.lease0'' 1300 sample_target \<in> set (execution_targets d')"
    by (rule claim_never_steals [OF sample_claimed_ok h, where x = 1300]) (simp_all add: claim_row_def)
  then show ?thesis by (simp add: h)
qed

theorem claimed_job_verifies_witness:
  "\<exists>c sg. fst (handle_claim_job sample_env ''secret'' ''r1'' [] (sample_db, Map.empty)) = claim_response c sg
     \<and> verify (mac sample_env) (Some sample_key) c sg 1200 = None"
proof -
  obtain sg where h: "handle_claim_job sample_env ''secret'' ''r1'' [] (sample_db, Map.empty)
     = (claim_response sample_claims_granted sg, sample_claimed, [''org-1'' \<mapsto> 1000])"
    using sample_claim by blast
  have k: "new_signer sample_key = Inr sample_key" by code_simp
  show ?thesis
    using claimed_job_verifies [where now = 1200, OF sample_db_ok h claim_response_code k] h
    by (force simp: sample_key_def)
qed

theorem reconcile_post_witness:
  "expired_targets (sample_env\<lparr>sql_now := 5000\<rparr>) ''org-1''
     (the (reconcile_expired_leases (sample_env\<lparr>sql_now := 5000\<rparr>) ''org-1'' sample_claimed)) = []"
proof -
  have "reconcile_expired_leases (sample_env\<lparr>sql_now := 5000\<rparr>) ''org-1'' sample_claimed \<noteq> None"
    by code_simp
  then obtain d' where d': "reconcile_expired_leases (sample_env\<lparr>sql_now := 5000\<rparr>) ''org-1'' sample_claimed = Some d'"
    by blast
  then show ?thesis using reconcile_post [OF sample_claimed_ok d'] by simp
qed

text \<open>Both facts about the sample's submission, from one evaluation.\<close>

definition accepted_and_known :: "resp \<times> db \<Rightarrow> bool" where
  "accepted_and_known p \<longleftrightarrow> resp_code (fst p) = 200 \<and> authenticate_bound_runner sample_env (snd p) ''secret'' ''r1'' = Inr ''org-1''"

lemma sample_submitted: "accepted_and_known (handle_submit_result sample_env ''secret'' (Some sample_result) sample_claimed)"
  by code_simp

theorem submit_idempotent_witness:
  "let d' = snd (handle_submit_result sample_env ''secret'' (Some sample_result) sample_claimed)
   in snd (handle_submit_result sample_env ''secret'' (Some sample_result) d') = d'
     \<and> resp_code (fst (handle_submit_result sample_env ''secret'' (Some sample_result) d')) = 200"
proof -
  obtain r d' where h: "handle_submit_result sample_env ''secret'' (Some sample_result) sample_claimed = (r, d')"
    by fastforce
  have r: "resp_code r = 200" using sample_submitted by (simp add: h accepted_and_known_def)
  have "sb_runner sample_result = ''r1''" by (simp add: sample_result_def)
  then have a: "authenticate_bound_runner sample_env d' ''secret'' (sb_runner sample_result) = Inr ''org-1''"
    using sample_submitted unfolding h accepted_and_known_def by simp
  have w: "submit_wellformed sample_result" by (simp add: submit_wellformed_def sample_result_def)
  show ?thesis
    using submit_idempotent [OF sample_claimed_ok h r a w refl refl] by (simp add: h Let_def)
qed

end
