(* ===== verification/Transaction.thy ===== *)
theory Transaction
  imports AuditLog
begin

text \<open>
  How the handlers of \<open>apps/api\<close> are written down: the body of a transaction is a sum, an error response or
  the answer with the new database; \<open>attempt\<close> is \<open>if err != nil { writeJSON(...); return }\<close> after a
  statement, \<open>refuse_if\<close> a guard with an early return, and \<open>run_tx\<close> the transaction around them with its
  deferred rollback.  The equations split a result into the facts about the statements that led to it.
\<close>

definition attempt :: "'e \<Rightarrow> 'a option \<Rightarrow> ('a \<Rightarrow> 'e + 'b) \<Rightarrow> 'e + 'b" where
  "attempt e x k = (case x of None \<Rightarrow> Inl e | Some y \<Rightarrow> k y)"

definition refuse_if :: "bool \<Rightarrow> 'e \<Rightarrow> 'e + 'b \<Rightarrow> 'e + 'b" where
  "refuse_if b e k = (if b then Inl e else k)"

definition run_tx :: "db \<Rightarrow> resp + resp \<times> db \<Rightarrow> resp \<times> db" where
  "run_tx d body = (case body of Inl r \<Rightarrow> (r, d) | Inr rd \<Rightarrow> rd)"

lemma attempt_Inr [simp]: "attempt e x k = Inr z \<longleftrightarrow> (\<exists>y. x = Some y \<and> k y = Inr z)"
  by (simp add: attempt_def split: option.split)

lemma attempt_Inl [simp]: "attempt e x k = Inl r \<longleftrightarrow> x = None \<and> r = e \<or> (\<exists>y. x = Some y \<and> k y = Inl r)"
  by (auto simp: attempt_def split: option.split)

lemma refuse_if_Inr [simp]: "refuse_if b e k = Inr z \<longleftrightarrow> \<not> b \<and> k = Inr z"
  by (simp add: refuse_if_def)

lemma refuse_if_Inl [simp]: "refuse_if b e k = Inl r \<longleftrightarrow> b \<and> r = e \<or> \<not> b \<and> k = Inl r"
  by (auto simp: refuse_if_def)

text \<open>The same for a statement whose error is used in the answer.\<close>

definition attempt_sum :: "('f \<Rightarrow> 'e) \<Rightarrow> 'f + 'a \<Rightarrow> ('a \<Rightarrow> 'e + 'b) \<Rightarrow> 'e + 'b" where
  "attempt_sum f s k = (case s of Inl e \<Rightarrow> Inl (f e) | Inr y \<Rightarrow> k y)"

lemma attempt_sum_Inr [simp]: "attempt_sum f s k = Inr z \<longleftrightarrow> (\<exists>y. s = Inr y \<and> k y = Inr z)"
  by (simp add: attempt_sum_def split: sum.split)

lemma attempt_sum_Inl [simp]:
  "attempt_sum f s k = Inl r \<longleftrightarrow> (\<exists>e. s = Inl e \<and> r = f e) \<or> (\<exists>y. s = Inr y \<and> k y = Inl r)"
  by (auto simp: attempt_sum_def split: sum.split)

lemma run_tx_cases:
  assumes "run_tx d body = (r, d')"
  obtains (Rolled_Back) "body = Inl r" "d' = d" | (Committed) "body = Inr (r, d')"
  using assms by (auto simp: run_tx_def split: sum.splits)

lemma run_tx_Inl [simp]: "run_tx d (Inl r) = (r, d)"
  and run_tx_Inr [simp]: "run_tx d (Inr rd) = rd"
  by (simp_all add: run_tx_def)

text \<open>A random identifier with its prefix.\<close>

definition fresh_id :: "env \<Rightarrow> string \<Rightarrow> string \<Rightarrow> nat \<Rightarrow> string" where
  "fresh_id env pre at i = pre @ short_id env at i"

text \<open>Headers of the answers that are built here.\<close>

lemma reply_headers [simp]:
  "resp_headers (err c m) = []" "resp_headers (reply c kvs) = []" "resp_headers (write_raw_json c t) = []"
  "resp_body (write_raw_json c t) = RawBody t"
  by (simp_all add: err_def reply_def write_raw_json_def)

text \<open>\<open>SELECT ... LIMIT 1\<close> of one row.\<close>

definition first_row :: "bool \<Rightarrow> ('a \<Rightarrow> bool) \<Rightarrow> 'a list \<Rightarrow> 'a option" where
  "first_row failed P rows = (if failed then None else List.find P rows)"

lemma first_row_Some: "first_row failed P rows = Some x \<Longrightarrow> \<not> failed \<and> x \<in> set rows \<and> P x"
  by (auto simp: first_row_def dest: find_Some_set split: if_splits)

lemma write_denial_shape:
  "write_denial env at a action tt ti dec d = (r, d') \<Longrightarrow> resp_code r = 403 \<and> (\<exists>es. d' = d\<lparr>audit_events := es\<rparr>)"
  using write_audit_plain_shape [of env at "a_org a" "a_user_id a" action tt ti "''denied''" _ d]
  by (auto simp: write_denial_def)

lemma write_denial_code [simp]: "resp_code (fst (write_denial env at a action tt ti dec d)) = 403"
  by (simp add: write_denial_def)

text \<open>A change of the audit log only.\<close>

definition audit_only :: "db \<Rightarrow> db \<Rightarrow> bool" where
  "audit_only d d' \<longleftrightarrow> d'\<lparr>audit_events := audit_events d\<rparr> = d"

lemma audit_only_refl [simp]: "audit_only d d"
  by (simp add: audit_only_def)

lemma audit_only_update [simp]: "audit_only d (d\<lparr>audit_events := es\<rparr>)"
  by (simp add: audit_only_def)

lemma audit_only_write [simp]: "audit_only d (write_audit_event env at org actor action tt ti res md d)"
  using write_audit_plain_shape [of env at org actor action tt ti res md d] by (auto simp: audit_only_def)

lemma audit_only_denial [simp]: "audit_only d (snd (write_denial env at a action tt ti dec d))"
  by (simp add: write_denial_def)

lemma audit_only_tables:
  assumes "audit_only d d'"
  shows "executions d' = executions d" "execution_targets d' = execution_targets d" "exec_idems d' = exec_idems d"
    "receipts d' = receipts d" "approvals d' = approvals d" "servers d' = servers d" "runners d' = runners d"
    "runbook_idems d' = runbook_idems d" "schedules d' = schedules d" "controls d' = controls d"
    "runner_credentials d' = runner_credentials d" "runbook_rows d' = runbook_rows d"
    "runbook_versions d' = runbook_versions d" "execution_events d' = execution_events d"
    "server_tags d' = server_tags d" "users d' = users d" "memberships d' = memberships d"
    "runner_scopes d' = runner_scopes d"
proof -
  have e: "d'\<lparr>audit_events := audit_events d\<rparr> = d" using assms by (simp add: audit_only_def)
  note sel = arg_cong [OF e]
  show "executions d' = executions d" "execution_targets d' = execution_targets d" "exec_idems d' = exec_idems d"
    "receipts d' = receipts d" "approvals d' = approvals d" "servers d' = servers d" "runners d' = runners d"
    "runbook_idems d' = runbook_idems d" "schedules d' = schedules d" "controls d' = controls d"
    "runner_credentials d' = runner_credentials d" "runbook_rows d' = runbook_rows d"
    "runbook_versions d' = runbook_versions d" "execution_events d' = execution_events d"
    "server_tags d' = server_tags d" "users d' = users d" "memberships d' = memberships d"
    "runner_scopes d' = runner_scopes d"
    using sel [of executions] sel [of execution_targets] sel [of exec_idems] sel [of receipts] sel [of approvals]
      sel [of servers] sel [of runners] sel [of runbook_idems] sel [of schedules] sel [of controls]
      sel [of runner_credentials] sel [of runbook_rows] sel [of runbook_versions] sel [of execution_events]
      sel [of server_tags] sel [of users] sel [of memberships] sel [of runner_scopes]
    by simp_all
qed

end
