(* ===== verification/Executions.thy ===== *)
theory Executions
  imports Queue Transaction
begin

text \<open>
  \<open>apps/api/executions.go\<close>: requesting an execution (with its idempotency key), listing and reading
  executions, and cancelling one.  The creation transaction is \<open>create_execution_tx\<close>; its rows are
  \<open>new_execution_row\<close> and \<open>new_target_row\<close>.  The publication of job notifications after the commit is
  in \<open>Dispatch\<close>: it changes neither the database nor the response.
\<close>

section \<open>Choosing the targets\<close>

definition first_id :: "string list \<Rightarrow> string list" where
  "first_id ids = (case ids of [] \<Rightarrow> [] | x # _ \<Rightarrow> [x])"

text \<open>The ids a target expression names; no id on any error.\<close>

definition resolve_targets :: "env \<Rightarrow> string \<Rightarrow> string \<Rightarrow> db \<Rightarrow> string list" where
  "resolve_targets env org target d =
     (if has_prefix target ''server:'' then
        let server_id = drop (length ''server:'') target
        in if fails env ''resolve.server'' 0 then []
           else first_id (map sv_id (filter (\<lambda>s. (sv_id s = server_id \<or> sv_name s = server_id)
                  \<and> sv_org s = org \<and> sv_status s \<noteq> ''archived'') (servers d)))
      else if has_prefix target ''tag:'' then
        (case cut_at (CHR ''='') (drop (length ''tag:'') target) of
           None \<Rightarrow> []
         | Some (key, value) \<Rightarrow>
             if fails env ''resolve.tag'' 0 then []
             else map tg_server (filter (\<lambda>t. tg_org t = org \<and> tg_key t = key \<and> tg_value t = value) (server_tags d)))
      else if fails env ''resolve.name'' 0 then []
      else first_id (map sv_id (filter (\<lambda>s. sv_name s = target \<and> sv_org s = org \<and> sv_status s \<noteq> ''archived'')
             (servers d))))"

definition find_server :: "string \<Rightarrow> string \<Rightarrow> db \<Rightarrow> server option" where
  "find_server org server_id d = List.find (\<lambda>s. sv_id s = server_id \<and> sv_org s = org) (servers d)"

text \<open>The loop that collects the environments of the targets; \<open>None\<close> when a lookup fails.\<close>

fun collect_environments :: "env \<Rightarrow> string \<Rightarrow> nat \<Rightarrow> string list \<Rightarrow> db \<Rightarrow> string list option" where
  "collect_environments env org i [] d = Some []"
| "collect_environments env org i (x # xs) d =
     (case (if fails env ''environment'' i then None else find_server org x d) of
        None \<Rightarrow> None
      | Some s \<Rightarrow> map_option (List.insert (sv_environment s)) (collect_environments env org (i + 1) xs d))"

definition target_environment :: "env \<Rightarrow> string \<Rightarrow> string list \<Rightarrow> db \<Rightarrow> string \<times> bool" where
  "target_environment env org ids d =
     (if ids = [] then ([], False)
      else case collect_environments env org 0 ids d of
          Some [e] \<Rightarrow> (e, False)
        | _ \<Rightarrow> ([], True))"

definition detect_env :: "env \<Rightarrow> string \<Rightarrow> string list \<Rightarrow> db \<Rightarrow> string" where
  "detect_env env org ids d = fst (target_environment env org ids d)"

definition server_snapshot :: "server \<Rightarrow> json" where
  "server_snapshot s = jmap
     [(''id'', JStr (sv_id s)), (''name'', JStr (sv_name s)), (''hostname'', JStr (or_empty (sv_hostname s))),
      (''environment'', JStr (sv_environment s)), (''status'', JStr (sv_status s)), (''ssh_port'', JInt (sv_ssh_port s))]"

text \<open>A failed lookup makes the whole list \<open>nil\<close>.\<close>

fun snapshot_from :: "env \<Rightarrow> string \<Rightarrow> nat \<Rightarrow> string list \<Rightarrow> db \<Rightarrow> json list option" where
  "snapshot_from env org i [] d = Some []"
| "snapshot_from env org i (x # xs) d =
     (case (if fails env ''snapshot'' i then None else find_server org x d) of
        None \<Rightarrow> None
      | Some s \<Rightarrow> map_option (Cons (server_snapshot s)) (snapshot_from env org (i + 1) xs d))"

definition snapshot_targets :: "env \<Rightarrow> string \<Rightarrow> string list \<Rightarrow> db \<Rightarrow> json list" where
  "snapshot_targets env org ids d = (case snapshot_from env org 0 ids d of None \<Rightarrow> [] | Some js \<Rightarrow> js)"

section \<open>Idempotent requests\<close>

text \<open>\<open>None\<close> is an error, \<open>Some None\<close> no stored answer, \<open>Some (Some r)\<close> the answer written.\<close>

definition replay_idempotent_execution ::
  "env \<Rightarrow> string \<Rightarrow> string \<Rightarrow> string \<Rightarrow> string \<Rightarrow> string \<Rightarrow> db \<Rightarrow> resp option option" where
  "replay_idempotent_execution env at org user_id key payload_hash d =
     (if fails env at 0 then None
      else case filter (\<lambda>x. xi_org x = org \<and> xi_user x = user_id \<and> xi_key x = key) (exec_idems d) of
          [] \<Rightarrow> Some None
        | x # _ \<Rightarrow>
            Some (Some (if xi_hash x \<noteq> payload_hash
              then err 409 ''idempotency key was already used with a different request payload''
              else Resp 201 [(''Idempotency-Replayed'', ''true'')] (RawBody (xi_body x)))))"

section \<open>Creating an execution\<close>

record exec_req =
  xq_target :: string
  xq_command :: string
  xq_reason :: string
  xq_delegated_by :: string

definition exec_payload :: "exec_req \<Rightarrow> json" where
  "exec_payload q = JObj
     [(''target'', JStr (xq_target q)), (''command'', JStr (xq_command q)), (''reason'', JStr (xq_reason q)),
      (''delegated_by_user_id'', JStr (xq_delegated_by q))]"

definition new_execution_row :: "env \<Rightarrow> actor \<Rightarrow> exec_req \<Rightarrow> string \<Rightarrow> string \<Rightarrow> string \<Rightarrow> execution" where
  "new_execution_row env a q exec_id environment risk =
     \<lparr>ex_id = exec_id, ex_org = a_org a, ex_actor = a_user_id a, ex_actor_role = a_role a,
      ex_delegated_by = sql_null_string (xq_delegated_by q), ex_approval_id = None,
      ex_type = ''raw_command'', ex_status = EQueued, ex_risk = risk, ex_environment = environment,
      ex_reason = xq_reason q, ex_command = xq_command q,
      ex_command_preview = redact_text env (xq_command q), ex_command_hash = hash_cmd env (xq_command q),
      ex_timeout = 300, ex_requested_at = sql_now env, ex_started_at = None, ex_finished_at = None,
      ex_error = None, ex_metadata = JObj []\<rparr>"

definition new_target_row :: "string \<Rightarrow> string \<Rightarrow> string \<Rightarrow> string \<Rightarrow> json \<Rightarrow> target" where
  "new_target_row target_id org exec_id server_id snapshot =
     \<lparr>et_id = target_id, et_org = org, et_exec = exec_id, et_server = server_id, et_runner = None,
      et_status = TPending, et_snapshot = snapshot, et_started_at = None, et_finished_at = None,
      et_exit_code = None, et_stdout_bytes = 0, et_stderr_bytes = 0, et_stdout = [], et_stderr = [],
      et_stdout_artifact = None, et_stderr_artifact = None, et_lease_id = None, et_lease_expires = None,
      et_attempt = 0, et_max_attempts = 3, et_next_attempt = None, et_error = None\<rparr>"

text \<open>Each insertion may fail, also on a primary key or on \<open>UNIQUE (execution_id, server_id)\<close>.\<close>

fun insert_targets ::
  "env \<Rightarrow> string \<Rightarrow> string \<Rightarrow> string \<Rightarrow> nat \<Rightarrow> string list \<Rightarrow> json list \<Rightarrow> db \<Rightarrow> db option" where
  "insert_targets env at org exec_id i (x # xs) (s # ss) d =
     (let t = new_target_row (fresh_id env ''ext_'' at i) org exec_id x s
      in if fails env at i \<or> et_id t \<in> et_id ` set (execution_targets d)
           \<or> (exec_id, x) \<in> (\<lambda>t. (et_exec t, et_server t)) ` set (execution_targets d) then None
         else insert_targets env at org exec_id (i + 1) xs ss
                (d\<lparr>execution_targets := execution_targets d @ [t]\<rparr>))"
| "insert_targets env at org exec_id i _ _ d = Some d"

definition insert_execution :: "env \<Rightarrow> string \<Rightarrow> execution \<Rightarrow> db \<Rightarrow> db option" where
  "insert_execution env at e d =
     (if fails env at 0 \<or> ex_id e \<in> ex_id ` set (executions d)
        \<or> (case ex_delegated_by e of None \<Rightarrow> False | Some u \<Rightarrow> u \<notin> us_id ` set (users d)) then None
      else Some (d\<lparr>executions := executions d @ [e]\<rparr>))"

definition create_response_body :: "string \<Rightarrow> string \<Rightarrow> nat \<Rightarrow> string" where
  "create_response_body exec_id risk n = json_text (jmap
     [(''execution_id'', JStr exec_id), (''status'', JStr ''queued''), (''risk_level'', JStr risk),
      (''target_count'', JInt (int n))])"

text \<open>
  The transaction.  When the idempotency row cannot be inserted the transaction is rolled back first,
  so the second look for a stored answer sees the database \<open>d\<close> it started from.
\<close>

definition insert_exec_idem :: "env \<Rightarrow> actor \<Rightarrow> string \<Rightarrow> string \<Rightarrow> string \<Rightarrow> string \<Rightarrow> db \<Rightarrow> db option" where
  "insert_exec_idem env a key payload_hash exec_id response_body d =
     (if key = [] then Some d
      else if fails env ''create.key'' 0 \<or> (\<exists>x \<in> set (exec_idems d). xi_org x = a_org a \<and> xi_key x = key) then None
      else Some (d\<lparr>exec_idems := exec_idems d @
        [\<lparr>xi_org = a_org a, xi_user = a_user_id a, xi_key = key, xi_hash = payload_hash,
          xi_exec = exec_id, xi_body = response_body\<rparr>]\<rparr>))"

definition key_conflict :: "env \<Rightarrow> actor \<Rightarrow> string \<Rightarrow> string \<Rightarrow> db \<Rightarrow> resp" where
  "key_conflict env a key payload_hash d =
     (case replay_idempotent_execution env ''create.replay2'' (a_org a) (a_user_id a) key payload_hash d of
        Some (Some r) \<Rightarrow> r
      | _ \<Rightarrow> err 409 ''idempotency key is already in use'')"

definition create_execution_tx ::
  "env \<Rightarrow> actor \<Rightarrow> string \<Rightarrow> exec_req \<Rightarrow> string list \<Rightarrow> string \<Rightarrow> string \<Rightarrow> json list \<Rightarrow> db \<Rightarrow> resp + resp \<times> db" where
  "create_execution_tx env a key q ids environment risk snapshots d =
     (let exec_id = fresh_id env ''exe_'' ''create.exec'' 0;
          hash = hash_payload env (exec_payload q);
          response_body = create_response_body exec_id risk (length ids)
      in refuse_if (fails env ''create.begin'' 0) (err 500 ''failed to start execution transaction'') (
         attempt (err 500 ''failed to create execution'')
           (insert_execution env ''create.insert'' (new_execution_row env a q exec_id environment risk) d) (\<lambda>d1.
         attempt (err 500 ''failed to create execution target'')
           (insert_targets env ''create.target'' (a_org a) exec_id 0 ids snapshots d1) (\<lambda>d2.
         attempt (err 500 ''failed to record execution timeline'')
           (record_execution_event env ''create.event'' 0 (a_org a) exec_id [] [] ''queued'' ''execution.queued''
              [(''execution_type'', JStr ''raw_command'')] d2) (\<lambda>d3.
         attempt (err 500 ''failed to record execution audit event'')
           (write_audit_event_tx env ''create.audit'' (a_org a) (a_user_id a) ''execution.requested'' ''execution''
              exec_id ''queued''
              (jmap [(''command'', JStr (redact_text env (xq_command q))), (''reason'', JStr (xq_reason q)),
                 (''target'', JStr (xq_target q)), (''risk'', JStr risk),
                 (''target_count'', JInt (int (length ids)))]) d3) (\<lambda>d4.
         attempt (key_conflict env a key hash d)
           (insert_exec_idem env a key hash exec_id response_body d4) (\<lambda>d5.
         refuse_if (fails env ''create.commit'' 0) (err 500 ''failed to commit execution'')
           (Inr (write_raw_json 201 response_body, d5)))))))))"

definition idempotency_key_message :: string where
  "idempotency_key_message =
     ''Idempotency-Key must contain only letters, numbers, '' @ [CHR 0x27] @ ''.'' @ [CHR 0x27] @ '', ''
     @ [CHR 0x27] @ ''_'' @ [CHR 0x27] @ '' or '' @ [CHR 0x27] @ ''-'' @ [CHR 0x27] @ '' and be at most 128 characters''"

text \<open>The request once the idempotency key has been looked at.\<close>

definition create_execution :: "env \<Rightarrow> actor \<Rightarrow> string \<Rightarrow> exec_req \<Rightarrow> db \<Rightarrow> resp \<times> db" where
  "create_execution env a key q d =
     (let ids = resolve_targets env (a_org a) (xq_target q) d
      in if ids = [] then (err 400 (''no servers found for target: '' @ xq_target q), d)
         else case target_environment env (a_org a) ids d of (environment, mixed) \<Rightarrow>
           if mixed then (err 400 ''targets span multiple environments; submit one environment at a time'', d)
           else
             let risk = classify_risk (xq_command q);
                 dec = check_execution a environment risk (xq_reason q)
             in if \<not> d_allowed dec
                then write_denial env ''create.denied'' a ''execution.requested'' ''execution'' (xq_target q) dec d
                else
                  let snapshots = snapshot_targets env (a_org a) ids d
                  in if length snapshots \<noteq> length ids
                     then (err 500 ''failed to snapshot selected targets'', d)
                     else run_tx d (create_execution_tx env a key q ids environment risk snapshots d))"

definition handle_create_execution ::
  "env \<Rightarrow> actor \<Rightarrow> string \<Rightarrow> exec_req option \<Rightarrow> db \<Rightarrow> resp \<times> db" where
  "handle_create_execution env a key_header body d =
     (case body of
        None \<Rightarrow> (err 400 ''invalid request body'', d)
      | Some q \<Rightarrow>
          if xq_target q = [] \<or> xq_command q = [] then (err 400 ''target and command are required'', d)
          else
            let key = trim_space key_header
            in if key \<noteq> [] \<and> \<not> valid_idempotency_key key then (err 400 idempotency_key_message, d)
               else if key = [] then create_execution env a key q d
               else case replay_idempotent_execution env ''create.replay'' (a_org a) (a_user_id a) key
                      (hash_payload env (exec_payload q)) d of
                   None \<Rightarrow> (err 500 ''failed to inspect idempotency key'', d)
                 | Some (Some r) \<Rightarrow> (r, d)
                 | Some None \<Rightarrow> create_execution env a key q d)"

section \<open>Cancelling\<close>

definition can_manage_execution :: "string \<Rightarrow> bool" where
  "can_manage_execution role \<longleftrightarrow>
     to_lower (trim_space role) \<in> {''owner'', ''admin'', ''senior_engineer''}"

definition cancellable :: "string \<Rightarrow> string \<Rightarrow> execution \<Rightarrow> bool" where
  "cancellable org exec_id e \<longleftrightarrow>
     ex_id e = exec_id \<and> ex_org e = org \<and> (ex_status e = ECreated \<or> ex_status e = EQueued)"

definition cancel_rows :: "env \<Rightarrow> string \<Rightarrow> string \<Rightarrow> db \<Rightarrow> db" where
  "cancel_rows env org exec_id d =
     (let d1 = d\<lparr>executions := update_where (cancellable org exec_id)
                 (\<lambda>e. e\<lparr>ex_status := ECancelled, ex_finished_at := Some (go_now env)\<rparr>) (executions d)\<rparr>
      in if fails env ''cancel.targets'' 0 then d1
         else d1\<lparr>execution_targets := update_where (\<lambda>t. et_exec t = exec_id)
                 (\<lambda>t. t\<lparr>et_status := TCancelled\<rparr>) (execution_targets d1)\<rparr>)"

definition handle_cancel_execution :: "env \<Rightarrow> actor \<Rightarrow> string \<Rightarrow> db \<Rightarrow> resp \<times> db" where
  "handle_cancel_execution env a exec_id d =
     (if fails env ''cancel.select'' 0 then (err 500 ''failed to inspect execution'', d)
      else case filter (cancellable (a_org a) exec_id) (executions d) of
          [] \<Rightarrow> (err 400 ''execution not cancellable'', d)
        | e # _ \<Rightarrow>
            if a_user_id a \<noteq> ex_actor e \<and> \<not> can_manage_execution (a_role a)
            then (err 403 ''only the requester or a senior operator can cancel this execution'', d)
            else if fails env ''cancel.update'' 0 then (err 500 ''failed to cancel'', d)
            else if count_where (cancellable (a_org a) exec_id) (executions d) = 0
              then (err 400 ''execution not cancellable'', d)
            else (reply 200 [(''status'', JStr ''cancelled'')],
                  write_audit_event env ''cancel.audit'' (a_org a) (a_user_id a) ''execution.cancelled'' ''execution''
                    exec_id ''cancelled'' JNull (cancel_rows env (a_org a) exec_id d)))"

section \<open>Reading executions\<close>

definition null_list :: "json list \<Rightarrow> json" where
  "null_list js = (if js = [] then JNull else JArr js)"

definition opt_time :: "env \<Rightarrow> int option \<Rightarrow> string" where
  "opt_time env t = (case t of None \<Rightarrow> [] | Some x \<Rightarrow> time_text env x)"

record exec_filter =
  xf_status :: string
  xf_mine :: string
  xf_delegated_by :: string
  xf_limit :: nat

definition targets_of :: "string \<Rightarrow> db \<Rightarrow> target list" where
  "targets_of exec_id d = filter (\<lambda>t. et_exec t = exec_id) (execution_targets d)"

text \<open>
  \<open>rows.Scan\<close> stops at the first column that is NULL, here \<open>started_at\<close> or \<open>finished_at\<close>, and its error is
  ignored: the later fields keep their zero values.
\<close>

definition execution_list_entry :: "env \<Rightarrow> db \<Rightarrow> execution \<Rightarrow> json" where
  "execution_list_entry env d e =
     (let started = (ex_started_at e \<noteq> None); finished = (started \<and> ex_finished_at e \<noteq> None);
          ts = targets_of (ex_id e) d;
          cnt = (\<lambda>n. JInt (if finished then int n else 0))
      in JObj
        [(''id'', JStr (ex_id e)), (''actor_user_id'', JStr (ex_actor e)),
         (''actor_role_at_time'', JStr (ex_actor_role e)), (''execution_type'', JStr (ex_type e)),
         (''status'', JStr (exec_status_text (ex_status e))), (''risk_level'', JStr (ex_risk e)),
         (''environment'', JStr (ex_environment e)), (''reason'', JStr (ex_reason e)),
         (''command_preview'', JStr (ex_command_preview e)), (''command_hash'', JStr (ex_command_hash e)),
         (''timeout_seconds'', JInt (ex_timeout e)), (''requested_at'', JStr (time_text env (ex_requested_at e))),
         (''started_at'', JStr (opt_time env (ex_started_at e))),
         (''finished_at'', JStr (if started then opt_time env (ex_finished_at e) else [])),
         (''target_count'', cnt (length ts)),
         (''succeeded_count'', cnt (count_where (\<lambda>t. et_status t = TSucceeded) ts)),
         (''failed_count'', cnt (count_where (\<lambda>t. et_status t = TFailed) ts)),
         (''delegated_by_user_id'', JStr (if finished then or_empty (ex_delegated_by e) else [])),
         (''approval_id'', JStr (if finished then or_empty (ex_approval_id e) else []))])"

definition handle_list_executions :: "env \<Rightarrow> db \<Rightarrow> actor \<Rightarrow> exec_filter \<Rightarrow> resp" where
  "handle_list_executions env d a f =
     (if fails env ''executions.list'' 0 then err 500 ''query failed''
      else
        let rows = filter (\<lambda>e. ex_org e = a_org a
               \<and> (xf_status f = [] \<or> exec_status_text (ex_status e) = xf_status f)
               \<and> ((xf_mine f \<noteq> ''true'' \<and> xf_mine f \<noteq> ''1'') \<or> ex_actor e = a_user_id a)
               \<and> (xf_delegated_by f = [] \<or> ex_delegated_by e = Some (xf_delegated_by f))) (executions d);
            sorted = take (xf_limit f) (order_by (\<lambda>x y. ex_requested_at y \<le> ex_requested_at x) rows)
        in reply 200 [(''executions'', null_list (map (execution_list_entry env d) sorted))])"

text \<open>Output stored as an artifact replaces the inline text when it can be read.\<close>

definition output_text :: "env \<Rightarrow> string option \<Rightarrow> string \<Rightarrow> string" where
  "output_text env artifact_id inline =
     (case (if or_empty artifact_id = [] then None else artifact_get env (or_empty artifact_id)) of
        None \<Rightarrow> inline | Some data \<Rightarrow> data)"

definition target_entry :: "env \<Rightarrow> target \<Rightarrow> json" where
  "target_entry env t = JObj
     [(''id'', JStr (et_id t)), (''server_id'', JStr (et_server t)), (''runner_id'', JStr (or_empty (et_runner t))),
      (''status'', JStr (target_status_text (et_status t))),
      (''exit_code'', JInt (case et_exit_code t of None \<Rightarrow> 0 | Some c \<Rightarrow> c)),
      (''stdout'', JStr (output_text env (et_stdout_artifact t) (et_stdout t))),
      (''stderr'', JStr (output_text env (et_stderr_artifact t) (et_stderr t))),
      (''started_at'', JStr (opt_time env (et_started_at t))), (''finished_at'', JStr (opt_time env (et_finished_at t))),
      (''error_summary'', JStr (or_empty (et_error t)))]"

definition event_entry :: "env \<Rightarrow> exec_event \<Rightarrow> json" where
  "event_entry env e = JObj
     [(''id'', JStr (ev_id e)), (''target_id'', JStr (or_empty (ev_target e))),
      (''from_status'', JStr (or_empty (ev_from e))), (''to_status'', JStr (ev_to e)),
      (''event_type'', JStr (ev_type e)), (''metadata'', JStr (ev_metadata e)),
      (''occurred_at'', JStr (time_text env (ev_occurred_at e)))]"

definition execution_entry :: "env \<Rightarrow> execution \<Rightarrow> json" where
  "execution_entry env e = JObj
     [(''id'', JStr (ex_id e)), (''actor_user_id'', JStr (ex_actor e)),
      (''actor_role_at_time'', JStr (ex_actor_role e)), (''execution_type'', JStr (ex_type e)),
      (''status'', JStr (exec_status_text (ex_status e))), (''risk_level'', JStr (ex_risk e)),
      (''environment'', JStr (ex_environment e)), (''reason'', JStr (ex_reason e)),
      (''command_preview'', JStr (ex_command_preview e)), (''command_hash'', JStr (ex_command_hash e)),
      (''timeout_seconds'', JInt (ex_timeout e)), (''requested_at'', JStr (time_text env (ex_requested_at e))),
      (''started_at'', JStr (opt_time env (ex_started_at e))), (''finished_at'', JStr (opt_time env (ex_finished_at e))),
      (''error_summary'', JStr (or_empty (ex_error e))),
      (''delegated_by_user_id'', JStr (or_empty (ex_delegated_by e))),
      (''approval_id'', JStr (or_empty (ex_approval_id e)))]"

definition handle_get_execution :: "env \<Rightarrow> db \<Rightarrow> actor \<Rightarrow> string \<Rightarrow> resp" where
  "handle_get_execution env d a exec_id =
     (case (if fails env ''execution.get'' 0 then []
            else filter (\<lambda>e. ex_id e = exec_id \<and> ex_org e = a_org a) (executions d)) of
        [] \<Rightarrow> err 404 ''execution not found''
      | e # _ \<Rightarrow>
          let ts = (if fails env ''execution.targets'' 0 then []
                    else order_by (\<lambda>x y. str_le (et_server x) (et_server y)) (targets_of exec_id d));
              evs = (if fails env ''execution.events'' 0 then []
                    else order_by (\<lambda>x y. ev_occurred_at x < ev_occurred_at y
                           \<or> ev_occurred_at x = ev_occurred_at y \<and> str_le (ev_id x) (ev_id y))
                         (filter (\<lambda>v. ev_exec v = exec_id \<and> ev_org v = a_org a) (execution_events d)))
          in reply 200 [(''execution'', execution_entry env e), (''targets'', null_list (map (target_entry env) ts)),
               (''events'', null_list (map (event_entry env) evs))])"

end
