(* ===== verification/ExecProps.thy ===== *)
theory ExecProps
  imports Executions QueueProps
begin

text \<open>
  Creating and cancelling executions: what a granted request adds, that a refused one adds nothing,
  replays by idempotency key, and that the queue invariant and the ownership of targets are kept.
  \<open>created\<close> is the contract of an operation that adds one execution, on which \<open>Lifecycle\<close> builds its step relation.
\<close>

section \<open>Every target belongs to an execution\<close>

definition targets_owned :: "db \<Rightarrow> bool" where
  "targets_owned d \<longleftrightarrow> et_exec ` set (execution_targets d) \<subseteq> ex_id ` set (executions d)"

definition sys_ok :: "db \<Rightarrow> bool" where
  "sys_ok d \<longleftrightarrow> queue_ok d \<and> targets_owned d"

lemma targets_owned_cong:
  "map et_exec (execution_targets d') = map et_exec (execution_targets d) \<Longrightarrow>
   map ex_id (executions d') = map ex_id (executions d) \<Longrightarrow> targets_owned d' = targets_owned d"
  unfolding targets_owned_def by (metis list.set_map)

lemma sys_ok_cong: "executions d' = executions d \<Longrightarrow> execution_targets d' = execution_targets d \<Longrightarrow> sys_ok d' = sys_ok d"
  by (simp add: sys_ok_def queue_ok_def targets_owned_def)

lemma owned_exec: "sys_ok d \<Longrightarrow> t \<in> set (execution_targets d) \<Longrightarrow> et_exec t \<in> ex_id ` set (executions d)"
  by (auto simp: sys_ok_def targets_owned_def)

section \<open>Adding an execution with pending targets\<close>

lemma statuses_append: "statuses (T @ ts) x = statuses T x \<union> statuses ts x"
  by (auto simp: statuses_def)

lemma statuses_all: "\<forall>t \<in> set ts. et_exec t = x \<and> et_status t = s \<Longrightarrow> ts \<noteq> [] \<Longrightarrow> statuses ts x = {s}"
  by (cases ts) (auto simp: statuses_def)

lemma statuses_other: "\<forall>t \<in> set ts. et_exec t \<noteq> x \<Longrightarrow> statuses ts x = {}"
  by (auto simp: statuses_def)

lemma add_execution_ok:
  assumes ok: "sys_ok d" and new: "ex_id e \<notin> ex_id ` set (executions d)"
    and E: "executions d' = executions d @ [e]" and T: "execution_targets d' = execution_targets d @ ts"
    and ts: "\<forall>t \<in> set ts. et_exec t = ex_id e \<and> et_status t = TPending \<and> target_ok t"
    and ids: "distinct (map et_id (execution_targets d @ ts))"
    and st: "ex_status e = ECreated \<or> ex_status e = EQueued \<and> ts \<noteq> []"
  shows "sys_ok d'"
proof -
  have new': "ex_id x \<noteq> ex_id e" if "x \<in> set (executions d)" for x using new that by (metis image_eqI)
  have none: "statuses (execution_targets d) (ex_id e) = {}"
    by (rule statuses_other) (use new owned_exec [OF ok] in metis)
  have here: "status_ok (ex_status e) (statuses (execution_targets d @ ts) (ex_id e))"
  proof (cases "ts = []")
    case True
    then show ?thesis using none st by (auto simp: status_ok_def)
  next
    case False
    then have "statuses ts (ex_id e) = {TPending}" using ts by (intro statuses_all) auto
    then show ?thesis using none st by (auto simp: statuses_append status_ok_def)
  qed
  have there: "status_ok (ex_status x) (statuses (execution_targets d @ ts) (ex_id x))"
    if x: "x \<in> set (executions d)" for x
  proof -
    have "statuses ts (ex_id x) = {}" using ts new' [OF x] by (intro statuses_other) auto
    then show ?thesis using ok x by (simp add: statuses_append sys_ok_def queue_ok_def queue_inv_def)
  qed
  show ?thesis
    using ok new ts ids here there
    by (auto simp: sys_ok_def queue_ok_def queue_inv_def targets_owned_def E T)
qed

lemma insert_targets_shape:
  assumes "insert_targets env at org x i xs ss d = Some d'" "length ss = length xs"
  shows "\<exists>ts. d' = d\<lparr>execution_targets := execution_targets d @ ts\<rparr> \<and> map et_server ts = xs
    \<and> (\<forall>t \<in> set ts. et_exec t = x \<and> et_status t = TPending \<and> target_ok t \<and> et_attempt t = 0 \<and> et_org t = org)
    \<and> (distinct (map et_id (execution_targets d)) \<longrightarrow> distinct (map et_id (execution_targets d @ ts)))"
  using assms
proof (induction env at org x i xs ss d rule: insert_targets.induct)
  case (1 env at org x i y xs s ss d)
  let ?t = "new_target_row (fresh_id env ''ext_'' at i) org x y s"
  let ?d = "d\<lparr>execution_targets := execution_targets d @ [?t]\<rparr>"
  have fresh: "et_id ?t \<notin> et_id ` set (execution_targets d)"
    and rest: "insert_targets env at org x (i + 1) xs ss ?d = Some d'"
    using 1(2) by (auto simp: Let_def split: if_splits)
  then obtain ts where ts: "d' = ?d\<lparr>execution_targets := execution_targets ?d @ ts\<rparr>" "map et_server ts = xs"
    "\<forall>t \<in> set ts. et_exec t = x \<and> et_status t = TPending \<and> target_ok t \<and> et_attempt t = 0 \<and> et_org t = org"
    "distinct (map et_id (execution_targets ?d)) \<longrightarrow> distinct (map et_id (execution_targets ?d @ ts))"
    using 1(1) [OF refl] 1(2,3) by (auto simp: Let_def split: if_splits)
  have "et_exec ?t = x" "et_status ?t = TPending" "target_ok ?t" "et_attempt ?t = 0" "et_org ?t = org" "et_server ?t = y"
    by (simp_all add: new_target_row_def target_ok_def)
  then show ?case
    using ts fresh by (intro exI [of _ "?t # ts"]) auto
qed auto

lemma insert_execution_shape:
  "insert_execution env at e d = Some d' \<Longrightarrow>
     d' = d\<lparr>executions := executions d @ [e]\<rparr> \<and> ex_id e \<notin> ex_id ` set (executions d)"
  by (auto simp: insert_execution_def split: if_splits option.splits)

section \<open>What creating an execution does\<close>

text \<open>A created answer that is not a replay carries no header.\<close>

lemma replay_headers:
  "replay_idempotent_execution env at org u k h d = Some (Some r) \<Longrightarrow>
     resp_code r = 409 \<or> resp_headers r = [(''Idempotency-Replayed'', ''true'')]"
  by (auto simp: replay_idempotent_execution_def split: if_splits list.splits)

definition idem_rows :: "env \<Rightarrow> actor \<Rightarrow> string \<Rightarrow> exec_req \<Rightarrow> string \<Rightarrow> string \<Rightarrow> exec_idem list" where
  "idem_rows env a key q exec_id body =
     (if key = [] then [] else
        [\<lparr>xi_org = a_org a, xi_user = a_user_id a, xi_key = key, xi_hash = hash_payload env (exec_payload q),
          xi_exec = exec_id, xi_body = body\<rparr>])"

lemma insert_exec_idem_shape:
  "insert_exec_idem env a key (hash_payload env (exec_payload q)) x b d = Some d' \<Longrightarrow>
     d' = d\<lparr>exec_idems := exec_idems d @ idem_rows env a key q x b\<rparr>
     \<and> (key \<noteq> [] \<longrightarrow> (\<forall>x \<in> set (exec_idems d). \<not> (xi_org x = a_org a \<and> xi_key x = key)))"
  by (auto simp: insert_exec_idem_def idem_rows_def split: if_splits)

text \<open>The rows a committed creation adds.\<close>

definition created :: "env \<Rightarrow> actor \<Rightarrow> string \<Rightarrow> exec_req \<Rightarrow> string list \<Rightarrow> string \<Rightarrow> string \<Rightarrow> db \<Rightarrow> db \<Rightarrow> bool" where
  "created env a key q ids environment risk d d' \<longleftrightarrow>
     (let exec_id = fresh_id env ''exe_'' ''create.exec'' 0
      in exec_id \<notin> ex_id ` set (executions d)
       \<and> executions d' = executions d @ [new_execution_row env a q exec_id environment risk]
       \<and> exec_idems d' = exec_idems d @ idem_rows env a key q exec_id (create_response_body exec_id risk (length ids))
       \<and> (key \<noteq> [] \<longrightarrow> (\<forall>x \<in> set (exec_idems d). \<not> (xi_org x = a_org a \<and> xi_key x = key)))
       \<and> (\<exists>ts. execution_targets d' = execution_targets d @ ts \<and> map et_server ts = ids
            \<and> (\<forall>t \<in> set ts. et_exec t = exec_id \<and> et_status t = TPending \<and> target_ok t
                 \<and> et_attempt t = 0 \<and> et_org t = a_org a)
            \<and> (distinct (map et_id (execution_targets d)) \<longrightarrow> distinct (map et_id (execution_targets d'))))
       \<and> runners d' = runners d \<and> receipts d' = receipts d \<and> servers d' = servers d \<and> users d' = users d
       \<and> approvals d' = approvals d)"

lemma create_tx_created:
  assumes "create_execution_tx env a key q ids environment risk snaps d = Inr (r, d')" "length snaps = length ids"
  shows "r = write_raw_json 201 (create_response_body (fresh_id env ''exe_'' ''create.exec'' 0) risk (length ids))
    \<and> created env a key q ids environment risk d d'"
proof -
  let ?id = "fresh_id env ''exe_'' ''create.exec'' 0"
  let ?e = "new_execution_row env a q ?id environment risk"
  let ?b = "create_response_body ?id risk (length ids)"
  obtain d1 d2 d3 d4 where d1: "insert_execution env ''create.insert'' ?e d = Some d1"
    and d2: "insert_targets env ''create.target'' (a_org a) ?id 0 ids snaps d1 = Some d2"
    and d3: "\<exists>md. record_execution_event env ''create.event'' 0 (a_org a) ?id [] [] ''queued'' ''execution.queued'' md d2 = Some d3"
    and d4: "\<exists>md. write_audit_event_tx env ''create.audit'' (a_org a) (a_user_id a) ''execution.requested'' ''execution''
              ?id ''queued'' md d3 = Some d4"
    and d5: "insert_exec_idem env a key (hash_payload env (exec_payload q)) ?id ?b d4 = Some d'"
    and r: "r = write_raw_json 201 ?b"
    using assms(1) unfolding create_execution_tx_def Let_def by auto blast
  note s1 = insert_execution_shape [OF d1] and s5 = insert_exec_idem_shape [OF d5]
  obtain ts where s2: "d2 = d1\<lparr>execution_targets := execution_targets d1 @ ts\<rparr>" "map et_server ts = ids"
    "\<forall>t \<in> set ts. et_exec t = ?id \<and> et_status t = TPending \<and> target_ok t \<and> et_attempt t = 0 \<and> et_org t = a_org a"
    "distinct (map et_id (execution_targets d1)) \<longrightarrow> distinct (map et_id (execution_targets d1 @ ts))"
    using insert_targets_shape [OF d2 assms(2)] by blast
  have eid: "ex_id ?e = ?id" by (simp add: new_execution_row_def)
  obtain m3 m4 where s3: "record_execution_event env ''create.event'' 0 (a_org a) ?id [] [] ''queued'' ''execution.queued'' m3 d2 = Some d3"
    and s4: "write_audit_event_tx env ''create.audit'' (a_org a) (a_user_id a) ''execution.requested'' ''execution''
              ?id ''queued'' m4 d3 = Some d4"
    using d3 d4 by blast
  show ?thesis
    using r s1 s2 s5 eid record_event_tables [OF s3] write_audit_tx_tables [OF s4]
    unfolding created_def Let_def by auto
qed

lemma create_tx_refused:
  "create_execution_tx env a key q ids environment risk snaps d = Inl r \<Longrightarrow>
     resp_code r \<noteq> 201 \<or> resp_headers r \<noteq> []"
  unfolding create_execution_tx_def Let_def key_conflict_def
  by (auto dest!: replay_headers split: option.splits)


section \<open>Requests that are allowed\<close>

lemma find_server_Some: "find_server org x d = Some s \<Longrightarrow> s \<in> set (servers d) \<and> sv_id s = x \<and> sv_org s = org"
  unfolding find_server_def using find_Some_set by fastforce

lemma collect_environments_all:
  "collect_environments env org i xs d = Some es \<Longrightarrow> x \<in> set xs \<Longrightarrow>
     \<exists>s \<in> set (servers d). sv_id s = x \<and> sv_org s = org \<and> sv_environment s \<in> set es"
proof (induction env org i xs d arbitrary: es rule: collect_environments.induct)
  case (2 env org i y ys d)
  then show ?case
    by (auto simp: in_set_insert List.insert_def dest: find_server_Some split: option.splits if_splits) blast+
qed simp

lemma target_environment_sound:
  assumes "target_environment env org ids d = (e, False)" "x \<in> set ids"
  shows "\<exists>s \<in> set (servers d). sv_id s = x \<and> sv_org s = org \<and> sv_environment s = e"
proof -
  from assms have "collect_environments env org 0 ids d = Some [e]"
    by (auto simp: target_environment_def split: if_splits option.splits list.splits)
  from collect_environments_all [OF this assms(2)] show ?thesis by simp
qed

definition allowed_request :: "env \<Rightarrow> actor \<Rightarrow> exec_req \<Rightarrow> string list \<Rightarrow> string \<Rightarrow> db \<Rightarrow> bool" where
  "allowed_request env a q ids environment d \<longleftrightarrow>
     ids = resolve_targets env (a_org a) (xq_target q) d \<and> ids \<noteq> []
     \<and> (\<forall>x \<in> set ids. \<exists>s \<in> set (servers d). sv_id s = x \<and> sv_org s = a_org a \<and> sv_environment s = environment)
     \<and> d_allowed (check_execution a environment (classify_risk (xq_command q)) (xq_reason q))"

lemma create_execution_cases:
  assumes "create_execution env a key q d = (r, d')"
  shows "(audit_only d d' \<and> (resp_code r \<noteq> 201 \<or> resp_headers r \<noteq> []))
    \<or> (\<exists>ids environment. allowed_request env a q ids environment d
         \<and> created env a key q ids environment (classify_risk (xq_command q)) d d'
         \<and> r = write_raw_json 201 (create_response_body (fresh_id env ''exe_'' ''create.exec'' 0)
               (classify_risk (xq_command q)) (length ids)))"
proof -
  let ?ids = "resolve_targets env (a_org a) (xq_target q) d"
  let ?risk = "classify_risk (xq_command q)"
  obtain environment mixed where te: "target_environment env (a_org a) ?ids d = (environment, mixed)" by fastforce
  let ?snaps = "snapshot_targets env (a_org a) ?ids d"
  show ?thesis
  proof (cases "?ids = [] \<or> mixed \<or> \<not> d_allowed (check_execution a environment ?risk (xq_reason q))
      \<or> length ?snaps \<noteq> length ?ids")
    case True
    then show ?thesis
      using assms te
      by (auto simp: create_execution_def Let_def write_denial_def split: if_splits)
  next
    case False
    then have run: "run_tx d (create_execution_tx env a key q ?ids environment ?risk ?snaps d) = (r, d')"
      and len: "length ?snaps = length ?ids" and nm: "target_environment env (a_org a) ?ids d = (environment, False)"
      using assms te by (auto simp: create_execution_def Let_def)
    from run show ?thesis
    proof (cases rule: run_tx_cases)
      case Rolled_Back
      then show ?thesis using create_tx_refused by auto
    next
      case Committed
      have "allowed_request env a q ?ids environment d"
        using False target_environment_sound [OF nm] by (auto simp: allowed_request_def)
      then show ?thesis using create_tx_created [OF Committed len] by blast
    qed
  qed
qed

lemma handle_create_cases:
  assumes "handle_create_execution env a kh body d = (r, d')"
  shows "(audit_only d d' \<and> (resp_code r \<noteq> 201 \<or> resp_headers r \<noteq> []))
    \<or> (\<exists>q ids environment. body = Some q \<and> allowed_request env a q ids environment d
         \<and> created env a (trim_space kh) q ids environment (classify_risk (xq_command q)) d d'
         \<and> r = write_raw_json 201 (create_response_body (fresh_id env ''exe_'' ''create.exec'' 0)
               (classify_risk (xq_command q)) (length ids)))"
proof (cases "\<exists>q. body = Some q \<and> create_execution env a (trim_space kh) q d = (r, d')")
  case True
  then show ?thesis using create_execution_cases by blast
next
  case False
  then show ?thesis
    using assms
    by (auto simp: handle_create_execution_def Let_def dest!: replay_headers split: option.splits if_splits)
qed

text \<open>
  C20: what a created execution stands for.  When \<open>handleCreateExecution\<close> answers 201 with a new
  execution, the policy allows this actor this command at its classified risk in the one
  environment of all targets, every target is a server of the actor's organisation, and the
  database has exactly one execution more, queued, with the command as submitted and one pending
  target with no attempt made for each resolved server, in their order.
\<close>

theorem create_authorised:
  assumes "handle_create_execution env a kh body d = (r, d')" "resp_code r = 201" "resp_headers r = []"
  shows "\<exists>q ids environment exec_id ts. body = Some q
    \<and> ids = resolve_targets env (a_org a) (xq_target q) d \<and> ids \<noteq> []
    \<and> d_allowed (check_execution a environment (classify_risk (xq_command q)) (xq_reason q))
    \<and> (\<forall>x \<in> set ids. \<exists>s \<in> set (servers d). sv_id s = x \<and> sv_org s = a_org a \<and> sv_environment s = environment)
    \<and> exec_id \<notin> ex_id ` set (executions d)
    \<and> executions d' = executions d @ [new_execution_row env a q exec_id environment (classify_risk (xq_command q))]
    \<and> execution_targets d' = execution_targets d @ ts \<and> map et_server ts = ids
    \<and> (\<forall>t \<in> set ts. et_exec t = exec_id \<and> et_status t = TPending \<and> et_attempt t = 0 \<and> et_org t = a_org a)"
  using handle_create_cases [OF assms(1)] assms(2,3)
  unfolding allowed_request_def created_def Let_def by blast

text \<open>
  A request for an execution that is not answered with a new execution (refused by
  validation, policy, a database error or a used key, or replayed) changes nothing but the audit log.
\<close>

theorem create_atomic:
  assumes "resp_code (fst (handle_create_execution env a kh body d)) \<noteq> 201
     \<or> resp_headers (fst (handle_create_execution env a kh body d)) \<noteq> []"
  shows "audit_only d (snd (handle_create_execution env a kh body d))"
  using handle_create_cases [of env a kh body d "fst (handle_create_execution env a kh body d)"
      "snd (handle_create_execution env a kh body d)"] assms
  by auto

lemma created_inv:
  assumes "sys_ok d" "created env a key q ids environment risk d d'" "ids \<noteq> []"
  shows "sys_ok d'"
proof -
  let ?e = "new_execution_row env a q (fresh_id env ''exe_'' ''create.exec'' 0) environment risk"
  have e: "ex_id ?e = fresh_id env ''exe_'' ''create.exec'' 0" "ex_status ?e = EQueued"
    by (simp_all add: new_execution_row_def)
  obtain ts where ts: "execution_targets d' = execution_targets d @ ts" "map et_server ts = ids"
    "\<forall>t \<in> set ts. et_exec t = ex_id ?e \<and> et_status t = TPending \<and> target_ok t"
    "distinct (map et_id (execution_targets d)) \<longrightarrow> distinct (map et_id (execution_targets d'))"
    and E: "executions d' = executions d @ [?e]" "ex_id ?e \<notin> ex_id ` set (executions d)"
    using assms(2) e unfolding created_def Let_def by auto
  have "distinct (map et_id (execution_targets d))"
    using assms(1) by (simp add: sys_ok_def queue_ok_def queue_inv_def)
  then have ids: "distinct (map et_id (execution_targets d @ ts))" using ts(1,4) by metis
  have "ts \<noteq> []" using ts(2) assms(3) by auto
  then show ?thesis using add_execution_ok [OF assms(1) E(2,1) ts(1) ts(3) ids] e(2) by blast
qed

lemma audit_only_sys_ok: "audit_only d d' \<Longrightarrow> sys_ok d' = sys_ok d"
  by (rule sys_ok_cong) (simp_all add: audit_only_tables)

lemma create_inv: "sys_ok d \<Longrightarrow> handle_create_execution env a kh body d = (r, d') \<Longrightarrow> sys_ok d'"
  using handle_create_cases [of env a kh body d r d'] audit_only_sys_ok created_inv
  unfolding allowed_request_def by blast

section \<open>Replays\<close>

lemma created_idem_row:
  assumes "created env a key q ids environment risk d d'" "key \<noteq> []"
  shows "filter (\<lambda>x. xi_org x = a_org a \<and> xi_user x = u \<and> xi_key x = key) (exec_idems d')
    = (if u = a_user_id a then idem_rows env a key q (fresh_id env ''exe_'' ''create.exec'' 0)
        (create_response_body (fresh_id env ''exe_'' ''create.exec'' 0) risk (length ids)) else [])"
proof -
  have "filter (\<lambda>x. xi_org x = a_org a \<and> xi_user x = u \<and> xi_key x = key) (exec_idems d) = []"
    using assms unfolding created_def Let_def by (auto simp: filter_empty_conv)
  then show ?thesis
    using assms unfolding created_def Let_def by (simp add: idem_rows_def)
qed

text \<open>
  Creating an execution is idempotent per key: once a request with an idempotency key has
  created an execution, a request of the same user with the same key and the same payload answers 201 with the
  same body and changes nothing (so the command is not queued twice), and one with a payload of a
  different hash is refused with 409.
\<close>

theorem create_idempotent:
  assumes "handle_create_execution env a kh (Some q) d = (r, d')" "resp_code r = 201" "resp_headers r = []"
    and "trim_space kh \<noteq> []" "xq_target q' \<noteq> []" "xq_command q' \<noteq> []" "trim_space kh' = trim_space kh"
    and "a_org a' = a_org a" "a_user_id a' = a_user_id a" "\<not> fails env' ''create.replay'' 0"
  shows "handle_create_execution env' a' kh' (Some q') d' =
    (if hash_payload env' (exec_payload q') = hash_payload env (exec_payload q)
     then (Resp 201 [(''Idempotency-Replayed'', ''true'')] (resp_body r), d')
     else (err 409 ''idempotency key was already used with a different request payload'', d'))"
proof -
  obtain ids environment where c: "created env a (trim_space kh) q ids environment (classify_risk (xq_command q)) d d'"
    and r: "resp_body r = RawBody (create_response_body (fresh_id env ''exe_'' ''create.exec'' 0)
        (classify_risk (xq_command q)) (length ids))"
    using handle_create_cases [OF assms(1)] assms(2,3) by auto
  have valid: "valid_idempotency_key (trim_space kh)"
    using assms(1-4) by (auto simp: handle_create_execution_def Let_def split: if_splits)
  show ?thesis
    using valid assms(4-10) created_idem_row [OF c assms(4), of "a_user_id a"] r
    by (simp add: handle_create_execution_def replay_idempotent_execution_def idem_rows_def)
qed

section \<open>Cancelling\<close>

lemma cancel_cases:
  assumes "handle_cancel_execution env a x d = (r, d')"
  obtains (Refused) "d' = d" "resp_code r \<noteq> 200"
  | (Cancelled) e where "resp_code r = 200" "e \<in> set (executions d)" "cancellable (a_org a) x e"
      "a_user_id a = ex_actor e \<or> can_manage_execution (a_role a)"
      "audit_only (cancel_rows env (a_org a) x d) d'"
  using assms
  by (auto simp: handle_cancel_execution_def dest!: Cons_mem split: if_splits list.splits)

lemma statuses_set_exec:
  assumes "\<And>t. et_exec (f t) = et_exec t" "\<And>t. et_status (f t) = s"
  shows "statuses (update_where (\<lambda>t. et_exec t = x) f T) y
    = (if y = x then (if statuses T x = {} then {} else {s}) else statuses T y)"
proof (induction T)
  case (Cons t T)
  then show ?case by (cases "y = x"; cases "et_exec t = x") (simp_all add: statuses_Cons assms)
qed (simp add: statuses_Nil)

lemma cancel_targets_ok:
  assumes "queue_inv E T" "\<And>e. e \<in> set E \<Longrightarrow> ex_id e = x \<Longrightarrow> ex_status e = ECancelled"
  shows "queue_inv E (update_where (\<lambda>t. et_exec t = x) (\<lambda>t. t\<lparr>et_status := TCancelled\<rparr>) T)"
    (is "queue_inv E ?T")
proof -
  have st: "status_ok (ex_status e) (statuses ?T (ex_id e))" if "e \<in> set E" for e
    using assms(1,2) that by (auto simp: statuses_set_exec queue_inv_def status_ok_def)
  have "target_ok t" if t: "t \<in> set ?T" for t
  proof -
    obtain u where "u \<in> set T" "t = (if et_exec u = x then u\<lparr>et_status := TCancelled\<rparr> else u)"
      using t unfolding set_update_where by (elim imageE) simp
    then show ?thesis using assms(1) by (auto simp: queue_inv_def target_ok_def)
  qed
  then show ?thesis
    using assms(1) st by (auto simp: queue_inv_def map_update_where)
qed

lemma cancel_rows_inv:
  assumes ok: "sys_ok d" and e: "e \<in> set (executions d)" "cancellable org x e"
  shows "sys_ok (cancel_rows env org x d)"
proof -
  let ?E = "update_where (cancellable org x) (\<lambda>e. e\<lparr>ex_status := ECancelled, ex_finished_at := Some (go_now env)\<rparr>)
      (executions d)"
  have inv: "queue_inv (executions d) (execution_targets d)" using ok by (simp add: sys_ok_def queue_ok_def)
  have one: "y = e" if "y \<in> set (executions d)" "ex_id y = x" for y
    using that e inv by (auto simp: queue_inv_def cancellable_def dest: distinct_map_eqD)
  have E: "ex_status y = ECancelled" if "y \<in> set ?E" "ex_id y = x" for y
  proof -
    obtain z where "z \<in> set (executions d)"
      "y = (if cancellable org x z then z\<lparr>ex_status := ECancelled, ex_finished_at := Some (go_now env)\<rparr> else z)"
      using \<open>y \<in> set ?E\<close> unfolding set_update_where by (elim imageE) simp
    then show ?thesis using \<open>ex_id y = x\<close> one [of z] e(2) by (auto split: if_splits)
  qed
  have "status_ok (ex_status y) (statuses (execution_targets d) (ex_id y))" if y: "y \<in> set ?E" for y
  proof -
    obtain z where z: "z \<in> set (executions d)"
      "y = (if cancellable org x z then z\<lparr>ex_status := ECancelled, ex_finished_at := Some (go_now env)\<rparr> else z)"
      using y unfolding set_update_where by (elim imageE) simp
    then have "status_ok (ex_status z) (statuses (execution_targets d) (ex_id z))"
      using inv by (simp add: queue_inv_def)
    then show ?thesis using z(2) by (auto simp: status_ok_def cancellable_def split: if_splits)
  qed
  then have inv1: "queue_inv ?E (execution_targets d)"
    using inv by (auto simp: queue_inv_def map_update_where)
  have ids: "map ex_id ?E = map ex_id (executions d)" by (simp add: map_update_where)
  have T: "map et_exec (update_where (\<lambda>t. et_exec t = x) (\<lambda>t. t\<lparr>et_status := TCancelled\<rparr>) (execution_targets d))
      = map et_exec (execution_targets d)" by (simp add: map_update_where)
  have "queue_ok (cancel_rows env org x d)"
    using inv1 cancel_targets_ok [OF inv1 E] by (simp add: cancel_rows_def Let_def queue_ok_def)
  moreover have "targets_owned (cancel_rows env org x d)"
    using ok ids T unfolding sys_ok_def
    by (subst targets_owned_cong [where d = d]) (simp_all add: cancel_rows_def Let_def)
  ultimately show ?thesis by (simp add: sys_ok_def)
qed

lemma cancel_inv: "sys_ok d \<Longrightarrow> handle_cancel_execution env a x d = (r, d') \<Longrightarrow> sys_ok d'"
  by (erule cancel_cases) (use audit_only_sys_ok cancel_rows_inv in blast)+

lemma cancelled_status:
  assumes "sys_ok d" "e \<in> set (executions d)" "cancellable org x e" "y \<in> set (executions (cancel_rows env org x d))"
    "ex_id y = x"
  shows "ex_status y = ECancelled"
proof -
  have E: "executions (cancel_rows env org x d) = update_where (cancellable org x)
      (\<lambda>e. e\<lparr>ex_status := ECancelled, ex_finished_at := Some (go_now env)\<rparr>) (executions d)"
    by (simp add: cancel_rows_def Let_def)
  obtain z where z: "z \<in> set (executions d)"
    "y = (if cancellable org x z then z\<lparr>ex_status := ECancelled, ex_finished_at := Some (go_now env)\<rparr> else z)"
    using assms(4) unfolding E set_update_where by (elim imageE) simp
  then have "ex_id z = ex_id e" using assms(3,5) by (auto simp: cancellable_def split: if_splits)
  then have "z = e" using assms(1,2) z(1) by (auto simp: sys_ok_def queue_ok_def queue_inv_def dest: distinct_map_eqD)
  with z(2) assms(3) show ?thesis by simp
qed


section \<open>Witnesses\<close>

definition sample_exec_req :: exec_req where
  "sample_exec_req = \<lparr>xq_target = ''web'', xq_command = ''uptime'', xq_reason = [], xq_delegated_by = []\<rparr>"

definition sample_create :: "resp \<times> db" where
  "sample_create = handle_create_execution sample_env sample_owner ''k1'' (Some sample_exec_req) sample_db"

lemma sample_request:
  "resolve_targets sample_env ''org-1'' ''web'' sample_db = [''s1'']"
  "target_environment sample_env ''org-1'' [''s1''] sample_db = (''staging'', False)"
  "classify_risk ''uptime'' = ''low''"
  "d_allowed (check_execution sample_owner ''staging'' ''low'' [])"
  "valid_idempotency_key ''k1''" "trim_space ''k1'' = ''k1''"
  by code_simp+

lemma sample_snapshot: "\<exists>s. snapshot_targets sample_env ''org-1'' [''s1''] sample_db = [s]"
  by (simp add: snapshot_targets_def find_server_def) (simp add: sample_server_def)

lemma sample_audit_event:
  "audit_events d = [] \<Longrightarrow> \<exists>d'. write_audit_event_tx sample_env at org actor action tt ti res md d = Some d'"
  by (simp add: write_audit_event_tx_def write_audit_event_type_def Let_def)

lemma sample_timeline_event:
  "execution_events d = [] \<Longrightarrow> \<exists>d'. record_execution_event sample_env at i org x tg fr to ty md d = Some d'"
  by (simp add: record_execution_event_def Let_def)

lemma sample_new_rows:
  "\<exists>e. new_execution_row sample_env a q x en rk = e \<and> ex_id e = x \<and> ex_delegated_by e = sql_null_string (xq_delegated_by q)"
  by (simp add: new_execution_row_def)

lemma sample_sels [simp]:
  "a_org sample_owner = ''org-1''" "a_user_id sample_owner = ''u1''" "xq_target sample_exec_req = ''web''"
  "xq_command sample_exec_req = ''uptime''" "xq_reason sample_exec_req = []" "xq_delegated_by sample_exec_req = []"
  "exec_idems sample_db = []"
  by (simp_all add: sample_owner_def sample_exec_req_def sample_db_def empty_db_def)

lemma sample_create_code: "resp_code (fst sample_create) = 201 \<and> resp_headers (fst sample_create) = []"
proof -
  let ?id = "fresh_id sample_env ''exe_'' ''create.exec'' 0"
  let ?e = "new_execution_row sample_env sample_owner sample_exec_req ?id ''staging'' ''low''"
  obtain s where s: "snapshot_targets sample_env ''org-1'' [''s1''] sample_db = [s]" using sample_snapshot by blast
  let ?t = "new_target_row (fresh_id sample_env ''ext_'' ''create.target'' 0) ''org-1'' ?id ''s1'' s"
  let ?d2 = "sample_db\<lparr>executions := [sample_execution, ?e], execution_targets := [sample_target, ?t]\<rparr>"
  have ids: "?id \<noteq> ''e1''" "fresh_id sample_env ''ext_'' ''create.target'' 0 \<noteq> ''t1''"
    by (simp_all add: fresh_id_def)
  have d1: "insert_execution sample_env ''create.insert'' ?e sample_db = Some (sample_db\<lparr>executions := [sample_execution, ?e]\<rparr>)"
    using ids by (simp add: insert_execution_def new_execution_row_def sample_exec_req_def sql_null_string_def sample_execution_def)
  have d2: "insert_targets sample_env ''create.target'' ''org-1'' ?id 0 [''s1''] [s]
      (sample_db\<lparr>executions := [sample_execution, ?e]\<rparr>) = Some ?d2"
    using ids by (simp add: new_target_row_def sample_target_def Let_def)
  have ev: "execution_events ?d2 = []" by simp
  obtain d3 where d3: "record_execution_event sample_env ''create.event'' 0 ''org-1'' ?id [] [] ''queued'' ''execution.queued''
      [(''execution_type'', JStr ''raw_command'')] ?d2 = Some d3"
    using sample_timeline_event [OF ev] by blast
  have "audit_events d3 = []" "exec_idems d3 = []"
    using record_event_tables [OF d3] by (simp_all add: sample_db_def empty_db_def)
  moreover obtain d4 where d4: "write_audit_event_tx sample_env ''create.audit'' ''org-1'' ''u1'' ''execution.requested'' ''execution''
      ?id ''queued'' (jmap [(''command'', JStr ''uptime''), (''reason'', JStr []),
         (''target'', JStr ''web''), (''risk'', JStr ''low''), (''target_count'', JInt 1)]) d3 = Some d4"
    using sample_audit_event [OF \<open>audit_events d3 = []\<close>] by blast
  ultimately have "exec_idems d4 = []" using write_audit_tx_tables [OF d4] by simp
  then show ?thesis
    using d1 d2 d3 d4 s sample_request
    by (simp add: sample_create_def handle_create_execution_def replay_idempotent_execution_def create_execution_def
        create_execution_tx_def insert_exec_idem_def attempt_def refuse_if_def Let_def
        del: json_text.simps insert_targets.simps)
qed

lemma sample_create_eq:
  "handle_create_execution sample_env sample_owner ''k1'' (Some sample_exec_req) sample_db
     = (fst sample_create, snd sample_create)"
  by (simp add: sample_create_def)

theorem create_authorised_witness:
  "\<exists>e ts. executions (snd sample_create) = executions sample_db @ [e] \<and> ex_command e = ''uptime''
    \<and> execution_targets (snd sample_create) = execution_targets sample_db @ ts \<and> ts \<noteq> []"
proof -
  obtain q ids environment exec_id ts where
    "Some sample_exec_req = Some q" "ids \<noteq> []"
    "executions (snd sample_create) = executions sample_db
       @ [new_execution_row sample_env sample_owner q exec_id environment (classify_risk (xq_command q))]"
    "execution_targets (snd sample_create) = execution_targets sample_db @ ts" "map et_server ts = ids"
    using create_authorised [OF sample_create_eq] sample_create_code by blast
  then show ?thesis
    by (intro exI conjI) (auto simp: new_execution_row_def sample_exec_req_def)
qed

theorem create_atomic_witness:
  "audit_only sample_db (snd (handle_create_execution sample_env sample_owner ''bad key'' (Some sample_exec_req) sample_db))"
  by (rule create_atomic) code_simp

theorem create_idempotent_witness:
  "handle_create_execution sample_env sample_owner ''k1'' (Some sample_exec_req) (snd sample_create)
     = (Resp 201 [(''Idempotency-Replayed'', ''true'')] (resp_body (fst sample_create)), snd sample_create)"
proof -
  have k: "trim_space ''k1'' \<noteq> []" by code_simp
  show ?thesis
    using create_idempotent [OF sample_create_eq _ _ k, where q' = sample_exec_req and kh' = "''k1''"
        and a' = sample_owner and env' = sample_env] sample_create_code
    by (simp add: sample_exec_req_def)
qed

lemma sample_db_sys_ok: "sys_ok sample_db"
  using sample_db_ok by (simp add: sys_ok_def targets_owned_def sample_target_def sample_execution_def)


end
