(* ===== verification/RunbookApi.thy ===== *)
theory RunbookApi
  imports Executions
begin

text \<open>
  The runbook half of \<open>apps/api/runbooks.go\<close>: creating, updating, publishing, archiving, listing and
  reading runbooks, and running one (\<open>handle_run_runbook\<close>), which replays a stored answer, answers a
  preflight, files an approval request or queues an execution.  The request's \<open>allowed_roles\<close> text is
  given decoded (\<open>roles_field\<close>); the other theory of this file is \<open>Approvals\<close>.
\<close>

section \<open>Checks on requests\<close>

definition valid_risk :: "string \<Rightarrow> bool" where
  "valid_risk risk \<longleftrightarrow> to_lower risk \<in> {''low'', ''medium'', ''high'', ''critical''}"

definition valid_environment :: "string \<Rightarrow> bool" where
  "valid_environment e \<longleftrightarrow>
     e = [] \<or> e = ''*'' \<or> e = ''development'' \<or> e = ''staging'' \<or> e = ''production''"

text \<open>An absent or empty field, a text that is not a JSON array of strings, or the array.\<close>

datatype roles_field = NoRoles | BadRoles | Roles "string list"

definition valid_allowed_roles :: "roles_field \<Rightarrow> bool" where
  "valid_allowed_roles f =
     (case f of
        Roles rs \<Rightarrow> rs \<noteq> [] \<and> list_all (\<lambda>r. to_lower r \<in>
          {''owner'', ''admin'', ''senior_engineer'', ''junior_engineer'', ''auditor''}) rs
      | _ \<Rightarrow> False)"

definition default_roles :: "string list" where
  "default_roles = [''senior_engineer'', ''admin'', ''owner'']"

definition stored_roles :: "roles_field \<Rightarrow> string list option" where
  "stored_roles f = (case f of NoRoles \<Rightarrow> Some default_roles | BadRoles \<Rightarrow> None | Roles rs \<Rightarrow> Some rs)"

fun role_in_list :: "string \<Rightarrow> string list \<Rightarrow> bool" where
  "role_in_list role [] = False"
| "role_in_list role (r # rs) = (if equal_fold r role then True else role_in_list role rs)"

definition role_allowed_in_list :: "string \<Rightarrow> string list option \<Rightarrow> bool" where
  "role_allowed_in_list role allowed = (case allowed of None \<Rightarrow> False | Some rs \<Rightarrow> role_in_list role rs)"

section \<open>Creating and updating\<close>

record runbook_req =
  nq_name :: string
  nq_title :: string
  nq_description :: string
  nq_risk :: string
  nq_command :: string
  nq_timeout :: int
  nq_environment :: string
  nq_yaml :: string
  nq_roles :: roles_field

definition zero_spec :: spec where
  "zero_spec = \<lparr>s_parameters = [],
     s_targets = \<lparr>t_allowed_tags = [], t_allowed_environments = [], t_allowed_servers = []\<rparr>,
     s_approval = \<lparr>ar_required = False, ar_environment = [], ar_required_role = []\<rparr>,
     s_execution = \<lparr>x_shell = [], x_sudo = False, x_timeout_seconds = 0, x_concurrency = 0, x_command = []\<rparr>,
     s_output = \<lparr>o_store = [], o_redact = []\<rparr>, s_rollback = JNull, s_verification = JNull\<rparr>"

text \<open>The runbook built from the fields of a request, not validated by \<open>Validate\<close>.\<close>

definition runbook_of :: "string \<Rightarrow> runbook_req \<Rightarrow> int \<Rightarrow> runbook" where
  "runbook_of name q version =
     \<lparr>r_api_version = ''vps-tools.io/v1'', r_kind = ''Runbook'',
      r_metadata = \<lparr>m_name = name, m_title = nq_title q, m_description = nq_description q,
        m_risk = nq_risk q, m_tags = [], m_version = version\<rparr>,
      r_spec = zero_spec\<lparr>s_execution := (s_execution zero_spec)\<lparr>x_command := nq_command q, x_timeout_seconds := nq_timeout q\<rparr>,
        s_targets := (s_targets zero_spec)\<lparr>t_allowed_environments := [nq_environment q]\<rparr>\<rparr>\<rparr>"

definition with_defaults :: "runbook_req \<Rightarrow> runbook_req" where
  "with_defaults q = q\<lparr>nq_risk := (if nq_risk q = [] then ''medium'' else nq_risk q),
     nq_timeout := (if nq_timeout q = 0 then 300 else nq_timeout q)\<rparr>"

definition parse_yaml :: "env \<Rightarrow> string \<Rightarrow> string + runbook" where
  "parse_yaml env yaml =
     (case yaml_parse env yaml of
        Inl e \<Rightarrow> Inl (''invalid YAML: '' @ e)
      | Inr rb \<Rightarrow> (case validate rb of
            Inl e \<Rightarrow> Inl (''runbook validation error: '' @ ve_field e @ '': '' @ ve_message e)
          | Inr rb \<Rightarrow> Inr rb))"

definition create_definition :: "env \<Rightarrow> runbook_req \<Rightarrow> resp + runbook" where
  "create_definition env q =
     (if nq_yaml q \<noteq> [] then (case parse_yaml env (nq_yaml q) of Inl e \<Rightarrow> Inl (err 400 e) | Inr rb \<Rightarrow> Inr rb)
      else
        let q' = with_defaults q
        in refuse_if (nq_name q = [] \<or> nq_command q = []) (err 400 ''name and command are required'') (
           refuse_if (\<not> valid_risk (nq_risk q') \<or> \<not> valid_environment (nq_environment q'))
             (err 400 ''invalid risk or environment'')
             (Inr (runbook_of (nq_name q') q' 1))))"

definition draft_version :: "env \<Rightarrow> actor \<Rightarrow> string \<Rightarrow> string \<Rightarrow> runbook \<Rightarrow> roles_field \<Rightarrow> version_row" where
  "draft_version env a version_id runbook_id rb roles =
     \<lparr>rv_id = version_id, rv_org = a_org a, rv_runbook = runbook_id, rv_version = m_version (r_metadata rb),
      rv_status = ''draft'', rv_risk = m_risk (r_metadata rb), rv_definition = Some rb,
      rv_allowed_roles = stored_roles roles,
      rv_command_preview = Some (x_command (s_execution (r_spec rb))),
      rv_command_hash = Some (hash_cmd env (x_command (s_execution (r_spec rb)))),
      rv_created_by = a_user_id a, rv_published_by = None, rv_published_at = None\<rparr>"

definition insert_runbook :: "env \<Rightarrow> runbook_row \<Rightarrow> db \<Rightarrow> db option" where
  "insert_runbook env rb d =
     (if fails env ''runbook.insert'' 0 \<or> rb_id rb \<in> rb_id ` set (runbook_rows d)
        \<or> (rb_org rb, rb_name rb) \<in> (\<lambda>r. (rb_org r, rb_name r)) ` set (runbook_rows d) then None
      else Some (d\<lparr>runbook_rows := runbook_rows d @ [rb]\<rparr>))"

definition insert_version :: "env \<Rightarrow> version_row \<Rightarrow> db \<Rightarrow> db option" where
  "insert_version env v d =
     (if fails env ''version.insert'' 0 \<or> rv_id v \<in> rv_id ` set (runbook_versions d)
        \<or> (rv_runbook v, rv_version v) \<in> (\<lambda>v. (rv_runbook v, rv_version v)) ` set (runbook_versions d) then None
      else Some (d\<lparr>runbook_versions := runbook_versions d @ [v]\<rparr>))"

definition update_runbooks ::
  "env \<Rightarrow> string \<Rightarrow> (runbook_row \<Rightarrow> bool) \<Rightarrow> (runbook_row \<Rightarrow> runbook_row) \<Rightarrow> db \<Rightarrow> db option" where
  "update_runbooks env at P f d =
     (if fails env at 0 then None else Some (d\<lparr>runbook_rows := update_where P f (runbook_rows d)\<rparr>))"

definition create_runbook_tx :: "env \<Rightarrow> actor \<Rightarrow> runbook \<Rightarrow> roles_field \<Rightarrow> db \<Rightarrow> resp + resp \<times> db" where
  "create_runbook_tx env a rb roles d =
     (let rbid = fresh_id env ''rbk_'' ''runbook.id'' 0; rvid = fresh_id env ''rbv_'' ''version.id'' 0; md = r_metadata rb
      in refuse_if (fails env ''runbook.begin'' 0) (err 500 ''failed to start runbook transaction'') (
         attempt (err 409 ''runbook name already exists or could not be created'')
           (insert_runbook env \<lparr>rb_id = rbid, rb_org = a_org a, rb_name = m_name md, rb_title = m_title md,
              rb_description = Some (m_description md), rb_status = ''draft'', rb_current_version = None,
              rb_created_by = a_user_id a, rb_created_at = sql_now env\<rparr> d) (\<lambda>d1.
         attempt (err 500 ''failed to create runbook version'')
           (insert_version env (draft_version env a rvid rbid rb roles) d1) (\<lambda>d2.
         attempt (err 500 ''failed to activate runbook version'')
           (update_runbooks env ''runbook.activate'' (\<lambda>r. rb_id r = rbid) (\<lambda>r. r\<lparr>rb_current_version := Some rvid\<rparr>) d2) (\<lambda>d3.
         refuse_if (fails env ''runbook.commit'' 0) (err 500 ''failed to commit runbook'')
           (Inr (reply 201 [(''runbook_id'', JStr rbid), (''name'', JStr (m_name md)), (''status'', JStr ''draft'')],
              write_audit_event env ''runbook.audit'' (a_org a) (a_user_id a) ''runbook.created'' ''runbook'' rbid ''success''
                (jmap [(''name'', JStr (m_name md))]) d3)))))))"

definition handle_create_runbook :: "env \<Rightarrow> actor \<Rightarrow> runbook_req option \<Rightarrow> db \<Rightarrow> resp \<times> db" where
  "handle_create_runbook env a body d =
     (if \<not> is_senior a then write_denial env ''runbook.denied'' a ''runbook.created'' ''runbook'' []
          (deny ''runbook_requires_senior'' ''Creating runbooks requires senior engineer or above.'') d
      else case body of
          None \<Rightarrow> (err 400 ''invalid request body'', d)
        | Some q \<Rightarrow>
            (case create_definition env q of
               Inl r \<Rightarrow> (r, d)
             | Inr rb \<Rightarrow>
                 if nq_roles q \<noteq> NoRoles \<and> \<not> valid_allowed_roles (nq_roles q)
                 then (err 400 ''allowed_roles must be a JSON array of known roles'', d)
                 else run_tx d (create_runbook_tx env a rb (nq_roles q) d)))"

text \<open>\<open>runbooks LEFT JOIN runbook_versions\<close> on the current version.\<close>

definition current_version :: "db \<Rightarrow> runbook_row \<Rightarrow> version_row option" where
  "current_version d r = List.find (\<lambda>v. rb_current_version r = Some (rv_id v)) (runbook_versions d)"

definition names_runbook :: "string \<Rightarrow> string \<Rightarrow> runbook_row \<Rightarrow> bool" where
  "names_runbook org name r \<longleftrightarrow> (rb_id r = name \<or> rb_name r = name) \<and> rb_org r = org"

definition update_definition :: "env \<Rightarrow> runbook_req \<Rightarrow> string \<Rightarrow> int \<Rightarrow> resp + runbook" where
  "update_definition env q name version =
     (let finish = (\<lambda>rb. rb\<lparr>r_metadata := (r_metadata rb)\<lparr>m_version := version,
             m_name := (if m_name (r_metadata rb) = [] then name else m_name (r_metadata rb))\<rparr>\<rparr>)
      in if nq_yaml q \<noteq> [] then
           (case parse_yaml env (nq_yaml q) of Inl e \<Rightarrow> Inl (err 400 e) | Inr rb \<Rightarrow> Inr (finish rb))
         else
           let q' = (with_defaults q)\<lparr>nq_environment :=
                 (if nq_environment q = [] then ''development'' else nq_environment q)\<rparr>
           in refuse_if (\<not> valid_risk (nq_risk q') \<or> \<not> valid_environment (nq_environment q'))
                (err 400 ''invalid risk or environment'') (Inr (finish (runbook_of name q' version))))"

definition update_runbook_tx ::
  "env \<Rightarrow> actor \<Rightarrow> runbook_req \<Rightarrow> string \<Rightarrow> runbook \<Rightarrow> db \<Rightarrow> resp + resp \<times> db" where
  "update_runbook_tx env a q rbid rb d =
     (let rvid = fresh_id env ''rbv_'' ''version.id'' 0; md = r_metadata rb;
          title = (if nq_title q = [] then m_title md else nq_title q);
          description = (if nq_description q = [] then m_description md else nq_description q)
      in refuse_if (fails env ''runbook.begin'' 0) (err 500 ''failed to start update'') (
         attempt (err 500 ''failed to create runbook version'')
           (insert_version env (draft_version env a rvid rbid rb (nq_roles q)) d) (\<lambda>d1.
         attempt (err 500 ''failed to update runbook'')
           (update_runbooks env ''runbook.update'' (\<lambda>r. rb_id r = rbid \<and> rb_org r = a_org a)
              (\<lambda>r. r\<lparr>rb_title := title, rb_description := Some description, rb_status := ''draft'',
                    rb_current_version := Some rvid\<rparr>) d1) (\<lambda>d2.
         refuse_if (fails env ''runbook.commit'' 0) (err 500 ''failed to commit update'')
           (Inr (reply 200 [(''status'', JStr ''draft''), (''version'', JInt (m_version md))],
              write_audit_event env ''runbook.audit'' (a_org a) (a_user_id a) ''runbook.updated'' ''runbook'' rbid ''success''
                (jmap [(''version'', JInt (m_version md))]) d2))))))"

definition handle_update_runbook :: "env \<Rightarrow> actor \<Rightarrow> string \<Rightarrow> runbook_req option \<Rightarrow> db \<Rightarrow> resp \<times> db" where
  "handle_update_runbook env a name body d =
     (if \<not> is_senior a then write_denial env ''runbook.denied'' a ''runbook.updated'' ''runbook'' name
          (deny ''runbook_requires_senior'' ''Updating runbooks requires senior engineer or above.'') d
      else case body of
          None \<Rightarrow> (err 400 ''invalid request body'', d)
        | Some q \<Rightarrow>
            (case first_row (fails env ''runbook.select'' 0)
                    (\<lambda>r. names_runbook (a_org a) name r \<and> rb_status r \<noteq> ''archived'') (runbook_rows d) of
               None \<Rightarrow> (err 404 ''runbook not found'', d)
             | Some r \<Rightarrow>
                 let version = (case current_version d r of None \<Rightarrow> 0 | Some v \<Rightarrow> rv_version v) + 1
                 in if nq_yaml q = [] \<and> trim_space (nq_command q) = []
                    then (err 400 ''command or yaml is required'', d)
                    else case update_definition env q (rb_name r) version of
                        Inl e \<Rightarrow> (e, d)
                      | Inr rb \<Rightarrow>
                          if nq_roles q \<noteq> NoRoles \<and> \<not> valid_allowed_roles (nq_roles q)
                          then (err 400 ''allowed_roles must be a JSON array of known roles'', d)
                          else run_tx d (update_runbook_tx env a q (rb_id r) rb d)))"

section \<open>Publishing and archiving\<close>

text \<open>Two statements without a transaction: when the second fails the first stays.\<close>

definition handle_publish_runbook :: "env \<Rightarrow> actor \<Rightarrow> string \<Rightarrow> db \<Rightarrow> resp \<times> db" where
  "handle_publish_runbook env a name d =
     (if \<not> is_senior a then write_denial env ''publish.denied'' a ''runbook.published'' ''runbook'' []
          (deny ''publish_requires_senior'' ''Publishing runbooks requires senior engineer or above.'') d
      else case first_row (fails env ''publish.select'' 0)
                  (\<lambda>r. names_runbook (a_org a) name r \<and> current_version d r \<noteq> None) (runbook_rows d) of
          None \<Rightarrow> (err 404 ''runbook not found'', d)
        | Some r \<Rightarrow>
            (case current_version d r of
               None \<Rightarrow> (err 404 ''runbook not found'', d)
             | Some v \<Rightarrow>
                 (case update_runbooks env ''publish.runbook'' (\<lambda>x. rb_id x = rb_id r) (\<lambda>x. x\<lparr>rb_status := ''published''\<rparr>) d of
                    None \<Rightarrow> (err 500 ''failed to publish runbook'', d)
                  | Some d1 \<Rightarrow>
                      if fails env ''publish.version'' 0 then (err 500 ''failed to publish runbook version'', d1)
                      else (reply 200 [(''status'', JStr ''published'')],
                        write_audit_event env ''publish.audit'' (a_org a) (a_user_id a) ''runbook.published'' ''runbook''
                          (rb_id r) ''success'' JNull
                          (d1\<lparr>runbook_versions := update_where (\<lambda>x. rv_id x = rv_id v)
                             (\<lambda>x. x\<lparr>rv_status := ''published'', rv_published_by := Some (a_user_id a),
                                    rv_published_at := Some (sql_now env)\<rparr>) (runbook_versions d1)\<rparr>)))))"

definition handle_archive_runbook :: "env \<Rightarrow> actor \<Rightarrow> string \<Rightarrow> db \<Rightarrow> resp \<times> db" where
  "handle_archive_runbook env a name d =
     (let P = (\<lambda>r. names_runbook (a_org a) name r \<and> rb_status r \<noteq> ''archived'')
      in if \<not> is_senior a then write_denial env ''archive.denied'' a ''runbook.archived'' ''runbook'' name
             (deny ''runbook_requires_senior'' ''Archiving runbooks requires senior engineer or above.'') d
         else case update_runbooks env ''archive.update'' P (\<lambda>r. r\<lparr>rb_status := ''archived''\<rparr>) d of
             None \<Rightarrow> (err 500 ''failed to archive runbook'', d)
           | Some d1 \<Rightarrow>
               if count_where P (runbook_rows d) = 0 then (err 404 ''runbook not found'', d)
               else (reply 200 [(''status'', JStr ''archived'')],
                 write_audit_event env ''archive.audit'' (a_org a) (a_user_id a) ''runbook.archived'' ''runbook'' name
                   ''success'' JNull d1))"

section \<open>Reading runbooks\<close>

text \<open>\<open>json.Marshal\<close> of the definition.\<close>

definition strings_json :: "string list \<Rightarrow> json" where
  "strings_json ss = null_list (map JStr ss)"

definition parameter_json :: "parameter \<Rightarrow> json" where
  "parameter_json p = JObj
     [(''name'', JStr (p_name p)), (''type'', JStr (p_type p)), (''default'', JStr (p_default p)),
      (''allowedValues'', strings_json (p_allowed_values p)), (''required'', JBool (p_required p)),
      (''description'', JStr (p_description p))]"

definition targets_json :: "target_rules \<Rightarrow> json" where
  "targets_json t = JObj
     [(''allowedTags'', if t_allowed_tags t = [] then JNull else jmap (map (\<lambda>(k, v). (k, JStr v)) (t_allowed_tags t))),
      (''allowedEnvironments'', strings_json (t_allowed_environments t)),
      (''allowedServers'', strings_json (t_allowed_servers t))]"

definition approval_rule_json :: "approval_rule \<Rightarrow> json" where
  "approval_rule_json r = JObj
     [(''required'', JBool (ar_required r)), (''environment'', JStr (ar_environment r)),
      (''requiredRole'', JStr (ar_required_role r))]"

definition omit_null :: "string \<Rightarrow> json \<Rightarrow> (string \<times> json) list" where
  "omit_null k v = (if v = JNull then [] else [(k, v)])"

definition spec_json :: "spec \<Rightarrow> json" where
  "spec_json s = JObj
     ([(''parameters'', null_list (map parameter_json (s_parameters s))), (''targets'', targets_json (s_targets s)),
       (''approval'', approval_rule_json (s_approval s)),
       (''execution'', JObj [(''shell'', JStr (x_shell (s_execution s))), (''sudo'', JBool (x_sudo (s_execution s))),
          (''timeoutSeconds'', JInt (x_timeout_seconds (s_execution s))),
          (''concurrency'', JInt (x_concurrency (s_execution s))), (''command'', JStr (x_command (s_execution s)))]),
       (''output'', JObj [(''store'', JStr (o_store (s_output s))), (''redact'', strings_json (o_redact (s_output s)))])]
      @ omit_null ''rollback'' (s_rollback s) @ omit_null ''verification'' (s_verification s))"

definition runbook_json :: "runbook \<Rightarrow> json" where
  "runbook_json rb = JObj
     [(''apiVersion'', JStr (r_api_version rb)), (''kind'', JStr (r_kind rb)),
      (''metadata'', JObj [(''name'', JStr (m_name (r_metadata rb))), (''title'', JStr (m_title (r_metadata rb))),
         (''description'', JStr (m_description (r_metadata rb))), (''risk'', JStr (m_risk (r_metadata rb))),
         (''tags'', strings_json (m_tags (r_metadata rb))), (''version'', JInt (m_version (r_metadata rb)))]),
      (''spec'', spec_json (r_spec rb))]"

definition roles_text :: "string list option \<Rightarrow> string" where
  "roles_text rs = (case rs of None \<Rightarrow> [] | Some rs \<Rightarrow> json_text (JArr (map JStr rs)))"

text \<open>The columns of the joined version, with the defaults of the query.\<close>

definition joined_risk :: "version_row option \<Rightarrow> string" where
  "joined_risk v = (case v of None \<Rightarrow> ''medium'' | Some v \<Rightarrow> rv_risk v)"

definition joined_command :: "version_row option \<Rightarrow> string" where
  "joined_command v = (case v of None \<Rightarrow> [] | Some v \<Rightarrow> or_empty (rv_command_preview v))"

definition joined_roles :: "version_row option \<Rightarrow> string list option" where
  "joined_roles v = (case v of None \<Rightarrow> Some default_roles | Some v \<Rightarrow> rv_allowed_roles v)"

text \<open>A NULL description ends the scan of a row: the fields after it keep their zero values.\<close>

definition runbook_list_entry :: "env \<Rightarrow> db \<Rightarrow> actor \<Rightarrow> runbook_row \<Rightarrow> json" where
  "runbook_list_entry env d a r =
     (let v = current_version d r; ok = (rb_description r \<noteq> None); text = (\<lambda>s. JStr (if ok then s else []));
          roles = (if ok then joined_roles v else None)
      in JObj
        [(''id'', JStr (rb_id r)), (''name'', JStr (rb_name r)), (''title'', JStr (rb_title r)),
         (''description'', JStr (or_empty (rb_description r))), (''status'', text (rb_status r)),
         (''risk_level'', text (joined_risk v)), (''command_preview'', text (joined_command v)),
         (''created_at'', text (time_text env (rb_created_at r))),
         (''permitted'', JBool (role_allowed_in_list (a_role a) roles)), (''allowed_roles'', JStr (roles_text roles))])"

definition handle_list_runbooks :: "env \<Rightarrow> db \<Rightarrow> actor \<Rightarrow> string \<Rightarrow> resp" where
  "handle_list_runbooks env d a search =
     (let like = ''%'' @ search @ ''%'';
          rows = filter (\<lambda>r. rb_org r = a_org a \<and> rb_status r \<noteq> ''archived''
              \<and> (search = [] \<or> sql_like like (rb_name r) \<or> sql_like like (rb_title r)
                 \<or> sql_like like (or_empty (rb_description r)))) (runbook_rows d)
      in if fails env ''runbooks.list'' 0 then err 500 ''query failed''
         else reply 200 [(''runbooks'', null_list (map (runbook_list_entry env d a)
                (order_by (\<lambda>x y. str_le (rb_name x) (rb_name y)) rows)))])"

definition handle_get_runbook :: "env \<Rightarrow> db \<Rightarrow> actor \<Rightarrow> string \<Rightarrow> resp" where
  "handle_get_runbook env d a name =
     (case first_row (fails env ''runbook.get'' 0) (names_runbook (a_org a) name) (runbook_rows d) of
        None \<Rightarrow> err 404 ''runbook not found''
      | Some r \<Rightarrow>
          let v = current_version d r
          in reply 200 [(''runbook'', JObj
            [(''id'', JStr (rb_id r)), (''name'', JStr (rb_name r)), (''title'', JStr (rb_title r)),
             (''description'', JStr (or_empty (rb_description r))), (''status'', JStr (rb_status r)),
             (''version'', JInt (case v of None \<Rightarrow> 1 | Some v \<Rightarrow> rv_version v)), (''risk_level'', JStr (joined_risk v)),
             (''command'', JStr (joined_command v)),
             (''definition_json'', JStr (case v of None \<Rightarrow> ''{}'' | Some v \<Rightarrow>
                (case rv_definition v of None \<Rightarrow> [] | Some rb \<Rightarrow> json_text (runbook_json rb)))),
             (''allowed_roles'', JStr (roles_text (joined_roles v))),
             (''created_at'', JStr (time_text env (rb_created_at r)))])])"

section \<open>Running a runbook\<close>

record run_req =
  rq_target :: string
  rq_reason :: string
  rq_params :: "(string \<times> string) list option"
  rq_dry_run :: bool

definition params_json :: "(string \<times> string) list option \<Rightarrow> json" where
  "params_json ps = (case ps of None \<Rightarrow> JNull | Some ps \<Rightarrow> jmap (map (\<lambda>(k, v). (k, JStr v)) ps))"

definition run_payload :: "string \<Rightarrow> run_req \<Rightarrow> json" where
  "run_payload name q = JObj
     [(''runbook'', JStr name), (''target'', JStr (rq_target q)), (''reason'', JStr (rq_reason q)),
      (''params'', params_json (rq_params q))]"

definition replay_runbook_idempotency ::
  "env \<Rightarrow> string \<Rightarrow> string \<Rightarrow> string \<Rightarrow> string \<Rightarrow> string \<Rightarrow> db \<Rightarrow> resp option option" where
  "replay_runbook_idempotency env at org user_id key payload_hash d =
     (if fails env at 0 then None
      else case filter (\<lambda>x. ri_org x = org \<and> ri_user x = user_id \<and> ri_key x = key) (runbook_idems d) of
          [] \<Rightarrow> Some None
        | x # _ \<Rightarrow>
            Some (Some (if ri_hash x \<noteq> payload_hash
              then err 409 ''idempotency key was already used with a different request payload''
              else Resp (ri_status x) [(''Idempotency-Replayed'', ''true'')] (RawBody (ri_body x)))))"

definition insert_runbook_idem ::
  "env \<Rightarrow> actor \<Rightarrow> string \<Rightarrow> string \<Rightarrow> string \<Rightarrow> string \<Rightarrow> nat \<Rightarrow> string \<Rightarrow> db \<Rightarrow> db option" where
  "insert_runbook_idem env a key payload_hash kind resource_id status response_body d =
     (if key = [] then Some d
      else if fails env ''run.key'' 0 \<or> (\<exists>x \<in> set (runbook_idems d). ri_org x = a_org a \<and> ri_key x = key) then None
      else Some (d\<lparr>runbook_idems := runbook_idems d @
        [\<lparr>ri_org = a_org a, ri_user = a_user_id a, ri_key = key, ri_hash = payload_hash, ri_resource_type = kind,
          ri_resource_id = resource_id, ri_status = status, ri_body = response_body\<rparr>]\<rparr>))"

definition run_key_conflict :: "env \<Rightarrow> actor \<Rightarrow> string \<Rightarrow> string \<Rightarrow> db \<Rightarrow> resp" where
  "run_key_conflict env a key payload_hash d =
     (case replay_runbook_idempotency env ''run.replay2'' (a_org a) (a_user_id a) key payload_hash d of
        Some (Some r) \<Rightarrow> r
      | _ \<Rightarrow> err 409 ''idempotency key is already in use'')"

text \<open>Which targets a definition admits: listed by id, name or star, with every required tag.\<close>

fun server_listed :: "string list \<Rightarrow> server \<Rightarrow> bool" where
  "server_listed [] s = False"
| "server_listed (c # cs) s = (c = sv_id s \<or> c = sv_name s \<or> c = ''*'' \<or> server_listed cs s)"

fun tags_present :: "env \<Rightarrow> string \<Rightarrow> string \<Rightarrow> (string \<times> string) list \<Rightarrow> db \<Rightarrow> bool" where
  "tags_present env org server_id [] d = True"
| "tags_present env org server_id ((k, v) # ts) d =
     (if fails env (''allowed.tag:'' @ server_id) (length ts)
        \<or> count_where (\<lambda>t. tg_org t = org \<and> tg_server t = server_id \<and> tg_key t = k \<and> tg_value t = v) (server_tags d) = 0
      then False else tags_present env org server_id ts d)"

fun runbook_targets_allowed :: "env \<Rightarrow> string \<Rightarrow> target_rules \<Rightarrow> nat \<Rightarrow> string list \<Rightarrow> db \<Rightarrow> bool" where
  "runbook_targets_allowed env org rules i [] d = True"
| "runbook_targets_allowed env org rules i (x # xs) d =
     (case (if fails env ''allowed.server'' i then None else find_server org x d) of
        None \<Rightarrow> False
      | Some s \<Rightarrow>
          if t_allowed_servers rules \<noteq> [] \<and> \<not> server_listed (t_allowed_servers rules) s then False
          else if \<not> tags_present env org x (t_allowed_tags rules) d then False
          else runbook_targets_allowed env org rules (i + 1) xs d)"

definition approval_expiry_seconds :: "env \<Rightarrow> int" where
  "approval_expiry_seconds env = (if approval_expiry env > 0 then approval_expiry env else 3600)"

definition timeout_or_default :: "int \<Rightarrow> int" where
  "timeout_or_default t = (if t > 0 then t else 300)"

text \<open>What the checks of a run have established: the runbook, its version and definition, the rendered command.\<close>

record run_plan =
  rp_runbook_id :: string
  rp_name :: string
  rp_risk :: string
  rp_spec :: spec
  rp_command :: string
  rp_targets :: "string list"
  rp_environment :: string
  rp_snapshots :: "json list"

definition approval_payload_of :: "run_plan \<Rightarrow> run_req \<Rightarrow> approval_payload" where
  "approval_payload_of p q =
     \<lparr>pl_runbook_id = rp_runbook_id p, pl_runbook_name = rp_name p, pl_target = rq_target q,
      pl_command = rp_command p, pl_risk = rp_risk p, pl_reason = rq_reason q, pl_params = rq_params q,
      pl_target_ids = rp_targets p, pl_snapshot = rp_snapshots p, pl_environment = rp_environment p,
      pl_rollback = s_rollback (rp_spec p), pl_verification = s_verification (rp_spec p),
      pl_timeout = timeout_or_default (x_timeout_seconds (s_execution (rp_spec p)))\<rparr>"

definition new_approval :: "env \<Rightarrow> actor \<Rightarrow> string \<Rightarrow> run_plan \<Rightarrow> run_req \<Rightarrow> approval" where
  "new_approval env a approval_id p q =
     \<lparr>ap_id = approval_id, ap_org = a_org a, ap_requester = a_user_id a, ap_approver = None,
      ap_action = ''runbook'', ap_status = ''pending'', ap_risk = rp_risk p, ap_reason = rq_reason q,
      ap_target_type = ''server'', ap_target_id = Some (rq_target q), ap_snapshot = rp_snapshots p,
      ap_payload = Some (approval_payload_of p q),
      ap_expires_at = go_now env + approval_expiry_seconds env, ap_created_at = sql_now env,
      ap_decided_at = None, ap_note = None\<rparr>"

definition insert_approval :: "env \<Rightarrow> approval \<Rightarrow> db \<Rightarrow> db option" where
  "insert_approval env ap d =
     (if fails env ''approval.insert'' 0 \<or> ap_id ap \<in> ap_id ` set (approvals d) then None
      else Some (d\<lparr>approvals := approvals d @ [ap]\<rparr>))"

definition approval_response_body :: "string \<Rightarrow> string" where
  "approval_response_body approval_id = json_text (jmap
     [(''status'', JStr ''awaiting_approval''), (''approval_id'', JStr approval_id),
      (''message'', JStr (''This runbook requires approval. Use '' @ [CHR 0x27] @ ''vps approvals approve '' @ approval_id
         @ [CHR 0x27] @ '' to proceed.''))])"

definition request_approval_tx ::
  "env \<Rightarrow> actor \<Rightarrow> string \<Rightarrow> string \<Rightarrow> run_plan \<Rightarrow> run_req \<Rightarrow> db \<Rightarrow> resp + resp \<times> db" where
  "request_approval_tx env a key payload_hash p q d =
     (let approval_id = fresh_id env ''apr_'' ''approval.id'' 0; response_body = approval_response_body approval_id
      in refuse_if (fails env ''approval.begin'' 0) (err 500 ''failed to start approval transaction'') (
         attempt (err 500 ''failed to create approval request'')
           (insert_approval env (new_approval env a approval_id p q) d) (\<lambda>d1.
         attempt (err 500 ''failed to record approval audit event'')
           (write_audit_event_tx env ''approval.audit'' (a_org a) (a_user_id a) ''approval.requested'' ''approval''
              approval_id ''pending''
              (jmap [(''runbook_id'', JStr (rp_runbook_id p)), (''target_count'', JInt (int (length (rp_targets p))))]) d1) (\<lambda>d2.
         attempt (run_key_conflict env a key payload_hash d)
           (insert_runbook_idem env a key payload_hash ''approval'' approval_id 202 response_body d2) (\<lambda>d3.
         refuse_if (fails env ''approval.commit'' 0) (err 500 ''failed to commit approval request'')
           (Inr (write_raw_json 202 response_body, d3)))))))"

definition runbook_execution_row :: "env \<Rightarrow> actor \<Rightarrow> string \<Rightarrow> run_plan \<Rightarrow> run_req \<Rightarrow> execution" where
  "runbook_execution_row env a exec_id p q =
     \<lparr>ex_id = exec_id, ex_org = a_org a, ex_actor = a_user_id a, ex_actor_role = a_role a,
      ex_delegated_by = None, ex_approval_id = None, ex_type = ''runbook'', ex_status = EQueued,
      ex_risk = rp_risk p, ex_environment = rp_environment p, ex_reason = rq_reason q,
      ex_command = rp_command p, ex_command_preview = redact_text env (rp_command p),
      ex_command_hash = hash_cmd env (rp_command p),
      ex_timeout = timeout_or_default (x_timeout_seconds (s_execution (rp_spec p))),
      ex_requested_at = sql_now env, ex_started_at = None, ex_finished_at = None, ex_error = None,
      ex_metadata = JObj []\<rparr>"

definition run_response_body :: "string \<Rightarrow> nat \<Rightarrow> string" where
  "run_response_body exec_id n = json_text (jmap
     [(''execution_id'', JStr exec_id), (''status'', JStr ''queued''), (''target_count'', JInt (int n))])"

definition run_execution_tx ::
  "env \<Rightarrow> actor \<Rightarrow> string \<Rightarrow> string \<Rightarrow> run_plan \<Rightarrow> run_req \<Rightarrow> db \<Rightarrow> resp + resp \<times> db" where
  "run_execution_tx env a key payload_hash p q d =
     (let exec_id = fresh_id env ''exe_'' ''run.exec'' 0;
          response_body = run_response_body exec_id (length (rp_targets p))
      in refuse_if (fails env ''run.begin'' 0) (err 500 ''failed to start execution transaction'') (
         attempt (err 500 ''failed to create execution'')
           (insert_execution env ''run.insert'' (runbook_execution_row env a exec_id p q) d) (\<lambda>d1.
         attempt (err 500 ''failed to create execution target'')
           (insert_targets env ''run.target'' (a_org a) exec_id 0 (rp_targets p) (rp_snapshots p) d1) (\<lambda>d2.
         attempt (err 500 ''failed to record execution timeline'')
           (record_execution_event env ''run.event'' 0 (a_org a) exec_id [] [] ''queued'' ''runbook.queued''
              [(''runbook_id'', JStr (rp_runbook_id p))] d2) (\<lambda>d3.
         attempt (err 500 ''failed to record execution audit event'')
           (write_audit_event_tx env ''run.audit'' (a_org a) (a_user_id a) ''runbook.executed'' ''runbook'' (rp_runbook_id p)
              ''queued'' (jmap [(''execution_id'', JStr exec_id), (''command'', JStr (redact_text env (rp_command p)))]) d3) (\<lambda>d4.
         attempt (run_key_conflict env a key payload_hash d)
           (insert_runbook_idem env a key payload_hash ''execution'' exec_id 201 response_body d4) (\<lambda>d5.
         refuse_if (fails env ''run.commit'' 0) (err 500 ''failed to commit execution'')
           (Inr (write_raw_json 201 response_body, d5)))))))))"

definition approval_needed :: "actor \<Rightarrow> string \<Rightarrow> string \<Rightarrow> runbook \<Rightarrow> bool" where
  "approval_needed a environment risk rb \<longleftrightarrow>
     needs_approval rb environment \<or> environment = ''production'' \<and> (risk = ''high'' \<or> risk = ''critical'')
     \<or> risk = ''high'' \<and> \<not> is_senior a"

definition preflight_response :: "env \<Rightarrow> run_plan \<Rightarrow> bool \<Rightarrow> resp" where
  "preflight_response env p needed = reply 200
     [(''status'', JStr ''preflight''), (''approval_required'', JBool needed), (''environment'', JStr (rp_environment p)),
      (''risk_level'', JStr (rp_risk p)), (''target_count'', JInt (int (length (rp_targets p)))),
      (''target_snapshot'', JArr (rp_snapshots p)), (''command_preview'', JStr (redact_text env (rp_command p)))]"

definition param_error_text :: "param_error \<Rightarrow> string" where
  "param_error_text e =
     (case e of
        UnknownParameter n \<Rightarrow> ''unknown parameter '' @ go_quote n
      | BadParameter n v \<Rightarrow> ''parameter '' @ go_quote n @ '': '' @ value_error_text v
      | RequiredMissing n \<Rightarrow> ''required parameter '' @ go_quote n @ '' is missing''
      | CommandParameterMissing n \<Rightarrow> ''command parameter '' @ go_quote n @ '' is missing'')"

text \<open>The checks of a run, from the stored definition to the plan; the answer of a refusal is final.\<close>

definition plan_run ::
  "env \<Rightarrow> actor \<Rightarrow> string \<Rightarrow> run_req \<Rightarrow> runbook_row \<Rightarrow> version_row \<Rightarrow> db \<Rightarrow> resp \<times> db + run_plan \<times> runbook" where
  "plan_run env a name q r v d =
     (refuse_if (\<not> role_allowed_in_list (a_role a) (rv_allowed_roles v))
        (write_denial env ''run.denied'' a ''runbook.executed'' ''runbook'' (rb_id r) (deny ''runbook_not_permitted''
           (''This runbook is not permitted for your role. Use '' @ [CHR 0x27] @ ''vps runbook list'' @ [CHR 0x27]
            @ '' to see permitted runbooks.'')) d) (
      attempt (err 500 ''invalid stored runbook definition'', d) (rv_definition v) (\<lambda>rb.
      let ids = resolve_targets env (a_org a) (rq_target q) d
      in refuse_if (ids = []) (err 400 (''no servers found for target: '' @ rq_target q), d) (
         let environment = fst (target_environment env (a_org a) ids d); mixed = snd (target_environment env (a_org a) ids d)
         in refuse_if mixed (err 400 ''targets span multiple environments; submit one environment at a time'', d) (
           refuse_if (\<not> environment_allowed rb environment
                \<or> \<not> runbook_targets_allowed env (a_org a) (s_targets (r_spec rb)) 0 ids d)
             (write_denial env ''run.denied'' a ''runbook.executed'' ''runbook'' (rb_id r)
                (deny ''runbook_target_not_permitted'' ''This runbook is not permitted for the selected target.'') d) (
           attempt_sum (\<lambda>e. (err 400 (param_error_text e), d)) (render_command rb (case_option [] id (rq_params q))) (\<lambda>command.
               let snapshots = snapshot_targets env (a_org a) ids d
               in refuse_if (command = []) (err 400 ''runbook rendered an empty command'', d) (
                  refuse_if (length snapshots \<noteq> length ids) (err 500 ''failed to snapshot selected targets'', d)
                    (Inr (\<lparr>rp_runbook_id = rb_id r, rp_name = name, rp_risk = rv_risk v, rp_spec = r_spec rb,
                           rp_command = command, rp_targets = ids, rp_environment = environment,
                           rp_snapshots = snapshots\<rparr>, rb))))))))))"

definition execute_plan ::
  "env \<Rightarrow> actor \<Rightarrow> string \<Rightarrow> string \<Rightarrow> run_plan \<Rightarrow> runbook \<Rightarrow> run_req \<Rightarrow> db \<Rightarrow> resp \<times> db" where
  "execute_plan env a key payload_hash p rb q d =
     (let needed = approval_needed a (rp_environment p) (rp_risk p) rb
      in if rq_dry_run q then (preflight_response env p needed, d)
         else if needed then
           (if trim_space (rq_reason q) = [] then (err 400 ''an approval reason is required'', d)
            else run_tx d (request_approval_tx env a key payload_hash p q d))
         else
           let dec = check_runbook_execution a (rp_environment p) (rp_risk p) (rq_reason q)
           in if \<not> d_allowed dec
              then write_denial env ''run.policy'' a ''runbook.executed'' ''runbook'' (rp_runbook_id p) dec d
              else run_tx d (run_execution_tx env a key payload_hash p q d))"

definition run_runbook :: "env \<Rightarrow> actor \<Rightarrow> string \<Rightarrow> string \<Rightarrow> run_req \<Rightarrow> db \<Rightarrow> resp \<times> db" where
  "run_runbook env a name key q d =
     (case first_row (fails env ''run.select'' 0)
             (\<lambda>r. names_runbook (a_org a) name r \<and> rb_status r = ''published'' \<and> current_version d r \<noteq> None)
             (runbook_rows d) of
        None \<Rightarrow> (err 404 ''runbook not found or not published'', d)
      | Some r \<Rightarrow>
          (case current_version d r of
             None \<Rightarrow> (err 404 ''runbook not found or not published'', d)
           | Some v \<Rightarrow>
               if rb_id r = [] \<or> rv_command_preview v = None then (err 404 ''runbook not found or not published'', d)
               else case plan_run env a name q r v d of
                   Inl rd \<Rightarrow> rd
                 | Inr (p, rb) \<Rightarrow> execute_plan env a key (hash_payload env (run_payload name q)) p rb q d))"

text \<open>An undecodable body is ignored: the request then has its zero values.\<close>

definition handle_run_runbook :: "env \<Rightarrow> actor \<Rightarrow> string \<Rightarrow> string \<Rightarrow> run_req \<Rightarrow> db \<Rightarrow> resp \<times> db" where
  "handle_run_runbook env a name key_header q d =
     (let key = trim_space key_header
      in if key \<noteq> [] \<and> \<not> valid_idempotency_key key then (err 400 idempotency_key_message, d)
         else if rq_dry_run q \<and> key \<noteq> []
           then (err 400 ''Idempotency-Key is only supported for submitted runbook executions'', d)
         else if key = [] then run_runbook env a name key q d
         else case replay_runbook_idempotency env ''run.replay'' (a_org a) (a_user_id a) key
                (hash_payload env (run_payload name q)) d of
             None \<Rightarrow> (err 500 ''failed to inspect idempotency key'', d)
           | Some (Some r) \<Rightarrow> (r, d)
           | Some None \<Rightarrow> run_runbook env a name key q d)"

end
