(* ===== verification/Approvals.thy ===== *)
theory Approvals
  imports RunbookApi
begin

text \<open>
  The approval half of \<open>apps/api/runbooks.go\<close>: listing, reading, approving and denying the requests that
  \<open>handle_run_runbook\<close> files.  Approving consumes a pending, unexpired request and queues its execution
  in one transaction.  The column \<open>expires_at\<close> is never empty, so the handlers' test for an empty one is
  left out.
\<close>

section \<open>Reading approvals\<close>

text \<open>\<open>approval_requests LEFT JOIN users\<close>.\<close>

definition requester_name :: "db \<Rightarrow> approval \<Rightarrow> string" where
  "requester_name d ap =
     (case List.find (\<lambda>u. us_id u = ap_requester ap) (users d) of
        None \<Rightarrow> ap_requester ap | Some u \<Rightarrow> us_display_name u)"

definition snapshot_text :: "approval \<Rightarrow> string" where
  "snapshot_text ap = json_text (JArr (ap_snapshot ap))"

definition approval_list_entry :: "env \<Rightarrow> db \<Rightarrow> approval \<Rightarrow> json" where
  "approval_list_entry env d ap = JObj
     [(''id'', JStr (ap_id ap)), (''requester_name'', JStr (requester_name d ap)), (''action_type'', JStr (ap_action ap)),
      (''status'', JStr (ap_status ap)), (''risk_level'', JStr (ap_risk ap)), (''reason'', JStr (ap_reason ap)),
      (''target_type'', JStr (ap_target_type ap)), (''target_id'', JStr (or_empty (ap_target_id ap))),
      (''expires_at'', JStr (time_text env (ap_expires_at ap))), (''created_at'', JStr (time_text env (ap_created_at ap))),
      (''target_snapshot'', JStr (snapshot_text ap)), (''decision_note'', JStr (or_empty (ap_note ap)))]"

definition handle_list_approvals :: "env \<Rightarrow> db \<Rightarrow> actor \<Rightarrow> string \<Rightarrow> resp" where
  "handle_list_approvals env d a status =
     (let wanted = (if status \<noteq> [] then status else ''pending'');
          rows = filter (\<lambda>ap. ap_org ap = a_org a \<and> ap_status ap = wanted) (approvals d)
      in if fails env ''approvals.list'' 0 then err 500 ''query failed''
         else reply 200 [(''approvals'', JArr (map (approval_list_entry env d)
                (take 50 (order_by (\<lambda>x y. ap_created_at y \<le> ap_created_at x) rows))))])"

text \<open>The payload with the command and the parameter values redacted.\<close>

definition redacted_approval_payload :: "env \<Rightarrow> approval_payload option \<Rightarrow> json" where
  "redacted_approval_payload env p =
     (case p of
        None \<Rightarrow> jmap [(''available'', JBool False)]
      | Some p \<Rightarrow> jmap
          [(''runbook_id'', JStr (pl_runbook_id p)), (''runbook_name'', JStr (pl_runbook_name p)),
           (''target'', JStr (pl_target p)), (''command_preview'', JStr (redact_text env (pl_command p))),
           (''risk'', JStr (pl_risk p)), (''reason'', JStr (pl_reason p)),
           (''params'', params_json (map_option (map (\<lambda>(k, v). (k, redact_text env v))) (pl_params p))),
           (''target_ids'', JArr (map JStr (pl_target_ids p))), (''target_snapshot'', JArr (pl_snapshot p)),
           (''environment'', JStr (pl_environment p)), (''target_count'', JInt (int (length (pl_target_ids p)))),
           (''rollback'', pl_rollback p), (''verification'', pl_verification p), (''timeout'', JInt (pl_timeout p))])"

definition handle_get_approval :: "env \<Rightarrow> db \<Rightarrow> actor \<Rightarrow> string \<Rightarrow> resp" where
  "handle_get_approval env d a approval_id =
     (case first_row (fails env ''approval.get'' 0) (\<lambda>ap. ap_id ap = approval_id \<and> ap_org ap = a_org a) (approvals d) of
        None \<Rightarrow> err 404 ''approval not found''
      | Some ap \<Rightarrow> reply 200 [(''approval'', jmap
          [(''id'', JStr (ap_id ap)), (''requester_id'', JStr (ap_requester ap)), (''requester_name'', JStr (requester_name d ap)),
           (''action_type'', JStr (ap_action ap)), (''status'', JStr (ap_status ap)), (''risk_level'', JStr (ap_risk ap)),
           (''reason'', JStr (ap_reason ap)), (''target_type'', JStr (ap_target_type ap)),
           (''target_id'', JStr (or_empty (ap_target_id ap))), (''target_snapshot'', JStr (snapshot_text ap)),
           (''request_payload'', redacted_approval_payload env (ap_payload ap)),
           (''expires_at'', JStr (time_text env (ap_expires_at ap))), (''created_at'', JStr (time_text env (ap_created_at ap))),
           (''decided_at'', JStr (opt_time env (ap_decided_at ap))), (''decision_note'', JStr (or_empty (ap_note ap)))])])"

section \<open>Approving\<close>

definition open_request :: "env \<Rightarrow> string \<Rightarrow> string \<Rightarrow> approval \<Rightarrow> bool" where
  "open_request env org approval_id ap \<longleftrightarrow>
     ap_id ap = approval_id \<and> ap_org ap = org \<and> ap_status ap = ''pending'' \<and> sql_now env < ap_expires_at ap"

definition decide_row :: "env \<Rightarrow> string \<Rightarrow> string \<Rightarrow> string \<Rightarrow> approval \<Rightarrow> approval" where
  "decide_row env status approver note ap =
     ap\<lparr>ap_status := status, ap_approver := Some approver, ap_decided_at := Some (sql_now env),
        ap_note := sql_null_string note\<rparr>"

text \<open>The \<open>UPDATE\<close> of an open request; \<open>Some None\<close> when it affects no row.\<close>

definition decide_request ::
  "env \<Rightarrow> string \<Rightarrow> string \<Rightarrow> string \<Rightarrow> string \<Rightarrow> string \<Rightarrow> string \<Rightarrow> db \<Rightarrow> db option option" where
  "decide_request env at org approval_id status approver note d =
     (if fails env at 0 then None
      else if count_where (open_request env org approval_id) (approvals d) = 0 then Some None
      else Some (Some (d\<lparr>approvals := update_where (open_request env org approval_id)
                   (decide_row env status approver note) (approvals d)\<rparr>)))"

text \<open>Why no row was affected.\<close>

definition not_open_response :: "env \<Rightarrow> string \<Rightarrow> string \<Rightarrow> string \<Rightarrow> string \<Rightarrow> db \<Rightarrow> resp" where
  "not_open_response env at org approval_id message d =
     (case first_row (fails env at 0) (\<lambda>ap. ap_id ap = approval_id \<and> ap_org ap = org) (approvals d) of
        Some ap \<Rightarrow>
          if ap_status ap = ''pending'' \<and> ap_expires_at ap \<le> sql_now env
          then err 409 ''approval has expired'' else err 404 message
      | None \<Rightarrow> err 404 message)"

definition approved_execution_row ::
  "env \<Rightarrow> string \<Rightarrow> string \<Rightarrow> string \<Rightarrow> string \<Rightarrow> string \<Rightarrow> approval \<Rightarrow> approval_payload \<Rightarrow> execution" where
  "approved_execution_row env org exec_id requester role approver ap p =
     \<lparr>ex_id = exec_id, ex_org = org, ex_actor = requester, ex_actor_role = role,
      ex_delegated_by = Some approver, ex_approval_id = Some (ap_id ap), ex_type = ''runbook'',
      ex_status = EQueued, ex_risk = ap_risk ap,
      ex_environment = (if pl_environment p = [] then ''development'' else pl_environment p),
      ex_reason = ap_reason ap, ex_command = pl_command p, ex_command_preview = redact_text env (pl_command p),
      ex_command_hash = hash_cmd env (pl_command p), ex_timeout = timeout_or_default (pl_timeout p),
      ex_requested_at = sql_now env, ex_started_at = None, ex_finished_at = None, ex_error = None,
      ex_metadata = JObj []\<rparr>"

text \<open>Missing snapshots are stored as empty objects.\<close>

fun pad_snapshots :: "string list \<Rightarrow> json list \<Rightarrow> json list" where
  "pad_snapshots [] ss = []"
| "pad_snapshots (x # xs) [] = JObj [] # pad_snapshots xs []"
| "pad_snapshots (x # xs) (s # ss) = s # pad_snapshots xs ss"

text \<open>A target must name a server (foreign key).\<close>

definition servers_exist :: "string list \<Rightarrow> db \<Rightarrow> bool" where
  "servers_exist ids d \<longleftrightarrow> list_all (\<lambda>x. x \<in> sv_id ` set (servers d)) ids"

definition create_execution_from_approval_tx ::
  "env \<Rightarrow> string \<Rightarrow> string \<Rightarrow> string \<Rightarrow> string \<Rightarrow> approval \<Rightarrow> db \<Rightarrow> (string \<times> db) option" where
  "create_execution_from_approval_tx env org requester role approver ap d =
     (case ap_payload ap of
        None \<Rightarrow> None
      | Some p \<Rightarrow>
          if pl_command p = [] then None
          else
            let exec_id = fresh_id env ''exe_'' ''approve.exec'' 0
            in case insert_execution env ''approve.insert''
                 (approved_execution_row env org exec_id requester role approver ap p) d of
                 None \<Rightarrow> None
               | Some d1 \<Rightarrow>
              (case (if servers_exist (pl_target_ids p) d
                     then insert_targets env ''approve.target'' org exec_id 0 (pl_target_ids p)
                            (pad_snapshots (pl_target_ids p) (pl_snapshot p)) d1 else None) of
                 None \<Rightarrow> None
               | Some d2 \<Rightarrow>
              (case record_execution_event env ''approve.event'' 0 org exec_id [] [] ''queued'' ''runbook.queued''
                      [(''runbook_id'', JStr (pl_runbook_id p))] d2 of
                 None \<Rightarrow> None
               | Some d3 \<Rightarrow>
              (case write_audit_event_tx env ''approve.exec_audit'' org requester ''runbook.executed'' ''runbook''
                      (pl_runbook_id p) ''queued''
                      (jmap [(''execution_id'', JStr exec_id), (''command'', JStr (redact_text env (pl_command p))),
                         (''delegated_by'', JStr approver)]) d3 of
                 None \<Rightarrow> None
               | Some d4 \<Rightarrow> Some (exec_id, d4)))))"

definition approve_response :: "string \<Rightarrow> resp" where
  "approve_response exec_id = reply 200
     ((''status'', JStr ''approved'') #
      (if exec_id = [] then [] else
        [(''execution_id'', JStr exec_id), (''message'', JStr (''Execution '' @ exec_id @ '' has been queued.''))]))"

definition approve_tx ::
  "env \<Rightarrow> actor \<Rightarrow> string \<Rightarrow> string \<Rightarrow> approval \<Rightarrow> string \<Rightarrow> db \<Rightarrow> resp + resp \<times> db" where
  "approve_tx env a approval_id note ap role d =
     (refuse_if (fails env ''approve.begin'' 0) (err 500 ''failed to start approval transaction'') (
      attempt (err 500 ''failed to approve'')
        (decide_request env ''approve.update'' (a_org a) approval_id ''approved'' (a_user_id a) note d) (\<lambda>decided.
      attempt (not_open_response env ''approve.expired'' (a_org a) approval_id ''approval not found or already decided'' d)
        decided (\<lambda>d1.
      attempt (err 500 ''failed to create execution from approval'')
        (create_execution_from_approval_tx env (a_org a) (ap_requester ap) role (a_user_id a) ap d1) (\<lambda>(exec_id, d2).
      attempt (err 500 ''failed to record approval audit event'')
        (write_audit_event_tx env ''approve.audit'' (a_org a) (a_user_id a) ''approval.approved'' ''approval'' approval_id
           ''approved'' (jmap [(''execution_id'', JStr exec_id)]) d2) (\<lambda>d3.
      refuse_if (fails env ''approve.commit'' 0) (err 500 ''failed to commit approval'')
        (Inr (approve_response exec_id, d3))))))))"

text \<open>The request joined with the requester's active membership.\<close>

definition requester_role :: "db \<Rightarrow> approval \<Rightarrow> string option" where
  "requester_role d ap = map_option mb_role
     (List.find (\<lambda>m. mb_user m = ap_requester ap \<and> mb_org m = ap_org ap \<and> mb_status m = ''active'') (memberships d))"

definition handle_approve :: "env \<Rightarrow> actor \<Rightarrow> string \<Rightarrow> string \<Rightarrow> db \<Rightarrow> resp \<times> db" where
  "handle_approve env a approval_id note d =
     (if \<not> is_senior a then write_denial env ''approve.denied'' a ''approval.approved'' ''approval'' approval_id
          (deny ''approve_requires_senior'' ''Approving requires senior engineer or above.'') d
      else case first_row (fails env ''approve.select'' 0)
             (\<lambda>ap. ap_id ap = approval_id \<and> ap_org ap = a_org a \<and> requester_role d ap \<noteq> None) (approvals d) of
          None \<Rightarrow> (err 404 ''approval not found'', d)
        | Some ap \<Rightarrow>
            (case requester_role d ap of
               None \<Rightarrow> (err 404 ''approval not found'', d)
             | Some role \<Rightarrow>
                 if ap_requester ap = a_user_id a
                 then (err 403 ''requesters cannot approve their own requests'', d)
                 else run_tx d (approve_tx env a approval_id note ap role d)))"

section \<open>Denying\<close>

definition handle_deny :: "env \<Rightarrow> actor \<Rightarrow> string \<Rightarrow> string \<Rightarrow> db \<Rightarrow> resp \<times> db" where
  "handle_deny env a approval_id note d =
     (if \<not> is_senior a then write_denial env ''deny.denied'' a ''approval.denied'' ''approval'' approval_id
          (deny ''deny_requires_senior'' ''Denying requires senior engineer or above.'') d
      else if trim_space note = [] then (err 400 ''a denial note is required'', d)
      else case first_row (fails env ''deny.select'' 0)
             (\<lambda>ap. ap_id ap = approval_id \<and> ap_org ap = a_org a \<and> ap_status ap = ''pending'') (approvals d) of
          None \<Rightarrow> (err 404 ''approval not found or already decided'', d)
        | Some ap \<Rightarrow>
            (case decide_request env ''deny.update'' (a_org a) approval_id ''denied'' (a_user_id a) note d of
               None \<Rightarrow> (err 500 ''failed to deny'', d)
             | Some None \<Rightarrow> (not_open_response env ''deny.expired'' (a_org a) approval_id ''approval not found'' d, d)
             | Some (Some d1) \<Rightarrow>
                 (reply 200 [(''status'', JStr ''denied'')],
                  write_audit_event env ''deny.audit'' (a_org a) (a_user_id a) ''approval.denied'' ''approval'' approval_id
                    ''denied'' JNull d1)))"

end
