(* ===== verification/ApprovalProps.thy ===== *)
theory ApprovalProps
  imports Approvals ExecProps
begin

text \<open>
  Runbooks and approvals: a run is queued only through every gate, a run that needs approval only files
  a request, a request is decided once, by a senior other than its requester, and an approved
  request queues exactly what was requested.
\<close>

section \<open>A run that is queued\<close>

definition gated :: "env \<Rightarrow> actor \<Rightarrow> string \<Rightarrow> run_req \<Rightarrow> db \<Rightarrow> run_plan \<Rightarrow> runbook \<Rightarrow> bool" where
  "gated env a name q d p rb \<longleftrightarrow>
     (\<exists>r v. r \<in> set (runbook_rows d) \<and> names_runbook (a_org a) name r \<and> rb_status r = ''published''
        \<and> current_version d r = Some v \<and> rv_definition v = Some rb \<and> rp_risk p = rv_risk v
        \<and> rp_runbook_id p = rb_id r \<and> role_allowed_in_list (a_role a) (rv_allowed_roles v))
     \<and> rp_targets p = resolve_targets env (a_org a) (rq_target q) d \<and> rp_targets p \<noteq> []
     \<and> (\<forall>x \<in> set (rp_targets p). \<exists>s \<in> set (servers d). sv_id s = x \<and> sv_org s = a_org a
          \<and> sv_environment s = rp_environment p)
     \<and> environment_allowed rb (rp_environment p)
     \<and> runbook_targets_allowed env (a_org a) (s_targets (r_spec rb)) 0 (rp_targets p) d
     \<and> render_command rb (case_option [] id (rq_params q)) = Inr (rp_command p) \<and> rp_command p \<noteq> []
     \<and> length (rp_snapshots p) = length (rp_targets p) \<and> rp_spec p = r_spec rb"

lemma plan_run_refused:
  assumes "plan_run env a name q r v d = Inl (resp, d')"
  shows "audit_only d d' \<and> resp_code resp \<ge> 400"
  using assms
  by (auto simp: plan_run_def Let_def write_denial_def)

lemma plan_run_gated:
  assumes "plan_run env a name q r v d = Inr (p, rb)" "r \<in> set (runbook_rows d)" "names_runbook (a_org a) name r"
    "rb_status r = ''published''" "current_version d r = Some v"
  shows "gated env a name q d p rb"
proof -
  let ?ids = "resolve_targets env (a_org a) (rq_target q) d"
  obtain environment mixed where te: "target_environment env (a_org a) ?ids d = (environment, mixed)" by fastforce
  have nm: "\<not> mixed" using assms(1) te by (auto simp: plan_run_def Let_def)
  obtain command where c: "render_command rb (case_option [] id (rq_params q)) = Inr command" "command \<noteq> []"
    and facts: "role_allowed_in_list (a_role a) (rv_allowed_roles v)" "rv_definition v = Some rb" "?ids \<noteq> []"
      "environment_allowed rb environment"
      "runbook_targets_allowed env (a_org a) (s_targets (r_spec rb)) 0 ?ids d"
      "length (snapshot_targets env (a_org a) ?ids d) = length ?ids"
    and p: "p = \<lparr>rp_runbook_id = rb_id r, rp_name = name, rp_risk = rv_risk v, rp_spec = r_spec rb,
        rp_command = command, rp_targets = ?ids, rp_environment = environment,
        rp_snapshots = snapshot_targets env (a_org a) ?ids d\<rparr>"
    using assms(1) te by (auto simp: plan_run_def Let_def)
  have "\<forall>x \<in> set ?ids. \<exists>s \<in> set (servers d). sv_id s = x \<and> sv_org s = a_org a \<and> sv_environment s = environment"
    using target_environment_sound [of env "a_org a" ?ids d environment] te nm by auto
  with assms(2-5) c facts p show ?thesis by (auto simp: gated_def)
qed

text \<open>The rows a queued run adds; the same as for a raw command but for the execution row.\<close>

definition queued_rows :: "execution \<Rightarrow> string list \<Rightarrow> string \<Rightarrow> db \<Rightarrow> db \<Rightarrow> bool" where
  "queued_rows e ids org d d' \<longleftrightarrow>
     ex_id e \<notin> ex_id ` set (executions d) \<and> executions d' = executions d @ [e]
     \<and> (\<exists>ts. execution_targets d' = execution_targets d @ ts \<and> map et_server ts = ids
          \<and> (\<forall>t \<in> set ts. et_exec t = ex_id e \<and> et_status t = TPending \<and> target_ok t \<and> et_attempt t = 0 \<and> et_org t = org)
          \<and> (distinct (map et_id (execution_targets d)) \<longrightarrow> distinct (map et_id (execution_targets d'))))"

lemma queued_rows_inv:
  assumes "sys_ok d" "queued_rows e ids org d d'" "ids \<noteq> []" "ex_status e = EQueued"
  shows "sys_ok d'"
proof -
  obtain ts where ts: "execution_targets d' = execution_targets d @ ts" "map et_server ts = ids"
    "\<forall>t \<in> set ts. et_exec t = ex_id e \<and> et_status t = TPending \<and> target_ok t"
    "distinct (map et_id (execution_targets d)) \<longrightarrow> distinct (map et_id (execution_targets d'))"
    and E: "executions d' = executions d @ [e]" "ex_id e \<notin> ex_id ` set (executions d)"
    using assms(2) unfolding queued_rows_def by auto
  have "distinct (map et_id (execution_targets d))"
    using assms(1) by (simp add: sys_ok_def queue_ok_def queue_inv_def)
  then have ids: "distinct (map et_id (execution_targets d @ ts))" using ts(1,4) by metis
  have "ts \<noteq> []" using ts(2) assms(3) by auto
  then show ?thesis using add_execution_ok [OF assms(1) E(2,1) ts(1) ts(3) ids] assms(4) by blast
qed

lemma queue_chain:
  assumes d1: "insert_execution env at e d = Some d1"
    and d2: "insert_targets env at' org (ex_id e) 0 ids snaps d1 = Some d2" and len: "length snaps = length ids"
    and d3: "executions d3 = executions d2" "execution_targets d3 = execution_targets d2"
  shows "queued_rows e ids org d d3"
proof -
  note s1 = insert_execution_shape [OF d1]
  obtain ts where s2: "d2 = d1\<lparr>execution_targets := execution_targets d1 @ ts\<rparr>" "map et_server ts = ids"
    "\<forall>t \<in> set ts. et_exec t = ex_id e \<and> et_status t = TPending \<and> target_ok t \<and> et_attempt t = 0 \<and> et_org t = org"
    "distinct (map et_id (execution_targets d1)) \<longrightarrow> distinct (map et_id (execution_targets d1 @ ts))"
    using insert_targets_shape [OF d2 len] by blast
  show ?thesis using s1 s2 d3 unfolding queued_rows_def by auto
qed

lemma insert_runbook_idem_tables:
  "insert_runbook_idem env a key h k x st b d = Some d' \<Longrightarrow> \<exists>rs. d' = d\<lparr>runbook_idems := rs\<rparr>"
  by (cases "key = []") (auto simp: insert_runbook_idem_def split: if_splits intro: exI [of _ "runbook_idems d"])

lemma run_execution_queued:
  assumes "run_execution_tx env a key h p q d = Inr (r, d')" "length (rp_snapshots p) = length (rp_targets p)"
  shows "queued_rows (runbook_execution_row env a (fresh_id env ''exe_'' ''run.exec'' 0) p q) (rp_targets p) (a_org a) d d'
    \<and> resp_code r = 201 \<and> resp_headers r = [] \<and> approvals d' = approvals d"
proof -
  let ?id = "fresh_id env ''exe_'' ''run.exec'' 0"
  let ?e = "runbook_execution_row env a ?id p q"
  obtain d1 d2 d3 d4 where d1: "insert_execution env ''run.insert'' ?e d = Some d1"
    and d2: "insert_targets env ''run.target'' (a_org a) ?id 0 (rp_targets p) (rp_snapshots p) d1 = Some d2"
    and d3: "\<exists>md. record_execution_event env ''run.event'' 0 (a_org a) ?id [] [] ''queued'' ''runbook.queued'' md d2 = Some d3"
    and d4: "\<exists>md. write_audit_event_tx env ''run.audit'' (a_org a) (a_user_id a) ''runbook.executed'' ''runbook''
        (rp_runbook_id p) ''queued'' md d3 = Some d4"
    and d5: "\<exists>b. insert_runbook_idem env a key h ''execution'' ?id 201 b d4 = Some d'"
    and r: "resp_code r = 201" "resp_headers r = []"
    using assms(1) unfolding run_execution_tx_def Let_def by auto blast
  have tables: "executions d' = executions d2" "execution_targets d' = execution_targets d2" "approvals d' = approvals d2"
    using d3 d4 d5 insert_runbook_idem_tables by (force simp: record_event_tables write_audit_tx_tables)+
  have eid: "ex_id ?e = ?id" by (simp add: runbook_execution_row_def)
  have ap: "approvals d2 = approvals d"
    using insert_execution_shape [OF d1] insert_targets_shape [OF d2 assms(2)] by auto
  show ?thesis
    using queue_chain [OF d1 _ assms(2) tables(1,2)] d2 tables ap r eid by simp
qed

lemma request_approval_filed:
  assumes "request_approval_tx env a key h p q d = Inr (r, d')"
  shows "resp_code r = 202 \<and> resp_headers r = [] \<and> executions d' = executions d \<and> execution_targets d' = execution_targets d
    \<and> approvals d' = approvals d @ [new_approval env a (fresh_id env ''apr_'' ''approval.id'' 0) p q]"
proof -
  let ?id = "fresh_id env ''apr_'' ''approval.id'' 0"
  obtain d1 d2 where d1: "insert_approval env (new_approval env a ?id p q) d = Some d1"
    and d2: "\<exists>md. write_audit_event_tx env ''approval.audit'' (a_org a) (a_user_id a) ''approval.requested'' ''approval''
        ?id ''pending'' md d1 = Some d2"
    and d3: "\<exists>b. insert_runbook_idem env a key h ''approval'' ?id 202 b d2 = Some d'"
    and r: "resp_code r = 202" "resp_headers r = []"
    using assms unfolding request_approval_tx_def Let_def by auto blast
  have tables: "executions d' = executions d1" "execution_targets d' = execution_targets d1" "approvals d' = approvals d1"
    using d2 d3 insert_runbook_idem_tables by (force simp: write_audit_tx_tables)+
  show ?thesis
    using d1 tables r by (auto simp: insert_approval_def split: if_splits)
qed

lemma execute_plan_cases:
  assumes "execute_plan env a key h p rb q d = (r, d')" "length (rp_snapshots p) = length (rp_targets p)"
  obtains (Nothing) "audit_only d d'"
  | (Filed) "\<not> rq_dry_run q" "approval_needed a (rp_environment p) (rp_risk p) rb" "resp_code r = 202"
      "executions d' = executions d" "execution_targets d' = execution_targets d"
      "approvals d' = approvals d @ [new_approval env a (fresh_id env ''apr_'' ''approval.id'' 0) p q]"
  | (Queued) "\<not> rq_dry_run q" "\<not> approval_needed a (rp_environment p) (rp_risk p) rb"
      "d_allowed (check_runbook_execution a (rp_environment p) (rp_risk p) (rq_reason q))" "resp_code r = 201"
      "queued_rows (runbook_execution_row env a (fresh_id env ''exe_'' ''run.exec'' 0) p q) (rp_targets p) (a_org a) d d'"
      "approvals d' = approvals d"
proof -
  let ?needed = "approval_needed a (rp_environment p) (rp_risk p) rb"
  let ?dec = "check_runbook_execution a (rp_environment p) (rp_risk p) (rq_reason q)"
  consider (other) "rq_dry_run q \<or> ?needed \<and> trim_space (rq_reason q) = [] \<or> \<not> ?needed \<and> \<not> d_allowed ?dec"
    | (filing) "\<not> rq_dry_run q" ?needed "run_tx d (request_approval_tx env a key h p q d) = (r, d')"
    | (queue) "\<not> rq_dry_run q" "\<not> ?needed" "d_allowed ?dec" "run_tx d (run_execution_tx env a key h p q d) = (r, d')"
    using assms(1) by (auto simp: execute_plan_def Let_def split: if_splits)
  then show ?thesis
  proof cases
    case other
    then have "audit_only d d'"
      using assms(1) by (auto simp: execute_plan_def Let_def write_denial_def split: if_splits)
    then show ?thesis by (rule Nothing)
  next
    case filing
    from filing(3) show ?thesis
    proof (cases rule: run_tx_cases)
      case Committed
      then show ?thesis using Filed filing(1,2) request_approval_filed by blast
    qed (use Nothing in simp)
  next
    case queue
    from queue(4) show ?thesis
    proof (cases rule: run_tx_cases)
      case Committed
      then show ?thesis using Queued queue(1-3) run_execution_queued [OF Committed assms(2)] by blast
    qed (use Nothing in simp)
  qed
qed

lemma run_cases:
  assumes "handle_run_runbook env a name kh q d = (r, d')"
  obtains (Nothing) "audit_only d d'"
  | (Filed) p rb where "gated env a name q d p rb" "approval_needed a (rp_environment p) (rp_risk p) rb"
      "resp_code r = 202" "executions d' = executions d" "execution_targets d' = execution_targets d"
      "approvals d' = approvals d @ [new_approval env a (fresh_id env ''apr_'' ''approval.id'' 0) p q]"
  | (Queued) p rb where "gated env a name q d p rb" "\<not> approval_needed a (rp_environment p) (rp_risk p) rb"
      "d_allowed (check_runbook_execution a (rp_environment p) (rp_risk p) (rq_reason q))"
      "queued_rows (runbook_execution_row env a (fresh_id env ''exe_'' ''run.exec'' 0) p q) (rp_targets p) (a_org a) d d'"
      "approvals d' = approvals d"
proof -
  consider (same) "audit_only d d'" | (run) "run_runbook env a name (trim_space kh) q d = (r, d')"
    using assms by (auto simp: handle_run_runbook_def Let_def split: if_splits option.splits)
  then show ?thesis
  proof cases
    case same
    then show ?thesis by (rule Nothing)
  next
    case run
    let ?P = "\<lambda>r. names_runbook (a_org a) name r \<and> rb_status r = ''published'' \<and> current_version d r \<noteq> None"
    show ?thesis
    proof (cases "first_row (fails env ''run.select'' 0) ?P (runbook_rows d)")
      case None
      with run Nothing show ?thesis by (simp add: run_runbook_def)
    next
      case (Some row)
      then have row: "row \<in> set (runbook_rows d)" "names_runbook (a_org a) name row" "rb_status row = ''published''"
        and "current_version d row \<noteq> None"
        using first_row_Some by fastforce+
      then obtain v where v: "current_version d row = Some v" by blast
      show ?thesis
      proof (cases "rb_id row = [] \<or> rv_command_preview v = None")
        case True
        with run Some v Nothing show ?thesis by (auto simp: run_runbook_def)
      next
        case ok: False
        show ?thesis
        proof (cases "plan_run env a name q row v d")
          case (Inl rd)
          with run Some v ok have "plan_run env a name q row v d = Inl (r, d')" by (auto simp: run_runbook_def)
          then show ?thesis using Nothing plan_run_refused by blast
        next
          case (Inr prb)
          obtain p rb where prb: "prb = (p, rb)" by fastforce
          have g: "gated env a name q d p rb" using plan_run_gated Inr prb row v by blast
          have "execute_plan env a (trim_space kh) (hash_payload env (run_payload name q)) p rb q d = (r, d')"
            using run Some v ok Inr prb by (auto simp: run_runbook_def)
          then show ?thesis
          proof (cases rule: execute_plan_cases)
            show "length (rp_snapshots p) = length (rp_targets p)" using g by (simp add: gated_def)
          qed (use Nothing Filed Queued g in blast)+
        qed
      qed
    qed
  qed
qed

text \<open>
  C8: the gates of a runbook run.  Whatever the answer, an execution is added to the queue only if
  the runbook is published in the actor's organisation, its current version admits the actor's role, the one
  environment of all targets and each target; the run needs no approval; and the policy allows the actor this risk,
  environment and reason.  Then it is exactly one execution, its command the current version's command rendered
  with validated parameters, with one pending target per resolved server.
\<close>

theorem run_gates:
  assumes "handle_run_runbook env a name kh q d = (r, d')" "executions d' \<noteq> executions d"
  shows "\<exists>p rb e. gated env a name q d p rb \<and> \<not> approval_needed a (rp_environment p) (rp_risk p) rb
    \<and> d_allowed (check_runbook_execution a (rp_environment p) (rp_risk p) (rq_reason q))
    \<and> queued_rows e (rp_targets p) (a_org a) d d' \<and> ex_command e = rp_command p \<and> ex_actor e = a_user_id a
    \<and> ex_status e = EQueued \<and> ex_risk e = rp_risk p"
  using assms(1)
proof (cases rule: run_cases)
  case Nothing
  then show ?thesis using assms(2) audit_only_tables(1) by blast
next
  case (Queued p rb)
  then show ?thesis
    by (intro exI [of _ p] exI [of _ rb] exI conjI) (auto simp: runbook_execution_row_def)
qed (use assms(2) in auto)

section \<open>Deciding a request\<close>

lemma decide_request_shape:
  assumes "decide_request env at org i st ap note d = Some (Some d')"
  shows "d' = d\<lparr>approvals := update_where (open_request env org i) (decide_row env st ap note) (approvals d)\<rparr>
    \<and> (\<exists>x \<in> set (approvals d). open_request env org i x)"
  using assms by (auto simp: decide_request_def count_where_0 split: if_splits)

lemma pad_snapshots_length [simp]: "length (pad_snapshots xs ss) = length xs"
  by (induction xs ss rule: pad_snapshots.induct) auto

lemma approved_execution_queued:
  assumes "create_execution_from_approval_tx env org requester role approver ap d = Some (exec_id, d')"
  shows "\<exists>p. ap_payload ap = Some p \<and> pl_command p \<noteq> [] \<and> exec_id = fresh_id env ''exe_'' ''approve.exec'' 0
    \<and> queued_rows (approved_execution_row env org exec_id requester role approver ap p) (pl_target_ids p) org d d'
    \<and> approvals d' = approvals d"
proof -
  let ?id = "fresh_id env ''exe_'' ''approve.exec'' 0"
  obtain p d1 d2 d3 where p: "ap_payload ap = Some p" "pl_command p \<noteq> []" "exec_id = ?id"
    and d1: "insert_execution env ''approve.insert'' (approved_execution_row env org ?id requester role approver ap p) d = Some d1"
    and d2: "insert_targets env ''approve.target'' org ?id 0 (pl_target_ids p) (pad_snapshots (pl_target_ids p) (pl_snapshot p)) d1
      = Some d2"
    and d3: "\<exists>md. record_execution_event env ''approve.event'' 0 org ?id [] [] ''queued'' ''runbook.queued'' md d2 = Some d3"
    and d4: "\<exists>md. write_audit_event_tx env ''approve.exec_audit'' org requester ''runbook.executed'' ''runbook''
        (pl_runbook_id p) ''queued'' md d3 = Some d'"
    using assms by (auto simp: create_execution_from_approval_tx_def Let_def split: option.splits if_splits) blast
  have tables: "executions d' = executions d2" "execution_targets d' = execution_targets d2" "approvals d' = approvals d2"
    using d3 d4 by (force simp: record_event_tables write_audit_tx_tables)+
  have eid: "ex_id (approved_execution_row env org ?id requester role approver ap p) = ?id"
    by (simp add: approved_execution_row_def)
  have "approvals d2 = approvals d"
    using insert_execution_shape [OF d1] insert_targets_shape [OF d2] by auto
  then show ?thesis
    using queue_chain [OF d1 _ _ tables(1,2)] d2 eid p tables by auto
qed

lemma approve_tx_done:
  assumes "approve_tx env a i note ap role d = Inr (r, d')"
  shows "resp_code r = 200 \<and> (\<exists>x \<in> set (approvals d). open_request env (a_org a) i x)
    \<and> approvals d' = update_where (open_request env (a_org a) i) (decide_row env ''approved'' (a_user_id a) note) (approvals d)
    \<and> (\<exists>p. ap_payload ap = Some p \<and> pl_command p \<noteq> []
        \<and> queued_rows (approved_execution_row env (a_org a) (fresh_id env ''exe_'' ''approve.exec'' 0) (ap_requester ap) role
             (a_user_id a) ap p) (pl_target_ids p) (a_org a) d d')"
proof -
  obtain d1 d2 exec_id where d1: "decide_request env ''approve.update'' (a_org a) i ''approved'' (a_user_id a) note d = Some (Some d1)"
    and d2: "create_execution_from_approval_tx env (a_org a) (ap_requester ap) role (a_user_id a) ap d1 = Some (exec_id, d2)"
    and d3: "\<exists>md. write_audit_event_tx env ''approve.audit'' (a_org a) (a_user_id a) ''approval.approved'' ''approval'' i ''approved'' md d2
      = Some d'"
    and r: "r = approve_response exec_id"
    using assms unfolding approve_tx_def by (auto split: prod.splits)
  have tables: "executions d' = executions d2" "execution_targets d' = execution_targets d2" "approvals d' = approvals d2"
    using d3 by (force simp: write_audit_tx_tables)+
  have code: "resp_code r = 200" by (simp add: r approve_response_def)
  show ?thesis
    using approved_execution_queued [OF d2] decide_request_shape [OF d1] tables code
    unfolding queued_rows_def by auto
qed

lemma not_open_refused [simp]: "resp_code (not_open_response env at org i m d) \<noteq> 200"
  by (simp add: not_open_response_def split: option.split)

lemma approve_tx_refused: "approve_tx env a i note ap role d = Inl r \<Longrightarrow> resp_code r \<noteq> 200"
  unfolding approve_tx_def by (auto simp: split_beta)

lemma approve_cases:
  assumes "handle_approve env a i note d = (r, d')"
  obtains (Nothing) "audit_only d d'" "resp_code r \<noteq> 200"
  | (Approved) ap role where "resp_code r = 200" "is_senior a" "ap \<in> set (approvals d)" "ap_id ap = i" "ap_org ap = a_org a"
      "ap_requester ap \<noteq> a_user_id a" "requester_role d ap = Some role" "approve_tx env a i note ap role d = Inr (r, d')"
proof -
  let ?P = "\<lambda>ap. ap_id ap = i \<and> ap_org ap = a_org a \<and> requester_role d ap \<noteq> None"
  show ?thesis
  proof (cases "is_senior a")
    case False
    with assms show ?thesis by (intro Nothing) (auto simp: handle_approve_def write_denial_def)
  next
    case senior: True
    show ?thesis
    proof (cases "first_row (fails env ''approve.select'' 0) ?P (approvals d)")
      case None
      with assms senior show ?thesis by (intro Nothing) (auto simp: handle_approve_def)
    next
      case (Some ap)
      note ap = first_row_Some [OF Some, THEN conjunct2]
      then obtain role where role: "requester_role d ap = Some role" by auto
      show ?thesis
      proof (cases "ap_requester ap = a_user_id a")
        case True
        with assms senior Some role show ?thesis by (intro Nothing) (auto simp: handle_approve_def)
      next
        case False
        with assms senior Some role have "run_tx d (approve_tx env a i note ap role d) = (r, d')"
          by (auto simp: handle_approve_def)
        then show ?thesis
        proof (cases rule: run_tx_cases)
          case Rolled_Back
          then show ?thesis using approve_tx_refused by (intro Nothing) auto
        next
          case Committed
          show ?thesis
            by (rule Approved [of ap role]) (use Committed ap role senior False approve_tx_done [OF Committed] in auto)
        qed
      qed
    qed
  qed
qed

lemma deny_cases:
  assumes "handle_deny env a i note d = (r, d')"
  obtains (Nothing) "audit_only d d'" "resp_code r \<noteq> 200"
  | (Denied) "resp_code r = 200" "is_senior a" "trim_space note \<noteq> []" "\<exists>x \<in> set (approvals d). open_request env (a_org a) i x"
      "approvals d' = update_where (open_request env (a_org a) i) (decide_row env ''denied'' (a_user_id a) note) (approvals d)"
      "executions d' = executions d" "execution_targets d' = execution_targets d"
proof (cases "\<not> is_senior a \<or> trim_space note = []
    \<or> first_row (fails env ''deny.select'' 0)
        (\<lambda>ap. ap_id ap = i \<and> ap_org ap = a_org a \<and> ap_status ap = ''pending'') (approvals d) = None")
  case True
  then show ?thesis using assms by (intro Nothing) (auto simp: handle_deny_def write_denial_def split: if_splits)
next
  case False
  then obtain ap where run: "handle_deny env a i note d =
      (case decide_request env ''deny.update'' (a_org a) i ''denied'' (a_user_id a) note d of
         None \<Rightarrow> (err 500 ''failed to deny'', d)
       | Some None \<Rightarrow> (not_open_response env ''deny.expired'' (a_org a) i ''approval not found'' d, d)
       | Some (Some d1) \<Rightarrow> (reply 200 [(''status'', JStr ''denied'')],
            write_audit_event env ''deny.audit'' (a_org a) (a_user_id a) ''approval.denied'' ''approval'' i ''denied'' JNull d1))"
    by (auto simp: handle_deny_def)
  show ?thesis
  proof (cases "decide_request env ''deny.update'' (a_org a) i ''denied'' (a_user_id a) note d")
    case None
    with run assms show ?thesis by (intro Nothing) simp_all
  next
    case (Some x)
    show ?thesis
    proof (cases x)
      case None
      with run assms Some show ?thesis by (intro Nothing) auto
    next
      case d1: (Some d1)
      with run assms Some have "r = reply 200 [(''status'', JStr ''denied'')]"
        and d': "\<exists>u md. d' = write_audit_event env ''deny.audit'' (a_org a) u ''approval.denied'' ''approval'' i ''denied'' md d1"
        by auto
      then show ?thesis
        using False decide_request_shape [OF Some [unfolded d1]] by (intro Denied) auto
    qed
  qed
qed

text \<open>
  C7: separation of duties.  \<open>handleApprove\<close> answers 200 only to a senior engineer or above other than the requester, for a
  request of its organisation that is pending and not expired; it queues exactly one
  execution, for the requester with the approver recorded as delegate, and its command, targets and risk are those
  stored in the request.  Every other answer leaves the queue and the requests as they were.
\<close>

theorem approve_authorised:
  assumes "handle_approve env a i note d = (r, d')"
  shows "if resp_code r = 200
    then is_senior a \<and> (\<exists>x \<in> set (approvals d). open_request env (a_org a) i x)
      \<and> (\<exists>ap p e. ap \<in> set (approvals d) \<and> ap_id ap = i \<and> ap_org ap = a_org a \<and> ap_requester ap \<noteq> a_user_id a
           \<and> ap_payload ap = Some p \<and> queued_rows e (pl_target_ids p) (a_org a) d d'
           \<and> ex_command e = pl_command p \<and> ex_actor e = ap_requester ap \<and> ex_delegated_by e = Some (a_user_id a)
           \<and> ex_approval_id e = Some i \<and> ex_risk e = ap_risk ap)
    else audit_only d d'"
  using assms
proof (cases rule: approve_cases)
  case (Approved ap role)
  from approve_tx_done [OF Approved(8)] obtain p where p: "ap_payload ap = Some p" "pl_command p \<noteq> []"
    "queued_rows (approved_execution_row env (a_org a) (fresh_id env ''exe_'' ''approve.exec'' 0) (ap_requester ap) role
       (a_user_id a) ap p) (pl_target_ids p) (a_org a) d d'"
    and x: "\<exists>x \<in> set (approvals d). open_request env (a_org a) i x" by blast
  show ?thesis
    using Approved(1-6) p x
    by (auto intro!: exI [of _ ap] exI [of _ p] exI [of _ "approved_execution_row env (a_org a)
          (fresh_id env ''exe_'' ''approve.exec'' 0) (ap_requester ap) role (a_user_id a) ap p"]
        simp: approved_execution_row_def)
qed auto

text \<open>A request with a decision: no row with its id is pending.\<close>

definition decided :: "string \<Rightarrow> db \<Rightarrow> bool" where
  "decided i d \<longleftrightarrow> (\<forall>ap \<in> set (approvals d). ap_id ap = i \<longrightarrow> ap_status ap \<noteq> ''pending'')"

lemma decided_not_open: "decided i d \<Longrightarrow> x \<in> set (approvals d) \<Longrightarrow> \<not> open_request env org i x"
  by (auto simp: decided_def open_request_def)

lemma decide_decided:
  assumes "distinct (map ap_id (approvals d))" "x \<in> set (approvals d)" "open_request env org i x" "st \<noteq> ''pending''"
    "approvals d' = update_where (open_request env org i) (decide_row env st u n) (approvals d)"
  shows "decided i d'"
  unfolding decided_def
proof (intro ballI impI)
  fix y assume "y \<in> set (approvals d')" and y: "ap_id y = i"
  then obtain z where z: "z \<in> set (approvals d)"
    "y = (if open_request env org i z then decide_row env st u n z else z)"
    unfolding assms(5) set_update_where by (elim imageE) simp
  then have "ap_id z = ap_id x" using y assms(3) by (auto simp: open_request_def decide_row_def split: if_splits)
  then have "z = x" using assms(1,2) z(1) by (meson distinct_map_eqD)
  then show "ap_status y \<noteq> ''pending''" using z(2) assms(3,4) by (simp add: decide_row_def)
qed

text \<open>
  C11: a request is used once.  After \<open>handleApprove\<close> or \<open>handleDeny\<close> has answered 200 for a request, every later
  \<open>handleApprove\<close> or \<open>handleDeny\<close> of it, by anyone at any time, is refused and changes nothing but the audit log, so
  no approval queues two executions and no denied request is queued.
\<close>

theorem approval_used_once:
  assumes "distinct (map ap_id (approvals d))"
    and "handle_approve env a i note d = (r, d') \<or> handle_deny env a i note d = (r, d')" "resp_code r = 200"
  shows "decided i d' \<and> resp_code (fst (handle_approve env' a' i note' d')) \<noteq> 200
    \<and> audit_only d' (snd (handle_approve env' a' i note' d'))
    \<and> resp_code (fst (handle_deny env' a' i note' d')) \<noteq> 200 \<and> audit_only d' (snd (handle_deny env' a' i note' d'))"
proof -
  have dec: "decided i d'"
    using assms(2)
  proof
    assume "handle_approve env a i note d = (r, d')"
    then show ?thesis
    proof (cases rule: approve_cases)
      case (Approved ap role)
      note dn = approve_tx_done [OF Approved(8)]
      then obtain x where "x \<in> set (approvals d)" "open_request env (a_org a) i x" by blast
      then show ?thesis
        by (rule decide_decided [OF assms(1) _ _ _ dn [THEN conjunct2, THEN conjunct2, THEN conjunct1]]) simp
    qed (use assms(3) in auto)
  next
    assume "handle_deny env a i note d = (r, d')"
    then show ?thesis
    proof (cases rule: deny_cases)
      case Denied
      then obtain x where "x \<in> set (approvals d)" "open_request env (a_org a) i x" by blast
      then show ?thesis using decide_decided [OF assms(1) _ _ _ Denied(5)] by simp
    qed (use assms(3) in auto)
  qed
  obtain r1 d1 where 1: "handle_approve env' a' i note' d' = (r1, d1)" by fastforce
  obtain r2 d2 where 2: "handle_deny env' a' i note' d' = (r2, d2)" by fastforce
  have "resp_code r1 \<noteq> 200 \<and> audit_only d' d1"
    using 1
  proof (cases rule: approve_cases)
    case (Approved ap role)
    with approve_tx_done [OF Approved(8)] decided_not_open [OF dec] show ?thesis by blast
  qed auto
  moreover have "resp_code r2 \<noteq> 200 \<and> audit_only d' d2"
    using 2
  proof (cases rule: deny_cases)
    case Denied
    with decided_not_open [OF dec] show ?thesis by blast
  qed auto
  ultimately show ?thesis using dec 1 2 by simp
qed

section \<open>Witnesses\<close>

definition sample_approver :: actor where
  "sample_approver = \<lparr>a_user_id = ''u2'', a_email = ''u2@x'', a_display_name = ''V'', a_org = ''org-1'',
     a_role = ''senior_engineer''\<rparr>"

definition sample_payload :: approval_payload where
  "sample_payload = \<lparr>pl_runbook_id = ''rb1'', pl_runbook_name = ''restart'', pl_target = ''web'', pl_command = ''reboot'',
     pl_risk = ''high'', pl_reason = ''patch'', pl_params = None, pl_target_ids = [''s1''], pl_snapshot = [],
     pl_environment = ''production'', pl_rollback = JNull, pl_verification = JNull, pl_timeout = 0\<rparr>"

definition sample_approval :: approval where
  "sample_approval = \<lparr>ap_id = ''ap1'', ap_org = ''org-1'', ap_requester = ''u1'', ap_approver = None, ap_action = ''runbook'',
     ap_status = ''pending'', ap_risk = ''high'', ap_reason = ''patch'', ap_target_type = ''server'', ap_target_id = Some ''web'',
     ap_snapshot = [], ap_payload = Some sample_payload, ap_expires_at = 4000, ap_created_at = 900,
     ap_decided_at = None, ap_note = None\<rparr>"

definition sample_approval_db :: db where
  "sample_approval_db = sample_db\<lparr>approvals := [sample_approval], executions := [], execution_targets := [],
     users := \<lparr>us_id = ''u2'', us_email = ''u2@x'', us_display_name = ''V'', us_status = ''active'',
        us_external_subject = None, us_last_login = None\<rparr> # users sample_db\<rparr>"

definition sample_approve :: "resp \<times> db" where
  "sample_approve = handle_approve sample_env sample_approver ''ap1'' [] sample_approval_db"

lemma sample_audit_again:
  assumes "''aud_'' @ at @ ''0'' \<notin> au_id ` set (audit_events d)"
  shows "\<exists>d'. write_audit_event_tx sample_env at org actor action tt ti res md d = Some d'
    \<and> au_id ` set (audit_events d') = insert (''aud_'' @ at @ ''0'') (au_id ` set (audit_events d))"
  using assms by (simp add: write_audit_event_tx_def write_audit_event_type_def Let_def)

lemma sample_approval_sel [simp]:
  "approvals sample_approval_db = [sample_approval]" "executions sample_approval_db = []"
  "execution_targets sample_approval_db = []" "execution_events sample_approval_db = []"
  "audit_events sample_approval_db = []" "servers sample_approval_db = [sample_server]"
  "us_id ` set (users sample_approval_db) = {''u1'', ''u2''}" "memberships sample_approval_db = memberships sample_db"
  by (auto simp: sample_approval_db_def sample_db_def empty_db_def)

lemma sample_approval_role: "requester_role sample_approval_db sample_approval = Some ''owner''"
  by (simp add: requester_role_def sample_approval_def) (simp add: sample_db_def)

lemma sample_decided:
  "decide_request sample_env ''approve.update'' ''org-1'' ''ap1'' ''approved'' ''u2'' [] sample_approval_db
   = Some (Some (sample_approval_db\<lparr>approvals := [decide_row sample_env ''approved'' ''u2'' [] sample_approval]\<rparr>))"
  by (simp add: decide_request_def open_request_def count_where_def) (simp add: sample_approval_def)

lemma sample_approved:
  obtains x d' where "create_execution_from_approval_tx sample_env ''org-1'' ''u1'' ''owner'' ''u2'' sample_approval
     (sample_approval_db\<lparr>approvals := [decide_row sample_env ''approved'' ''u2'' [] sample_approval]\<rparr>) = Some (x, d')"
    "au_id ` set (audit_events d') = {''aud_approve.exec_audit0''}"
proof -
  let ?d = "sample_approval_db\<lparr>approvals := [decide_row sample_env ''approved'' ''u2'' [] sample_approval]\<rparr>"
  let ?id = "fresh_id sample_env ''exe_'' ''approve.exec'' 0"
  let ?e = "approved_execution_row sample_env ''org-1'' ?id ''u1'' ''owner'' ''u2'' sample_approval sample_payload"
  let ?t = "new_target_row (fresh_id sample_env ''ext_'' ''approve.target'' 0) ''org-1'' ?id ''s1'' (JObj [])"
  have e: "insert_execution sample_env ''approve.insert'' ?e ?d = Some (?d\<lparr>executions := [?e]\<rparr>)"
    by (simp add: insert_execution_def approved_execution_row_def)
  have t: "insert_targets sample_env ''approve.target'' ''org-1'' ?id 0 [''s1''] [JObj []] (?d\<lparr>executions := [?e]\<rparr>)
      = Some (?d\<lparr>executions := [?e], execution_targets := [?t]\<rparr>)"
    by (simp add: Let_def)
  have ev: "execution_events (?d\<lparr>executions := [?e], execution_targets := [?t]\<rparr>) = []" by simp
  obtain d3 where d3: "record_execution_event sample_env ''approve.event'' 0 ''org-1'' ?id [] [] ''queued'' ''runbook.queued''
      [(''runbook_id'', JStr ''rb1'')] (?d\<lparr>executions := [?e], execution_targets := [?t]\<rparr>) = Some d3"
    using sample_timeline_event [OF ev] by blast
  have a: "''aud_'' @ ''approve.exec_audit'' @ ''0'' \<notin> au_id ` set (audit_events d3)" "audit_events d3 = []"
    using record_event_tables [OF d3] by simp_all
  obtain d4 where d4: "write_audit_event_tx sample_env ''approve.exec_audit'' ''org-1'' ''u1'' ''runbook.executed'' ''runbook''
      ''rb1'' ''queued'' (jmap [(''execution_id'', JStr ?id), (''command'', JStr (redact_text sample_env ''reboot'')),
         (''delegated_by'', JStr ''u2'')]) d3 = Some d4"
    "au_id ` set (audit_events d4) = insert (''aud_'' @ ''approve.exec_audit'' @ ''0'') (au_id ` set (audit_events d3))"
    using sample_audit_again [OF a(1)] by blast
  have p: "ap_payload sample_approval = Some sample_payload" "pl_command sample_payload = ''reboot''"
    "pl_target_ids sample_payload = [''s1'']" "pl_snapshot sample_payload = []" "pl_runbook_id sample_payload = ''rb1''"
    by (simp_all add: sample_approval_def sample_payload_def)
  have s: "servers_exist [''s1''] ?d" by (simp add: servers_exist_def sample_server_def)
  have "create_execution_from_approval_tx sample_env ''org-1'' ''u1'' ''owner'' ''u2'' sample_approval ?d = Some (?id, d4)"
    unfolding create_execution_from_approval_tx_def Let_def p option.case e
    using s t d3 d4(1) by simp
  moreover have "au_id ` set (audit_events d4) = {''aud_approve.exec_audit0''}" unfolding d4(2) a(2) by simp
  ultimately show thesis by (rule that)
qed

lemma sample_approve_code: "resp_code (fst sample_approve) = 200"
proof -
  obtain x d2 where d2: "create_execution_from_approval_tx sample_env ''org-1'' ''u1'' ''owner'' ''u2'' sample_approval
     (sample_approval_db\<lparr>approvals := [decide_row sample_env ''approved'' ''u2'' [] sample_approval]\<rparr>) = Some (x, d2)"
    "au_id ` set (audit_events d2) = {''aud_approve.exec_audit0''}"
    by (rule sample_approved)
  have n: "''aud_'' @ ''approve.audit'' @ ''0'' \<notin> au_id ` set (audit_events d2)" unfolding d2(2) by simp
  obtain d3 where d3: "write_audit_event_tx sample_env ''approve.audit'' ''org-1'' ''u2'' ''approval.approved'' ''approval'' ''ap1''
      ''approved'' (jmap [(''execution_id'', JStr x)]) d2 = Some d3"
    using sample_audit_again [OF n] by blast
  have a: "a_org sample_approver = ''org-1''" "a_user_id sample_approver = ''u2''" "is_senior sample_approver"
    by (simp_all add: sample_approver_def is_senior_def has_role_iff role_defs)
  have p: "ap_id sample_approval = ''ap1''" "ap_org sample_approval = ''org-1''" "ap_requester sample_approval = ''u1''"
    by (simp_all add: sample_approval_def)
  have f: "fails sample_env at i = False" for at i by (simp add: sample_env_def)
  have "approve_tx sample_env sample_approver ''ap1'' [] sample_approval ''owner'' sample_approval_db = Inr (approve_response x, d3)"
    by (simp only: approve_tx_def a p sample_decided attempt_def option.case d2(1) d3 refuse_if_def prod.case f if_False)
  moreover have "first_row False (\<lambda>ap. ap_id ap = ''ap1'' \<and> ap_org ap = ''org-1'' \<and> requester_role sample_approval_db ap \<noteq> None)
      (approvals sample_approval_db) = Some sample_approval"
    using p sample_approval_role by (simp add: first_row_def)
  moreover have "''u1'' \<noteq> ''u2''" by simp
  ultimately have "handle_approve sample_env sample_approver ''ap1'' [] sample_approval_db = (approve_response x, d3)"
    by (simp only: handle_approve_def a p f sample_approval_role option.case if_False if_True not_True_eq_False run_tx_Inr)
  then show ?thesis by (simp add: sample_approve_def approve_response_def)
qed

lemma sample_approve_eq: "handle_approve sample_env sample_approver ''ap1'' [] sample_approval_db = (fst sample_approve, snd sample_approve)"
  by (simp add: sample_approve_def)

theorem approve_authorised_witness:
  "\<exists>e ts. executions (snd sample_approve) = [e] \<and> ex_command e = ''reboot'' \<and> ex_delegated_by e = Some ''u2''"
  using approve_authorised [OF sample_approve_eq] sample_approve_code
  by (auto simp: queued_rows_def sample_approver_def) (auto simp: sample_approval_def sample_payload_def)

theorem approval_used_once_witness:
  "resp_code (fst (handle_approve sample_env sample_approver ''ap1'' [] (snd sample_approve))) \<noteq> 200"
  using approval_used_once [OF _ disjI1 [OF sample_approve_eq] sample_approve_code, of sample_env sample_approver "[]"] by simp


text \<open>A published runbook that runs without approval.\<close>

definition sample_run_db :: db where
  "sample_run_db = sample_db\<lparr>executions := [], execution_targets := [],
     runbook_rows := [\<lparr>rb_id = ''rb1'', rb_org = ''org-1'', rb_name = ''restart'', rb_title = ''Restart'',
        rb_description = None, rb_status = ''published'', rb_current_version = Some ''v1'', rb_created_by = ''u1'',
        rb_created_at = 0\<rparr>],
     runbook_versions := [\<lparr>rv_id = ''v1'', rv_org = ''org-1'', rv_runbook = ''rb1'', rv_version = 1,
        rv_status = ''published'', rv_risk = ''medium'', rv_definition = Some sample_runbook,
        rv_allowed_roles = Some [''owner''], rv_command_preview = Some ''svc'', rv_command_hash = None,
        rv_created_by = ''u1'', rv_published_by = None, rv_published_at = None\<rparr>]\<rparr>"

definition sample_run_req :: run_req where
  "sample_run_req = \<lparr>rq_target = ''web'', rq_reason = [], rq_params = Some sample_params, rq_dry_run = False\<rparr>"

definition sample_run :: "resp \<times> db" where
  "sample_run = handle_run_runbook sample_env sample_owner ''restart'' [] sample_run_req sample_run_db"

lemma sample_run_tx:
  assumes "executions d = []" "execution_targets d = []" "execution_events d = []" "audit_events d = []"
    "rp_targets p = [x]" "rp_snapshots p = [s]"
  obtains r d' where "run_execution_tx sample_env a [] h p q d = Inr (r, d')"
proof -
  let ?id = "fresh_id sample_env ''exe_'' ''run.exec'' 0"
  let ?e = "runbook_execution_row sample_env a ?id p q"
  let ?t = "new_target_row (fresh_id sample_env ''ext_'' ''run.target'' 0) (a_org a) ?id x s"
  let ?d2 = "d\<lparr>executions := [?e], execution_targets := [?t]\<rparr>"
  have e: "insert_execution sample_env ''run.insert'' ?e d = Some (d\<lparr>executions := [?e]\<rparr>)"
    using assms(1) by (simp add: insert_execution_def runbook_execution_row_def)
  have t: "insert_targets sample_env ''run.target'' (a_org a) ?id 0 [x] [s] (d\<lparr>executions := [?e]\<rparr>) = Some ?d2"
    using assms(2) by (simp add: Let_def)
  have ev: "execution_events ?d2 = []" using assms(3) by simp
  obtain d3 where d3: "record_execution_event sample_env ''run.event'' 0 (a_org a) ?id [] [] ''queued'' ''runbook.queued''
      [(''runbook_id'', JStr (rp_runbook_id p))] ?d2 = Some d3"
    using sample_timeline_event [OF ev] by blast
  have au: "audit_events d3 = []" using record_event_tables [OF d3] assms(4) by simp
  obtain d4 where d4: "write_audit_event_tx sample_env ''run.audit'' (a_org a) (a_user_id a) ''runbook.executed'' ''runbook''
      (rp_runbook_id p) ''queued''
      (jmap [(''execution_id'', JStr ?id), (''command'', JStr (redact_text sample_env (rp_command p)))]) d3 = Some d4"
    using sample_audit_event [OF au] by blast
  have "\<exists>r d'. run_execution_tx sample_env a [] h p q d = Inr (r, d')"
    unfolding run_execution_tx_def Let_def attempt_def e option.case assms(5,6) t d3 d4 refuse_if_def
    by (simp add: insert_runbook_idem_def)
  then show thesis using that by blast
qed

lemma sample_run_checks:
  "resolve_targets sample_env ''org-1'' ''web'' sample_run_db = [''s1'']"
  "target_environment sample_env ''org-1'' [''s1''] sample_run_db = (''staging'', False)"
  "environment_allowed sample_runbook ''staging''" "role_allowed_in_list ''owner'' (Some [''owner''])"
  "runbook_targets_allowed sample_env ''org-1'' (s_targets (r_spec sample_runbook)) 0 [''s1''] sample_run_db"
  by code_simp+

lemma first_row_only: "rows = [x] \<Longrightarrow> P x \<Longrightarrow> first_row False P rows = Some x"
  by (simp add: first_row_def)

lemma sample_run_plan:
  obtains p where "rp_targets p = [''s1'']" "\<exists>s. rp_snapshots p = [s]" "rp_environment p = ''staging''" "rp_risk p = ''medium''"
    "run_runbook sample_env sample_owner ''restart'' [] sample_run_req sample_run_db
       = execute_plan sample_env sample_owner [] (hash_payload sample_env (run_payload ''restart'' sample_run_req)) p
           sample_runbook sample_run_req sample_run_db"
proof -
  obtain s where s: "snapshot_targets sample_env ''org-1'' [''s1''] sample_run_db = [s]"
    by (simp add: snapshot_targets_def find_server_def sample_run_db_def) (simp add: sample_server_def)
  note c = sample_run_checks
  let ?r = "hd (runbook_rows sample_run_db)"
  let ?v = "hd (runbook_versions sample_run_db)"
  have r: "runbook_rows sample_run_db = [?r]"
    by (simp add: sample_run_db_def)
  have r': "rb_id ?r = ''rb1'' \<and> rb_status ?r = ''published'' \<and> names_runbook ''org-1'' ''restart'' ?r
      \<and> current_version sample_run_db ?r = Some ?v"
    by (simp add: sample_run_db_def current_version_def names_runbook_def)
  have v: "rv_risk ?v = ''medium'' \<and> rv_definition ?v = Some sample_runbook \<and> rv_allowed_roles ?v = Some [''owner'']
      \<and> rv_command_preview ?v = Some ''svc''"
    by (simp add: sample_run_db_def)
  have q: "rq_target sample_run_req = ''web''" "rq_params sample_run_req = Some sample_params" "a_role sample_owner = ''owner''"
    by (simp_all add: sample_run_req_def sample_owner_def)
  let ?p = "\<lparr>rp_runbook_id = ''rb1'', rp_name = ''restart'', rp_risk = ''medium'', rp_spec = r_spec sample_runbook,
      rp_command = ''svc 'a; rm' -n '3'' @ [CHR 0x27], rp_targets = [''s1''], rp_environment = ''staging'', rp_snapshots = [s]\<rparr>"
  have "plan_run sample_env sample_owner ''restart'' sample_run_req ?r ?v sample_run_db = Inr (?p, sample_runbook)"
    by (simp only: plan_run_def Let_def refuse_if_def attempt_def attempt_sum_def s c r' v q sample_rendered sample_sels
        option.case sum.case prod.sel if_False if_True not_True_eq_False list.distinct simp_thms list.size)
      (simp only: sample_rendered sum.case id_apply append.simps list.distinct if_False)
  moreover have "first_row False (\<lambda>r. names_runbook ''org-1'' ''restart'' r \<and> rb_status r = ''published''
      \<and> current_version sample_run_db r \<noteq> None) (runbook_rows sample_run_db) = Some ?r"
    by (rule first_row_only [OF r]) (use r' in simp)
  ultimately have "run_runbook sample_env sample_owner ''restart'' [] sample_run_req sample_run_db
       = execute_plan sample_env sample_owner [] (hash_payload sample_env (run_payload ''restart'' sample_run_req)) ?p
           sample_runbook sample_run_req sample_run_db"
    using r' v by (simp add: run_runbook_def)
  then show thesis by (intro that [of ?p]) simp_all
qed

lemma sample_run_eq: "handle_run_runbook sample_env sample_owner ''restart'' [] sample_run_req sample_run_db
    = (fst sample_run, snd sample_run)"
  by (simp add: sample_run_def)

lemma sample_run_changes: "executions (snd sample_run) \<noteq> executions sample_run_db"
proof -
  obtain p where p: "rp_targets p = [''s1'']" "\<exists>s. rp_snapshots p = [s]" "rp_environment p = ''staging''" "rp_risk p = ''medium''"
    and run: "run_runbook sample_env sample_owner ''restart'' [] sample_run_req sample_run_db
       = execute_plan sample_env sample_owner [] (hash_payload sample_env (run_payload ''restart'' sample_run_req)) p
           sample_runbook sample_run_req sample_run_db"
    by (rule sample_run_plan)
  have tabs: "executions sample_run_db = []" "execution_targets sample_run_db = []" "execution_events sample_run_db = []"
    "audit_events sample_run_db = []"
    by (simp_all add: sample_run_db_def sample_db_def empty_db_def)
  have n: "\<not> approval_needed sample_owner ''staging'' ''medium'' sample_runbook"
    "d_allowed (check_runbook_execution sample_owner ''staging'' ''medium'' [])"
    by code_simp+
  have t: "trim_space ([]::string) = []" by code_simp
  have q: "\<not> rq_dry_run sample_run_req" "rq_reason sample_run_req = []" by (simp_all add: sample_run_req_def)
  obtain s where s: "rp_snapshots p = [s]" using p(2) by blast
  let ?h = "hash_payload sample_env (run_payload ''restart'' sample_run_req)"
  obtain r d' where tx: "run_execution_tx sample_env sample_owner [] ?h p sample_run_req sample_run_db = Inr (r, d')"
    by (rule sample_run_tx [OF tabs p(1) s])
  have eq: "sample_run = (r, d')"
    using p n tx run t q by (simp add: sample_run_def handle_run_runbook_def Let_def execute_plan_def)
  have "executions d' \<noteq> []"
    using run_execution_queued [OF tx] p s by (simp add: queued_rows_def)
  then show ?thesis unfolding eq snd_conv using tabs(1) by metis
qed

theorem run_gates_witness:
  "\<exists>e. executions (snd sample_run) = [e] \<and> ex_actor e = ''u1'' \<and> ex_status e = EQueued"
proof -
  have "executions sample_run_db = []" by (simp add: sample_run_db_def)
  then show ?thesis
    using run_gates [OF sample_run_eq sample_run_changes] by (auto simp: queued_rows_def)
qed

end
