(* ===== verification/Notify.thy ===== *)
theory Notify
  imports Transaction QueueProps
begin

text \<open>
  \<open>apps/api/dispatch.go\<close>: after a commit, one notification per pending target of the execution is given to
  the stream.  The definitions return the messages given to it (payload and identifier) and the first error.
\<close>

section \<open>Publishing\<close>

definition notification_of :: "target \<Rightarrow> notification" where
  "notification_of t = \<lparr>nt_version = notification_version, nt_kind = notification_kind,
     nt_target = et_id t, nt_exec = et_exec t, nt_attempt = et_attempt t\<rparr>"

definition pending_of :: "string \<Rightarrow> db \<Rightarrow> target list" where
  "pending_of execution_id d =
     order_by (\<lambda>t t'. str_le (et_id t) (et_id t'))
       (filter (\<lambda>t. et_exec t = execution_id \<and> et_status t = TPending) (execution_targets d))"

definition message_of :: "notification \<Rightarrow> (string \<times> string) list" where
  "message_of n = (case marshal_notification n of Inl _ \<Rightarrow> [] | Inr payload \<Rightarrow> [(payload, message_id n)])"

fun publish_each ::
  "(string \<Rightarrow> string \<Rightarrow> string option) \<Rightarrow> notification list \<Rightarrow> string option \<Rightarrow> (string \<times> string) list \<times> string option" where
  "publish_each js [] first_err = ([], first_err)"
| "publish_each js (n # ns) first_err =
     (let first_err' = (case publish_notification js n of
             None \<Rightarrow> first_err
           | Some e \<Rightarrow> if first_err = None
               then Some (''publish target '' @ nt_target n @ '' notification: '' @ e) else first_err);
          (log, e) = publish_each js ns first_err'
      in (message_of n @ log, e))"

definition publish_pending_job_notifications ::
  "env \<Rightarrow> string \<Rightarrow> db \<Rightarrow> (string \<times> string) list \<times> string option" where
  "publish_pending_job_notifications env execution_id d =
     (case js_publish env of
        None \<Rightarrow> ([], None)
      | Some js \<Rightarrow>
          if fails env ''notify.select'' 0
          then ([], Some (''list pending execution targets: '' @ error_text env ''notify.select''))
          else
            let (log, e) = publish_each js (map notification_of (pending_of execution_id d)) None
            in if fails env ''notify.rows'' 0 \<and> e = None
               then (log, Some (''read pending execution targets: '' @ error_text env ''notify.rows''))
               else (log, e))"

section \<open>What is published\<close>

lemma publish_each_log: "fst (publish_each js ns e) = concat (map message_of ns)"
  by (induction js ns e rule: publish_each.induct) (auto simp: Let_def split: prod.splits)

lemma publish_each_error:
  "snd (publish_each js ns e) = None \<longleftrightarrow> e = None \<and> (\<forall>n \<in> set ns. publish_notification js n = None)"
  by (induction js ns e rule: publish_each.induct) (auto simp: Let_def split: prod.splits option.splits)

lemma pending_of_set:
  "set (pending_of x d) = {t \<in> set (execution_targets d). et_exec t = x \<and> et_status t = TPending}"
  by (auto simp: pending_of_def)

lemma distinct_insert_by [simp]: "distinct (map f (insert_by le x xs)) \<longleftrightarrow> distinct (map f (x # xs))"
  by (induction xs) auto

lemma distinct_order_by [simp]: "distinct (map f (order_by le xs)) = distinct (map f xs)"
proof (induction xs)
  case (Cons x xs)
  have "order_by le (x # xs) = insert_by le x (order_by le xs)" by (simp add: order_by_def)
  then show ?case using Cons by simp
qed (simp add: order_by_def)

lemma distinct_pending: "distinct (map et_id (execution_targets d)) \<Longrightarrow> distinct (map et_id (pending_of x d))"
  by (simp add: pending_of_def distinct_map_filter)

text \<open>
  The notifications of an execution.  In a database whose targets are well formed and named,
  exactly one message per pending target of the execution is given to the stream, in the order of the target ids; its
  payload is the version, the kind, the two ids and the attempt (so no command, credential or lease), it passes the
  consumer's checks, and no two messages share an identifier, so the stream's duplicate
  window drops none of them.  An error is reported exactly when a query or a publication failed.
\<close>

theorem notifications_exact:
  assumes "queue_ok d" "\<forall>t \<in> set (execution_targets d). et_id t \<noteq> []" "x \<noteq> []"
    and "js_publish env = Some js" "\<not> fails env ''notify.select'' 0"
    and "publish_pending_job_notifications env x d = (log, e)"
  shows "log = map (\<lambda>t. (json_text (notification_json (notification_of t)), message_id (notification_of t))) (pending_of x d)
    \<and> (\<forall>t \<in> set (pending_of x d). parse_notification (Some (notification_of t)) = Inr (notification_of t))
    \<and> distinct (map snd log)
    \<and> (e = None \<longleftrightarrow> \<not> fails env ''notify.rows'' 0 \<and> (\<forall>(payload, i) \<in> set log. js payload i = None))"
proof -
  have tok: "0 \<le> et_attempt t" if "t \<in> set (execution_targets d)" for t
    using assms(1) that by (auto simp: queue_ok_def queue_inv_def target_ok_def)
  have valid: "validate_notification (notification_of t) = None" if "t \<in> set (pending_of x d)" for t
    using that tok assms(2,3)
    by (auto simp: validate_notification_None pending_of_set notification_of_def notification_version_def)
  have msg: "concat (map message_of (map notification_of ts))
      = map (\<lambda>t. (json_text (notification_json (notification_of t)), message_id (notification_of t))) ts"
    if "set ts \<subseteq> set (pending_of x d)" for ts
    using that by (induction ts) (auto simp: message_of_def marshal_notification_def valid)
  let ?ns = "map notification_of (pending_of x d)"
  have log: "log = map (\<lambda>t. (json_text (notification_json (notification_of t)), message_id (notification_of t))) (pending_of x d)"
    using assms(4-6) publish_each_log [of js ?ns None] msg [OF subset_refl]
    by (auto simp: publish_pending_job_notifications_def Let_def split: prod.splits if_splits)
  have err: "e = None \<longleftrightarrow> \<not> fails env ''notify.rows'' 0 \<and> (\<forall>n \<in> set ?ns. publish_notification js n = None)"
    using assms(4-6) publish_each_error [of js ?ns None]
    by (auto simp: publish_pending_job_notifications_def Let_def split: prod.splits if_splits)
  have pub: "publish_notification js (notification_of t)
      = js (json_text (notification_json (notification_of t))) (message_id (notification_of t))"
    if "t \<in> set (pending_of x d)" for t
    using valid [OF that] by (simp add: publish_notification_def marshal_notification_def)
  have "distinct (map et_id (pending_of x d))"
    using assms(1) by (intro distinct_pending) (simp add: queue_ok_def queue_inv_def)
  then have "distinct (map (message_id \<circ> notification_of) (pending_of x d))"
    by (auto simp: distinct_map inj_on_def message_id_inj notification_of_def)
  then have "distinct (map snd log)" unfolding log by (simp add: comp_def)
  moreover have "e = None \<longleftrightarrow> \<not> fails env ''notify.rows'' 0 \<and> (\<forall>(payload, i) \<in> set log. js payload i = None)"
    unfolding err log using pub by auto
  ultimately show ?thesis using log valid by (simp add: parse_notification_def)
qed

definition sample_stream :: "string \<Rightarrow> string \<Rightarrow> string option" where
  "sample_stream payload i = (if i = ''t1:0'' then None else Some ''no responders'')"

theorem notifications_exact_witness:
  "map snd (fst (publish_pending_job_notifications (sample_env\<lparr>js_publish := Some sample_stream\<rparr>) ''e1'' sample_db))
     = [''t1:0'']"
proof -
  let ?env = "sample_env\<lparr>js_publish := Some sample_stream\<rparr>"
  obtain log e where p: "publish_pending_job_notifications ?env ''e1'' sample_db = (log, e)" by fastforce
  have "pending_of ''e1'' sample_db = [sample_target]"
    by (simp add: pending_of_def order_by_def) (simp add: sample_target_def)
  moreover have "message_id (notification_of sample_target) = ''t1:0''"
    by code_simp
  moreover have "\<forall>t \<in> set (execution_targets sample_db). et_id t \<noteq> []"
    by (simp add: sample_target_def)
  ultimately show ?thesis
    using notifications_exact [OF sample_db_ok _ _ _ _ p, of sample_stream] p by (simp add: sample_env_def)
qed

end
