(* ===== verification/Automation.thy ===== *)
theory Automation
  imports RunbookApi Notify Schedule
begin

text \<open>
  \<open>apps/api/automation.go\<close>: the automation switch of an organisation, the handlers of schedules, and a
  cycle of the embedded scheduler (\<open>run_due_schedules_once\<close>, \<open>execute_scheduled_run\<close>,
  \<open>reconcile_all_organisation_leases\<close>).  A scheduler cycle runs outside a transaction, so it gives back
  the database it has reached with its error; \<open>None\<close> in place of the pair is a cycle that does not return
  (the loop of \<open>NextAfter\<close>).  Times of the database are seconds, those of a schedule nanoseconds.
\<close>

section \<open>The switch\<close>

definition automation_actor_id :: string where "automation_actor_id = ''user_automation''"

definition zero_control :: "string \<Rightarrow> control_row" where
  "zero_control org = \<lparr>ct_org = org, ct_paused = False, ct_paused_at = None, ct_paused_by = None, ct_reason = []\<rparr>"

text \<open>\<open>None\<close> is an error of the query.\<close>

definition read_automation_control :: "env \<Rightarrow> string \<Rightarrow> string \<Rightarrow> db \<Rightarrow> control_row option" where
  "read_automation_control env at org d =
     (if fails env at 0 then None
      else Some (case List.find (\<lambda>c. ct_org c = org) (controls d) of None \<Rightarrow> zero_control org | Some c \<Rightarrow> c))"

definition automation_paused :: "env \<Rightarrow> string \<Rightarrow> string \<Rightarrow> db \<Rightarrow> bool option" where
  "automation_paused env at org d = map_option ct_paused (read_automation_control env at org d)"

definition omit_empty :: "string \<Rightarrow> string \<Rightarrow> (string \<times> json) list" where
  "omit_empty k v = (if v = [] then [] else [(k, JStr v)])"

definition control_json :: "env \<Rightarrow> control_row \<Rightarrow> json" where
  "control_json env c = JObj ([(''paused'', JBool (ct_paused c))] @ omit_empty ''paused_at'' (opt_time env (ct_paused_at c))
     @ omit_empty ''paused_by'' (or_empty (ct_paused_by c)) @ omit_empty ''reason'' (ct_reason c))"

definition handle_automation_status :: "env \<Rightarrow> actor \<Rightarrow> db \<Rightarrow> resp" where
  "handle_automation_status env a d =
     (case read_automation_control env ''automation.read'' (a_org a) d of
        None \<Rightarrow> err 500 ''failed to read automation status''
      | Some c \<Rightarrow> Resp 200 [] (JsonBody (control_json env c)))"

text \<open>\<open>INSERT ... ON CONFLICT (organisation_id) DO UPDATE\<close>.\<close>

definition upsert_control :: "control_row \<Rightarrow> (control_row \<Rightarrow> control_row) \<Rightarrow> db \<Rightarrow> db" where
  "upsert_control fresh f d =
     (if ct_org fresh \<in> ct_org ` set (controls d)
      then d\<lparr>controls := update_where (\<lambda>c. ct_org c = ct_org fresh) f (controls d)\<rparr>
      else d\<lparr>controls := controls d @ [fresh]\<rparr>)"

text \<open>The reason of the request; \<open>None\<close> for a body that does not decode.\<close>

definition handle_pause_automation :: "env \<Rightarrow> actor \<Rightarrow> string option \<Rightarrow> db \<Rightarrow> resp \<times> db" where
  "handle_pause_automation env a body d =
     (if \<not> is_senior a then write_denial env ''pause.denied'' a ''automation.paused'' ''organisation'' (a_org a)
          (deny ''automation_requires_senior'' ''Pausing automation requires senior engineer or above.'') d
      else case body of
          None \<Rightarrow> (err 400 ''invalid request body'', d)
        | Some reason \<Rightarrow>
            if fails env ''pause.upsert'' 0 then (err 500 ''failed to pause automation'', d)
            else
              let set_paused = (\<lambda>c. c\<lparr>ct_paused := True, ct_paused_at := Some (sql_now env),
                      ct_paused_by := Some (a_user_id a), ct_reason := trim_space reason\<rparr>)
              in (reply 200 [(''paused'', JBool True), (''reason'', JStr (trim_space reason))],
                  write_audit_event env ''pause.audit'' (a_org a) (a_user_id a) ''automation.paused'' ''organisation'' (a_org a)
                    ''success'' (jmap [(''reason'', JStr (trim_space reason))])
                    (upsert_control (set_paused (zero_control (a_org a))) set_paused d)))"

definition handle_resume_automation :: "env \<Rightarrow> actor \<Rightarrow> db \<Rightarrow> resp \<times> db" where
  "handle_resume_automation env a d =
     (if \<not> is_senior a then write_denial env ''resume.denied'' a ''automation.resumed'' ''organisation'' (a_org a)
          (deny ''automation_requires_senior'' ''Resuming automation requires senior engineer or above.'') d
      else if fails env ''resume.upsert'' 0 then (err 500 ''failed to resume automation'', d)
      else (reply 200 [(''paused'', JBool False)],
            write_audit_event env ''resume.audit'' (a_org a) (a_user_id a) ''automation.resumed'' ''organisation'' (a_org a)
              ''success'' JNull
              (upsert_control (zero_control (a_org a)) (\<lambda>c. c\<lparr>ct_paused := False, ct_reason := []\<rparr>) d)))"

section \<open>Schedules\<close>

definition nanos :: "int \<Rightarrow> int" where "nanos seconds = seconds * 1000000000"

text \<open>Go's zero time, 1 January of the year 1.\<close>

definition zero_time :: int where "zero_time = nanos (- 62135596800)"

definition schedule_entry :: "env \<Rightarrow> schedule_row \<Rightarrow> json" where
  "schedule_entry env s = JObj
     [(''id'', JStr (sr_id s)), (''name'', JStr (sr_name s)), (''runbook_name'', JStr (sr_runbook_name s)),
      (''target'', JStr (sr_target s)), (''reason'', JStr (sr_reason s)),
      (''params'', JStr (json_text (params_json (sr_params s)))), (''interval_seconds'', JInt (sr_interval s)),
      (''next_run_at'', JStr (time_text env (sr_next_run s))), (''enabled'', JBool (sr_enabled s)),
      (''last_run_at'', JStr (opt_time env (sr_last_run s))), (''last_error'', JStr (or_empty (sr_last_error s)))]"

definition handle_list_schedules :: "env \<Rightarrow> db \<Rightarrow> actor \<Rightarrow> resp" where
  "handle_list_schedules env d a =
     (if fails env ''schedules.list'' 0 then err 500 ''failed to list schedules''
      else reply 200 [(''schedules'', JArr (map (schedule_entry env)
             (order_by (\<lambda>x y. str_le (sr_name x) (sr_name y)) (filter (\<lambda>s. sr_org s = a_org a) (schedules d)))))])"

text \<open>The field \<open>next_run_at\<close>: blank, not RFC 3339, or an instant in seconds.\<close>

datatype next_field = NoTime | BadTime | AtTime int

record schedule_req =
  cq_name :: string
  cq_runbook_name :: string
  cq_target :: string
  cq_reason :: string
  cq_params :: "(string \<times> string) list option"
  cq_interval :: int
  cq_next :: next_field

definition schedule_error_text :: "schedule_error \<Rightarrow> string" where
  "schedule_error_text e =
     (case e of
        NameRequired \<Rightarrow> ''schedule name is required''
      | RunbookRequired \<Rightarrow> ''runbook name is required''
      | TargetRequired \<Rightarrow> ''target is required''
      | IntervalTooShort \<Rightarrow> ''interval must be at least 60 seconds''
      | NextRunRequired \<Rightarrow> ''next run time is required'')"

definition new_schedule_row :: "env \<Rightarrow> actor \<Rightarrow> schedule_req \<Rightarrow> int \<Rightarrow> schedule_row" where
  "new_schedule_row env a q next_run =
     \<lparr>sr_id = fresh_id env ''sch_'' ''schedule.id'' 0, sr_org = a_org a, sr_created_by = a_user_id a, sr_name = cq_name q,
      sr_runbook_name = cq_runbook_name q, sr_target = cq_target q, sr_reason = cq_reason q, sr_params = cq_params q,
      sr_interval = cq_interval q, sr_next_run = next_run, sr_enabled = True, sr_last_run = None, sr_last_error = None\<rparr>"

definition insert_schedule :: "env \<Rightarrow> schedule_row \<Rightarrow> db \<Rightarrow> db option" where
  "insert_schedule env s d =
     (if fails env ''schedule.insert'' 0 \<or> sr_id s \<in> sr_id ` set (schedules d)
        \<or> (sr_org s, sr_name s) \<in> (\<lambda>s. (sr_org s, sr_name s)) ` set (schedules d) then None
      else Some (d\<lparr>schedules := schedules d @ [s]\<rparr>))"

definition handle_create_schedule :: "env \<Rightarrow> actor \<Rightarrow> schedule_req option \<Rightarrow> db \<Rightarrow> resp \<times> db" where
  "handle_create_schedule env a body d =
     (if \<not> is_senior a then write_denial env ''schedule.denied'' a ''automation.schedule.created'' ''automation_schedule'' []
          (deny ''schedule_requires_senior'' ''Creating schedules requires senior engineer or above.'') d
      else case body of
          None \<Rightarrow> (err 400 ''invalid request body'', d)
        | Some q \<Rightarrow>
            if cq_next q = BadTime then (err 400 ''next_run_at must be RFC3339'', d)
            else
              let next_ns = (case cq_next q of AtTime t \<Rightarrow> nanos t
                    | _ \<Rightarrow> nanos (go_now env) + duration_of (cq_interval q));
                  s = \<lparr>sc_id = [], sc_org = a_org a, sc_created_by = a_user_id a, sc_name = cq_name q,
                        sc_runbook_name = cq_runbook_name q, sc_target = cq_target q, sc_reason = cq_reason q,
                        sc_params = case_option [] id (cq_params q), sc_interval = cq_interval q,
                        sc_next_run = (if next_ns = zero_time then None else Some next_ns), sc_enabled = True\<rparr>
              in case validate_schedule s of
                  Some e \<Rightarrow> (err 400 (schedule_error_text e), d)
                | None \<Rightarrow>
                    let next_run = next_ns div 1000000000
                    in case insert_schedule env (new_schedule_row env a q next_run) d of
                        None \<Rightarrow> (err 409 ''schedule name already exists or could not be created'', d)
                      | Some d1 \<Rightarrow>
                          (reply 201 [(''status'', JStr ''created''), (''name'', JStr (cq_name q)),
                              (''next_run_at'', JStr (time_text env next_run))],
                           write_audit_event env ''schedule.audit'' (a_org a) (a_user_id a) ''automation.schedule.created''
                             ''automation_schedule'' (cq_name q) ''success''
                             (jmap [(''runbook'', JStr (cq_runbook_name q)), (''target'', JStr (cq_target q)),
                                (''interval_seconds'', JInt (cq_interval q))]) d1))"

definition handle_disable_schedule :: "env \<Rightarrow> actor \<Rightarrow> string \<Rightarrow> db \<Rightarrow> resp \<times> db" where
  "handle_disable_schedule env a schedule_id d =
     (let P = (\<lambda>s. sr_id s = schedule_id \<and> sr_org s = a_org a)
      in if \<not> is_senior a then write_denial env ''disable.denied'' a ''automation.schedule.disabled'' ''automation_schedule''
             schedule_id (deny ''schedule_requires_senior'' ''Changing schedules requires senior engineer or above.'') d
         else if fails env ''disable.update'' 0 then (err 500 ''failed to disable schedule'', d)
         else if count_where P (schedules d) = 0 then (err 404 ''schedule not found'', d)
         else (reply 200 [(''status'', JStr ''disabled'')],
               write_audit_event env ''disable.audit'' (a_org a) (a_user_id a) ''automation.schedule.disabled''
                 ''automation_schedule'' schedule_id ''success'' JNull
                 (d\<lparr>schedules := update_where P (\<lambda>s. s\<lparr>sr_enabled := False\<rparr>) (schedules d)\<rparr>)))"

section \<open>A scheduled run\<close>

definition due_row :: "env \<Rightarrow> schedule_row \<Rightarrow> bool" where
  "due_row env s \<longleftrightarrow> sr_enabled s \<and> sr_next_run s \<le> sql_now env"

definition schedule_of :: "schedule_row \<Rightarrow> schedule" where
  "schedule_of s =
     \<lparr>sc_id = sr_id s, sc_org = sr_org s, sc_created_by = sr_created_by s, sc_name = sr_name s,
      sc_runbook_name = sr_runbook_name s, sc_target = sr_target s, sc_reason = sr_reason s,
      sc_params = case_option [] id (sr_params s), sc_interval = sr_interval s,
      sc_next_run = Some (nanos (sr_next_run s)), sc_enabled = True\<rparr>"

definition scheduled_execution_row ::
  "env \<Rightarrow> schedule \<Rightarrow> string \<Rightarrow> version_row \<Rightarrow> runbook \<Rightarrow> string \<Rightarrow> string \<Rightarrow> execution" where
  "scheduled_execution_row env s exec_id v rb environment command =
     \<lparr>ex_id = exec_id, ex_org = sc_org s, ex_actor = automation_actor_id, ex_actor_role = ''automation'',
      ex_delegated_by = Some (sc_created_by s), ex_approval_id = None, ex_type = ''runbook'', ex_status = EQueued,
      ex_risk = rv_risk v, ex_environment = environment, ex_reason = sc_reason s, ex_command = command,
      ex_command_preview = redact_text env command, ex_command_hash = hash_cmd env command,
      ex_timeout = timeout_or_default (x_timeout_seconds (s_execution (r_spec rb))),
      ex_requested_at = sql_now env, ex_started_at = None, ex_finished_at = None, ex_error = None,
      ex_metadata = JObj []\<rparr>"

text \<open>Labels of the statements of one schedule's run.\<close>

definition at_schedule :: "string \<Rightarrow> schedule \<Rightarrow> string" where
  "at_schedule what s = ''sched.'' @ what @ '':'' @ sc_id s"

definition scheduled_run_tx ::
  "env \<Rightarrow> schedule \<Rightarrow> string \<Rightarrow> version_row \<Rightarrow> runbook \<Rightarrow> string list \<Rightarrow> string \<Rightarrow> string \<Rightarrow> json list \<Rightarrow> db
     \<Rightarrow> string + db" where
  "scheduled_run_tx env s runbook_id v rb ids environment command snapshots d =
     (let at = (\<lambda>what. at_schedule what s);
          exec_id = fresh_id env ''exe_'' (at ''exec'') 0
      in refuse_if (fails env (at ''begin'') 0) (error_text env (at ''begin'')) (
         attempt (error_text env (at ''insert''))
           (insert_execution env (at ''insert'') (scheduled_execution_row env s exec_id v rb environment command) d) (\<lambda>d1.
         attempt (error_text env (at ''target''))
           (insert_targets env (at ''target'') (sc_org s) exec_id 0 ids snapshots d1) (\<lambda>d2.
         attempt (error_text env (at ''event''))
           (record_execution_event env (at ''event'') 0 (sc_org s) exec_id [] [] ''queued'' ''automation.queued''
              [(''schedule_id'', JStr (sc_id s)), (''schedule_name'', JStr (sc_name s))] d2) (\<lambda>d3.
         attempt (error_text env (at ''audit''))
           (write_audit_event_type env (at ''audit'') (sc_org s) automation_actor_id ''automation''
              ''automation.execution.queued'' ''execution'' exec_id ''queued''
              (jmap [(''schedule_id'', JStr (sc_id s)), (''runbook_id'', JStr runbook_id),
                 (''target_count'', JInt (int (length ids)))]) d3) (\<lambda>d4.
         refuse_if (fails env (at ''commit'') 0) (error_text env (at ''commit'')) (Inr d4)))))))"

text \<open>The checks before the transaction.\<close>

definition scheduled_plan ::
  "env \<Rightarrow> schedule \<Rightarrow> db \<Rightarrow> string + (string \<times> version_row \<times> runbook \<times> string list \<times> string \<times> string \<times> json list)" where
  "scheduled_plan env s d =
     (attempt ''runbook is not published''
        (first_row (fails env (at_schedule ''select'' s) 0) (\<lambda>r. rb_org r = sc_org s \<and> rb_name r = sc_runbook_name s
            \<and> rb_status r = ''published'' \<and> current_version d r \<noteq> None) (runbook_rows d)) (\<lambda>r.
      attempt ''runbook is not published'' (current_version d r) (\<lambda>v.
      refuse_if (rv_risk v = ''high'' \<or> rv_risk v = ''critical'')
        ''high-risk schedules require an approval workflow and are not auto-executed'' (
      attempt (''invalid stored runbook definition: '' @ error_text env (at_schedule ''definition'' s)) (rv_definition v) (\<lambda>rb.
      let ids = resolve_targets env (sc_org s) (sc_target s) d;
          environment = fst (target_environment env (sc_org s) ids d)
      in refuse_if (ids = []) (''no servers found for target '' @ go_quote (sc_target s)) (
         refuse_if (snd (target_environment env (sc_org s) ids d) \<or> \<not> environment_allowed rb environment
             \<or> \<not> runbook_targets_allowed env (sc_org s) (s_targets (r_spec rb)) 0 ids d)
           ''schedule target is not permitted'' (
         refuse_if (environment = ''production'' \<and> trim_space (sc_reason s) = [])
           ''production schedules require a reason'' (
         attempt_sum param_error_text (render_command rb (sc_params s)) (\<lambda>command.
         let snapshots = snapshot_targets env (sc_org s) ids d
         in refuse_if (length snapshots \<noteq> length ids) ''failed to snapshot schedule targets''
              (Inr (rb_id r, v, rb, ids, environment, command, snapshots)))))))))))"

text \<open>The error of the run, if any, and the database; a failed notification is an error after the commit.\<close>

definition execute_scheduled_run :: "env \<Rightarrow> schedule \<Rightarrow> db \<Rightarrow> string option \<times> db" where
  "execute_scheduled_run env s d =
     (case scheduled_plan env s d of
        Inl e \<Rightarrow> (Some e, d)
      | Inr (runbook_id, v, rb, ids, environment, command, snapshots) \<Rightarrow>
          (case scheduled_run_tx env s runbook_id v rb ids environment command snapshots d of
             Inl e \<Rightarrow> (Some e, d)
           | Inr d' \<Rightarrow>
               (case snd (publish_pending_job_notifications env (fresh_id env ''exe_'' (at_schedule ''exec'' s) 0) d') of
                  None \<Rightarrow> (None, d')
                | Some e \<Rightarrow>
                    (Some (''execution committed but JetStream notification publication was incomplete: '' @ e), d'))))"

section \<open>A cycle of the scheduler\<close>

text \<open>The claim of a schedule: its next run moves on before it is executed.\<close>

definition claim_schedule :: "env \<Rightarrow> schedule_row \<Rightarrow> int \<Rightarrow> db \<Rightarrow> db" where
  "claim_schedule env s next_run d =
     d\<lparr>schedules := update_where (\<lambda>x. sr_id x = sr_id s \<and> due_row env x)
        (\<lambda>x. x\<lparr>sr_next_run := next_run, sr_last_run := Some (sql_now env), sr_last_error := None\<rparr>) (schedules d)\<rparr>"

definition record_schedule_error :: "string \<Rightarrow> string \<Rightarrow> db \<Rightarrow> db" where
  "record_schedule_error schedule_id e d =
     d\<lparr>schedules := update_where (\<lambda>x. sr_id x = schedule_id) (\<lambda>x. x\<lparr>sr_last_error := Some e\<rparr>) (schedules d)\<rparr>"

fun run_due :: "env \<Rightarrow> (string \<Rightarrow> bool) \<Rightarrow> schedule_row list \<Rightarrow> db \<Rightarrow> (string option \<times> db) option" where
  "run_due env paused [] d = Some (None, d)"
| "run_due env paused (s # ss) d =
     (if paused (sr_org s) then run_due env paused ss d
      else case automation_paused env (''sched.paused:'' @ sr_id s) (sr_org s) d of
          None \<Rightarrow> Some (Some (error_text env (''sched.paused:'' @ sr_id s)), d)
        | Some True \<Rightarrow> run_due env paused ss d
        | Some False \<Rightarrow>
            (case next_after (schedule_of s) (nanos (go_now env)) of
               None \<Rightarrow> None
             | Some next_ns \<Rightarrow>
                 if fails env (''sched.claim:'' @ sr_id s) 0 then Some (Some (error_text env (''sched.claim:'' @ sr_id s)), d)
                 else if count_where (\<lambda>x. sr_id x = sr_id s \<and> due_row env x) (schedules d) = 0 then run_due env paused ss d
                 else
                   (case execute_scheduled_run env (schedule_of s) (claim_schedule env s (next_ns div 1000000000) d) of
                      (None, d2) \<Rightarrow> run_due env paused ss d2
                    | (Some e, d2) \<Rightarrow>
                        if fails env (''sched.error:'' @ sr_id s) 0
                        then Some (Some (error_text env (''sched.error:'' @ sr_id s)), d2)
                        else run_due env paused ss (record_schedule_error (sr_id s) e d2))))"

text \<open>The organisations with a due schedule, and which of them are paused; \<open>Inl\<close> is the error of a query.\<close>

fun paused_orgs :: "env \<Rightarrow> string list \<Rightarrow> db \<Rightarrow> string + (string \<Rightarrow> bool)" where
  "paused_orgs env [] d = Inr (\<lambda>_. False)"
| "paused_orgs env (x # xs) d =
     (case automation_paused env (''sched.org:'' @ x) x d of
        None \<Rightarrow> Inl (error_text env (''sched.org:'' @ x))
      | Some p \<Rightarrow> (case paused_orgs env xs d of Inl e \<Rightarrow> Inl e | Inr m \<Rightarrow> Inr (m(x := p))))"

definition due_batch :: "env \<Rightarrow> db \<Rightarrow> schedule_row list" where
  "due_batch env d = take 20 (order_by (\<lambda>x y. sr_next_run x \<le> sr_next_run y) (filter (due_row env) (schedules d)))"

definition run_due_schedules_once :: "env \<Rightarrow> db \<Rightarrow> (string option \<times> db) option" where
  "run_due_schedules_once env d =
     (let orgs = remdups (map sr_org (filter (due_row env) (schedules d)))
      in if fails env ''sched.orgs'' 0 then Some (Some (error_text env ''sched.orgs''), d)
         else case paused_orgs env orgs d of
             Inl e \<Rightarrow> Some (Some e, d)
           | Inr paused \<Rightarrow>
               if orgs = [] then Some (None, d)
               else if fails env ''sched.due'' 0 then Some (Some (error_text env ''sched.due''), d)
               else run_due env paused (due_batch env d) d)"

section \<open>Reconciliation in the background\<close>

text \<open>
  Here \<open>reconcileExpiredLeases\<close> runs without a transaction: when a statement fails, the updates before
  it stay.  The flag says whether the pass was completed.
\<close>

fun reconcile_targets_live :: "env \<Rightarrow> string \<Rightarrow> nat \<Rightarrow> target list \<Rightarrow> db \<Rightarrow> db \<times> bool" where
  "reconcile_targets_live env org i [] d = (d, True)"
| "reconcile_targets_live env org i (t # ts) d =
     (let dead = et_attempt t \<ge> et_max_attempts t;
          backoff = retry_backoff_seconds (et_attempt t);
          d1 = set_running_target (et_id t) (if dead then dead_letter_row env else requeue_row env backoff) d
      in if fails env (if dead then ''reconcile.dead_letter'' else ''reconcile.requeue'') i then (d, False)
         else case (if dead then record_execution_event env ''reconcile.dead_letter.event'' i org (et_exec t) (et_id t)
                ''running'' ''dead_letter'' ''execution.target.dead_lettered''
                [(''reason'', JStr ''lease_expired''), (''attempt'', JInt (et_attempt t)),
                 (''max_attempts'', JInt (et_max_attempts t))] d1
              else record_execution_event env ''reconcile.requeue.event'' i org (et_exec t) (et_id t)
                ''running'' ''pending'' ''execution.target.lease_expired''
                [(''retry_at_seconds'', JInt backoff), (''attempt'', JInt (et_attempt t)),
                 (''max_attempts'', JInt (et_max_attempts t))] d1) of
             None \<Rightarrow> (d1, False)
           | Some d2 \<Rightarrow> reconcile_targets_live env org (i + 1) ts d2)"

definition reconcile_live :: "env \<Rightarrow> string \<Rightarrow> db \<Rightarrow> db \<times> bool" where
  "reconcile_live env org d =
     (if fails env ''reconcile.select'' 0 then (d, False)
      else case reconcile_targets_live env org 0 (expired_targets env org d) d of
          (d1, False) \<Rightarrow> (d1, False)
        | (d1, True) \<Rightarrow>
            (case finalize_reconciled_executions env org d1 of None \<Rightarrow> (d1, False) | Some d2 \<Rightarrow> (d2, True)))"

text \<open>The statements and identifiers of the pass over one organisation.\<close>

definition env_for :: "string \<Rightarrow> env \<Rightarrow> env" where
  "env_for org env = env\<lparr>fails := (\<lambda>at i. fails env (at @ '':'' @ org) i),
     short_id := (\<lambda>at i. short_id env (at @ '':'' @ org) i)\<rparr>"

fun reconcile_orgs :: "env \<Rightarrow> string list \<Rightarrow> db \<Rightarrow> db \<times> bool" where
  "reconcile_orgs env [] d = (d, True)"
| "reconcile_orgs env (x # xs) d =
     (case reconcile_live (env_for x env) x d of
        (d1, True) \<Rightarrow> reconcile_orgs env xs d1
      | (d1, False) \<Rightarrow> (d1, False))"

definition reconcile_all_organisation_leases :: "env \<Rightarrow> db \<Rightarrow> db \<times> bool" where
  "reconcile_all_organisation_leases env d =
     (if fails env ''reconcile.orgs'' 0 then (d, False)
      else reconcile_orgs env (remdups (map et_org (filter (\<lambda>t. et_status t = TRunning) (execution_targets d)))) d)"

text \<open>One tick of \<open>runEmbeddedScheduler\<close>: both cycles, whatever the first answers, if it returns.\<close>

definition scheduler_tick :: "env \<Rightarrow> db \<Rightarrow> db option" where
  "scheduler_tick env d =
     (case run_due_schedules_once env d of
        None \<Rightarrow> None
      | Some (_, d1) \<Rightarrow> Some (fst (reconcile_all_organisation_leases env d1)))"


end
