(* ===== verification/AutomationProps.thy ===== *)
theory AutomationProps
  imports Automation ApprovalProps
begin

text \<open>
  The scheduler: what must hold before a scheduled run is queued, that a paused organisation queues nothing,
  and that a cycle and the background reconciliation keep the invariant of the queue, also when they stop at an error.
\<close>

section \<open>One scheduled run\<close>

definition scheduled :: "env \<Rightarrow> schedule_row \<Rightarrow> db \<Rightarrow> execution \<Rightarrow> bool" where
  "scheduled env s d x \<longleftrightarrow>
     (\<exists>r v rb. r \<in> set (runbook_rows d) \<and> rb_org r = sr_org s \<and> rb_name r = sr_runbook_name s
        \<and> rb_status r = ''published'' \<and> current_version d r = Some v \<and> rv_definition v = Some rb
        \<and> rv_risk v \<noteq> ''high'' \<and> rv_risk v \<noteq> ''critical'' \<and> ex_risk x = rv_risk v
        \<and> environment_allowed rb (ex_environment x)
        \<and> runbook_targets_allowed env (sr_org s) (s_targets (r_spec rb)) 0 (resolve_targets env (sr_org s) (sr_target s) d) d
        \<and> render_command rb (case_option [] id (sr_params s)) = Inr (ex_command x))
     \<and> resolve_targets env (sr_org s) (sr_target s) d \<noteq> []
     \<and> (\<forall>i \<in> set (resolve_targets env (sr_org s) (sr_target s) d).
          \<exists>v \<in> set (servers d). sv_id v = i \<and> sv_org v = sr_org s \<and> sv_environment v = ex_environment x)
     \<and> (ex_environment x = ''production'' \<longrightarrow> trim_space (sr_reason s) \<noteq> [])
     \<and> ex_org x = sr_org s \<and> ex_actor x = automation_actor_id \<and> ex_delegated_by x = Some (sr_created_by s)
     \<and> ex_status x = EQueued"

lemma scheduled_tx_queued:
  assumes "scheduled_run_tx env s i v rb ids environment command snaps d = Inr d'" "length snaps = length ids"
  shows "queued_rows (scheduled_execution_row env s (fresh_id env ''exe_'' (at_schedule ''exec'' s) 0) v rb environment command)
      ids (sc_org s) d d'
    \<and> (\<exists>E T V A. d' = d\<lparr>executions := E, execution_targets := T, execution_events := V, audit_events := A\<rparr>)"
proof -
  let ?at = "\<lambda>what. at_schedule what s"
  let ?id = "fresh_id env ''exe_'' (?at ''exec'') 0"
  let ?e = "scheduled_execution_row env s ?id v rb environment command"
  obtain d1 d2 d3 where d1: "insert_execution env (?at ''insert'') ?e d = Some d1"
    and d2: "insert_targets env (?at ''target'') (sc_org s) ?id 0 ids snaps d1 = Some d2"
    and d3: "\<exists>md. record_execution_event env (?at ''event'') 0 (sc_org s) ?id [] [] ''queued'' ''automation.queued'' md d2 = Some d3"
    and d4: "\<exists>md. write_audit_event_type env (?at ''audit'') (sc_org s) automation_actor_id ''automation''
        ''automation.execution.queued'' ''execution'' ?id ''queued'' md d3 = Some d'"
    using assms(1) unfolding scheduled_run_tx_def Let_def by auto
  obtain A where A: "d' = d3\<lparr>audit_events := A\<rparr>"
    using d4 by (auto simp: write_audit_event_type_def Let_def split: if_splits)
  obtain V where V: "d3 = d2\<lparr>execution_events := V\<rparr>"
    using d3 by (auto simp: record_execution_event_def Let_def split: if_splits)
  have eid: "ex_id ?e = ?id" by (simp add: scheduled_execution_row_def)
  have tables: "executions d' = executions d2" "execution_targets d' = execution_targets d2" using A V by simp_all
  have "queued_rows ?e ids (sc_org s) d d'"
    using queue_chain [OF d1 _ assms(2) tables] d2 eid by simp
  then show ?thesis
    using insert_execution_shape [OF d1] insert_targets_shape [OF d2 assms(2)] A V by auto
qed

lemma scheduled_planned:
  assumes "scheduled_plan env (schedule_of s) d = Inr (i, v, rb, ids, environment, command, snaps)"
  shows "length snaps = length ids \<and> ids = resolve_targets env (sr_org s) (sr_target s) d \<and> ids \<noteq> []
    \<and> scheduled env s d (scheduled_execution_row env (schedule_of s) x v rb environment command)"
proof -
  let ?ids = "resolve_targets env (sr_org s) (sr_target s) d"
  obtain e mixed where te: "target_environment env (sr_org s) ?ids d = (e, mixed)" by fastforce
  obtain r where r: "first_row (fails env (at_schedule ''select'' (schedule_of s)) 0) (\<lambda>r. rb_org r = sr_org s
      \<and> rb_name r = sr_runbook_name s \<and> rb_status r = ''published'' \<and> current_version d r \<noteq> None) (runbook_rows d) = Some r"
    and f: "current_version d r = Some v" "rv_definition v = Some rb" "rv_risk v \<noteq> ''high''" "rv_risk v \<noteq> ''critical''"
      "?ids \<noteq> []" "\<not> mixed" "environment_allowed rb e"
      "runbook_targets_allowed env (sr_org s) (s_targets (r_spec rb)) 0 ?ids d"
      "e = ''production'' \<longrightarrow> trim_space (sr_reason s) \<noteq> []"
      "render_command rb (case_option [] id (sr_params s)) = Inr command"
      "length snaps = length ids" "ids = ?ids" "environment = e"
    using assms te by (auto simp: scheduled_plan_def Let_def schedule_of_def)
  have "\<forall>x \<in> set ?ids. \<exists>v \<in> set (servers d). sv_id v = x \<and> sv_org v = sr_org s \<and> sv_environment v = e"
    using target_environment_sound [of env "sr_org s" ?ids d e] te f(6) by auto
  then show ?thesis
    using f first_row_Some [OF r] by (auto simp: scheduled_def scheduled_execution_row_def schedule_of_def)
qed

section \<open>A cycle\<close>

text \<open>What a scheduled run reads is not changed by the runs before it.\<close>

definition same_inventory :: "db \<Rightarrow> db \<Rightarrow> bool" where
  "same_inventory d d' \<longleftrightarrow> servers d' = servers d \<and> server_tags d' = server_tags d \<and> runbook_rows d' = runbook_rows d
     \<and> runbook_versions d' = runbook_versions d \<and> controls d' = controls d"

lemma find_server_cong: "same_inventory d d' \<Longrightarrow> find_server org x d' = find_server org x d"
  by (simp add: find_server_def same_inventory_def)

lemma tags_present_cong: "same_inventory d d' \<Longrightarrow> tags_present env org x ts d' = tags_present env org x ts d"
  by (induction env org x ts d rule: tags_present.induct) (auto simp: same_inventory_def)

lemma targets_allowed_cong:
  "same_inventory d d' \<Longrightarrow> runbook_targets_allowed env org rules i xs d' = runbook_targets_allowed env org rules i xs d"
  by (induction env org rules i xs d rule: runbook_targets_allowed.induct)
    (auto simp: find_server_cong tags_present_cong split: option.splits)

lemma scheduled_cong:
  assumes "same_inventory d d'"
  shows "scheduled env s d' x = scheduled env s d x"
proof -
  have "resolve_targets env org t d' = resolve_targets env org t d" for org t
    using assms unfolding same_inventory_def resolve_targets_def by (simp only:)
  moreover have "current_version d' r = current_version d r" for r
    using assms by (simp add: current_version_def same_inventory_def)
  ultimately show ?thesis
    using assms unfolding scheduled_def by (simp add: targets_allowed_cong [OF assms] same_inventory_def)
qed

text \<open>What one schedule's turn does.\<close>

lemma execute_scheduled_cases:
  assumes "execute_scheduled_run env (schedule_of s) d = (e, d')"
  obtains (None) "d' = d" | (Queued) x where "scheduled env s d x"
    "queued_rows x (resolve_targets env (sr_org s) (sr_target s) d) (sr_org s) d d'"
    "resolve_targets env (sr_org s) (sr_target s) d \<noteq> []"
    "\<exists>E T V A. d' = d\<lparr>executions := E, execution_targets := T, execution_events := V, audit_events := A\<rparr>"
proof (cases "scheduled_plan env (schedule_of s) d")
  case (Inl a)
  then show ?thesis using assms None by (simp add: execute_scheduled_run_def)
next
  case (Inr p)
  obtain i v rb ids environment command snaps where p: "p = (i, v, rb, ids, environment, command, snaps)"
    by (metis prod_cases7)
  note plan = scheduled_planned [OF Inr [unfolded p]]
  show ?thesis
  proof (cases "scheduled_run_tx env (schedule_of s) i v rb ids environment command snaps d")
    case Inl': (Inl a)
    then show ?thesis using assms Inr p None by (simp add: execute_scheduled_run_def)
  next
    case Inr': (Inr d1)
    then have "d' = d1" using assms Inr p by (auto simp: execute_scheduled_run_def split: option.splits)
    moreover have "sc_org (schedule_of s) = sr_org s" by (simp add: schedule_of_def)
    ultimately show ?thesis using scheduled_tx_queued [OF Inr'] plan Queued by metis
  qed
qed

lemma claim_schedule_tables [simp]:
  "executions (claim_schedule env s n d) = executions d" "execution_targets (claim_schedule env s n d) = execution_targets d"
  "same_inventory d' (claim_schedule env s n d) = same_inventory d' d"
  by (simp_all add: claim_schedule_def same_inventory_def)

lemma record_schedule_error_tables [simp]:
  "executions (record_schedule_error i e d) = executions d"
  "execution_targets (record_schedule_error i e d) = execution_targets d"
  "same_inventory d' (record_schedule_error i e d) = same_inventory d' d"
  by (simp_all add: record_schedule_error_def same_inventory_def)

lemma same_inventory_trans: "same_inventory d d' \<Longrightarrow> same_inventory d' d'' \<Longrightarrow> same_inventory d d''"
  by (simp add: same_inventory_def)

definition org_paused :: "db \<Rightarrow> string \<Rightarrow> bool" where
  "org_paused d org \<longleftrightarrow> (case List.find (\<lambda>c. ct_org c = org) (controls d) of None \<Rightarrow> False | Some c \<Rightarrow> ct_paused c)"

lemma automation_paused_org: "automation_paused env at org d = Some p \<Longrightarrow> p = org_paused d org"
  by (auto simp: automation_paused_def read_automation_control_def org_paused_def zero_control_def split: if_splits option.splits)

text \<open>One turn, whatever its outcome: the claim, the run, the recorded error.\<close>

lemma turn_cases:
  assumes "execute_scheduled_run env (schedule_of s) (claim_schedule env s n d) = (e, d1)"
    and "d2 = d1 \<or> d2 = record_schedule_error (sr_id s) m d1"
  shows "same_inventory d d2 \<and> (sys_ok d \<longrightarrow> sys_ok d2)
    \<and> (executions d2 = executions d \<or> (\<exists>x. executions d2 = executions d @ [x] \<and> scheduled env s d x))"
proof -
  have same: "same_inventory d (claim_schedule env s n d)" by (simp add: same_inventory_def claim_schedule_def)
  have tabs: "executions d2 = executions d1" "execution_targets d2 = execution_targets d1" "same_inventory d d2 = same_inventory d d1"
    using assms(2) by auto
  have ok: "sys_ok (claim_schedule env s n d) = sys_ok d" "sys_ok d2 = sys_ok d1"
    using tabs by (auto intro!: sys_ok_cong)
  from assms(1) show ?thesis
  proof (cases rule: execute_scheduled_cases)
    case None
    then show ?thesis using tabs ok by (simp add: same_inventory_def claim_schedule_def)
  next
    case (Queued x)
    have "same_inventory d d1" using Queued(4) same by (auto simp: same_inventory_def)
    moreover have "executions d1 = executions d @ [x]" using Queued(2) by (simp add: queued_rows_def)
    moreover have "ex_status x = EQueued" using Queued(1) by (simp add: scheduled_def)
    ultimately show ?thesis
      using tabs ok queued_rows_inv [OF _ Queued(2,3)] Queued(1) scheduled_cong [OF same] by auto
  qed
qed

lemma run_due_Cons:
  assumes "run_due env paused (s # ss) d = Some (e, d')"
  obtains (Skip) "run_due env paused ss d = Some (e, d')" | (Stop) "d' = d"
  | (Turn) n m msg d1 d2 where "\<not> paused (sr_org s)" "\<not> org_paused d (sr_org s)"
      "execute_scheduled_run env (schedule_of s) (claim_schedule env s n d) = (m, d1)"
      "d2 = d1 \<or> d2 = record_schedule_error (sr_id s) msg d1"
      "d' = d2 \<or> run_due env paused ss d2 = Some (e, d')"
proof (cases "paused (sr_org s) \<or> automation_paused env (''sched.paused:'' @ sr_id s) (sr_org s) d \<noteq> Some False")
  case True
  then show ?thesis using assms Skip Stop by (auto split: if_splits option.splits bool.splits)
next
  case False
  then obtain k where k: "next_after (schedule_of s) (nanos (go_now env)) = Some k"
    using assms by (cases "next_after (schedule_of s) (nanos (go_now env))") auto
  obtain m d1 where x: "execute_scheduled_run env (schedule_of s) (claim_schedule env s (k div 1000000000) d) = (m, d1)"
    by fastforce
  have "\<not> org_paused d (sr_org s)" using False automation_paused_org by fastforce
  then show ?thesis
    using assms False k x Skip Stop Turn [of "k div 1000000000" m d1]
    by (cases m) (auto split: if_splits)
qed

definition queued_for :: "env \<Rightarrow> (string \<Rightarrow> bool) \<Rightarrow> db \<Rightarrow> schedule_row \<Rightarrow> execution \<Rightarrow> bool" where
  "queued_for env paused d s x \<longleftrightarrow> \<not> paused (sr_org s) \<and> \<not> org_paused d (sr_org s) \<and> scheduled env s d x"

lemma queued_for_cong:
  assumes "same_inventory d d'"
  shows "queued_for env paused d' = queued_for env paused d"
proof -
  have "org_paused d' = org_paused d" using assms by (intro ext) (simp add: org_paused_def same_inventory_def)
  then show ?thesis by (intro ext) (simp add: queued_for_def scheduled_cong [OF assms])
qed

lemma run_due_shape:
  "run_due env paused ss d = Some (e, d') \<Longrightarrow>
     same_inventory d d' \<and> (sys_ok d \<longrightarrow> sys_ok d')
     \<and> (\<exists>us xs. subseq us ss \<and> executions d' = executions d @ xs \<and> list_all2 (queued_for env paused d) us xs)"
proof (induction ss arbitrary: d)
  case Nil
  then show ?case by (auto simp: same_inventory_def)
next
  case (Cons s ss)
  have stop: "\<exists>us xs. subseq us (s # ss) \<and> executions d1 = executions d @ xs \<and> list_all2 (queued_for env paused d) us xs"
    if "executions d1 = executions d" for d1
    using that by (intro exI [of _ "[]"]) simp
  from Cons.prems show ?case
  proof (cases rule: run_due_Cons)
    case Skip
    then show ?thesis using Cons.IH by (meson list_emb_Cons)
  next
    case Stop
    then show ?thesis using stop by (simp add: same_inventory_def)
  next
    case (Turn n m msg d1 d2)
    note turn = turn_cases [OF Turn(3,4)]
    have rest: "same_inventory d d' \<and> (sys_ok d \<longrightarrow> sys_ok d') \<and> (\<exists>us xs. subseq us ss
        \<and> executions d' = executions d2 @ xs \<and> list_all2 (queued_for env paused d) us xs)"
      using Turn(5)
    proof
      assume "d' = d2"
      then show ?thesis using turn by (intro conjI exI [of _ "[]"]) auto
    next
      assume "run_due env paused ss d2 = Some (e, d')"
      then show ?thesis
        using Cons.IH [of d2] turn queued_for_cong [of d d2] same_inventory_trans [of d d2 d'] by simp
    qed
    then obtain us xs where us: "subseq us ss" "executions d' = executions d2 @ xs" "list_all2 (queued_for env paused d) us xs"
      by blast
    show ?thesis
    proof (cases "executions d2 = executions d")
      case True
      then show ?thesis using rest us by (metis list_emb_Cons)
    next
      case False
      then obtain x where x: "executions d2 = executions d @ [x]" "queued_for env paused d s x"
        using turn Turn(1,2) by (auto simp: queued_for_def)
      then have "subseq (s # us) (s # ss) \<and> executions d' = executions d @ x # xs
          \<and> list_all2 (queued_for env paused d) (s # us) (x # xs)" using us by simp
      then show ?thesis using rest by blast
    qed
  qed
qed

lemma scheduled_gates_shape:
  assumes "run_due_schedules_once env d = Some (e, d')"
  shows "\<exists>us xs. executions d' = executions d @ xs \<and> subseq us (due_batch env d) \<and> length us \<le> 20
    \<and> list_all2 (\<lambda>s x. s \<in> set (schedules d) \<and> due_row env s \<and> \<not> org_paused d (sr_org s) \<and> scheduled env s d x) us xs"
proof -
  have batch: "set us \<subseteq> {s \<in> set (schedules d). due_row env s} \<and> length us \<le> 20" if "subseq us (due_batch env d)" for us
  proof
    have "length us \<le> length (due_batch env d)" using that by (rule list_emb_length)
    then show "length us \<le> 20" by (simp add: due_batch_def)
    have "set (due_batch env d) \<subseteq> {s \<in> set (schedules d). due_row env s}"
      unfolding due_batch_def using set_take_subset [of 20] by fastforce
    then show "set us \<subseteq> {s \<in> set (schedules d). due_row env s}" using that by (blast dest: list_emb_set)
  qed
  obtain us xs where us: "executions d' = executions d @ xs" "subseq us (due_batch env d)"
    "list_all2 (\<lambda>s x. \<not> org_paused d (sr_org s) \<and> scheduled env s d x) us xs"
  proof -
    consider (same) "d' = d" | (run) paused where "run_due env paused (due_batch env d) d = Some (e, d')"
      using assms by (auto simp: run_due_schedules_once_def Let_def split: if_splits sum.splits)
    then show ?thesis
    proof cases
      case same
      then show ?thesis by (intro that [of "[]" "[]"]) simp_all
    next
      case run
      then obtain us xs where us: "subseq us (due_batch env d)" "executions d' = executions d @ xs"
        "list_all2 (queued_for env paused d) us xs" using run_due_shape by blast
      have "list_all2 (\<lambda>s x. \<not> org_paused d (sr_org s) \<and> scheduled env s d x) us xs"
        using us(3) by (rule list_all2_mono) (simp add: queued_for_def)
      then show ?thesis using us that by blast
    qed
  qed
  have mem: "us ! i \<in> set (schedules d) \<and> due_row env (us ! i)" if "i < length us" for i
    using nth_mem [OF that] batch [OF us(2)] by blast
  have "list_all2 (\<lambda>s x. s \<in> set (schedules d) \<and> due_row env s \<and> \<not> org_paused d (sr_org s) \<and> scheduled env s d x) us xs"
    using us(3) mem by (auto simp: list_all2_conv_all_nth)
  then show ?thesis using us batch by blast
qed

text \<open>
  C17: a cycle of the scheduler queues at most twenty executions, at most one for each of the
  first twenty due schedules and in their order; each for an enabled, due schedule of an organisation that is not
  paused, with a published runbook that is neither high nor critical risk, is allowed on the environment and on every
  target, with a reason in production, the command rendered from that runbook, acting as
  the automation user for the schedule's creator.  Nothing else is added to the queue, also when the cycle stops at an error.
\<close>

theorem scheduled_gates:
  assumes "run_due_schedules_once env d = Some (e, d')"
  shows "\<exists>us xs. executions d' = executions d @ xs \<and> subseq us (due_batch env d) \<and> length us \<le> 20
    \<and> list_all2 (\<lambda>s x. s \<in> set (schedules d) \<and> due_row env s \<and> \<not> org_paused d (sr_org s) \<and> scheduled env s d x) us xs"
  using assms by (rule scheduled_gates_shape)

lemma scheduler_inv: "sys_ok d \<Longrightarrow> run_due_schedules_once env d = Some (e, d') \<Longrightarrow> sys_ok d'"
  by (auto simp: run_due_schedules_once_def Let_def dest: run_due_shape split: if_splits sum.splits)

section \<open>The switch\<close>

lemma find_update_all:
  "x \<in> set xs \<Longrightarrow> P x \<Longrightarrow> (\<And>y. P (f y) = P y) \<Longrightarrow> \<exists>y. List.find P (update_where P f xs) = Some (f y)"
  by (induction xs) auto

lemma find_snoc_new: "\<forall>x \<in> set xs. \<not> P x \<Longrightarrow> P y \<Longrightarrow> List.find P (xs @ [y]) = Some y"
  by (induction xs) auto

lemma upsert_control_paused:
  assumes "ct_org fresh = org" "ct_paused fresh = b" "\<And>c. ct_org (f c) = ct_org c" "\<And>c. ct_paused (f c) = b"
  shows "org_paused (upsert_control fresh f d) org = b"
proof (cases "org \<in> ct_org ` set (controls d)")
  case True
  then obtain x where "x \<in> set (controls d)" "ct_org x = org" by auto
  then obtain y where "List.find (\<lambda>c. ct_org c = org) (update_where (\<lambda>c. ct_org c = org) f (controls d)) = Some (f y)"
    using find_update_all [of x "controls d" "\<lambda>c. ct_org c = org" f] assms(3) by auto
  then show ?thesis using True assms by (simp add: org_paused_def upsert_control_def)
next
  case False
  then have "\<forall>x \<in> set (controls d). ct_org x \<noteq> org" by (metis imageI)
  then have "List.find (\<lambda>c. ct_org c = org) (controls d @ [fresh]) = Some fresh"
    using assms(1) by (intro find_snoc_new)
  then show ?thesis using False assms by (simp add: org_paused_def upsert_control_def)
qed

lemma audit_only_paused: "audit_only d d' \<Longrightarrow> org_paused d' org = org_paused d org"
  by (simp add: org_paused_def audit_only_tables)

lemma pause_paused:
  assumes "handle_pause_automation env a body d = (r, d')" "resp_code r = 200"
  shows "org_paused d' (a_org a) \<and> is_senior a"
proof -
  obtain reason where senior: "is_senior a" and d': "d' = snd (handle_pause_automation env a (Some reason) d)"
    and up': "\<not> fails env ''pause.upsert'' 0"
    using assms(1,2)
    by (auto simp: handle_pause_automation_def write_denial_def Let_def split: if_splits option.splits)
  define f where "f = (\<lambda>c :: control_row. c\<lparr>ct_paused := True, ct_paused_at := Some (sql_now env),
                      ct_paused_by := Some (a_user_id a), ct_reason := trim_space reason\<rparr>)"
  define fresh where "fresh = f (zero_control (a_org a))"
  have up: "audit_only (upsert_control fresh f d) d'" "ct_org fresh = a_org a" "ct_paused fresh"
      "\<And>c. ct_org (f c) = ct_org c" "\<And>c. ct_paused (f c)"
    using senior up' by (simp_all add: d' handle_pause_automation_def Let_def f_def fresh_def zero_control_def)
  have "org_paused d' (a_org a)"
    using upsert_control_paused [of fresh "a_org a" True f d] up audit_only_paused [OF up(1)] by simp
  then show ?thesis using senior by simp
qed

text \<open>
  C18: the emergency stop.  After \<open>handlePauseAutomation\<close> has answered 200, no cycle of the scheduler queues an
  execution for that organisation; after \<open>handleResumeAutomation\<close> the organisation is not paused.  Neither answer
  is given to anyone below senior engineer.
\<close>

theorem pause_stops_automation:
  assumes "handle_pause_automation env a body d = (r, d')" "resp_code r = 200"
    and "run_due_schedules_once env' d' = Some (e, d'')"
  shows "is_senior a \<and> filter (\<lambda>x. ex_org x = a_org a) (executions d'') = filter (\<lambda>x. ex_org x = a_org a) (executions d')
    \<and> (\<forall>r1 d1. handle_resume_automation env1 a d' = (r1, d1) \<and> resp_code r1 = 200 \<longrightarrow> \<not> org_paused d1 (a_org a))"
proof -
  have p: "org_paused d' (a_org a)" and senior: "is_senior a" using pause_paused [OF assms(1,2)] by auto
  obtain us xs where x: "executions d'' = executions d' @ xs"
    "list_all2 (\<lambda>s x. s \<in> set (schedules d') \<and> due_row env' s \<and> \<not> org_paused d' (sr_org s) \<and> scheduled env' s d' x) us xs"
    using scheduled_gates_shape [OF assms(3)] by blast
  have "ex_org y \<noteq> a_org a" if "y \<in> set xs" for y
    using that x(2) p by (auto simp: list_all2_conv_all_nth in_set_conv_nth scheduled_def)
  then have "filter (\<lambda>x. ex_org x = a_org a) xs = []" by (simp add: filter_empty_conv)
  moreover have "\<not> org_paused d1 (a_org a)"
    if r: "handle_resume_automation env1 a d' = (r1, d1)" "resp_code r1 = 200" for r1 d1
  proof -
    have "audit_only (upsert_control (zero_control (a_org a)) (\<lambda>c. c\<lparr>ct_paused := False, ct_reason := []\<rparr>) d') d1"
      using r by (auto simp: handle_resume_automation_def write_denial_def split: if_splits)
    then show ?thesis
      using upsert_control_paused [of "zero_control (a_org a)" "a_org a" False] audit_only_paused
      by (simp add: zero_control_def)
  qed
  ultimately show ?thesis using senior x(1) by simp
qed

section \<open>Reconciliation in the background\<close>

text \<open>One update keeps the invariant of the queue, whether or not the rest of the pass follows.\<close>

lemma reconcile_one_inv:
  assumes inv: "queue_ok d" and t: "t \<in> set (execution_targets d)" "et_status t = TRunning"
    and act: "\<forall>e \<in> set (executions d). ex_id e = et_exec t \<longrightarrow> exec_active e"
    and d': "executions d' = executions d" "execution_targets d' = update_where (\<lambda>x. x = t) (reconciled_row env) (execution_targets d)"
  shows "queue_ok d'"
proof -
  let ?T = "execution_targets d" and ?E = "executions d"
  have i: "queue_inv ?E ?T" using inv by (simp add: queue_ok_def)
  have "queue_inv ?E (execution_targets d')"
  proof (rule queue_inv_replace [OF i t(1), where t' = "reconciled_row env t"])
    show "set (execution_targets d') = insert (reconciled_row env t) (set ?T - {t})"
      unfolding d' using t(1) by (intro set_update_one) auto
    show "map et_id (execution_targets d') = map et_id ?T" by (simp add: d' map_update_where)
    show "target_ok (reconciled_row env t)"
      using inv t(1) by (simp add: queue_ok_def queue_inv_def reconciled_row_ok)
  next
    fix e' R
    assume e: "e' \<in> set ?E" "ex_id e' = et_exec t" and R: "statuses ?T (et_exec t) = insert (et_status t) R"
    have "status_ok (ex_status e') (statuses ?T (ex_id e'))" using i e(1) by (simp add: queue_inv_def)
    moreover have "exec_active e'" using act e by blast
    ultimately show "status_ok (ex_status e') (insert (et_status (reconciled_row env t)) R)"
      using R e(2) t(2) by (auto simp: exec_active_def status_ok_def)
  qed simp_all
  then show ?thesis using d' by (simp add: queue_ok_def)
qed

lemma set_running_one:
  assumes "queue_ok d" "t \<in> set (execution_targets d)" "et_status t = TRunning"
  shows "execution_targets (set_running_target (et_id t) (if et_attempt t \<ge> et_max_attempts t then dead_letter_row env
      else requeue_row env (retry_backoff_seconds (et_attempt t))) d)
    = update_where (\<lambda>x. x = t) (reconciled_row env) (execution_targets d)"
proof -
  have "distinct (map et_id (execution_targets d))" using assms(1) by (simp add: queue_ok_def queue_inv_def)
  then show ?thesis
    using assms(2,3) distinct_map_eqD [of et_id "execution_targets d"]
    by (auto simp: set_running_target_def reconciled_row_def intro!: update_where_cong)
qed

lemma reconcile_targets_live_inv:
  assumes "sys_ok d" "distinct ts" "set ts \<subseteq> set (execution_targets d)" "\<forall>t \<in> set ts. et_status t = TRunning"
    and "\<forall>t \<in> set ts. \<forall>e \<in> set (executions d). ex_id e = et_exec t \<longrightarrow> exec_active e"
    and "reconcile_targets_live env org i ts d = (d', b)"
  shows "sys_ok d'"
  using assms
proof (induction ts arbitrary: i d)
  case (Cons t ts)
  let ?f = "if et_attempt t \<ge> et_max_attempts t then dead_letter_row env else requeue_row env (retry_backoff_seconds (et_attempt t))"
  let ?d1 = "set_running_target (et_id t) ?f d"
  have q: "queue_ok d" using Cons.prems(1) by (simp add: sys_ok_def)
  have t: "t \<in> set (execution_targets d)" "et_status t = TRunning" using Cons.prems(3,4) by auto
  have T1: "execution_targets ?d1 = update_where (\<lambda>x. x = t) (reconciled_row env) (execution_targets d)"
    by (rule set_running_one [OF q t])
  have E1: "executions ?d1 = executions d" by (simp add: set_running_target_def)
  have "queue_ok ?d1" using reconcile_one_inv [OF q t _ E1 T1] Cons.prems(5) by simp
  moreover have "targets_owned ?d1 = targets_owned d"
    by (rule targets_owned_cong) (simp_all add: E1 T1 map_update_where)
  ultimately have ok: "sys_ok ?d1" using Cons.prems(1) by (simp add: sys_ok_def)
  have rest: "set ts \<subseteq> set (execution_targets ?d1)"
    unfolding T1 set_update_where using Cons.prems(2,3) by (auto intro: rev_image_eqI)
  have more: "sys_ok d'" if "reconcile_targets_live env org (i + 1) ts d2 = (d', b)"
    and "executions d2 = executions ?d1" "execution_targets d2 = execution_targets ?d1" for d2
  proof (rule Cons.IH [OF _ _ _ _ _ that(1)])
    show "sys_ok d2" using ok sys_ok_cong [OF that(2,3)] by simp
    show "set ts \<subseteq> set (execution_targets d2)" using rest that(3) by simp
    show "\<forall>t \<in> set ts. \<forall>e \<in> set (executions d2). ex_id e = et_exec t \<longrightarrow> exec_active e"
      using Cons.prems(5) that(2) E1 by simp
  qed (use Cons.prems in auto)
  show ?case
    using Cons.prems(1,6) ok more
    by (auto simp: Let_def record_event_tables split: if_splits option.splits)
qed simp

lemma reconcile_targets_live_eq:
  "reconcile_targets env org i ts d =
     (if snd (reconcile_targets_live env org i ts d) then Some (fst (reconcile_targets_live env org i ts d)) else None)"
  by (induction env org i ts d rule: reconcile_targets_live.induct) (auto simp: Let_def split: option.splits)

lemma reconcile_live_eq:
  "reconcile_expired_leases env org d = (if snd (reconcile_live env org d) then Some (fst (reconcile_live env org d)) else None)"
proof -
  obtain d1 c where r: "reconcile_targets_live env org 0 (expired_targets env org d) d = (d1, c)" by fastforce
  then show ?thesis
    by (cases c) (auto simp: reconcile_expired_leases_def reconcile_live_def reconcile_targets_live_eq split: option.splits)
qed

lemma reconcile_live_inv:
  assumes "sys_ok d" "reconcile_live env org d = (d', b)"
  shows "sys_ok d'"
proof (cases b)
  case True
  then have r: "reconcile_expired_leases env org d = Some d'" using assms(2) by (simp add: reconcile_live_eq)
  have "queue_ok d" using assms(1) by (simp add: sys_ok_def)
  then have "queue_ok d'" "map et_exec (execution_targets d') = map et_exec (execution_targets d)"
    "map ex_id (executions d') = map ex_id (executions d)"
    using reconcile_inv r reconcile_shape [OF r]
    by (auto simp: reconciled_targets_def map_update_where)
  then show ?thesis using assms(1) targets_owned_cong [of d' d] by (simp add: sys_ok_def)
next
  case False
  let ?X = "expired_targets env org d"
  have q: "queue_ok d" using assms(1) by (simp add: sys_ok_def)
  have d: "distinct ?X" using q by (simp add: expired_targets_def queue_ok_def queue_inv_def distinct_map)
  have run: "\<forall>t \<in> set ?X. et_status t = TRunning" by (simp add: expired_targets_mem lease_expired_def)
  have act: "\<forall>t \<in> set ?X. \<forall>e \<in> set (executions d). ex_id e = et_exec t \<longrightarrow> exec_active e"
    using q by (auto simp: expired_targets_def queue_ok_def queue_inv_def dest: distinct_map_eqD)
  obtain d1 c where live: "reconcile_targets_live env org 0 ?X d = (d1, c)" by fastforce
  have "sys_ok d1"
    by (rule reconcile_targets_live_inv [OF assms(1) d _ run act live]) (auto simp: expired_targets_def)
  then show ?thesis
    using assms False live by (auto simp: reconcile_live_def split: if_splits option.splits bool.splits)
qed

lemma reconcile_orgs_inv: "sys_ok d \<Longrightarrow> sys_ok (fst (reconcile_orgs env xs d))"
proof (induction xs arbitrary: d)
  case (Cons x xs)
  obtain d1 b where r: "reconcile_live (env_for x env) x d = (d1, b)" by fastforce
  then show ?case using Cons reconcile_live_inv [OF Cons.prems r] by (cases b) simp_all
qed simp

lemma reconcile_all_inv: "sys_ok d \<Longrightarrow> sys_ok (fst (reconcile_all_organisation_leases env d))"
  by (simp add: reconcile_all_organisation_leases_def reconcile_orgs_inv)

lemma scheduler_tick_inv: "sys_ok d \<Longrightarrow> scheduler_tick env d = Some d' \<Longrightarrow> sys_ok d'"
  by (auto simp: scheduler_tick_def reconcile_all_inv dest: scheduler_inv split: option.splits)

text \<open>
  C19: reconciliation in the background, where no transaction protects it.  A pass that completes has
  exactly the effect of the transactional one of the claim path; a pass that stops at a failed statement keeps
  what it had done, and the invariant of the queue holds in either case, so the next pass can take over.
\<close>

theorem background_reconciliation:
  assumes "sys_ok d" "reconcile_live env org d = (d', completed)"
  shows "sys_ok d' \<and> (if completed then reconcile_expired_leases env org d = Some d'
    else reconcile_expired_leases env org d = None)"
  using reconcile_live_inv [OF assms] assms(2) by (simp add: reconcile_live_eq)

section \<open>Witnesses\<close>

text \<open>The published runbook of the runs, on a schedule that is due.\<close>

definition sample_schedule_row :: schedule_row where
  "sample_schedule_row = \<lparr>sr_id = ''sch_1'', sr_org = ''org-1'', sr_created_by = ''u1'', sr_name = ''nightly'',
     sr_runbook_name = ''restart'', sr_target = ''web'', sr_reason = [], sr_params = Some sample_params,
     sr_interval = 3600, sr_next_run = 900, sr_enabled = True, sr_last_run = None, sr_last_error = None\<rparr>"

definition sample_auto_db :: db where
  "sample_auto_db = sample_run_db\<lparr>schedules := [sample_schedule_row]\<rparr>"


lemma sample_next_after: "next_after (schedule_of sample_schedule_row) (nanos 1000) = Some (nanos 4500)"
  by (simp add: next_after_def schedule_of_def sample_schedule_row_def nanos_def duration_of_exact next_from_grid next_grid_def)

lemma sample_scheduled_tx:
  assumes "executions d = []" "execution_targets d = []" "execution_events d = []" "audit_events d = []"
    "sc_created_by s \<in> us_id ` set (users d)"
  obtains d' where "scheduled_run_tx sample_env s i v rb [x] environment command [snap] d = Inr d'"
proof -
  let ?at = "\<lambda>what. at_schedule what s"
  let ?id = "fresh_id sample_env ''exe_'' (?at ''exec'') 0"
  let ?e = "scheduled_execution_row sample_env s ?id v rb environment command"
  let ?t = "new_target_row (fresh_id sample_env ''ext_'' (?at ''target'') 0) (sc_org s) ?id x snap"
  let ?d2 = "d\<lparr>executions := [?e], execution_targets := [?t]\<rparr>"
  have e: "insert_execution sample_env (?at ''insert'') ?e d = Some (d\<lparr>executions := [?e]\<rparr>)"
    using assms(1,5) by (simp add: insert_execution_def scheduled_execution_row_def)
  have t: "insert_targets sample_env (?at ''target'') (sc_org s) ?id 0 [x] [snap] (d\<lparr>executions := [?e]\<rparr>) = Some ?d2"
    using assms(2) by (simp add: Let_def)
  have ev: "execution_events ?d2 = []" using assms(3) by simp
  obtain d3 where d3: "record_execution_event sample_env (?at ''event'') 0 (sc_org s) ?id [] [] ''queued'' ''automation.queued''
      [(''schedule_id'', JStr (sc_id s)), (''schedule_name'', JStr (sc_name s))] ?d2 = Some d3"
    using sample_timeline_event [OF ev] by blast
  have au: "audit_events d3 = []" using record_event_tables [OF d3] assms(4) by simp
  have "\<exists>d4. write_audit_event_type sample_env (?at ''audit'') (sc_org s) automation_actor_id ''automation''
      ''automation.execution.queued'' ''execution'' ?id ''queued''
      (jmap [(''schedule_id'', JStr (sc_id s)), (''runbook_id'', JStr i), (''target_count'', JInt (int (length [x])))]) d3 = Some d4"
    using au by (simp add: write_audit_event_type_def Let_def)
  then obtain d4 where d4: "write_audit_event_type sample_env (?at ''audit'') (sc_org s) automation_actor_id ''automation''
      ''automation.execution.queued'' ''execution'' ?id ''queued''
      (jmap [(''schedule_id'', JStr (sc_id s)), (''runbook_id'', JStr i), (''target_count'', JInt (int (length [x])))]) d3 = Some d4"
    by (elim exE)
  have "scheduled_run_tx sample_env s i v rb [x] environment command [snap] d = Inr d4"
    unfolding scheduled_run_tx_def Let_def attempt_def e option.case t d3 d4 refuse_if_def by simp
  then show thesis by (rule that)
qed

definition sample_auto_claimed :: db where
  "sample_auto_claimed = claim_schedule sample_env sample_schedule_row 4500 sample_auto_db"

lemma sample_auto_checks:
  "resolve_targets sample_env ''org-1'' ''web'' sample_auto_claimed = [''s1'']"
  "target_environment sample_env ''org-1'' [''s1''] sample_auto_claimed = (''staging'', False)"
  "runbook_targets_allowed sample_env ''org-1'' (s_targets (r_spec sample_runbook)) 0 [''s1''] sample_auto_claimed"
  by code_simp+

lemma sample_auto_plan:
  obtains v command s where "scheduled_plan sample_env (schedule_of sample_schedule_row) sample_auto_claimed
    = Inr (''rb1'', v, sample_runbook, [''s1''], ''staging'', command, [s])"
proof -
  obtain s where s: "snapshot_targets sample_env ''org-1'' [''s1''] sample_auto_claimed = [s]"
    by (simp add: snapshot_targets_def find_server_def sample_auto_claimed_def claim_schedule_def sample_auto_db_def
        sample_run_db_def) (simp add: sample_server_def)
  let ?r = "hd (runbook_rows sample_run_db)"
  let ?v = "hd (runbook_versions sample_run_db)"
  have rows: "runbook_rows sample_auto_claimed = [?r]"
    by (simp add: sample_auto_claimed_def claim_schedule_def sample_auto_db_def sample_run_db_def)
  have r: "rb_org ?r = ''org-1'' \<and> rb_name ?r = ''restart'' \<and> rb_status ?r = ''published'' \<and> rb_id ?r = ''rb1''
      \<and> current_version sample_auto_claimed ?r = Some ?v"
    by (simp add: sample_auto_claimed_def claim_schedule_def sample_auto_db_def sample_run_db_def current_version_def)
  have v: "rv_risk ?v = ''medium'' \<and> rv_definition ?v = Some sample_runbook"
    by (simp add: sample_run_db_def)
  have q: "sc_org (schedule_of sample_schedule_row) = ''org-1''" "sc_target (schedule_of sample_schedule_row) = ''web''"
    "sc_runbook_name (schedule_of sample_schedule_row) = ''restart''" "sc_params (schedule_of sample_schedule_row) = sample_params"
    by (simp_all add: schedule_of_def sample_schedule_row_def)
  have f: "first_row False (\<lambda>r. rb_org r = ''org-1'' \<and> rb_name r = ''restart'' \<and> rb_status r = ''published''
      \<and> current_version sample_auto_claimed r \<noteq> None) (runbook_rows sample_auto_claimed) = Some ?r"
    by (rule first_row_only [OF rows]) (use r in simp)
  have m: "''medium'' \<noteq> ''high''" "''medium'' \<noteq> ''critical''" "''staging'' \<noteq> ''production''" by simp_all
  have "scheduled_plan sample_env (schedule_of sample_schedule_row) sample_auto_claimed
    = Inr (''rb1'', ?v, sample_runbook, [''s1''], ''staging'', ''svc 'a; rm' -n '3'' @ [CHR 0x27], [s])"
    by (simp only: scheduled_plan_def Let_def refuse_if_def attempt_def attempt_sum_def q f r v s sample_auto_checks
        sample_run_checks(3) sample_rendered sample_env_sel option.case sum.case prod.sel if_False if_True not_True_eq_False
        list.distinct simp_thms list.size m)
  then show thesis by (rule that)
qed

lemma sample_cycle:
  obtains d' where "run_due_schedules_once sample_env sample_auto_db = Some (None, d')" "executions d' \<noteq> []"
proof -
  have rows: "schedules sample_auto_db = [sample_schedule_row]" "controls sample_auto_db = []"
    by (simp_all add: sample_auto_db_def sample_run_db_def sample_db_def empty_db_def)
  have due: "due_row sample_env sample_schedule_row" "sr_org sample_schedule_row = ''org-1''"
    "sr_id sample_schedule_row = ''sch_1''"
    by (simp_all add: due_row_def sample_schedule_row_def)
  obtain v command s where plan: "scheduled_plan sample_env (schedule_of sample_schedule_row) sample_auto_claimed
    = Inr (''rb1'', v, sample_runbook, [''s1''], ''staging'', command, [s])" by (rule sample_auto_plan)
  have tabs: "executions sample_auto_claimed = []" "execution_targets sample_auto_claimed = []"
    "execution_events sample_auto_claimed = []" "audit_events sample_auto_claimed = []"
    "sc_created_by (schedule_of sample_schedule_row) \<in> us_id ` set (users sample_auto_claimed)"
    by (simp_all add: sample_auto_claimed_def claim_schedule_def sample_auto_db_def sample_run_db_def sample_db_def
        empty_db_def schedule_of_def sample_schedule_row_def)
  obtain d' where tx: "scheduled_run_tx sample_env (schedule_of sample_schedule_row) ''rb1'' v sample_runbook [''s1''] ''staging''
      command [s] sample_auto_claimed = Inr d'" by (rule sample_scheduled_tx [OF tabs])
  have "execute_scheduled_run sample_env (schedule_of sample_schedule_row) sample_auto_claimed = (None, d')"
    using plan tx by (simp add: execute_scheduled_run_def publish_pending_job_notifications_def sample_env_def)
  moreover have "automation_paused sample_env at ''org-1'' sample_auto_db = Some False" for at
    by (simp add: automation_paused_def read_automation_control_def rows zero_control_def)
  ultimately have "run_due_schedules_once sample_env sample_auto_db = Some (None, d')"
    using sample_next_after
    by (simp add: run_due_schedules_once_def due_batch_def rows due order_by_def Let_def count_where_def
        flip: sample_auto_claimed_def) (simp add: nanos_def flip: sample_auto_claimed_def)
  moreover have "executions d' \<noteq> []"
    using scheduled_tx_queued [OF tx] by (simp add: queued_rows_def)
  ultimately show thesis by (rule that)
qed

theorem scheduled_gates_witness:
  "\<exists>d' x xs. run_due_schedules_once sample_env sample_auto_db = Some (None, d') \<and> executions d' = x # xs
     \<and> ex_actor x = ''user_automation'' \<and> ex_delegated_by x = Some ''u1''"
proof -
  obtain d' where d': "run_due_schedules_once sample_env sample_auto_db = Some (None, d')" "executions d' \<noteq> []"
    by (rule sample_cycle)
  have rows: "set (schedules sample_auto_db) = {sample_schedule_row}" "executions sample_auto_db = []"
    "sr_created_by sample_schedule_row = ''u1''"
    by (simp_all add: sample_auto_db_def sample_run_db_def sample_schedule_row_def)
  obtain us xs where x: "executions d' = xs" "list_all2 (\<lambda>s x. s = sample_schedule_row \<and> due_row sample_env s
      \<and> \<not> org_paused sample_auto_db (sr_org s) \<and> scheduled sample_env s sample_auto_db x) us xs"
    using scheduled_gates [OF d'(1)] rows by auto
  then obtain y ys where "xs = y # ys" using d'(2) by (cases xs) auto
  moreover have "ex_actor y = ''user_automation''" "ex_delegated_by y = Some ''u1''"
    using x(2) rows(3) \<open>xs = y # ys\<close> by (auto simp: list_all2_Cons2 scheduled_def automation_actor_id_def)
  ultimately show ?thesis using d'(1) x(1) by blast
qed

definition sample_paused :: "resp \<times> db" where
  "sample_paused = handle_pause_automation sample_env sample_owner (Some ''incident'') sample_auto_db"

lemma sample_paused_cycle:
  "resp_code (fst sample_paused) = 200" "\<exists>e d''. run_due_schedules_once sample_env (snd sample_paused) = Some (e, d'')"
proof -
  have s: "is_senior sample_owner" by code_simp
  show c: "resp_code (fst sample_paused) = 200"
    using s by (simp add: sample_paused_def handle_pause_automation_def Let_def)
  define d where "d = snd sample_paused"
  have rows: "schedules d = [sample_schedule_row]"
    using s by (simp add: d_def sample_paused_def handle_pause_automation_def Let_def upsert_control_def)
      (simp add: sample_auto_db_def)
  have due: "due_row sample_env sample_schedule_row" by (simp add: due_row_def sample_schedule_row_def)
  obtain p where p: "\<And>at. automation_paused sample_env at (sr_org sample_schedule_row) d = Some p"
    by (simp add: automation_paused_def read_automation_control_def)
  have "handle_pause_automation sample_env sample_owner (Some ''incident'') sample_auto_db = (fst sample_paused, d)"
    by (simp add: sample_paused_def d_def)
  have "org_paused d ''org-1''"
    using pause_paused [OF \<open>handle_pause_automation sample_env sample_owner (Some ''incident'') sample_auto_db = _\<close> c]
    by simp
  then have "p" using p automation_paused_org [of sample_env "[]" "sr_org sample_schedule_row" d p]
    by (simp add: sample_schedule_row_def)
  then show "\<exists>e d''. run_due_schedules_once sample_env (snd sample_paused) = Some (e, d'')"
    unfolding d_def [symmetric]
    by (simp add: run_due_schedules_once_def due_batch_def rows due order_by_def Let_def p)
qed

theorem pause_stops_automation_witness:
  "\<exists>e d''. run_due_schedules_once sample_env (snd sample_paused) = Some (e, d'')
     \<and> filter (\<lambda>x. ex_org x = ''org-1'') (executions d'') = filter (\<lambda>x. ex_org x = ''org-1'') (executions (snd sample_paused))"
proof -
  have p: "handle_pause_automation sample_env sample_owner (Some ''incident'') sample_auto_db
      = (fst sample_paused, snd sample_paused)"
    by (simp add: sample_paused_def)
  obtain e d'' where c: "run_due_schedules_once sample_env (snd sample_paused) = Some (e, d'')"
    using sample_paused_cycle(2) by blast
  show ?thesis using pause_stops_automation [OF p sample_paused_cycle(1) c] c by auto
qed

text \<open>The lease of the job claimed in the sample has ended, and the insertion of the timeline event fails.\<close>

theorem background_reconciliation_witness:
  "sys_ok (fst (reconcile_live (sample_env\<lparr>sql_now := 2000, fails := (\<lambda>at i. at = ''reconcile.requeue.event'')\<rparr>) ''org-1''
     sample_claimed))"
proof -
  let ?env = "sample_env\<lparr>sql_now := 2000, fails := (\<lambda>at i. at = ''reconcile.requeue.event'')\<rparr>"
  have "targets_owned sample_claimed" by (simp add: targets_owned_def sample_execution_def sample_target_def)
  then have ok: "sys_ok sample_claimed" using sample_claimed_ok by (simp add: sys_ok_def)
  obtain d' b where r: "reconcile_live ?env ''org-1'' sample_claimed = (d', b)" by fastforce
  show ?thesis using background_reconciliation [OF ok r] r by simp
qed

end
