(* ===== verification/Runners.thy ===== *)
theory Runners
  imports Transaction Auth
begin

text \<open>
  \<open>apps/api/runners.go\<close>: listing, creating, updating and revoking runners, registration, heartbeats and runner
  credentials.  None of these handlers uses a transaction, so a failed statement leaves the updates before it:
  \<open>create_runner_credential\<close> and \<open>handle_register_runner\<close> give back the database they have reached.
\<close>

section \<open>Credentials\<close>

definition registration_credential_ttl :: int where "registration_credential_ttl = 60 * 60"

definition bound_credential_ttl :: int where "bound_credential_ttl = 30 * 24 * (60 * 60)"

definition revoke_credentials :: "env \<Rightarrow> string \<Rightarrow> db \<Rightarrow> db" where
  "revoke_credentials env runner_id d =
     d\<lparr>runner_credentials := update_where (\<lambda>c. rc_runner c = Some runner_id \<and> rc_revoked_at c = None)
        (\<lambda>c. c\<lparr>rc_revoked_at := Some (sql_now env)\<rparr>) (runner_credentials d)\<rparr>"

definition insert_credential :: "env \<Rightarrow> runner_credential \<Rightarrow> db \<Rightarrow> db option" where
  "insert_credential env c d =
     (if fails env ''cred.insert'' 0 \<or> rc_id c \<in> rc_id ` set (runner_credentials d)
        \<or> rc_token_hash c \<in> rc_token_hash ` set (runner_credentials d) then None
      else Some (d\<lparr>runner_credentials := runner_credentials d @ [c]\<rparr>))"

definition credential_ttl :: "string \<Rightarrow> int" where
  "credential_ttl runner_id = (if runner_id \<noteq> [] then bound_credential_ttl else registration_credential_ttl)"

definition new_credential :: "env \<Rightarrow> string \<Rightarrow> string \<Rightarrow> string \<Rightarrow> runner_credential" where
  "new_credential env org runner_id token =
     \<lparr>rc_id = fresh_id env ''rct_'' ''cred.id'' 0, rc_org = org, rc_runner = sql_null_string runner_id,
      rc_token_hash = hash_token env token, rc_expires_at = go_now env + credential_ttl runner_id, rc_revoked_at = None\<rparr>"

definition create_runner_credential :: "env \<Rightarrow> string \<Rightarrow> string \<Rightarrow> string \<Rightarrow> db \<Rightarrow> (string + string) \<times> db" where
  "create_runner_credential env org actor_id runner_id d =
     (let found = first_row (fails env ''cred.runner'' 0) (\<lambda>r. rn_id r = runner_id \<and> rn_org r = org) (runners d)
      in if runner_id \<noteq> [] \<and> found = None then (Inl ''runner not found'', d)
         else if runner_id \<noteq> [] \<and> map_option rn_status found = Some ''revoked'' then (Inl ''runner is revoked'', d)
         else if runner_id \<noteq> [] \<and> fails env ''cred.revoke'' 0
           then (Inl ''failed to revoke previous runner credentials'', d)
         else
           let d1 = (if runner_id \<noteq> [] then revoke_credentials env runner_id d else d);
               token = new_token env ''cred.token''
           in if token = [] then (Inl ''failed to generate registration token'', d1)
              else case insert_credential env (new_credential env org runner_id token) d1 of
                  None \<Rightarrow> (Inl ''failed to create registration token'', d1)
                | Some d2 \<Rightarrow>
                    (Inr token, write_audit_event env ''cred.audit'' org actor_id ''runner.credential.rotated'' ''runner''
                       runner_id ''success'' (jmap [(''expires_in'', JInt (credential_ttl runner_id))]) d2))"

section \<open>Managing runners\<close>

definition runner_entry :: "env \<Rightarrow> runner \<Rightarrow> json" where
  "runner_entry env r = JObj
     [(''id'', JStr (rn_id r)), (''name'', JStr (rn_name r)), (''runner_type'', JStr (rn_type r)),
      (''status'', JStr (rn_status r)), (''version'', JStr (or_empty (rn_version r))),
      (''hostname'', JStr (or_empty (rn_hostname r))), (''platform'', JStr (or_empty (rn_platform r))),
      (''ip_address'', JStr (or_empty (rn_ip r))),
      (''last_seen_at'', JStr (case rn_last_seen r of None \<Rightarrow> [] | Some t \<Rightarrow> time_text env t)),
      (''registered_at'', JStr (case rn_registered_at r of None \<Rightarrow> [] | Some t \<Rightarrow> time_text env t)),
      (''revoked_at'', JStr (case rn_revoked_at r of None \<Rightarrow> [] | Some t \<Rightarrow> time_text env t)),
      (''created_at'', JStr (time_text env (rn_created_at r)))]"

definition handle_list_runners :: "env \<Rightarrow> db \<Rightarrow> actor \<Rightarrow> resp" where
  "handle_list_runners env d a =
     (if fails env ''runners.list'' 0 then err 500 ''query failed''
      else reply 200 [(''runners'', JArr (map (runner_entry env)
             (order_by (\<lambda>x y. str_le (rn_name x) (rn_name y)) (filter (\<lambda>r. rn_org r = a_org a) (runners d)))))])"

text \<open>\<open>UNIQUE (organisation_id, name)\<close> and the primary key.\<close>

definition insert_runner :: "env \<Rightarrow> string \<Rightarrow> runner \<Rightarrow> db \<Rightarrow> db option" where
  "insert_runner env at r d =
     (if fails env at 0 \<or> rn_id r \<in> rn_id ` set (runners d)
        \<or> (rn_org r, rn_name r) \<in> (\<lambda>r. (rn_org r, rn_name r)) ` set (runners d) then None
      else Some (d\<lparr>runners := runners d @ [r]\<rparr>))"

definition management_denial :: "env \<Rightarrow> string \<Rightarrow> actor \<Rightarrow> string \<Rightarrow> string \<Rightarrow> string \<Rightarrow> db \<Rightarrow> resp \<times> db" where
  "management_denial env at a action runner_id message d =
     write_denial env at a action ''runner'' runner_id (deny ''runner_management_required'' message) d"

text \<open>The name and the type of the request; \<open>None\<close> for a body that does not decode.\<close>

definition handle_create_managed_runner :: "env \<Rightarrow> actor \<Rightarrow> (string \<times> string) option \<Rightarrow> db \<Rightarrow> resp \<times> db" where
  "handle_create_managed_runner env a body d =
     (if \<not> can_manage_runners a then management_denial env ''runner.denied'' a ''runner.created'' []
          ''Runner management requires a privileged role.'' d
      else case body of
          None \<Rightarrow> (err 400 ''name is required'', d)
        | Some (name, runner_type) \<Rightarrow>
            if trim_space name = [] then (err 400 ''name is required'', d)
            else
              let rid = fresh_id env ''rnr_'' ''runner.id'' 0
              in case insert_runner env ''runner.create'' \<lparr>rn_id = rid, rn_org = a_org a, rn_name = name,
                     rn_type = (if runner_type = [] then ''customer_managed'' else runner_type), rn_status = ''pending'',
                     rn_version = None, rn_hostname = None, rn_platform = None, rn_ip = None, rn_last_seen = None,
                     rn_registered_at = None, rn_revoked_at = None, rn_created_at = sql_now env\<rparr> d of
                   None \<Rightarrow> (err 500 ''failed to create runner'', d)
                 | Some d1 \<Rightarrow>
                     (reply 201 [(''runner_id'', JStr rid), (''status'', JStr ''pending'')],
                      write_audit_event env ''runner.audit'' (a_org a) (a_user_id a) ''runner.created'' ''runner'' rid ''success''
                        (jmap [(''name'', JStr name)]) d1))"

definition live_runner :: "string \<Rightarrow> string \<Rightarrow> runner \<Rightarrow> bool" where
  "live_runner org runner_id r \<longleftrightarrow> rn_id r = runner_id \<and> rn_org r = org \<and> rn_status r \<noteq> ''revoked''"

text \<open>The name and the status of the request.\<close>

definition handle_update_runner :: "env \<Rightarrow> actor \<Rightarrow> string \<Rightarrow> (string \<times> string) option \<Rightarrow> db \<Rightarrow> resp \<times> db" where
  "handle_update_runner env a runner_id body d =
     (if \<not> can_manage_runners a then management_denial env ''runner.denied'' a ''runner.updated'' runner_id
          ''Runner management requires a privileged role.'' d
      else case body of
          None \<Rightarrow> (err 400 ''name is required'', d)
        | Some (name, status0) \<Rightarrow>
            if trim_space name = [] then (err 400 ''name is required'', d)
            else
              let status = (if status0 = [] then ''active'' else status0)
              in if status \<noteq> ''active'' \<and> status \<noteq> ''paused'' then (err 400 ''invalid status'', d)
                 else if fails env ''runner.update'' 0
                     \<or> (\<exists>r \<in> set (runners d). \<exists>r' \<in> set (runners d). live_runner (a_org a) runner_id r
                          \<and> rn_id r' \<noteq> runner_id \<and> rn_org r' = a_org a \<and> rn_name r' = name)
                   then (err 500 ''failed to update runner'', d)
                 else if count_where (live_runner (a_org a) runner_id) (runners d) = 0
                   then (err 404 ''runner not found'', d)
                 else (reply 200 [(''status'', JStr ''updated'')],
                       write_audit_event env ''runner.audit'' (a_org a) (a_user_id a) ''runner.updated'' ''runner'' runner_id
                         ''success'' JNull
                         (d\<lparr>runners := update_where (live_runner (a_org a) runner_id)
                              (\<lambda>r. r\<lparr>rn_name := name, rn_status := status\<rparr>) (runners d)\<rparr>)))"

definition handle_revoke_runner :: "env \<Rightarrow> actor \<Rightarrow> string \<Rightarrow> db \<Rightarrow> resp \<times> db" where
  "handle_revoke_runner env a runner_id d =
     (if \<not> can_manage_runners a then management_denial env ''runner.denied'' a ''runner.revoked'' runner_id
          ''Runner management requires a privileged role.'' d
      else if fails env ''runner.revoke'' 0 then (err 500 ''failed to revoke runner'', d)
      else if count_where (live_runner (a_org a) runner_id) (runners d) = 0 then (err 404 ''runner not found'', d)
      else
        let d1 = d\<lparr>runners := update_where (live_runner (a_org a) runner_id)
                     (\<lambda>r. r\<lparr>rn_status := ''revoked'', rn_revoked_at := Some (sql_now env)\<rparr>) (runners d)\<rparr>
        in if fails env ''runner.revoke_credentials'' 0
           then (err 500 ''runner revoked but credential revocation failed'', d1)
           else (reply 200 [(''status'', JStr ''revoked'')],
                 write_audit_event env ''runner.audit'' (a_org a) (a_user_id a) ''runner.revoked'' ''runner'' runner_id
                   ''success'' JNull (revoke_credentials env runner_id d1)))"

section \<open>Registration and heartbeat\<close>

record register_req =
  gq_name :: string
  gq_version :: string
  gq_hostname :: string
  gq_platform :: string
  gq_ip :: string
  gq_type :: string

definition registered_row :: "env \<Rightarrow> register_req \<Rightarrow> runner \<Rightarrow> runner" where
  "registered_row env q r =
     r\<lparr>rn_status := ''active'', rn_version := sql_null_string (gq_version q), rn_hostname := sql_null_string (gq_hostname q),
       rn_platform := sql_null_string (gq_platform q), rn_ip := sql_null_string (gq_ip q),
       rn_registered_at := (case rn_registered_at r of None \<Rightarrow> Some (go_now env) | Some t \<Rightarrow> Some t),
       rn_last_seen := Some (go_now env)\<rparr>"

definition new_runner :: "env \<Rightarrow> string \<Rightarrow> register_req \<Rightarrow> runner" where
  "new_runner env org q =
     \<lparr>rn_id = fresh_id env ''rnr_'' ''register.id'' 0, rn_org = org, rn_name = gq_name q,
      rn_type = (if gq_type q = [] then ''customer_managed'' else gq_type q), rn_status = ''active'',
      rn_version = sql_null_string (gq_version q), rn_hostname = sql_null_string (gq_hostname q),
      rn_platform = sql_null_string (gq_platform q), rn_ip = sql_null_string (gq_ip q), rn_last_seen = None,
      rn_registered_at = Some (go_now env), rn_revoked_at = None, rn_created_at = sql_now env\<rparr>"

text \<open>The row of the runner: the error answer, or its id and the database.\<close>

definition register_runner_row :: "env \<Rightarrow> string \<Rightarrow> string \<Rightarrow> register_req \<Rightarrow> db \<Rightarrow> resp + string \<times> db" where
  "register_runner_row env org credential_runner q d =
     (if credential_runner \<noteq> [] then
        (if fails env ''register.update'' 0 then Inl (err 500 ''failed to register runner'')
         else if count_where (live_runner org credential_runner) (runners d) = 0
           then Inl (err 401 ''runner is not available for registration'')
         else Inr (credential_runner, d\<lparr>runners := update_where (live_runner org credential_runner)
                     (registered_row env q) (runners d)\<rparr>))
      else attempt (err 500 (''failed to register runner: '' @ error_text env ''register.insert''))
             (insert_runner env ''register.insert'' (new_runner env org q) d)
             (\<lambda>d1. Inr (rn_id (new_runner env org q), d1)))"

text \<open>\<open>INSERT ... ON CONFLICT DO NOTHING\<close>.\<close>

definition assign_all_scope :: "env \<Rightarrow> string \<Rightarrow> string \<Rightarrow> db \<Rightarrow> db" where
  "assign_all_scope env org runner_id d =
     (let s = \<lparr>rs_id = fresh_id env ''rsc_'' ''register.scope'' 0, rs_org = org, rs_runner = runner_id,
            rs_type = ''all'', rs_value = ''*''\<rparr>
      in if \<exists>x \<in> set (runner_scopes d). rs_id x = rs_id s
           \<or> rs_runner x = runner_id \<and> rs_type x = ''all'' \<and> rs_value x = ''*'' then d
         else d\<lparr>runner_scopes := runner_scopes d @ [s]\<rparr>)"

definition handle_register_runner :: "env \<Rightarrow> string \<Rightarrow> register_req option \<Rightarrow> db \<Rightarrow> resp \<times> db" where
  "handle_register_runner env token body d =
     (case authenticate_runner_credential env d token of
        Inl e \<Rightarrow> (err 401 (runner_auth_message e), d)
      | Inr (org, credential_runner) \<Rightarrow>
          (case body of
             None \<Rightarrow> (err 400 ''invalid request body'', d)
           | Some q \<Rightarrow>
               if gq_name q = [] then (err 400 ''name is required'', d)
               else case register_runner_row env org credential_runner q d of
                   Inl r \<Rightarrow> (r, d)
                 | Inr (runner_id, d1) \<Rightarrow>
                     if fails env ''register.scope'' 0 then (err 500 ''failed to assign runner scope'', d1)
                     else
                       (case create_runner_credential env org [] runner_id (assign_all_scope env org runner_id d1) of
                          (Inl _, d2) \<Rightarrow> (err 500 ''failed to issue runner credential'', d2)
                        | (Inr bound_token, d2) \<Rightarrow>
                            (reply 201 [(''runner_id'', JStr runner_id), (''organisation_id'', JStr org),
                               (''status'', JStr ''active''), (''runner_token'', JStr bound_token)],
                             write_audit_event env ''register.audit'' org [] ''runner.registered'' ''runner'' runner_id ''success''
                               (jmap [(''name'', JStr (gq_name q))]) d2))))"

record heartbeat_req =
  hb_runner :: string
  hb_hostname :: string
  hb_platform :: string
  hb_version :: string

definition coalesce_nonempty :: "string \<Rightarrow> string option \<Rightarrow> string option" where
  "coalesce_nonempty s old = (if s \<noteq> [] then Some s else old)"

definition handle_runner_heartbeat :: "env \<Rightarrow> string \<Rightarrow> heartbeat_req option \<Rightarrow> db \<Rightarrow> resp \<times> db" where
  "handle_runner_heartbeat env token body d =
     (case body of
        None \<Rightarrow> (err 400 ''invalid request body'', d)
      | Some q \<Rightarrow>
          (case authenticate_bound_runner env d token (hb_runner q) of
             Inl e \<Rightarrow> (err 401 (runner_auth_message e), d)
           | Inr org \<Rightarrow>
               let P = (\<lambda>r. rn_id r = hb_runner q \<and> rn_org r = org)
               in if fails env ''heartbeat.update'' 0 \<or> count_where P (runners d) = 0 then (err 404 ''runner not found'', d)
                  else (reply 200 [(''status'', JStr ''ok'')],
                        d\<lparr>runners := update_where P (\<lambda>r. r\<lparr>rn_status := ''active'', rn_last_seen := Some (go_now env),
                            rn_hostname := coalesce_nonempty (hb_hostname q) (rn_hostname r),
                            rn_platform := coalesce_nonempty (hb_platform q) (rn_platform r),
                            rn_version := coalesce_nonempty (hb_version q) (rn_version r)\<rparr>) (runners d)\<rparr>)))"

section \<open>Tokens\<close>

text \<open>The runner id of the request, empty without a body; \<open>None\<close> for a body that does not decode.\<close>

definition handle_create_registration_token :: "env \<Rightarrow> actor \<Rightarrow> string option \<Rightarrow> db \<Rightarrow> resp \<times> db" where
  "handle_create_registration_token env a body d =
     (if \<not> can_manage_runners a then management_denial env ''token.denied'' a ''runner.credential.rotated'' []
          ''Creating runner credentials requires a privileged role.'' d
      else case body of
          None \<Rightarrow> (err 400 ''invalid request body'', d)
        | Some runner_id \<Rightarrow>
            (case create_runner_credential env (a_org a) (a_user_id a) runner_id d of
               (Inl e, d1) \<Rightarrow> (err 400 e, d1)
             | (Inr token, d1) \<Rightarrow>
                 (reply 201 [(''registration_token'', JStr token), (''expires_in'', JStr ''3600'')], d1)))"

definition handle_rotate_runner_token :: "env \<Rightarrow> actor \<Rightarrow> string \<Rightarrow> db \<Rightarrow> resp \<times> db" where
  "handle_rotate_runner_token env a runner_id d =
     (if \<not> can_manage_runners a then management_denial env ''token.denied'' a ''runner.credential.rotated'' runner_id
          ''Rotating runner credentials requires a privileged role.'' d
      else if runner_id = [] \<or> contains runner_id ''/'' then (err 400 ''invalid runner id'', d)
      else case create_runner_credential env (a_org a) (a_user_id a) runner_id d of
          (Inl e, d1) \<Rightarrow> (err 400 e, d1)
        | (Inr token, d1) \<Rightarrow>
            (reply 201 [(''registration_token'', JStr token), (''expires_in'', JStr ''3600''), (''runner_id'', JStr runner_id)], d1))"

end
