(* ===== verification/RunnerProps.thy ===== *)
theory RunnerProps
  imports Runners QueueProps
begin

text \<open>
  Runners: what a revocation means for good, whatever runner requests follow (\<open>runner_step\<close> is one request),
  and that a registration gives the runner the one credential that acts as it.
\<close>

section \<open>Shapes of the operations\<close>

lemma write_audit_runner_tables [simp]:
  "runners (write_audit_event env at org actor action tt ti res md d) = runners d"
  "runner_credentials (write_audit_event env at org actor action tt ti res md d) = runner_credentials d"
  "runner_scopes (write_audit_event env at org actor action tt ti res md d) = runner_scopes d"
  by (simp_all add: audit_only_tables [OF audit_only_write])

lemma write_denial_runner_tables [simp]:
  "runners (snd (write_denial env at a action tt ti dec d)) = runners d"
  "runner_credentials (snd (write_denial env at a action tt ti dec d)) = runner_credentials d"
  by (simp_all add: audit_only_tables [OF audit_only_denial])

text \<open>The credentials after a request for one, and the token it gave.\<close>

lemma create_credential_cases:
  assumes "create_runner_credential env org actor rid d = (res, d')"
  obtains (Same) e where "res = Inl e" "d' = d"
  | (Revoked) e where "res = Inl e" "d' = revoke_credentials env rid d" "rid \<noteq> []"
      "\<exists>r \<in> set (runners d). rn_id r = rid \<and> rn_org r = org \<and> rn_status r \<noteq> ''revoked''"
  | (Issued) d1 where "res = Inr (new_token env ''cred.token'')"
      "d1 = (if rid \<noteq> [] then revoke_credentials env rid d else d)"
      "rid \<noteq> [] \<longrightarrow> (\<exists>r \<in> set (runners d). rn_id r = rid \<and> rn_org r = org \<and> rn_status r \<noteq> ''revoked'')"
      "insert_credential env (new_credential env org rid (new_token env ''cred.token'')) d1 \<noteq> None"
      "audit_only (the (insert_credential env (new_credential env org rid (new_token env ''cred.token'')) d1)) d'"
      "new_token env ''cred.token'' \<noteq> []"
proof -
  let ?found = "first_row (fails env ''cred.runner'' 0) (\<lambda>r. rn_id r = rid \<and> rn_org r = org) (runners d)"
  let ?d1 = "if rid \<noteq> [] then revoke_credentials env rid d else d"
  let ?ins = "insert_credential env (new_credential env org rid (new_token env ''cred.token'')) ?d1"
  show ?thesis
  proof (cases "rid \<noteq> [] \<and> (?found = None \<or> map_option rn_status ?found = Some ''revoked'' \<or> fails env ''cred.revoke'' 0)")
    case True
    then have "d' = d \<and> (\<exists>e. res = Inl e)"
      using assms by (auto simp: create_runner_credential_def Let_def split: if_splits)
    then show ?thesis using Same by blast
  next
    case False
    have live: "rid \<noteq> [] \<longrightarrow> (\<exists>r \<in> set (runners d). rn_id r = rid \<and> rn_org r = org \<and> rn_status r \<noteq> ''revoked'')"
    proof
      assume "rid \<noteq> []"
      then obtain r where r: "?found = Some r" "rn_status r \<noteq> ''revoked''" using False by (cases ?found) auto
      then show "\<exists>r \<in> set (runners d). rn_id r = rid \<and> rn_org r = org \<and> rn_status r \<noteq> ''revoked''"
        using first_row_Some [OF r(1)] by blast
    qed
    show ?thesis
    proof (cases "new_token env ''cred.token'' = [] \<or> ?ins = None")
      case True
      then have "(\<exists>e. res = Inl e) \<and> d' = ?d1"
        using assms False by (auto simp: create_runner_credential_def Let_def split: if_splits)
      then show ?thesis using Same Revoked live by (cases "rid = []") auto
    next
      case ok: False
      then obtain d2 where d2: "?ins = Some d2" by blast
      have "res = Inr (new_token env ''cred.token'') \<and> audit_only d2 d'"
        using assms False ok d2 by (auto simp: create_runner_credential_def Let_def split: if_splits)
      then show ?thesis using Issued [OF _ refl live] d2 ok by simp
    qed
  qed
qed

lemma revoke_credentials_sel [simp]:
  "runners (revoke_credentials env rid d) = runners d" "runner_scopes (revoke_credentials env rid d) = runner_scopes d"
  by (simp_all add: revoke_credentials_def)

section \<open>A revoked runner\<close>

definition revoked_runner :: "string \<Rightarrow> db \<Rightarrow> bool" where
  "revoked_runner rid d \<longleftrightarrow> rid \<noteq> [] \<and> rid \<in> rn_id ` set (runners d)
     \<and> (\<forall>r \<in> set (runners d). rn_id r = rid \<longrightarrow> rn_status r = ''revoked'')
     \<and> (\<forall>c \<in> set (runner_credentials d). rc_runner c = Some rid \<longrightarrow> rc_revoked_at c \<noteq> None)"

lemma revoked_runner_cong:
  "runners d' = runners d \<Longrightarrow> runner_credentials d' = runner_credentials d \<Longrightarrow> revoked_runner rid d' = revoked_runner rid d"
  by (simp add: revoked_runner_def)

lemma revoked_write_audit [simp]:
  "revoked_runner rid (write_audit_event env at org actor action tt ti res md d) = revoked_runner rid d"
  by (rule revoked_runner_cong) simp_all

lemma revoked_not_live: "revoked_runner rid d \<Longrightarrow> r \<in> set (runners d) \<Longrightarrow> live_runner org x r \<Longrightarrow> x \<noteq> rid"
  by (auto simp: revoked_runner_def live_runner_def)

lemma revoked_update_runners:
  assumes "revoked_runner rid d" "d' = d\<lparr>runners := update_where P f (runners d)\<rparr>"
    and "\<And>r. r \<in> set (runners d) \<Longrightarrow> P r \<Longrightarrow> rn_id r \<noteq> rid" "\<And>r. rn_id (f r) = rn_id r"
  shows "revoked_runner rid d'"
proof -
  have "map rn_id (runners d') = map rn_id (runners d)" using assms(2,4) by (simp add: map_update_where)
  then have "rn_id ` set (runners d') = rn_id ` set (runners d)" by (metis list.set_map)
  moreover have "rn_status r = ''revoked''" if "r \<in> set (runners d')" "rn_id r = rid" for r
    using that assms by (auto simp: set_update_where revoked_runner_def split: if_splits)
  ultimately show ?thesis using assms(1,2) by (simp add: revoked_runner_def)
qed

lemma revoked_revoke_credentials: "revoked_runner rid d \<Longrightarrow> revoked_runner rid (revoke_credentials env x d)"
  by (auto simp: revoked_runner_def revoke_credentials_def set_update_where)

lemma revoked_insert_runner:
  "insert_runner env at r d = Some d' \<Longrightarrow> revoked_runner rid d \<Longrightarrow> revoked_runner rid d'"
  by (auto simp: revoked_runner_def insert_runner_def split: if_splits)

lemma revoked_create_credential:
  assumes "revoked_runner rid d" "create_runner_credential env org actor x d = (res, d')"
  shows "revoked_runner rid d'"
  using assms(2)
proof (cases rule: create_credential_cases)
  case Same
  then show ?thesis using assms(1) by simp
next
  case (Revoked e)
  then show ?thesis using assms(1) revoked_revoke_credentials by simp
next
  case (Issued d1)
  have x: "x \<noteq> rid"
  proof
    assume "x = rid"
    then show False using Issued(3) assms(1) by (auto simp: revoked_runner_def)
  qed
  have 1: "revoked_runner rid d1" using Issued(2) assms(1) revoked_revoke_credentials by simp
  obtain d2 where d2: "insert_credential env (new_credential env org x (new_token env ''cred.token'')) d1 = Some d2"
    using Issued(4) by blast
  then have "revoked_runner rid d2"
    using 1 x by (auto simp: insert_credential_def revoked_runner_def new_credential_def sql_null_string_def split: if_splits)
  then show ?thesis
    using Issued(5) d2 revoked_runner_cong [of d' d2] by (simp add: audit_only_tables)
qed

lemma revoked_refused:
  assumes "revoked_runner rid d"
  shows "authenticate_runner_credential env d token \<noteq> Inr (org, rid)"
  using runner_credential_sound [of env d token org rid] assms by (auto simp: revoked_runner_def)

lemma bound_credential:
  "authenticate_bound_runner env d token x = Inr org \<Longrightarrow> authenticate_runner_credential env d token = Inr (org, x)"
  by (auto simp: authenticate_bound_runner_def split: sum.splits if_splits)

lemma revoked_audit_only: "audit_only d d' \<Longrightarrow> revoked_runner rid d \<Longrightarrow> revoked_runner rid d'"
  using revoked_runner_cong [of d' d] by (simp add: audit_only_tables)

lemma revoked_assign_scope: "revoked_runner rid d \<Longrightarrow> revoked_runner rid (assign_all_scope env org x d)"
  by (auto simp: assign_all_scope_def Let_def intro: revoked_runner_cong [THEN iffD2])

lemma revoked_register_row:
  assumes "revoked_runner rid d" "register_runner_row env org x q d = Inr (y, d')"
  shows "revoked_runner rid d'"
proof (cases "x \<noteq> []")
  case True
  then have "d' = d\<lparr>runners := update_where (live_runner org x) (registered_row env q) (runners d)\<rparr>"
    using assms(2) by (auto simp: register_runner_row_def split: if_splits)
  then show ?thesis
    by (rule revoked_update_runners [OF assms(1)])
      (use revoked_not_live [OF assms(1)] in \<open>auto simp: live_runner_def registered_row_def\<close>)
next
  case False
  then obtain d1 where "insert_runner env ''register.insert'' (new_runner env org q) d = Some d1" "d' = d1"
    using assms(2) by (auto simp: register_runner_row_def)
  then show ?thesis using revoked_insert_runner assms(1) by blast
qed

section \<open>Requests\<close>

text \<open>One request to any of the handlers, by anyone, at any time.\<close>

inductive runner_step :: "db \<Rightarrow> db \<Rightarrow> bool" where
  created: "handle_create_managed_runner env a body d = (r, d') \<Longrightarrow> runner_step d d'"
| updated: "handle_update_runner env a x body' d = (r, d') \<Longrightarrow> runner_step d d'"
| revoked: "handle_revoke_runner env a x d = (r, d') \<Longrightarrow> runner_step d d'"
| registered: "handle_register_runner env token req d = (r, d') \<Longrightarrow> runner_step d d'"
| heartbeat: "handle_runner_heartbeat env token hb d = (r, d') \<Longrightarrow> runner_step d d'"
| issued: "handle_create_registration_token env a x' d = (r, d') \<Longrightarrow> runner_step d d'"
| rotated: "handle_rotate_runner_token env a x d = (r, d') \<Longrightarrow> runner_step d d'"

lemma denial_audit_only: "write_denial env at a action tt ti dec d = (r, d') \<Longrightarrow> audit_only d d'"
  using audit_only_denial [of d env at a action tt ti dec] by simp

lemma created_cases:
  assumes "handle_create_managed_runner env a body d = (r, d')"
  obtains (Same) "audit_only d d'" | (Inserted) row d1 where "insert_runner env ''runner.create'' row d = Some d1" "audit_only d1 d'"
proof (cases "\<not> can_manage_runners a \<or> body = None \<or> trim_space (fst (the body)) = []")
  case True
  then have "audit_only d d'"
    using assms
    by (auto simp: handle_create_managed_runner_def management_denial_def split: option.splits if_splits
        intro: denial_audit_only)
  then show ?thesis by (rule Same)
next
  case False
  then obtain name ty where "body = Some (name, ty)" "trim_space name \<noteq> []" by auto
  then show ?thesis
    using assms False Same Inserted
    by (auto simp: handle_create_managed_runner_def Let_def split: option.splits)
qed

lemma created_revoked:
  assumes "revoked_runner rid d" "handle_create_managed_runner env a body d = (r, d')"
  shows "revoked_runner rid d'"
  using assms(2)
  by (cases rule: created_cases)
    (use assms(1) in \<open>blast intro: revoked_audit_only revoked_insert_runner\<close>)+

lemma updated_revoked:
  assumes d: "revoked_runner rid d" and h: "handle_update_runner env a x body d = (r, d')"
  shows "revoked_runner rid d'"
proof -
  have "revoked_runner rid (d\<lparr>runners := update_where (live_runner (a_org a) x) (\<lambda>r. r\<lparr>rn_name := n, rn_status := s\<rparr>) (runners d)\<rparr>)" for n s
    by (rule revoked_update_runners [OF d refl]) (use revoked_not_live [OF d] in \<open>auto simp: live_runner_def\<close>)
  then show ?thesis
    using d h by (auto simp: handle_update_runner_def management_denial_def write_denial_def Let_def
        split: if_splits option.splits)
qed

lemma revoked_revoked:
  assumes d: "revoked_runner rid d" and h: "handle_revoke_runner env a x d = (r, d')"
  shows "revoked_runner rid d'"
proof -
  have 1: "revoked_runner rid (d\<lparr>runners := update_where (live_runner (a_org a) x)
      (\<lambda>r. r\<lparr>rn_status := ''revoked'', rn_revoked_at := Some (sql_now env)\<rparr>) (runners d)\<rparr>)"
    by (rule revoked_update_runners [OF d refl]) (use revoked_not_live [OF d] in \<open>auto simp: live_runner_def\<close>)
  show ?thesis
    using d h 1 revoked_revoke_credentials [OF 1, of env x]
    by (auto simp: handle_revoke_runner_def management_denial_def write_denial_def Let_def split: if_splits)
qed

lemma register_cases:
  assumes "handle_register_runner env token body d = (r, d')"
  obtains (Refused) "d' = d" "resp_code r \<noteq> 201"
  | (Row) org x q y d1 where "authenticate_runner_credential env d token = Inr (org, x)"
      "register_runner_row env org x q d = Inr (y, d1)"
      "d' = d1 \<and> resp_code r \<noteq> 201
       \<or> (\<exists>e. create_runner_credential env org [] y (assign_all_scope env org y d1) = (Inl e, d') \<and> resp_code r \<noteq> 201)
       \<or> (\<exists>t d2. create_runner_credential env org [] y (assign_all_scope env org y d1) = (Inr t, d2)
            \<and> d' = write_audit_event env ''register.audit'' org [] ''runner.registered'' ''runner'' y ''success''
                      (jmap [(''name'', JStr (gq_name q))]) d2
            \<and> r = reply 201 [(''runner_id'', JStr y), (''organisation_id'', JStr org),
                   (''status'', JStr ''active''), (''runner_token'', JStr t)])"
proof (cases "authenticate_runner_credential env d token")
  case (Inl e)
  then have "d' = d" "resp_code r \<noteq> 201" using assms by (auto simp: handle_register_runner_def)
  then show ?thesis by (rule Refused)
next
  case (Inr p)
  obtain org x where p: "p = (org, x)" by fastforce
  show ?thesis
  proof (cases "body = None \<or> gq_name (the body) = []")
    case True
    then have "d' = d" "resp_code r \<noteq> 201"
      using assms Inr p by (auto simp: handle_register_runner_def split: option.splits)
    then show ?thesis by (rule Refused)
  next
    case False
    then obtain q where q: "body = Some q" "gq_name q \<noteq> []" by auto
    show ?thesis
    proof (cases "register_runner_row env org x q d")
      case Inl': (Inl e)
      moreover have "resp_code e \<noteq> 201" using Inl' by (auto simp: register_runner_row_def split: if_splits)
      ultimately have "d' = d" "resp_code r \<noteq> 201" using assms Inr p q by (auto simp: handle_register_runner_def)
      then show ?thesis by (rule Refused)
    next
      case Inr': (Inr w)
      obtain y d1 where w: "w = (y, d1)" by fastforce
      obtain res d2 where c: "create_runner_credential env org [] y (assign_all_scope env org y d1) = (res, d2)" by fastforce
      note row = Row [OF Inr [unfolded p] Inr' [unfolded w]]
      show ?thesis
        using assms Inr p q Inr' w c by (intro row) (cases res; auto simp: handle_register_runner_def split: if_splits)
    qed
  qed
qed

lemma registered_revoked:
  assumes d: "revoked_runner rid d" and h: "handle_register_runner env token body d = (r, d')"
  shows "revoked_runner rid d'"
proof -
  from h show ?thesis
  proof (cases rule: register_cases)
    case Refused
    then show ?thesis using d by simp
  next
    case (Row org x q y d1)
    then have "revoked_runner rid d1" using revoked_register_row [OF d] by blast
    note d1 = this revoked_assign_scope [OF this, of env org y]
    from Row(3) show ?thesis
    proof (elim disjE exE conjE)
      assume "d' = d1"
      then show ?thesis using d1(1) by simp
    next
      fix e
      assume "create_runner_credential env org [] y (assign_all_scope env org y d1) = (Inl e, d')"
      then show ?thesis by (rule revoked_create_credential [OF d1(2)])
    next
      fix t d2
      assume c: "create_runner_credential env org [] y (assign_all_scope env org y d1) = (Inr t, d2)"
        and d': "d' = write_audit_event env ''register.audit'' org [] ''runner.registered'' ''runner'' y ''success''
                      (jmap [(''name'', JStr (gq_name q))]) d2"
      show ?thesis unfolding d' using revoked_create_credential [OF d1(2) c] by simp
    qed
  qed
qed

lemma heartbeat_cases:
  assumes "handle_runner_heartbeat env token body d = (r, d')"
  obtains (Same) "d' = d"
  | (Beat) q :: heartbeat_req and org f where "authenticate_bound_runner env d token (hb_runner q) = Inr org"
      "d' = d\<lparr>runners := update_where (\<lambda>r. rn_id r = hb_runner q \<and> rn_org r = org) f (runners d)\<rparr>"
      "\<And>r. rn_id (f r) = rn_id r"
proof (cases body)
  case None
  then show ?thesis using assms Same by (simp add: handle_runner_heartbeat_def)
next
  case (Some q)
  show ?thesis
  proof (cases "authenticate_bound_runner env d token (hb_runner q)")
    case (Inl e)
    then show ?thesis using assms Some Same by (simp add: handle_runner_heartbeat_def)
  next
    case (Inr org)
    let ?P = "\<lambda>r. rn_id r = hb_runner q \<and> rn_org r = org"
    show ?thesis
    proof (cases "fails env ''heartbeat.update'' 0 \<or> count_where ?P (runners d) = 0")
      case True
      then have "d' = d" using assms Some Inr by (simp only: handle_runner_heartbeat_def option.case sum.case Let_def if_True prod.inject)
      then show ?thesis by (rule Same)
    next
      case False
      then have d': "d' = d\<lparr>runners := update_where ?P (\<lambda>r. r\<lparr>rn_status := ''active'', rn_last_seen := Some (go_now env),
            rn_hostname := coalesce_nonempty (hb_hostname q) (rn_hostname r),
            rn_platform := coalesce_nonempty (hb_platform q) (rn_platform r),
            rn_version := coalesce_nonempty (hb_version q) (rn_version r)\<rparr>) (runners d)\<rparr>"
        using assms Some Inr by (simp only: handle_runner_heartbeat_def option.case sum.case Let_def if_False prod.inject)
      show ?thesis by (rule Beat [OF Inr d']) simp
    qed
  qed
qed

lemma heartbeat_revoked:
  assumes d: "revoked_runner rid d" and h: "handle_runner_heartbeat env token body d = (r, d')"
  shows "revoked_runner rid d'"
proof -
  consider (same) "d' = d" | (beat) q :: heartbeat_req and org f where "authenticate_bound_runner env d token (hb_runner q) = Inr org"
      "d' = d\<lparr>runners := update_where (\<lambda>r. rn_id r = hb_runner q \<and> rn_org r = org) f (runners d)\<rparr>" "\<And>r. rn_id (f r) = rn_id r"
    by (rule heartbeat_cases [OF h]) (use that in blast)+
  then show ?thesis
  proof cases
    case same
    then show ?thesis using d by simp
  next
    case beat
    have "hb_runner q \<noteq> rid" using revoked_refused [OF d, of env token org] bound_credential [OF beat(1)] by blast
    then show ?thesis by (intro revoked_update_runners [OF d beat(2)]) (simp_all add: beat(3))
  qed
qed

lemma issued_revoked:
  assumes d: "revoked_runner rid d" and h: "handle_create_registration_token env a body d = (r, d')"
  shows "revoked_runner rid d'"
proof (cases "can_manage_runners a")
  case False
  then have "audit_only d d'"
    using h by (auto simp: handle_create_registration_token_def management_denial_def intro: denial_audit_only)
  then show ?thesis using d by (rule revoked_audit_only)
next
  case True
  show ?thesis
  proof (cases body)
    case None
    then show ?thesis using True h d by (simp add: handle_create_registration_token_def)
  next
    case (Some x)
    obtain e d1 where c: "create_runner_credential env (a_org a) (a_user_id a) x d = (e, d1)" by fastforce
    then have "d' = d1" using True Some h by (cases e) (simp_all add: handle_create_registration_token_def)
    then show ?thesis using revoked_create_credential [OF d c] by simp
  qed
qed

lemma rotated_revoked:
  assumes d: "revoked_runner rid d" and h: "handle_rotate_runner_token env a x d = (r, d')"
  shows "revoked_runner rid d'"
proof (cases "can_manage_runners a")
  case False
  then have "audit_only d d'"
    using h by (auto simp: handle_rotate_runner_token_def management_denial_def intro: denial_audit_only)
  then show ?thesis using d by (rule revoked_audit_only)
next
  case True
  obtain e d1 where c: "create_runner_credential env (a_org a) (a_user_id a) x d = (e, d1)" by fastforce
  then have "d' = d \<or> d' = d1"
    using True h by (cases e) (auto simp: handle_rotate_runner_token_def split: if_splits)
  then show ?thesis using revoked_create_credential [OF d c] d by auto
qed

lemma step_revoked: "runner_step d d' \<Longrightarrow> revoked_runner rid d \<Longrightarrow> revoked_runner rid d'"
  by (induction rule: runner_step.induct)
    (blast intro: created_revoked updated_revoked revoked_revoked registered_revoked heartbeat_revoked
      issued_revoked rotated_revoked)+

lemma steps_revoked: "runner_step\<^sup>*\<^sup>* d d' \<Longrightarrow> revoked_runner rid d \<Longrightarrow> revoked_runner rid d'"
  by (induction rule: rtranclp_induct) (auto intro: step_revoked)

lemma revoke_cases:
  assumes "handle_revoke_runner env a rid d = (r, d')" "resp_code r = 200"
  obtains d1 where "can_manage_runners a" "count_where (live_runner (a_org a) rid) (runners d) \<noteq> 0"
    "d1 = d\<lparr>runners := update_where (live_runner (a_org a) rid)
            (\<lambda>r. r\<lparr>rn_status := ''revoked'', rn_revoked_at := Some (sql_now env)\<rparr>) (runners d)\<rparr>"
    "audit_only (revoke_credentials env rid d1) d'"
proof -
  have m: "can_manage_runners a"
  proof (rule ccontr)
    assume "\<not> can_manage_runners a"
    then have "resp_code r = 403"
      using assms(1) write_denial_code by (auto simp: handle_revoke_runner_def management_denial_def dest: write_denial_shape)
    then show False using assms(2) by simp
  qed
  note h = assms(1) [unfolded handle_revoke_runner_def Let_def, simplified m]
  have f: "\<not> fails env ''runner.revoke'' 0" using h assms(2) by auto
  have n: "count_where (live_runner (a_org a) rid) (runners d) \<noteq> 0"
    using h f assms(2) by (auto split: if_splits)
  have g: "\<not> fails env ''runner.revoke_credentials'' 0" using h f n assms(2) by (auto split: if_splits)
  show thesis
    by (rule that [OF m n refl]) (use h f n g in auto)
qed

lemma revoke_revokes:
  assumes "handle_revoke_runner env a rid d = (r, d')" "resp_code r = 200"
    and "distinct (map rn_id (runners d))" "rid \<noteq> []"
  shows "revoked_runner rid d'"
  using assms(1,2)
proof (cases rule: revoke_cases)
  case (1 d1)
  obtain x where x: "x \<in> set (runners d)" "live_runner (a_org a) rid x"
    using 1(2) by (auto simp: count_where_def filter_empty_conv)
  have only: "y = x" if "y \<in> set (runners d)" "rn_id y = rid" for y
    using that x(1) x(2) [unfolded live_runner_def] assms(3) [unfolded distinct_map] by (metis inj_onD)
  have rows: "rn_status y = ''revoked''" if y: "y \<in> set (runners d1)" "rn_id y = rid" for y
  proof -
    obtain z where z: "z \<in> set (runners d)" "y = (if live_runner (a_org a) rid z
        then z\<lparr>rn_status := ''revoked'', rn_revoked_at := Some (sql_now env)\<rparr> else z)"
      using y(1) unfolding 1(3) by (auto simp: set_update_where)
    have "rn_id z = rid" using z(2) y(2) by (simp split: if_splits)
    then have "live_runner (a_org a) rid z" using only [OF z(1)] x(2) by blast
    then show ?thesis using z(2) by simp
  qed
  have "map rn_id (runners d1) = map rn_id (runners d)" unfolding 1(3) by (simp add: map_update_where)
  then have "rn_id ` set (runners d1) = rn_id ` set (runners d)" by (metis list.set_map)
  then have "rid \<in> rn_id ` set (runners d1)" using x by (force simp: live_runner_def)
  moreover have "rc_revoked_at c \<noteq> None" if "c \<in> set (runner_credentials (revoke_credentials env rid d1))" "rc_runner c = Some rid" for c
    using that by (auto simp: revoke_credentials_def set_update_where)
  ultimately have "revoked_runner rid (revoke_credentials env rid d1)"
    using rows assms(4) by (simp add: revoked_runner_def)
  then show ?thesis using revoked_audit_only 1(4) by blast
qed

section \<open>Revocation is final\<close>

text \<open>
  C14: a revoked runner stays out.  After \<open>handleRevokeRunner\<close> has answered 200, and after any further runner
  requests (updates, registrations with any credential, heartbeats, new and rotated
  tokens), no token whatever authenticates as that runner: it is refused a job, a result and a heartbeat, and a
  privileged user can neither reactivate it nor give it a new token.
\<close>

theorem revoked_for_good:
  assumes "handle_revoke_runner env a rid d = (r, d')" "resp_code r = 200"
    and "distinct (map rn_id (runners d))" "rid \<noteq> []" "runner_step\<^sup>*\<^sup>* d' d''"
  shows "authenticate_bound_runner env' d'' token rid \<noteq> Inr org
    \<and> resp_code (fst (handle_claim_job env' token rid tf (d'', th))) \<noteq> 200
    \<and> resp_code (fst (handle_update_runner env' b rid (Some (name, status)) d'')) \<noteq> 200
    \<and> resp_code (fst (handle_rotate_runner_token env' b rid d'')) \<noteq> 201"
proof -
  have rev: "revoked_runner rid d''"
    using steps_revoked [OF assms(5)] revoke_revokes [OF assms(1-4)] by blast
  have out: "authenticate_bound_runner env' d'' token rid \<noteq> Inr org" for org
    using revoked_refused [OF rev] bound_credential by blast
  obtain e where "authenticate_bound_runner env' d'' token rid = Inl e"
    using out by (cases "authenticate_bound_runner env' d'' token rid") auto
  then have claim: "resp_code (fst (handle_claim_job env' token rid tf (d'', th))) \<noteq> 200"
    by (simp add: handle_claim_job_def)
  have none: "count_where (live_runner (a_org b) rid) (runners d'') = 0"
    using rev by (auto simp: count_where_def filter_empty_conv live_runner_def revoked_runner_def)
  then have update: "resp_code (fst (handle_update_runner env' b rid (Some (name, status)) d'')) \<noteq> 200"
    by (simp add: handle_update_runner_def management_denial_def Let_def)
  obtain e d1 where c: "create_runner_credential env' (a_org b) (a_user_id b) rid d'' = (e, d1)" by fastforce
  have "\<exists>x. e = Inl x"
    using c
  proof (cases rule: create_credential_cases)
    case (Issued d2)
    then show ?thesis using rev by (auto simp: revoked_runner_def)
  qed auto
  then have "resp_code (fst (handle_rotate_runner_token env' b rid d'')) \<noteq> 201"
    using c by (auto simp: handle_rotate_runner_token_def management_denial_def)
  then show ?thesis using out claim update by blast
qed

section \<open>Registration\<close>

lemma issued_credentials:
  assumes "create_runner_credential env org actor y d = (Inr t, d')" "y \<noteq> []"
  shows "t \<noteq> []" "runners d' = runners d"
    "runner_credentials d' = runner_credentials (revoke_credentials env y d) @ [new_credential env org y t]"
    "hash_token env t \<notin> rc_token_hash ` set (runner_credentials d)"
proof -
  have all: "t \<noteq> [] \<and> runners d' = runners d
      \<and> runner_credentials d' = runner_credentials (revoke_credentials env y d) @ [new_credential env org y t]
      \<and> hash_token env t \<notin> rc_token_hash ` set (runner_credentials d)"
    using assms(1)
  proof (cases rule: create_credential_cases)
    case (Issued d1)
    have d1: "d1 = revoke_credentials env y d" and t: "t = new_token env ''cred.token''" using Issued(1,2) assms(2) by simp_all
    obtain d2 where d2: "insert_credential env (new_credential env org y t) d1 = Some d2" using Issued(4) t by blast
    have hash: "rc_token_hash (new_credential env org y t) = hash_token env t" by (simp add: new_credential_def)
    have "map rc_token_hash (runner_credentials d1) = map rc_token_hash (runner_credentials d)"
      by (simp add: d1 revoke_credentials_def map_update_where)
    then have hashes: "rc_token_hash ` set (runner_credentials d1) = rc_token_hash ` set (runner_credentials d)"
      by (metis list.set_map)
    have ins: "d2 = d1\<lparr>runner_credentials := runner_credentials d1 @ [new_credential env org y t]\<rparr>"
        "hash_token env t \<notin> rc_token_hash ` set (runner_credentials d1)"
      using d2 hash by (auto simp: insert_credential_def split: if_splits)
    have "audit_only d2 d'" using Issued(5) d2 t by simp
    then show ?thesis using ins hashes d1 t Issued(6) by (simp add: audit_only_tables)
  qed auto
  then show "t \<noteq> []" "runners d' = runners d"
    "runner_credentials d' = runner_credentials (revoke_credentials env y d) @ [new_credential env org y t]"
    "hash_token env t \<notin> rc_token_hash ` set (runner_credentials d)" by simp_all
qed

lemma new_credential_sel [simp]:
  "rc_token_hash (new_credential env org y t) = hash_token env t" "rc_revoked_at (new_credential env org y t) = None"
  "rc_org (new_credential env org y t) = org" "rc_runner (new_credential env org y t) = sql_null_string y"
  "rc_expires_at (new_credential env org y t) = go_now env + credential_ttl y"
  by (simp_all add: new_credential_def)

lemma registered_runner:
  assumes "register_runner_row env org x q d = Inr (y, d1)"
  shows "y \<noteq> []" "x = [] \<or> y = x" "\<exists>r \<in> set (runners d1). rn_id r = y \<and> rn_org r = org \<and> rn_status r = ''active''"
proof -
  have all: "y \<noteq> [] \<and> (x = [] \<or> y = x) \<and> (\<exists>r \<in> set (runners d1). rn_id r = y \<and> rn_org r = org \<and> rn_status r = ''active'')"
  proof (cases "x = []")
    case True
    then obtain d2 where "insert_runner env ''register.insert'' (new_runner env org q) d = Some d2"
        "y = rn_id (new_runner env org q)" "d1 = d2"
      using assms by (auto simp: register_runner_row_def)
    then show ?thesis using True by (auto simp: insert_runner_def new_runner_def fresh_id_def split: if_splits)
  next
    case False
    then have c: "count_where (live_runner org x) (runners d) \<noteq> 0" and y: "y = x"
      and d1: "d1 = d\<lparr>runners := update_where (live_runner org x) (registered_row env q) (runners d)\<rparr>"
      using assms by (auto simp: register_runner_row_def split: if_splits)
    obtain r where r: "r \<in> set (runners d)" "live_runner org x r" using c by (auto simp: count_where_def filter_empty_conv)
    then have "registered_row env q r \<in> set (runners d1)" unfolding d1 by (auto simp: set_update_where)
    moreover have "rn_id (registered_row env q r) = x" "rn_org (registered_row env q r) = org"
        "rn_status (registered_row env q r) = ''active''"
      using r(2) by (simp_all add: registered_row_def live_runner_def)
    ultimately show ?thesis using False y by blast
  qed
  then show "y \<noteq> []" "x = [] \<or> y = x" "\<exists>r \<in> set (runners d1). rn_id r = y \<and> rn_org r = org \<and> rn_status r = ''active''"
    by simp_all
qed

lemma registered_distinct:
  assumes "register_runner_row env org x q d = Inr (y, d1)" "distinct (map rn_id (runners d))"
  shows "distinct (map rn_id (runners d1))"
proof (cases "x = []")
  case True
  then show ?thesis using assms by (auto simp: register_runner_row_def insert_runner_def split: if_splits)
next
  case False
  then have d1: "d1 = d\<lparr>runners := update_where (live_runner org x) (registered_row env q) (runners d)\<rparr>"
    using assms(1) by (auto simp: register_runner_row_def split: if_splits)
  have "map rn_id (runners d1) = map rn_id (runners d)"
    unfolding d1 by (simp add: map_update_where registered_row_def)
  then show ?thesis using assms(2) by simp
qed

lemma filter_key_only:
  "distinct (map k xs) \<Longrightarrow> x \<in> set xs \<Longrightarrow> P x \<Longrightarrow> filter (\<lambda>y. k y = k x \<and> P y) xs = [x]"
  by (induction xs) (auto simp: filter_empty_conv rev_image_eqI)

lemma assign_scope_sel [simp]:
  "runners (assign_all_scope env org y d) = runners d"
  "runner_credentials (assign_all_scope env org y d) = runner_credentials d"
  by (simp_all add: assign_all_scope_def Let_def)

text \<open>
  C15: what a registration gives.  When \<open>handleRegisterRunner\<close> answers 201, the caller's credential was one of the
  organisation, or of that very runner; the answer names an active runner of that organisation; every live credential
  of this runner has the hash of the returned token, so its earlier tokens are dead; and until 30 days are over the
  returned token authenticates as exactly this runner.
\<close>

theorem registration_binds:
  assumes "handle_register_runner env token (Some q) d = (r, d')" "resp_code r = 201"
    and "distinct (map rn_id (runners d))"
  shows "\<exists>org x y t. r = reply 201 [(''runner_id'', JStr y), (''organisation_id'', JStr org),
        (''status'', JStr ''active''), (''runner_token'', JStr t)]
    \<and> authenticate_runner_credential env d token = Inr (org, x) \<and> (x = [] \<or> x = y)
    \<and> (\<exists>row \<in> set (runners d'). rn_id row = y \<and> rn_org row = org \<and> rn_status row = ''active'')
    \<and> (\<forall>c \<in> set (runner_credentials d'). rc_runner c = Some y \<and> rc_revoked_at c = None \<longrightarrow> rc_token_hash c = hash_token env t)
    \<and> (\<forall>env'. fails env' = (\<lambda>_ _. False) \<and> sha_hex env' = sha_hex env \<and> sql_now env' < go_now env + bound_credential_ttl
         \<longrightarrow> authenticate_bound_runner env' d' t y = Inr org)"
  using assms(1)
proof (cases rule: register_cases)
  case Refused
  then show ?thesis using assms(2) by simp
next
  case (Row org x q' y d1)
  then obtain t d2 where c: "create_runner_credential env org [] y (assign_all_scope env org y d1) = (Inr t, d2)"
    and d': "d' = write_audit_event env ''register.audit'' org [] ''runner.registered'' ''runner'' y ''success''
                      (jmap [(''name'', JStr (gq_name q'))]) d2"
    and r: "r = reply 201 [(''runner_id'', JStr y), (''organisation_id'', JStr org),
                   (''status'', JStr ''active''), (''runner_token'', JStr t)]"
    using assms(2) by blast
  note run = registered_runner [OF Row(2)]
  note cred = issued_credentials [OF c run(1), unfolded assign_scope_sel]
  have rows: "runners d' = runners d1" "runner_credentials d' = runner_credentials d2" using cred(2) by (simp_all add: d')
  obtain row where row: "row \<in> set (runners d1)" "rn_id row = y" "rn_org row = org" "rn_status row = ''active''"
    using run(3) by blast
  have one: "filter (\<lambda>r. rn_id r = y \<and> rn_org r = org) (runners d1) = [row]"
    using filter_key_only [OF registered_distinct [OF Row(2) assms(3)] row(1), of "\<lambda>r. rn_org r = org"] row by simp
  let ?c = "new_credential env org y t"
  let ?old = "runner_credentials (revoke_credentials env y (assign_all_scope env org y d1))"
  have "map rc_token_hash ?old = map rc_token_hash (runner_credentials d1)"
    by (simp add: revoke_credentials_def map_update_where)
  then have "rc_token_hash ` set ?old = rc_token_hash ` set (runner_credentials d1)" by (metis list.set_map)
  then have fresh: "hash_token env t \<notin> rc_token_hash ` set ?old" using cred(4) by simp
  have dead: "rc_revoked_at c \<noteq> None" if "c \<in> set ?old" "rc_runner c = Some y" for c
    using that by (auto simp: revoke_credentials_def set_update_where)
  have live: "rc_token_hash c = hash_token env t"
    if c: "c \<in> set (runner_credentials d')" "rc_runner c = Some y" "rc_revoked_at c = None" for c
  proof -
    have "c \<notin> set ?old" using dead c(2,3) by blast
    then have "c = ?c" using c(1) rows(2) cred(3) by simp
    then show ?thesis by simp
  qed
  have auth: "authenticate_bound_runner env' d' t y = Inr org"
    if env': "fails env' = (\<lambda>_ _. False)" "sha_hex env' = sha_hex env" "sql_now env' < go_now env + bound_credential_ttl" for env'
  proof -
    have "filter (\<lambda>c. rc_token_hash c = hash_token env' t \<and> rc_revoked_at c = None \<and> rc_expires_at c > sql_now env')
        (runner_credentials d') = [?c]"
      using env' run(1) fresh rows cred(3) by (auto simp: hash_token_def filter_empty_conv credential_ttl_def image_iff)
    then have "authenticate_runner_credential env' d' t = Inr (org, y)"
      using env'(1) cred(1) run(1) one rows row
      by (simp add: authenticate_runner_credential_def sql_null_string_def bind_tenant_connection_def or_empty_def)
    then show ?thesis using run(1) by (simp add: authenticate_bound_runner_def)
  qed
  show ?thesis
    by (intro exI [of _ org] exI [of _ x] exI [of _ y] exI [of _ t] conjI ballI allI impI bexI [of _ row])
      (use r Row(1) run(2) row rows live auth in auto)
qed

section \<open>Witnesses\<close>

text \<open>The sample runner is revoked; then its own token sends a heartbeat.\<close>

definition sample_revoked :: "resp \<times> db" where
  "sample_revoked = handle_revoke_runner sample_env sample_owner ''r1'' sample_db"

lemma sample_revoked_code: "resp_code (fst sample_revoked) = 200"
proof -
  have "can_manage_runners sample_owner" by code_simp
  then show ?thesis
    by (simp add: sample_revoked_def handle_revoke_runner_def Let_def count_where_def live_runner_def sample_runner_def
        sample_owner_def)
qed

theorem revoked_for_good_witness:
  "authenticate_bound_runner sample_env (snd (handle_runner_heartbeat sample_env ''secret''
      (Some \<lparr>hb_runner = ''r1'', hb_hostname = [], hb_platform = [], hb_version = []\<rparr>) (snd sample_revoked))) ''secret'' ''r1''
    \<noteq> Inr ''org-1''"
proof -
  let ?h = "handle_runner_heartbeat sample_env ''secret''
      (Some \<lparr>hb_runner = ''r1'', hb_hostname = [], hb_platform = [], hb_version = []\<rparr>) (snd sample_revoked)"
  have "?h = (fst ?h, snd ?h)" by simp
  then have "runner_step (snd sample_revoked) (snd ?h)" by (rule runner_step.heartbeat)
  then have s: "runner_step\<^sup>*\<^sup>* (snd sample_revoked) (snd ?h)" by blast
  have r: "handle_revoke_runner sample_env sample_owner ''r1'' sample_db = (fst sample_revoked, snd sample_revoked)"
    by (simp add: sample_revoked_def)
  show ?thesis
    by (rule revoked_for_good [OF r sample_revoked_code _ _ s, THEN conjunct1]) simp_all
qed

definition sample_register :: register_req where
  "sample_register = \<lparr>gq_name = ''runner'', gq_version = ''1.0'', gq_hostname = ''h'', gq_platform = ''linux'',
     gq_ip = [], gq_type = []\<rparr>"

definition sample_registered :: "resp \<times> db" where
  "sample_registered = handle_register_runner sample_env ''secret'' (Some sample_register) sample_db"

lemma sample_registered_code: "resp_code (fst sample_registered) = 201"
proof -
  have a: "authenticate_runner_credential sample_env sample_db ''secret'' = Inr (''org-1'', ''r1'')"
    using bound_credential [OF sample_bound] .
  obtain d1 where row: "register_runner_row sample_env ''org-1'' ''r1'' sample_register sample_db = Inr (''r1'', d1)"
      "runners d1 = [registered_row sample_env sample_register sample_runner]"
      "runner_credentials d1 = runner_credentials sample_db"
    by (simp add: register_runner_row_def count_where_def live_runner_def sample_runner_def update_where_def)
  obtain res d2 where c: "create_runner_credential sample_env ''org-1'' [] ''r1''
      (assign_all_scope sample_env ''org-1'' ''r1'' d1) = (res, d2)" by fastforce
  have "\<exists>t. res = Inr t"
    using c row(2)
    by (auto simp: create_runner_credential_def Let_def first_row_def registered_row_def sample_runner_def insert_credential_def
        revoke_credentials_def row(3) sample_db_def update_where_def hash_token_def new_credential_def fresh_id_def sample_env_def)
  then show ?thesis
    using a row(1) c by (auto simp: sample_registered_def handle_register_runner_def sample_register_def)
qed

theorem registration_binds_witness:
  "\<exists>t. authenticate_bound_runner sample_env (snd sample_registered) t ''r1'' = Inr ''org-1''"
proof -
  have r: "handle_register_runner sample_env ''secret'' (Some sample_register) sample_db = (fst sample_registered, snd sample_registered)"
    by (simp add: sample_registered_def)
  have a: "authenticate_runner_credential sample_env sample_db ''secret'' = Inr (''org-1'', ''r1'')"
    using bound_credential [OF sample_bound] .
  have d: "distinct (map rn_id (runners sample_db))" by simp
  obtain org x y t where o': "authenticate_runner_credential sample_env sample_db ''secret'' = Inr (org, x)" "x = [] \<or> x = y"
      and b: "\<forall>env'. fails env' = (\<lambda>_ _. False) \<and> sha_hex env' = sha_hex sample_env
           \<and> sql_now env' < go_now sample_env + bound_credential_ttl
         \<longrightarrow> authenticate_bound_runner env' (snd sample_registered) t y = Inr org"
    using registration_binds [OF r sample_registered_code d] by metis
  have "fails sample_env = (\<lambda>_ _. False) \<and> sql_now sample_env < go_now sample_env + bound_credential_ttl"
    by (simp add: sample_env_def bound_credential_ttl_def)
  then have "authenticate_bound_runner sample_env (snd sample_registered) t y = Inr org" using b by blast
  then show ?thesis using o' a by auto
qed

end
