(* ===== verification/Servers.thy ===== *)
theory Servers
  imports RunbookApi
begin

text \<open>
  \<open>apps/api/servers.go\<close>: the inventory of servers.  The SSH identity of a server is a reference to a credential,
  which only runners hold, and the pinned fingerprint of its host key.
\<close>

section \<open>The SSH identity\<close>

text \<open>The two regular expressions: \<open>^SHA256:[A-Za-z0-9+/]{43}$\<close> and \<open>^[A-Za-z0-9_-]{1,128}$\<close>.\<close>

definition fingerprint_pattern :: "string \<Rightarrow> bool" where
  "fingerprint_pattern s \<longleftrightarrow> has_prefix s ''SHA256:'' \<and> length s = 7 + 43
     \<and> list_all (\<lambda>c. is_lower c \<or> is_upper c \<or> is_digit c \<or> c = CHR ''+'' \<or> c = CHR ''/'') (drop 7 s)"

definition reference_pattern :: "string \<Rightarrow> bool" where
  "reference_pattern s \<longleftrightarrow> 1 \<le> length s \<and> length s \<le> 128
     \<and> list_all (\<lambda>c. is_lower c \<or> is_upper c \<or> is_digit c \<or> c = CHR ''_'' \<or> c = CHR ''-'') s"

definition validate_ssh_identity :: "string \<Rightarrow> string \<Rightarrow> string option" where
  "validate_ssh_identity credential_ref fingerprint =
     (let ref = trim_space credential_ref; fp = trim_space fingerprint
      in if ref \<noteq> [] \<and> \<not> reference_pattern ref
         then Some ''ssh_credential_ref must contain only letters, digits, hyphen, or underscore''
         else if fp \<noteq> [] \<and> \<not> fingerprint_pattern fp
         then Some ''ssh_host_key_fingerprint must be an OpenSSH SHA256 fingerprint, for example SHA256:abc...''
         else None)"

text \<open>What an optional field of a request gives to \<open>COALESCE(?, column)\<close>.\<close>

definition sql_null_optional_string :: "string option \<Rightarrow> string option" where
  "sql_null_optional_string v =
     (case v of None \<Rightarrow> None | Some s \<Rightarrow> if trim_space s = [] then Some [] else Some (trim_space s))"

definition coalesce :: "'a option \<Rightarrow> 'a option \<Rightarrow> 'a option" where
  "coalesce a b = (case a of None \<Rightarrow> b | Some x \<Rightarrow> Some x)"

section \<open>Reading\<close>

definition tag_json :: "server_tag \<Rightarrow> json" where
  "tag_json t = JObj [(''key'', JStr (tg_key t)), (''value'', JStr (tg_value t))]"

definition load_tags :: "env \<Rightarrow> string \<Rightarrow> string \<Rightarrow> db \<Rightarrow> json" where
  "load_tags env org server_id d =
     (if fails env (''tags:'' @ server_id) 0 then JNull
      else null_list (map tag_json (order_by (\<lambda>x y. str_le (tg_key x) (tg_key y))
             (filter (\<lambda>t. tg_org t = org \<and> tg_server t = server_id) (server_tags d)))))"

definition server_json :: "env \<Rightarrow> json \<Rightarrow> server \<Rightarrow> json" where
  "server_json env tags s = JObj
     [(''id'', JStr (sv_id s)), (''name'', JStr (sv_name s)), (''hostname'', JStr (or_empty (sv_hostname s))),
      (''public_ip'', JStr (or_empty (sv_public_ip s))), (''private_ip'', JStr (or_empty (sv_private_ip s))),
      (''ssh_port'', JInt (sv_ssh_port s)), (''ssh_username'', JStr (or_empty (sv_ssh_username s))),
      (''ssh_credential_ref'', JStr (or_empty (sv_credential_ref s))),
      (''ssh_host_key_fingerprint'', JStr (or_empty (sv_host_key s))), (''environment'', JStr (sv_environment s)),
      (''provider'', JStr (or_empty (sv_provider s))), (''os_name'', JStr (or_empty (sv_os_name s))),
      (''os_version'', JStr (or_empty (sv_os_version s))), (''kernel_version'', JStr (or_empty (sv_kernel s))),
      (''architecture'', JStr (or_empty (sv_architecture s))), (''status'', JStr (sv_status s)),
      (''last_seen_at'', JStr (opt_time env (sv_last_seen s))), (''last_check_at'', JStr (opt_time env (sv_last_check s))),
      (''created_at'', JStr (time_text env (sv_created_at s))), (''tags'', tags)]"

text \<open>The query parameters, empty when absent.\<close>

record server_filter =
  vf_environment :: string
  vf_tag_key :: string
  vf_tag_value :: string

definition has_tag :: "db \<Rightarrow> string \<Rightarrow> (server_tag \<Rightarrow> bool) \<Rightarrow> server \<Rightarrow> bool" where
  "has_tag d org P s \<longleftrightarrow> (\<exists>t \<in> set (server_tags d). tg_server t = sv_id s \<and> tg_org t = org \<and> P t)"

definition listed :: "db \<Rightarrow> string \<Rightarrow> server_filter \<Rightarrow> server \<Rightarrow> bool" where
  "listed d org f s \<longleftrightarrow> sv_org s = org \<and> sv_status s \<noteq> ''archived''
     \<and> (vf_environment f \<noteq> [] \<longrightarrow> sv_environment s = vf_environment f)
     \<and> (vf_tag_key f \<noteq> [] \<and> vf_tag_value f \<noteq> [] \<longrightarrow>
          has_tag d org (\<lambda>t. tg_key t = vf_tag_key f \<and> tg_value t = vf_tag_value f) s)
     \<and> (vf_tag_key f \<noteq> [] \<and> vf_tag_value f = [] \<longrightarrow> has_tag d org (\<lambda>t. tg_key t = vf_tag_key f) s)"

text \<open>A row whose hostname is \<open>NULL\<close> does not scan and is left out.\<close>

definition handle_list_servers :: "env \<Rightarrow> db \<Rightarrow> actor \<Rightarrow> server_filter \<Rightarrow> resp" where
  "handle_list_servers env d a f =
     (if fails env ''servers.list'' 0 then err 500 ''query failed''
      else if fails env ''servers.close'' 0 then err 500 ''failed to close server query''
      else reply 200 [(''servers'', JArr (map (\<lambda>s. server_json env (load_tags env (a_org a) (sv_id s) d) s)
             (filter (\<lambda>s. sv_hostname s \<noteq> None)
               (order_by (\<lambda>x y. str_le (sv_name x) (sv_name y)) (filter (listed d (a_org a) f) (servers d))))))])"

definition handle_get_server :: "env \<Rightarrow> db \<Rightarrow> actor \<Rightarrow> string \<Rightarrow> resp" where
  "handle_get_server env d a server_id =
     (case first_row (fails env ''server.get'' 0) (\<lambda>s. sv_id s = server_id \<and> sv_org s = a_org a) (servers d) of
        None \<Rightarrow> err 404 ''server not found''
      | Some s \<Rightarrow> reply 200 [(''server'', server_json env (load_tags env (a_org a) server_id d) s)])"

section \<open>Adding\<close>

record add_server_req =
  vq_name :: string
  vq_hostname :: string
  vq_public_ip :: string
  vq_private_ip :: string
  vq_port :: int
  vq_username :: string
  vq_credential_ref :: string
  vq_host_key :: string
  vq_environment :: string
  vq_provider :: string
  vq_tags :: "(string \<times> string) list"

definition new_server :: "env \<Rightarrow> string \<Rightarrow> add_server_req \<Rightarrow> server" where
  "new_server env org q =
     \<lparr>sv_id = fresh_id env ''srv_'' ''server.id'' 0, sv_org = org, sv_name = vq_name q,
      sv_hostname = sql_null_string (vq_hostname q), sv_public_ip = sql_null_string (vq_public_ip q),
      sv_private_ip = sql_null_string (vq_private_ip q), sv_ssh_port = (if vq_port q = 0 then 22 else vq_port q),
      sv_ssh_username = sql_null_string (vq_username q), sv_credential_ref = sql_null_string (vq_credential_ref q),
      sv_host_key = sql_null_string (vq_host_key q),
      sv_environment = (if vq_environment q = [] then ''development'' else vq_environment q),
      sv_provider = sql_null_string (vq_provider q), sv_os_name = None, sv_os_version = None, sv_kernel = None,
      sv_architecture = None, sv_status = ''pending'', sv_last_seen = None, sv_last_check = None,
      sv_created_at = sql_now env\<rparr>"

text \<open>The primary key and \<open>UNIQUE (organisation_id, name)\<close>.\<close>

definition insert_server :: "env \<Rightarrow> server \<Rightarrow> db \<Rightarrow> db option" where
  "insert_server env s d =
     (if fails env ''server.insert'' 0 \<or> sv_id s \<in> sv_id ` set (servers d)
        \<or> (sv_org s, sv_name s) \<in> (\<lambda>x. (sv_org x, sv_name x)) ` set (servers d) then None
      else Some (d\<lparr>servers := servers d @ [s]\<rparr>))"

text \<open>One tag; its key is unique for the server.\<close>

definition insert_tag :: "env \<Rightarrow> nat \<Rightarrow> string \<Rightarrow> string \<Rightarrow> string \<times> string \<Rightarrow> db \<Rightarrow> db option" where
  "insert_tag env i org server_id t d =
     (if fails env ''server.tag'' i \<or> (\<exists>x \<in> set (server_tags d). tg_org x = org \<and> tg_server x = server_id \<and> tg_key x = fst t)
      then None
      else Some (d\<lparr>server_tags := server_tags d @ [\<lparr>tg_org = org, tg_server = server_id, tg_key = fst t, tg_value = snd t\<rparr>]\<rparr>))"

text \<open>A new server: the error of a tag is dropped.\<close>

fun add_tags :: "env \<Rightarrow> nat \<Rightarrow> string \<Rightarrow> string \<Rightarrow> (string \<times> string) list \<Rightarrow> db \<Rightarrow> db" where
  "add_tags env i org server_id [] d = d"
| "add_tags env i org server_id (t # ts) d =
     add_tags env (Suc i) org server_id ts
       (if fst t = [] then d else case insert_tag env i org server_id t d of None \<Rightarrow> d | Some d' \<Rightarrow> d')"

definition handle_add_server :: "env \<Rightarrow> actor \<Rightarrow> add_server_req option \<Rightarrow> db \<Rightarrow> resp \<times> db" where
  "handle_add_server env a body d =
     (let dec = check_server_management a
      in if \<not> d_allowed dec then write_denial env ''server.denied'' a ''server.created'' ''server'' [] dec d
         else case body of
             None \<Rightarrow> (err 400 ''invalid request body'', d)
           | Some q \<Rightarrow>
               if vq_name q = [] then (err 400 ''name is required'', d)
               else
                 (case validate_ssh_identity (vq_credential_ref q) (vq_host_key q) of
                    Some e \<Rightarrow> (err 400 e, d)
                  | None \<Rightarrow>
                      (let s = new_server env (a_org a) q
                       in case insert_server env s d of
                            None \<Rightarrow> (err 500 (''failed to create server: '' @ error_text env ''server.insert''), d)
                          | Some d1 \<Rightarrow>
                              (reply 201 [(''server_id'', JStr (sv_id s)), (''status'', JStr ''created'')],
                               write_audit_event env ''server.audit'' (a_org a) (a_user_id a) ''server.created'' ''server''
                                 (sv_id s) ''success''
                                 (jmap [(''name'', JStr (sv_name s)), (''environment'', JStr (sv_environment s))])
                                 (add_tags env 0 (a_org a) (sv_id s) (vq_tags q) d1)))))"

section \<open>Updating\<close>

text \<open>
  The fields that have no tag are read under the names \<open>Name\<close>, \<open>Hostname\<close>, \<open>PublicIP\<close>, \<open>PrivateIP\<close>,
  \<open>SSHUsername\<close>, \<open>Environment\<close>, \<open>Provider\<close> and \<open>SSHPort\<close>, in any case; \<open>None\<close> is an omitted or a null field.
\<close>

record update_server_req =
  wq_name :: string
  wq_hostname :: string
  wq_public_ip :: string
  wq_private_ip :: string
  wq_username :: string
  wq_environment :: string
  wq_provider :: string
  wq_credential_ref :: "string option"
  wq_host_key :: "string option"
  wq_port :: int
  wq_tags :: "(string \<times> string) list"

definition updated_server :: "update_server_req \<Rightarrow> server \<Rightarrow> server" where
  "updated_server q s =
     s\<lparr>sv_name := wq_name q, sv_hostname := sql_null_string (wq_hostname q), sv_public_ip := sql_null_string (wq_public_ip q),
       sv_private_ip := sql_null_string (wq_private_ip q), sv_ssh_port := (if wq_port q = 0 then 22 else wq_port q),
       sv_ssh_username := sql_null_string (wq_username q),
       sv_credential_ref := coalesce (sql_null_optional_string (wq_credential_ref q)) (sv_credential_ref s),
       sv_host_key := coalesce (sql_null_optional_string (wq_host_key q)) (sv_host_key s),
       sv_environment := wq_environment q, sv_provider := sql_null_string (wq_provider q)\<rparr>"

definition live_server :: "string \<Rightarrow> string \<Rightarrow> server \<Rightarrow> bool" where
  "live_server org server_id s \<longleftrightarrow> sv_id s = server_id \<and> sv_org s = org \<and> sv_status s \<noteq> ''archived''"

fun replace_tags :: "env \<Rightarrow> nat \<Rightarrow> string \<Rightarrow> string \<Rightarrow> (string \<times> string) list \<Rightarrow> db \<Rightarrow> db option" where
  "replace_tags env i org server_id [] d = Some d"
| "replace_tags env i org server_id (t # ts) d =
     (if fst t = [] then replace_tags env (Suc i) org server_id ts d
      else case insert_tag env i org server_id t d of
          None \<Rightarrow> None
        | Some d' \<Rightarrow> replace_tags env (Suc i) org server_id ts d')"

definition update_server_tx :: "env \<Rightarrow> string \<Rightarrow> string \<Rightarrow> update_server_req \<Rightarrow> db \<Rightarrow> resp + resp \<times> db" where
  "update_server_tx env org server_id q d =
     refuse_if (fails env ''server.begin'' 0) (err 500 ''failed to start update'') (
     refuse_if (fails env ''server.update'' 0
         \<or> (\<exists>s \<in> set (servers d). live_server org server_id s)
           \<and> (\<exists>s \<in> set (servers d). sv_id s \<noteq> server_id \<and> sv_org s = org \<and> sv_name s = wq_name q))
       (err 500 ''failed to update server'') (
     refuse_if (count_where (live_server org server_id) (servers d) = 0) (err 404 ''server not found'') (
     let d1 = d\<lparr>servers := update_where (live_server org server_id) (updated_server q) (servers d)\<rparr>
     in refuse_if (fails env ''server.untag'' 0) (err 500 ''failed to update tags'') (
        let d2 = d1\<lparr>server_tags := filter (\<lambda>t. \<not> (tg_server t = server_id \<and> tg_org t = org)) (server_tags d1)\<rparr>
        in attempt (err 500 ''failed to update tags'') (replace_tags env 0 org server_id (wq_tags q) d2) (\<lambda>d3.
           refuse_if (fails env ''server.commit'' 0) (err 500 ''failed to commit update'')
             (Inr (reply 200 [(''status'', JStr ''updated'')], d3)))))))"

definition handle_update_server :: "env \<Rightarrow> actor \<Rightarrow> string \<Rightarrow> string \<Rightarrow> update_server_req option \<Rightarrow> db \<Rightarrow> resp \<times> db" where
  "handle_update_server env a path server_id body d =
     (let dec = check_server_management a
      in if \<not> d_allowed dec then write_denial env ''server.denied'' a ''server.updated'' ''server'' path dec d
         else case body of
             None \<Rightarrow> (err 400 ''invalid request body'', d)
           | Some q \<Rightarrow>
               if trim_space (wq_name q) = [] then (err 400 ''name is required'', d)
               else if \<not> valid_environment (wq_environment q) then (err 400 ''invalid environment'', d)
               else
                 (case validate_ssh_identity (or_empty (wq_credential_ref q)) (or_empty (wq_host_key q)) of
                    Some e \<Rightarrow> (err 400 e, d)
                  | None \<Rightarrow>
                      (case update_server_tx env (a_org a) server_id q d of
                         Inl r \<Rightarrow> (r, d)
                       | Inr (r, d1) \<Rightarrow>
                           (r, write_audit_event env ''server.audit'' (a_org a) (a_user_id a) ''server.updated'' ''server''
                                 server_id ''success'' JNull d1))))"

definition handle_archive_server :: "env \<Rightarrow> actor \<Rightarrow> string \<Rightarrow> string \<Rightarrow> db \<Rightarrow> resp \<times> db" where
  "handle_archive_server env a path server_id d =
     (let dec = check_server_management a
      in if \<not> d_allowed dec then write_denial env ''server.denied'' a ''server.archived'' ''server'' path dec d
         else if fails env ''server.archive'' 0 then (err 500 ''failed to archive server'', d)
         else if count_where (live_server (a_org a) server_id) (servers d) = 0 then (err 404 ''server not found'', d)
         else (reply 200 [(''status'', JStr ''archived'')],
               write_audit_event env ''server.audit'' (a_org a) (a_user_id a) ''server.archived'' ''server'' server_id
                 ''success'' JNull
                 (d\<lparr>servers := update_where (live_server (a_org a) server_id) (\<lambda>s. s\<lparr>sv_status := ''archived''\<rparr>) (servers d)\<rparr>)))"

section \<open>Checking\<close>

text \<open>The second and the third statement of a check name the server by its id only; the third one's error is dropped.\<close>

definition handle_check_server :: "env \<Rightarrow> actor \<Rightarrow> string \<Rightarrow> db \<Rightarrow> resp \<times> db" where
  "handle_check_server env a server_id d =
     (let dec = check_server_check a
      in if \<not> d_allowed dec then write_denial env ''server.denied'' a ''server.checked'' ''server'' server_id dec d
         else case first_row (fails env ''check.select'' 0) (\<lambda>s. sv_id s = server_id \<and> sv_org s = a_org a) (servers d) of
             None \<Rightarrow> (err 404 ''server not found'', d)
           | Some s \<Rightarrow>
               if fails env ''check.update'' 0 then (err 500 ''failed to update server check'', d)
               else
                 (let d1 = d\<lparr>servers := update_where (\<lambda>s. sv_id s = server_id) (\<lambda>s. s\<lparr>sv_status := ''active'',
                              sv_last_check := Some (go_now env), sv_last_seen := Some (go_now env)\<rparr>) (servers d)\<rparr>;
                      found = first_row (fails env ''check.os'' 0) (\<lambda>s. sv_id s = server_id) (servers d1);
                      unknown = (case found of None \<Rightarrow> True | Some s \<Rightarrow> or_empty (sv_os_name s) = []);
                      os = (if unknown then (''linux'', ''unknown'', ''unknown'', ''amd64'')
                            else (or_empty (sv_os_name (the found)), or_empty (sv_os_version (the found)),
                                  or_empty (sv_kernel (the found)), or_empty (sv_architecture (the found))));
                      d2 = (if unknown \<and> \<not> fails env ''check.set_os'' 0
                            then d1\<lparr>servers := update_where (\<lambda>s. sv_id s = server_id) (\<lambda>s. s\<lparr>sv_os_name := Some ''linux'',
                                   sv_os_version := Some ''unknown'', sv_kernel := Some ''unknown'',
                                   sv_architecture := Some ''amd64''\<rparr>) (servers d1)\<rparr>
                            else d1)
                  in (reply 200 [(''server'', jmap
                        [(''server_id'', JStr server_id), (''status'', JStr ''reachable''),
                         (''hostname'', JStr (or_empty (coalesce (sv_hostname s) (sv_public_ip s)))),
                         (''ssh_port'', JInt (sv_ssh_port s)), (''checked_at'', JStr (time_text env (go_now env))),
                         (''os_name'', JStr (fst os)), (''os_version'', JStr (fst (snd os))),
                         (''kernel_version'', JStr (fst (snd (snd os)))), (''architecture'', JStr (snd (snd (snd os)))),
                         (''uptime'', JStr ''0d 0h 0m (simulated)'')])],
                      write_audit_event env ''check.audit'' (a_org a) (a_user_id a) ''server.checked'' ''server'' server_id
                        ''success'' JNull d2)))"

end
