(* ===== verification/ServerProps.thy ===== *)
theory ServerProps
  imports Servers
begin

text \<open>
  The inventory: every SSH identity on record is empty or of the checked form, whatever requests change it; an update
  that does not name the pinned host key keeps it, and a refused update changes nothing.
\<close>

section \<open>Shapes of the operations\<close>

lemma denied_audit_only: "write_denial env at a action tt ti dec d = (r, d') \<Longrightarrow> audit_only d d' \<and> resp_code r = 403"
  using audit_only_denial [of d env at a action tt ti dec] write_denial_code [of env at a action tt ti dec d] by simp

lemma insert_tag_servers: "insert_tag env i org sid t d = Some d' \<Longrightarrow> servers d' = servers d"
  by (auto simp: insert_tag_def split: if_splits)

lemma add_tags_servers [simp]: "servers (add_tags env i org sid ts d) = servers d"
  by (induction env i org sid ts d rule: add_tags.induct) (auto simp: insert_tag_servers split: option.split)

lemma replace_tags_servers: "replace_tags env i org sid ts d = Some d' \<Longrightarrow> servers d' = servers d"
  by (induction env i org sid ts d rule: replace_tags.induct) (auto simp: insert_tag_servers split: if_splits option.splits)

lemma insert_tag_shape:
  "insert_tag env i org sid t d = Some d' \<Longrightarrow>
     server_tags d' = server_tags d @ [\<lparr>tg_org = org, tg_server = sid, tg_key = fst t, tg_value = snd t\<rparr>]"
  by (auto simp: insert_tag_def split: if_splits)

lemma replace_tags_shape:
  "replace_tags env i org sid ts d = Some d' \<Longrightarrow>
     server_tags d' = server_tags d @ map (\<lambda>t. \<lparr>tg_org = org, tg_server = sid, tg_key = fst t, tg_value = snd t\<rparr>)
       (filter (\<lambda>t. fst t \<noteq> []) ts)"
proof (induction env i org sid ts d rule: replace_tags.induct)
  case (2 env i org sid t ts d)
  show ?case
  proof (cases "fst t = []")
    case True
    then show ?thesis using 2 by simp
  next
    case False
    then obtain d1 where d1: "insert_tag env i org sid t d = Some d1" "replace_tags env (Suc i) org sid ts d1 = Some d'"
      using 2(3) by (auto split: option.splits)
    then show ?thesis using 2(2) [OF False d1] insert_tag_shape [OF d1(1)] False by simp
  qed
qed simp

lemma add_server_cases:
  assumes "handle_add_server env a body d = (r, d')"
  obtains (Refused) "audit_only d d'" "resp_code r \<noteq> 201"
  | (Added) q d1 d2 where "body = Some q" "d_allowed (check_server_management a)"
      "validate_ssh_identity (vq_credential_ref q) (vq_host_key q) = None"
      "insert_server env (new_server env (a_org a) q) d = Some d1" "servers d2 = servers d1" "audit_only d2 d'" "resp_code r = 201"
proof (cases "d_allowed (check_server_management a)")
  case False
  then have "audit_only d d' \<and> resp_code r = 403"
    using assms denied_audit_only by (auto simp: handle_add_server_def Let_def)
  then show ?thesis using Refused by simp
next
  case True
  show ?thesis
  proof (cases body)
    case None
    then have "d' = d" "resp_code r = 400" using True assms by (auto simp: handle_add_server_def)
    then show ?thesis using Refused by simp
  next
    case (Some q)
    show ?thesis
    proof (cases "vq_name q = [] \<or> validate_ssh_identity (vq_credential_ref q) (vq_host_key q) \<noteq> None
        \<or> insert_server env (new_server env (a_org a) q) d = None")
      case bad: True
      then have "d' = d \<and> resp_code r \<noteq> 201"
        using True Some assms by (auto simp: handle_add_server_def Let_def split: if_splits option.splits)
      then show ?thesis using Refused by simp
    next
      case False
      then obtain d1 where d1: "insert_server env (new_server env (a_org a) q) d = Some d1" by blast
      let ?d2 = "add_tags env 0 (a_org a) (sv_id (new_server env (a_org a) q)) (vq_tags q) d1"
      have "audit_only ?d2 d' \<and> resp_code r = 201"
        using True Some False d1 assms by (auto simp: handle_add_server_def Let_def)
      then show ?thesis using Added [OF Some True _ d1, of ?d2] False by simp
    qed
  qed
qed

lemma update_tx_shape:
  assumes "update_server_tx env org sid q d = Inr (r, d')"
  shows "r = reply 200 [(''status'', JStr ''updated'')] \<and> (\<exists>s \<in> set (servers d). live_server org sid s)
    \<and> servers d' = update_where (live_server org sid) (updated_server q) (servers d)
    \<and> server_tags d' = filter (\<lambda>t. \<not> (tg_server t = sid \<and> tg_org t = org)) (server_tags d)
         @ map (\<lambda>t. \<lparr>tg_org = org, tg_server = sid, tg_key = fst t, tg_value = snd t\<rparr>) (filter (\<lambda>t. fst t \<noteq> []) (wq_tags q))"
proof -
  obtain d3 where d3: "replace_tags env 0 org sid (wq_tags q) (d\<lparr>servers := update_where (live_server org sid) (updated_server q) (servers d),
        server_tags := filter (\<lambda>t. \<not> (tg_server t = sid \<and> tg_org t = org)) (server_tags d)\<rparr>) = Some d3"
      "d' = d3" "r = reply 200 [(''status'', JStr ''updated'')]" "count_where (live_server org sid) (servers d) \<noteq> 0"
    using assms by (auto simp: update_server_tx_def Let_def)
  then show ?thesis using replace_tags_shape [OF d3(1)] replace_tags_servers [OF d3(1)] by (simp add: count_where_pos)
qed

lemma update_server_cases:
  assumes "handle_update_server env a path sid body d = (r, d')"
  obtains (Refused) "audit_only d d'" "resp_code r \<noteq> 200"
  | (Updated) q d1 where "body = Some q" "d_allowed (check_server_management a)" "trim_space (wq_name q) \<noteq> []"
      "valid_environment (wq_environment q)"
      "validate_ssh_identity (or_empty (wq_credential_ref q)) (or_empty (wq_host_key q)) = None"
      "update_server_tx env (a_org a) sid q d = Inr (r, d1)" "audit_only d1 d'"
proof (cases "d_allowed (check_server_management a)")
  case False
  then have "audit_only d d' \<and> resp_code r = 403"
    using assms denied_audit_only by (auto simp: handle_update_server_def Let_def)
  then show ?thesis using Refused by simp
next
  case True
  show ?thesis
  proof (cases body)
    case None
    then have "d' = d" "resp_code r = 400" using True assms by (auto simp: handle_update_server_def)
    then show ?thesis using Refused by simp
  next
    case (Some q)
    show ?thesis
    proof (cases "trim_space (wq_name q) = [] \<or> \<not> valid_environment (wq_environment q)
        \<or> validate_ssh_identity (or_empty (wq_credential_ref q)) (or_empty (wq_host_key q)) \<noteq> None")
      case bad: True
      then have "d' = d \<and> resp_code r \<noteq> 200"
        using True Some assms by (auto simp: handle_update_server_def Let_def split: if_splits option.splits)
      then show ?thesis using Refused by simp
    next
      case ok: False
      show ?thesis
      proof (cases "update_server_tx env (a_org a) sid q d")
        case (Inl e)
        then have "d' = d \<and> r = e" using True Some ok assms by (auto simp: handle_update_server_def Let_def)
        moreover have "resp_code e \<noteq> 200"
          using Inl by (auto simp: update_server_tx_def Let_def)
        ultimately show ?thesis using Refused by simp
      next
        case (Inr p)
        obtain r1 d1 where p: "p = (r1, d1)" by fastforce
        then have "r = r1 \<and> audit_only d1 d'" using True Some ok assms Inr by (auto simp: handle_update_server_def Let_def)
        then show ?thesis using Updated [OF Some True] Inr p ok by simp
      qed
    qed
  qed
qed

lemma archive_cases:
  assumes "handle_archive_server env a path sid d = (r, d')"
  obtains (Refused) "audit_only d d'" "resp_code r \<noteq> 200"
  | (Archived) d1 where "d_allowed (check_server_management a)" "\<exists>s \<in> set (servers d). live_server (a_org a) sid s"
      "d1 = d\<lparr>servers := update_where (live_server (a_org a) sid) (\<lambda>s. s\<lparr>sv_status := ''archived''\<rparr>) (servers d)\<rparr>"
      "audit_only d1 d'" "resp_code r = 200"
proof (cases "d_allowed (check_server_management a) \<and> \<not> fails env ''server.archive'' 0
    \<and> count_where (live_server (a_org a) sid) (servers d) \<noteq> 0")
  case True
  then have ex: "\<exists>s \<in> set (servers d). live_server (a_org a) sid s" by (simp add: count_where_pos)
  have "audit_only (d\<lparr>servers := update_where (live_server (a_org a) sid) (\<lambda>s. s\<lparr>sv_status := ''archived''\<rparr>) (servers d)\<rparr>) d'
      \<and> resp_code r = 200"
    using True assms by (auto simp: handle_archive_server_def Let_def)
  then show ?thesis using Archived [OF _ ex refl] True by simp
next
  case False
  show ?thesis
  proof (cases "d_allowed (check_server_management a)")
    case True
    then have "d' = d \<and> resp_code r \<noteq> 200"
      using False assms by (auto simp: handle_archive_server_def Let_def split: if_splits)
    then show ?thesis using Refused by simp
  next
    case False
    then have "audit_only d d' \<and> resp_code r = 403"
      using assms denied_audit_only by (auto simp: handle_archive_server_def Let_def)
    then show ?thesis using Refused by simp
  qed
qed

text \<open>A check only touches the row's status, times and system fields.\<close>

definition checked_row :: "server \<Rightarrow> server \<Rightarrow> bool" where
  "checked_row s s' \<longleftrightarrow> sv_status s' = ''active'' \<and> sv_id s' = sv_id s \<and> sv_org s' = sv_org s \<and> sv_name s' = sv_name s
     \<and> sv_credential_ref s' = sv_credential_ref s \<and> sv_host_key s' = sv_host_key s \<and> sv_environment s' = sv_environment s"

lemma check_cases:
  assumes "handle_check_server env a sid d = (r, d')"
  obtains (Refused) "audit_only d d'" "resp_code r \<noteq> 200"
  | (Checked) f where "d_allowed (check_server_check a)" "\<exists>s \<in> set (servers d). sv_id s = sid \<and> sv_org s = a_org a"
      "servers d' = update_where (\<lambda>s. sv_id s = sid) f (servers d)" "\<And>s. checked_row s (f s)" "resp_code r = 200"
proof (cases "d_allowed (check_server_check a)")
  case False
  then have "audit_only d d' \<and> resp_code r = 403"
    using assms denied_audit_only by (auto simp: handle_check_server_def Let_def)
  then show ?thesis using Refused by simp
next
  case True
  show ?thesis
  proof (cases "first_row (fails env ''check.select'' 0) (\<lambda>s. sv_id s = sid \<and> sv_org s = a_org a) (servers d)")
    case None
    then have "d' = d" "resp_code r = 404" using True assms by (auto simp: handle_check_server_def)
    then show ?thesis using Refused by simp
  next
    case (Some s)
    then have ex: "\<exists>s \<in> set (servers d). sv_id s = sid \<and> sv_org s = a_org a" using first_row_Some [OF Some] by blast
    show ?thesis
    proof (cases "fails env ''check.update'' 0")
      case True': True
      then have "d' = d" "resp_code r = 500" using True Some assms by (auto simp: handle_check_server_def)
      then show ?thesis using Refused by simp
    next
      case False
      let ?seen = "\<lambda>s. s\<lparr>sv_status := ''active'', sv_last_check := Some (go_now env), sv_last_seen := Some (go_now env)\<rparr>"
      let ?os = "\<lambda>s. s\<lparr>sv_os_name := Some ''linux'', sv_os_version := Some ''unknown'', sv_kernel := Some ''unknown'',
          sv_architecture := Some ''amd64''\<rparr>"
      have twice: "update_where (\<lambda>s. sv_id s = sid) ?os (update_where (\<lambda>s. sv_id s = sid) ?seen (servers d))
          = update_where (\<lambda>s. sv_id s = sid) (\<lambda>s. ?os (?seen s)) (servers d)"
        by (simp add: update_where_def)
      have "resp_code r = 200 \<and> (servers d' = update_where (\<lambda>s. sv_id s = sid) ?seen (servers d)
          \<or> servers d' = update_where (\<lambda>s. sv_id s = sid) (\<lambda>s. ?os (?seen s)) (servers d))"
        using True Some False assms unfolding handle_check_server_def Let_def
        by (auto simp: twice audit_only_tables [OF audit_only_write])
      moreover have "checked_row s (?seen s)" "checked_row s (?os (?seen s))" for s
        by (simp_all add: checked_row_def)
      ultimately show ?thesis using Checked [OF True ex] by blast
    qed
  qed
qed

section \<open>SSH identities on record\<close>

definition ref_ok :: "string option \<Rightarrow> bool" where
  "ref_ok v \<longleftrightarrow> trim_space (or_empty v) = [] \<or> reference_pattern (trim_space (or_empty v))"

definition pin_ok :: "string option \<Rightarrow> bool" where
  "pin_ok v \<longleftrightarrow> trim_space (or_empty v) = [] \<or> fingerprint_pattern (trim_space (or_empty v))"

definition identities_ok :: "db \<Rightarrow> bool" where
  "identities_ok d \<longleftrightarrow> (\<forall>s \<in> set (servers d). ref_ok (sv_credential_ref s) \<and> pin_ok (sv_host_key s))"

text \<open>One request that changes the inventory.\<close>

inductive server_step :: "db \<Rightarrow> db \<Rightarrow> bool" where
  added: "handle_add_server env a body d = (r, d') \<Longrightarrow> server_step d d'"
| updated: "handle_update_server env a path sid body' d = (r, d') \<Longrightarrow> server_step d d'"
| archived: "handle_archive_server env a path sid d = (r, d') \<Longrightarrow> server_step d d'"
| checked: "handle_check_server env a sid d = (r, d') \<Longrightarrow> server_step d d'"

lemma validated: "validate_ssh_identity ref fp = None \<Longrightarrow> ref_ok (Some ref) \<and> pin_ok (Some fp)"
  by (auto simp: validate_ssh_identity_def ref_ok_def pin_ok_def or_empty_def Let_def split: if_splits)

lemma or_empty_null [simp]: "or_empty (sql_null_string s) = s"
  by (simp add: sql_null_string_def or_empty_def)

lemma trim_space_idem [simp]: "trim_space (trim_space s) = trim_space s"
proof -
  have 1: "dropWhile is_space (dropWhile is_space xs) = dropWhile is_space xs" for xs
    by (induction xs) auto
  have 2: "dropWhile is_space (rev (dropWhile is_space (rev (dropWhile is_space s))))
      = rev (dropWhile is_space (rev (dropWhile is_space s)))" for s
  proof (cases "dropWhile is_space s")
    case (Cons c t)
    have "\<not> is_space c" using Cons by (metis hd_dropWhile list.distinct(1) list.sel(1))
    then obtain u where "dropWhile is_space (rev (c # t)) = u @ [c]"
      by (metis dropWhile_append3 rev.simps(2))
    then show ?thesis using Cons \<open>\<not> is_space c\<close> by simp
  next
    case Nil
    show ?thesis by (simp only: Nil dropWhile.simps rev.simps)
  qed
  show ?thesis by (simp add: trim_space_def trim_left_by_def trim_right_by_def 1 2)
qed

lemma trim_space_Nil [simp]: "trim_space [] = []"
  by (simp add: trim_space_def trim_left_by_def trim_right_by_def)

lemma ref_ok_coalesce: "ref_ok (Some (or_empty v)) \<Longrightarrow> ref_ok w \<Longrightarrow> ref_ok (coalesce (sql_null_optional_string v) w)"
  and pin_ok_coalesce: "pin_ok (Some (or_empty v)) \<Longrightarrow> pin_ok w \<Longrightarrow> pin_ok (coalesce (sql_null_optional_string v) w)"
  by (cases v; auto simp: ref_ok_def pin_ok_def or_empty_def coalesce_def sql_null_optional_string_def)+

lemma identities_audit_only: "audit_only d d' \<Longrightarrow> identities_ok d' = identities_ok d"
  by (simp add: identities_ok_def audit_only_tables)

lemma identities_step: "server_step d d' \<Longrightarrow> identities_ok d \<Longrightarrow> identities_ok d'"
proof (induction rule: server_step.induct)
  case (added env a body d r d')
  from added(1) show ?case
  proof (cases rule: add_server_cases)
    case Refused
    then show ?thesis using added(2) identities_audit_only by blast
  next
    case (Added q d1 d2)
    have "servers d1 = servers d @ [new_server env (a_org a) q]"
      using Added(4) by (auto simp: insert_server_def split: if_splits)
    moreover have "ref_ok (sv_credential_ref (new_server env (a_org a) q))" "pin_ok (sv_host_key (new_server env (a_org a) q))"
      using validated [OF Added(3)] by (simp_all add: new_server_def ref_ok_def pin_ok_def or_empty_def sql_null_string_def)
    ultimately have "identities_ok d2" using added(2) Added(5) by (simp add: identities_ok_def)
    then show ?thesis using identities_audit_only [OF Added(6)] by simp
  qed
next
  case (updated env a path sid body' d r d')
  from updated(1) show ?case
  proof (cases rule: update_server_cases)
    case Refused
    then show ?thesis using updated(2) identities_audit_only by blast
  next
    case (Updated q d1)
    have "ref_ok (sv_credential_ref (updated_server q s)) \<and> pin_ok (sv_host_key (updated_server q s))"
      if "s \<in> set (servers d)" for s
      using updated(2) that validated [OF Updated(5)] ref_ok_coalesce pin_ok_coalesce
      by (simp add: updated_server_def identities_ok_def)
    then have "identities_ok d1"
      using updated(2) update_tx_shape [OF Updated(6)] by (auto simp: identities_ok_def set_update_where)
    then show ?thesis using identities_audit_only [OF Updated(7)] by simp
  qed
next
  case (archived env a path sid d r d')
  from archived(1) show ?case
  proof (cases rule: archive_cases)
    case Refused
    then show ?thesis using archived(2) identities_audit_only by blast
  next
    case (Archived d1)
    then have "identities_ok d1" using archived(2) by (auto simp: identities_ok_def set_update_where)
    then show ?thesis using identities_audit_only [OF Archived(4)] by simp
  qed
next
  case (checked env a sid d r d')
  from checked(1) show ?case
  proof (cases rule: check_cases)
    case Refused
    then show ?thesis using checked(2) identities_audit_only by blast
  next
    case (Checked f)
    then show ?thesis using checked(2) by (auto simp: identities_ok_def set_update_where checked_row_def)
  qed
qed


section \<open>Updates\<close>

text \<open>
  What an update does.  A 200 answer means that the actor may manage servers, that the server was there and not
  archived, and that exactly its row and its tags have changed: a reference or a pin the request leaves out is the
  old one, one it gives is stored trimmed.  Any other answer leaves everything but the audit log as it
  was, even when the update or a tag failed half way.
\<close>

theorem update_server_exact:
  assumes "handle_update_server env a path sid (Some q) d = (r, d')"
  shows "if resp_code r = 200
    then can_manage_servers a \<and> (\<exists>s \<in> set (servers d). live_server (a_org a) sid s)
      \<and> list_all2 (\<lambda>s s'. if live_server (a_org a) sid s
           then sv_id s' = sv_id s \<and> sv_org s' = sv_org s \<and> sv_status s' = sv_status s \<and> sv_name s' = wq_name q
             \<and> (case wq_host_key q of None \<Rightarrow> sv_host_key s' = sv_host_key s | Some f \<Rightarrow> sv_host_key s' = Some (trim_space f))
             \<and> (case wq_credential_ref q of None \<Rightarrow> sv_credential_ref s' = sv_credential_ref s
                  | Some f \<Rightarrow> sv_credential_ref s' = Some (trim_space f))
           else s' = s) (servers d) (servers d')
      \<and> (\<forall>t. t \<in> set (server_tags d') \<longleftrightarrow>
           (if tg_server t = sid \<and> tg_org t = a_org a then (tg_key t, tg_value t) \<in> set (wq_tags q) \<and> tg_key t \<noteq> []
            else t \<in> set (server_tags d)))
    else audit_only d d'"
  using assms
proof (cases rule: update_server_cases)
  case Refused
  then show ?thesis by simp
next
  case (Updated q' d1)
  have q': "q' = q" using Updated(1) by simp
  note shape = update_tx_shape [OF Updated(6), unfolded q']
  have rows: "servers d' = update_where (live_server (a_org a) sid) (updated_server q) (servers d)"
      "server_tags d' = server_tags d1"
    using shape audit_only_tables [OF Updated(7)] by simp_all
  have given: "coalesce (sql_null_optional_string v) w = (case v of None \<Rightarrow> w | Some f \<Rightarrow> Some (trim_space f))" for v w
    by (cases v) (simp_all add: coalesce_def sql_null_optional_string_def)
  have m: "can_manage_servers a"
    using Updated(2) by (auto simp: check_server_management_def deny_def split: if_splits)
  have list: "list_all2 (\<lambda>s s'. if live_server (a_org a) sid s
           then sv_id s' = sv_id s \<and> sv_org s' = sv_org s \<and> sv_status s' = sv_status s \<and> sv_name s' = wq_name q
             \<and> (case wq_host_key q of None \<Rightarrow> sv_host_key s' = sv_host_key s | Some f \<Rightarrow> sv_host_key s' = Some (trim_space f))
             \<and> (case wq_credential_ref q of None \<Rightarrow> sv_credential_ref s' = sv_credential_ref s
                  | Some f \<Rightarrow> sv_credential_ref s' = Some (trim_space f))
           else s' = s) (servers d) (servers d')"
    unfolding rows(1)
    by (auto simp: update_where_def list_all2_map2 updated_server_def given list.rel_refl split: option.split
        intro!: list.rel_refl)
  have tags: "t \<in> set (server_tags d') \<longleftrightarrow>
           (if tg_server t = sid \<and> tg_org t = a_org a then (tg_key t, tg_value t) \<in> set (wq_tags q) \<and> tg_key t \<noteq> []
            else t \<in> set (server_tags d))" for t
    using shape rows(2) by (cases t) (auto simp: image_iff)
  show ?thesis using m shape list tags by simp
qed

section \<open>Archived servers\<close>

text \<open>
  Archiving.  After a 200 answer the server, if its id is unique, is listed nowhere, an update or a second archive
  request answers 404 or fails, and neither changes a server.  But a health check of it answers 200 and makes it active
  again, so the inventory shows it and work can be queued for it.
\<close>

theorem archive_server_effect:
  assumes "handle_archive_server env a path sid d = (r, d')" "resp_code r = 200"
    and "distinct (map sv_id (servers d))"
  shows "(\<forall>s \<in> set (servers d'). sv_id s = sid \<longrightarrow> (\<forall>org f. \<not> listed d' org f s))
    \<and> resp_code (fst (handle_update_server env' b path' sid body d')) \<noteq> 200
    \<and> resp_code (fst (handle_archive_server env' b path' sid d')) \<noteq> 200
    \<and> (\<forall>r' d''. handle_check_server env' b sid d' = (r', d'') \<and> resp_code r' = 200
         \<longrightarrow> (\<forall>s \<in> set (servers d''). sv_id s = sid \<longrightarrow> sv_status s = ''active''))"
  using assms(1)
proof (cases rule: archive_cases)
  case Refused
  then show ?thesis using assms(2) by simp
next
  case (Archived d1)
  obtain x where x: "x \<in> set (servers d)" "live_server (a_org a) sid x" using Archived(2) by blast
  have rows: "servers d' = update_where (live_server (a_org a) sid) (\<lambda>s. s\<lparr>sv_status := ''archived''\<rparr>) (servers d)"
    using audit_only_tables(6) [OF Archived(4)] Archived(3) by simp
  have gone: "sv_status s = ''archived''" if s: "s \<in> set (servers d')" "sv_id s = sid" for s
  proof -
    obtain z where z: "z \<in> set (servers d)" "s = (if live_server (a_org a) sid z then z\<lparr>sv_status := ''archived''\<rparr> else z)"
      using s(1) unfolding rows by (auto simp: set_update_where)
    have "sv_id z = sv_id x" using z(2) s(2) x(2) by (simp add: live_server_def split: if_splits)
    then have "z = x" using assms(3) z(1) x(1) by (metis distinct_map inj_onD)
    then show ?thesis using z(2) x(2) by simp
  qed
  then have none: "\<not> live_server org sid s" if "s \<in> set (servers d')" for org s
    using that by (auto simp: live_server_def)
  obtain ru du where u: "handle_update_server env' b path' sid body d' = (ru, du)" by fastforce
  then have update: "resp_code ru \<noteq> 200"
  proof (cases rule: update_server_cases)
    case (Updated q d2)
    then show ?thesis using update_tx_shape [OF Updated(6)] none by blast
  qed
  obtain ra da where ar: "handle_archive_server env' b path' sid d' = (ra, da)" by fastforce
  then have archive: "resp_code ra \<noteq> 200"
    by (cases rule: archive_cases) (use none in blast)+
  have check: "sv_status s = ''active''"
    if c: "handle_check_server env' b sid d' = (r', d'')" "resp_code r' = 200" "s \<in> set (servers d'')" "sv_id s = sid" for r' d'' s
    using c(1)
  proof (cases rule: check_cases)
    case Refused
    then show ?thesis using c(2) by simp
  next
    case (Checked f)
    then show ?thesis using c(3,4) by (auto simp: set_update_where checked_row_def split: if_splits)
  qed
  show ?thesis using gone update archive check u ar by (auto simp: listed_def)
qed

section \<open>Witnesses\<close>

lemma sample_rows [simp]: "servers sample_db = [sample_server]" "server_tags sample_db = []"
  by (simp_all add: sample_db_def empty_db_def)

lemma sample_no_fault [simp]: "fails sample_env at i = False"
  by (simp add: sample_env_def)

definition sample_add_server :: add_server_req where
  "sample_add_server = \<lparr>vq_name = ''db'', vq_hostname = ''10.0.0.6'', vq_public_ip = [], vq_private_ip = [], vq_port = 0,
     vq_username = ''deploy'', vq_credential_ref = '' db-key '',
     vq_host_key = ''SHA256:AAAAAAAAAAAAAAAAAAAAAAAAAAAAAAAAAAAAAAAAAAA'',
     vq_environment = ''staging'', vq_provider = [], vq_tags = [(''role'', ''db'')]\<rparr>"


definition sample_update_server :: update_server_req where
  "sample_update_server = \<lparr>wq_name = ''web'', wq_hostname = ''10.0.0.7'', wq_public_ip = [], wq_private_ip = [],
     wq_username = ''deploy'', wq_environment = ''staging'', wq_provider = [], wq_credential_ref = Some '' web-key '',
     wq_host_key = None, wq_port = 22, wq_tags = []\<rparr>"

theorem update_server_exact_witness:
  "\<exists>s s'. servers sample_db = [s]
     \<and> servers (snd (handle_update_server sample_env sample_owner ''/'' ''s1'' (Some sample_update_server) sample_db)) = [s']
     \<and> sv_host_key s' = sv_host_key s \<and> sv_credential_ref s' = Some ''web-key''"
proof -
  let ?h = "handle_update_server sample_env sample_owner ''/'' ''s1'' (Some sample_update_server) sample_db"
  have m: "d_allowed (check_server_management sample_owner)" by code_simp
  have v: "validate_ssh_identity (or_empty (wq_credential_ref sample_update_server)) (or_empty (wq_host_key sample_update_server)) = None"
    by code_simp
  have n: "trim_space (wq_name sample_update_server) \<noteq> []" "valid_environment (wq_environment sample_update_server)"
    by code_simp+
  have live: "live_server (a_org sample_owner) ''s1'' sample_server" by code_simp
  have "\<exists>d1. update_server_tx sample_env (a_org sample_owner) ''s1'' sample_update_server sample_db
      = Inr (reply 200 [(''status'', JStr ''updated'')], d1)"
    using live
    by (simp add: update_server_tx_def Let_def count_where_def refuse_if_def attempt_def sample_update_server_def)
      (simp add: sample_server_def)
  then have "resp_code (fst ?h) = 200"
    using m v n by (auto simp: handle_update_server_def Let_def)
  moreover have "trim_space '' web-key '' = ''web-key''" by code_simp
  ultimately show ?thesis
    using live
    using update_server_exact [of sample_env sample_owner "''/''" "''s1''" sample_update_server sample_db "fst ?h" "snd ?h"]
    by (auto simp: list_all2_Cons1 sample_update_server_def)
qed

theorem archive_server_effect_witness:
  "resp_code (fst (handle_update_server sample_env sample_owner ''/'' ''s1'' (Some sample_update_server)
     (snd (handle_archive_server sample_env sample_owner ''/'' ''s1'' sample_db)))) \<noteq> 200"
proof -
  let ?h = "handle_archive_server sample_env sample_owner ''/'' ''s1'' sample_db"
  have m: "d_allowed (check_server_management sample_owner)" by code_simp
  have "live_server (a_org sample_owner) ''s1'' sample_server" by code_simp
  then have "resp_code (fst ?h) = 200"
    using m by (simp add: handle_archive_server_def Let_def count_where_def)
  moreover have "?h = (fst ?h, snd ?h)" "distinct (map sv_id (servers sample_db))" by simp_all
  ultimately show ?thesis using archive_server_effect [of sample_env sample_owner "''/''" "''s1''" sample_db] by blast
qed

end
