(* ===== verification/Paths.thy ===== *)
theory Paths
  imports Prelude
begin

text \<open>
  The lexical functions of Go's \<open>path/filepath\<close> that the program uses on Unix: \<open>Base\<close>, \<open>Clean\<close> and \<open>Join\<close>,
  and where a joined path can lie.
\<close>

definition base_name :: "string \<Rightarrow> string" where
  "base_name p =
     (if p = [] then ''.''
      else let q = trim_right_by (\<lambda>c. c = CHR ''/'') p
           in if q = [] then ''/'' else last (split_on (CHR ''/'') q))"

text \<open>The elements of a cleaned path, the last one first.\<close>

fun clean_elems :: "bool \<Rightarrow> string list \<Rightarrow> string list \<Rightarrow> string list" where
  "clean_elems rooted stack [] = stack"
| "clean_elems rooted stack (e # es) =
     (if e = [] \<or> e = ''.'' then clean_elems rooted stack es
      else if e = ''..'' then
        (case stack of
           [] \<Rightarrow> clean_elems rooted (if rooted then [] else [''..'']) es
         | x # xs \<Rightarrow> if x = ''..'' then clean_elems rooted (''..'' # x # xs) es else clean_elems rooted xs es)
      else clean_elems rooted (e # stack) es)"

definition rooted_path :: "string \<Rightarrow> bool" where
  "rooted_path p \<longleftrightarrow> has_prefix p ''/''"

definition path_elems :: "string \<Rightarrow> string list" where
  "path_elems p = rev (clean_elems (rooted_path p) [] (split_on (CHR ''/'') p))"

definition clean_path :: "string \<Rightarrow> string" where
  "clean_path p =
     (let body = join_with ''/'' (path_elems p)
      in if rooted_path p then CHR ''/'' # body else if body = [] then ''.'' else body)"

definition join_path :: "string \<Rightarrow> string \<Rightarrow> string" where
  "join_path a b =
     (case filter (\<lambda>e. e \<noteq> []) [a, b] of [] \<Rightarrow> [] | es \<Rightarrow> clean_path (join_with ''/'' es))"

section \<open>Plain names\<close>

definition plain_name :: "string \<Rightarrow> bool" where
  "plain_name s \<longleftrightarrow> s \<noteq> [] \<and> s \<noteq> ''.'' \<and> s \<noteq> ''..'' \<and> CHR ''/'' \<notin> set s"

lemma clean_elems_append: "clean_elems rooted stack (es @ fs) = clean_elems rooted (clean_elems rooted stack es) fs"
  by (induction rooted stack es rule: clean_elems.induct) (auto split: list.split)

lemma rooted_append: "a \<noteq> [] \<Longrightarrow> rooted_path (a @ b) = rooted_path a"
  by (cases a) (simp_all add: rooted_path_def has_prefix_def)

text \<open>A plain name joined to a directory is an entry of that directory.\<close>

lemma join_plain_elems:
  assumes "dir \<noteq> []" "plain_name s"
  shows "join_path dir s = clean_path (dir @ ''/'' @ s)" "path_elems (dir @ ''/'' @ s) = path_elems dir @ [s]"
    "rooted_path (dir @ ''/'' @ s) = rooted_path dir"
proof -
  show "join_path dir s = clean_path (dir @ ''/'' @ s)" using assms by (simp add: join_path_def plain_name_def)
  show r: "rooted_path (dir @ ''/'' @ s) = rooted_path dir" using rooted_append [OF assms(1)] by simp
  have "split_on (CHR ''/'') (dir @ ''/'' @ s) = split_on (CHR ''/'') dir @ [s]"
    using assms(2) by (simp add: split_on_concat split_on_plain plain_name_def)
  then show "path_elems (dir @ ''/'' @ s) = path_elems dir @ [s]"
    using assms(2) by (simp add: path_elems_def r [simplified] clean_elems_append plain_name_def)
qed

text \<open>The same as text: the directory, a slash unless it ends in one, and the name.\<close>

definition dir_prefix :: "string \<Rightarrow> string" where
  "dir_prefix dir =
     (let body = join_with ''/'' (path_elems dir)
      in if rooted_path dir then (if body = [] then ''/'' else CHR ''/'' # body @ ''/'')
         else if body = [] then [] else body @ ''/'')"

lemma join_with_snoc: "xs \<noteq> [] \<Longrightarrow> join_with sep (xs @ [x]) = join_with sep xs @ sep @ x"
  by (induction sep xs rule: join_with.induct) auto

lemma clean_elems_nonempty: "[] \<notin> set stack \<Longrightarrow> [] \<notin> set (clean_elems rooted stack es)"
proof (induction es arbitrary: stack)
  case (Cons e es)
  consider "e = [] \<or> e = ''.''" | "e = ''..''" | "e \<noteq> []" "e \<noteq> ''.''" "e \<noteq> ''..''" by blast
  then show ?case
  proof cases
    case 1
    then show ?thesis using Cons by auto
  next
    case 2
    then show ?thesis using Cons by (cases stack) simp_all
  next
    case 3
    then show ?thesis using Cons by simp
  qed
qed simp

lemma join_with_empty: "[] \<notin> set es \<Longrightarrow> join_with sep es = [] \<longleftrightarrow> es = []"
  by (induction sep es rule: join_with.induct) auto

lemma join_plain:
  assumes "dir \<noteq> []" "plain_name s"
  shows "join_path dir s = dir_prefix dir @ s"
proof -
  note e = join_plain_elems [OF assms]
  have ne: "[] \<notin> set (path_elems dir)" by (simp add: path_elems_def clean_elems_nonempty)
  show ?thesis
    using assms(2) join_with_empty [OF ne] unfolding e(1) clean_path_def e(2,3) Let_def dir_prefix_def
    by (cases "path_elems dir = []") (auto simp: join_with_snoc plain_name_def)
qed

lemma base_plain: "plain_name s \<Longrightarrow> base_name s = s"
proof -
  assume p: "plain_name s"
  then have "hd (rev s) \<noteq> CHR ''/''" by (metis hd_in_set plain_name_def rev_is_Nil_conv set_rev)
  then have "trim_right_by (\<lambda>c. c = CHR ''/'') s = s"
    using p by (cases "rev s") (auto simp: trim_right_by_def plain_name_def)
  then show ?thesis using p by (simp add: base_name_def plain_name_def split_on_plain)
qed

lemma split_on_no_sep: "p \<in> set (split_on sep s) \<Longrightarrow> sep \<notin> set p"
  by (induction s arbitrary: p) (auto split: if_splits list.splits)

lemma base_name_no_slash: "base_name p \<noteq> ''/'' \<Longrightarrow> CHR ''/'' \<notin> set (base_name p)"
  using split_on_no_sep [of "last (split_on (CHR ''/'') (trim_right_by (\<lambda>c. c = CHR ''/'') p))" "CHR ''/''"
      "trim_right_by (\<lambda>c. c = CHR ''/'') p"]
  by (auto simp: base_name_def Let_def split: if_splits)

end
