(* ===== verification/Sshcreds.thy ===== *)
theory Sshcreds
  imports Paths
begin

text \<open>
  \<open>packages/sshcreds/sshcreds.go\<close>: the keystore of a runner, a directory with a private key, a passphrase and a password
  per reference.  The file system is a function from paths to what reading them gives; a lookup also
  returns the paths it has read.
\<close>

section \<open>Credentials\<close>

record credential =
  cr_private_key :: string
  cr_passphrase :: string
  cr_password :: string

definition no_credential :: credential where
  "no_credential = \<lparr>cr_private_key = [], cr_passphrase = [], cr_password = []\<rparr>"

datatype file_read = FileBytes string | NotExist | ReadError string

datatype keystore_error =
    UnknownReference | UnknownReferenceTo string | InvalidReference string
  | KeyError string string | PassphraseError string string | PasswordError string string

text \<open>\<open>NewKeystore\<close>; the empty directory resolves nothing.\<close>

definition new_keystore :: "string \<Rightarrow> string" where
  "new_keystore dir = trim_space dir"

definition configured :: "string \<Rightarrow> bool" where
  "configured dir \<longleftrightarrow> dir \<noteq> []"

definition reference_char :: "char \<Rightarrow> bool" where
  "reference_char c \<longleftrightarrow> is_lower c \<or> is_upper c \<or> is_digit c \<or> c = CHR ''-'' \<or> c = CHR ''_''"

definition valid_reference :: "string \<Rightarrow> bool" where
  "valid_reference reference \<longleftrightarrow>
     (if reference = [] \<or> length reference > 128 then False
      else if reference \<noteq> base_name reference then False
      else if has_prefix reference ''.'' then False
      else list_all reference_char reference)"

definition trim_secret :: "string \<Rightarrow> string" where
  "trim_secret v = trim_right_by (\<lambda>c. c = CHR 0x0D \<or> c = CHR 0x0A) v"

text \<open>One optional file: its bytes, empty when it does not exist.\<close>

definition optional_file :: "file_read \<Rightarrow> string + string" where
  "optional_file r = (case r of FileBytes b \<Rightarrow> Inr b | NotExist \<Rightarrow> Inr [] | ReadError e \<Rightarrow> Inl e)"

definition resolve_reference ::
  "string \<Rightarrow> (string \<Rightarrow> file_read) \<Rightarrow> string \<Rightarrow> (keystore_error + credential) \<times> string list" where
  "resolve_reference dir files reference =
     (if \<not> configured dir then (Inl UnknownReference, [])
      else if \<not> valid_reference reference then (Inl (InvalidReference reference), [])
      else
        let base = join_path dir reference
        in case optional_file (files base) of
             Inl e \<Rightarrow> (Inl (KeyError reference e), [base])
           | Inr key \<Rightarrow>
               let read_pass = (key \<noteq> [])
               in case (if read_pass then optional_file (files (base @ ''.passphrase'')) else Inr []) of
                    Inl e \<Rightarrow> (Inl (PassphraseError reference e), [base, base @ ''.passphrase''])
                  | Inr pass \<Rightarrow>
                      let paths = [base] @ (if read_pass then [base @ ''.passphrase''] else []) @ [base @ ''.password'']
                      in case optional_file (files (base @ ''.password'')) of
                           Inl e \<Rightarrow> (Inl (PasswordError reference e), paths)
                         | Inr password \<Rightarrow>
                             if key = [] \<and> trim_secret password = [] then (Inl (UnknownReferenceTo reference), paths)
                             else (Inr \<lparr>cr_private_key = key, cr_passphrase = trim_secret pass,
                                         cr_password = trim_secret password\<rparr>, paths))"

section \<open>Lookups stay inside the directory\<close>

lemma valid_reference_plain: "valid_reference reference \<Longrightarrow> plain_name reference"
proof -
  assume v: "valid_reference reference"
  then have all: "list_all reference_char reference" "reference \<noteq> []" "\<not> has_prefix reference ''.''"
    by (auto simp: valid_reference_def split: if_splits)
  have "\<not> reference_char (CHR ''/'')" by code_simp
  then have "CHR ''/'' \<notin> set reference" using all(1) by (auto simp: list_all_iff)
  then show ?thesis using all by (auto simp: plain_name_def has_prefix_def)
qed

lemma valid_reference_iff:
  "valid_reference s \<longleftrightarrow> s \<noteq> [] \<and> length s \<le> 128 \<and> list_all reference_char s"
proof
  assume "s \<noteq> [] \<and> length s \<le> 128 \<and> list_all reference_char s"
  moreover have "\<not> reference_char (CHR ''/'')" "\<not> reference_char (CHR ''.'')" by code_simp+
  ultimately have n: "s \<noteq> []" "length s \<le> 128" "list_all reference_char s" "CHR ''/'' \<notin> set s" "CHR ''.'' \<notin> set s"
    by (auto simp: list_all_iff)
  have p: "plain_name s" using n by (auto simp: plain_name_def)
  have "\<not> has_prefix s ''.''" using n by (cases s) (auto simp: has_prefix_def)
  then show "valid_reference s" using n base_plain [OF p] by (simp add: valid_reference_def)
qed (auto simp: valid_reference_def split: if_splits)

lemma resolve_paths:
  "set (snd (resolve_reference dir files reference))
    \<subseteq> {join_path dir reference, join_path dir reference @ ''.passphrase'', join_path dir reference @ ''.password''}"
  by (auto simp: resolve_reference_def Let_def split: sum.split)

lemma resolve_cong:
  "(\<And>p. p \<in> set (snd (resolve_reference dir files reference)) \<Longrightarrow> files' p = files p) \<Longrightarrow>
     resolve_reference dir files' reference = resolve_reference dir files reference"
  by (auto simp: resolve_reference_def Let_def split: sum.splits if_splits)

text \<open>
  C13: the keystore is confined.  Whatever reference the API sends, a lookup reads at most three files, all of them
  entries of the keystore's own directory whose names begin with the reference; a reference that is not a plain name
  of letters, digits, hyphens and underscores is refused before any file is read; and the result depends on
  these files only, so a reference never yields another reference's secret.
\<close>

theorem keystore_confined:
  assumes "resolve_reference dir files reference = (res, paths)"
  shows "(\<forall>p \<in> set paths. \<exists>suffix \<in> {[], ''.passphrase'', ''.password''}. p = dir_prefix dir @ reference @ suffix)
    \<and> (paths \<noteq> [] \<longrightarrow> plain_name reference \<and> length reference \<le> 128 \<and> list_all reference_char reference)
    \<and> (\<forall>c. res = Inr c \<longrightarrow> paths \<noteq> [] \<and> (cr_private_key c \<noteq> [] \<or> cr_password c \<noteq> []))
    \<and> (\<forall>files'. (\<forall>p \<in> set paths. files' p = files p) \<longrightarrow> resolve_reference dir files' reference = (res, paths))"
proof -
  have paths: "set paths \<subseteq> {join_path dir reference, join_path dir reference @ ''.passphrase'', join_path dir reference @ ''.password''}"
    using resolve_paths [of dir files reference] assms by simp
  have valid: "paths \<noteq> [] \<Longrightarrow> configured dir \<and> valid_reference reference"
    using assms by (auto simp: resolve_reference_def split: if_splits)
  have inside: "\<exists>suffix \<in> {[], ''.passphrase'', ''.password''}. p = dir_prefix dir @ reference @ suffix" if p: "p \<in> set paths" for p
  proof -
    have "configured dir \<and> valid_reference reference" using valid p by (cases paths) auto
    then have "join_path dir reference = dir_prefix dir @ reference"
      using join_plain valid_reference_plain by (simp add: configured_def)
    then show ?thesis using p paths by auto
  qed
  have found: "paths \<noteq> [] \<and> (cr_private_key c \<noteq> [] \<or> cr_password c \<noteq> [])" if "res = Inr c" for c
    using assms that by (auto simp: resolve_reference_def Let_def split: if_splits sum.splits)
  show ?thesis
    using inside valid valid_reference_plain valid_reference_iff found resolve_cong [of dir files reference] assms by auto
qed

definition sample_files :: "string \<Rightarrow> file_read" where
  "sample_files p = (if p = ''/etc/keys/web'' then FileBytes ''PEM'' else if p = ''/etc/keys/web.password'' then NotExist
     else if p = ''/etc/keys/web.passphrase'' then FileBytes ''secret'' else ReadError ''permission denied'')"

theorem keystore_confined_witness:
  "resolve_reference ''/etc/keys/'' sample_files ''web''
     = (Inr \<lparr>cr_private_key = ''PEM'', cr_passphrase = ''secret'', cr_password = []\<rparr>,
        [''/etc/keys/web'', ''/etc/keys/web.passphrase'', ''/etc/keys/web.password''])
   \<and> snd (resolve_reference ''/etc/keys/'' sample_files ''../shadow'') = []"
proof -
  have r: "resolve_reference ''/etc/keys/'' sample_files ''web''
     = (Inr \<lparr>cr_private_key = ''PEM'', cr_passphrase = ''secret'', cr_password = []\<rparr>,
        [''/etc/keys/web'', ''/etc/keys/web.passphrase'', ''/etc/keys/web.password''])" by code_simp
  obtain res paths where b: "resolve_reference ''/etc/keys/'' sample_files ''../shadow'' = (res, paths)" by fastforce
  have "\<not> plain_name ''../shadow''" by code_simp
  then have "paths = []" using keystore_confined [OF b] by blast
  then show ?thesis using r b by simp
qed

end
