(* ===== verification/Sshx.thy ===== *)
theory Sshx
  imports Sshcreds Jobsign
begin

text \<open>
  \<open>packages/sshx/sshx.go\<close>: one command on one remote host.  The SSH library is the parameter \<open>ssh_library\<close>: parsing a
  key, dialling with a host key callback, and a session on the connection \<open>'c\<close> it gives; \<open>sx_sha256\<close> is SHA-256.
  Its documented use of the callback is the predicate \<open>dial_checks\<close>: a connection stands only if the
  callback accepted the key the host presented.  A run returns, with its result, what it did on the network.
\<close>

section \<open>The library\<close>

datatype auth_method = PublicKeys string | Password string

text \<open>An error of \<open>ssh.Dial\<close>, and whether it wraps the mismatch of the host key.\<close>

datatype dial_error = HostKeyRefused string | DialFailed string

text \<open>An output stream: its bytes, and whether the remote side ever closes it.\<close>

datatype stream = Ends string | StaysOpen string

datatype wait_outcome = Exited int | WaitFailed | Interrupted string

record 'c ssh_library =
  sx_sha256 :: "string \<Rightarrow> string"
  sx_parse_key :: "string \<Rightarrow> string option \<Rightarrow> string + string"
  sx_dial :: "string \<Rightarrow> string \<Rightarrow> auth_method list \<Rightarrow> (string \<Rightarrow> string \<Rightarrow> string option) \<Rightarrow> dial_error + 'c"
  sx_host_key :: "'c \<Rightarrow> string"
  sx_session :: "'c \<Rightarrow> string option"
  sx_stdout_pipe :: "'c \<Rightarrow> string option"
  sx_stderr_pipe :: "'c \<Rightarrow> string option"
  sx_start :: "'c \<Rightarrow> string \<Rightarrow> string option"
  sx_stdout :: "'c \<Rightarrow> string \<Rightarrow> stream"
  sx_stderr :: "'c \<Rightarrow> string \<Rightarrow> stream"
  sx_wait :: "'c \<Rightarrow> string \<Rightarrow> wait_outcome"
  sx_elapsed :: "'c \<Rightarrow> int"

definition dial_checks :: "'c ssh_library \<Rightarrow> bool" where
  "dial_checks lib \<longleftrightarrow>
     (\<forall>addr user methods callback c. sx_dial lib addr user methods callback = Inr c
        \<longrightarrow> (\<exists>hostname. callback hostname (sx_host_key lib c) = None))"

section \<open>Credentials and host keys\<close>

definition auth_methods :: "'c ssh_library \<Rightarrow> credential \<Rightarrow> string + auth_method list" where
  "auth_methods lib c =
     (let from_key =
        (if cr_private_key c = [] then Inr []
         else case sx_parse_key lib (cr_private_key c) (if cr_passphrase c = [] then None else Some (cr_passphrase c)) of
             Inl e \<Rightarrow> Inl (''parse ssh private key: '' @ e)
           | Inr signer \<Rightarrow> Inr [PublicKeys signer])
      in case from_key of
           Inl e \<Rightarrow> Inl e
         | Inr ms \<Rightarrow>
             let methods = ms @ (if cr_password c \<noteq> [] then [Password (cr_password c)] else [])
             in if methods = [] then Inl ''no ssh credential was supplied'' else Inr methods)"

text \<open>\<open>base64.RawStdEncoding\<close>, from the URL alphabet.\<close>

definition b64_std :: "string \<Rightarrow> string" where
  "b64_std s = map (\<lambda>c. if c = CHR ''-'' then CHR ''+'' else if c = CHR ''_'' then CHR ''/'' else c) (b64_encode s)"

definition fingerprint_sha256 :: "'c ssh_library \<Rightarrow> string \<Rightarrow> string" where
  "fingerprint_sha256 lib key = ''SHA256:'' @ b64_std (sx_sha256 lib key)"

text \<open>The fingerprint a host must have; \<open>Inl\<close> is \<open>ErrNoHostKeyPinned\<close>.\<close>

definition pinned_host_key :: "string \<Rightarrow> string + string" where
  "pinned_host_key fingerprint =
     (let want = trim_space fingerprint
      in if want = [] then Inl ''no ssh host key fingerprint is pinned for this server'' else Inr want)"

definition host_key_callback :: "'c ssh_library \<Rightarrow> string \<Rightarrow> string \<Rightarrow> string \<Rightarrow> string option" where
  "host_key_callback lib want hostname key =
     (let got = fingerprint_sha256 lib key
      in if got \<noteq> want
         then Some (''ssh host key does not match the pinned fingerprint: host '' @ hostname @ '' presented '' @ got
                @ '', expected '' @ want)
         else None)"

record executor =
  xe_addr :: string
  xe_user :: string
  xe_credential :: credential
  xe_pin :: string

definition new_executor :: "'c ssh_library \<Rightarrow> string \<Rightarrow> string \<Rightarrow> credential \<Rightarrow> string \<Rightarrow> string + executor" where
  "new_executor lib addr user c fingerprint =
     (case pinned_host_key fingerprint of
        Inl e \<Rightarrow> Inl e
      | Inr want \<Rightarrow>
          (case auth_methods lib c of
             Inl e \<Rightarrow> Inl e
           | Inr _ \<Rightarrow> Inr \<lparr>xe_addr = addr, xe_user = user, xe_credential = c, xe_pin = want\<rparr>))"

section \<open>Running a command\<close>

record run_result =
  xr_stdout :: string
  xr_stderr :: string
  xr_exit :: int
  xr_error :: string
  xr_duration :: int

definition output_limit :: nat where "output_limit = 2 * 1024 * 1024"

text \<open>\<open>io.ReadAll(io.LimitReader(...))\<close>: \<open>None\<close> when it waits for ever.\<close>

definition read_limited :: "stream \<Rightarrow> string option" where
  "read_limited s =
     (case s of
        Ends b \<Rightarrow> Some (take output_limit b)
      | StaysOpen b \<Rightarrow> if output_limit \<le> length b then Some (take output_limit b) else None)"

datatype ssh_event = Dialled string string | CommandSent string string

definition failed_run :: "int \<Rightarrow> string \<Rightarrow> run_result" where
  "failed_run elapsed message =
     \<lparr>xr_stdout = [], xr_stderr = [], xr_exit = - 1, xr_error = message, xr_duration = elapsed\<rparr>"

text \<open>
  The result, \<open>None\<close> when the call never returns, and the events: a dial, and the command sent to a host with a key.
  The deadline of the context is looked at when the command is waited for, after both streams have been read.
\<close>

definition run_session :: "'c ssh_library \<Rightarrow> 'c \<Rightarrow> string \<Rightarrow> run_result option \<times> ssh_event list" where
  "run_session lib c command =
     (let fail = (\<lambda>m. (Some (failed_run (sx_elapsed lib c) m), []));
          sent = CommandSent (sx_host_key lib c) command
      in case sx_session lib c of
           Some e \<Rightarrow> fail (''ssh session failed: '' @ e)
         | None \<Rightarrow>
             (case sx_stdout_pipe lib c of
                Some e \<Rightarrow> fail (''stdout pipe: '' @ e)
              | None \<Rightarrow>
                  (case sx_stderr_pipe lib c of
                     Some e \<Rightarrow> fail (''stderr pipe: '' @ e)
                   | None \<Rightarrow>
                       (case sx_start lib c command of
                          Some e \<Rightarrow> (Some (failed_run (sx_elapsed lib c) (''command start failed: '' @ e)), [sent])
                        | None \<Rightarrow>
                            (case read_limited (sx_stdout lib c command) of
                               None \<Rightarrow> (None, [sent])
                             | Some out \<Rightarrow>
                                 (case read_limited (sx_stderr lib c command) of
                                    None \<Rightarrow> (None, [sent])
                                  | Some errs \<Rightarrow>
                                      let res = \<lparr>xr_stdout = out, xr_stderr = errs, xr_exit = 0, xr_error = [],
                                                 xr_duration = sx_elapsed lib c\<rparr>
                                      in (Some (case sx_wait lib c command of
                                                  Exited n \<Rightarrow> res\<lparr>xr_exit := n\<rparr>
                                                | WaitFailed \<Rightarrow> res\<lparr>xr_exit := - 1\<rparr>
                                                | Interrupted e \<Rightarrow> res\<lparr>xr_exit := - 1, xr_error := e\<rparr>), [sent])))))))"

definition ssh_run :: "'c ssh_library \<Rightarrow> executor \<Rightarrow> int \<Rightarrow> string \<Rightarrow> run_result option \<times> ssh_event list" where
  "ssh_run lib x elapsed command =
     (case auth_methods lib (xe_credential x) of
        Inl e \<Rightarrow> (Some (failed_run elapsed (''ssh credential unusable: '' @ e)), [])
      | Inr methods \<Rightarrow>
          (case sx_dial lib (xe_addr x) (xe_user x) methods (host_key_callback lib (xe_pin x)) of
             Inl (HostKeyRefused e) \<Rightarrow>
               (Some (failed_run elapsed (''ssh host key verification failed: '' @ e)), [Dialled (xe_addr x) (xe_user x)])
           | Inl (DialFailed e) \<Rightarrow>
               (Some (failed_run elapsed (''ssh dial failed: '' @ e)), [Dialled (xe_addr x) (xe_user x)])
           | Inr c \<Rightarrow>
               (case run_session lib c command of
                  (res, events) \<Rightarrow> (res, Dialled (xe_addr x) (xe_user x) # events))))"

section \<open>What a run can send and return\<close>

lemma run_session_events:
  "set (snd (run_session lib c command)) \<subseteq> {CommandSent (sx_host_key lib c) command}"
  "length (snd (run_session lib c command)) \<le> 1"
  by (simp_all add: run_session_def Let_def split: option.split)

lemma run_session_result:
  "fst (run_session lib c command) = Some res \<Longrightarrow> length (xr_stdout res) \<le> output_limit \<and> length (xr_stderr res) \<le> output_limit"
  by (auto simp: run_session_def read_limited_def Let_def failed_run_def split: option.splits stream.splits if_splits wait_outcome.splits)

text \<open>
  C12: a command goes to the pinned host only.  If the SSH library calls back as documented, then whatever else
  happens a run sends at most the one command, to the executor's address and user, on a connection whose
  host key has the pinned fingerprint; and what it returns of each stream is at most two mebibytes.
\<close>

theorem ssh_run_pinned:
  assumes "dial_checks lib" "ssh_run lib x elapsed command = (res, events)"
  shows "(\<forall>addr user. Dialled addr user \<in> set events \<longrightarrow> addr = xe_addr x \<and> user = xe_user x)
    \<and> (\<forall>key cmd. CommandSent key cmd \<in> set events \<longrightarrow> cmd = command \<and> fingerprint_sha256 lib key = xe_pin x)
    \<and> length events \<le> 2
    \<and> (\<forall>r. res = Some r \<longrightarrow> length (xr_stdout r) \<le> output_limit \<and> length (xr_stderr r) \<le> output_limit)"
proof (cases "auth_methods lib (xe_credential x)")
  case (Inl e)
  then show ?thesis using assms(2) by (auto simp: ssh_run_def failed_run_def)
next
  case (Inr ms)
  show ?thesis
  proof (cases "sx_dial lib (xe_addr x) (xe_user x) ms (host_key_callback lib (xe_pin x))")
    case Inl': (Inl e)
    then show ?thesis using assms(2) Inr by (cases e) (auto simp: ssh_run_def failed_run_def)
  next
    case Inr': (Inr c)
    obtain res' ev where s: "run_session lib c command = (res', ev)" by fastforce
    then have r: "res = res'" "events = Dialled (xe_addr x) (xe_user x) # ev" using assms(2) Inr Inr' by (simp_all add: ssh_run_def)
    obtain hostname where "host_key_callback lib (xe_pin x) hostname (sx_host_key lib c) = None"
      using assms(1) Inr' unfolding dial_checks_def by blast
    then have "fingerprint_sha256 lib (sx_host_key lib c) = xe_pin x"
      by (simp add: host_key_callback_def Let_def split: if_splits)
    then show ?thesis
      using r run_session_events [of lib c command] run_session_result [of lib c command] s by auto
  qed
qed

definition sample_library :: "string ssh_library" where
  "sample_library = \<lparr>sx_sha256 = (\<lambda>m. m), sx_parse_key = (\<lambda>k _. Inr k),
     sx_dial = (\<lambda>addr user ms callback. case callback addr ''key'' of Some e \<Rightarrow> Inl (HostKeyRefused e) | None \<Rightarrow> Inr ''key''),
     sx_host_key = (\<lambda>c. c), sx_session = (\<lambda>_. None), sx_stdout_pipe = (\<lambda>_. None), sx_stderr_pipe = (\<lambda>_. None),
     sx_start = (\<lambda>_ _. None), sx_stdout = (\<lambda>_ command. Ends command), sx_stderr = (\<lambda>_ _. Ends []),
     sx_wait = (\<lambda>_ _. Exited 0), sx_elapsed = (\<lambda>_. 5)\<rparr>"

lemma sample_library_checks: "dial_checks sample_library"
  by (auto simp: dial_checks_def sample_library_def split: option.splits)

definition sample_executor :: executor where
  "sample_executor = \<lparr>xe_addr = ''10.0.0.5:22'', xe_user = ''deploy'',
     xe_credential = \<lparr>cr_private_key = ''PEM'', cr_passphrase = [], cr_password = []\<rparr>,
     xe_pin = fingerprint_sha256 sample_library ''key''\<rparr>"

theorem ssh_run_pinned_witness:
  "snd (ssh_run sample_library sample_executor 5 ''uptime'') = [Dialled ''10.0.0.5:22'' ''deploy'', CommandSent ''key'' ''uptime'']
   \<and> fingerprint_sha256 sample_library ''key'' = xe_pin sample_executor"
proof -
  obtain res ev where r: "ssh_run sample_library sample_executor 5 ''uptime'' = (res, ev)" by fastforce
  have "auth_methods sample_library (xe_credential sample_executor) = Inr [PublicKeys ''PEM'']"
    "sx_dial sample_library (xe_addr sample_executor) (xe_user sample_executor) [PublicKeys ''PEM'']
      (host_key_callback sample_library (xe_pin sample_executor)) = Inr ''key''" by code_simp+
  then have sent: "snd (ssh_run sample_library sample_executor 5 ''uptime'')
      = [Dialled ''10.0.0.5:22'' ''deploy'', CommandSent ''key'' ''uptime'']"
    by (simp add: ssh_run_def run_session_def read_limited_def sample_library_def sample_executor_def)
  then have "CommandSent ''key'' ''uptime'' \<in> set ev" by (simp add: r)
  then have "fingerprint_sha256 sample_library ''key'' = xe_pin sample_executor"
    using ssh_run_pinned [OF sample_library_checks r] by blast
  with sent show ?thesis by blast
qed



end
