(* ===== verification/RunnerProc.thy ===== *)
theory RunnerProc
  imports Sshx Dispatch "HOL-Library.Word"
begin

text \<open>
  \<open>apps/runner/main.go\<close>: the runner process.  Every HTTP exchange is given by what comes back (\<open>http_reply\<close>), every look
  at the clock by its value; a turn of the main loop is \<open>runner_turn\<close>, which returns the new state and the list of what
  it did.  The health counters are 64-bit.  Lease renewal runs beside a job and only sends \<open>renew_body\<close>.
\<close>

section \<open>Answers of the API\<close>

text \<open>No answer, or a status with the body, \<open>None\<close> when it is not JSON.\<close>

datatype http_reply = NoReply string | Reply nat "json option"

record job =
  jb_target :: string
  jb_execution :: string
  jb_command :: string
  jb_host :: string
  jb_port :: int
  jb_user :: string
  jb_credential_ref :: string
  jb_host_key :: string
  jb_timeout :: int
  jb_lease :: string
  jb_runner :: string
  jb_expires :: int
  jb_signature :: string

definition claims_of :: "job \<Rightarrow> claims" where
  "claims_of j =
     \<lparr>cl_execution_id = jb_execution j, cl_target_id = jb_target j, cl_lease_id = jb_lease j, cl_runner_id = jb_runner j,
      cl_command = jb_command j, cl_host = jb_host j, cl_port = jb_port j, cl_user = jb_user j, cl_timeout = jb_timeout j,
      cl_credential_ref = jb_credential_ref j, cl_host_key_fingerprint = jb_host_key j, cl_expires_at_unix = jb_expires j\<rparr>"

text \<open>
  Decoding into the struct: an absent or a null field is the zero value, the last of two equal names counts,
  a field of another kind is an error.  Names that differ in case only and numbers beyond 64 bits are left out.
\<close>

definition str_field :: "(string \<times> json) list \<Rightarrow> string \<Rightarrow> string option" where
  "str_field kvs k =
     (case map_of (rev kvs) k of None \<Rightarrow> Some [] | Some JNull \<Rightarrow> Some [] | Some (JStr s) \<Rightarrow> Some s | Some _ \<Rightarrow> None)"

definition int_field :: "(string \<times> json) list \<Rightarrow> string \<Rightarrow> int option" where
  "int_field kvs k =
     (case map_of (rev kvs) k of None \<Rightarrow> Some 0 | Some JNull \<Rightarrow> Some 0 | Some (JInt n) \<Rightarrow> Some n | Some _ \<Rightarrow> None)"

definition decode_job :: "json \<Rightarrow> job option" where
  "decode_job v =
     (case v of
        JObj kvs \<Rightarrow>
          (case (all_some (map (str_field kvs) [''target_id'', ''execution_id'', ''command'', ''host'', ''user'',
                   ''credential_ref'', ''host_key_fingerprint'', ''lease_id'', ''runner_id'', ''signature'']),
                 all_some (map (int_field kvs) [''port'', ''timeout'', ''expires_at_unix''])) of
             (Some [t, x, c, h, u, cr, hk, l, r, sg], Some [p, tm, ex]) \<Rightarrow>
               Some \<lparr>jb_target = t, jb_execution = x, jb_command = c, jb_host = h, jb_port = p, jb_user = u,
                     jb_credential_ref = cr, jb_host_key = hk, jb_timeout = tm, jb_lease = l, jb_runner = r,
                     jb_expires = ex, jb_signature = sg\<rparr>
           | _ \<Rightarrow> None)
      | JNull \<Rightarrow> Some \<lparr>jb_target = [], jb_execution = [], jb_command = [], jb_host = [], jb_port = 0, jb_user = [],
                     jb_credential_ref = [], jb_host_key = [], jb_timeout = 0, jb_lease = [], jb_runner = [],
                     jb_expires = 0, jb_signature = []\<rparr>
      | _ \<Rightarrow> None)"

section \<open>Claiming\<close>

definition query_escape :: "string \<Rightarrow> string" where
  "query_escape s = concat (map (\<lambda>c.
     if is_lower c \<or> is_upper c \<or> is_digit c \<or> c \<in> {CHR ''-'', CHR ''_'', CHR ''.'', CHR ''~''} then [c]
     else if c = CHR '' '' then ''+''
     else let h = (\<lambda>n. if n < 10 then char_of (48 + n) else char_of (55 + n))
          in [CHR ''%'', h (code c div 16), h (code c mod 16)]) s)"

definition claim_url :: "string \<Rightarrow> string \<Rightarrow> string \<Rightarrow> string" where
  "claim_url api runner_id target_id =
     api @ ''/api/v1/jobs/next?runner_id='' @ query_escape runner_id
       @ (if target_id \<noteq> [] then ''&target_id='' @ query_escape target_id else [])"

text \<open>The answer to a claim: an error, no job, or a job.\<close>

definition claim_job_for_target :: "http_reply \<Rightarrow> string + job option" where
  "claim_job_for_target r =
     (case r of
        NoReply e \<Rightarrow> Inl e
      | Reply status body \<Rightarrow>
          if status = 404 then Inr None
          else if status \<noteq> 200 then Inl (''unexpected status: '' @ nat_str status)
          else case body of
              None \<Rightarrow> Inl ''invalid JSON''
            | Some v \<Rightarrow>
                (case decode_job v of
                   None \<Rightarrow> Inl ''cannot unmarshal job''
                 | Some j \<Rightarrow> if jb_execution j = [] then Inr None else Inr (Some j)))"

text \<open>What the stream's consumer gives: nothing, an error, or a delivery with the outcomes of its two acknowledgements.\<close>

datatype poll = NoMessage | PollError string | Delivered notification "string option" "string option"

datatype runner_event =
    Heartbeat json
  | Claimed string
  | Acked
  | Nacked
  | Refused sign_error
  | Simulated string
  | Ssh ssh_event
  | Submitted json

definition claim_notification ::
  "(string \<Rightarrow> string + job option) \<Rightarrow> poll \<Rightarrow> (job option \<times> bool \<times> string option) \<times> runner_event list" where
  "claim_notification claim p =
     (case p of
        NoMessage \<Rightarrow> ((None, False, None), [])
      | PollError e \<Rightarrow> ((None, False, Some e), [])
      | Delivered n nak_err ack_err \<Rightarrow>
          (case claim (nt_target n) of
             Inl e \<Rightarrow>
               ((None, True, Some (case nak_err of
                    Some ne \<Rightarrow> ''claim target '' @ nt_target n @ '': '' @ e @ '', then nack notification: '' @ ne
                  | None \<Rightarrow> e)), [Claimed (nt_target n), Nacked])
           | Inr claimed \<Rightarrow>
               (case ack_err of
                  Some ae \<Rightarrow>
                    (if claimed \<noteq> None
                     then ((claimed, True, Some (''ack notification for claimed target '' @ nt_target n @ '': '' @ ae)),
                           [Claimed (nt_target n), Acked])
                     else ((None, True, Some ae), [Claimed (nt_target n), Acked]))
                | None \<Rightarrow> ((claimed, True, None), [Claimed (nt_target n), Acked]))))"

section \<open>Running a job\<close>

record runner_config =
  rf_id :: string
  rf_hostname :: string
  rf_key :: string
  rf_simulate :: bool
  rf_host :: string
  rf_port :: string
  rf_user :: string
  rf_keystore :: string
  rf_jetstream :: bool

text \<open>\<open>Sscanf\<close> with \<open>%d\<close>: blanks, a sign, digits; anything else, or a number that is not positive, is port 22.\<close>

definition parse_port :: "string \<Rightarrow> int" where
  "parse_port v =
     (let s = dropWhile (\<lambda>c. is_space c \<and> c \<noteq> CHR 0x0A) v;
          unsigned = (case s of c # t \<Rightarrow> if c = CHR ''-'' \<or> c = CHR ''+'' then t else s | [] \<Rightarrow> []);
          digits = takeWhile is_digit unsigned;
          n = (if has_prefix s ''-'' then - int (read_nat digits) else int (read_nat digits))
      in if digits = [] \<or> n > 2 ^ 63 - 1 \<or> n \<le> 0 then 22 else n)"

definition keystore_error_text :: "keystore_error \<Rightarrow> string" where
  "keystore_error_text e =
     (case e of
        UnknownReference \<Rightarrow> ''no ssh credential is configured for this reference''
      | UnknownReferenceTo r \<Rightarrow> ''no ssh credential is configured for this reference: '' @ r
      | InvalidReference r \<Rightarrow> ''ssh credential reference is not a valid name: '' @ go_quote r
      | KeyError r m \<Rightarrow> ''read ssh key for '' @ r @ '': '' @ m
      | PassphraseError r m \<Rightarrow> ''read ssh passphrase for '' @ r @ '': '' @ m
      | PasswordError r m \<Rightarrow> ''read ssh password for '' @ r @ '': '' @ m)"

definition refused_run :: "string \<Rightarrow> run_result" where
  "refused_run message = \<lparr>xr_stdout = [], xr_stderr = [], xr_exit = - 1, xr_error = message, xr_duration = 0\<rparr>"

definition run_target ::
  "'c ssh_library \<Rightarrow> string \<Rightarrow> (string \<Rightarrow> file_read) \<Rightarrow> job \<Rightarrow> string \<Rightarrow> int \<Rightarrow> string \<Rightarrow> int
     \<Rightarrow> run_result option \<times> ssh_event list" where
  "run_target lib keystore files j host port user elapsed =
     (if jb_host_key j = [] then
        (Some (refused_run ''refusing to connect: no ssh host key fingerprint is recorded for this server; record one with 'ssh-keyscan -p <port> <host> | ssh-keygen -lf -' and set it on the server''), [])
      else if jb_credential_ref j = [] then
        (Some (refused_run ''refusing to connect: no ssh credential reference is recorded for this server''), [])
      else case fst (resolve_reference keystore files (jb_credential_ref j)) of
          Inl e \<Rightarrow> (Some (refused_run (''ssh credential unavailable on this runner: '' @ keystore_error_text e)), [])
        | Inr c \<Rightarrow>
            (case new_executor lib (host @ '':'' @ int_str port) user c (jb_host_key j) of
               Inl e \<Rightarrow> (Some (refused_run e), [])
             | Inr x \<Rightarrow> ssh_run lib x elapsed (jb_command j)))"

definition simulate_run :: "int \<Rightarrow> string \<Rightarrow> run_result" where
  "simulate_run elapsed command =
     \<lparr>xr_stdout = ''[simulated] '' @ command @ [CHR 0x0A], xr_stderr = [], xr_exit = 0, xr_error = [], xr_duration = elapsed\<rparr>"

section \<open>Reporting a result\<close>

definition result_body :: "(string \<Rightarrow> string) \<Rightarrow> string \<Rightarrow> job \<Rightarrow> run_result \<Rightarrow> json" where
  "result_body redact runner_id j res = jmap
     [(''runner_id'', JStr runner_id), (''target_id'', JStr (jb_target j)), (''execution_id'', JStr (jb_execution j)),
      (''lease_id'', JStr (jb_lease j)), (''exit_code'', JInt (xr_exit res)), (''stdout'', JStr (redact (xr_stdout res))),
      (''stderr'', JStr (redact (xr_stderr res))), (''error'', JStr (xr_error res)), (''duration_ms'', JInt (xr_duration res))]"

definition renew_body :: "string \<Rightarrow> job \<Rightarrow> json" where
  "renew_body runner_id j = jmap
     [(''execution_id'', JStr (jb_execution j)), (''target_id'', JStr (jb_target j)), (''runner_id'', JStr runner_id),
      (''lease_id'', JStr (jb_lease j))]"

datatype submit_error = NotSent string | BadStatus nat | Cancelled string

definition submit_outcome :: "http_reply \<Rightarrow> submit_error option" where
  "submit_outcome r =
     (case r of NoReply e \<Rightarrow> Some (NotSent e) | Reply status _ \<Rightarrow> if status \<noteq> 200 then Some (BadStatus status) else None)"

definition definitive :: "submit_error \<Rightarrow> bool" where
  "definitive e = (case e of BadStatus s \<Rightarrow> s \<noteq> 408 \<and> s \<noteq> 429 \<and> s < 500 | _ \<Rightarrow> False)"

text \<open>
  The answers by attempt, and whether the context ends during the wait after one.  The error, if any, and the
  number of submissions sent.
\<close>

function submit_from ::
  "(nat \<Rightarrow> http_reply) \<Rightarrow> (nat \<Rightarrow> string option) \<Rightarrow> nat \<Rightarrow> submit_error option \<Rightarrow> submit_error option \<times> nat" where
  "submit_from replies ended attempt last_err =
     (if 3 \<le> attempt then (last_err, attempt)
      else case submit_outcome (replies attempt) of
          None \<Rightarrow> (None, Suc attempt)
        | Some e \<Rightarrow>
            if definitive e then (Some e, Suc attempt)
            else if attempt < 2 then
              (case ended attempt of
                 Some m \<Rightarrow> (Some (Cancelled m), Suc attempt)
               | None \<Rightarrow> submit_from replies ended (Suc attempt) (Some e))
            else submit_from replies ended (Suc attempt) (Some e))"
  by auto
termination by (relation "measure (\<lambda>(_, _, attempt, _). 3 - attempt)") auto

declare submit_from.simps [simp del]

definition submit_result_with_retry ::
  "(nat \<Rightarrow> http_reply) \<Rightarrow> (nat \<Rightarrow> string option) \<Rightarrow> submit_error option \<times> nat" where
  "submit_result_with_retry replies ended = submit_from replies ended 0 None"

section \<open>The main loop\<close>

record runner_state =
  rs_token :: string
  rs_claimed :: "64 word"
  rs_completed :: "64 word"
  rs_rejected :: "64 word"
  rs_last_completion :: int
  rs_heartbeat_at :: int

text \<open>Everything a turn reads from outside: the clock at its points, the answers, and the SSH library's behaviour in it.\<close>

record 'c turn =
  tn_now :: int
  tn_poll :: poll
  tn_claim :: "string \<Rightarrow> http_reply"
  tn_verify_at :: int
  tn_library :: "'c ssh_library"
  tn_elapsed :: int
  tn_completed_at :: int
  tn_replies :: "nat \<Rightarrow> http_reply"
  tn_ended :: "nat \<Rightarrow> string option"

definition version_text :: string where "version_text = ''0.1.0-beta.1''"

definition heartbeat_body :: "runner_config \<Rightarrow> json" where
  "heartbeat_body cfg = jmap
     [(''runner_id'', JStr (rf_id cfg)), (''hostname'', JStr (rf_hostname cfg)), (''platform'', JStr ''linux''),
      (''version'', JStr version_text)]"

definition heartbeat_step :: "runner_config \<Rightarrow> int \<Rightarrow> runner_state \<Rightarrow> runner_state \<times> runner_event list" where
  "heartbeat_step cfg now st =
     (if now - rs_heartbeat_at st > 30 * 1000000000 \<and> rf_id cfg \<noteq> []
      then (st\<lparr>rs_heartbeat_at := now\<rparr>, [Heartbeat (heartbeat_body cfg)]) else (st, []))"

text \<open>The job of a turn; an error, from the notification or from the claim, leaves none.\<close>

definition obtain_job :: "runner_config \<Rightarrow> poll \<Rightarrow> (string \<Rightarrow> http_reply) \<Rightarrow> job option \<times> runner_event list" where
  "obtain_job cfg p replies =
     (let (notified, events) =
            (if rf_jetstream cfg then claim_notification (\<lambda>t. claim_job_for_target (replies t)) p else ((None, False, None), []));
          (claimed, handled, e) = notified
      in if \<not> rf_jetstream cfg \<or> \<not> handled
         then (case claim_job_for_target (replies []) of Inl _ \<Rightarrow> None | Inr c \<Rightarrow> c, events @ [Claimed []])
         else (if e \<noteq> None then None else claimed, events))"

definition submissions :: "json \<Rightarrow> 'c turn \<Rightarrow> runner_event list" where
  "submissions body t = replicate (snd (submit_result_with_retry (tn_replies t) (tn_ended t))) (Submitted body)"

text \<open>The result of a verified job and the events; the host, the port and the user of the process fill in empty ones.\<close>

definition execute_job ::
  "runner_config \<Rightarrow> (string \<Rightarrow> file_read) \<Rightarrow> job \<Rightarrow> 'c turn \<Rightarrow> run_result option \<times> runner_event list" where
  "execute_job cfg files j t =
     (if rf_simulate cfg then (Some (simulate_run (tn_elapsed t) (jb_command j)), [Simulated (jb_command j)])
      else
        let (res, ev) = run_target (tn_library t) (rf_keystore cfg) files j
              (if jb_host j = [] then rf_host cfg else jb_host j)
              (if jb_port j = 0 then parse_port (rf_port cfg) else jb_port j)
              (if jb_user j = [] then rf_user cfg else jb_user j) (tn_elapsed t)
        in (res, map Ssh ev))"

text \<open>A turn: \<open>None\<close> as the new state when the turn does not end.\<close>

definition process_job ::
  "(string \<Rightarrow> string \<Rightarrow> string) \<Rightarrow> (string \<Rightarrow> string) \<Rightarrow> (sign_error \<Rightarrow> string) \<Rightarrow> runner_config \<Rightarrow> (string \<Rightarrow> file_read) \<Rightarrow>
     job \<Rightarrow> 'c turn \<Rightarrow> runner_state \<Rightarrow> runner_state option \<times> runner_event list" where
  "process_job hmac redact sign_text cfg files j t st =
     (case verify hmac (Some (rf_key cfg)) (claims_of j) (jb_signature j) (tn_verify_at t) of
        Some e \<Rightarrow>
          (Some (st\<lparr>rs_rejected := rs_rejected st + 1\<rparr>),
           Refused e # submissions (result_body redact (rf_id cfg) j
             (refused_run (''runner refused the job: '' @ sign_text e))) t)
      | None \<Rightarrow>
          let (res, ev) = execute_job cfg files j t
          in case res of
               None \<Rightarrow> (None, ev)
             | Some r \<Rightarrow>
                 (Some (st\<lparr>rs_claimed := rs_claimed st + 1, rs_completed := rs_completed st + 1,
                           rs_last_completion := tn_completed_at t\<rparr>),
                  ev @ submissions (result_body redact (rf_id cfg) j r) t))"

definition runner_turn ::
  "(string \<Rightarrow> string \<Rightarrow> string) \<Rightarrow> (string \<Rightarrow> string) \<Rightarrow> (sign_error \<Rightarrow> string) \<Rightarrow> runner_config \<Rightarrow> (string \<Rightarrow> file_read) \<Rightarrow>
     'c turn \<Rightarrow> runner_state \<Rightarrow> runner_state option \<times> runner_event list" where
  "runner_turn hmac redact sign_text cfg files t st =
     (let (st1, beat) = heartbeat_step cfg (tn_now t) st;
          (claimed, ev) = obtain_job cfg (tn_poll t) (tn_claim t)
      in case claimed of
           None \<Rightarrow> (Some st1, beat @ ev)
         | Some j \<Rightarrow>
             (case process_job hmac redact sign_text cfg files j t st1 of (st2, ev2) \<Rightarrow> (st2, beat @ ev @ ev2)))"

section \<open>Start-up and health\<close>

text \<open>The answer to the registration: the runner's id and its credential, empty when there is none.\<close>

definition register_outcome :: "http_reply \<Rightarrow> string \<times> string" where
  "register_outcome r =
     (case r of
        NoReply _ \<Rightarrow> ([], [])
      | Reply status body \<Rightarrow>
          if status < 200 \<or> 300 \<le> status then ([], [])
          else case body of
              Some (JObj kvs) \<Rightarrow>
                (case str_field kvs ''runner_id'' of None \<Rightarrow> [] | Some s \<Rightarrow> s,
                 case str_field kvs ''runner_token'' of None \<Rightarrow> [] | Some s \<Rightarrow> s)
            | _ \<Rightarrow> ([], []))"

text \<open>The start: \<open>None\<close> when the process exits.  The key of the runner, its id and the token of its later calls.\<close>

definition runner_start ::
  "string \<Rightarrow> bool \<Rightarrow> string \<Rightarrow> http_reply \<Rightarrow> string \<Rightarrow> (string \<times> string \<times> string) option" where
  "runner_start signing_key simulate keystore registration token =
     (case new_signer signing_key of
        Inl _ \<Rightarrow> None
      | Inr key \<Rightarrow>
          if \<not> simulate \<and> \<not> configured keystore then None
          else let (rid, bound) = register_outcome registration
               in if rid = [] then None else Some (key, rid, if bound \<noteq> [] then bound else token))"

definition health_reply :: "bool \<Rightarrow> runner_state \<Rightarrow> nat \<times> json" where
  "health_reply registered st =
     (if \<not> registered then (503, jmap [(''status'', JStr ''starting'')])
      else (200, jmap [(''status'', JStr ''healthy''), (''jobs_claimed'', JInt (uint (rs_claimed st))),
             (''jobs_completed'', JInt (uint (rs_completed st))), (''jobs_rejected'', JInt (uint (rs_rejected st))),
             (''last_completion_unix'', JInt (rs_last_completion st))]))"

end
