(* ===== verification/RunnerProcProps.thy ===== *)
theory RunnerProcProps
  imports RunnerProc
begin

text \<open>
  What the runner process may do to a customer's machines, how often it reports, and what it drops.
\<close>

section \<open>Submitting\<close>

definition transient :: "http_reply \<Rightarrow> bool" where
  "transient r \<longleftrightarrow> (\<exists>e. submit_outcome r = Some e \<and> \<not> definitive e)"

lemma submit_outcome_iff: "submit_outcome r = None \<longleftrightarrow> (\<exists>b. r = Reply 200 b)"
  by (cases r) (auto simp: submit_outcome_def)

lemma submit_from_spec:
  assumes "submit_from replies ended attempt last_err = (res, n)" "attempt < 3"
  shows "attempt < n \<and> n \<le> 3 \<and> (\<forall>k. attempt \<le> k \<and> k + 1 < n \<longrightarrow> transient (replies k) \<and> ended k = None)
    \<and> (case res of
         None \<Rightarrow> submit_outcome (replies (n - 1)) = None
       | Some (Cancelled m) \<Rightarrow> transient (replies (n - 1)) \<and> n < 3 \<and> ended (n - 1) = Some m
       | Some e \<Rightarrow> submit_outcome (replies (n - 1)) = Some e \<and> (n = 3 \<or> definitive e))"
  using assms
proof (induction replies ended attempt last_err rule: submit_from.induct)
  case (1 replies ended attempt last_err)
  have not_cancelled: "submit_outcome r \<noteq> Some (Cancelled m)" for r m
    by (cases r) (auto simp: submit_outcome_def)
  show ?case
  proof (cases "submit_outcome (replies attempt)")
    case None
    then show ?thesis using 1(3,4) by (auto simp: submit_from.simps [of _ _ attempt])
  next
    case (Some e)
    show ?thesis
    proof (cases "definitive e")
      case True
      then have "res = Some e" "n = Suc attempt" using 1(3,4) Some by (auto simp: submit_from.simps [of _ _ attempt])
      then show ?thesis using 1(4) Some True not_cancelled by (cases e) auto
    next
      case False
      then have tr: "transient (replies attempt)" using Some by (auto simp: transient_def)
      show ?thesis
      proof (cases "attempt < 2")
        case True
        show ?thesis
        proof (cases "ended attempt")
          case None
          have r: "submit_from replies ended (Suc attempt) (Some e) = (res, n)"
            using 1(3,4) Some False True None by (simp add: submit_from.simps [of _ _ attempt])
          have ih: "Suc attempt < n \<and> n \<le> 3 \<and> (\<forall>k. Suc attempt \<le> k \<and> k + 1 < n \<longrightarrow> transient (replies k) \<and> ended k = None)
            \<and> (case res of
                 None \<Rightarrow> submit_outcome (replies (n - 1)) = None
               | Some (Cancelled m) \<Rightarrow> transient (replies (n - 1)) \<and> n < 3 \<and> ended (n - 1) = Some m
               | Some e \<Rightarrow> submit_outcome (replies (n - 1)) = Some e \<and> (n = 3 \<or> definitive e))"
            using 1(1) [OF _ Some False True None r] True by simp
          moreover have "transient (replies k) \<and> ended k = None" if "attempt \<le> k" "k + 1 < n" for k
            using that ih tr None by (cases "k = attempt") auto
          ultimately show ?thesis by simp
        next
          case ended: (Some m)
          then have "res = Some (Cancelled m)" "n = Suc attempt"
            using 1(3,4) Some False True by (auto simp: submit_from.simps [of _ _ attempt])
          then show ?thesis using True tr ended by auto
        qed
      next
        case two: False
        then have "attempt = 2" using 1(4) by simp
        then have "res = Some e" "n = 3"
          using 1(3) Some False by (auto simp: submit_from.simps [of _ _ 2] submit_from.simps [of _ _ 3])
        then show ?thesis using \<open>attempt = 2\<close> Some not_cancelled by (cases e) auto
      qed
    qed
  qed
qed

text \<open>
  C38: reporting a result.  A result is submitted at least once and at most three times, whatever the API answers: again
  only after an answer that may be temporary (none, 408, 429 or 5xx) and while the process is not being
  stopped; no error is returned exactly for a 200, and an error without three attempts is a definitive refusal
  or the end of the process.
\<close>

theorem submit_retry_exact:
  assumes "submit_result_with_retry replies ended = (res, n)"
  shows "1 \<le> n \<and> n \<le> 3 \<and> (\<forall>k. k + 1 < n \<longrightarrow> transient (replies k) \<and> ended k = None)
    \<and> (res = None \<longleftrightarrow> (\<exists>b. replies (n - 1) = Reply 200 b))
    \<and> (\<forall>e. res = Some e \<and> n < 3 \<longrightarrow> definitive e \<or> (\<exists>m. e = Cancelled m \<and> ended (n - 1) = Some m))"
proof -
  note s = submit_from_spec [OF assms [unfolded submit_result_with_retry_def]]
  have "transient r \<Longrightarrow> submit_outcome r \<noteq> None" for r by (auto simp: transient_def)
  then show ?thesis
    using s by (auto simp: submit_outcome_iff [symmetric] split: option.splits submit_error.splits)
qed

theorem submit_retry_exact_witness:
  "submit_result_with_retry (\<lambda>k. if k = 0 then Reply 503 None else Reply 409 None) (\<lambda>_. None) = (Some (BadStatus 409), 2)
   \<and> definitive (BadStatus 409)"
proof -
  let ?r = "\<lambda>k. if k = 0 then Reply 503 None else Reply 409 None"
  have r: "submit_result_with_retry ?r (\<lambda>_. None) = (Some (BadStatus 409), 2)" by code_simp
  have "definitive (BadStatus 409) \<or> (\<exists>m. BadStatus 409 = Cancelled m)" using submit_retry_exact [OF r] by force
  then show ?thesis using r by simp
qed

section \<open>Executing\<close>

text \<open>The events that touch a machine.\<close>

fun executes :: "runner_event \<Rightarrow> bool" where
  "executes (Ssh _) = True"
| "executes (Simulated _) = True"
| "executes _ = False"

lemma heartbeat_no_execution: "heartbeat_step cfg now st = (st', ev) \<Longrightarrow> e \<in> set ev \<Longrightarrow> \<not> executes e"
  by (auto simp: heartbeat_step_def split: if_splits)

lemma notification_no_execution: "claim_notification claim p = (x, ev) \<Longrightarrow> e \<in> set ev \<Longrightarrow> \<not> executes e"
  by (auto simp: claim_notification_def split: poll.splits sum.splits option.splits if_splits)

lemma obtain_no_execution: "obtain_job cfg p replies = (j, ev) \<Longrightarrow> e \<in> set ev \<Longrightarrow> \<not> executes e"
  using notification_no_execution
  by (fastforce simp: obtain_job_def split: prod.splits if_splits)

lemma submissions_no_execution: "e \<in> set (submissions body t) \<Longrightarrow> \<not> executes e"
  by (auto simp: submissions_def)

lemma run_target_cases:
  assumes "run_target lib keystore files j host port user elapsed = (res, ev)"
  obtains (Refused) m where "res = Some (refused_run m)" "ev = []"
  | (Ran) c x where "fst (resolve_reference keystore files (jb_credential_ref j)) = Inr c" "jb_host_key j \<noteq> []"
      "x = \<lparr>xe_addr = host @ '':'' @ int_str port, xe_user = user, xe_credential = c, xe_pin = trim_space (jb_host_key j)\<rparr>"
      "ssh_run lib x elapsed (jb_command j) = (res, ev)"
proof (cases "jb_host_key j = [] \<or> jb_credential_ref j = []")
  case True
  then have "\<exists>m. res = Some (refused_run m)" "ev = []" using assms by (auto simp: run_target_def split: if_splits)
  then show ?thesis using Refused by blast
next
  case False
  show ?thesis
  proof (cases "fst (resolve_reference keystore files (jb_credential_ref j))")
    case (Inl e)
    then show ?thesis using assms Refused False by (auto simp: run_target_def)
  next
    case (Inr c)
    show ?thesis
    proof (cases "new_executor lib (host @ '':'' @ int_str port) user c (jb_host_key j)")
      case Inl': (Inl e)
      then show ?thesis using assms Refused False Inr by (auto simp: run_target_def)
    next
      case Inr': (Inr x)
      then have x: "x = \<lparr>xe_addr = host @ '':'' @ int_str port, xe_user = user, xe_credential = c, xe_pin = trim_space (jb_host_key j)\<rparr>"
        by (auto simp: new_executor_def pinned_host_key_def Let_def split: if_splits sum.splits)
      have "ssh_run lib x elapsed (jb_command j) = (res, ev)" using assms False Inr Inr' by (simp add: run_target_def)
      then show ?thesis using Ran [OF Inr _ x] False by simp
    qed
  qed
qed

lemma ssh_run_events:
  assumes "dial_checks lib" "ssh_run lib x elapsed command = (res, ev)" "e \<in> set ev"
  obtains (Dial) "e = Dialled (xe_addr x) (xe_user x)"
  | (Command) key where "e = CommandSent key command" "fingerprint_sha256 lib key = xe_pin x"
proof -
  obtain ms where ms: "auth_methods lib (xe_credential x) = Inr ms"
    using assms(2,3) by (cases "auth_methods lib (xe_credential x)") (auto simp: ssh_run_def)
  show ?thesis
  proof (cases "sx_dial lib (xe_addr x) (xe_user x) ms (host_key_callback lib (xe_pin x))")
    case (Inl e')
    then show ?thesis using assms(2,3) ms Dial by (cases e') (auto simp: ssh_run_def)
  next
    case (Inr c)
    obtain hostname where "host_key_callback lib (xe_pin x) hostname (sx_host_key lib c) = None"
      using assms(1) Inr unfolding dial_checks_def by blast
    then have f: "fingerprint_sha256 lib (sx_host_key lib c) = xe_pin x"
      by (simp add: host_key_callback_def Let_def split: if_splits)
    have "e = Dialled (xe_addr x) (xe_user x) \<or> e = CommandSent (sx_host_key lib c) command"
      using assms(2,3) ms Inr run_session_events(1) [of lib c command] by (auto simp: ssh_run_def split: prod.splits)
    then show ?thesis using f Dial Command by blast
  qed
qed

lemma execute_events:
  assumes "execute_job cfg files j t = (res, ev)" "e \<in> set ev" "dial_checks (tn_library t)"
  shows "if rf_simulate cfg then e = Simulated (jb_command j)
    else (\<exists>c. fst (resolve_reference (rf_keystore cfg) files (jb_credential_ref j)) = Inr c)
      \<and> ((\<exists>addr user. e = Ssh (Dialled addr user) \<and> (jb_host j \<noteq> [] \<and> jb_port j \<noteq> 0 \<longrightarrow> addr = jb_host j @ '':'' @ int_str (jb_port j)))
         \<or> (\<exists>key. e = Ssh (CommandSent key (jb_command j)) \<and> fingerprint_sha256 (tn_library t) key = trim_space (jb_host_key j)))"
proof (cases "rf_simulate cfg")
  case True
  then show ?thesis using assms by (auto simp: execute_job_def)
next
  case False
  let ?host = "if jb_host j = [] then rf_host cfg else jb_host j"
  let ?port = "if jb_port j = 0 then parse_port (rf_port cfg) else jb_port j"
  let ?user = "if jb_user j = [] then rf_user cfg else jb_user j"
  obtain r ev' where rt: "run_target (tn_library t) (rf_keystore cfg) files j ?host ?port ?user (tn_elapsed t) = (r, ev')" by fastforce
  then have ev: "ev = map Ssh ev'" using assms(1) False by (simp add: execute_job_def)
  then obtain e' where e': "e' \<in> set ev'" "e = Ssh e'" using assms(2) by auto
  from rt show ?thesis
  proof (cases rule: run_target_cases)
    case (Refused m)
    then show ?thesis using e' by simp
  next
    case (Ran c x)
    from assms(3) Ran(4) e'(1) show ?thesis
    proof (cases rule: ssh_run_events)
      case Dial
      then show ?thesis using Ran(1,3) e'(2) False by auto
    next
      case (Command key)
      then show ?thesis using Ran(1,3) e'(2) False by auto
    qed
  qed
qed


text \<open>
  A job that does not verify.  The runner counts it as rejected, touches no machine, and reports one failed
  result for the job's lease, at most three times.
\<close>

theorem unverified_job_refused:
  assumes "fst (obtain_job cfg (tn_poll t) (tn_claim t)) = Some j"
    and "verify hmac (Some (rf_key cfg)) (claims_of j) (jb_signature j) (tn_verify_at t) = Some why"
    and "runner_turn hmac redact sign_text cfg files t st = (st', ev)"
  shows "(\<forall>e \<in> set ev. \<not> executes e) \<and> Refused why \<in> set ev
    \<and> (\<exists>st1. st' = Some st1 \<and> rs_rejected st1 = rs_rejected st + 1 \<and> rs_completed st1 = rs_completed st)
    \<and> (\<exists>n. 1 \<le> n \<and> n \<le> 3 \<and> filter (\<lambda>e. \<exists>b. e = Submitted b) ev
         = replicate n (Submitted (result_body redact (rf_id cfg) j (refused_run (''runner refused the job: '' @ sign_text why)))))"
proof -
  obtain st1 beat where h: "heartbeat_step cfg (tn_now t) st = (st1, beat)" by fastforce
  have st1: "rs_rejected st1 = rs_rejected st" "rs_completed st1 = rs_completed st"
    using h by (auto simp: heartbeat_step_def split: if_splits)
  obtain evo where o': "obtain_job cfg (tn_poll t) (tn_claim t) = (Some j, evo)" using assms(1) by (cases "obtain_job cfg (tn_poll t) (tn_claim t)") auto
  let ?b = "result_body redact (rf_id cfg) j (refused_run (''runner refused the job: '' @ sign_text why))"
  have ev: "ev = beat @ evo @ Refused why # submissions ?b t" "st' = Some (st1\<lparr>rs_rejected := rs_rejected st1 + 1\<rparr>)"
    using assms(2,3) h o' by (auto simp: runner_turn_def process_job_def)
  have quiet: "(\<nexists>b. e = Submitted b)" if "e \<in> set beat \<union> set evo" for e
    using that h o' by (auto simp: heartbeat_step_def obtain_job_def claim_notification_def
        split: if_splits prod.splits poll.splits sum.splits option.splits)
  obtain res n where n: "submit_result_with_retry (tn_replies t) (tn_ended t) = (res, n)" by fastforce
  have count: "1 \<le> n \<and> n \<le> 3" using submit_from_spec [OF n [unfolded submit_result_with_retry_def]] by simp
  have "filter (\<lambda>e. \<exists>b. e = Submitted b) beat = []" "filter (\<lambda>e. \<exists>b. e = Submitted b) evo = []"
    using quiet by (auto simp: filter_empty_conv)
  then have "filter (\<lambda>e. \<exists>b. e = Submitted b) ev = replicate n (Submitted ?b)"
    using n by (simp add: ev submissions_def filter_replicate)
  moreover have "\<forall>e \<in> set ev. \<not> executes e"
    using heartbeat_no_execution [OF h] obtain_no_execution [OF o'] submissions_no_execution [of _ ?b t] by (auto simp: ev)
  ultimately show ?thesis using count ev st1 by auto
qed

section \<open>A dropped job\<close>

text \<open>
  What an acknowledgement that fails costs.  When the stream delivers a notification, the API grants the claim and the
  acknowledgement fails, the turn has claimed the target (its lease now runs) but neither executes nor
  reports it: until the lease has expired nobody works on it.
\<close>

theorem ack_failure_drops_job:
  assumes "rf_jetstream cfg" "tn_poll t = Delivered n nak_err (Some ack_err)"
    and "claim_job_for_target (tn_claim t (nt_target n)) = Inr (Some j)"
    and "runner_turn hmac redact sign_text cfg files t st = (st', ev)"
  shows "Claimed (nt_target n) \<in> set ev \<and> (\<forall>e \<in> set ev. \<not> executes e \<and> (\<nexists>b. e = Submitted b)) \<and> st' \<noteq> None"
proof -
  obtain st1 beat where h: "heartbeat_step cfg (tn_now t) st = (st1, beat)" by fastforce
  have "obtain_job cfg (tn_poll t) (tn_claim t) = (None, [Claimed (nt_target n), Acked])"
    using assms(1-3) by (simp add: obtain_job_def claim_notification_def)
  then have "ev = beat @ [Claimed (nt_target n), Acked]" "st' = Some st1" using assms(4) h by (simp_all add: runner_turn_def)
  moreover have "\<forall>e \<in> set beat. \<exists>b. e = Heartbeat b" using h by (auto simp: heartbeat_step_def split: if_splits)
  ultimately show ?thesis by auto
qed

section \<open>Witnesses\<close>

definition sample_signing_key :: string where "sample_signing_key = ''0123456789abcdef0123456789abcdef''"

definition sample_hmac :: "string \<Rightarrow> string \<Rightarrow> string" where "sample_hmac k m = k @ m"

definition unsigned_job :: job where
  "unsigned_job = \<lparr>jb_target = ''t1'', jb_execution = ''e1'', jb_command = ''uptime'', jb_host = ''10.0.0.5'', jb_port = 22,
     jb_user = ''deploy'', jb_credential_ref = ''web'', jb_host_key = ''SHA256:a2V5'', jb_timeout = 300, jb_lease = ''l1'',
     jb_runner = ''r1'', jb_expires = 1300, jb_signature = ''v1:AAAA''\<rparr>"

definition signed_job :: job where
  "signed_job = unsigned_job\<lparr>jb_signature := sig_version @ CHR '':'' # b64_encode (sample_hmac sample_signing_key (canonical (claims_of unsigned_job)))\<rparr>"

definition job_json :: "job \<Rightarrow> json" where
  "job_json j = JObj
     [(''target_id'', JStr (jb_target j)), (''execution_id'', JStr (jb_execution j)), (''command'', JStr (jb_command j)),
      (''host'', JStr (jb_host j)), (''port'', JInt (jb_port j)), (''user'', JStr (jb_user j)),
      (''credential_ref'', JStr (jb_credential_ref j)), (''host_key_fingerprint'', JStr (jb_host_key j)),
      (''timeout'', JInt (jb_timeout j)), (''lease_id'', JStr (jb_lease j)), (''runner_id'', JStr (jb_runner j)),
      (''expires_at_unix'', JInt (jb_expires j)), (''signature'', JStr (jb_signature j))]"

definition sample_config_of :: "bool \<Rightarrow> runner_config" where
  "sample_config_of jetstream = \<lparr>rf_id = ''r1'', rf_hostname = ''host'', rf_key = sample_signing_key, rf_simulate = False,
     rf_host = ''localhost'', rf_port = ''2222'', rf_user = ''svrtools'', rf_keystore = ''/etc/keys'', rf_jetstream = jetstream\<rparr>"

definition sample_turn :: "job \<Rightarrow> poll \<Rightarrow> string turn" where
  "sample_turn j p = \<lparr>tn_now = 0, tn_poll = p, tn_claim = (\<lambda>_. Reply 200 (Some (job_json j))), tn_verify_at = 1200,
     tn_library = sample_library, tn_elapsed = 3, tn_completed_at = 1201, tn_replies = (\<lambda>_. Reply 200 None), tn_ended = (\<lambda>_. None)\<rparr>"

definition sample_runner_state :: runner_state where
  "sample_runner_state = \<lparr>rs_token = ''tok'', rs_claimed = 0, rs_completed = 0, rs_rejected = 0, rs_last_completion = 0,
     rs_heartbeat_at = 0\<rparr>"

lemma decode_job_json: "decode_job (job_json j) = Some j"
  by (cases j) (simp add: job_json_def decode_job_def str_field_def int_field_def)

lemma sample_obtains: "jb_execution j \<noteq> [] \<Longrightarrow> obtain_job (sample_config_of False) p (tn_claim (sample_turn j p)) = (Some j, [Claimed []])"
  by (simp add: obtain_job_def sample_config_of_def sample_turn_def claim_job_for_target_def decode_job_json)

lemma signed_verifies: "verify sample_hmac (Some sample_signing_key) (claims_of signed_job) (jb_signature signed_job) 1200 = None"
proof -
  have c: "claims_of signed_job = claims_of unsigned_job" by (simp add: claims_of_def signed_job_def)
  have "verify sample_hmac (Some sample_signing_key) (claims_of unsigned_job)
      (sig_version @ CHR '':'' # b64_encode (sample_hmac sample_signing_key (canonical (claims_of unsigned_job)))) 1200 = None"
    by (subst verify_own_signature) (simp_all add: sample_hmac_def sample_signing_key_def claims_of_def unsigned_job_def)
  then show ?thesis by (simp add: c) (simp add: signed_job_def)
qed

lemma sample_run_events:
  "\<exists>res. execute_job (sample_config_of False) sample_files signed_job (sample_turn signed_job p)
     = (Some res, [Ssh (Dialled ''10.0.0.5:22'' ''deploy''), Ssh (CommandSent ''key'' ''uptime'')])"
proof -
  let ?c = "\<lparr>cr_private_key = ''PEM'', cr_passphrase = ''secret'', cr_password = []\<rparr>"
  let ?x = "\<lparr>xe_addr = ''10.0.0.5:22'', xe_user = ''deploy'', xe_credential = ?c, xe_pin = ''SHA256:a2V5''\<rparr>"
  have cred: "fst (resolve_reference ''/etc/keys'' sample_files ''web'') = Inr ?c" by code_simp
  have exec: "new_executor sample_library ''10.0.0.5:22'' ''deploy'' ?c ''SHA256:a2V5'' = Inr ?x" by code_simp
  have port: "int_str 22 = ''22''" by code_simp
  have m: "auth_methods sample_library ?c = Inr [PublicKeys ''PEM'']" by code_simp
  have dial: "sx_dial sample_library ''10.0.0.5:22'' ''deploy'' [PublicKeys ''PEM''] (host_key_callback sample_library ''SHA256:a2V5'')
      = Inr ''key''" by code_simp
  have "\<exists>res. ssh_run sample_library ?x 3 ''uptime'' = (Some res, [Dialled ''10.0.0.5:22'' ''deploy'', CommandSent ''key'' ''uptime''])"
    using m dial by (simp add: ssh_run_def) (simp add: run_session_def read_limited_def sample_library_def)
  then show ?thesis
    using cred exec port
    by (auto simp: execute_job_def run_target_def sample_config_of_def sample_turn_def signed_job_def unsigned_job_def)
qed


theorem unverified_job_refused_witness:
  "\<exists>ev. ev = snd (runner_turn sample_hmac (\<lambda>s. s) (\<lambda>_. []) (sample_config_of False) sample_files (sample_turn unsigned_job NoMessage) sample_runner_state)
     \<and> Refused ErrMismatch \<in> set ev \<and> (\<forall>e \<in> set ev. \<not> executes e)"
proof -
  let ?t = "sample_turn unsigned_job NoMessage"
  obtain st' ev where r: "runner_turn sample_hmac (\<lambda>s. s) (\<lambda>_. []) (sample_config_of False) sample_files ?t sample_runner_state = (st', ev)"
    by fastforce
  have j: "fst (obtain_job (sample_config_of False) (tn_poll ?t) (tn_claim ?t)) = Some unsigned_job"
    using sample_obtains [of unsigned_job NoMessage] by (simp add: sample_turn_def unsigned_job_def)
  have v: "verify sample_hmac (Some (rf_key (sample_config_of False))) (claims_of unsigned_job) (jb_signature unsigned_job) (tn_verify_at ?t)
      = Some ErrMismatch"
    by code_simp
  show ?thesis using unverified_job_refused [OF j v r] r by auto
qed

theorem ack_failure_drops_job_witness:
  "Claimed ''t1'' \<in> set (snd (runner_turn sample_hmac (\<lambda>s. s) (\<lambda>_. []) (sample_config_of True) sample_files
     (sample_turn signed_job (Delivered \<lparr>nt_version = 1, nt_kind = notification_kind, nt_target = ''t1'', nt_exec = ''e1'', nt_attempt = 0\<rparr>
        None (Some ''timeout''))) sample_runner_state))"
proof -
  let ?n = "\<lparr>nt_version = 1, nt_kind = notification_kind, nt_target = ''t1'', nt_exec = ''e1'', nt_attempt = 0\<rparr>"
  let ?t = "sample_turn signed_job (Delivered ?n None (Some ''timeout''))"
  obtain st' ev where r: "runner_turn sample_hmac (\<lambda>s. s) (\<lambda>_. []) (sample_config_of True) sample_files ?t sample_runner_state = (st', ev)"
    by fastforce
  have c: "claim_job_for_target (tn_claim ?t (nt_target ?n)) = Inr (Some signed_job)"
    by (simp add: sample_turn_def claim_job_for_target_def decode_job_json) (simp add: signed_job_def unsigned_job_def)
  have p: "rf_jetstream (sample_config_of True)" "tn_poll ?t = Delivered ?n None (Some ''timeout'')"
    by (simp_all add: sample_config_of_def sample_turn_def)
  have "Claimed (nt_target ?n) \<in> set ev" using ack_failure_drops_job [OF p c r] by blast
  then show ?thesis unfolding r by simp
qed

end
