(* ===== verification/EndToEnd.thy ===== *)
theory EndToEnd
  imports RunnerProcProps QueueProps
begin

text \<open>
  The two programs together: what a runner process does with the answer the control plane gives to its claim, and
  the result it sends back.
\<close>

section \<open>Messages\<close>

lemma insert_key_set: "set (insert_key kv kvs) = insert kv (set kvs)"
  by (induction kvs) auto

lemma insert_key_distinct: "distinct (map fst (insert_key kv kvs)) \<longleftrightarrow> fst kv \<notin> fst ` set kvs \<and> distinct (map fst kvs)"
  by (induction kvs) (auto simp: insert_key_set)

lemma jmap_keys:
  "set (foldr insert_key kvs []) = set kvs" "distinct (map fst (foldr insert_key kvs [])) = distinct (map fst kvs)"
  by (induction kvs) (auto simp: insert_key_set insert_key_distinct)

text \<open>Reading a field of an object gives what was written for it.\<close>

lemma jmap_field: "distinct (map fst kvs) \<Longrightarrow> map_of (rev (foldr insert_key kvs [])) = map_of kvs"
proof -
  assume d: "distinct (map fst kvs)"
  have "distinct (map fst (rev (foldr insert_key kvs [])))" using d by (simp add: rev_map [symmetric] jmap_keys(2))
  moreover have "set (rev (foldr insert_key kvs [])) = set kvs" by (simp add: jmap_keys(1))
  ultimately show ?thesis using d by (metis map_of_inject_set)
qed

definition str_of :: "json option \<Rightarrow> string option" where
  "str_of v = (case v of None \<Rightarrow> Some [] | Some JNull \<Rightarrow> Some [] | Some (JStr s) \<Rightarrow> Some s | Some _ \<Rightarrow> None)"

definition int_of_json :: "json option \<Rightarrow> int option" where
  "int_of_json v = (case v of None \<Rightarrow> Some 0 | Some JNull \<Rightarrow> Some 0 | Some (JInt n) \<Rightarrow> Some n | Some _ \<Rightarrow> None)"

lemma jmap_str_field: "distinct (map fst kvs) \<Longrightarrow> str_field (foldr insert_key kvs []) k = str_of (map_of kvs k)"
  and jmap_int_field: "distinct (map fst kvs) \<Longrightarrow> int_field (foldr insert_key kvs []) k = int_of_json (map_of kvs k)"
  by (simp_all add: str_field_def int_field_def jmap_field str_of_def int_of_json_def)

lemma of_json [simp]: "str_of (Some (JStr s)) = Some s" "int_of_json (Some (JInt n)) = Some n"
  by (simp_all add: str_of_def int_of_json_def)

definition job_of :: "claims \<Rightarrow> string \<Rightarrow> job" where
  "job_of c sg = \<lparr>jb_target = cl_target_id c, jb_execution = cl_execution_id c, jb_command = cl_command c, jb_host = cl_host c,
     jb_port = cl_port c, jb_user = cl_user c, jb_credential_ref = cl_credential_ref c,
     jb_host_key = cl_host_key_fingerprint c, jb_timeout = cl_timeout c, jb_lease = cl_lease_id c,
     jb_runner = cl_runner_id c, jb_expires = cl_expires_at_unix c, jb_signature = sg\<rparr>"

lemma claims_of_job_of [simp]: "claims_of (job_of c sg) = c"
  by (simp add: claims_of_def job_of_def)

lemma job_of_sel [simp]:
  "jb_signature (job_of c sg) = sg" "jb_execution (job_of c sg) = cl_execution_id c" "jb_target (job_of c sg) = cl_target_id c"
  "jb_lease (job_of c sg) = cl_lease_id c" "jb_command (job_of c sg) = cl_command c"
  "jb_host_key (job_of c sg) = cl_host_key_fingerprint c" "jb_credential_ref (job_of c sg) = cl_credential_ref c"
  by (simp_all add: job_of_def)

lemma decode_jmap_job:
  assumes "distinct (map fst kvs)"
    and "map (\<lambda>k. str_of (map_of kvs k)) [''target_id'', ''execution_id'', ''command'', ''host'', ''user'',
      ''credential_ref'', ''host_key_fingerprint'', ''lease_id'', ''runner_id'', ''signature'']
      = map Some [jb_target j, jb_execution j, jb_command j, jb_host j, jb_user j, jb_credential_ref j, jb_host_key j,
          jb_lease j, jb_runner j, jb_signature j]"
    and "map (\<lambda>k. int_of_json (map_of kvs k)) [''port'', ''timeout'', ''expires_at_unix'']
      = map Some [jb_port j, jb_timeout j, jb_expires j]"
  shows "decode_job (jmap kvs) = Some j"
  using assms(2,3) by (simp add: decode_job_def jmap_def jmap_str_field [OF assms(1)] jmap_int_field [OF assms(1)])

lemma decode_claim_response:
  assumes "resp_body (claim_response c sg) = JsonBody v"
  shows "decode_job v = Some (job_of c sg)"
proof -
  let ?kvs = "[(''target_id'', JStr (cl_target_id c)), (''execution_id'', JStr (cl_execution_id c)),
      (''command'', JStr (cl_command c)), (''host'', JStr (cl_host c)), (''port'', JInt (cl_port c)),
      (''user'', JStr (cl_user c)), (''credential_ref'', JStr (cl_credential_ref c)),
      (''host_key_fingerprint'', JStr (cl_host_key_fingerprint c)), (''timeout'', JInt (cl_timeout c)),
      (''lease_id'', JStr (cl_lease_id c)), (''runner_id'', JStr (cl_runner_id c)),
      (''expires_at_unix'', JInt (cl_expires_at_unix c)), (''signature'', JStr sg)]"
  have "v = jmap ?kvs" using assms by (simp only: claim_response_def reply_def resp.sel body.inject)
  moreover have "decode_job (jmap ?kvs) = Some (job_of c sg)"
    by (rule decode_jmap_job) (simp_all add: job_of_def)
  ultimately show ?thesis by simp
qed

text \<open>The body of a result as the API decodes it.\<close>

definition decode_result :: "json \<Rightarrow> submit_req option" where
  "decode_result v =
     (case v of
        JObj kvs \<Rightarrow>
          (case (all_some (map (str_field kvs) [''execution_id'', ''target_id'', ''runner_id'', ''lease_id'', ''stdout'',
                   ''stderr'', ''error'']), all_some (map (int_field kvs) [''exit_code'', ''duration_ms''])) of
             (Some [x, t, r, l, out, errs, e], Some [n, dur]) \<Rightarrow>
               Some \<lparr>sb_exec = x, sb_target = t, sb_runner = r, sb_lease = l, sb_exit_code = n, sb_stdout = out,
                     sb_stderr = errs, sb_error = e, sb_duration = dur\<rparr>
           | _ \<Rightarrow> None)
      | _ \<Rightarrow> None)"

lemma decode_result_body:
  "decode_result (result_body redact rid j res) = Some
     \<lparr>sb_exec = jb_execution j, sb_target = jb_target j, sb_runner = rid, sb_lease = jb_lease j, sb_exit_code = xr_exit res,
      sb_stdout = redact (xr_stdout res), sb_stderr = redact (xr_stderr res), sb_error = xr_error res,
      sb_duration = xr_duration res\<rparr>"
proof -
  let ?kvs = "[(''runner_id'', JStr rid), (''target_id'', JStr (jb_target j)), (''execution_id'', JStr (jb_execution j)),
      (''lease_id'', JStr (jb_lease j)), (''exit_code'', JInt (xr_exit res)), (''stdout'', JStr (redact (xr_stdout res))),
      (''stderr'', JStr (redact (xr_stderr res))), (''error'', JStr (xr_error res)), (''duration_ms'', JInt (xr_duration res))]"
  have d: "distinct (map fst ?kvs)" by simp
  have "map (\<lambda>k. str_of (map_of ?kvs k)) [''execution_id'', ''target_id'', ''runner_id'', ''lease_id'', ''stdout'', ''stderr'', ''error'']
      = map Some [jb_execution j, jb_target j, rid, jb_lease j, redact (xr_stdout res), redact (xr_stderr res), xr_error res]"
    "map (\<lambda>k. int_of_json (map_of ?kvs k)) [''exit_code'', ''duration_ms''] = map Some [xr_exit res, xr_duration res]"
    by simp_all
  then show ?thesis
    unfolding result_body_def jmap_def decode_result_def json.case jmap_str_field [OF d] jmap_int_field [OF d]
    by (simp only: list.map all_some.simps option.map prod.case option.case list.case)
qed

section \<open>From the queue to the host and back\<close>

lemma claim_command_started [simp]: "claim_command (start_execution_row env e) = claim_command e"
  by (simp add: claim_command_def start_execution_row_def)

text \<open>
  C3: a job from end to end.  A runner that holds the control plane's key claims over HTTP and the claim is answered 200.
  Then there is one target, now running under this runner and its new lease, of an active execution, on a server of the inventory, such
  that, within five minutes and with an SSH library that checks host keys, the turn that reads this answer does not
  refuse the job; a command it sends is the execution's command, to a host with the server's
  pinned key, by the server's credential; and every result it posts is decoded by the API as a result that holds the
  lease of exactly this target.
\<close>

theorem dispatch_end_to_end:
  assumes "queue_ok d" "handle_claim_job env token rid [] (d, th) = (r, d', th')" "resp_code r = 200"
    and "new_signer k = Inr key" "signer_key env = Some key" "\<forall>m. mac env key m \<noteq> []"
    and "rf_key cfg = key" "rf_id cfg = rid" "\<not> rf_jetstream cfg"
    and "resp_body r = JsonBody v" "tn_claim t [] = Reply 200 (Some v)" "tn_verify_at t \<le> go_now env + 300"
    and "dial_checks (tn_library t)" "runner_turn (mac env) redact sign_text cfg files t st = (st', ev)"
  shows "\<exists>tg x s. tg \<in> set (execution_targets d') \<and> et_status tg = TRunning \<and> et_runner tg = Some rid
    \<and> x \<in> set (executions d') \<and> ex_id x = et_exec tg \<and> ex_status x = ERunning
    \<and> s \<in> set (servers d') \<and> sv_id s = et_server tg
    \<and> (ex_id x \<noteq> [] \<longrightarrow> (\<forall>e. Refused e \<notin> set ev)
        \<and> (\<forall>key' cmd. Ssh (CommandSent key' cmd) \<in> set ev \<longrightarrow> cmd = claim_command x
             \<and> fingerprint_sha256 (tn_library t) key' = trim_space (or_empty (sv_host_key s))
             \<and> (\<exists>c. fst (resolve_reference (rf_keystore cfg) files (or_empty (sv_credential_ref s))) = Inr c))
        \<and> (\<forall>b. Submitted b \<in> set ev \<longrightarrow> (\<exists>q. decode_result b = Some q \<and> holds_lease q tg)))"
  using assms(2)
proof (cases rule: claim_cases)
  case (Claimed org d1 t0 e s)
  let ?lease = "''lease_'' @ short_id env ''claim.lease'' 0"
  let ?c = "claim_claims rid ?lease (go_now env + 5 * 60) t0 e s"
  let ?tg = "claim_row env rid ?lease (go_now env + 5 * 60) t0"
  let ?x = "start_execution_row env e"
  have ok: "queue_ok d1" using assms(1) Claimed(2) reconcile_inv by blast
  note m = claim_candidates_mem [OF Claimed(3)]
  have tg: "?tg \<in> set (execution_targets d')"
    using claim_row_tx_shape [OF Claimed(4)] claim_update_one [OF ok Claimed(3)] m by (auto simp: set_update_where)
  have x: "?x \<in> set (executions d')" using claim_row_tx_shape [OF Claimed(4)] m by (auto simp: set_update_where)
  have s: "s \<in> set (servers d')" using claim_row_tx_shape [OF Claimed(4)] m by auto
  obtain sg where sg: "sign (mac env) (Some key) ?c = Inr sg" "r = claim_response ?c sg"
    using Claimed(5) assms(3,5) by (auto split: sum.splits)
  let ?j = "job_of ?c sg"
  have exp: "cl_expires_at_unix ?c = go_now env + 300" by (simp add: claim_claims_def)
  have ver: "verify (mac env) (Some (rf_key cfg)) (claims_of ?j) (jb_signature ?j) (tn_verify_at t) = None"
    using sign_verify_lemma [where mac = "mac env" and key = key, OF assms(4,6), of ?c "tn_verify_at t"] sg(1) assms(7,12)
    unfolding claims_of_job_of job_of_sel exp by auto
  show ?thesis
  proof (intro exI [of _ ?tg] exI [of _ ?x] exI [of _ s] conjI impI)
    assume id: "ex_id ?x \<noteq> []"
    have dec: "decode_job v = Some ?j" using decode_claim_response assms(10) sg(2) by blast
    have claim: "claim_job_for_target (tn_claim t []) = Inr (Some ?j)"
      using dec id assms(11) by (simp add: claim_job_for_target_def claim_claims_def)
    then have job: "obtain_job cfg (tn_poll t) (tn_claim t) = (Some ?j, [Claimed []])"
      using assms(9) by (simp add: obtain_job_def)
    obtain st1 beat where h: "heartbeat_step cfg (tn_now t) st = (st1, beat)" by fastforce
    obtain res evx where ex: "execute_job cfg files ?j t = (res, evx)" by fastforce
    obtain body where ev: "ev = beat @ [Claimed []] @ evx
        \<or> ev = beat @ [Claimed []] @ evx @ submissions (result_body redact rid ?j body) t"
      using assms(8,14) h job ver ex by (cases res) (auto simp: runner_turn_def process_job_def)
    have beat: "\<forall>e \<in> set beat. \<exists>b. e = Heartbeat b" using h by (auto simp: heartbeat_step_def split: if_splits)
    have evx: "\<forall>e \<in> set evx. executes e"
      using ex by (auto simp: execute_job_def split: if_splits prod.splits)
    show "\<forall>e. Refused e \<notin> set ev"
      using ev beat evx by (fastforce simp: submissions_def)
    show "\<forall>key' cmd. Ssh (CommandSent key' cmd) \<in> set ev \<longrightarrow> cmd = claim_command ?x
             \<and> fingerprint_sha256 (tn_library t) key' = trim_space (or_empty (sv_host_key s))
             \<and> (\<exists>c. fst (resolve_reference (rf_keystore cfg) files (or_empty (sv_credential_ref s))) = Inr c)"
    proof (intro allI impI)
      fix key' cmd
      assume "Ssh (CommandSent key' cmd) \<in> set ev"
      then have mem: "Ssh (CommandSent key' cmd) \<in> set evx" using ev beat by (auto simp: submissions_def)
      have "jb_command ?j = claim_command ?x" "jb_host_key ?j = or_empty (sv_host_key s)"
          "jb_credential_ref ?j = or_empty (sv_credential_ref s)"
        by (simp_all add: claim_claims_def)
      then show "cmd = claim_command ?x
             \<and> fingerprint_sha256 (tn_library t) key' = trim_space (or_empty (sv_host_key s))
             \<and> (\<exists>c. fst (resolve_reference (rf_keystore cfg) files (or_empty (sv_credential_ref s))) = Inr c)"
        using execute_events [OF ex mem assms(13)] by (simp split: if_splits)
    qed
    show "\<forall>b. Submitted b \<in> set ev \<longrightarrow> (\<exists>q. decode_result b = Some q \<and> holds_lease q ?tg)"
    proof (intro allI impI)
      fix b
      assume "Submitted b \<in> set ev"
      then have b: "b = result_body redact rid ?j body" using ev beat evx by (fastforce simp: submissions_def)
      show "\<exists>q. decode_result b = Some q \<and> holds_lease q ?tg"
        unfolding b decode_result_body using m by (simp add: holds_lease_def claim_claims_def)
    qed
  qed (use tg x s m in simp_all)
qed (use assms(3) in auto)

text \<open>The claim of the sample, read by a simulating runner with the control plane's key.\<close>

theorem dispatch_end_to_end_witness:
  "\<exists>(cfg :: runner_config) (t :: string turn) ev. ev = snd (runner_turn (mac sample_env) (\<lambda>s. s) (\<lambda>_. []) cfg sample_files t sample_runner_state)
     \<and> tn_claim t [] = Reply 200 (case resp_body (fst (handle_claim_job sample_env ''secret'' ''r1'' [] (sample_db, Map.empty))) of
          JsonBody v \<Rightarrow> Some v | RawBody _ \<Rightarrow> None)
     \<and> (\<forall>e. Refused e \<notin> set ev)"
proof -
  obtain sg where h: "handle_claim_job sample_env ''secret'' ''r1'' [] (sample_db, Map.empty)
     = (claim_response sample_claims_granted sg, sample_claimed, [''org-1'' \<mapsto> 1000])"
    using sample_claim by blast
  obtain v where v: "resp_body (claim_response sample_claims_granted sg) = JsonBody v"
    by (simp add: claim_response_def reply_def)
  let ?cfg = "(sample_config_of False)\<lparr>rf_key := sample_key, rf_simulate := True\<rparr>"
  let ?t = "(sample_turn signed_job NoMessage)\<lparr>tn_claim := \<lambda>_. Reply 200 (Some v)\<rparr>"
  obtain st' ev where r: "runner_turn (mac sample_env) (\<lambda>s. s) (\<lambda>_. []) ?cfg sample_files ?t sample_runner_state = (st', ev)"
    by fastforce
  have k: "new_signer sample_key = Inr sample_key" "\<forall>m. mac sample_env sample_key m \<noteq> []"
    by code_simp (simp add: sample_key_def)
  have cfg: "rf_key ?cfg = sample_key" "rf_id ?cfg = ''r1''" "\<not> rf_jetstream ?cfg" by (simp_all add: sample_config_of_def)
  have t: "tn_claim ?t [] = Reply 200 (Some v)" "tn_verify_at ?t \<le> go_now sample_env + 300" "dial_checks (tn_library ?t)"
    using sample_library_checks by (simp_all add: sample_turn_def)
  have s: "signer_key sample_env = Some sample_key" by simp
  obtain x where x: "x \<in> set (executions sample_claimed)" "ex_id x \<noteq> [] \<longrightarrow> (\<forall>e. Refused e \<notin> set ev)"
    using dispatch_end_to_end [OF sample_db_ok h claim_response_code k(1) s k(2) cfg v t r] by blast
  have "ex_id x = ''e1''" using x(1) by (simp add: sample_execution_def)
  then have accepted: "\<forall>e. Refused e \<notin> set ev" using x(2) by simp
  have events: "ev = snd (runner_turn (mac sample_env) (\<lambda>s. s) (\<lambda>_. []) ?cfg sample_files ?t sample_runner_state)"
    by (simp only: r snd_conv)
  have answer: "tn_claim ?t [] = Reply 200 (case resp_body (fst (handle_claim_job sample_env ''secret'' ''r1'' [] (sample_db, Map.empty))) of
          JsonBody v \<Rightarrow> Some v | RawBody _ \<Rightarrow> None)"
    by (simp only: h fst_conv v body.case t(1))
  show ?thesis
    by (rule exI [of _ ?cfg], rule exI [of _ ?t], rule exI [of _ ev], rule conjI [OF events conjI [OF answer accepted]])
qed

end
