(* ===== verification/Artifacts.thy ===== *)
theory Artifacts
  imports Sshx Dispatch
begin

text \<open>
  \<open>packages/artifacts/store.go\<close>: the two artifact stores, encrypted files in a directory and objects of an S3-compatible
  service.  The file system of the local store is a map from paths to bytes, \<open>disk_io\<close> says for one call which system
  calls fail and what its random sources give.  The service is a function \<open>'s \<Rightarrow> s3_request \<Rightarrow> s3_outcome \<times> 's\<close>.
  AES-GCM and SHA-256 are parameters (\<open>crypto\<close>).
\<close>

section \<open>Identifiers, metadata and errors\<close>

text \<open>\<open>MissingObject\<close> is an error that wraps \<open>ErrNotFound\<close>.\<close>

datatype store_error = MissingObject string | StoreError string

record artifact_meta =
  md_id :: string
  md_type :: string
  md_size :: int
  md_sha :: string

definition validate_artifact_id :: "string \<Rightarrow> store_error option" where
  "validate_artifact_id i =
     (if i = [] then Some (StoreError ''artifact id is required'')
      else if has_prefix i ''/'' \<or> (\<exists>c \<in> set i. c \<in> {CHR 0x5C, CHR 0x00, CHR 0x0D, CHR 0x0A, CHR ''?'', CHR ''#'', CHR ''%''})
      then Some (StoreError ''invalid artifact id'')
      else if \<exists>part \<in> set (split_on (CHR ''/'') i). part = [] \<or> part = ''.'' \<or> part = ''..''
      then Some (StoreError ''invalid artifact id'')
      else None)"

text \<open>\<open>cy_seal key nonce data ad\<close>, \<open>cy_open key nonce ciphertext ad\<close>: AES-GCM; \<open>cy_sum\<close>: SHA-256 in hexadecimal.\<close>

record crypto =
  cy_sum :: "string \<Rightarrow> string"
  cy_seal :: "string \<Rightarrow> string \<Rightarrow> string \<Rightarrow> string \<Rightarrow> string"
  cy_open :: "string \<Rightarrow> string \<Rightarrow> string \<Rightarrow> string \<Rightarrow> string option"

definition nonce_size :: nat where "nonce_size = 12"

definition metadata_for :: "crypto \<Rightarrow> string \<Rightarrow> string \<Rightarrow> string \<Rightarrow> artifact_meta" where
  "metadata_for cy i content_type data =
     \<lparr>md_id = i, md_type = content_type, md_size = int (length data), md_sha = cy_sum cy data\<rparr>"

definition sealed :: "crypto \<Rightarrow> string \<Rightarrow> string \<Rightarrow> string \<Rightarrow> string \<Rightarrow> string" where
  "sealed cy key nonce i data = nonce @ cy_seal cy key nonce data i"

definition unsealed :: "crypto \<Rightarrow> string \<Rightarrow> string \<Rightarrow> string \<Rightarrow> store_error + string" where
  "unsealed cy key i contents =
     (if length contents < nonce_size then Inl (StoreError ''invalid encrypted artifact'')
      else case cy_open cy key (take nonce_size contents) (drop nonce_size contents) i of
          None \<Rightarrow> Inl (StoreError ''artifact authentication failed'')
        | Some data \<Rightarrow> Inr data)"

section \<open>The local store\<close>

type_synonym fs = "string \<Rightarrow> string option"

text \<open>
  One call: the error of each system call by name, the number of bytes a failing write leaves, the digits of the
  temporary name, the random bytes of a nonce and of a key.
\<close>

record disk_io =
  io_fault :: "string \<Rightarrow> string option"
  io_short :: nat
  io_temp :: nat
  io_nonce :: string
  io_key :: string

record local_store =
  ls_root :: string
  ls_key :: string

definition dir_name :: "string \<Rightarrow> string" where
  "dir_name p = clean_path (rev (dropWhile (\<lambda>c. c \<noteq> CHR ''/'') (rev p)))"

definition temp_path :: "disk_io \<Rightarrow> string \<Rightarrow> string" where
  "temp_path io path = join_path (dir_name path) (''.artifact-'' @ nat_str (io_temp io))"

text \<open>
  The error, if any, and the states the file system goes through, the last one is what it leaves.  The deferred removal of
  the temporary file may itself fail, unseen.
\<close>

definition write_atomic :: "disk_io \<Rightarrow> string \<Rightarrow> string \<Rightarrow> fs \<Rightarrow> string option \<times> fs list" where
  "write_atomic io path data fs =
     (let tmp = temp_path io path;
          clean = (\<lambda>g :: fs. if io_fault io ''remove'' = None then g(tmp := None) else g);
          opened = fs(tmp \<mapsto> []);
          short = fs(tmp \<mapsto> take (io_short io) data);
          written = fs(tmp \<mapsto> data)
      in case io_fault io ''create'' of Some e \<Rightarrow> (Some e, [fs])
         | None \<Rightarrow> (case io_fault io ''chmod'' of Some e \<Rightarrow> (Some e, [fs, opened, clean opened])
         | None \<Rightarrow> (case io_fault io ''write'' of Some e \<Rightarrow> (Some e, [fs, opened, short, clean short])
         | None \<Rightarrow> (case io_fault io ''sync'' of Some e \<Rightarrow> (Some e, [fs, opened, written, clean written])
         | None \<Rightarrow> (case io_fault io ''close'' of Some e \<Rightarrow> (Some e, [fs, opened, written, clean written])
         | None \<Rightarrow> (case io_fault io ''rename'' of Some e \<Rightarrow> (Some e, [fs, opened, written, clean written])
         | None \<Rightarrow> (None, [fs, opened, written, (written(path \<mapsto> data))(tmp := None)])))))))"

definition read_file :: "disk_io \<Rightarrow> fs \<Rightarrow> string \<Rightarrow> file_read" where
  "read_file io fs path =
     (case io_fault io ''read'' of
        Some e \<Rightarrow> ReadError e
      | None \<Rightarrow> (case fs path of None \<Rightarrow> NotExist | Some b \<Rightarrow> FileBytes b))"

text \<open>\<open>base64.RawStdEncoding.DecodeString\<close>.\<close>

definition b64_std_decode :: "string \<Rightarrow> string option" where
  "b64_std_decode s =
     (if \<exists>c \<in> set s. c = CHR ''-'' \<or> c = CHR ''_'' then None
      else b64_decode (map (\<lambda>c. if c = CHR ''+'' then CHR ''-'' else if c = CHR ''/'' then CHR ''_'' else c) s))"

definition load_key :: "disk_io \<Rightarrow> string \<Rightarrow> fs \<Rightarrow> (string + string) \<times> fs" where
  "load_key io root fs =
     (let key_path = join_path root ''.key''
      in case read_file io fs key_path of
           FileBytes b \<Rightarrow> (Inr b, fs)
         | ReadError e \<Rightarrow> (Inl (''read artifact key: '' @ e), fs)
         | NotExist \<Rightarrow>
             (case io_fault io ''random'' of
                Some e \<Rightarrow> (Inl (''generate artifact key: '' @ e), fs)
              | None \<Rightarrow>
                  (case write_atomic io key_path (io_key io) fs of
                     (Some e, states) \<Rightarrow> (Inl (''persist artifact key: '' @ e), last states)
                   | (None, states) \<Rightarrow> (Inr (io_key io), last states))))"

definition new_local_store :: "disk_io \<Rightarrow> string \<Rightarrow> string \<Rightarrow> fs \<Rightarrow> (string + local_store) \<times> fs" where
  "new_local_store io root key fs =
     (if root = [] \<or> root = ''.'' then (Inl ''artifact directory must be a dedicated directory'', fs)
      else case io_fault io ''mkdir'' of
          Some e \<Rightarrow> (Inl (''create artifact directory: '' @ e), fs)
        | None \<Rightarrow>
            let (loaded, fs1) = (if key = [] then (case load_key io root fs of (k, g) \<Rightarrow> (map_sum id b64_std k, g)) else (Inr key, fs))
            in case loaded of
                 Inl e \<Rightarrow> (Inl e, fs1)
               | Inr text \<Rightarrow>
                   (case b64_std_decode text of
                      None \<Rightarrow> (Inl ''ARTIFACT_ENCRYPTION_KEY must be a base64-encoded 32-byte key'', fs1)
                    | Some decoded \<Rightarrow>
                        if length decoded \<noteq> 32
                        then (Inl ''ARTIFACT_ENCRYPTION_KEY must be a base64-encoded 32-byte key'', fs1)
                        else (Inr \<lparr>ls_root = root, ls_key = decoded\<rparr>, fs1)))"

definition local_path :: "local_store \<Rightarrow> string \<Rightarrow> string" where
  "local_path st i = join_path (ls_root st) (base_name i @ ''.bin'')"

definition local_put ::
  "crypto \<Rightarrow> local_store \<Rightarrow> disk_io \<Rightarrow> string \<Rightarrow> string \<Rightarrow> string \<Rightarrow> fs \<Rightarrow> (store_error + artifact_meta) \<times> fs" where
  "local_put cy st io i content_type data fs =
     (case validate_artifact_id i of
        Some e \<Rightarrow> (Inl e, fs)
      | None \<Rightarrow>
          (case io_fault io ''random'' of
             Some e \<Rightarrow> (Inl (StoreError e), fs)
           | None \<Rightarrow>
               (case write_atomic io (local_path st i) (sealed cy (ls_key st) (io_nonce io) i data) fs of
                  (Some e, states) \<Rightarrow> (Inl (StoreError e), last states)
                | (None, states) \<Rightarrow> (Inr (metadata_for cy i content_type data), last states))))"

text \<open>A file that is not there is an error of the file system, not \<open>ErrNotFound\<close>; the content type is not kept.\<close>

definition local_get ::
  "crypto \<Rightarrow> local_store \<Rightarrow> disk_io \<Rightarrow> string \<Rightarrow> fs \<Rightarrow> store_error + string \<times> artifact_meta" where
  "local_get cy st io i fs =
     (case validate_artifact_id i of
        Some e \<Rightarrow> Inl e
      | None \<Rightarrow>
          (case read_file io fs (local_path st i) of
             ReadError e \<Rightarrow> Inl (StoreError e)
           | NotExist \<Rightarrow> Inl (StoreError (''open '' @ local_path st i @ '': no such file or directory''))
           | FileBytes contents \<Rightarrow>
               (case unsealed cy (ls_key st) i contents of
                  Inl e \<Rightarrow> Inl e
                | Inr data \<Rightarrow> Inr (data, metadata_for cy i [] data))))"

definition local_delete :: "local_store \<Rightarrow> disk_io \<Rightarrow> string \<Rightarrow> fs \<Rightarrow> store_error option \<times> fs" where
  "local_delete st io i fs =
     (case validate_artifact_id i of
        Some e \<Rightarrow> (Some e, fs)
      | None \<Rightarrow>
          (case io_fault io ''unlink'' of
             Some e \<Rightarrow> (Some (StoreError e), fs)
           | None \<Rightarrow>
               (case fs (local_path st i) of
                  None \<Rightarrow> (Some (StoreError (''remove '' @ local_path st i @ '': no such file or directory'')), fs)
                | Some _ \<Rightarrow> (None, fs(local_path st i := None)))))"

text \<open>An entry of a directory, as \<open>os.ReadDir\<close> lists it.\<close>

datatype entry_kind = RegularFile | Directory | Symlink

definition artifact_name :: "string \<times> entry_kind \<Rightarrow> bool" where
  "artifact_name entry \<longleftrightarrow> snd entry \<noteq> Directory \<and> has_suffix (fst entry) ''.bin''"

definition entry_id :: "string \<times> entry_kind \<Rightarrow> string" where
  "entry_id entry = trim_suffix (fst entry) ''.bin''"

text \<open>\<open>Check\<close>: what \<open>Stat\<close> and \<open>ReadDir\<close> of the root give; the first artifact must be readable.\<close>

definition local_check ::
  "crypto \<Rightarrow> local_store \<Rightarrow> disk_io \<Rightarrow> bool \<Rightarrow> (string \<times> entry_kind) list \<Rightarrow> fs \<Rightarrow> string option" where
  "local_check cy st io is_dir entries fs =
     (case io_fault io ''stat'' of Some e \<Rightarrow> Some e
      | None \<Rightarrow>
          if \<not> is_dir then Some ''artifact path is not a directory''
          else case io_fault io ''readdir'' of Some e \<Rightarrow> Some e
             | None \<Rightarrow>
                 (case filter artifact_name entries of
                    [] \<Rightarrow> None
                  | entry # _ \<Rightarrow>
                      (case local_get cy st io (entry_id entry) fs of
                         Inl (MissingObject e) \<Rightarrow> Some (''read encrypted artifact '' @ entry_id entry @ '': '' @ e)
                       | Inl (StoreError e) \<Rightarrow> Some (''read encrypted artifact '' @ entry_id entry @ '': '' @ e)
                       | Inr _ \<Rightarrow> None)))"

section \<open>The S3 store\<close>

datatype s3_method = S3Put | S3Get | S3Delete | S3Head

record s3_request =
  rq_method :: s3_method
  rq_url :: string
  rq_headers :: "(string \<times> string) list"
  rq_body :: string

text \<open>
  No answer, or a status, headers and the bytes that could be read of the body with the error that ended the reading.
\<close>

datatype s3_outcome = S3Broken string | S3Answer nat "(string \<times> string) list" string "string option"

type_synonym 's s3_service = "'s \<Rightarrow> s3_request \<Rightarrow> s3_outcome \<times> 's"

text \<open>
  \<open>s3_key\<close> is the key of the client-side encryption.  The credentials only serve to sign requests, which is not modelled; times are
  nanoseconds.
\<close>

record s3_config =
  sc_endpoint :: string
  sc_bucket :: string
  sc_region :: string
  sc_prefix :: string
  sc_access_key :: string
  sc_secret_key :: string
  sc_session_token :: string
  sc_encryption_key :: string
  sc_sse :: string
  sc_kms :: string
  sc_timeout :: int
  sc_retries :: int
  sc_backoff :: int

record s3_store =
  s3_endpoint :: string
  s3_bucket :: string
  s3_region :: string
  s3_prefix :: string
  s3_access_key :: string
  s3_secret_key :: string
  s3_session_token :: string
  s3_timeout :: int
  s3_retries :: nat
  s3_backoff :: int
  s3_key :: "string option"
  s3_sse :: string
  s3_kms :: string

text \<open>\<open>base64.StdEncoding\<close>: padded to a multiple of four, line breaks skipped.\<close>

definition b64_padded_decode :: "string \<Rightarrow> string option" where
  "b64_padded_decode s =
     (let t = filter (\<lambda>c. code c \<noteq> 10 \<and> code c \<noteq> 13) s;
          body = trim_right_by (\<lambda>c. c = CHR ''='') t
      in if length t mod 4 \<noteq> 0 \<or> length t - length body > 2 then None else b64_std_decode body)"

definition encryption_key :: "string \<Rightarrow> string option" where
  "encryption_key text =
     (case (case b64_std_decode text of None \<Rightarrow> b64_padded_decode text | Some k \<Rightarrow> Some k) of
        None \<Rightarrow> None
      | Some k \<Rightarrow> if length k = 32 then Some k else None)"

text \<open>\<open>parse\<close> is \<open>url.Parse\<close>: the scheme and the host of a URL.  Zero stands for the default timeout and delay.\<close>

definition s3_endpoint_of :: "s3_config \<Rightarrow> string" where
  "s3_endpoint_of cfg = trim_right_by (\<lambda>c. c = CHR ''/'') (trim_space (sc_endpoint cfg))"

definition s3_timeout_of :: "s3_config \<Rightarrow> int" where
  "s3_timeout_of cfg = (if sc_timeout cfg = 0 then 15 * 1000000000 else sc_timeout cfg)"

definition s3_backoff_of :: "s3_config \<Rightarrow> int" where
  "s3_backoff_of cfg = (if sc_backoff cfg = 0 then 100 * 1000000 else sc_backoff cfg)"

definition s3_config_error :: "(string \<Rightarrow> (string \<times> string) option) \<Rightarrow> s3_config \<Rightarrow> string option" where
  "s3_config_error parse cfg =
     (if (case parse (s3_endpoint_of cfg) of None \<Rightarrow> True
          | Some (scheme, host) \<Rightarrow> scheme = [] \<or> host = [] \<or> (scheme \<noteq> ''http'' \<and> scheme \<noteq> ''https''))
      then Some ''S3 endpoint must be an absolute http or https URL''
      else if trim_space (sc_bucket cfg) = [] \<or> (\<exists>c \<in> set (sc_bucket cfg). c = CHR ''/'' \<or> c = CHR 0x5C)
      then Some ''S3 bucket is required and must not contain a slash''
      else if (sc_access_key cfg = []) \<noteq> (sc_secret_key cfg = [])
      then Some ''S3 access key and secret key must be provided together''
      else if s3_timeout_of cfg < 0 \<or> s3_timeout_of cfg > 5 * 60 * 1000000000
      then Some ''S3 timeout must be between 1 nanosecond and 5 minutes''
      else if sc_retries cfg < 0 \<or> sc_retries cfg > 5 then Some ''S3 max retries must be between 0 and 5''
      else if s3_backoff_of cfg < 0 \<or> s3_backoff_of cfg > 10 * 1000000000
      then Some ''S3 retry backoff must be between 0 and 10 seconds''
      else if sc_encryption_key cfg \<noteq> [] \<and> encryption_key (sc_encryption_key cfg) = None
      then Some ''S3 encryption key must be a base64-encoded 32-byte key''
      else if sc_sse cfg \<noteq> [] \<and> sc_sse cfg \<noteq> ''AES256'' \<and> sc_sse cfg \<noteq> ''aws:kms''
      then Some ''S3 server-side encryption must be AES256 or aws:kms''
      else if sc_sse cfg = ''aws:kms'' \<and> sc_kms cfg = [] then Some ''S3 KMS key ID is required for aws:kms encryption''
      else None)"

definition new_s3_store :: "(string \<Rightarrow> (string \<times> string) option) \<Rightarrow> s3_config \<Rightarrow> string + s3_store" where
  "new_s3_store parse cfg =
     (case s3_config_error parse cfg of
        Some e \<Rightarrow> Inl e
      | None \<Rightarrow>
          Inr \<lparr>s3_endpoint = s3_endpoint_of cfg, s3_bucket = sc_bucket cfg,
               s3_region = (if sc_region cfg = [] then ''us-east-1'' else sc_region cfg),
               s3_prefix = trim_left_by (\<lambda>c. c = CHR ''/'') (trim_right_by (\<lambda>c. c = CHR ''/'') (sc_prefix cfg)),
               s3_access_key = sc_access_key cfg, s3_secret_key = sc_secret_key cfg,
               s3_session_token = sc_session_token cfg, s3_timeout = s3_timeout_of cfg, s3_retries = nat (sc_retries cfg),
               s3_backoff = s3_backoff_of cfg,
               s3_key = (if sc_encryption_key cfg = [] then None else encryption_key (sc_encryption_key cfg)),
               s3_sse = sc_sse cfg, s3_kms = sc_kms cfg\<rparr>)"

definition object_path :: "s3_store \<Rightarrow> string \<Rightarrow> string" where
  "object_path st i =
     (let key = (if s3_prefix st \<noteq> [] then s3_prefix st @ ''/'' else []) @ i
      in s3_endpoint st @ ''/'' @ s3_bucket st @ ''/'' @ trim_left_by (\<lambda>c. c = CHR ''/'') key)"

definition bucket_path :: "s3_store \<Rightarrow> string" where
  "bucket_path st = s3_endpoint st @ ''/'' @ s3_bucket st"

definition encryption_headers :: "s3_store \<Rightarrow> (string \<times> string) list" where
  "encryption_headers st =
     (if s3_sse st \<noteq> [] then [(''X-Amz-Server-Side-Encryption'', s3_sse st)] else [])
     @ (if s3_kms st \<noteq> [] then [(''X-Amz-Server-Side-Encryption-Aws-Kms-Key-Id'', s3_kms st)] else [])"

definition header_value :: "(string \<times> string) list \<Rightarrow> string \<Rightarrow> string" where
  "header_value hs k = (case map_of hs k of None \<Rightarrow> [] | Some v \<Rightarrow> v)"

definition retryable :: "s3_outcome \<Rightarrow> bool" where
  "retryable r = (case r of S3Broken _ \<Rightarrow> True | S3Answer status _ _ _ \<Rightarrow> status \<ge> 500 \<or> status = 408 \<or> status = 429)"

definition request_error :: "s3_outcome \<Rightarrow> store_error" where
  "request_error r =
     (case r of
        S3Broken e \<Rightarrow> StoreError e
      | S3Answer status _ body _ \<Rightarrow>
          let text = ''S3 request failed with status '' @ nat_str status @ '': '' @ trim_space (take 1024 body)
          in if status = 404 then MissingObject (''artifact not found: '' @ text) else StoreError text)"

definition retry_delay :: "s3_store \<Rightarrow> nat \<Rightarrow> int" where
  "retry_delay st attempt = min (s3_backoff st * 2 ^ attempt) (2 * 1000000000)"

definition succeeded :: "s3_outcome \<Rightarrow> bool" where
  "succeeded r = (case r of S3Broken _ \<Rightarrow> False | S3Answer status _ _ _ \<Rightarrow> 200 \<le> status \<and> status < 300)"

text \<open>\<open>doResponse\<close> from an attempt on; the wait after an attempt, \<open>retry_delay\<close>, has no other effect.\<close>

function do_from :: "'s s3_service \<Rightarrow> nat \<Rightarrow> nat \<Rightarrow> s3_request \<Rightarrow> 's \<Rightarrow> (store_error + s3_outcome) \<times> 's" where
  "do_from srv retries attempt rq s =
     (case srv s rq of
        (r, s') \<Rightarrow>
          if succeeded r then (Inr r, s')
          else if \<not> retryable r \<or> retries \<le> attempt then (Inl (request_error r), s')
          else do_from srv retries (Suc attempt) rq s')"
  by auto
termination by (relation "measure (\<lambda>(_, retries, attempt, _, _). retries - attempt)") auto

declare do_from.simps [simp del]

definition do_request :: "'s s3_service \<Rightarrow> s3_store \<Rightarrow> s3_request \<Rightarrow> 's \<Rightarrow> (store_error + s3_outcome) \<times> 's" where
  "do_request srv st rq s = do_from srv (s3_retries st) 0 rq s"

definition wrap_error :: "string \<Rightarrow> store_error \<Rightarrow> store_error" where
  "wrap_error text e = (case e of MissingObject m \<Rightarrow> MissingObject (text @ m) | StoreError m \<Rightarrow> StoreError (text @ m))"

text \<open>The nonce of a put, \<open>Inl\<close> when the random source fails.\<close>

definition s3_put_request :: "crypto \<Rightarrow> s3_store \<Rightarrow> string \<Rightarrow> string \<Rightarrow> string \<Rightarrow> string \<Rightarrow> s3_request" where
  "s3_put_request cy st nonce i content_type data =
     \<lparr>rq_method = S3Put, rq_url = object_path st i,
      rq_headers = (if content_type \<noteq> [] then [(''Content-Type'', content_type)] else [])
        @ [(''X-Amz-Meta-Sha256'', cy_sum cy data), (''X-Amz-Meta-Content-Length'', nat_str (length data))]
        @ encryption_headers st,
      rq_body = (case s3_key st of None \<Rightarrow> data | Some key \<Rightarrow> sealed cy key nonce i data)\<rparr>"

definition s3_put ::
  "crypto \<Rightarrow> 's s3_service \<Rightarrow> s3_store \<Rightarrow> string + string \<Rightarrow> string \<Rightarrow> string \<Rightarrow> string \<Rightarrow> 's
     \<Rightarrow> (store_error + artifact_meta) \<times> 's" where
  "s3_put cy srv st random i content_type data s =
     (case validate_artifact_id i of
        Some e \<Rightarrow> (Inl e, s)
      | None \<Rightarrow>
          (case (if s3_key st = None then Inr [] else random) of
             Inl e \<Rightarrow> (Inl (StoreError e), s)
           | Inr nonce \<Rightarrow>
               (case do_request srv st (s3_put_request cy st nonce i content_type data) s of
                  (Inl e, s') \<Rightarrow> (Inl (wrap_error (''put artifact '' @ go_quote i @ '': '') e), s')
                | (Inr _, s') \<Rightarrow> (Inr (metadata_for cy i content_type data), s'))))"

definition s3_plain :: "crypto \<Rightarrow> s3_store \<Rightarrow> string \<Rightarrow> string \<Rightarrow> store_error + string" where
  "s3_plain cy st i payload = (case s3_key st of None \<Rightarrow> Inr payload | Some key \<Rightarrow> unsealed cy key i payload)"

definition s3_read :: "crypto \<Rightarrow> s3_store \<Rightarrow> string \<Rightarrow> s3_outcome \<Rightarrow> store_error + string \<times> artifact_meta" where
  "s3_read cy st i r =
     (case r of
        S3Broken e \<Rightarrow> Inl (StoreError e)
      | S3Answer _ hs payload read_error \<Rightarrow>
          (case read_error of
             Some e \<Rightarrow> Inl (StoreError e)
           | None \<Rightarrow>
               (case s3_plain cy st i payload of
                  Inl e \<Rightarrow> Inl e
                | Inr data \<Rightarrow>
                    let expected = header_value hs ''X-Amz-Meta-Sha256''
                    in if expected \<noteq> [] \<and> \<not> equal_fold expected (cy_sum cy data)
                       then Inl (StoreError (''artifact checksum mismatch: got '' @ cy_sum cy data @ '', want '' @ expected))
                       else Inr (data, metadata_for cy i (header_value hs ''Content-Type'') data))))"

definition plain_request :: "s3_method \<Rightarrow> string \<Rightarrow> s3_request" where
  "plain_request m url = \<lparr>rq_method = m, rq_url = url, rq_headers = [], rq_body = []\<rparr>"

definition s3_get ::
  "crypto \<Rightarrow> 's s3_service \<Rightarrow> s3_store \<Rightarrow> string \<Rightarrow> 's \<Rightarrow> (store_error + string \<times> artifact_meta) \<times> 's" where
  "s3_get cy srv st i s =
     (case validate_artifact_id i of
        Some e \<Rightarrow> (Inl e, s)
      | None \<Rightarrow>
          (case do_request srv st (plain_request S3Get (object_path st i)) s of
             (Inl e, s') \<Rightarrow> (Inl (wrap_error (''get artifact '' @ go_quote i @ '': '') e), s')
           | (Inr r, s') \<Rightarrow> (s3_read cy st i r, s')))"

definition s3_delete :: "'s s3_service \<Rightarrow> s3_store \<Rightarrow> string \<Rightarrow> 's \<Rightarrow> store_error option \<times> 's" where
  "s3_delete srv st i s =
     (case validate_artifact_id i of
        Some e \<Rightarrow> (Some e, s)
      | None \<Rightarrow>
          (case do_request srv st (plain_request S3Delete (object_path st i)) s of
             (Inl e, s') \<Rightarrow> (Some (wrap_error (''delete artifact '' @ go_quote i @ '': '') e), s')
           | (Inr _, s') \<Rightarrow> (None, s')))"

definition s3_check :: "'s s3_service \<Rightarrow> s3_store \<Rightarrow> 's \<Rightarrow> store_error option \<times> 's" where
  "s3_check srv st s =
     (case do_request srv st (plain_request S3Head (bucket_path st)) s of
        (Inl e, s') \<Rightarrow> (Some (wrap_error ''check S3 bucket: '' e), s')
      | (Inr _, s') \<Rightarrow> (None, s'))"

end
