(* ===== verification/Migration.thy ===== *)
theory Migration
  imports Artifacts
begin

text \<open>
  \<open>packages/artifacts/migrate.go\<close>: copying the artifacts of the local store to the S3 store, checking a manifest
  against the S3 store, and restoring a manifest into a local store.  The listing of a directory is what \<open>os.ReadDir\<close>
  returned; every entry has its own \<open>disk_io\<close> and nonce.  Writing the manifest to a file is left out.
\<close>

record manifest_entry =
  me_id :: string
  me_type :: string
  me_size :: int
  me_sha :: string

record manifest =
  mf_version :: int
  mf_created_at :: string
  mf_entries :: "manifest_entry list"

record migration_report =
  mr_bytes :: int
  mr_copied :: int
  mr_skipped :: int
  mr_entries :: "manifest_entry list"

record restore_report =
  rr_restored :: int
  rr_skipped :: int

definition report_manifest :: "string \<Rightarrow> migration_report \<Rightarrow> manifest" where
  "report_manifest now rep = \<lparr>mf_version = 1, mf_created_at = now, mf_entries = mr_entries rep\<rparr>"

definition error_of :: "store_error \<Rightarrow> string" where
  "error_of e = (case e of MissingObject m \<Rightarrow> m | StoreError m \<Rightarrow> m)"

section \<open>Checking a manifest\<close>

fun verify_entries ::
  "crypto \<Rightarrow> 's s3_service \<Rightarrow> s3_store \<Rightarrow> string list \<Rightarrow> manifest_entry list \<Rightarrow> 's \<Rightarrow> string option \<times> 's" where
  "verify_entries cy srv st seen [] s = (None, s)"
| "verify_entries cy srv st seen (e # es) s =
     (if me_id e \<in> set seen then (Some (''artifact manifest contains duplicate ID '' @ go_quote (me_id e)), s)
      else case s3_get cy srv st (me_id e) s of
          (Inl err, s1) \<Rightarrow> (Some (''verify S3 artifact '' @ go_quote (me_id e) @ '': '' @ error_of err), s1)
        | (Inr (data, meta), s1) \<Rightarrow>
            if md_size meta \<noteq> me_size e \<or> md_sha meta \<noteq> me_sha e
            then (Some (''S3 manifest mismatch for '' @ go_quote (me_id e) @ '': got size='' @ int_str (md_size meta) @ '' sha256=''
                   @ md_sha meta @ '', want size='' @ int_str (me_size e) @ '' sha256='' @ me_sha e), s1)
            else if int (length data) \<noteq> me_size e then (Some (''S3 manifest byte count mismatch for '' @ go_quote (me_id e)), s1)
            else verify_entries cy srv st (me_id e # seen) es s1)"

definition verify_s3_manifest :: "crypto \<Rightarrow> 's s3_service \<Rightarrow> s3_store \<Rightarrow> manifest \<Rightarrow> 's \<Rightarrow> string option \<times> 's" where
  "verify_s3_manifest cy srv st m s =
     (if mf_version m \<noteq> 1 then (Some (''unsupported artifact manifest version '' @ int_str (mf_version m)), s)
      else verify_entries cy srv st [] (mf_entries m) s)"

section \<open>Restoring\<close>

definition restored_already :: "crypto \<Rightarrow> local_store \<Rightarrow> disk_io \<Rightarrow> manifest_entry \<Rightarrow> fs \<Rightarrow> bool" where
  "restored_already cy dst io e fs =
     (case local_get cy dst io (me_id e) fs of
        Inl _ \<Rightarrow> False
      | Inr (data, meta) \<Rightarrow> md_sha meta = me_sha e \<and> md_size meta = me_size e \<and> int (length data) = me_size e)"

fun restore_entries ::
  "crypto \<Rightarrow> 's s3_service \<Rightarrow> s3_store \<Rightarrow> local_store \<Rightarrow> (nat \<Rightarrow> disk_io) \<Rightarrow> nat \<Rightarrow> manifest_entry list \<Rightarrow> restore_report
     \<Rightarrow> 's \<times> fs \<Rightarrow> (string option \<times> restore_report) \<times> 's \<times> fs" where
  "restore_entries cy srv src dst ios k [] rep (s, fs) = ((None, rep), s, fs)"
| "restore_entries cy srv src dst ios k (e # es) rep (s, fs) =
     (if restored_already cy dst (ios k) e fs
      then restore_entries cy srv src dst ios (Suc k) es (rep\<lparr>rr_skipped := rr_skipped rep + 1\<rparr>) (s, fs)
      else case s3_get cy srv src (me_id e) s of
          (Inl err, s1) \<Rightarrow> ((Some (''read S3 artifact '' @ go_quote (me_id e) @ '' for restore: '' @ error_of err), rep), s1, fs)
        | (Inr (data, meta), s1) \<Rightarrow>
            if md_sha meta \<noteq> me_sha e \<or> md_size meta \<noteq> me_size e
            then ((Some (''S3 artifact '' @ go_quote (me_id e) @ '' changed during restore''), rep), s1, fs)
            else (case local_put cy dst (ios k) (me_id e) (me_type e) data fs of
                    (Inl err, fs1) \<Rightarrow> ((Some (''write local artifact '' @ go_quote (me_id e) @ '': '' @ error_of err), rep), s1, fs1)
                  | (Inr _, fs1) \<Rightarrow>
                      restore_entries cy srv src dst ios (Suc k) es (rep\<lparr>rr_restored := rr_restored rep + 1\<rparr>) (s1, fs1)))"

definition restore_s3_manifest ::
  "crypto \<Rightarrow> 's s3_service \<Rightarrow> s3_store \<Rightarrow> manifest \<Rightarrow> local_store \<Rightarrow> (nat \<Rightarrow> disk_io) \<Rightarrow> 's \<Rightarrow> fs
     \<Rightarrow> (string option \<times> restore_report) \<times> 's \<times> fs" where
  "restore_s3_manifest cy srv src m dst ios s fs =
     (let none = \<lparr>rr_restored = 0, rr_skipped = 0\<rparr>
      in case verify_s3_manifest cy srv src m s of
           (Some err, s1) \<Rightarrow> ((Some err, none), s1, fs)
         | (None, s1) \<Rightarrow> restore_entries cy srv src dst ios 0 (mf_entries m) none (s1, fs))"

section \<open>Migrating\<close>

definition entry_for :: "string \<Rightarrow> artifact_meta \<Rightarrow> manifest_entry" where
  "entry_for i meta = \<lparr>me_id = i, me_type = md_type meta, me_size = md_size meta, me_sha = md_sha meta\<rparr>"

definition migrate_copy ::
  "crypto \<Rightarrow> 's s3_service \<Rightarrow> s3_store \<Rightarrow> string + string \<Rightarrow> string \<Rightarrow> string \<Rightarrow> artifact_meta \<Rightarrow> migration_report \<Rightarrow> 's
     \<Rightarrow> (string option \<times> migration_report) \<times> 's" where
  "migrate_copy cy srv dst random i data meta rep s =
     (case s3_put cy srv dst random i (md_type meta) data s of
        (Inl err, s1) \<Rightarrow> ((Some (''copy artifact '' @ go_quote i @ '': '' @ error_of err), rep), s1)
      | (Inr _, s1) \<Rightarrow>
          (case s3_get cy srv dst i s1 of
             (Inl err, s2) \<Rightarrow> ((Some (''verify copied artifact '' @ go_quote i @ '': '' @ error_of err), rep), s2)
           | (Inr (verified, verified_meta), s2) \<Rightarrow>
               if md_sha verified_meta \<noteq> md_sha meta \<or> length verified \<noteq> length data
               then ((Some (''verification checksum mismatch for artifact '' @ go_quote i), rep), s2)
               else ((None, rep\<lparr>mr_copied := mr_copied rep + 1, mr_entries := mr_entries rep @ [entry_for i meta]\<rparr>), s2)))"

definition migrate_entry ::
  "crypto \<Rightarrow> 's s3_service \<Rightarrow> local_store \<Rightarrow> s3_store \<Rightarrow> bool \<Rightarrow> disk_io \<Rightarrow> string + string \<Rightarrow> fs \<Rightarrow> string \<times> entry_kind
     \<Rightarrow> migration_report \<Rightarrow> 's \<Rightarrow> (string option \<times> migration_report) \<times> 's" where
  "migrate_entry cy srv src dst force io random fs entry rep s =
     (if snd entry = Symlink then ((Some (''symlinks are not supported: '' @ fst entry), rep), s)
      else if \<not> artifact_name entry then ((None, rep), s)
      else
        let i = entry_id entry
        in case validate_artifact_id i of
             Some err \<Rightarrow> ((Some (''local artifact '' @ go_quote (fst entry) @ '': '' @ error_of err), rep), s)
           | None \<Rightarrow>
               (case local_get cy src io i fs of
                  Inl err \<Rightarrow> ((Some (''read local artifact '' @ go_quote i @ '': '' @ error_of err), rep), s)
                | Inr (data, meta) \<Rightarrow>
                    let rep1 = rep\<lparr>mr_bytes := mr_bytes rep + md_size meta\<rparr>
                    in case s3_get cy srv dst i s of
                         (Inr (remote, remote_meta), s1) \<Rightarrow>
                           if md_sha remote_meta = md_sha meta \<and> length remote = length data
                           then ((None, rep1\<lparr>mr_skipped := mr_skipped rep1 + 1, mr_entries := mr_entries rep1 @ [entry_for i meta]\<rparr>), s1)
                           else if \<not> force
                           then ((Some (''S3 artifact '' @ go_quote i @ '' conflicts with local checksum '' @ md_sha meta), rep1), s1)
                           else migrate_copy cy srv dst random i data meta rep1 s1
                       | (Inl (MissingObject _), s1) \<Rightarrow> migrate_copy cy srv dst random i data meta rep1 s1
                       | (Inl (StoreError err), s1) \<Rightarrow>
                           ((Some (''inspect S3 artifact '' @ go_quote i @ '': '' @ err), rep1), s1)))"

fun migrate_entries ::
  "crypto \<Rightarrow> 's s3_service \<Rightarrow> local_store \<Rightarrow> s3_store \<Rightarrow> bool \<Rightarrow> (nat \<Rightarrow> disk_io) \<Rightarrow> (nat \<Rightarrow> string + string) \<Rightarrow> fs \<Rightarrow> nat
     \<Rightarrow> (string \<times> entry_kind) list \<Rightarrow> migration_report \<Rightarrow> 's \<Rightarrow> (string option \<times> migration_report) \<times> 's" where
  "migrate_entries cy srv src dst force ios randoms fs k [] rep s = ((None, rep), s)"
| "migrate_entries cy srv src dst force ios randoms fs k (entry # entries) rep s =
     (case migrate_entry cy srv src dst force (ios k) (randoms k) fs entry rep s of
        ((Some err, rep1), s1) \<Rightarrow> ((Some err, rep1), s1)
      | ((None, rep1), s1) \<Rightarrow> migrate_entries cy srv src dst force ios randoms fs (Suc k) entries rep1 s1)"

definition empty_report :: migration_report where
  "empty_report = \<lparr>mr_bytes = 0, mr_copied = 0, mr_skipped = 0, mr_entries = []\<rparr>"

text \<open>\<open>listing\<close> is what reading the root of the local store gives.\<close>

definition migrate_local_to_s3 ::
  "crypto \<Rightarrow> 's s3_service \<Rightarrow> local_store \<Rightarrow> s3_store \<Rightarrow> bool \<Rightarrow> (nat \<Rightarrow> disk_io) \<Rightarrow> (nat \<Rightarrow> string + string) \<Rightarrow> fs
     \<Rightarrow> string + (string \<times> entry_kind) list \<Rightarrow> 's \<Rightarrow> (string option \<times> migration_report) \<times> 's" where
  "migrate_local_to_s3 cy srv src dst force ios randoms fs listing s =
     (case listing of
        Inl err \<Rightarrow> ((Some (''read local artifact directory: '' @ err), empty_report), s)
      | Inr entries \<Rightarrow> migrate_entries cy srv src dst force ios randoms fs 0 entries empty_report s)"

end
