(* ===== verification/ArtifactProps.thy ===== *)
theory ArtifactProps
  imports Artifacts
begin

text \<open>
  The contract of \<open>artifacts.Store\<close> as a locale, with what a client may rely on, and its interpretation on the local
  store and on the S3 store.  What is assumed of AES-GCM is \<open>opens_sealed\<close>, of an S3-compatible service \<open>s3_protocol\<close>.
\<close>

section \<open>The contract\<close>

text \<open>
  An object is kept in a \<open>slot\<close> determined by its identifier; \<open>content\<close> is the plain text a state holds for it.  \<open>lawful\<close> says
  that what is outside the program keeps its promises, \<open>fit\<close> what a put needs of its random sources.
\<close>

locale object_store =
  fixes put :: "'e \<Rightarrow> string \<Rightarrow> string \<Rightarrow> string \<Rightarrow> 's \<Rightarrow> (store_error + artifact_meta) \<times> 's"
    and get :: "'e \<Rightarrow> string \<Rightarrow> 's \<Rightarrow> (store_error + string \<times> artifact_meta) \<times> 's"
    and delete :: "'e \<Rightarrow> string \<Rightarrow> 's \<Rightarrow> store_error option \<times> 's"
    and slot :: "string \<Rightarrow> string"
    and content :: "'s \<Rightarrow> string \<Rightarrow> string option"
    and sum :: "string \<Rightarrow> string"
    and lawful :: bool
    and fit :: "'e \<Rightarrow> string \<Rightarrow> 's \<Rightarrow> bool"
  assumes put_stores: "\<lbrakk>put e i ct data s = (Inr m, s'); lawful; fit e i s\<rbrakk> \<Longrightarrow>
        content s' i = Some data \<and> md_id m = i \<and> md_size m = int (length data) \<and> md_sha m = sum data"
    and put_fails: "\<lbrakk>put e i ct data s = (Inl err, s'); lawful; fit e i s\<rbrakk> \<Longrightarrow> content s' i = content s i \<or> content s' i = Some data"
    and put_frame: "\<lbrakk>put e i ct data s = (r, s'); lawful; fit e i s; slot j \<noteq> slot i\<rbrakk> \<Longrightarrow> content s' j = content s j"
    and get_reads: "\<lbrakk>get e i s = (Inr (data, m), s'); lawful\<rbrakk> \<Longrightarrow>
        content s i = Some data \<and> md_id m = i \<and> md_size m = int (length data) \<and> md_sha m = sum data"
    and get_frame: "\<lbrakk>get e i s = (r', s'); lawful\<rbrakk> \<Longrightarrow> content s' j = content s j"
    and delete_removes: "\<lbrakk>delete e i s = (None, s'); lawful\<rbrakk> \<Longrightarrow> content s' i = None"
    and delete_frame: "\<lbrakk>delete e i s = (r'', s'); lawful; slot j \<noteq> slot i\<rbrakk> \<Longrightarrow> content s' j = content s j"
begin

text \<open>Any number of calls on other slots, failing or not.\<close>

inductive touched :: "string \<Rightarrow> 's \<Rightarrow> 's \<Rightarrow> bool" where
  untouched: "touched k s s"
| by_put: "\<lbrakk>touched k s s1; slot j \<noteq> k; fit e j s1; put e j ct data s1 = (r, s2)\<rbrakk> \<Longrightarrow> touched k s s2"
| by_get: "\<lbrakk>touched k s s1; get e j s1 = (r', s2)\<rbrakk> \<Longrightarrow> touched k s s2"
| by_delete: "\<lbrakk>touched k s s1; slot j \<noteq> k; delete e j s1 = (r'', s2)\<rbrakk> \<Longrightarrow> touched k s s2"

lemma touched_calls:
  "touched k s s1 \<Longrightarrow> slot j \<noteq> k \<Longrightarrow> fit e j s1 \<Longrightarrow> touched k s (snd (put e j ct data s1))"
  "touched k s s1 \<Longrightarrow> touched k s (snd (get e j s1))"
  "touched k s s1 \<Longrightarrow> slot j \<noteq> k \<Longrightarrow> touched k s (snd (delete e j s1))"
  by (rule by_put [OF _ _ _ surjective_pairing] by_get [OF _ surjective_pairing] by_delete [OF _ _ surjective_pairing]; assumption)+

lemma touched_content: "touched k s s' \<Longrightarrow> lawful \<Longrightarrow> slot i = k \<Longrightarrow> content s' i = content s i"
  by (induction rule: touched.induct) (metis put_frame get_frame delete_frame)+

lemma reads_back:
  assumes "put e i ct data s = (Inr m, s1)" "lawful" "fit e i s" "touched (slot i) s1 s2"
  shows "content s2 i = Some data" "get e' i s2 = (Inr (data', m'), s3) \<Longrightarrow> data' = data \<and> md_sha m' = md_sha m \<and> md_size m' = md_size m"
proof -
  show c: "content s2 i = Some data"
    using put_stores [OF assms(1,2,3)] touched_content [OF assms(4,2) refl] by simp
  assume g: "get e' i s2 = (Inr (data', m'), s3)"
  show "data' = data \<and> md_sha m' = md_sha m \<and> md_size m' = md_size m"
    using put_stores [OF assms(1,2,3)] c get_reads [OF g assms(2)] by simp
qed

lemma gone_after_delete:
  assumes "delete e i s = (None, s1)" "lawful" "touched (slot i) s1 s2" "get e' i s2 = (r', s3)"
  shows "\<exists>err. r' = Inl err"
proof (rule ccontr)
  assume "\<not> ?thesis"
  then obtain data m where r: "r' = Inr (data, m)" by (cases r') auto
  from delete_removes [OF assms(1,2)] touched_content [OF assms(3,2) refl] get_reads [OF assms(4) [unfolded r] assms(2)]
  show False by simp
qed

end

section \<open>Identifiers and paths\<close>

lemma valid_id_parts:
  assumes "validate_artifact_id i = None"
  shows "i \<noteq> []" "\<not> has_prefix i ''/''" "\<forall>p \<in> set (split_on (CHR ''/'') i). plain_name p"
  using assms split_on_no_sep [of _ "CHR ''/''" i]
  by (auto simp: validate_artifact_id_def plain_name_def split: if_splits)

lemma split_on_empty: "split_on c s = [[]] \<Longrightarrow> s = []"
  using join_split_on [of c s] by simp

lemma last_split_on_slash: "s \<noteq> [] \<Longrightarrow> last s = c \<Longrightarrow> last (split_on c s) = []"
proof (induction s)
  case (Cons a s)
  then show ?case
    using split_on_empty [of c s] by (cases "s = []") (auto split: list.split if_splits)
qed simp

lemma base_valid_id:
  assumes "validate_artifact_id i = None"
  shows "base_name i = last (split_on (CHR ''/'') i)" "plain_name (base_name i)"
proof -
  note v = valid_id_parts [OF assms]
  have p: "plain_name (last (split_on (CHR ''/'') i))" using v(3) by simp
  then have "last i \<noteq> CHR ''/''" using last_split_on_slash [OF v(1)] by (auto simp: plain_name_def)
  then have "trim_right_by (\<lambda>c. c = CHR ''/'') i = i" using v(1) by (intro trim_right_fix) simp
  then show "base_name i = last (split_on (CHR ''/'') i)" using v(1) by (simp add: base_name_def)
  with p show "plain_name (base_name i)" by simp
qed

text \<open>The paths of the local store: entries of its root; never the temporary file of a write.\<close>

lemma clean_path_nonempty: "clean_path p \<noteq> []"
  by (simp add: clean_path_def Let_def)

lemma has_suffix_append [simp]: "has_suffix (s @ p) p"
  by (simp add: has_suffix_def has_prefix_def)

lemma local_path_eq:
  assumes "validate_artifact_id i = None" "ls_root st \<noteq> []"
  shows "local_path st i = dir_prefix (ls_root st) @ base_name i @ ''.bin''"
proof -
  have "plain_name (base_name i @ ''.bin'')"
    using base_valid_id(2) [OF assms(1)] by (auto simp: plain_name_def append_eq_Cons_conv)
  then show ?thesis using assms(2) by (simp add: local_path_def join_plain)
qed

lemma local_path_clash:
  assumes "validate_artifact_id i = None" "validate_artifact_id j = None" "ls_root st \<noteq> []"
  shows "local_path st i = local_path st j \<longleftrightarrow> base_name i = base_name j"
  using assms by (simp add: local_path_eq)

lemma temp_path_last: "is_digit (last (temp_path io path))"
proof -
  have p: "plain_name (''.artifact-'' @ nat_str (io_temp io))"
    using nat_str_digits [of "CHR ''/''" "io_temp io"] by (auto simp: plain_name_def is_digit_def code_def)
  have "last (nat_str (io_temp io)) \<in> set (nat_str (io_temp io))" by simp
  then have "is_digit (last (nat_str (io_temp io)))" by (rule nat_str_digits)
  moreover have "temp_path io path = dir_prefix (dir_name path) @ (''.artifact-'' @ nat_str (io_temp io))"
    unfolding temp_path_def by (rule join_plain [OF _ p]) (simp add: dir_name_def clean_path_nonempty)
  ultimately show ?thesis by simp
qed

lemma temp_path_other: "\<not> is_digit (last p) \<Longrightarrow> temp_path io path \<noteq> p"
  using temp_path_last by metis

lemma local_path_not_digit:
  assumes "validate_artifact_id i = None" "ls_root st \<noteq> []"
  shows "\<not> is_digit (last (local_path st i))"
  by (simp add: local_path_eq [OF assms] is_digit_def code_def)

section \<open>Writing a file\<close>

lemma write_atomic_states:
  assumes "write_atomic io path data fs = (e, states)" "temp_path io path \<noteq> path"
  shows "states \<noteq> []" "g \<in> set states \<Longrightarrow> g path = fs path \<or> g path = Some data"
    "g \<in> set states \<Longrightarrow> q \<noteq> path \<Longrightarrow> q \<noteq> temp_path io path \<Longrightarrow> g q = fs q"
    "e = None \<Longrightarrow> last states path = Some data" "e \<noteq> None \<Longrightarrow> last states path = fs path"
    "e = None \<or> io_fault io ''remove'' = None \<Longrightarrow> fs (temp_path io path) = None \<Longrightarrow> last states (temp_path io path) = None"
  using assms by (auto simp: write_atomic_def Let_def split: option.splits if_splits)

section \<open>The local store\<close>

definition opens_sealed :: "crypto \<Rightarrow> bool" where
  "opens_sealed cy \<longleftrightarrow> (\<forall>key nonce data ad. cy_open cy key nonce (cy_seal cy key nonce data ad) ad = Some data)"

lemma unsealed_sealed:
  "opens_sealed cy \<Longrightarrow> length nonce = nonce_size \<Longrightarrow> unsealed cy key i (sealed cy key nonce i data) = Inr data"
  by (simp add: unsealed_def sealed_def opens_sealed_def)

definition local_content :: "crypto \<Rightarrow> local_store \<Rightarrow> fs \<Rightarrow> string \<Rightarrow> string option" where
  "local_content cy st fs i =
     (if validate_artifact_id i \<noteq> None then None
      else case fs (local_path st i) of
          None \<Rightarrow> None
        | Some c \<Rightarrow> (case unsealed cy (ls_key st) i c of Inl _ \<Rightarrow> None | Inr data \<Rightarrow> Some data))"

definition local_fit :: "crypto \<Rightarrow> local_store \<Rightarrow> disk_io \<Rightarrow> string \<Rightarrow> fs \<Rightarrow> bool" where
  "local_fit cy st io i fs \<longleftrightarrow> opens_sealed cy \<and> ls_root st \<noteq> [] \<and> length (io_nonce io) = nonce_size"

lemma local_put_cases:
  assumes "local_put cy st io i ct data fs = (r, fs')"
  obtains (refused) e where "r = Inl e" "fs' = fs"
  | (failed) e states where "r = Inl (StoreError e)" "validate_artifact_id i = None" "fs' = last states"
      "write_atomic io (local_path st i) (sealed cy (ls_key st) (io_nonce io) i data) fs = (Some e, states)"
  | (stored) states where "r = Inr (metadata_for cy i ct data)" "validate_artifact_id i = None" "fs' = last states"
      "write_atomic io (local_path st i) (sealed cy (ls_key st) (io_nonce io) i data) fs = (None, states)"
  using assms by (auto simp: local_put_def split: option.splits prod.splits)

lemma local_put_frame:
  assumes "local_put cy st io i ct data fs = (r, fs')" "ls_root st \<noteq> []" "local_path st j \<noteq> local_path st i"
  shows "local_content cy st fs' j = local_content cy st fs j"
proof (cases "validate_artifact_id j = None")
  case True
  note other = temp_path_other [OF local_path_not_digit [OF _ assms(2)]]
  have kept: "last states (local_path st j) = fs (local_path st j)"
    if v: "validate_artifact_id i = None" and w: "write_atomic io (local_path st i) bytes fs = (e, states)" for bytes e states
    using write_atomic_states(1,3) [OF w other [OF v]] assms(3) other [OF True] by (metis last_in_set)
  from assms(1) show ?thesis
    by (cases rule: local_put_cases) (simp_all add: local_content_def kept)
qed (simp add: local_content_def)

lemma local_put_stored:
  assumes "local_put cy st io i ct data fs = (Inr m, fs')" "local_fit cy st io i fs"
  shows "local_content cy st fs' i = Some data" "m = metadata_for cy i ct data"
proof -
  from assms(1) have "local_content cy st fs' i = Some data \<and> m = metadata_for cy i ct data"
  proof (cases rule: local_put_cases)
    case (stored states)
    note t = temp_path_other [OF local_path_not_digit [OF stored(2)]]
    have "fs' (local_path st i) = Some (sealed cy (ls_key st) (io_nonce io) i data)"
      using write_atomic_states(4) [OF stored(4) t] stored(3) assms(2) by (simp add: local_fit_def)
    then show ?thesis
      using stored assms(2) by (simp add: local_content_def local_fit_def unsealed_sealed)
  qed simp_all
  then show "local_content cy st fs' i = Some data" "m = metadata_for cy i ct data" by simp_all
qed

lemma local_put_failed:
  assumes "local_put cy st io i ct data fs = (Inl e, fs')" "ls_root st \<noteq> []"
  shows "local_content cy st fs' i = local_content cy st fs i"
  using assms(1)
proof (cases rule: local_put_cases)
  case (failed e' states)
  then show ?thesis
    using write_atomic_states(5) [OF failed(4) temp_path_other [OF local_path_not_digit [OF failed(2) assms(2)]]]
    by (simp add: local_content_def)
qed simp_all

lemma local_get_content:
  "local_get cy st io i fs = Inr (data, m) \<Longrightarrow> local_content cy st fs i = Some data \<and> m = metadata_for cy i [] data"
  by (auto simp: local_get_def local_content_def read_file_def split: option.splits file_read.splits sum.splits)

lemma local_get_returns:
  "local_content cy st fs i = Some data \<Longrightarrow> io_fault io ''read'' = None
     \<Longrightarrow> local_get cy st io i fs = Inr (data, metadata_for cy i [] data)"
  by (auto simp: local_get_def local_content_def read_file_def split: option.splits file_read.splits sum.splits if_splits)

lemma metadata_sel [simp]:
  "md_id (metadata_for cy i ct data) = i" "md_size (metadata_for cy i ct data) = int (length data)"
  "md_sha (metadata_for cy i ct data) = cy_sum cy data" "md_type (metadata_for cy i ct data) = ct"
  by (simp_all add: metadata_for_def)

lemma local_delete_removed: "local_delete st io i fs = (None, fs') \<Longrightarrow> local_content cy st fs' i = None"
  by (auto simp: local_delete_def local_content_def split: option.splits)

lemma local_delete_frame:
  "local_delete st io i fs = (r, fs') \<Longrightarrow> local_path st j \<noteq> local_path st i \<Longrightarrow> local_content cy st fs' j = local_content cy st fs j"
  by (auto simp: local_delete_def local_content_def split: option.splits)

interpretation local_objects: object_store "local_put cy st" "\<lambda>io i fs. (local_get cy st io i fs, fs)" "local_delete st"
    "local_path st" "local_content cy st" "cy_sum cy" True "local_fit cy st" for cy st
proof unfold_locales
  fix io i ct data fs m fs'
  assume "local_put cy st io i ct data fs = (Inr m, fs')" "local_fit cy st io i fs"
  then show "local_content cy st fs' i = Some data \<and> md_id m = i \<and> md_size m = int (length data) \<and> md_sha m = cy_sum cy data"
    using local_put_stored by fastforce
qed (auto simp: local_put_frame local_put_failed local_fit_def dest: local_get_content local_delete_removed local_delete_frame)

text \<open>A store that made its own key finds it again when it is opened later.\<close>

lemma local_key_persists:
  assumes "new_local_store io root [] fs = (Inr st, fs')" "io_fault io' ''mkdir'' = None" "io_fault io' ''read'' = None"
  shows "new_local_store io' root [] fs' = (Inr st, fs')"
proof -
  have root: "root \<noteq> []" "root \<noteq> ''.''" using assms(1) by (auto simp: new_local_store_def)
  obtain l x where l: "load_key io root fs = (l, fs')" "map_sum id b64_std l = Inr x"
    using assms(1) by (auto simp: new_local_store_def Let_def split: if_splits option.splits prod.splits sum.splits)
  then obtain k where k: "load_key io root fs = (Inr k, fs')" by (cases l) simp_all
  have "plain_name ''.key''" by (simp add: plain_name_def)
  then have "\<not> is_digit (last (join_path root ''.key''))" using root(1) by (simp add: join_plain is_digit_def code_def)
  note t = temp_path_other [OF this]
  have "fs' (join_path root ''.key'') = Some k"
    using k write_atomic_states(4) [OF _ t]
    by (auto simp: load_key_def read_file_def Let_def split: option.splits file_read.splits prod.splits)
  then have "load_key io' root fs' = (Inr k, fs')" using assms(3) by (simp add: load_key_def read_file_def)
  then show ?thesis
    using assms(1,2) k root by (auto simp: new_local_store_def Let_def split: if_splits option.splits)
qed

section \<open>The S3 store\<close>

text \<open>What the constructor guarantees; the prefix never begins with a slash.\<close>

lemma new_s3_store_ok:
  assumes "new_s3_store parse cfg = Inr st"
  shows "\<not> has_prefix (s3_prefix st) ''/''" "s3_retries st \<le> 5" "\<forall>key. s3_key st = Some key \<longrightarrow> length key = 32"
proof -
  have t: "\<not> has_prefix (trim_left_by (\<lambda>c. c = CHR ''/'') p) ''/''" for p
    by (induction p) (auto simp: trim_left_by_def has_prefix_def)
  have ok: "s3_config_error parse cfg = None"
    using assms by (simp add: new_s3_store_def split: option.splits)
  then have n: "sc_retries cfg \<le> 5"
    by (simp add: s3_config_error_def split: if_splits)
  have st: "s3_prefix st = trim_left_by (\<lambda>c. c = CHR ''/'') (trim_right_by (\<lambda>c. c = CHR ''/'') (sc_prefix cfg))"
      "s3_retries st = nat (sc_retries cfg)" "s3_key st = None \<or> s3_key st = encryption_key (sc_encryption_key cfg)"
    using assms by (auto simp: new_s3_store_def ok)
  from st(1) t show "\<not> has_prefix (s3_prefix st) ''/''" by simp
  from st(2) n show "s3_retries st \<le> 5" by simp
  from st(3) show "\<forall>key. s3_key st = Some key \<longrightarrow> length key = 32"
    by (auto simp: encryption_key_def split: option.splits if_splits)
qed

text \<open>
  What an S3-compatible service promises: a request concerns its own URL only; a put that is answered with success has stored
  the body, one that is not may have; a body read to its end is the stored one, 404 means that there is none; a delete removes.
\<close>

definition s3_effect :: "('s \<Rightarrow> string \<Rightarrow> string option) \<Rightarrow> s3_request \<Rightarrow> 's \<Rightarrow> bool \<Rightarrow> 's \<Rightarrow> bool" where
  "s3_effect obj rq s answered s' \<longleftrightarrow>
     (\<forall>u. u \<noteq> rq_url rq \<longrightarrow> obj s' u = obj s u)
     \<and> (let old = obj s (rq_url rq); new = obj s' (rq_url rq)
        in case rq_method rq of
             S3Put \<Rightarrow> new = Some (rq_body rq) \<or> \<not> answered \<and> new = old
           | S3Delete \<Rightarrow> new = None \<or> \<not> answered \<and> new = old
           | _ \<Rightarrow> new = old)"

definition s3_protocol :: "'s s3_service \<Rightarrow> ('s \<Rightarrow> string \<Rightarrow> string option) \<Rightarrow> bool" where
  "s3_protocol srv obj \<longleftrightarrow> (\<forall>s rq r s'. srv s rq = (r, s') \<longrightarrow>
     s3_effect obj rq s (succeeded r) s'
     \<and> (rq_method rq = S3Get \<longrightarrow>
          (\<forall>status hs b. r = S3Answer status hs b None \<and> succeeded r \<longrightarrow> obj s (rq_url rq) = Some b)
          \<and> (\<forall>hs b e. r = S3Answer 404 hs b e \<longrightarrow> obj s (rq_url rq) = None)))"

lemma s3_effect_trans: "s3_effect obj rq s a s1 \<Longrightarrow> s3_effect obj rq s1 b s' \<Longrightarrow> s3_effect obj rq s b s'"
  by (auto simp: s3_effect_def Let_def split: s3_method.splits)

lemma s3_effect_weaken: "s3_effect obj rq s a s' \<Longrightarrow> s3_effect obj rq s False s'"
  by (auto simp: s3_effect_def Let_def split: s3_method.splits)

text \<open>The protocol carries over to a request with its retries.\<close>

definition is_answer :: "store_error + s3_outcome \<Rightarrow> bool" where
  "is_answer res = (case res of Inl _ \<Rightarrow> False | Inr _ \<Rightarrow> True)"

lemma do_from_protocol:
  assumes "s3_protocol srv obj" "do_from srv retries attempt rq s = (res, s')"
  shows "s3_effect obj rq s (is_answer res) s'
    \<and> (rq_method rq = S3Get \<longrightarrow> (\<forall>status hs b. res = Inr (S3Answer status hs b None) \<longrightarrow> obj s (rq_url rq) = Some b)
         \<and> (\<forall>m. res = Inl (MissingObject m) \<longrightarrow> obj s (rq_url rq) = None))"
  using assms
proof (induction srv retries attempt rq s rule: do_from.induct)
  case (1 srv retries attempt rq s)
  obtain r s1 where r: "srv s rq = (r, s1)" by fastforce
  have e: "s3_effect obj rq s (succeeded r) s1"
    and g: "rq_method rq = S3Get \<Longrightarrow> succeeded r \<Longrightarrow> r = S3Answer status hs b None \<Longrightarrow> obj s (rq_url rq) = Some b"
    and n: "rq_method rq = S3Get \<Longrightarrow> request_error r = MissingObject m \<Longrightarrow> obj s (rq_url rq) = None" for status hs b m
    using 1(2) r by (auto simp: s3_protocol_def request_error_def Let_def split: s3_outcome.splits if_splits)
  show ?case
  proof (cases "succeeded r \<or> \<not> retryable r \<or> retries \<le> attempt")
    case True
    then have res: "(res, s') = (if succeeded r then (Inr r, s1) else (Inl (request_error r), s1))"
      using 1(3) r by (subst (asm) do_from.simps) auto
    show ?thesis
    proof (cases "succeeded r")
      case True
      then show ?thesis using res e g by (auto simp: is_answer_def)
    next
      case False
      then show ?thesis using res s3_effect_weaken [OF e] n by (auto simp: is_answer_def)
    qed
  next
    case False
    then have "do_from srv retries (Suc attempt) rq s1 = (res, s')"
      using 1(3) r by (subst (asm) do_from.simps) auto
    with 1(1) [OF r [symmetric]] False 1(2) have ih: "s3_effect obj rq s1 (is_answer res) s'"
        "rq_method rq = S3Get \<Longrightarrow> res = Inr (S3Answer status hs b None) \<Longrightarrow> obj s1 (rq_url rq) = Some b"
        "rq_method rq = S3Get \<Longrightarrow> res = Inl (MissingObject m) \<Longrightarrow> obj s1 (rq_url rq) = None" for status hs b m
      by auto
    have "rq_method rq = S3Get \<Longrightarrow> obj s1 (rq_url rq) = obj s (rq_url rq)"
      using e by (simp add: s3_effect_def Let_def)
    with ih s3_effect_trans [OF e ih(1)] show ?thesis by simp
  qed
qed

lemma do_request_protocol:
  assumes "s3_protocol srv obj" "do_request srv st rq s = (res, s')"
  shows "s3_effect obj rq s (is_answer res) s'"
    "rq_method rq = S3Get \<Longrightarrow> res = Inr (S3Answer status hs b None) \<Longrightarrow> obj s (rq_url rq) = Some b"
    "rq_method rq = S3Get \<Longrightarrow> res = Inl (MissingObject m) \<Longrightarrow> obj s (rq_url rq) = None"
  using do_from_protocol [OF assms(1) assms(2) [unfolded do_request_def]] by blast+

text \<open>Valid identifiers have different URLs.\<close>

lemma trim_left_slash: "\<not> has_prefix s ''/'' \<Longrightarrow> trim_left_by (\<lambda>c. c = CHR ''/'') s = s"
  by (cases s) (auto simp: trim_left_by_def has_prefix_def)

lemma object_path_clash:
  assumes "validate_artifact_id i = None" "validate_artifact_id j = None" "\<not> has_prefix (s3_prefix st) ''/''"
  shows "object_path st i = object_path st j \<longleftrightarrow> i = j"
proof -
  have key: "\<not> has_prefix ((if s3_prefix st \<noteq> [] then s3_prefix st @ ''/'' else []) @ k) ''/''"
    if "validate_artifact_id k = None" for k
    using assms(3) valid_id_parts(2) [OF that] by (cases "s3_prefix st") (auto simp: has_prefix_def)
  show ?thesis
    using key [OF assms(1)] key [OF assms(2)] by (simp add: object_path_def trim_left_slash)
qed

definition s3_content :: "crypto \<Rightarrow> s3_store \<Rightarrow> ('s \<Rightarrow> string \<Rightarrow> string option) \<Rightarrow> 's \<Rightarrow> string \<Rightarrow> string option" where
  "s3_content cy st obj s i =
     (if validate_artifact_id i \<noteq> None then None
      else case obj s (object_path st i) of
          None \<Rightarrow> None
        | Some payload \<Rightarrow> (case s3_plain cy st i payload of Inl _ \<Rightarrow> None | Inr data \<Rightarrow> Some data))"

definition s3_fit :: "crypto \<Rightarrow> string + string \<Rightarrow> string \<Rightarrow> 's \<Rightarrow> bool" where
  "s3_fit cy random i s \<longleftrightarrow> opens_sealed cy \<and> (\<forall>nonce. random = Inr nonce \<longrightarrow> length nonce = nonce_size)"

lemma s3_content_cong: "obj s' (object_path st i) = obj s (object_path st i) \<Longrightarrow> s3_content cy st obj s' i = s3_content cy st obj s i"
  by (simp add: s3_content_def)

lemma s3_put_cases:
  assumes "s3_put cy srv st random i ct data s = (r, s')"
  obtains (refused) e where "r = Inl e" "s' = s"
  | (sent) nonce res where "validate_artifact_id i = None" "s3_key st = None \<or> random = Inr nonce"
      "do_request srv st (s3_put_request cy st nonce i ct data) s = (res, s')"
      "r = (case res of Inl e \<Rightarrow> Inl (wrap_error (''put artifact '' @ go_quote i @ '': '') e) | Inr _ \<Rightarrow> Inr (metadata_for cy i ct data))"
proof (cases "validate_artifact_id i")
  case (Some e)
  then show ?thesis using assms by (intro refused [of e]) (simp_all add: s3_put_def)
next
  case None
  show ?thesis
  proof (cases "if s3_key st = None then Inr [] else random")
    case (Inl e)
    then show ?thesis using assms None by (intro refused [of "StoreError e"]) (simp_all add: s3_put_def)
  next
    case (Inr nonce)
    obtain res t where d: "do_request srv st (s3_put_request cy st nonce i ct data) s = (res, t)" by fastforce
    show ?thesis
      by (rule sent [of nonce res]) (use assms None Inr d in \<open>auto simp: s3_put_def split: if_splits sum.splits\<close>)
  qed
qed

lemma s3_put_request_sel [simp]:
  "rq_method (s3_put_request cy st nonce i ct data) = S3Put" "rq_url (s3_put_request cy st nonce i ct data) = object_path st i"
  by (simp_all add: s3_put_request_def)

lemma plain_request_sel [simp]: "rq_method (plain_request m u) = m" "rq_url (plain_request m u) = u"
  by (simp_all add: plain_request_def)

lemma s3_sent_content:
  assumes "opens_sealed cy" "validate_artifact_id i = None" "s3_key st = None \<or> length nonce = nonce_size"
    "obj s' (object_path st i) = Some (rq_body (s3_put_request cy st nonce i ct data))"
  shows "s3_content cy st obj s' i = Some data"
  using assms by (auto simp: s3_content_def s3_plain_def s3_put_request_def unsealed_sealed split: option.split)

lemma s3_put_content:
  assumes "s3_put cy srv st random i ct data s = (r, s')" "s3_protocol srv obj" "s3_fit cy random i s"
  shows "s3_content cy st obj s' i = Some data \<or> (\<exists>e. r = Inl e) \<and> s3_content cy st obj s' i = s3_content cy st obj s i"
    "r = Inr m \<Longrightarrow> m = metadata_for cy i ct data"
    "object_path st j \<noteq> object_path st i \<Longrightarrow> s3_content cy st obj s' j = s3_content cy st obj s j"
proof -
  from assms(1) have "(s3_content cy st obj s' i = Some data \<or> (\<exists>e. r = Inl e) \<and> s3_content cy st obj s' i = s3_content cy st obj s i)
    \<and> (r = Inr m \<longrightarrow> m = metadata_for cy i ct data)
    \<and> (object_path st j \<noteq> object_path st i \<longrightarrow> s3_content cy st obj s' j = s3_content cy st obj s j)"
  proof (cases rule: s3_put_cases)
    case (sent nonce res)
    have e: "s3_effect obj (s3_put_request cy st nonce i ct data) s (is_answer res) s'"
      using do_request_protocol [OF assms(2) sent(3)] by simp
    have n: "opens_sealed cy" "s3_key st = None \<or> length nonce = nonce_size"
      using assms(3) sent(2) by (auto simp: s3_fit_def)
    have "object_path st j \<noteq> object_path st i \<longrightarrow> s3_content cy st obj s' j = s3_content cy st obj s j"
      using e s3_content_cong [of obj s' st j s] by (simp add: s3_effect_def Let_def)
    moreover have "s3_content cy st obj s' i = Some data \<or> (\<exists>e. r = Inl e) \<and> s3_content cy st obj s' i = s3_content cy st obj s i"
    proof (cases "obj s' (object_path st i) = Some (rq_body (s3_put_request cy st nonce i ct data))")
      case True
      then show ?thesis using s3_sent_content [of cy i st nonce obj s' ct data, OF n(1) sent(1) n(2)] by blast
    next
      case False
      then have "\<not> is_answer res" "obj s' (object_path st i) = obj s (object_path st i)"
        using e by (auto simp: s3_effect_def Let_def)
      then show ?thesis
        using sent(4) s3_content_cong [of obj s' st i s] by (auto simp: is_answer_def split: sum.splits)
    qed
    ultimately show ?thesis using sent(4) by (auto split: sum.splits)
  qed simp
  then show "s3_content cy st obj s' i = Some data \<or> (\<exists>e. r = Inl e) \<and> s3_content cy st obj s' i = s3_content cy st obj s i"
    "r = Inr m \<Longrightarrow> m = metadata_for cy i ct data"
    "object_path st j \<noteq> object_path st i \<Longrightarrow> s3_content cy st obj s' j = s3_content cy st obj s j" by blast+
qed

lemma s3_get_content:
  assumes "s3_get cy srv st i s = (r, s')" "s3_protocol srv obj"
  shows "s3_content cy st obj s' j = s3_content cy st obj s j"
    "r = Inr (data, m) \<Longrightarrow> s3_content cy st obj s i = Some data \<and> (\<exists>ct. m = metadata_for cy i ct data)"
    "r = Inl (MissingObject text) \<Longrightarrow> obj s (object_path st i) = None"
    "\<forall>u. obj s' u = obj s u"
proof -
  obtain res t where d: "do_request srv st (plain_request S3Get (object_path st i)) s = (res, t)" by fastforce
  note p = do_request_protocol [OF assms(2) d]
  have "(\<forall>u. u \<noteq> object_path st i \<longrightarrow> obj t u = obj s u) \<and> obj t (object_path st i) = obj s (object_path st i)"
    using p(1) by (simp add: s3_effect_def)
  then have "\<forall>u. obj t u = obj s u" by metis
  moreover have "s' = s \<or> s' = t" using assms(1) d by (auto simp: s3_get_def split: option.splits sum.splits)
  ultimately show same: "\<forall>u. obj s' u = obj s u" by auto
  then show "s3_content cy st obj s' j = s3_content cy st obj s j" by (intro s3_content_cong) simp
  show "obj s (object_path st i) = None" if "r = Inl (MissingObject text)"
  proof -
    have "\<exists>m. res = Inl (MissingObject m)"
      using assms(1) d that
      by (auto simp: s3_get_def wrap_error_def s3_read_def s3_plain_def unsealed_def validate_artifact_id_def Let_def
          split: option.splits sum.splits store_error.splits s3_outcome.splits if_splits)
    then show ?thesis using p(3) by auto
  qed
  assume r: "r = Inr (data, m)"
  then obtain ok where v: "validate_artifact_id i = None" "res = Inr ok" "s3_read cy st i ok = Inr (data, m)"
    using assms(1) d by (auto simp: s3_get_def split: option.splits sum.splits)
  obtain status hs b where ok: "ok = S3Answer status hs b None" "s3_plain cy st i b = Inr data"
      "m = metadata_for cy i (header_value hs ''Content-Type'') data"
    using v(3) by (auto simp: s3_read_def Let_def split: s3_outcome.splits option.splits sum.splits if_splits)
  then have "obj s (object_path st i) = Some b" using p(2) [of status hs b] v(2) by simp
  then show "s3_content cy st obj s i = Some data \<and> (\<exists>ct. m = metadata_for cy i ct data)"
    using ok v(1) by (auto simp: s3_content_def)
qed

lemma s3_delete_content:
  assumes "s3_delete srv st i s = (r, s')" "s3_protocol srv obj"
  shows "object_path st j \<noteq> object_path st i \<Longrightarrow> s3_content cy st obj s' j = s3_content cy st obj s j"
    "r = None \<Longrightarrow> s3_content cy st obj s' i = None"
proof -
  obtain res t where d: "do_request srv st (plain_request S3Delete (object_path st i)) s = (res, t)" by fastforce
  note e = do_request_protocol(1) [OF assms(2) d]
  have c: "r \<noteq> None \<and> s' = s \<or> s' = t \<and> (r = None \<longleftrightarrow> is_answer res)"
    using assms(1) d by (auto simp: s3_delete_def is_answer_def split: option.splits sum.splits)
  show "s3_content cy st obj s' j = s3_content cy st obj s j" if "object_path st j \<noteq> object_path st i"
  proof (rule s3_content_cong)
    show "obj s' (object_path st j) = obj s (object_path st j)" using c e that by (auto simp: s3_effect_def)
  qed
  show "s3_content cy st obj s' i = None" if "r = None"
    using c e that by (auto simp: s3_effect_def s3_content_def Let_def)
qed

interpretation s3_objects: object_store "s3_put cy srv st" "\<lambda>(_ :: string + string) i s. s3_get cy srv st i s"
    "\<lambda>_ i s. s3_delete srv st i s" "object_path st" "s3_content cy st obj" "cy_sum cy" "s3_protocol srv obj" "s3_fit cy"
  for cy srv st obj
proof unfold_locales
  fix random i ct data s m s'
  assume a: "s3_put cy srv st random i ct data s = (Inr m, s')" "s3_protocol srv obj" "s3_fit cy random i s"
  from s3_put_content(1) [OF a] s3_put_content(2) [OF a refl]
  show "s3_content cy st obj s' i = Some data \<and> md_id m = i \<and> md_size m = int (length data) \<and> md_sha m = cy_sum cy data"
    by simp
next
  fix random i ct data s e s'
  assume "s3_put cy srv st random i ct data s = (Inl e, s')" "s3_protocol srv obj" "s3_fit cy random i s"
  from s3_put_content(1) [OF this]
  show "s3_content cy st obj s' i = s3_content cy st obj s i \<or> s3_content cy st obj s' i = Some data" by auto
next
  fix random i ct data s r s' j
  assume "s3_put cy srv st random i ct data s = (r, s')" "s3_protocol srv obj" "s3_fit cy random i s"
    "object_path st j \<noteq> object_path st i"
  then show "s3_content cy st obj s' j = s3_content cy st obj s j" by (rule s3_put_content(3))
next
  fix i s data m s'
  assume "s3_get cy srv st i s = (Inr (data, m), s')" "s3_protocol srv obj"
  from s3_get_content(2) [OF this refl]
  show "s3_content cy st obj s i = Some data \<and> md_id m = i \<and> md_size m = int (length data) \<and> md_sha m = cy_sum cy data"
    by auto
qed (auto intro: s3_get_content(1) s3_delete_content)

section \<open>What the stores promise\<close>

text \<open>
  A file of the store is replaced in one step.  At every moment of a write the file has its old or its new
  bytes, and no other file than the temporary one differs; after a success it has the new ones and nothing else has
  changed; after an error it has the old ones, and if the clean-up works nothing at all has changed.
\<close>

theorem write_atomic_exact:
  assumes "write_atomic io path data fs = (e, states)" "\<not> is_digit (last path)" "fs (temp_path io path) = None"
  shows "(\<forall>g \<in> set states. (g path = fs path \<or> g path = Some data) \<and> (\<forall>q. q \<noteq> path \<and> q \<noteq> temp_path io path \<longrightarrow> g q = fs q))
    \<and> (e = None \<longrightarrow> last states = fs(path \<mapsto> data))
    \<and> (e \<noteq> None \<longrightarrow> last states path = fs path \<and> (io_fault io ''remove'' = None \<longrightarrow> last states = fs))"
proof -
  note w = write_atomic_states [OF assms(1) temp_path_other [OF assms(2)]]
  have l: "last states \<in> set states" using w(1) by simp
  have others: "last states q = fs q" if "q \<noteq> path" "q \<noteq> temp_path io path" for q by (rule w(3) [OF l that])
  have "last states = fs(path \<mapsto> data)" if "e = None"
  proof
    fix q
    show "last states q = (fs(path \<mapsto> data)) q"
      using others [of q] w(4) [OF that] w(6) assms(3) that by (cases "q = path"; cases "q = temp_path io path") simp_all
  qed
  moreover have "last states = fs" if "e \<noteq> None" "io_fault io ''remove'' = None"
  proof
    fix q
    show "last states q = fs q"
      using others [of q] w(5) [OF that(1)] w(6) assms(3) that by (cases "q = path"; cases "q = temp_path io path") simp_all
  qed
  ultimately show ?thesis using w(2,3,5) by blast
qed

text \<open>Calls on a store, one after the other.\<close>

datatype store_call = PutCall string string string | GetCall string | DeleteCall string

fun call_id :: "store_call \<Rightarrow> string" where
  "call_id (PutCall i _ _) = i"
| "call_id (GetCall i) = i"
| "call_id (DeleteCall i) = i"

fun local_calls :: "crypto \<Rightarrow> local_store \<Rightarrow> (disk_io \<times> store_call) list \<Rightarrow> fs \<Rightarrow> fs" where
  "local_calls cy st [] fs = fs"
| "local_calls cy st ((io, PutCall i ct data) # cs) fs = local_calls cy st cs (snd (local_put cy st io i ct data fs))"
| "local_calls cy st ((io, GetCall i) # cs) fs = local_calls cy st cs fs"
| "local_calls cy st ((io, DeleteCall i) # cs) fs = local_calls cy st cs (snd (local_delete st io i fs))"

fun s3_calls :: "crypto \<Rightarrow> 's s3_service \<Rightarrow> s3_store \<Rightarrow> ((string + string) \<times> store_call) list \<Rightarrow> 's \<Rightarrow> 's" where
  "s3_calls cy srv st [] s = s"
| "s3_calls cy srv st ((random, PutCall i ct data) # cs) s = s3_calls cy srv st cs (snd (s3_put cy srv st random i ct data s))"
| "s3_calls cy srv st ((random, GetCall i) # cs) s = s3_calls cy srv st cs (snd (s3_get cy srv st i s))"
| "s3_calls cy srv st ((random, DeleteCall i) # cs) s = s3_calls cy srv st cs (snd (s3_delete srv st i s))"

definition calls_elsewhere :: "('e \<Rightarrow> bool) \<Rightarrow> (string \<Rightarrow> string) \<Rightarrow> string \<Rightarrow> ('e \<times> store_call) list \<Rightarrow> bool" where
  "calls_elsewhere good slot i cs \<longleftrightarrow> list_all (\<lambda>(e, c). good e \<and> slot (call_id c) \<noteq> slot i) cs"

lemma local_calls_touched:
  assumes "calls_elsewhere (\<lambda>io. length (io_nonce io) = nonce_size) (local_path st) i cs" "opens_sealed cy" "ls_root st \<noteq> []"
    "local_objects.touched cy st (local_path st i) fs0 fs"
  shows "local_objects.touched cy st (local_path st i) fs0 (local_calls cy st cs fs)"
  using assms(1,4,2,3)
proof (induction cy st cs fs rule: local_calls.induct)
  case (2 cy st io j ct data cs fs)
  have "local_fit cy st io j fs" "local_path st j \<noteq> local_path st i"
    using 2(2,4,5) by (simp_all add: calls_elsewhere_def local_fit_def)
  then have "local_objects.touched cy st (local_path st i) fs0 (snd (local_put cy st io j ct data fs))"
    by (intro local_objects.touched_calls(1) [OF 2(3)])
  then show ?case using 2 by (simp add: calls_elsewhere_def)
next
  case (4 cy st io j cs fs)
  have "local_path st j \<noteq> local_path st i" using 4(2) by (simp add: calls_elsewhere_def)
  then have "local_objects.touched cy st (local_path st i) fs0 (snd (local_delete st io j fs))"
    by (intro local_objects.touched_calls(3) [OF 4(3)])
  then show ?case using 4 by (simp add: calls_elsewhere_def)
qed (simp_all add: calls_elsewhere_def)


lemma s3_calls_touched:
  assumes "calls_elsewhere (\<lambda>random. \<forall>n. random = Inr n \<longrightarrow> length n = nonce_size) (object_path st) i cs" "opens_sealed cy"
    "s3_objects.touched cy srv st (object_path st i) s0 s"
  shows "s3_objects.touched cy srv st (object_path st i) s0 (s3_calls cy srv st cs s)"
  using assms(1,3,2)
proof (induction cy srv st cs s rule: s3_calls.induct)
  case (2 cy srv st random j ct data cs s)
  have "s3_fit cy random j s" "object_path st j \<noteq> object_path st i"
    using 2(2,4) by (simp_all add: calls_elsewhere_def s3_fit_def)
  then have "s3_objects.touched cy srv st (object_path st i) s0 (snd (s3_put cy srv st random j ct data s))"
    by (intro s3_objects.touched_calls(1) [OF 2(3)])
  then show ?case using 2 by (simp add: calls_elsewhere_def)
next
  case (3 cy srv st random j cs s)
  have "s3_objects.touched cy srv st (object_path st i) s0 (snd (s3_get cy srv st j s))"
    using s3_objects.touched_calls(2) [OF 3(3), where j = j] by simp
  then show ?case using 3 by (simp add: calls_elsewhere_def)
next
  case (4 cy srv st random j cs s)
  have "object_path st j \<noteq> object_path st i" using 4(2) by (simp add: calls_elsewhere_def)
  then have "s3_objects.touched cy srv st (object_path st i) s0 (snd (s3_delete srv st j s))"
    by (intro s3_objects.touched_calls(3) [OF 4(3)])
  then show ?case using 4 by (simp add: calls_elsewhere_def)
qed simp

text \<open>
  C32: a stored artifact is read back.  After a put into the local store that succeeded and any calls, failing or not, on
  identifiers with another file name, a get whose read does not fail returns exactly the bytes that were put, with their
  length and checksum as the put reported them.
\<close>

theorem local_store_reads_back:
  assumes "opens_sealed cy" "ls_root st \<noteq> []" "length (io_nonce io) = nonce_size"
    and "local_put cy st io i ct data fs = (Inr m, fs')"
    and "calls_elsewhere (\<lambda>io. length (io_nonce io) = nonce_size) (local_path st) i cs" "io_fault io' ''read'' = None"
  shows "local_get cy st io' i (local_calls cy st cs fs') = Inr (data, m\<lparr>md_type := []\<rparr>)"
proof -
  have fit: "local_fit cy st io i fs" using assms(1-3) by (simp add: local_fit_def)
  have "local_content cy st (local_calls cy st cs fs') i = Some data"
    using local_objects.reads_back(1) [OF assms(4) _ fit local_calls_touched [OF assms(5,1,2) local_objects.untouched]] by simp
  then show ?thesis
    using local_get_returns [OF _ assms(6)] local_put_stored(2) [OF assms(4) fit] by (simp add: metadata_for_def)
qed

text \<open>
  The S3 store: after a put that succeeded and any calls on other identifiers a get that returns anything returns the bytes
  that were put.
\<close>

theorem s3_store_reads_back:
  assumes "opens_sealed cy" "s3_protocol srv obj" "s3_fit cy random i s"
    and "s3_put cy srv st random i ct data s = (Inr m, s')"
    and "calls_elsewhere (\<lambda>random. \<forall>n. random = Inr n \<longrightarrow> length n = nonce_size) (object_path st) i cs"
    and "s3_get cy srv st i (s3_calls cy srv st cs s') = (Inr (data', m'), s'')"
  shows "data' = data \<and> md_size m' = md_size m \<and> md_sha m' = md_sha m"
  using s3_objects.reads_back(2) [OF assms(4,2,3) s3_calls_touched [OF assms(5,1) s3_objects.untouched] assms(6)] by simp

section \<open>Samples\<close>

definition sample_crypto :: crypto where
  "sample_crypto = \<lparr>cy_sum = (\<lambda>m. CHR ''h'' # m), cy_seal = (\<lambda>key nonce data ad. key @ nonce @ ad @ data),
     cy_open = (\<lambda>key nonce c ad. if has_prefix c (key @ nonce @ ad) then Some (drop (length (key @ nonce @ ad)) c) else None)\<rparr>"

lemma sample_opens: "opens_sealed sample_crypto"
proof -
  have "has_prefix (key @ nonce @ ad @ data) (key @ nonce @ ad)" for key nonce ad data
    using has_prefix_append [of "key @ nonce @ ad" data] by simp
  then show ?thesis by (simp add: opens_sealed_def sample_crypto_def)
qed

definition sample_io :: disk_io where
  "sample_io = \<lparr>io_fault = (\<lambda>_. None), io_short = 0, io_temp = 7, io_nonce = ''123456789012'', io_key = replicate 32 (CHR ''k'')\<rparr>"

definition sample_local :: local_store where
  "sample_local = \<lparr>ls_root = ''/data'', ls_key = replicate 32 (CHR ''k'')\<rparr>"

definition sample_service :: "(string \<Rightarrow> string option) s3_service" where
  "sample_service s rq =
     (case rq_method rq of
        S3Put \<Rightarrow> (S3Answer 200 [] [] None, s(rq_url rq \<mapsto> rq_body rq))
      | S3Get \<Rightarrow> (case s (rq_url rq) of None \<Rightarrow> (S3Answer 404 [] [] None, s) | Some b \<Rightarrow> (S3Answer 200 [] b None, s))
      | S3Delete \<Rightarrow> (S3Answer 204 [] [] None, s(rq_url rq := None))
      | S3Head \<Rightarrow> (S3Answer 200 [] [] None, s))"

lemma sample_protocol: "s3_protocol sample_service (\<lambda>s. s)"
  by (auto simp: s3_protocol_def s3_effect_def sample_service_def succeeded_def split: s3_method.splits option.splits)

definition sample_s3 :: s3_store where
  "sample_s3 = \<lparr>s3_endpoint = ''https://s3'', s3_bucket = ''b'', s3_region = ''us-east-1'', s3_prefix = ''vps'',
     s3_access_key = [], s3_secret_key = [], s3_session_token = [], s3_timeout = 15000000000, s3_retries = 2, s3_backoff = 100000000,
     s3_key = None, s3_sse = [], s3_kms = []\<rparr>"

theorem write_atomic_exact_witness:
  "last (snd (write_atomic sample_io ''/data/a.bin'' ''new'' [''/data/a.bin'' \<mapsto> ''old''])) = [''/data/a.bin'' \<mapsto> ''new'']"
proof -
  obtain e states where w: "write_atomic sample_io ''/data/a.bin'' ''new'' [''/data/a.bin'' \<mapsto> ''old''] = (e, states)" by fastforce
  have "e = None" using w by (auto simp: write_atomic_def sample_io_def Let_def)
  moreover have "\<not> is_digit (last ''/data/a.bin'')" by code_simp
  moreover have "[''/data/a.bin'' \<mapsto> ''old''] (temp_path sample_io ''/data/a.bin'') = None" by code_simp
  ultimately show ?thesis using write_atomic_exact [OF w] by (simp add: w)
qed

theorem local_store_reads_back_witness:
  "local_get sample_crypto sample_local sample_io ''art_1''
     (local_calls sample_crypto sample_local [(sample_io, DeleteCall ''art_2'')]
       (snd (local_put sample_crypto sample_local sample_io ''art_1'' ''text/plain'' ''log'' (\<lambda>_. None))))
   = Inr (''log'', \<lparr>md_id = ''art_1'', md_type = [], md_size = 3, md_sha = ''hlog''\<rparr>)"
proof -
  let ?p = "local_put sample_crypto sample_local sample_io ''art_1'' ''text/plain'' ''log'' (\<lambda>_. None)"
  have "fst ?p = Inr \<lparr>md_id = ''art_1'', md_type = ''text/plain'', md_size = 3, md_sha = ''hlog''\<rparr>" by code_simp
  then have p: "?p = (Inr \<lparr>md_id = ''art_1'', md_type = ''text/plain'', md_size = 3, md_sha = ''hlog''\<rparr>, snd ?p)"
    by (metis prod.collapse)
  have "calls_elsewhere (\<lambda>io. length (io_nonce io) = nonce_size) (local_path sample_local) ''art_1'' [(sample_io, DeleteCall ''art_2'')]"
    "ls_root sample_local \<noteq> []" "length (io_nonce sample_io) = nonce_size" by code_simp+
  from local_store_reads_back [OF sample_opens this(2,3) p this(1), of sample_io] show ?thesis by (simp add: sample_io_def)
qed

end
