(* ===== verification/MigrationProps.thy ===== *)
theory MigrationProps
  imports Migration ArtifactProps
begin

text \<open>
  A migration copies every artifact of the directory and, unless forced, alters nothing that was there; a restoration brings
  every entry of the manifest back.  Both rest on the contract of the two stores (\<open>ArtifactProps\<close>).
\<close>

section \<open>Entries and their contents\<close>

definition holds_entry :: "crypto \<Rightarrow> (string \<Rightarrow> string option) \<Rightarrow> manifest_entry \<Rightarrow> bool" where
  "holds_entry cy content e \<longleftrightarrow> (\<exists>x. content (me_id e) = Some x \<and> cy_sum cy x = me_sha e \<and> int (length x) = me_size e)"

lemma entry_for_sel [simp]:
  "me_id (entry_for i meta) = i" "me_size (entry_for i meta) = md_size meta" "me_sha (entry_for i meta) = md_sha meta"
  by (simp_all add: entry_for_def)

text \<open>What a directory listing satisfies: names are distinct and hold no slash.\<close>

definition names_ok :: "(string \<times> entry_kind) list \<Rightarrow> bool" where
  "names_ok entries \<longleftrightarrow> distinct (map fst entries) \<and> (\<forall>n \<in> fst ` set entries. CHR ''/'' \<notin> set n)"

lemma artifact_name_id: "artifact_name entry \<Longrightarrow> fst entry = entry_id entry @ ''.bin''"
proof -
  assume "artifact_name entry"
  then obtain t where t: "rev (fst entry) = rev ''.bin'' @ t"
    unfolding artifact_name_def has_suffix_def has_prefix_iff by blast
  then have "fst entry = rev t @ ''.bin''" by (metis rev_append rev_rev_ident)
  then show ?thesis by (simp add: entry_id_def trim_suffix_def)
qed

lemma entry_ids_distinct:
  assumes "names_ok entries"
  shows "distinct (map entry_id (filter artifact_name entries))"
proof -
  have "distinct (map fst (filter artifact_name entries))"
    using assms by (simp add: names_ok_def distinct_map_filter)
  moreover have "map fst (filter artifact_name entries) = map (\<lambda>i. i @ ''.bin'') (map entry_id (filter artifact_name entries))"
    by (simp add: artifact_name_id)
  ultimately show ?thesis by (metis distinct_map)
qed

lemma entry_id_plain:
  assumes "names_ok entries" "entry \<in> set entries" "artifact_name entry" "validate_artifact_id (entry_id entry) = None"
  shows "base_name (entry_id entry) = entry_id entry"
proof -
  have "CHR ''/'' \<notin> set (entry_id entry)"
    using assms(1,2) artifact_name_id [OF assms(3)] by (force simp: names_ok_def)
  then show ?thesis
    using base_valid_id(1) [OF assms(4)] by (simp add: split_on_plain)
qed

section \<open>One entry of a migration\<close>

text \<open>What the proofs ask of the service, of AES-GCM and of the prefix, which \<open>NewS3Store\<close> trims.\<close>

definition s3_lawful :: "crypto \<Rightarrow> 's s3_service \<Rightarrow> ('s \<Rightarrow> string \<Rightarrow> string option) \<Rightarrow> s3_store \<Rightarrow> bool" where
  "s3_lawful cy srv obj st \<longleftrightarrow> s3_protocol srv obj \<and> opens_sealed cy \<and> \<not> has_prefix (s3_prefix st) ''/''"

definition nonces_ok :: "string + string \<Rightarrow> bool" where
  "nonces_ok random \<longleftrightarrow> (\<forall>n. random = Inr n \<longrightarrow> length n = nonce_size)"

lemma s3_put_frame:
  assumes "s3_lawful cy srv obj st" "s3_put cy srv st random i ct data s = (r, s')" "nonces_ok random" "j \<noteq> i"
  shows "s3_content cy st obj s' j = s3_content cy st obj s j"
proof (cases "validate_artifact_id i = None \<and> validate_artifact_id j = None")
  case True
  have "s3_fit cy random i s" "s3_protocol srv obj" "\<not> has_prefix (s3_prefix st) ''/''"
    using assms(1,3) by (simp_all add: s3_fit_def s3_lawful_def nonces_ok_def)
  then show ?thesis
    using s3_put_content(3) [OF assms(2)] object_path_clash True assms(4) by blast
next
  case False
  then have "validate_artifact_id j \<noteq> None \<or> s' = s"
    using assms(2) by (cases "validate_artifact_id i") (auto simp: s3_put_def)
  then show ?thesis by (auto simp: s3_content_def)
qed

lemma s3_get_same:
  assumes "s3_lawful cy srv obj st" "s3_get cy srv st i s = (r, s')"
  shows "s3_content cy st obj s' j = s3_content cy st obj s j"
  using s3_get_content(1) [OF assms(2)] assms(1) by (simp add: s3_lawful_def)

lemma s3_get_reads:
  assumes "s3_lawful cy srv obj st" "s3_get cy srv st i s = (Inr (x, m), s')"
  shows "s3_content cy st obj s i = Some x \<and> md_size m = int (length x) \<and> md_sha m = cy_sum cy x"
  using s3_objects.get_reads [OF assms(2), of obj] assms(1) by (simp add: s3_lawful_def)

lemma migrate_copy_spec:
  assumes "s3_lawful cy srv obj st" "nonces_ok random"
    and "migrate_copy cy srv st random i data meta rep s = ((err, rep'), s')"
  shows "j \<noteq> i \<Longrightarrow> s3_content cy st obj s' j = s3_content cy st obj s j"
    "err = None \<Longrightarrow> rep' = rep\<lparr>mr_copied := mr_copied rep + 1, mr_entries := mr_entries rep @ [entry_for i meta]\<rparr>
       \<and> (\<exists>x. s3_content cy st obj s' i = Some x \<and> cy_sum cy x = md_sha meta \<and> length x = length data)"
proof -
  obtain r s1 where p: "s3_put cy srv st random i (md_type meta) data s = (r, s1)" by fastforce
  obtain g s2 where g: "s3_get cy srv st i s1 = (g, s2)" by fastforce
  have "s' = s1 \<or> s' = s2" using assms(3) p g by (auto simp: migrate_copy_def split: sum.splits if_splits)
  then have h: "s3_content cy st obj s' k = s3_content cy st obj s1 k" for k using s3_get_same [OF assms(1) g] by auto
  then show "s3_content cy st obj s' j = s3_content cy st obj s j" if "j \<noteq> i"
    using s3_put_frame [OF assms(1) p assms(2) that] by simp
  assume "err = None"
  then obtain x m where x: "g = Inr (x, m)" "md_sha m = md_sha meta" "length x = length data"
      "rep' = rep\<lparr>mr_copied := mr_copied rep + 1, mr_entries := mr_entries rep @ [entry_for i meta]\<rparr>"
    using assms(3) p g by (auto simp: migrate_copy_def split: sum.splits if_splits)
  have "s3_content cy st obj s1 i = Some x" "cy_sum cy x = md_sha m"
    using s3_get_reads [OF assms(1) g [unfolded x(1)]] by simp_all
  then show "rep' = rep\<lparr>mr_copied := mr_copied rep + 1, mr_entries := mr_entries rep @ [entry_for i meta]\<rparr>
       \<and> (\<exists>x. s3_content cy st obj s' i = Some x \<and> cy_sum cy x = md_sha meta \<and> length x = length data)"
    using x h by simp
qed

text \<open>The possible courses of one entry.\<close>

lemma migrate_entry_cases:
  assumes "migrate_entry cy srv src dst force io random fs entry rep s = ((err, rep'), s')"
  obtains (stopped) "err \<noteq> None" "s' = s"
  | (skipped) "err = None" "\<not> artifact_name entry" "rep' = rep" "s' = s"
  | (read) data meta g s1 rep1 where "artifact_name entry" "validate_artifact_id (entry_id entry) = None"
      "local_get cy src io (entry_id entry) fs = Inr (data, meta)" "s3_get cy srv dst (entry_id entry) s = (g, s1)"
      "rep1 = rep\<lparr>mr_bytes := mr_bytes rep + md_size meta\<rparr>"
      "(\<exists>remote m. g = Inr (remote, m) \<and> s' = s1 \<and> (err = None \<longrightarrow> md_sha m = md_sha meta \<and> length remote = length data
            \<and> rep' = rep1\<lparr>mr_skipped := mr_skipped rep1 + 1, mr_entries := mr_entries rep1 @ [entry_for (entry_id entry) meta]\<rparr>))
       \<or> (\<exists>e. g = Inl e \<and> err \<noteq> None \<and> s' = s1)
       \<or> ((\<exists>m. g = Inl (MissingObject m)) \<or> force)
           \<and> migrate_copy cy srv dst random (entry_id entry) data meta rep1 s1 = ((err, rep'), s')"
proof -
  consider "snd entry = Symlink" | "snd entry \<noteq> Symlink" "\<not> artifact_name entry" | "snd entry \<noteq> Symlink" "artifact_name entry" by blast
  then show ?thesis
  proof cases
    case 1
    then show ?thesis using assms by (intro stopped) (auto simp: migrate_entry_def)
  next
    case 2
    then show ?thesis using assms by (intro skipped) (auto simp: migrate_entry_def)
  next
    case named: 3
    show ?thesis
    proof (cases "validate_artifact_id (entry_id entry)")
      case (Some e)
      then show ?thesis using assms named by (intro stopped) (auto simp: migrate_entry_def)
    next
      case valid: None
      show ?thesis
      proof (cases "local_get cy src io (entry_id entry) fs")
        case (Inl e)
        then show ?thesis using assms named valid by (intro stopped) (auto simp: migrate_entry_def)
      next
        case (Inr found)
        obtain data meta where f: "found = (data, meta)" by fastforce
        obtain g s1 where g: "s3_get cy srv dst (entry_id entry) s = (g, s1)" by fastforce
        show ?thesis
          by (rule read [OF named(2) valid Inr [unfolded f] g refl])
            (use assms named valid Inr f g in \<open>auto simp: migrate_entry_def Let_def split: sum.splits store_error.splits if_splits\<close>)
      qed
    qed
  qed
qed

lemma local_get_reads:
  "local_get cy st io i fs = Inr (x, m) \<Longrightarrow> local_content cy st fs i = Some x \<and> m = metadata_for cy i [] x"
  by (rule local_get_content)

lemma migrate_entry_spec:
  assumes ok: "s3_lawful cy srv obj dst" "nonces_ok random"
    and step: "migrate_entry cy srv src dst force io random fs entry rep s = ((err, rep'), s')"
  shows "j \<noteq> entry_id entry \<Longrightarrow> s3_content cy dst obj s' j = s3_content cy dst obj s j"
    "\<not> force \<Longrightarrow> s3_content cy dst obj s j = Some y \<Longrightarrow> s3_content cy dst obj s' j = Some y"
    "err = None \<Longrightarrow> artifact_name entry \<Longrightarrow> \<exists>e. me_id e = entry_id entry \<and> mr_entries rep' = mr_entries rep @ [e]
       \<and> holds_entry cy (local_content cy src fs) e \<and> holds_entry cy (s3_content cy dst obj s') e
       \<and> validate_artifact_id (me_id e) = None \<and> mr_copied rep' + mr_skipped rep' = mr_copied rep + mr_skipped rep + 1"
    "err = None \<Longrightarrow> \<not> artifact_name entry \<Longrightarrow> rep' = rep \<and> s' = s"
    "\<not> artifact_name entry \<Longrightarrow> s' = s"
proof -
  let ?i = "entry_id entry" and ?c = "s3_content cy dst obj"
  have "(\<forall>j. j \<noteq> ?i \<longrightarrow> ?c s' j = ?c s j) \<and> (\<not> force \<longrightarrow> (\<forall>j y. ?c s j = Some y \<longrightarrow> ?c s' j = Some y))
    \<and> (err = None \<and> artifact_name entry \<longrightarrow> (\<exists>e. me_id e = ?i \<and> mr_entries rep' = mr_entries rep @ [e]
       \<and> holds_entry cy (local_content cy src fs) e \<and> holds_entry cy (?c s') e
       \<and> validate_artifact_id (me_id e) = None \<and> mr_copied rep' + mr_skipped rep' = mr_copied rep + mr_skipped rep + 1))
    \<and> (err = None \<and> \<not> artifact_name entry \<longrightarrow> rep' = rep \<and> s' = s) \<and> (\<not> artifact_name entry \<longrightarrow> s' = s)"
    using step
  proof (cases rule: migrate_entry_cases)
    case (read data meta g s1 rep1)
    have loc: "local_content cy src fs ?i = Some data" "meta = metadata_for cy ?i [] data"
      using local_get_reads [OF read(3)] by simp_all
    have same: "?c s1 j = ?c s j" for j using s3_get_same [OF ok(1) read(4)] .
    have local_holds: "holds_entry cy (local_content cy src fs) (entry_for ?i meta)"
      using loc by (simp add: holds_entry_def)
    from read(6) show ?thesis
    proof (elim disjE exE conjE)
      fix remote m
      assume g: "g = Inr (remote, m)" and s': "s' = s1" and rep: "err = None \<longrightarrow> md_sha m = md_sha meta \<and> length remote = length data
            \<and> rep' = rep1\<lparr>mr_skipped := mr_skipped rep1 + 1, mr_entries := mr_entries rep1 @ [entry_for ?i meta]\<rparr>"
      have "?c s ?i = Some remote" "md_sha m = cy_sum cy remote"
        using s3_get_reads [OF ok(1) read(4) [unfolded g]] by simp_all
      then show ?thesis
        using rep s' same local_holds read(1,2,5) loc by (auto simp: holds_entry_def)
    next
      fix e
      assume "g = Inl e" "err \<noteq> None" "s' = s1"
      then show ?thesis using same read(1) by auto
    next
      fix m
      assume g: "g = Inl (MissingObject m)" and c: "migrate_copy cy srv dst random ?i data meta rep1 s1 = ((err, rep'), s')"
      note spec = migrate_copy_spec [OF ok c]
      have "obj s (object_path dst ?i) = None" using s3_get_content(3) [OF read(4)] ok(1) g by (simp add: s3_lawful_def)
      then have "?c s ?i = None" by (simp add: s3_content_def)
      then have "?c s' j = Some y" if "?c s j = Some y" for j y using spec(1) [of j] same that by fastforce
      then show ?thesis
        using spec same local_holds read(1,2,5) loc by (auto simp: holds_entry_def)
    next
      assume f: force and c: "migrate_copy cy srv dst random ?i data meta rep1 s1 = ((err, rep'), s')"
      note spec = migrate_copy_spec [OF ok c]
      show ?thesis
        using f spec same local_holds read(1,2,5) loc by (auto simp: holds_entry_def)
    qed
  qed auto
  then show "j \<noteq> ?i \<Longrightarrow> ?c s' j = ?c s j"
    "\<not> force \<Longrightarrow> ?c s j = Some y \<Longrightarrow> ?c s' j = Some y"
    "err = None \<Longrightarrow> artifact_name entry \<Longrightarrow> \<exists>e. me_id e = ?i \<and> mr_entries rep' = mr_entries rep @ [e]
       \<and> holds_entry cy (local_content cy src fs) e \<and> holds_entry cy (?c s') e
       \<and> validate_artifact_id (me_id e) = None \<and> mr_copied rep' + mr_skipped rep' = mr_copied rep + mr_skipped rep + 1"
    "err = None \<Longrightarrow> \<not> artifact_name entry \<Longrightarrow> rep' = rep \<and> s' = s" "\<not> artifact_name entry \<Longrightarrow> s' = s" by blast+
qed

section \<open>The whole migration\<close>

lemma holds_entry_cong: "content' (me_id e) = content (me_id e) \<Longrightarrow> holds_entry cy content' e = holds_entry cy content e"
  by (simp add: holds_entry_def)

lemma migrate_entries_frame:
  assumes "s3_lawful cy srv obj dst" "\<forall>k. nonces_ok (randoms k)"
    and "migrate_entries cy srv src dst force ios randoms fs k entries rep s = ((err, rep'), s')"
  shows "j \<notin> entry_id ` set (filter artifact_name entries) \<Longrightarrow> s3_content cy dst obj s' j = s3_content cy dst obj s j"
    "\<not> force \<Longrightarrow> s3_content cy dst obj s j = Some y \<Longrightarrow> s3_content cy dst obj s' j = Some y"
proof -
  let ?c = "s3_content cy dst obj"
  have "(j \<notin> entry_id ` set (filter artifact_name entries) \<longrightarrow> ?c s' j = ?c s j) \<and> (\<not> force \<longrightarrow> ?c s j = Some y \<longrightarrow> ?c s' j = Some y)"
    using assms(3)
  proof (induction entries arbitrary: k rep s)
    case (Cons entry entries)
    obtain err1 rep1 s1 where e: "migrate_entry cy srv src dst force (ios k) (randoms k) fs entry rep s = ((err1, rep1), s1)"
      by (metis prod.exhaust)
    note spec = migrate_entry_spec [OF assms(1) assms(2) [rule_format] e]
    have first: "j \<notin> entry_id ` set (filter artifact_name (entry # entries)) \<longrightarrow> ?c s1 j = ?c s j"
      using spec(1) [of j] spec(5) by auto
    show ?case
    proof (cases err1)
      case None
      then have "migrate_entries cy srv src dst force ios randoms fs (Suc k) entries rep1 s1 = ((err, rep'), s')"
        using Cons.prems e by simp
      from Cons.IH [OF this] first spec(2) [of j y] show ?thesis by auto
    next
      case (Some m)
      then have "s' = s1" using Cons.prems e by simp
      then show ?thesis using first spec(2) by blast
    qed
  qed simp
  then show "j \<notin> entry_id ` set (filter artifact_name entries) \<Longrightarrow> ?c s' j = ?c s j"
    "\<not> force \<Longrightarrow> ?c s j = Some y \<Longrightarrow> ?c s' j = Some y" by blast+
qed

lemma migrate_entries_done:
  assumes "s3_lawful cy srv obj dst" "\<forall>k. nonces_ok (randoms k)" "distinct (map entry_id (filter artifact_name entries))"
    and "migrate_entries cy srv src dst force ios randoms fs k entries rep s = ((None, rep'), s')"
  shows "\<exists>es. mr_entries rep' = mr_entries rep @ es \<and> map me_id es = map entry_id (filter artifact_name entries)
    \<and> (\<forall>e \<in> set es. holds_entry cy (local_content cy src fs) e \<and> holds_entry cy (s3_content cy dst obj s') e
         \<and> validate_artifact_id (me_id e) = None)
    \<and> mr_copied rep' + mr_skipped rep' = mr_copied rep + mr_skipped rep + int (length es)"
  using assms(3,4)
proof (induction entries arbitrary: k rep s)
  case (Cons entry entries)
  obtain err1 rep1 s1 where e: "migrate_entry cy srv src dst force (ios k) (randoms k) fs entry rep s = ((err1, rep1), s1)"
    by (metis prod.exhaust)
  have err1: "err1 = None" and rest: "migrate_entries cy srv src dst force ios randoms fs (Suc k) entries rep1 s1 = ((None, rep'), s')"
    using Cons.prems(2) e by (auto split: option.splits)
  note spec = migrate_entry_spec [OF assms(1) assms(2) [rule_format] e]
  have "distinct (map entry_id (filter artifact_name entries))" using Cons.prems(1) by (auto split: if_splits)
  from Cons.IH [OF this rest] obtain es where es: "mr_entries rep' = mr_entries rep1 @ es"
    "map me_id es = map entry_id (filter artifact_name entries)"
    "\<forall>e \<in> set es. holds_entry cy (local_content cy src fs) e \<and> holds_entry cy (s3_content cy dst obj s') e
         \<and> validate_artifact_id (me_id e) = None"
    "mr_copied rep' + mr_skipped rep' = mr_copied rep1 + mr_skipped rep1 + int (length es)" by blast
  show ?case
  proof (cases "artifact_name entry")
    case True
    from spec(3) [OF err1 True] obtain x where x: "me_id x = entry_id entry" "mr_entries rep1 = mr_entries rep @ [x]"
      "holds_entry cy (local_content cy src fs) x" "holds_entry cy (s3_content cy dst obj s1) x" "validate_artifact_id (me_id x) = None"
      "mr_copied rep1 + mr_skipped rep1 = mr_copied rep + mr_skipped rep + 1" by blast
    have "me_id x \<notin> entry_id ` set (filter artifact_name entries)" using Cons.prems(1) True x(1) by auto
    from migrate_entries_frame(1) [OF assms(1,2) rest this] x(4) have "holds_entry cy (s3_content cy dst obj s') x"
      by (simp add: holds_entry_def)
    then show ?thesis using x es True by (intro exI [of _ "x # es"]) auto
  next
    case False
    then show ?thesis using spec(4) [OF err1 False] es by (intro exI [of _ es]) auto
  qed
qed simp

text \<open>
  What a migration does.  With a service that keeps its promises it alters only objects named after artifacts of the
  directory; unless forced it alters no object that was there, however it ends; and when it reports success, every
  artifact of the directory is listed in the report, once and in order, and the service holds for it an
  object of the same length and checksum.
\<close>

theorem migration_exact:
  assumes "s3_lawful cy srv obj dst" "\<forall>k. nonces_ok (randoms k)" "names_ok entries"
    and "migrate_local_to_s3 cy srv src dst force ios randoms fs (Inr entries) s = ((err, rep), s')"
  shows "(\<forall>j. j \<notin> entry_id ` set (filter artifact_name entries) \<longrightarrow> s3_content cy dst obj s' j = s3_content cy dst obj s j)
    \<and> (\<not> force \<longrightarrow> (\<forall>j y. s3_content cy dst obj s j = Some y \<longrightarrow> s3_content cy dst obj s' j = Some y))
    \<and> (err = None \<longrightarrow> map me_id (mr_entries rep) = map entry_id (filter artifact_name entries)
         \<and> (\<forall>e \<in> set (mr_entries rep). holds_entry cy (local_content cy src fs) e \<and> holds_entry cy (s3_content cy dst obj s') e)
         \<and> mr_copied rep + mr_skipped rep = int (length (mr_entries rep)))"
proof -
  have m: "migrate_entries cy srv src dst force ios randoms fs 0 entries empty_report s = ((err, rep), s')"
    using assms(4) by (simp add: migrate_local_to_s3_def)
  note frame = migrate_entries_frame [OF assms(1,2) m]
  show ?thesis
    using frame migrate_entries_done [OF assms(1,2) entry_ids_distinct [OF assms(3)]] m by (fastforce simp: empty_report_def)
qed

section \<open>Restoring\<close>

lemma local_put_other:
  assumes "local_put cy st io i ct data fs = (r, fs')" "ls_root st \<noteq> []" "base_name j \<noteq> base_name i"
  shows "local_content cy st fs' j = local_content cy st fs j"
proof -
  have "fs' = fs \<or> validate_artifact_id i = None" using assms(1) by (auto simp: local_put_def split: option.splits)
  moreover have "validate_artifact_id i = None \<Longrightarrow> validate_artifact_id j = None \<Longrightarrow> local_path st j \<noteq> local_path st i"
    using local_path_clash [OF _ _ assms(2), of j i] assms(3) by simp
  moreover have "local_content cy st fs' j = local_content cy st fs j" if "validate_artifact_id j \<noteq> None"
    using that by (simp add: local_content_def)
  ultimately show ?thesis
    using local_put_frame [OF assms(1,2), of j] by blast
qed

lemma restored_already_holds: "restored_already cy dst io e fs \<Longrightarrow> holds_entry cy (local_content cy dst fs) e"
  by (auto simp: restored_already_def holds_entry_def dest: local_get_reads split: sum.splits)

lemma restore_entries_done:
  assumes "s3_lawful cy srv obj src" "ls_root dst \<noteq> []" "\<forall>k. length (io_nonce (ios k)) = nonce_size"
    and "distinct (map (base_name \<circ> me_id) es)"
    and "restore_entries cy srv src dst ios k es rep (s, fs) = ((None, rep'), s', fs')"
  shows "(\<forall>e \<in> set es. holds_entry cy (local_content cy dst fs') e)
    \<and> (\<forall>j. base_name j \<notin> base_name ` me_id ` set es \<longrightarrow> local_content cy dst fs' j = local_content cy dst fs j)
    \<and> rr_restored rep' + rr_skipped rep' = rr_restored rep + rr_skipped rep + int (length es)"
  using assms(4,5)
proof (induction es arbitrary: k rep s fs)
  case (Cons e es)
  have d: "distinct (map (base_name \<circ> me_id) es)" "base_name (me_id e) \<notin> base_name ` me_id ` set es"
    using Cons.prems(1) by (auto simp: image_comp comp_def)
  show ?case
  proof (cases "restored_already cy dst (ios k) e fs")
    case True
    then have r: "restore_entries cy srv src dst ios (Suc k) es (rep\<lparr>rr_skipped := rr_skipped rep + 1\<rparr>) (s, fs) = ((None, rep'), s', fs')"
      using Cons.prems(2) by simp
    note ih = Cons.IH [OF d(1) r]
    have "holds_entry cy (local_content cy dst fs') e"
      using restored_already_holds [OF True] ih d(2) by (simp add: holds_entry_def)
    then show ?thesis using ih by auto
  next
    case False
    obtain data meta s1 m1 fs1 where g: "s3_get cy srv src (me_id e) s = (Inr (data, meta), s1)"
        "md_sha meta = me_sha e" "md_size meta = me_size e"
        "local_put cy dst (ios k) (me_id e) (me_type e) data fs = (Inr m1, fs1)"
        "restore_entries cy srv src dst ios (Suc k) es (rep\<lparr>rr_restored := rr_restored rep + 1\<rparr>) (s1, fs1) = ((None, rep'), s', fs')"
      using Cons.prems(2) False by (auto split: sum.splits prod.splits if_splits)
    note ih = Cons.IH [OF d(1) g(5)]
    have fit: "local_fit cy dst (ios k) (me_id e) fs" using assms(1-3) by (simp add: local_fit_def s3_lawful_def)
    have "local_content cy dst fs1 (me_id e) = Some data" by (rule local_put_stored(1) [OF g(4) fit])
    then have "holds_entry cy (local_content cy dst fs') e"
      using ih d(2) s3_get_reads [OF assms(1) g(1)] g(2,3) by (simp add: holds_entry_def)
    moreover have "\<forall>j. base_name j \<noteq> base_name (me_id e) \<longrightarrow> local_content cy dst fs1 j = local_content cy dst fs j"
      using local_put_other [OF g(4) assms(2)] by blast
    ultimately show ?thesis using ih by auto
  qed
qed simp

text \<open>
  C35: migrating and going back.  When a migration has succeeded and the manifest of its report is then restored, without an error, into a
  local store, also one with another key or another root, that store holds every artifact of the directory, with the length and
  the checksum it has in the first one.
\<close>

theorem migrate_restore_roundtrip:
  assumes "s3_lawful cy srv obj st" "\<forall>k. nonces_ok (randoms k)" "names_ok entries"
    and "ls_root dst \<noteq> []" "\<forall>k. length (io_nonce (ios' k)) = nonce_size"
    and "migrate_local_to_s3 cy srv src st force ios randoms fs (Inr entries) s = ((None, rep), s')"
    and "restore_s3_manifest cy srv st (report_manifest now rep) dst ios' s' fs' = ((None, rep'), s'', fs'')"
    and "entry \<in> set entries" "artifact_name entry"
  shows "\<exists>x y. local_content cy src fs (entry_id entry) = Some x \<and> local_content cy dst fs'' (entry_id entry) = Some y
    \<and> cy_sum cy y = cy_sum cy x \<and> length y = length x"
proof -
  have m: "migrate_entries cy srv src st force ios randoms fs 0 entries empty_report s = ((None, rep), s')"
    using assms(6) by (simp add: migrate_local_to_s3_def)
  have es: "map me_id (mr_entries rep) = map entry_id (filter artifact_name entries)"
    "\<forall>e \<in> set (mr_entries rep). holds_entry cy (local_content cy src fs) e \<and> validate_artifact_id (me_id e) = None"
    using migrate_entries_done [OF assms(1,2) entry_ids_distinct [OF assms(3)] m] by (auto simp: empty_report_def)
  obtain s1 where r: "restore_entries cy srv st dst ios' 0 (mr_entries rep) \<lparr>rr_restored = 0, rr_skipped = 0\<rparr> (s1, fs')
      = ((None, rep'), s'', fs'')"
    using assms(7) by (auto simp: restore_s3_manifest_def report_manifest_def Let_def split: prod.splits option.splits)
  have plain: "base_name (me_id e) = me_id e" if "e \<in> set (mr_entries rep)" for e
  proof -
    have "me_id e \<in> set (map entry_id (filter artifact_name entries))" unfolding es(1) [symmetric] using that by simp
    then obtain x where "x \<in> set entries" "artifact_name x" "me_id e = entry_id x" by auto
    then show ?thesis using entry_id_plain [OF assms(3)] es(2) that by metis
  qed
  then have "map (base_name \<circ> me_id) (mr_entries rep) = map me_id (mr_entries rep)" by simp
  then have "distinct (map (base_name \<circ> me_id) (mr_entries rep))"
    using entry_ids_distinct [OF assms(3)] es(1) by simp
  note restored = restore_entries_done [OF assms(1,4,5) this r]
  have "entry_id entry \<in> set (map me_id (mr_entries rep))" using es(1) assms(8,9) by simp
  then obtain e where e: "e \<in> set (mr_entries rep)" "me_id e = entry_id entry" by auto
  then show ?thesis using es(2) restored by (fastforce simp: holds_entry_def)
qed

section \<open>A sample\<close>

definition sample_fs :: fs where
  "sample_fs = snd (local_put sample_crypto sample_local sample_io ''art_1'' ''text/plain'' ''log'' (\<lambda>_. None))"

definition sample_entries :: "(string \<times> entry_kind) list" where
  "sample_entries = [(''.key'', RegularFile), (''art_1.bin'', RegularFile), (''old'', Directory)]"

abbreviation sample_migration where
  "sample_migration \<equiv> migrate_local_to_s3 sample_crypto sample_service sample_local sample_s3 False (\<lambda>_. sample_io)
     (\<lambda>_. Inr ''123456789012'') sample_fs (Inr sample_entries) (\<lambda>_. None)"

definition sample_report :: migration_report where
  "sample_report = \<lparr>mr_bytes = 3, mr_copied = 1, mr_skipped = 0,
     mr_entries = [\<lparr>me_id = ''art_1'', me_type = [], me_size = 3, me_sha = ''hlog''\<rparr>]\<rparr>"

lemma sample_lawful: "s3_lawful sample_crypto sample_service (\<lambda>s. s) sample_s3" "\<forall>k :: nat. nonces_ok (Inr ''123456789012'')"
    "names_ok sample_entries"
  by (simp_all add: s3_lawful_def sample_protocol sample_opens nonces_ok_def nonce_size_def sample_s3_def has_prefix_def
      names_ok_def sample_entries_def)

lemma sample_migrated: "sample_migration = ((None, sample_report), snd sample_migration)"
proof -
  have "fst sample_migration = (None, sample_report)" by code_simp
  then show ?thesis by (metis prod.collapse)
qed

theorem migration_exact_witness:
  "mr_entries sample_report = [\<lparr>me_id = ''art_1'', me_type = [], me_size = 3, me_sha = ''hlog''\<rparr>]
   \<and> holds_entry sample_crypto (s3_content sample_crypto sample_s3 (\<lambda>s. s) (snd sample_migration)) \<lparr>me_id = ''art_1'', me_type = [], me_size = 3, me_sha = ''hlog''\<rparr>"
  using migration_exact [OF sample_lawful(1,2,3) sample_migrated] by (simp add: sample_report_def)

theorem migrate_restore_roundtrip_witness:
  "local_content sample_crypto (sample_local\<lparr>ls_root := ''/restored''\<rparr>)
     (snd (snd (restore_s3_manifest sample_crypto sample_service sample_s3 (report_manifest [] sample_report)
        (sample_local\<lparr>ls_root := ''/restored''\<rparr>) (\<lambda>_. sample_io) (snd sample_migration) (\<lambda>_. None)))) ''art_1'' = Some ''log''"
proof -
  let ?dst = "sample_local\<lparr>ls_root := ''/restored''\<rparr>"
  let ?r = "restore_s3_manifest sample_crypto sample_service sample_s3 (report_manifest [] sample_report) ?dst (\<lambda>_. sample_io)
    (snd sample_migration) (\<lambda>_. None)"
  have "fst ?r = (None, \<lparr>rr_restored = 1, rr_skipped = 0\<rparr>)" by code_simp
  then have r: "?r = ((None, \<lparr>rr_restored = 1, rr_skipped = 0\<rparr>), fst (snd ?r), snd (snd ?r))" by (metis prod.collapse)
  have d: "ls_root ?dst \<noteq> []" "\<forall>k :: nat. length (io_nonce sample_io) = nonce_size"
    by (simp_all add: sample_io_def nonce_size_def)
  have e: "(''art_1.bin'', RegularFile) \<in> set sample_entries" "artifact_name (''art_1.bin'', RegularFile)"
    "entry_id (''art_1.bin'', RegularFile) = ''art_1''" by code_simp+
  have x: "local_content sample_crypto sample_local sample_fs ''art_1'' = Some ''log''" by code_simp
  from migrate_restore_roundtrip [OF sample_lawful(1,2,3) d sample_migrated r e(1,2)] obtain y where
    "local_content sample_crypto ?dst (snd (snd ?r)) ''art_1'' = Some y" "cy_sum sample_crypto y = cy_sum sample_crypto ''log''"
    unfolding e(3) x by auto
  then show ?thesis by (simp add: sample_crypto_def)
qed

end
