(* ===== verification/Lifecycle.thy ===== *)
theory Lifecycle
  imports AutomationProps
begin

text \<open>
  The life of executions and targets under all operations on the job queue together.  \<open>queue_step\<close> is one call of a
  handler or of the background loop, in any order, under any faults and clocks; \<open>evolves\<close> is what every such
  step does to the rows that were there before it.
\<close>

section \<open>How a row may change\<close>

text \<open>The state machine of \<open>executions.status\<close>, closed under composition.\<close>

definition exec_moves :: "exec_status \<Rightarrow> exec_status \<Rightarrow> bool" where
  "exec_moves s s' \<longleftrightarrow> s = s' \<or>
     (case s of
        ECreated \<Rightarrow> s' = ECancelled
      | EQueued \<Rightarrow> s' \<noteq> ECreated
      | ERunning \<Rightarrow> s' = ESucceeded \<or> s' = EFailed
      | _ \<Rightarrow> False)"

definition exec_evolves :: "execution \<Rightarrow> execution \<Rightarrow> bool" where
  "exec_evolves e e' \<longleftrightarrow>
     (\<exists>s st fi er. e' = e\<lparr>ex_status := s, ex_started_at := st, ex_finished_at := fi, ex_error := er\<rparr>)
     \<and> exec_moves (ex_status e) (ex_status e')"

definition target_done :: "target_status \<Rightarrow> bool" where
  "target_done s \<longleftrightarrow> s = TSucceeded \<or> s = TDeadLetter \<or> s = TCancelled"

definition target_evolves :: "target \<Rightarrow> target \<Rightarrow> bool" where
  "target_evolves t t' \<longleftrightarrow>
     et_id t' = et_id t \<and> et_exec t' = et_exec t \<and> et_org t' = et_org t \<and> et_server t' = et_server t
     \<and> et_snapshot t' = et_snapshot t \<and> et_max_attempts t' = et_max_attempts t
     \<and> et_attempt t \<le> et_attempt t'
     \<and> (target_done (et_status t) \<longrightarrow> et_status t' = et_status t \<and> et_attempt t' = et_attempt t)
     \<and> (et_attempt t' = et_attempt t \<and> et_status t' = TRunning \<longrightarrow>
          et_status t = TRunning \<and> et_lease_id t' = et_lease_id t \<and> et_runner t' = et_runner t)"

lemma exec_evolves_refl [simp]: "exec_evolves e e"
  unfolding exec_evolves_def exec_moves_def
  by (intro conjI exI [of _ "ex_status e"] exI [of _ "ex_started_at e"] exI [of _ "ex_finished_at e"]
      exI [of _ "ex_error e"]) simp_all

lemma exec_moves_trans: "exec_moves a b \<Longrightarrow> exec_moves b c \<Longrightarrow> exec_moves a c"
  by (cases a; cases b; cases c) (simp_all add: exec_moves_def)

lemma exec_evolves_trans:
  assumes "exec_evolves a b" "exec_evolves b c"
  shows "exec_evolves a c"
proof -
  obtain s st fi er s' st' fi' er' where
    "b = a\<lparr>ex_status := s, ex_started_at := st, ex_finished_at := fi, ex_error := er\<rparr>"
    "c = b\<lparr>ex_status := s', ex_started_at := st', ex_finished_at := fi', ex_error := er'\<rparr>"
    using assms unfolding exec_evolves_def by blast
  then have "c = a\<lparr>ex_status := s', ex_started_at := st', ex_finished_at := fi', ex_error := er'\<rparr>" by simp
  then show ?thesis using assms exec_moves_trans unfolding exec_evolves_def by blast
qed

lemma target_evolves_refl [simp]: "target_evolves t t"
  by (simp add: target_evolves_def)

lemma target_evolves_trans:
  assumes "target_evolves a b" "target_evolves b c" shows "target_evolves a c"
proof -
  note ab = assms(1) [unfolded target_evolves_def] and bc = assms(2) [unfolded target_evolves_def]
  have same: "et_id c = et_id a" "et_exec c = et_exec a" "et_org c = et_org a" "et_server c = et_server a"
    "et_snapshot c = et_snapshot a" "et_max_attempts c = et_max_attempts a"
    using ab bc by metis+
  have le: "et_attempt a \<le> et_attempt b" "et_attempt b \<le> et_attempt c" using ab bc by blast+
  then have le': "et_attempt a \<le> et_attempt c" by linarith
  have 2: "et_status c = et_status a \<and> et_attempt c = et_attempt a" if "target_done (et_status a)"
    using ab bc that by metis
  have 3: "et_status a = TRunning \<and> et_lease_id c = et_lease_id a \<and> et_runner c = et_runner a"
    if "et_attempt c = et_attempt a" "et_status c = TRunning"
  proof -
    have "et_attempt b = et_attempt a" "et_attempt c = et_attempt b" using le that by simp_all
    then show ?thesis using ab bc that(2) by metis
  qed
  show ?thesis unfolding target_evolves_def using same le' 2 3 by blast
qed

lemma target_evolvesD:
  assumes "target_evolves t t'"
  shows "et_id t' = et_id t" "et_exec t' = et_exec t" "et_server t' = et_server t" "et_snapshot t' = et_snapshot t"
    "et_max_attempts t' = et_max_attempts t" "et_attempt t \<le> et_attempt t'"
    "target_done (et_status t) \<Longrightarrow> et_status t' = et_status t \<and> et_attempt t' = et_attempt t"
    "et_attempt t' = et_attempt t \<Longrightarrow> et_status t' = TRunning \<Longrightarrow> et_lease_id t' = et_lease_id t \<and> et_runner t' = et_runner t"
  using assms unfolding target_evolves_def by blast+

section \<open>How the tables may change\<close>

definition grows :: "('a \<Rightarrow> 'a \<Rightarrow> bool) \<Rightarrow> 'a list \<Rightarrow> 'a list \<Rightarrow> bool" where
  "grows R xs ys \<longleftrightarrow> length xs \<le> length ys \<and> list_all2 R xs (take (length xs) ys)"

lemma grows_refl: "(\<And>x. R x x) \<Longrightarrow> grows R xs xs"
  by (simp add: grows_def list.rel_refl)

lemma grows_append: "(\<And>x. R x x) \<Longrightarrow> grows R xs (xs @ ys)"
  by (simp add: grows_def list.rel_refl)

lemma grows_trans:
  assumes "\<And>x y z. R x y \<Longrightarrow> R y z \<Longrightarrow> R x z" "grows R xs ys" "grows R ys zs"
  shows "grows R xs zs"
proof -
  have "list_all2 R (take (length xs) ys) (take (length xs) (take (length ys) zs))"
    using assms(3) unfolding grows_def by (blast intro: list_all2_takeI)
  moreover have "take (length xs) (take (length ys) zs) = take (length xs) zs"
    using assms(2) by (simp add: grows_def min_def)
  ultimately show ?thesis
    using assms list_all2_trans [of R R R xs "take (length xs) ys" "take (length xs) zs"]
    unfolding grows_def by auto
qed

lemma grows_update:
  assumes "\<And>x. R x x" "\<And>x. x \<in> set xs \<Longrightarrow> P x \<Longrightarrow> R x (f x)"
  shows "grows R xs (update_where P f xs)"
proof -
  have "list_all2 R xs (update_where P f xs)"
    using assms(2) by (induction xs) (auto simp: assms(1))
  then show ?thesis by (simp add: grows_def)
qed

lemma grows_mem:
  assumes "grows R xs ys" "x \<in> set xs"
  obtains y where "y \<in> set ys" "R x y"
proof -
  obtain i where i: "i < length xs" "xs ! i = x" using assms(2) by (auto simp: in_set_conv_nth)
  then have "R x (ys ! i)" using assms(1) by (auto simp: grows_def list_all2_conv_all_nth)
  moreover have "ys ! i \<in> set ys" using i assms(1) by (auto simp: grows_def)
  ultimately show thesis using that by blast
qed

definition evolves :: "db \<Rightarrow> db \<Rightarrow> bool" where
  "evolves d d' \<longleftrightarrow> grows exec_evolves (executions d) (executions d')
     \<and> grows target_evolves (execution_targets d) (execution_targets d')"

lemma evolves_refl [simp]: "evolves d d"
  by (simp add: evolves_def grows_refl)

lemma evolves_trans: "evolves a b \<Longrightarrow> evolves b c \<Longrightarrow> evolves a c"
  unfolding evolves_def by (blast intro: grows_trans [of exec_evolves] grows_trans [of target_evolves] exec_evolves_trans target_evolves_trans)

lemma evolves_cong:
  "executions d' = executions d \<Longrightarrow> execution_targets d' = execution_targets d \<Longrightarrow> evolves d d'"
  by (simp add: evolves_def grows_refl)

lemma evolves_cong_right:
  "executions d' = executions d1 \<Longrightarrow> execution_targets d' = execution_targets d1 \<Longrightarrow> evolves d d' = evolves d d1"
  by (simp add: evolves_def)

lemma evolves_append:
  "executions d' = executions d @ es \<Longrightarrow> execution_targets d' = execution_targets d @ ts \<Longrightarrow> evolves d d'"
  by (simp add: evolves_def grows_append)

lemma evolves_audit: "audit_only d d' \<Longrightarrow> evolves d d'"
  by (rule evolves_cong) (simp_all add: audit_only_tables)

lemma evolves_updates:
  assumes "executions d' = update_where P f (executions d)" "execution_targets d' = update_where Q g (execution_targets d)"
    and "\<And>e. e \<in> set (executions d) \<Longrightarrow> P e \<Longrightarrow> exec_evolves e (f e)"
    and "\<And>t. t \<in> set (execution_targets d) \<Longrightarrow> Q t \<Longrightarrow> target_evolves t (g t)"
  shows "evolves d d'"
  using assms by (simp add: evolves_def grows_update)

lemma evolves_targets:
  assumes "executions d' = executions d" "execution_targets d' = update_where Q g (execution_targets d)"
    and "\<And>t. t \<in> set (execution_targets d) \<Longrightarrow> Q t \<Longrightarrow> target_evolves t (g t)"
  shows "evolves d d'"
  using assms by (simp add: evolves_def grows_update grows_refl)


lemma evolves_owned:
  assumes "evolves d d'" "length (execution_targets d') = length (execution_targets d)" "targets_owned d"
  shows "targets_owned d'"
proof -
  have "et_exec t \<in> ex_id ` set (executions d')" if mem: "t \<in> set (execution_targets d')" for t
  proof -
    obtain i where i: "i < length (execution_targets d')" "execution_targets d' ! i = t"
      using mem by (auto simp: in_set_conv_nth)
    then have t: "et_exec t = et_exec (execution_targets d ! i)" "execution_targets d ! i \<in> set (execution_targets d)"
      using assms(1,2) by (auto simp: evolves_def grows_def list_all2_conv_all_nth target_evolves_def)
    then obtain e where "e \<in> set (executions d)" "ex_id e = et_exec t"
      using assms(3) unfolding targets_owned_def by (metis image_iff image_eqI subsetD)
    moreover have "grows exec_evolves (executions d) (executions d')" using assms(1) by (simp add: evolves_def)
    ultimately obtain e' where "e' \<in> set (executions d')" "exec_evolves e e'" by (blast elim: grows_mem)
    then show ?thesis using \<open>ex_id e = et_exec t\<close> by (auto simp: exec_evolves_def intro: rev_image_eqI)
  qed
  then show ?thesis by (auto simp: targets_owned_def)
qed

section \<open>One operation\<close>

lemma exec_evolvesI:
  assumes "e'\<lparr>ex_status := ex_status e, ex_started_at := ex_started_at e, ex_finished_at := ex_finished_at e,
      ex_error := ex_error e\<rparr> = e" "exec_moves (ex_status e) (ex_status e')"
  shows "exec_evolves e e'"
proof -
  have "e' = e\<lparr>ex_status := ex_status e', ex_started_at := ex_started_at e', ex_finished_at := ex_finished_at e',
      ex_error := ex_error e'\<rparr>"
    by (subst assms(1) [symmetric]) simp
  then show ?thesis using assms(2) unfolding exec_evolves_def by blast
qed

lemma exec_rows_evolve:
  "exec_active e \<Longrightarrow> exec_evolves e (failed_execution_row env e)"
  "exec_active e \<Longrightarrow> exec_evolves e (start_execution_row env e)"
  "ex_status e = ERunning \<Longrightarrow> st = ESucceeded \<or> st = EFailed \<Longrightarrow> exec_evolves e (finished_row env q st e)"
  "cancellable org x e \<Longrightarrow> exec_evolves e (e\<lparr>ex_status := ECancelled, ex_finished_at := f\<rparr>)"
  by (rule exec_evolvesI; auto simp: failed_execution_row_def start_execution_row_def finished_row_def exec_moves_def
      exec_active_def cancellable_def split: exec_status.splits)+

lemma target_rows_evolve:
  "\<not> target_done (et_status t) \<Longrightarrow> target_evolves t (claim_row env rid lid lx t)"
  "et_status t = TRunning \<Longrightarrow> target_evolves t (dead_letter_row env t)"
  "et_status t = TRunning \<Longrightarrow> target_evolves t (requeue_row env b t)"
  "et_status t = TRunning \<Longrightarrow> st \<noteq> TRunning \<Longrightarrow> target_evolves t (completed_row env q st oi ei t)"
  "et_status t = TFailed \<Longrightarrow> target_evolves t (retry_row env b t)"
  "et_status t = TPending \<Longrightarrow> target_evolves t (t\<lparr>et_status := TCancelled\<rparr>)"
  "target_evolves t (t\<lparr>et_lease_expires := Some x\<rparr>)"
  by (simp_all add: target_evolves_def target_done_def claim_row_def dead_letter_row_def requeue_row_def completed_row_def
      result_row_def exhausted_row_def retry_row_def)

lemma set_running_evolves:
  assumes "\<And>t. et_status t = TRunning \<Longrightarrow> target_evolves t (f t)"
  shows "evolves d (set_running_target i f d)"
  by (rule evolves_targets [where Q = "\<lambda>t. et_id t = i \<and> et_status t = TRunning" and g = f])
    (simp_all add: assms set_running_target_def)

lemma reconcile_rows_evolve:
  "reconcile_targets_live env org i ts d = (d', b) \<Longrightarrow> evolves d d' \<and> length (execution_targets d') = length (execution_targets d)"
proof (induction ts arbitrary: i d)
  case (Cons t ts)
  let ?f = "if et_attempt t \<ge> et_max_attempts t then dead_letter_row env else requeue_row env (retry_backoff_seconds (et_attempt t))"
  let ?d1 = "set_running_target (et_id t) ?f d"
  have 1: "evolves d ?d1" by (rule set_running_evolves) (simp add: target_rows_evolve)
  have len: "length (execution_targets ?d1) = length (execution_targets d)" by (simp add: set_running_target_def)
  have more: "evolves d d' \<and> length (execution_targets d') = length (execution_targets d)"
    if "reconcile_targets_live env org (i + 1) ts d2 = (d', b)"
      "executions d2 = executions ?d1" "execution_targets d2 = execution_targets ?d1" for d2
    using Cons.IH [OF that(1)] evolves_trans [OF 1] evolves_trans [of d d2 d'] evolves_cong_right [OF that(2,3)] 1 len that(3)
    by simp
  show ?case
    using Cons.prems 1 len more
    by (auto simp: Let_def record_event_tables split: if_splits option.splits)
qed simp

lemma reconcile_live_evolves:
  assumes "reconcile_live env org d = (d', b)"
  shows "evolves d d' \<and> length (execution_targets d') = length (execution_targets d)"
proof -
  obtain d1 c where live: "reconcile_targets_live env org 0 (expired_targets env org d) d = (d1, c)" by fastforce
  note 1 = reconcile_rows_evolve [OF live]
  have "evolves d1 d2 \<and> execution_targets d2 = execution_targets d1"
    if "finalize_reconciled_executions env org d1 = Some d2" for d2
  proof -
    have T: "execution_targets d2 = update_where (\<lambda>_. False) id (execution_targets d1)"
      using that by (auto simp: finalize_reconciled_executions_def update_where_none split: if_splits)
    have "executions d2 = update_where (doomed org (execution_targets d1)) (failed_execution_row env) (executions d1)"
      using that
      by (auto simp: finalize_reconciled_executions_def doomed_def [abs_def] failed_execution_row_def [abs_def] split: if_splits)
    then have "evolves d1 d2" by (rule evolves_updates [OF _ T]) (simp_all add: exec_rows_evolve doomed_def)
    then show ?thesis using T by (simp add: update_where_none)
  qed
  then show ?thesis
    using assms live 1 evolves_trans [of d d1 d']
    by (auto simp: reconcile_live_def split: if_splits option.splits bool.splits)
qed

lemma reconcile_evolves:
  "reconcile_expired_leases env org d = Some d' \<Longrightarrow> evolves d d' \<and> length (execution_targets d') = length (execution_targets d)"
  using reconcile_live_evolves [of env org d "fst (reconcile_live env org d)" "snd (reconcile_live env org d)"]
  by (auto simp: reconcile_live_eq split: if_splits)

lemma ready_not_done: "claim_ready env t \<Longrightarrow> \<not> target_done (et_status t)"
  by (auto simp: claim_ready_def lease_expired_def target_done_def)

lemma claim_row_evolves:
  assumes "claim_row_tx env org rid lid lx (t, e, s) d = Inr d'"
  shows "evolves d d' \<and> length (execution_targets d') = length (execution_targets d)"
proof -
  obtain evs where d': "d' = d\<lparr>execution_targets := update_where (claim_condition env (et_id t) (et_status t))
        (claim_row env rid lid lx) (execution_targets d),
      executions := update_where (\<lambda>x. ex_id x = ex_id e \<and> exec_active x) (start_execution_row env) (executions d),
      execution_events := evs\<rparr>"
    using claim_row_tx_shape [OF assms] by blast
  have "evolves d d'"
  proof (rule evolves_updates)
    show "executions d' = update_where (\<lambda>x. ex_id x = ex_id e \<and> exec_active x) (start_execution_row env) (executions d)"
      and "execution_targets d' = update_where (claim_condition env (et_id t) (et_status t)) (claim_row env rid lid lx)
        (execution_targets d)" by (simp_all add: d')
  next
    fix x assume "claim_condition env (et_id t) (et_status t) x"
    then have "\<not> target_done (et_status x)" unfolding claim_condition_def using ready_not_done by blast
    then show "target_evolves x (claim_row env rid lid lx x)" by (rule target_rows_evolve(1))
  qed (simp add: exec_rows_evolve)
  then show ?thesis by (simp add: d')
qed

lemma claim_evolves:
  assumes "handle_claim_job env token rid tf (d, th) = (r, d', th')"
  shows "evolves d d' \<and> length (execution_targets d') = length (execution_targets d)"
  using assms
proof (cases rule: claim_cases)
  case (Claimed org d1 t e s)
  have "evolves d d1 \<and> length (execution_targets d1) = length (execution_targets d)"
    using Claimed(2) reconcile_evolves by auto
  then show ?thesis using claim_row_evolves [OF Claimed(4)] evolves_trans by auto
qed (use reconcile_evolves in auto)

lemma renew_evolves:
  assumes "handle_renew_lease env token body d = (r, d')"
  shows "evolves d d' \<and> length (execution_targets d') = length (execution_targets d)"
  using handle_renew_shape [OF assms]
proof (elim disjE exE conjE)
  fix q assume d': "d' = d\<lparr>execution_targets := update_where (holds_lease q)
       (\<lambda>t. t\<lparr>et_lease_expires := Some (go_now env + 300)\<rparr>) (execution_targets d)\<rparr>"
  have "evolves d d'"
    by (rule evolves_targets [where Q = "holds_lease q" and g = "\<lambda>t. t\<lparr>et_lease_expires := Some (go_now env + 300)\<rparr>"])
      (simp_all add: d' target_rows_evolve)
  then show ?thesis by (simp add: d')
qed simp

lemma submit_tx_evolves:
  assumes ok: "queue_ok d" and tx: "submit_result_tx env org q hash d = Inr (m, d')"
  shows "evolves d d' \<and> length (execution_targets d') = length (execution_targets d)"
proof -
  obtain t oi ei d2 where t: "t \<in> set (execution_targets d)" "holds_lease q t"
    and T2: "execution_targets d2 = update_where (\<lambda>x. et_id x = et_id t) (completed_row env q (result_status q t) oi ei)
       (execution_targets d)" and E2: "executions d2 = executions d"
    and branch: "if result_status q t = TFailed
       then m = ''retry_scheduled'' \<and> submit_retry env org q hash (et_attempt t) (et_max_attempts t) d2 = Inr d'
       else m = ''ok'' \<and> submit_complete env org q hash (result_status q t) d2 = Inr d'"
    by (rule submit_tx_prefix [OF tx ok])
  have one: "x = t" if "x \<in> set (execution_targets d)" "et_id x = et_id t" for x
    using that t ok by (auto simp: queue_ok_def queue_inv_def dest: distinct_map_eqD)
  have "et_status t = TRunning" using t(2) by (simp add: holds_lease_def)
  then have 1: "evolves d d2"
    by (intro evolves_targets [OF E2 T2]) (auto dest!: one simp: result_status_def target_rows_evolve)
  have "evolves d2 d' \<and> length (execution_targets d') = length (execution_targets d2)"
  proof (cases "result_status q t = TFailed")
    case True
    then have "execution_targets d' = update_where (\<lambda>x. et_id x = sb_target q \<and> et_status x = TFailed)
        (retry_row env (retry_backoff_seconds (et_attempt t))) (execution_targets d2)" "executions d' = executions d2"
      using branch submit_retry_shape by auto
    then show ?thesis by (auto intro!: evolves_targets [of d' d2] simp: target_rows_evolve)
  next
    case False
    note shape = submit_complete_shape [of env org q hash "result_status q t" d2 d']
    have T: "execution_targets d' = execution_targets d2" using False branch shape by simp
    have E: "executions d' = executions d2 \<or> executions d' = update_where
        (\<lambda>e. ex_id e = sb_exec q \<and> ex_org e = org \<and> ex_status e = ERunning) (finished_row env q (final_exec_status q d2)) (executions d2)"
      using False branch shape by (auto split: if_splits)
    have st: "final_exec_status q d2 = ESucceeded \<or> final_exec_status q d2 = EFailed" by (simp add: final_exec_status_def)
    have "grows exec_evolves (executions d2) (executions d')"
      using E st by (auto intro!: grows_update simp: exec_rows_evolve grows_refl)
    then show ?thesis using T by (simp add: evolves_def grows_refl)
  qed
  then show ?thesis using 1 evolves_trans by (auto simp: T2)
qed

lemma submit_evolves:
  assumes "queue_ok d" "handle_submit_result env token body d = (r, d')"
  shows "evolves d d' \<and> length (execution_targets d') = length (execution_targets d)"
proof -
  have "evolves d (snd (submit_body env org q d)) \<and>
      length (execution_targets (snd (submit_body env org q d))) = length (execution_targets d)" for org q
    using submit_tx_evolves [OF assms(1)] by (auto simp: submit_body_def split: list.split sum.split)
  then show ?thesis using handle_submit_split [of env token body d] assms(2) by (metis evolves_refl snd_conv)
qed

lemma cancel_evolves:
  assumes "sys_ok d" "handle_cancel_execution env a x d = (r, d')"
  shows "evolves d d'"
  using assms(2)
proof (cases rule: cancel_cases)
  case (Cancelled e)
  have inv: "queue_inv (executions d) (execution_targets d)" using assms(1) by (simp add: sys_ok_def queue_ok_def)
  have "status_ok (ex_status e) (statuses (execution_targets d) x)"
    using inv Cancelled(2,3) by (auto simp: queue_inv_def cancellable_def)
  then have pending: "et_status t = TPending" if "t \<in> set (execution_targets d)" "et_exec t = x" for t
    using Cancelled(3) statuses_mem [OF that] by (auto simp: cancellable_def status_ok_def)
  let ?E = "update_where (cancellable (a_org a) x) (\<lambda>e. e\<lparr>ex_status := ECancelled, ex_finished_at := Some (go_now env)\<rparr>) (executions d)"
  have "grows exec_evolves (executions d) ?E" by (rule grows_update) (simp_all add: exec_rows_evolve)
  moreover have "grows target_evolves (execution_targets d)
      (update_where (\<lambda>t. et_exec t = x) (\<lambda>t. t\<lparr>et_status := TCancelled\<rparr>) (execution_targets d))"
    by (rule grows_update) (simp_all add: target_rows_evolve pending)
  ultimately have "evolves d (cancel_rows env (a_org a) x d)"
    by (simp add: evolves_def cancel_rows_def Let_def grows_refl)
  then show ?thesis using Cancelled(5) evolves_audit evolves_trans by blast
qed simp

lemma queued_evolves: "queued_rows e ids org d d' \<Longrightarrow> evolves d d'"
  by (auto simp: queued_rows_def intro: evolves_append)

lemma create_evolves: "handle_create_execution env a kh body d = (r, d') \<Longrightarrow> evolves d d'"
  using handle_create_cases [of env a kh body d r d']
  by (auto simp: created_def Let_def intro: evolves_audit evolves_append)

section \<open>The requests for approval\<close>

text \<open>Every stored request names a target: an approved one is queued without looking at the targets again.\<close>

definition requests_ok :: "db \<Rightarrow> bool" where
  "requests_ok d \<longleftrightarrow> (\<forall>ap \<in> set (approvals d). \<forall>p. ap_payload ap = Some p \<longrightarrow> pl_target_ids p \<noteq> [])"

lemma requests_ok_cong: "approvals d' = approvals d \<Longrightarrow> requests_ok d' = requests_ok d"
  by (simp add: requests_ok_def)

lemma requests_ok_decide:
  "requests_ok d \<Longrightarrow> approvals d' = update_where P (decide_row env st by_user note) (approvals d) \<Longrightarrow> requests_ok d'"
  by (auto simp: requests_ok_def set_update_where decide_row_def split: if_splits)

definition life_ok :: "db \<Rightarrow> bool" where
  "life_ok d \<longleftrightarrow> sys_ok d \<and> requests_ok d"

definition lives :: "db \<Rightarrow> db \<Rightarrow> bool" where
  "lives d d' \<longleftrightarrow> evolves d d' \<and> (life_ok d \<longrightarrow> life_ok d')"

lemma lives_refl [simp]: "lives d d"
  by (simp add: lives_def)

lemma lives_trans: "lives a b \<Longrightarrow> lives b c \<Longrightarrow> lives a c"
  unfolding lives_def using evolves_trans by blast

lemma lives_cong:
  "executions d' = executions d \<Longrightarrow> execution_targets d' = execution_targets d \<Longrightarrow> approvals d' = approvals d \<Longrightarrow> lives d d'"
  using evolves_cong sys_ok_cong requests_ok_cong unfolding lives_def life_ok_def by blast

lemma lives_audit: "audit_only d d' \<Longrightarrow> lives d d'"
  by (rule lives_cong) (simp_all add: audit_only_tables)

lemma receipt_approvals: "insert_result_receipt env org q hash b d = Some d' \<Longrightarrow> approvals d' = approvals d"
  by (auto dest!: insert_receipt_shape)

lemma retry_approvals: "submit_retry env org q hash a m d = Inr d' \<Longrightarrow> approvals d' = approvals d"
  by (auto simp: submit_retry_def Let_def record_event_tables write_audit_tx_tables receipt_approvals split: if_splits option.splits)

lemma complete_approvals: "submit_complete env org q hash st d = Inr d' \<Longrightarrow> approvals d' = approvals d"
  by (cases "left_over q d = 0")
    (auto simp: submit_complete_def Let_def left_over_def
      dest!: record_event_shape write_audit_tx_shape insert_receipt_shape split: if_splits option.splits)

lemma submit_tx_approvals:
  assumes tx: "submit_result_tx env org q hash d = Inr (m, d')"
  shows "approvals d' = approvals d"
proof -
  obtain t ts where sel: "filter (holds_lease q) (execution_targets d) = t # ts" and nf: "\<not> fails env ''submit.select'' 0"
    using tx by (auto simp: submit_result_tx_def Let_def split: if_splits list.splits)
  then obtain oi ei d1 where pers: "persist_execution_artifacts env org (sb_exec q) (sb_target q) (sb_stdout q) (sb_stderr q) d
      = Some (oi, ei, d1)"
    using tx by (auto simp: submit_result_tx_def Let_def split: option.splits)
  have "approvals d1 = approvals d" using persist_artifacts_shape [OF pers] by auto
  then show ?thesis
    using tx unfolding submit_result_tx_def Let_def sel pers
    by (simp only: nf if_False list.case option.case prod.case split: if_split_asm)
      (auto simp: map_sum_def dest!: retry_approvals complete_approvals split: sum.splits)
qed
lemma submit_approvals:
  assumes "handle_submit_result env token body d = (r, d')"
  shows "approvals d' = approvals d"
proof -
  have "approvals (snd (submit_body env org q d)) = approvals d" for org q
    using submit_tx_approvals by (auto simp: submit_body_def split: list.split sum.split)
  then show ?thesis using handle_submit_split [of env token body d] assms by (metis snd_conv)
qed

lemma reconcile_live_approvals: "reconcile_live env org d = (d', b) \<Longrightarrow> approvals d' = approvals d"
proof -
  have rows: "reconcile_targets_live env org i ts d = (d', b) \<Longrightarrow> approvals d' = approvals d" for i ts d d' b
  proof (induction ts arbitrary: i d)
    case (Cons t ts)
    have 1: "approvals (set_running_target x f d) = approvals d" for x f by (simp add: set_running_target_def)
    show ?case
      using Cons.prems by (auto simp: Let_def 1 record_event_tables dest!: Cons.IH split: if_splits option.splits)
  qed simp
  have fin: "finalize_reconciled_executions env org d1 = Some d2 \<Longrightarrow> approvals d2 = approvals d1" for d1 d2
    by (auto simp: finalize_reconciled_executions_def split: if_splits)
  assume "reconcile_live env org d = (d', b)"
  then show ?thesis
    by (auto simp: reconcile_live_def dest!: rows fin split: if_splits option.splits prod.splits bool.splits)
qed

lemma reconcile_approvals: "reconcile_expired_leases env org d = Some d' \<Longrightarrow> approvals d' = approvals d"
  using reconcile_live_approvals [of env org d "fst (reconcile_live env org d)" "snd (reconcile_live env org d)"]
  by (auto simp: reconcile_live_eq split: if_splits)

lemma claim_approvals:
  assumes "handle_claim_job env token rid tf (d, th) = (r, d', th')"
  shows "approvals d' = approvals d"
  using assms
proof (cases rule: claim_cases)
  case (Claimed org d1 t e s)
  have "approvals d1 = approvals d" using Claimed(2) reconcile_approvals by auto
  then show ?thesis using claim_row_tx_shape [OF Claimed(4)] by auto
qed (use reconcile_approvals in auto)

section \<open>The operations that add executions and decide requests\<close>

lemma queued_lives:
  assumes "queued_rows e ids org d d'" "ids \<noteq> []" "ex_status e = EQueued" "requests_ok d \<Longrightarrow> requests_ok d'"
  shows "lives d d'"
  using queued_evolves [OF assms(1)] queued_rows_inv [OF _ assms(1-3)] assms(4) by (auto simp: lives_def life_ok_def)

lemma create_lives:
  assumes "handle_create_execution env a kh body d = (r, d')"
  shows "lives d d'"
proof -
  have "audit_only d d' \<or> approvals d' = approvals d"
    using handle_create_cases [OF assms] by (auto simp: created_def Let_def)
  then show ?thesis
    using create_evolves [OF assms] create_inv [OF _ assms] requests_ok_cong lives_audit
    unfolding lives_def life_ok_def by blast
qed

lemma run_lives:
  assumes "handle_run_runbook env a name kh q d = (r, d')"
  shows "lives d d'"
  using assms
proof (cases rule: run_cases)
  case Nothing
  then show ?thesis by (rule lives_audit)
next
  case (Filed p rb)
  have "rp_targets p \<noteq> []" using Filed(1) unfolding gated_def by blast
  then have "requests_ok d \<Longrightarrow> requests_ok d'"
    using Filed(6) by (auto simp: requests_ok_def new_approval_def approval_payload_of_def)
  then show ?thesis
    using sys_ok_cong [OF Filed(4,5)] evolves_cong [OF Filed(4,5)] by (simp add: lives_def life_ok_def)
next
  case (Queued p rb)
  have "rp_targets p \<noteq> []" using Queued(1) unfolding gated_def by blast
  moreover have "ex_status (runbook_execution_row env a (fresh_id env ''exe_'' ''run.exec'' 0) p q) = EQueued"
    by (simp add: runbook_execution_row_def)
  moreover have "requests_ok d \<Longrightarrow> requests_ok d'" using requests_ok_cong [OF Queued(5)] by simp
  ultimately show ?thesis by (rule queued_lives [OF Queued(4)])
qed

lemma approve_lives:
  assumes "handle_approve env a i note d = (r, d')"
  shows "lives d d'"
  using assms
proof (cases rule: approve_cases)
  case Nothing
  then show ?thesis using lives_audit by blast
next
  case (Approved ap role)
  let ?e = "\<lambda>p. approved_execution_row env (a_org a) (fresh_id env ''exe_'' ''approve.exec'' 0) (ap_requester ap) role (a_user_id a) ap p"
  note tx = approve_tx_done [OF Approved(8)]
  obtain p where p: "ap_payload ap = Some p" "queued_rows (?e p) (pl_target_ids p) (a_org a) d d'"
    using tx by blast
  have st: "ex_status (?e p) = EQueued" by (simp add: approved_execution_row_def)
  have "requests_ok d \<Longrightarrow> requests_ok d'" using tx requests_ok_decide by blast
  moreover have "pl_target_ids p \<noteq> []" if "requests_ok d" using that Approved(3) p(1) by (auto simp: requests_ok_def)
  ultimately show ?thesis
    using queued_evolves [OF p(2)] queued_rows_inv [OF _ p(2) _ st] unfolding lives_def life_ok_def by blast
qed

lemma deny_lives:
  assumes "handle_deny env a i note d = (r, d')"
  shows "lives d d'"
  using assms
proof (cases rule: deny_cases)
  case Nothing
  then show ?thesis using lives_audit by blast
next
  case Denied
  then show ?thesis
    using sys_ok_cong evolves_cong requests_ok_decide unfolding lives_def life_ok_def by metis
qed

section \<open>The background loop\<close>

lemma turn_lives:
  assumes "execute_scheduled_run env (schedule_of s) (claim_schedule env s n d) = (e, d1)"
    and "d2 = d1 \<or> d2 = record_schedule_error (sr_id s) m d1"
  shows "lives d d2"
proof -
  have "lives d (claim_schedule env s n d)" by (rule lives_cong) (simp_all add: claim_schedule_def)
  moreover have "lives (claim_schedule env s n d) d1"
    using assms(1)
  proof (cases rule: execute_scheduled_cases)
    case (Queued x)
    have "approvals d1 = approvals (claim_schedule env s n d)" using Queued(4) by auto
    then have "requests_ok (claim_schedule env s n d) \<Longrightarrow> requests_ok d1" using requests_ok_cong by blast
    moreover have "ex_status x = EQueued" using Queued(1) by (simp add: scheduled_def)
    ultimately show ?thesis by (intro queued_lives [OF Queued(2,3)])
  qed simp
  moreover have "lives d1 d2" using assms(2) by (auto intro!: lives_cong simp: record_schedule_error_def)
  ultimately show ?thesis using lives_trans by blast
qed

lemma run_due_lives: "run_due env paused ss d = Some (e, d') \<Longrightarrow> lives d d'"
proof (induction ss arbitrary: d)
  case (Cons s ss)
  from Cons.prems show ?case
  proof (cases rule: run_due_Cons)
    case (Turn n m msg d1 d2)
    then show ?thesis using turn_lives [OF Turn(3,4)] Cons.IH [of d2] lives_trans by blast
  qed (simp_all add: Cons.IH)
qed simp

lemma reconcile_live_lives: "reconcile_live env org d = (d', b) \<Longrightarrow> lives d d'"
  using reconcile_live_evolves reconcile_live_inv reconcile_live_approvals requests_ok_cong
  unfolding lives_def life_ok_def by blast

lemma reconcile_orgs_lives: "lives d (fst (reconcile_orgs env xs d))"
proof (induction xs arbitrary: d)
  case (Cons x xs)
  obtain d1 b where r: "reconcile_live (env_for x env) x d = (d1, b)" by fastforce
  then show ?case using reconcile_live_lives [OF r] Cons [of d1] lives_trans by (cases b) auto
qed simp

lemma tick_lives:
  assumes "scheduler_tick env d = Some d'"
  shows "lives d d'"
proof -
  obtain e d1 where d1: "run_due_schedules_once env d = Some (e, d1)"
    and d': "d' = fst (reconcile_all_organisation_leases env d1)"
    using assms by (auto simp: scheduler_tick_def split: option.splits)
  have "lives d d1"
    using d1 run_due_lives by (auto simp: run_due_schedules_once_def Let_def split: if_splits sum.splits)
  moreover have "lives d1 d'" by (simp add: d' reconcile_all_organisation_leases_def reconcile_orgs_lives)
  ultimately show ?thesis by (rule lives_trans)
qed

section \<open>All operations together\<close>

text \<open>
  One call that works on the queue, or any other handler (those of servers, runners, tokens, runbook definitions,
  schedules and the control switch), which leave the two tables as they are.
\<close>

inductive queue_step :: "db \<Rightarrow> db \<Rightarrow> bool" where
  created: "handle_create_execution env a kh body d = (r, d') \<Longrightarrow> queue_step d d'"
| cancelled: "handle_cancel_execution env a x d = (r, d') \<Longrightarrow> queue_step d d'"
| run: "handle_run_runbook env a x kh run_body d = (r, d') \<Longrightarrow> queue_step d d'"
| approved: "handle_approve env a x note d = (r, d') \<Longrightarrow> queue_step d d'"
| denied: "handle_deny env a x note d = (r, d') \<Longrightarrow> queue_step d d'"
| claimed: "handle_claim_job env token rid tf (d, th) = (r, d', th') \<Longrightarrow> queue_step d d'"
| renewed: "handle_renew_lease env token result d = (r, d') \<Longrightarrow> queue_step d d'"
| submitted: "handle_submit_result env token result d = (r, d') \<Longrightarrow> queue_step d d'"
| ticked: "scheduler_tick env d = Some d' \<Longrightarrow> queue_step d d'"
| elsewhere: "executions d' = executions d \<Longrightarrow> execution_targets d' = execution_targets d \<Longrightarrow> approvals d' = approvals d \<Longrightarrow>
    queue_step d d'"

lemma same_size_sys_ok:
  "sys_ok d \<Longrightarrow> queue_ok d' \<Longrightarrow> evolves d d' \<and> length (execution_targets d') = length (execution_targets d) \<Longrightarrow> sys_ok d'"
  using evolves_owned [of d d'] by (simp add: sys_ok_def)

lemma same_size_lives:
  assumes "sys_ok d \<Longrightarrow> queue_ok d'" "sys_ok d \<Longrightarrow> evolves d d' \<and> length (execution_targets d') = length (execution_targets d)"
    and "approvals d' = approvals d" "life_ok d"
  shows "life_ok d' \<and> evolves d d'"
  using assms same_size_sys_ok requests_ok_cong unfolding life_ok_def by blast

lemma step_ok: "queue_step d d' \<Longrightarrow> life_ok d \<Longrightarrow> life_ok d' \<and> evolves d d'"
proof (induction rule: queue_step.induct)
  case created
  then show ?case using create_lives unfolding lives_def by blast
next
  case (cancelled env a x d r d')
  from cancelled(1) have "approvals d' = approvals d"
    by (rule cancel_cases) (auto simp: audit_only_tables cancel_rows_def Let_def)
  then show ?case using cancelled cancel_inv cancel_evolves requests_ok_cong unfolding life_ok_def by blast
next
  case run
  then show ?case using run_lives unfolding lives_def by blast
next
  case approved
  then show ?case using approve_lives unfolding lives_def by blast
next
  case denied
  then show ?case using deny_lives unfolding lives_def by blast
next
  case claimed
  then show ?case
    using claim_evolves claim_inv claim_approvals unfolding sys_ok_def by (intro same_size_lives) (auto simp: sys_ok_def)
next
  case (renewed env token result d r d')
  have "approvals d' = approvals d" using handle_renew_shape [OF renewed(1)] by auto
  then show ?case
    using renewed renew_evolves renew_inv by (intro same_size_lives) (auto simp: sys_ok_def)
next
  case (submitted env token result d r d')
  have "queue_ok d'" if "queue_ok d" using submit_inv [OF that, of env token result] submitted by simp
  then show ?case
    using submitted submit_evolves submit_approvals by (intro same_size_lives) (auto simp: sys_ok_def)
next
  case ticked
  then show ?case using tick_lives unfolding lives_def by blast
next
  case elsewhere
  then show ?case using lives_cong unfolding lives_def by blast
qed

lemma steps_ok: "queue_step\<^sup>*\<^sup>* d d' \<Longrightarrow> life_ok d \<Longrightarrow> life_ok d' \<and> evolves d d'"
proof (induction rule: rtranclp_induct)
  case (step y z)
  then show ?case using step_ok evolves_trans by blast
qed simp

text \<open>
  C4: the life of the queue.  From a consistent database (an empty one, for example), whatever calls of the
  handlers and ticks of the background loop follow, with any clocks, faults and orders, the database is consistent:
  every execution's status agrees with its targets' statuses.  Every execution is still there, with the request
  that was authorised (command, actor, environment, risk, approval) unchanged, and its status moved only along the state machine; a finished
  execution never changes status again, and a finished target neither changes status nor starts another attempt; no target makes more attempts than
  its limit.
\<close>

theorem queue_life:
  assumes "life_ok d" "queue_step\<^sup>*\<^sup>* d d'"
  shows "life_ok d'
    \<and> (\<forall>e \<in> set (executions d). \<exists>e' \<in> set (executions d').
         (\<exists>s st fi er. e' = e\<lparr>ex_status := s, ex_started_at := st, ex_finished_at := fi, ex_error := er\<rparr>)
         \<and> exec_moves (ex_status e) (ex_status e')
         \<and> (ex_status e \<in> {ESucceeded, EFailed, ECancelled} \<longrightarrow> ex_status e' = ex_status e))
    \<and> (\<forall>t \<in> set (execution_targets d). \<exists>t' \<in> set (execution_targets d').
         et_id t' = et_id t \<and> et_exec t' = et_exec t \<and> et_server t' = et_server t \<and> et_snapshot t' = et_snapshot t
         \<and> et_attempt t \<le> et_attempt t' \<and> et_attempt t' \<le> et_max_attempts t
         \<and> (et_status t \<in> {TSucceeded, TDeadLetter, TCancelled} \<longrightarrow>
              et_status t' = et_status t \<and> et_attempt t' = et_attempt t))"
proof -
  have life: "life_ok d'" and ev: "evolves d d'" using steps_ok assms by blast+
  then have ok: "sys_ok d'" by (simp add: life_ok_def)
  have exec: "\<exists>e' \<in> set (executions d'). (\<exists>s st fi er. e' = e\<lparr>ex_status := s, ex_started_at := st, ex_finished_at := fi, ex_error := er\<rparr>)
      \<and> exec_moves (ex_status e) (ex_status e') \<and> (ex_status e \<in> {ESucceeded, EFailed, ECancelled} \<longrightarrow> ex_status e' = ex_status e)"
    if e: "e \<in> set (executions d)" for e
  proof -
    have "grows exec_evolves (executions d) (executions d')" using ev by (simp add: evolves_def)
    then obtain e' where "e' \<in> set (executions d')" "exec_evolves e e'" using e by (rule grows_mem)
    moreover have "exec_moves s s' \<Longrightarrow> s \<in> {ESucceeded, EFailed, ECancelled} \<Longrightarrow> s' = s" for s s'
      by (auto simp: exec_moves_def)
    ultimately show ?thesis unfolding exec_evolves_def by blast
  qed
  have "\<exists>t' \<in> set (execution_targets d'). et_id t' = et_id t \<and> et_exec t' = et_exec t \<and> et_server t' = et_server t
      \<and> et_snapshot t' = et_snapshot t \<and> et_attempt t \<le> et_attempt t' \<and> et_attempt t' \<le> et_max_attempts t
      \<and> (et_status t \<in> {TSucceeded, TDeadLetter, TCancelled} \<longrightarrow> et_status t' = et_status t \<and> et_attempt t' = et_attempt t)"
    if t: "t \<in> set (execution_targets d)" for t
  proof -
    have "grows target_evolves (execution_targets d) (execution_targets d')" using ev by (simp add: evolves_def)
    then obtain t' where t': "t' \<in> set (execution_targets d')" "target_evolves t t'" using t by (rule grows_mem)
    have "target_ok t'" using ok t'(1) by (simp add: sys_ok_def queue_ok_def queue_inv_def)
    then have "et_attempt t' \<le> et_max_attempts t" using target_evolvesD(5) [OF t'(2)] by (simp add: target_ok_def)
    moreover have "et_status t' = et_status t \<and> et_attempt t' = et_attempt t" if "et_status t \<in> {TSucceeded, TDeadLetter, TCancelled}"
      by (rule target_evolvesD(7) [OF t'(2)]) (use that in \<open>auto simp: target_done_def\<close>)
    ultimately show ?thesis using t'(1) target_evolvesD(1-4,6) [OF t'(2)] by blast
  qed
  with life exec show ?thesis by blast
qed

text \<open>
  C5: one holder per attempt.  If a target is seen running at some moment, and at any later moment, after any steps, the target
  of that id is running in an attempt of the same number, then it is under the same lease and the same runner:
  no attempt of a target is ever granted to two runners or under two leases.
\<close>

theorem attempt_single_holder:
  assumes "life_ok d" "queue_step\<^sup>*\<^sup>* d d1" "queue_step\<^sup>*\<^sup>* d1 d2"
    and "t1 \<in> set (execution_targets d1)" "t2 \<in> set (execution_targets d2)" "et_id t1 = et_id t2"
    and "et_status t1 = TRunning" "et_status t2 = TRunning" "et_attempt t1 = et_attempt t2"
  shows "et_lease_id t1 = et_lease_id t2 \<and> et_runner t1 = et_runner t2 \<and> et_lease_id t1 \<noteq> None \<and> et_runner t1 \<noteq> None"
proof -
  have life: "life_ok d1" using steps_ok assms(1,2) by blast
  then have ok2: "sys_ok d2" "evolves d1 d2" using steps_ok assms(3) unfolding life_ok_def by blast+
  have ok: "sys_ok d1" using life by (simp add: life_ok_def)
  have "grows target_evolves (execution_targets d1) (execution_targets d2)" using ok2 by (simp add: evolves_def)
  then obtain t where t: "t \<in> set (execution_targets d2)" "target_evolves t1 t" using assms(4) by (rule grows_mem)
  have "distinct (map et_id (execution_targets d2))" using ok2 by (simp add: sys_ok_def queue_ok_def queue_inv_def)
  then have "t = t2" using t(1) assms(5,6) target_evolvesD(1) [OF t(2)] by (auto dest: distinct_map_eqD)
  moreover have "target_ok t1" using ok assms(4) by (simp add: sys_ok_def queue_ok_def queue_inv_def)
  ultimately show ?thesis using target_evolvesD(8) [OF t(2)] assms(7-9) by (simp add: target_ok_def)
qed

lemma one_step: "queue_step d d' \<Longrightarrow> queue_step\<^sup>*\<^sup>* d d'"
  by (rule r_into_rtranclp)

lemma sample_life: "life_ok sample_db"
  using sample_db_sys_ok by (simp add: life_ok_def requests_ok_def) (simp add: sample_db_def empty_db_def)

lemma sample_claim_step: "queue_step sample_db sample_claimed"
  using sample_claim claimed by blast

theorem queue_life_witness: "life_ok sample_claimed"
  by (rule queue_life [OF sample_life one_step [OF sample_claim_step], THEN conjunct1])

definition sample_renewed :: "resp \<times> db" where
  "sample_renewed = handle_renew_lease sample_env ''secret'' (Some sample_result) sample_claimed"

lemma sample_renewed_rows:
  "resp_code (fst sample_renewed) = 200
   \<and> map (\<lambda>t. (et_id t, et_status t, et_attempt t)) (execution_targets (snd sample_renewed)) = [(''t1'', TRunning, 1)]"
  by code_simp

theorem attempt_single_holder_witness:
  "map et_lease_id (execution_targets (snd sample_renewed)) = [Some ''lease_claim.lease0'']"
proof -
  obtain t2 where t2: "execution_targets (snd sample_renewed) = [t2]" "et_id t2 = ''t1''" "et_status t2 = TRunning" "et_attempt t2 = 1"
    using sample_renewed_rows by (auto simp: map_eq_Cons_conv)
  let ?t1 = "claim_row sample_env ''r1'' ''lease_claim.lease0'' 1300 sample_target"
  have "queue_step sample_claimed (snd sample_renewed)"
    by (rule renewed [of sample_env "''secret''" "Some sample_result" _ "fst sample_renewed"]) (simp add: sample_renewed_def)
  then have "et_lease_id ?t1 = et_lease_id t2"
    using attempt_single_holder [OF sample_life one_step [OF sample_claim_step] one_step, of "snd sample_renewed" ?t1 t2] t2
    by (simp add: claim_row_def sample_target_def)
  then show ?thesis by (simp add: t2 claim_row_def)
qed

end
