(* ===== verification/Config.thy ===== *)
theory Config
  imports Artifacts Auth
begin

text \<open>
  \<open>packages/config/config.go\<close>: the configuration that the API, the runner and the artifact migration read from the environment,
  its validation, and the test for a production deployment.  The environment is a function from variable
  names to values, as \<open>os.Getenv\<close> is.
\<close>

section \<open>Numbers and durations\<close>

text \<open>\<open>strconv.Atoi\<close> on a 64-bit machine.\<close>

definition read_decimal :: "string \<Rightarrow> nat option" where
  "read_decimal s = (if s \<noteq> [] \<and> list_all is_digit s then Some (read_nat s) else None)"

definition atoi :: "string \<Rightarrow> int option" where
  "atoi s =
     (let neg = has_prefix s ''-'';
          digits = (if neg \<or> has_prefix s ''+'' then tl s else s)
      in case read_decimal digits of
           None \<Rightarrow> None
         | Some n \<Rightarrow>
             let v = (if neg then - int n else int n)
             in if - (2 ^ 63) \<le> v \<and> v < 2 ^ 63 then Some v else None)"

text \<open>
  \<open>time.ParseDuration\<close>, in nanoseconds.  The fraction of a number is computed in floating point: \<open>frac digits unit\<close>
  is that computation.
\<close>

definition unit_nanos :: "string \<Rightarrow> nat option" where
  "unit_nanos u =
     (if u = ''ns'' then Some 1
      else if u = ''us'' \<or> u = [CHR 0xC2, CHR 0xB5, CHR ''s''] \<or> u = [CHR 0xCE, CHR 0xBC, CHR ''s''] then Some 1000
      else if u = ''ms'' then Some 1000000
      else if u = ''s'' then Some 1000000000
      else if u = ''m'' then Some (60 * 1000000000)
      else if u = ''h'' then Some (3600 * 1000000000)
      else None)"

definition duration_char :: "char \<Rightarrow> bool" where
  "duration_char c \<longleftrightarrow> c = CHR ''.'' \<or> is_digit c"

definition duration_term :: "(string \<Rightarrow> nat \<Rightarrow> nat) \<Rightarrow> string \<Rightarrow> (nat \<times> string) option" where
  "duration_term frac s =
     (let whole = takeWhile is_digit s;
          s1 = dropWhile is_digit s;
          point = has_prefix s1 ''.'';
          digits = (if point then takeWhile is_digit (tl s1) else []);
          s2 = (if point then dropWhile is_digit (tl s1) else s1);
          u = takeWhile (\<lambda>c. \<not> duration_char c) s2;
          s3 = dropWhile (\<lambda>c. \<not> duration_char c) s2;
          v = read_nat whole
      in if v > 2 ^ 63 \<or> (whole = [] \<and> digits = []) then None
         else case unit_nanos u of
             None \<Rightarrow> None
           | Some k \<Rightarrow>
               if v > 2 ^ 63 div k then None
               else let w = v * k + (if read_nat digits > 0 then frac digits k else 0)
                    in if w > 2 ^ 63 then None else Some (w, s3))"

lemma unit_nanos_Nil: "unit_nanos [] = None"
  by (simp add: unit_nanos_def)

lemma duration_term_shorter: "duration_term frac s = Some (w, rest) \<Longrightarrow> length rest < length s"
proof -
  assume d: "duration_term frac s = Some (w, rest)"
  define s1 where "s1 = dropWhile is_digit s"
  define s2 where "s2 = (if has_prefix s1 ''.'' then dropWhile is_digit (tl s1) else s1)"
  have u: "takeWhile (\<lambda>c. \<not> duration_char c) s2 \<noteq> []" and r: "rest = dropWhile (\<lambda>c. \<not> duration_char c) s2"
    using d by (auto simp: duration_term_def Let_def s1_def s2_def unit_nanos_Nil split: if_splits option.splits)
  have "length s2 \<le> length s1" using length_dropWhile_le [of is_digit "tl s1"] by (simp add: s2_def) linarith
  moreover have "length s1 \<le> length s" by (simp add: s1_def length_dropWhile_le)
  moreover have "length rest < length s2"
    using u r takeWhile_dropWhile_id [of "\<lambda>c. \<not> duration_char c" s2] by (metis length_append length_greater_0_conv less_add_same_cancel2)
  ultimately show ?thesis by simp
qed

function duration_sum :: "(string \<Rightarrow> nat \<Rightarrow> nat) \<Rightarrow> nat \<Rightarrow> string \<Rightarrow> nat option" where
  "duration_sum frac d s =
     (if s = [] then Some d
      else if \<not> duration_char (hd s) then None
      else case duration_term frac s of
          None \<Rightarrow> None
        | Some (w, rest) \<Rightarrow>
            let d' = (d + w) mod 2 ^ 64 in if d' > 2 ^ 63 then None else duration_sum frac d' rest)"
  by auto

termination duration_sum
  by (relation "measure (\<lambda>(frac, d, s). length s)") (auto dest: duration_term_shorter)

declare duration_sum.simps [simp del]

definition parse_duration :: "(string \<Rightarrow> nat \<Rightarrow> nat) \<Rightarrow> string \<Rightarrow> int option" where
  "parse_duration frac s =
     (let neg = has_prefix s ''-'';
          t = (if neg \<or> has_prefix s ''+'' then tl s else s)
      in if t = ''0'' then Some 0
         else if t = [] then None
         else case duration_sum frac 0 t of
             None \<Rightarrow> None
           | Some d \<Rightarrow> if neg then Some (- int d) else if d > 2 ^ 63 - 1 then None else Some (int d))"

section \<open>Reading the environment\<close>

type_synonym environ = "string \<Rightarrow> string"

definition env_or_default :: "environ \<Rightarrow> string \<Rightarrow> string \<Rightarrow> string" where
  "env_or_default getenv key fallback = (if getenv key \<noteq> [] then getenv key else fallback)"

text \<open>Text that is no number becomes -1.\<close>

definition duration_env_default :: "(string \<Rightarrow> nat \<Rightarrow> nat) \<Rightarrow> environ \<Rightarrow> string \<Rightarrow> int \<Rightarrow> int" where
  "duration_env_default frac getenv key fallback =
     (let v = trim_space (getenv key)
      in if v = [] then fallback else case parse_duration frac v of None \<Rightarrow> - 1 | Some d \<Rightarrow> d)"

definition duration_env :: "(string \<Rightarrow> nat \<Rightarrow> nat) \<Rightarrow> environ \<Rightarrow> string \<Rightarrow> int" where
  "duration_env frac getenv key =
     (let v = trim_space (getenv key)
      in if v = [] then 0 else case parse_duration frac v of None \<Rightarrow> - 1 | Some d \<Rightarrow> d)"

definition int_env :: "environ \<Rightarrow> string \<Rightarrow> int" where
  "int_env getenv key =
     (let v = trim_space (getenv key)
      in if v = [] then 0 else case atoi v of None \<Rightarrow> - 1 | Some n \<Rightarrow> n)"

definition int_env_default :: "environ \<Rightarrow> string \<Rightarrow> int \<Rightarrow> int" where
  "int_env_default getenv key fallback =
     (let v = trim_space (getenv key)
      in if v = [] then fallback else case atoi v of None \<Rightarrow> - 1 | Some n \<Rightarrow> n)"

section \<open>The configuration\<close>

record backend_config =
  bc_database_driver :: string
  bc_database_url :: string
  bc_postgres_rls :: bool
  bc_artifact_store :: string
  bc_artifacts_dir :: string
  bc_job_dispatch :: string
  bc_scheduler :: string
  bc_event_bus :: string
  bc_nats_url :: string
  bc_nats_stream :: string
  bc_nats_subject :: string
  bc_nats_durable :: string
  bc_nats_max_deliver :: int
  bc_nats_ack_wait :: int
  bc_nats_duplicate_window :: int
  bc_artifact_key :: string
  bc_s3_endpoint :: string
  bc_s3_bucket :: string
  bc_s3_region :: string
  bc_s3_prefix :: string
  bc_s3_access_key_id :: string
  bc_s3_secret_access_key :: string
  bc_s3_session_token :: string
  bc_s3_encryption_key :: string
  bc_s3_server_side_encryption :: string
  bc_s3_sse_kms_key_id :: string
  bc_s3_timeout :: int
  bc_s3_max_retries :: int
  bc_s3_retry_backoff :: int
  bc_approval_expiry_seconds :: int
  bc_ai_provider :: string
  bc_ai_endpoint :: string
  bc_ai_api_key :: string
  bc_ai_model :: string
  bc_ai_timeout :: int
  bc_ai_max_prompt_bytes :: int
  bc_ai_max_response_bytes :: int
  bc_job_signing_key :: string

definition load_approval_expiry :: "environ \<Rightarrow> int" where
  "load_approval_expiry getenv =
     (let v = getenv ''APPROVAL_EXPIRY_SECONDS''
      in if v = [] then 3600 else case atoi v of Some n \<Rightarrow> n | None \<Rightarrow> - 1)"

definition load :: "(string \<Rightarrow> nat \<Rightarrow> nat) \<Rightarrow> environ \<Rightarrow> backend_config" where
  "load frac getenv =
     \<lparr>bc_database_driver = env_or_default getenv ''DATABASE_DRIVER'' ''sqlite'',
      bc_database_url = env_or_default getenv ''DATABASE_URL'' (env_or_default getenv ''DB_PATH'' ''./svrtools.db''),
      bc_postgres_rls = equal_fold (trim_space (getenv ''POSTGRES_RLS'')) ''true'',
      bc_artifact_store = env_or_default getenv ''ARTIFACT_STORE'' ''local'',
      bc_artifacts_dir = clean_path (env_or_default getenv ''ARTIFACTS_DIR''
        (env_or_default getenv ''VPS_ARTIFACTS_DIR'' ''./data/artifacts'')),
      bc_job_dispatch = env_or_default getenv ''JOB_DISPATCH'' ''database'',
      bc_scheduler = env_or_default getenv ''SCHEDULER'' ''embedded'',
      bc_event_bus = env_or_default getenv ''EVENT_BUS'' ''disabled'',
      bc_nats_url = trim_space (getenv ''NATS_URL''),
      bc_nats_stream = env_or_default getenv ''NATS_STREAM'' ''SVRTOOLS_JOBS'',
      bc_nats_subject = env_or_default getenv ''NATS_SUBJECT'' ''svrtools.jobs.available'',
      bc_nats_durable = env_or_default getenv ''NATS_DURABLE'' ''svrtools-runners'',
      bc_nats_max_deliver = int_env_default getenv ''NATS_MAX_DELIVER'' 5,
      bc_nats_ack_wait = duration_env_default frac getenv ''NATS_ACK_WAIT'' (30 * 1000000000),
      bc_nats_duplicate_window = duration_env_default frac getenv ''NATS_DUPLICATE_WINDOW'' (2 * 60 * 1000000000),
      bc_artifact_key = getenv ''ARTIFACT_ENCRYPTION_KEY'',
      bc_s3_endpoint = getenv ''S3_ENDPOINT'',
      bc_s3_bucket = getenv ''S3_BUCKET'',
      bc_s3_region = getenv ''S3_REGION'',
      bc_s3_prefix = getenv ''S3_PREFIX'',
      bc_s3_access_key_id = getenv ''S3_ACCESS_KEY_ID'',
      bc_s3_secret_access_key = getenv ''S3_SECRET_ACCESS_KEY'',
      bc_s3_session_token = getenv ''S3_SESSION_TOKEN'',
      bc_s3_encryption_key = getenv ''S3_ENCRYPTION_KEY'',
      bc_s3_server_side_encryption = getenv ''S3_SERVER_SIDE_ENCRYPTION'',
      bc_s3_sse_kms_key_id = getenv ''S3_SSE_KMS_KEY_ID'',
      bc_s3_timeout = duration_env frac getenv ''S3_TIMEOUT'',
      bc_s3_max_retries = int_env getenv ''S3_MAX_RETRIES'',
      bc_s3_retry_backoff = duration_env frac getenv ''S3_RETRY_BACKOFF'',
      bc_approval_expiry_seconds = load_approval_expiry getenv,
      bc_ai_provider = trim_space (getenv ''AI_PROVIDER''),
      bc_ai_endpoint = trim_space (getenv ''AI_ENDPOINT''),
      bc_ai_api_key = getenv ''AI_API_KEY'',
      bc_ai_model = trim_space (getenv ''AI_MODEL''),
      bc_ai_timeout = duration_env frac getenv ''AI_TIMEOUT'',
      bc_ai_max_prompt_bytes = int_env getenv ''AI_MAX_PROMPT_BYTES'',
      bc_ai_max_response_bytes = int_env getenv ''AI_MAX_RESPONSE_BYTES'',
      bc_job_signing_key = trim_space (getenv ''JOB_SIGNING_KEY'')\<rparr>"

definition s3_config_of :: "backend_config \<Rightarrow> s3_config" where
  "s3_config_of c =
     \<lparr>sc_endpoint = bc_s3_endpoint c, sc_bucket = bc_s3_bucket c, sc_region = bc_s3_region c, sc_prefix = bc_s3_prefix c,
      sc_access_key = bc_s3_access_key_id c, sc_secret_key = bc_s3_secret_access_key c,
      sc_session_token = bc_s3_session_token c, sc_encryption_key = bc_s3_encryption_key c,
      sc_sse = bc_s3_server_side_encryption c, sc_kms = bc_s3_sse_kms_key_id c, sc_timeout = bc_s3_timeout c,
      sc_retries = bc_s3_max_retries c, sc_backoff = bc_s3_retry_backoff c\<rparr>"

definition dispatch_settings :: "backend_config \<Rightarrow> string \<times> string \<times> string \<times> string \<times> int \<times> int \<times> int" where
  "dispatch_settings c = (bc_nats_url c, bc_nats_stream c, bc_nats_subject c, bc_nats_durable c, bc_nats_max_deliver c,
     bc_nats_ack_wait c, bc_nats_duplicate_window c)"

definition tier :: "backend_config \<Rightarrow> string" where
  "tier c =
     (if bc_database_driver c = ''sqlite'' \<and> bc_artifact_store c = ''local'' \<and> bc_job_dispatch c = ''database''
        \<and> bc_scheduler c = ''embedded'' \<and> bc_event_bus c = ''disabled''
      then ''self-contained'' else ''extended'')"

section \<open>Validation\<close>

text \<open>\<open>Unsupported variable value expected\<close>: the messages that quote a value.\<close>

datatype config_error = Unsupported string string string | InvalidS3 string | Misconfigured string

fun first_error :: "(bool \<times> 'e) list \<Rightarrow> 'e option" where
  "first_error [] = None"
| "first_error ((bad, e) # rest) = (if bad then Some e else first_error rest)"

text \<open>\<open>parse_url\<close> is \<open>url.Parse\<close>: the scheme and the host.\<close>

definition url_error :: "(string \<Rightarrow> (string \<times> string) option) \<Rightarrow> string list \<Rightarrow> string \<Rightarrow> bool" where
  "url_error parse_url schemes u =
     (case parse_url u of None \<Rightarrow> True | Some (scheme, host) \<Rightarrow> host = [] \<or> scheme \<notin> set schemes)"

definition validate_config ::
  "(string \<Rightarrow> (string \<times> string) option) \<Rightarrow> environ \<Rightarrow> backend_config \<Rightarrow> config_error option" where
  "validate_config parse_url getenv c =
     (let jetstream = (bc_job_dispatch c = ''jetstream'');
          s3 = (if bc_artifact_store c = ''s3'' then new_s3_store parse_url (s3_config_of c) else Inl []);
          ai = (bc_ai_provider c \<noteq> [])
      in first_error
       [(bc_database_driver c \<noteq> ''sqlite'' \<and> bc_database_driver c \<noteq> ''postgres'',
           Unsupported ''DATABASE_DRIVER'' (bc_database_driver c) ''sqlite or postgres''),
        (bc_artifact_store c \<noteq> ''local'' \<and> bc_artifact_store c \<noteq> ''s3'',
           Unsupported ''ARTIFACT_STORE'' (bc_artifact_store c) ''local or s3''),
        (bc_job_dispatch c \<noteq> ''database'' \<and> \<not> jetstream,
           Unsupported ''JOB_DISPATCH'' (bc_job_dispatch c) ''database or jetstream''),
        (bc_scheduler c \<noteq> ''embedded'' \<and> bc_scheduler c \<noteq> ''external'',
           Unsupported ''SCHEDULER'' (bc_scheduler c) ''embedded or external''),
        (bc_event_bus c \<noteq> ''disabled'' \<and> bc_event_bus c \<noteq> ''nats'',
           Unsupported ''EVENT_BUS'' (bc_event_bus c) ''disabled or nats''),
        (bc_database_driver c = ''postgres'' \<and> getenv ''DATABASE_URL'' = [],
           Misconfigured ''DATABASE_URL is required when DATABASE_DRIVER=postgres''),
        (bc_postgres_rls c \<and> bc_database_driver c \<noteq> ''postgres'',
           Misconfigured ''POSTGRES_RLS=true requires DATABASE_DRIVER=postgres''),
        (bc_artifact_store c = ''s3'' \<and> (case s3 of Inl _ \<Rightarrow> True | Inr _ \<Rightarrow> False),
           InvalidS3 (case s3 of Inl e \<Rightarrow> e | Inr _ \<Rightarrow> [])),
        (jetstream \<and> bc_nats_url c = [], Misconfigured ''NATS_URL is required when JOB_DISPATCH=jetstream''),
        (jetstream \<and> url_error parse_url [''nats'', ''tls'', ''ws'', ''wss''] (bc_nats_url c),
           Misconfigured ''NATS_URL must be an absolute nats, tls, ws, or wss URL''),
        (bc_event_bus c = ''nats'' \<and> bc_nats_url c = [], Misconfigured ''NATS_URL is required when EVENT_BUS=nats''),
        (jetstream \<and> (bc_nats_stream c = [] \<or> bc_nats_subject c = [] \<or> bc_nats_durable c = []),
           Misconfigured ''NATS_STREAM, NATS_SUBJECT, and NATS_DURABLE are required when JOB_DISPATCH=jetstream''),
        (jetstream \<and> (bc_nats_max_deliver c < 1 \<or> bc_nats_max_deliver c > 20),
           Misconfigured ''NATS_MAX_DELIVER must be between 1 and 20''),
        (jetstream \<and> bc_nats_ack_wait c \<le> 0, Misconfigured ''NATS_ACK_WAIT must be positive''),
        (jetstream \<and> bc_nats_duplicate_window c \<le> 0, Misconfigured ''NATS_DUPLICATE_WINDOW must be positive''),
        (bc_artifact_store c = ''local'' \<and> bc_artifacts_dir c = ''.'',
           Misconfigured ''ARTIFACTS_DIR must not be the current directory''),
        (bc_approval_expiry_seconds c < 60 \<or> bc_approval_expiry_seconds c > 30 * 24 * 60 * 60,
           Misconfigured ''APPROVAL_EXPIRY_SECONDS must be between 60 and 2592000''),
        (ai \<and> bc_ai_provider c \<noteq> ''openai-compatible'',
           Unsupported ''AI_PROVIDER'' (bc_ai_provider c) ''openai-compatible''),
        (ai \<and> bc_ai_endpoint c = [], Misconfigured ''AI_ENDPOINT is required when AI_PROVIDER is configured''),
        (ai \<and> bc_ai_model c = [], Misconfigured ''AI_MODEL is required when AI_PROVIDER is configured''),
        (ai \<and> url_error parse_url [''http'', ''https''] (bc_ai_endpoint c),
           Misconfigured ''AI_ENDPOINT must be an absolute http or https URL''),
        (bc_ai_timeout c < 0 \<or> bc_ai_max_prompt_bytes c < 0 \<or> bc_ai_max_response_bytes c < 0,
           Misconfigured ''AI limits must not be negative''),
        (bc_job_signing_key c = [],
           Misconfigured ''JOB_SIGNING_KEY is required so runners can verify that the control plane authorised each job''),
        (length (bc_job_signing_key c) < min_key_length,
           Misconfigured (''JOB_SIGNING_KEY must be at least '' @ nat_str min_key_length @ '' characters''))])"

text \<open>\<open>ProductionMode\<close>: the loop over the variables of \<open>env_keys\<close>.\<close>

definition env_keys :: "string list" where
  "env_keys = [''VPS_ENV'', ''APP_ENV'', ''ENVIRONMENT'']"

definition development_names :: "string list" where
  "development_names = [''dev'', ''development'', ''local'', ''test'', ''testing'', ''ci'']"

fun production_from :: "environ \<Rightarrow> string list \<Rightarrow> bool" where
  "production_from getenv [] = True"
| "production_from getenv (k # ks) =
     (let v = to_lower (trim_space (getenv k))
      in if v = [] then production_from getenv ks else v \<notin> set development_names)"

definition production_mode :: "environ \<Rightarrow> bool" where
  "production_mode getenv = production_from getenv env_keys"

section \<open>What a validated configuration guarantees\<close>

lemma first_error_None: "first_error xs = None \<longleftrightarrow> (\<forall>(bad, e) \<in> set xs. \<not> bad)"
  by (induction xs rule: first_error.induct) auto

lemma first_error_skip: "\<not> bad \<Longrightarrow> first_error rest = None \<Longrightarrow> first_error ((bad, e) # rest) = None"
  by simp

lemma trim_space_twice: "trim_space (trim_space s) = trim_space s"
  using trim_space_ends [of s] by (cases "trim_space s = []") (auto intro: trim_space_fix)

lemma long_key_signs:
  assumes "s = trim_space t" "min_key_length \<le> length s"
  shows "new_signer s = Inr s"
proof -
  have "trim_space s = s" "s \<noteq> []" using assms by (auto simp: trim_space_twice min_key_length_def)
  then show ?thesis using assms(2) by (simp add: new_signer_def Let_def)
qed

text \<open>What a number read by the environment functions says about the variable.\<close>

lemma int_env_valid: "0 \<le> int_env getenv k \<Longrightarrow> trim_space (getenv k) = [] \<or> atoi (trim_space (getenv k)) = Some (int_env getenv k)"
  by (auto simp: int_env_def Let_def split: if_splits option.splits)

lemma duration_env_valid:
  "0 \<le> duration_env frac getenv k \<Longrightarrow>
     trim_space (getenv k) = [] \<or> parse_duration frac (trim_space (getenv k)) = Some (duration_env frac getenv k)"
  by (auto simp: duration_env_def Let_def split: if_splits option.splits)

lemma approval_expiry_valid:
  "0 \<le> load_approval_expiry getenv \<Longrightarrow>
     getenv ''APPROVAL_EXPIRY_SECONDS'' = [] \<or> atoi (getenv ''APPROVAL_EXPIRY_SECONDS'') = Some (load_approval_expiry getenv)"
  by (auto simp: load_approval_expiry_def Let_def split: if_splits option.splits)

lemma load_sel:
  "bc_job_signing_key (load frac getenv) = trim_space (getenv ''JOB_SIGNING_KEY'')"
  "bc_approval_expiry_seconds (load frac getenv) = load_approval_expiry getenv"
  "bc_ai_timeout (load frac getenv) = duration_env frac getenv ''AI_TIMEOUT''"
  "bc_ai_max_prompt_bytes (load frac getenv) = int_env getenv ''AI_MAX_PROMPT_BYTES''"
  "bc_ai_max_response_bytes (load frac getenv) = int_env getenv ''AI_MAX_RESPONSE_BYTES''"
  "bc_ai_provider (load frac getenv) = trim_space (getenv ''AI_PROVIDER'')"
  "bc_artifact_store (load frac getenv) = env_or_default getenv ''ARTIFACT_STORE'' ''local''"
  "bc_artifacts_dir (load frac getenv) =
     clean_path (env_or_default getenv ''ARTIFACTS_DIR'' (env_or_default getenv ''VPS_ARTIFACTS_DIR'' ''./data/artifacts''))"
  "bc_database_driver (load frac getenv) = env_or_default getenv ''DATABASE_DRIVER'' ''sqlite''"
  "bc_job_dispatch (load frac getenv) = env_or_default getenv ''JOB_DISPATCH'' ''database''"
  "bc_scheduler (load frac getenv) = env_or_default getenv ''SCHEDULER'' ''embedded''"
  "bc_event_bus (load frac getenv) = env_or_default getenv ''EVENT_BUS'' ''disabled''"
  "bc_postgres_rls (load frac getenv) = equal_fold (trim_space (getenv ''POSTGRES_RLS'')) ''true''"
  by (simp_all add: load_def)

text \<open>
  A configuration that \<open>Validate\<close> accepts can be started with: \<open>jobsign.NewSigner\<close> accepts its signing key, so every job is
  signed; the artifact store it names can be constructed; PostgreSQL has an explicit URL; JetStream has a URL and positive, bounded
  delivery parameters; approvals live between a minute and thirty days; and none of the limits was read
  from text that is not a number.
\<close>

theorem validated_config:
  assumes "validate_config parse_url getenv c = None" "c = load frac getenv"
  shows "new_signer (bc_job_signing_key c) = Inr (bc_job_signing_key c)
    \<and> (bc_artifact_store c = ''local'' \<and> bc_artifacts_dir c \<noteq> ''.''
       \<or> bc_artifact_store c = ''s3'' \<and> (\<exists>st. new_s3_store parse_url (s3_config_of c) = Inr st))
    \<and> (bc_database_driver c = ''sqlite'' \<and> \<not> bc_postgres_rls c
       \<or> bc_database_driver c = ''postgres'' \<and> getenv ''DATABASE_URL'' \<noteq> [])
    \<and> (bc_job_dispatch c = ''database''
       \<or> bc_job_dispatch c = ''jetstream'' \<and> bc_nats_url c \<noteq> [] \<and> bc_nats_max_deliver c \<in> {1..20}
         \<and> 0 < bc_nats_ack_wait c \<and> 0 < bc_nats_duplicate_window c)
    \<and> bc_approval_expiry_seconds c \<in> {60..2592000}
    \<and> (getenv ''APPROVAL_EXPIRY_SECONDS'' = [] \<or> atoi (getenv ''APPROVAL_EXPIRY_SECONDS'') = Some (bc_approval_expiry_seconds c))
    \<and> (trim_space (getenv ''AI_MAX_PROMPT_BYTES'') = []
       \<or> atoi (trim_space (getenv ''AI_MAX_PROMPT_BYTES'')) = Some (bc_ai_max_prompt_bytes c))
    \<and> (trim_space (getenv ''AI_TIMEOUT'') = []
       \<or> parse_duration frac (trim_space (getenv ''AI_TIMEOUT'')) = Some (bc_ai_timeout c))"
proof -
  let ?key = "bc_job_signing_key c"
  note ok = assms(1) [unfolded validate_config_def Let_def first_error_None, simplified]
  have "min_key_length \<le> length ?key" "?key = trim_space (getenv ''JOB_SIGNING_KEY'')"
    using ok by (simp_all add: assms(2) load_sel)
  then have key: "new_signer ?key = Inr ?key" by (rule long_key_signs [rotated])
  have s3: "bc_artifact_store c = ''s3'' \<longrightarrow> (\<exists>st. new_s3_store parse_url (s3_config_of c) = Inr st)"
    using ok by (cases "new_s3_store parse_url (s3_config_of c)") auto
  have limits: "60 \<le> bc_approval_expiry_seconds c" "bc_approval_expiry_seconds c \<le> 2592000"
    "0 \<le> bc_ai_timeout c" "0 \<le> bc_ai_max_prompt_bytes c"
    using ok by simp_all
  have texts: "getenv ''APPROVAL_EXPIRY_SECONDS'' = [] \<or> atoi (getenv ''APPROVAL_EXPIRY_SECONDS'') = Some (bc_approval_expiry_seconds c)"
    "trim_space (getenv ''AI_MAX_PROMPT_BYTES'') = []
       \<or> atoi (trim_space (getenv ''AI_MAX_PROMPT_BYTES'')) = Some (bc_ai_max_prompt_bytes c)"
    "trim_space (getenv ''AI_TIMEOUT'') = []
       \<or> parse_duration frac (trim_space (getenv ''AI_TIMEOUT'')) = Some (bc_ai_timeout c)"
    using limits approval_expiry_valid [of getenv] int_env_valid [of getenv] duration_env_valid [of frac getenv]
    by (simp_all add: assms(2) load_sel)
  have store: "bc_artifact_store c = ''local'' \<or> bc_artifact_store c = ''s3''" "bc_artifact_store c = ''local'' \<Longrightarrow> bc_artifacts_dir c \<noteq> ''.''"
    and db: "bc_database_driver c = ''sqlite'' \<or> bc_database_driver c = ''postgres''"
      "bc_database_driver c = ''postgres'' \<Longrightarrow> getenv ''DATABASE_URL'' \<noteq> []"
      "bc_postgres_rls c \<Longrightarrow> bc_database_driver c = ''postgres''"
    and nats: "bc_job_dispatch c = ''database'' \<or> bc_job_dispatch c = ''jetstream''"
      "bc_job_dispatch c = ''jetstream'' \<Longrightarrow> bc_nats_url c \<noteq> []"
      "bc_job_dispatch c = ''jetstream'' \<Longrightarrow> \<not> bc_nats_max_deliver c < 1"
      "bc_job_dispatch c = ''jetstream'' \<Longrightarrow> \<not> 20 < bc_nats_max_deliver c"
      "bc_job_dispatch c = ''jetstream'' \<Longrightarrow> \<not> bc_nats_ack_wait c \<le> 0"
      "bc_job_dispatch c = ''jetstream'' \<Longrightarrow> \<not> bc_nats_duplicate_window c \<le> 0"
    using ok by blast+
  have stream: "bc_nats_url c \<noteq> [] \<and> bc_nats_max_deliver c \<in> {1..20} \<and> 0 < bc_nats_ack_wait c \<and> 0 < bc_nats_duplicate_window c"
    if "bc_job_dispatch c = ''jetstream''"
    using nats(2-6) [OF that] by simp
  have range: "bc_approval_expiry_seconds c \<in> {60..2592000}" using limits by simp
  show ?thesis
    by (intro conjI key range texts) (use store db nats(1) stream s3 in blast)+
qed

text \<open>What \<open>withAuth\<close> and \<open>validateAuthConfig\<close> read from the environment.\<close>

definition auth_config_of :: "environ \<Rightarrow> auth_config" where
  "auth_config_of getenv =
     \<lparr>cfg_shared_secret = getenv ''VPS_WEB_SHARED_SECRET'', cfg_dev_auth = getenv ''VPS_DEV_AUTH'',
      cfg_production = production_mode getenv\<rparr>"

lemma production_from_first:
  "\<not> production_from getenv ks \<longleftrightarrow>
     (case filter (\<lambda>k. trim_space (getenv k) \<noteq> []) ks of
        [] \<Rightarrow> False | k # _ \<Rightarrow> to_lower (trim_space (getenv k)) \<in> set development_names)"
  by (induction ks) (auto simp: Let_def to_lower_def)

text \<open>
  C31: the header-based development identity fails closed.  It is available exactly when \<open>VPS_DEV_AUTH\<close> is true
  and the first of the three environment variables that is not blank holds, up to case and spaces, one of the six
  development names; with no such variable, or any other name in it, the process counts as production.
\<close>

theorem dev_bypass_fails_closed:
  "dev_auth_enabled (auth_config_of getenv) \<longleftrightarrow>
     equal_fold (trim_space (getenv ''VPS_DEV_AUTH'')) ''true''
     \<and> (case filter (\<lambda>k. trim_space (getenv k) \<noteq> []) [''VPS_ENV'', ''APP_ENV'', ''ENVIRONMENT''] of
          [] \<Rightarrow> False
        | k # _ \<Rightarrow> to_lower (trim_space (getenv k)) \<in> {''dev'', ''development'', ''local'', ''test'', ''testing'', ''ci''})"
proof -
  have names: "set development_names = {''dev'', ''development'', ''local'', ''test'', ''testing'', ''ci''}"
    by (simp add: development_names_def)
  show ?thesis
    using production_from_first [of getenv env_keys]
    by (simp only: dev_auth_enabled_def auth_config_of_def auth_config.simps production_mode_def names [symmetric]
        env_keys_def [symmetric]) simp
qed

definition sample_environ :: environ where
  "sample_environ = (\<lambda>_. [])(''JOB_SIGNING_KEY'' := '' 0123456789abcdef0123456789abcdef'', ''AI_TIMEOUT'' := ''90s'')"

lemma sample_environ_reads:
  "trim_space (sample_environ ''JOB_SIGNING_KEY'') = ''0123456789abcdef0123456789abcdef''"
  "trim_space (sample_environ ''AI_TIMEOUT'') = ''90s''" "trim_space [] = []"
  "clean_path ''./data/artifacts'' = ''data/artifacts''"
  by code_simp+

lemma sample_duration: "parse_duration (\<lambda>_ _. 0) ''90s'' = Some 90000000000"
  by (simp add: parse_duration_def duration_sum.simps duration_term_def unit_nanos_def has_prefix_def is_digit_def
      duration_char_def Let_def read_nat_def code_def)

lemma sample_environ_unset:
  "k \<noteq> ''JOB_SIGNING_KEY'' \<Longrightarrow> k \<noteq> ''AI_TIMEOUT'' \<Longrightarrow> sample_environ k = []"
  by (simp add: sample_environ_def)

definition sample_backend :: backend_config where
  "sample_backend = load (\<lambda>_ _. 0) sample_environ"

lemma sample_config_loads:
  "bc_job_signing_key sample_backend = ''0123456789abcdef0123456789abcdef''"
  "bc_ai_timeout sample_backend = 90000000000"
  "bc_ai_provider sample_backend = []"
  "bc_ai_max_prompt_bytes sample_backend = 0"
  "bc_ai_max_response_bytes sample_backend = 0"
  "bc_approval_expiry_seconds sample_backend = 3600"
  "bc_artifact_store sample_backend = ''local''"
  "bc_artifacts_dir sample_backend = ''data/artifacts''"
  "bc_database_driver sample_backend = ''sqlite''"
  "bc_job_dispatch sample_backend = ''database''"
  "bc_scheduler sample_backend = ''embedded''"
  "bc_event_bus sample_backend = ''disabled''"
  "\<not> bc_postgres_rls sample_backend"
  by (simp_all add: sample_backend_def load_sel sample_environ_reads sample_duration duration_env_def int_env_def load_approval_expiry_def env_or_default_def
      equal_fold_def to_lower_def sample_environ_unset)

theorem validated_config_witness:
  "new_signer ''0123456789abcdef0123456789abcdef'' = Inr ''0123456789abcdef0123456789abcdef''
   \<and> parse_duration (\<lambda>_ _. 0) ''90s'' = Some 90000000000"
proof -
  have v: "validate_config (\<lambda>_. None) sample_environ sample_backend = None"
    unfolding validate_config_def Let_def
    by (intro first_error_skip first_error.simps(1); simp add: sample_config_loads min_key_length_def)
  show ?thesis using validated_config [OF v sample_backend_def] by (simp add: sample_config_loads sample_environ_reads sample_duration)
qed

end
