(* ===== verification/Backup.thy ===== *)
theory Backup
  imports Config
begin

text \<open>
  \<open>apps/api/cmd/backup/main.go\<close>: creating, verifying and restoring a backup of the SQLite database and the local artifacts.
  A disk is a list of entries, each a file, a directory or a symbolic link, at a cleaned path; \<open>backup_io\<close> says for
  one run which system calls fail, and holds what is outside the program: SQLite, JSON, AES-GCM, SHA-256 and the clock.
\<close>

section \<open>Disks\<close>

text \<open>A link leads to a file or nowhere.\<close>

datatype node = FileNode string | DirNode | LinkNode "string option"

type_synonym loc = "bool \<times> string list"
type_synonym disk = "(loc \<times> node) list"

definition loc_of :: "string \<Rightarrow> loc" where
  "loc_of p = (rooted_path p, path_elems p)"

definition beneath :: "loc \<Rightarrow> loc \<Rightarrow> bool" where
  "beneath a b \<longleftrightarrow> fst b = fst a \<and> take (length (snd a)) (snd b) = snd a"

definition below :: "loc \<Rightarrow> loc \<Rightarrow> string list" where
  "below a b = drop (length (snd a)) (snd b)"

definition node_at :: "disk \<Rightarrow> string \<Rightarrow> node option" where
  "node_at d p = map_of d (loc_of p)"

definition put_node :: "string \<Rightarrow> node \<Rightarrow> disk \<Rightarrow> disk" where
  "put_node p n d = (loc_of p, n) # filter (\<lambda>(q, _). q \<noteq> loc_of p) d"

definition drop_tree :: "string \<Rightarrow> disk \<Rightarrow> disk" where
  "drop_tree p d = filter (\<lambda>(q, _). \<not> beneath (loc_of p) q) d"

definition move_tree :: "string \<Rightarrow> string \<Rightarrow> disk \<Rightarrow> disk" where
  "move_tree a b d =
     map (\<lambda>(q, n). if beneath (loc_of a) q then ((fst (loc_of b), snd (loc_of b) @ below (loc_of a) q), n) else (q, n))
       (filter (\<lambda>(q, _). beneath (loc_of a) q \<or> \<not> beneath (loc_of b) q) d)"

section \<open>The manifest\<close>

record file_record =
  fr_path :: string
  fr_size :: int
  fr_sha :: string

record backup_manifest =
  mf_version :: int
  mf_created_at :: string
  mf_database :: string
  mf_artifacts_dir :: string
  mf_artifact_files :: int
  mf_encryption_key :: string
  mf_key_recovery :: string
  mf_files :: "file_record list"

text \<open>
  \<open>bi_fault call path\<close> is the error of a system call; \<open>bi_short path\<close> how much of the data a failed copy leaves there.  \<open>bi_decode\<close> and
  \<open>bi_encode\<close> are \<open>json.Unmarshal\<close> and \<open>json.MarshalIndent\<close>, \<open>bi_rfc3339\<close> says that \<open>time.Parse\<close> accepts a text,
  \<open>bi_quote\<close> is \<open>strconv.Quote\<close>.  \<open>bi_vacuum\<close>, \<open>bi_integrity\<close> and \<open>bi_foreign_keys\<close> are SQLite on the bytes of a database.
\<close>

record backup_io =
  bi_fault :: "string \<Rightarrow> string \<Rightarrow> string option"
  bi_short :: "string \<Rightarrow> nat"
  bi_temp :: string
  bi_stamp :: "string \<Rightarrow> string"
  bi_now :: string
  bi_getenv :: environ
  bi_crypto :: crypto
  bi_nonce :: string
  bi_decode :: "string \<Rightarrow> string + backup_manifest"
  bi_encode :: "backup_manifest \<Rightarrow> string"
  bi_rfc3339 :: "string \<Rightarrow> bool"
  bi_quote :: "string \<Rightarrow> string"
  bi_vacuum :: "string \<Rightarrow> string + string"
  bi_integrity :: "string \<Rightarrow> string + string"
  bi_foreign_keys :: "string \<Rightarrow> string + bool"

definition manifest_version :: int where "manifest_version = 1"

definition encrypted_key_path :: string where "encrypted_key_path = ''artifacts/.key.enc''"

section \<open>System calls\<close>

datatype stat_result = StatError string | NoEntry | Entry node

text \<open>\<open>os.Stat\<close> follows links, \<open>os.Lstat\<close> does not.\<close>

definition lstat :: "backup_io \<Rightarrow> disk \<Rightarrow> string \<Rightarrow> stat_result" where
  "lstat io d p =
     (case bi_fault io ''lstat'' p of
        Some e \<Rightarrow> StatError e
      | None \<Rightarrow> (case node_at d p of None \<Rightarrow> NoEntry | Some n \<Rightarrow> Entry n))"

definition stat :: "backup_io \<Rightarrow> disk \<Rightarrow> string \<Rightarrow> stat_result" where
  "stat io d p =
     (case bi_fault io ''stat'' p of
        Some e \<Rightarrow> StatError e
      | None \<Rightarrow>
          (case node_at d p of
             None \<Rightarrow> NoEntry
           | Some (LinkNode None) \<Rightarrow> NoEntry
           | Some (LinkNode (Some b)) \<Rightarrow> Entry (FileNode b)
           | Some n \<Rightarrow> Entry n))"

definition no_such_file :: string where "no_such_file = ''no such file or directory''"

definition read_bytes :: "backup_io \<Rightarrow> disk \<Rightarrow> string \<Rightarrow> string + string" where
  "read_bytes io d p =
     (case bi_fault io ''read'' p of
        Some e \<Rightarrow> Inl e
      | None \<Rightarrow>
          (case node_at d p of
             None \<Rightarrow> Inl no_such_file
           | Some (LinkNode None) \<Rightarrow> Inl no_such_file
           | Some (LinkNode (Some b)) \<Rightarrow> Inr b
           | Some DirNode \<Rightarrow> Inl ''is a directory''
           | Some (FileNode b) \<Rightarrow> Inr b))"

text \<open>\<open>os.MkdirAll\<close>; the directories above are not tracked.\<close>

definition mkdir_all :: "backup_io \<Rightarrow> string \<Rightarrow> disk \<Rightarrow> string option \<times> disk" where
  "mkdir_all io p d =
     (case bi_fault io ''mkdir'' p of
        Some e \<Rightarrow> (Some e, d)
      | None \<Rightarrow>
          (case node_at d p of
             None \<Rightarrow> (None, put_node p DirNode d)
           | Some DirNode \<Rightarrow> (None, d)
           | Some _ \<Rightarrow> (Some ''not a directory'', d)))"

definition write_bytes :: "backup_io \<Rightarrow> string \<Rightarrow> string \<Rightarrow> disk \<Rightarrow> string option \<times> disk" where
  "write_bytes io p b d =
     (case bi_fault io ''write'' p of
        Some e \<Rightarrow> (Some e, d)
      | None \<Rightarrow> if node_at d p = Some DirNode then (Some ''is a directory'', d) else (None, put_node p (FileNode b) d))"

definition rename_path :: "backup_io \<Rightarrow> string \<Rightarrow> string \<Rightarrow> disk \<Rightarrow> string option \<times> disk" where
  "rename_path io a b d =
     (case bi_fault io ''rename'' a of
        Some e \<Rightarrow> (Some e, d)
      | None \<Rightarrow>
          if node_at d a = None then (Some no_such_file, d)
          else if node_at d b = Some DirNode then (Some ''file exists'', d)
          else if node_at d a = Some DirNode \<and> node_at d b \<noteq> None then (Some ''not a directory'', d)
          else if beneath (loc_of a) (loc_of b) then (Some ''invalid argument'', d)
          else (None, move_tree a b d))"

definition remove_all :: "backup_io \<Rightarrow> string \<Rightarrow> disk \<Rightarrow> string option \<times> disk" where
  "remove_all io p d =
     (case bi_fault io ''remove'' p of Some e \<Rightarrow> (Some e, d) | None \<Rightarrow> (None, drop_tree p d))"

definition mkdir_temp :: "backup_io \<Rightarrow> string \<Rightarrow> string \<Rightarrow> disk \<Rightarrow> (string + string) \<times> disk" where
  "mkdir_temp io dir stem d =
     (let p = join_path dir (stem @ bi_temp io)
      in case bi_fault io ''mkdirtemp'' dir of
           Some e \<Rightarrow> (Inl e, d)
         | None \<Rightarrow> if node_at d p \<noteq> None then (Inl ''file exists'', d) else (Inr p, put_node p DirNode d))"

section \<open>Files\<close>

definition exists_path :: "backup_io \<Rightarrow> disk \<Rightarrow> string \<Rightarrow> bool" where
  "exists_path io d p = (case stat io d p of Entry _ \<Rightarrow> True | _ \<Rightarrow> False)"

definition describe_file :: "backup_io \<Rightarrow> disk \<Rightarrow> string \<Rightarrow> string \<Rightarrow> string + file_record" where
  "describe_file io d p manifest_path =
     (case lstat io d p of
        StatError e \<Rightarrow> Inl e
      | NoEntry \<Rightarrow> Inl no_such_file
      | Entry (LinkNode _) \<Rightarrow> Inl (''symlinks are not supported: '' @ p)
      | Entry _ \<Rightarrow>
          (case read_bytes io d p of
             Inl e \<Rightarrow> Inl e
           | Inr b \<Rightarrow> Inr \<lparr>fr_path = manifest_path, fr_size = int (length b), fr_sha = cy_sum (bi_crypto io) b\<rparr>))"

definition copy_file :: "backup_io \<Rightarrow> string \<Rightarrow> string \<Rightarrow> disk \<Rightarrow> string option \<times> disk" where
  "copy_file io source destination d =
     (case bi_fault io ''open'' source of
        Some e \<Rightarrow> (Some e, d)
      | None \<Rightarrow>
          if node_at d source \<in> {None, Some (LinkNode None)} then (Some no_such_file, d)
          else case mkdir_all io (dir_name destination) d of
              (Some e, d1) \<Rightarrow> (Some e, d1)
            | (None, d1) \<Rightarrow>
                (case write_bytes io destination [] d1 of
                   (Some e, d2) \<Rightarrow> (Some e, d2)
                 | (None, d2) \<Rightarrow>
                     (case read_bytes io d2 source of
                        Inl e \<Rightarrow> (Some e, d2)
                      | Inr b \<Rightarrow>
                          (case bi_fault io ''copy'' destination of
                             Some e \<Rightarrow> (Some e, put_node destination (FileNode (take (bi_short io destination) b)) d2)
                           | None \<Rightarrow> (bi_fault io ''sync'' destination, put_node destination (FileNode b) d2)))))"

section \<open>Checking a manifest\<close>

definition hex_char :: "char \<Rightarrow> bool" where
  "hex_char c \<longleftrightarrow> is_digit c \<or> lower_char c \<in> {CHR ''a'', CHR ''b'', CHR ''c'', CHR ''d'', CHR ''e'', CHR ''f''}"

definition validate_relative_path :: "backup_io \<Rightarrow> string \<Rightarrow> string option" where
  "validate_relative_path io p =
     (let normalized = map (\<lambda>c. if c = CHR 0x5C then CHR ''/'' else c) p;
          clean = clean_path normalized
      in if p = [] \<or> has_prefix normalized ''/'' \<or> clean \<noteq> normalized \<or> clean = ''..'' \<or> has_prefix clean ''../''
            \<or> (length clean \<ge> 2 \<and> clean ! 1 = CHR '':'')
         then Some (''unsafe manifest path '' @ bi_quote io p) else None)"

definition is_artifact :: "backup_manifest \<Rightarrow> file_record \<Rightarrow> bool" where
  "is_artifact m f \<longleftrightarrow> has_prefix (fr_path f) (mf_artifacts_dir m @ ''/'')"

definition count_artifact_records :: "backup_manifest \<Rightarrow> int" where
  "count_artifact_records m = int (count_where (is_artifact m) (mf_files m))"

definition contains_manifest_path :: "file_record list \<Rightarrow> string \<Rightarrow> bool" where
  "contains_manifest_path fs wanted \<longleftrightarrow> (\<exists>f \<in> set fs. fr_path f = wanted)"

definition record_checks :: "backup_io \<Rightarrow> file_record \<Rightarrow> (bool \<times> string) list" where
  "record_checks io f =
     [(fr_size f < 0 \<or> length (fr_sha f) \<noteq> 64, ''manifest has invalid file record for '' @ bi_quote io (fr_path f)),
      (\<not> list_all hex_char (fr_sha f), ''manifest has invalid SHA-256 for '' @ bi_quote io (fr_path f))]"

definition validate_manifest :: "backup_io \<Rightarrow> backup_manifest \<Rightarrow> string option" where
  "validate_manifest io m =
     (let databases = count_where (\<lambda>f. fr_path f = mf_database m) (mf_files m);
          artifacts = count_where (\<lambda>f. fr_path f \<noteq> mf_database m \<and> is_artifact m f) (mf_files m)
      in first_error
       ([(mf_created_at m = [], ''backup manifest is missing created_at''),
         (\<not> bi_rfc3339 io (mf_created_at m), ''backup manifest has invalid created_at''),
         (mf_artifact_files m < 0, ''backup manifest has a negative artifact count''),
         (mf_encryption_key m \<noteq> [] \<and> mf_encryption_key m \<noteq> encrypted_key_path,
            ''backup manifest has unsupported encryption key path '' @ bi_quote io (mf_encryption_key m)),
         (mf_encryption_key m = encrypted_key_path \<and> mf_key_recovery m = [],
            ''backup manifest is missing key recovery guidance'')]
        @ concat (map (record_checks io) (mf_files m))
        @ [(databases \<noteq> 1, ''manifest must contain exactly one database record, found '' @ nat_str databases),
           (int artifacts \<noteq> mf_artifact_files m, ''manifest artifact count does not match file inventory''),
           (mf_encryption_key m \<noteq> [] \<and> \<not> contains_manifest_path (mf_files m) (mf_encryption_key m),
              ''manifest encryption key record is missing from file inventory'')]))"

definition read_manifest :: "backup_io \<Rightarrow> disk \<Rightarrow> string \<Rightarrow> string + backup_manifest" where
  "read_manifest io d dir =
     (case read_bytes io d (join_path dir ''manifest.json'') of
        Inl e \<Rightarrow> Inl (''read manifest: '' @ e)
      | Inr b \<Rightarrow>
          (case bi_decode io b of
             Inl e \<Rightarrow> Inl (''parse manifest: '' @ e)
           | Inr m \<Rightarrow>
               if mf_version m \<noteq> manifest_version \<or> mf_database m \<noteq> ''svrtools.db'' \<or> mf_artifacts_dir m \<noteq> ''artifacts''
               then Inl ''unsupported or incomplete backup manifest'' else Inr m))"

text \<open>SQLite creates a database that is not there.\<close>

definition validate_sqlite_database :: "backup_io \<Rightarrow> disk \<Rightarrow> string \<Rightarrow> string option" where
  "validate_sqlite_database io d p =
     (let bytes = (case read_bytes io d p of Inl _ \<Rightarrow> [] | Inr b \<Rightarrow> b)
      in case bi_fault io ''sqlite'' p of
           Some e \<Rightarrow> Some e
         | None \<Rightarrow>
             (case bi_integrity io bytes of
                Inl e \<Rightarrow> Some e
              | Inr integrity \<Rightarrow>
                  if \<not> equal_fold integrity ''ok'' then Some (''integrity_check returned '' @ bi_quote io integrity)
                  else (case bi_foreign_keys io bytes of
                      Inl e \<Rightarrow> Some e
                    | Inr violations \<Rightarrow> if violations then Some ''foreign_key_check reported violations'' else None)))"

section \<open>Verifying a backup\<close>

fun verify_files :: "backup_io \<Rightarrow> disk \<Rightarrow> string \<Rightarrow> string list \<Rightarrow> file_record list \<Rightarrow> string option" where
  "verify_files io d dir seen [] = None"
| "verify_files io d dir seen (f # fs) =
     (case validate_relative_path io (fr_path f) of
        Some e \<Rightarrow> Some e
      | None \<Rightarrow>
          if fr_path f \<in> set seen then Some (''manifest contains duplicate path '' @ bi_quote io (fr_path f))
          else case describe_file io d (join_path dir (fr_path f)) (fr_path f) of
              Inl e \<Rightarrow> Some e
            | Inr actual \<Rightarrow>
                if fr_size actual \<noteq> fr_size f \<or> fr_sha actual \<noteq> fr_sha f
                then Some (''integrity check failed for '' @ fr_path f)
                else verify_files io d dir (fr_path f # seen) fs)"

text \<open>\<open>filepath.Walk\<close>: the entries at and beneath a directory, in the order of their path elements.\<close>

fun elems_le :: "string list \<Rightarrow> string list \<Rightarrow> bool" where
  "elems_le [] ys = True"
| "elems_le (x # xs) [] = False"
| "elems_le (x # xs) (y # ys) = (if x = y then elems_le xs ys else str_le x y)"

definition walk :: "disk \<Rightarrow> string \<Rightarrow> (string list \<times> node) list" where
  "walk d dir =
     order_by (\<lambda>x y. elems_le (fst x) (fst y))
       (map (\<lambda>(q, n). (below (loc_of dir) q, n)) (filter (\<lambda>(q, _). beneath (loc_of dir) q) d))"

definition rel_path :: "string list \<Rightarrow> string" where
  "rel_path es = (if es = [] then ''.'' else join_with ''/'' es)"

definition extra_files :: "disk \<Rightarrow> string \<Rightarrow> string list \<Rightarrow> string list" where
  "extra_files d dir seen =
     filter (\<lambda>rel. rel \<noteq> ''manifest.json'' \<and> rel \<notin> set seen)
       (map (rel_path \<circ> fst) (filter (\<lambda>(_, n). n \<noteq> DirNode) (walk d dir)))"

definition verify_backup :: "backup_io \<Rightarrow> disk \<Rightarrow> string \<Rightarrow> string option" where
  "verify_backup io d dir =
     (case read_manifest io d dir of
        Inl e \<Rightarrow> Some e
      | Inr m \<Rightarrow>
          (case validate_manifest io m of
             Some e \<Rightarrow> Some e
           | None \<Rightarrow>
               (case verify_files io d dir [] (mf_files m) of
                  Some e \<Rightarrow> Some e
                | None \<Rightarrow>
                    (case validate_sqlite_database io d (join_path dir (mf_database m)) of
                       Some e \<Rightarrow> Some (''database integrity check failed: '' @ e)
                     | None \<Rightarrow>
                         let extras = extra_files d dir (map fr_path (mf_files m))
                         in if mf_artifact_files m \<noteq> count_artifact_records m
                            then Some ''manifest artifact count does not match file inventory''
                            else case bi_fault io ''walk'' dir of
                                Some e \<Rightarrow> Some (''inspect backup inventory: '' @ e)
                              | None \<Rightarrow>
                                  if extras \<noteq> []
                                  then Some (''backup contains files not listed in manifest: '' @ join_with '', '' (order_by str_le extras))
                                  else None))))"

section \<open>The key of the artifacts\<close>

definition configured_backup_key :: "environ \<Rightarrow> string + string" where
  "configured_backup_key getenv =
     (let v = trim_space (getenv ''BACKUP_ENCRYPTION_KEY'')
      in if v = []
         then Inl ''BACKUP_ENCRYPTION_KEY is required when artifacts/.key is present; keep it in a separate protected secret store''
         else case encryption_key v of
             None \<Rightarrow> Inl ''BACKUP_ENCRYPTION_KEY must be a base64-encoded 32-byte key''
           | Some k \<Rightarrow> Inr k)"

definition encrypt_backup_key :: "backup_io \<Rightarrow> string \<Rightarrow> string \<Rightarrow> string + string" where
  "encrypt_backup_key io key wrapping_key =
     (case bi_fault io ''random'' [] of
        Some e \<Rightarrow> Inl e
      | None \<Rightarrow> Inr (bi_nonce io @ cy_seal (bi_crypto io) wrapping_key (bi_nonce io) key encrypted_key_path))"

definition decrypt_backup_key :: "crypto \<Rightarrow> string \<Rightarrow> string \<Rightarrow> string + string" where
  "decrypt_backup_key cy encoded wrapping_key =
     (if length encoded < nonce_size then Inl ''encrypted artifact key is truncated''
      else case cy_open cy wrapping_key (take nonce_size encoded) (drop nonce_size encoded) encrypted_key_path of
          None \<Rightarrow> Inl ''backup encryption key does not match''
        | Some key \<Rightarrow> if length key \<noteq> 32 then Inl ''decrypted artifact key has invalid length'' else Inr key)"

section \<open>Restoring\<close>

definition unsupported_database_url :: "string \<Rightarrow> bool" where
  "unsupported_database_url p \<longleftrightarrow>
     has_prefix (to_lower p) ''postgres://'' \<or> has_prefix (to_lower p) ''postgresql://'' \<or> contains p ''host=''"

text \<open>The name under which a destination was kept, empty when there was none.\<close>

definition move_aside :: "backup_io \<Rightarrow> string \<Rightarrow> disk \<Rightarrow> (string \<times> string option) \<times> disk" where
  "move_aside io p d =
     (if \<not> exists_path io d p then (([], None), d)
      else let backup = p @ ''.pre-restore-'' @ bi_stamp io p
           in case rename_path io p backup d of (e, d') \<Rightarrow> ((backup, e), d'))"

definition restore_aside :: "backup_io \<Rightarrow> string \<Rightarrow> string \<Rightarrow> disk \<Rightarrow> string option \<times> disk" where
  "restore_aside io backup target d =
     (if backup = [] \<or> \<not> exists_path io d backup then (None, d) else rename_path io backup target d)"

text \<open>\<open>errors.Join\<close>.\<close>

definition join_errors :: "string option list \<Rightarrow> string option" where
  "join_errors es = (case List.map_filter id es of [] \<Rightarrow> None | xs \<Rightarrow> Some (join_with [CHR 0x0A] xs))"

definition remove_if_there :: "backup_io \<Rightarrow> string \<Rightarrow> disk \<Rightarrow> string option \<times> disk" where
  "remove_if_there io p d = (if exists_path io d p then remove_all io p d else (None, d))"

definition rollback :: "backup_io \<Rightarrow> string \<Rightarrow> string \<Rightarrow> string \<Rightarrow> string \<Rightarrow> disk \<Rightarrow> string option \<times> disk" where
  "rollback io db_target art_target old_db old_art d =
     (let (e1, d1) = remove_if_there io db_target d;
          (e2, d2) = remove_if_there io art_target d1;
          (e3, d3) = restore_aside io old_db db_target d2;
          (e4, d4) = restore_aside io old_art art_target d3
      in (join_errors [e1, e2, e3, e4], d4))"

definition publish_forced :: "backup_io \<Rightarrow> string \<Rightarrow> string \<Rightarrow> string \<Rightarrow> string \<Rightarrow> disk \<Rightarrow> string option \<times> disk" where
  "publish_forced io tmp_db tmp_art db_target art_target d =
     (case move_aside io db_target d of
        ((_, Some e), d1) \<Rightarrow> (Some e, d1)
      | ((old_db, None), d1) \<Rightarrow>
          (case move_aside io art_target d1 of
             ((_, Some e), d2) \<Rightarrow> (Some e, snd (restore_aside io old_db db_target d2))
           | ((old_art, None), d2) \<Rightarrow>
               (case rename_path io tmp_db db_target d2 of
                  (Some e, d3) \<Rightarrow>
                    (case rollback io db_target art_target old_db old_art d3 of (r, d4) \<Rightarrow> (join_errors [Some e, r], d4))
                | (None, d3) \<Rightarrow>
                    (case rename_path io tmp_art art_target d3 of
                       (Some e, d4) \<Rightarrow>
                         (case rollback io db_target art_target old_db old_art d4 of (r, d5) \<Rightarrow> (join_errors [Some e, r], d5))
                     | (None, d4) \<Rightarrow> (None, d4)))))"

definition publish_fresh :: "backup_io \<Rightarrow> string \<Rightarrow> string \<Rightarrow> string \<Rightarrow> string \<Rightarrow> disk \<Rightarrow> string option \<times> disk" where
  "publish_fresh io tmp_db tmp_art db_target art_target d =
     (case rename_path io tmp_db db_target d of
        (Some e, d1) \<Rightarrow> (Some e, d1)
      | (None, d1) \<Rightarrow>
          (case rename_path io tmp_art art_target d1 of
             (Some e, d2) \<Rightarrow> (Some e, snd (remove_all io db_target d2))
           | (None, d2) \<Rightarrow> (None, d2)))"

fun restore_files :: "backup_io \<Rightarrow> string \<Rightarrow> string \<Rightarrow> backup_manifest \<Rightarrow> file_record list \<Rightarrow> disk \<Rightarrow> string option \<times> disk" where
  "restore_files io dir tmp_art m [] d = (None, d)"
| "restore_files io dir tmp_art m (f # fs) d =
     (if \<not> is_artifact m f \<or> (fr_path f = mf_encryption_key m \<and> mf_encryption_key m = encrypted_key_path)
      then restore_files io dir tmp_art m fs d
      else case copy_file io (join_path dir (fr_path f))
            (join_path tmp_art (trim_prefix (fr_path f) (mf_artifacts_dir m @ ''/''))) d of
          (Some e, d1) \<Rightarrow> (Some e, d1)
        | (None, d1) \<Rightarrow> restore_files io dir tmp_art m fs d1)"

definition restore_key :: "backup_io \<Rightarrow> string \<Rightarrow> string \<Rightarrow> backup_manifest \<Rightarrow> disk \<Rightarrow> string option \<times> disk" where
  "restore_key io dir tmp_art m d =
     (if mf_encryption_key m \<noteq> encrypted_key_path then (None, d)
      else case configured_backup_key (bi_getenv io) of
          Inl e \<Rightarrow> (Some e, d)
        | Inr wrapping_key \<Rightarrow>
            (case read_bytes io d (join_path dir encrypted_key_path) of
               Inl e \<Rightarrow> (Some (''read encrypted artifact key: '' @ e), d)
             | Inr encoded \<Rightarrow>
                 (case decrypt_backup_key (bi_crypto io) encoded wrapping_key of
                    Inl e \<Rightarrow> (Some (''decrypt artifact key: '' @ e), d)
                  | Inr key \<Rightarrow>
                      (case write_bytes io (join_path tmp_art ''.key'') key d of
                         (Some e, d1) \<Rightarrow> (Some (''restore artifact key: '' @ e), d1)
                       | (None, d1) \<Rightarrow> (None, d1)))))"

definition restore_staged ::
  "backup_io \<Rightarrow> string \<Rightarrow> string \<Rightarrow> string \<Rightarrow> bool \<Rightarrow> backup_manifest \<Rightarrow> string \<Rightarrow> string \<Rightarrow> disk \<Rightarrow> string option \<times> disk" where
  "restore_staged io dir db_target art_target force m tmp_db tmp_art d =
     (case restore_files io dir tmp_art m (mf_files m) d of
        (Some e, d1) \<Rightarrow> (Some e, d1)
      | (None, d1) \<Rightarrow>
          (case restore_key io dir tmp_art m d1 of
             (Some e, d2) \<Rightarrow> (Some e, d2)
           | (None, d2) \<Rightarrow>
               (case validate_sqlite_database io d2 tmp_db of
                  Some e \<Rightarrow> (Some (''restored database validation: '' @ e), d2)
                | None \<Rightarrow>
                    (if force then publish_forced else publish_fresh) io tmp_db tmp_art db_target art_target d2)))"

text \<open>The deferred removals run whatever the outcome, the temporary directory first.\<close>

definition restore_backup :: "backup_io \<Rightarrow> string \<Rightarrow> string \<Rightarrow> string \<Rightarrow> bool \<Rightarrow> disk \<Rightarrow> string option \<times> disk" where
  "restore_backup io dir db_target art_target force d =
     (case verify_backup io d dir of
        Some e \<Rightarrow> (Some e, d)
      | None \<Rightarrow>
          (case read_manifest io d dir of
             Inl e \<Rightarrow> (Some e, d)
           | Inr m \<Rightarrow>
               if unsupported_database_url db_target
               then (Some (''unsupported database target '' @ bi_quote io db_target @ '': restore supports SQLite only''), d)
               else if \<not> force \<and> (exists_path io d db_target \<or> exists_path io d art_target)
               then (Some ''restore destinations already exist; pass -force to retain them and replace them'', d)
               else case mkdir_all io (dir_name db_target) d of
                   (Some e, d1) \<Rightarrow> (Some e, d1)
                 | (None, d1) \<Rightarrow>
                     (case mkdir_all io (dir_name art_target) d1 of
                        (Some e, d2) \<Rightarrow> (Some e, d2)
                      | (None, d2) \<Rightarrow>
                          let tmp_db = db_target @ ''.restore-tmp''
                          in case (case copy_file io (join_path dir (mf_database m)) tmp_db d2 of
                                 (Some e, d3) \<Rightarrow> (Some e, d3)
                               | (None, d3) \<Rightarrow>
                                   (case mkdir_temp io (dir_name art_target) ''.artifacts-restore-'' d3 of
                                      (Inl e, d4) \<Rightarrow> (Some e, d4)
                                    | (Inr tmp_art, d4) \<Rightarrow>
                                        (case restore_staged io dir db_target art_target force m tmp_db tmp_art d4 of
                                           (e, d5) \<Rightarrow> (e, snd (remove_all io tmp_art d5))))) of
                             (e, d6) \<Rightarrow> (e, snd (remove_all io tmp_db d6)))))"

section \<open>Creating a backup\<close>

fun copy_entries ::
  "backup_io \<Rightarrow> string \<Rightarrow> string \<Rightarrow> (string list \<times> node) list \<Rightarrow> file_record list \<Rightarrow> disk \<Rightarrow> (string + file_record list) \<times> disk" where
  "copy_entries io source destination [] files d = (Inr files, d)"
| "copy_entries io source destination ((es, n) # rest) files d =
     (let rel = rel_path es; name = (if es = [] then base_name source else last es); from = join_path source rel;
          target = join_path destination rel
      in case n of
           LinkNode _ \<Rightarrow> (Inl (''symlinks are not supported: '' @ from), d)
         | DirNode \<Rightarrow>
             (case mkdir_all io target d of
                (Some e, d1) \<Rightarrow> (Inl e, d1)
              | (None, d1) \<Rightarrow> copy_entries io source destination rest files d1)
         | FileNode _ \<Rightarrow>
             if name = ''.key'' \<or> \<not> has_suffix name ''.bin'' then copy_entries io source destination rest files d
             else case copy_file io from target d of
                 (Some e, d1) \<Rightarrow> (Inl e, d1)
               | (None, d1) \<Rightarrow>
                   (case describe_file io d1 target (join_path ''artifacts'' rel) of
                      Inl e \<Rightarrow> (Inl e, d1)
                    | Inr f \<Rightarrow> copy_entries io source destination rest (files @ [f]) d1))"

definition copy_tree :: "backup_io \<Rightarrow> string \<Rightarrow> string \<Rightarrow> disk \<Rightarrow> (string + file_record list) \<times> disk" where
  "copy_tree io source destination d =
     (case stat io d source of
        StatError e \<Rightarrow> (Inl e, d)
      | NoEntry \<Rightarrow> (Inr [], d)
      | Entry _ \<Rightarrow>
          (case bi_fault io ''walk'' source of
             Some e \<Rightarrow> (Inl e, d)
           | None \<Rightarrow> copy_entries io source destination (walk d source) [] d))"

definition sort_files :: "file_record list \<Rightarrow> file_record list" where
  "sort_files = order_by (\<lambda>x y. str_le (fr_path x) (fr_path y))"

definition key_recovery_text :: string where
  "key_recovery_text = ''For generated artifact keys, provide BACKUP_ENCRYPTION_KEY from a separate protected secret store to restore artifacts/.key. For externally supplied artifact keys, provide the original ARTIFACT_ENCRYPTION_KEY.''"

text \<open>The wrapped key, when the artifact directory holds a generated one: its record, if any.\<close>

definition backup_key :: "backup_io \<Rightarrow> string \<Rightarrow> string \<Rightarrow> disk \<Rightarrow> (string + file_record option) \<times> disk" where
  "backup_key io artifacts_dir tmp d =
     (case read_bytes io d (join_path artifacts_dir ''.key'') of
        Inl e \<Rightarrow> if e = no_such_file then (Inr None, d) else (Inl (''read artifact key: '' @ e), d)
      | Inr key \<Rightarrow>
          if trim_space (bi_getenv io ''ARTIFACT_ENCRYPTION_KEY'') \<noteq> [] then (Inr None, d)
          else if length key \<noteq> 32
          then (Inl (''artifact key has invalid length: got '' @ nat_str (length key) @ '' bytes, want 32''), d)
          else case configured_backup_key (bi_getenv io) of
              Inl e \<Rightarrow> (Inl e, d)
            | Inr wrapping_key \<Rightarrow>
                (case encrypt_backup_key io key wrapping_key of
                   Inl e \<Rightarrow> (Inl (''encrypt artifact key for backup: '' @ e), d)
                 | Inr encrypted \<Rightarrow>
                     let key_path = join_path tmp encrypted_key_path
                     in case mkdir_all io (dir_name key_path) d of
                          (Some e, d1) \<Rightarrow> (Inl e, d1)
                        | (None, d1) \<Rightarrow>
                            (case write_bytes io key_path encrypted d1 of
                               (Some e, d2) \<Rightarrow> (Inl (''write encrypted artifact key: '' @ e), d2)
                             | (None, d2) \<Rightarrow> (map_sum id Some (describe_file io d2 key_path encrypted_key_path), d2))))"

definition manifest_for :: "backup_io \<Rightarrow> file_record list \<Rightarrow> bool \<Rightarrow> backup_manifest" where
  "manifest_for io files keyed =
     \<lparr>mf_version = manifest_version, mf_created_at = bi_now io, mf_database = ''svrtools.db'', mf_artifacts_dir = ''artifacts'',
      mf_artifact_files = int (length files) - 1, mf_encryption_key = (if keyed then encrypted_key_path else []),
      mf_key_recovery = key_recovery_text, mf_files = files\<rparr>"

definition publish_backup :: "backup_io \<Rightarrow> string \<Rightarrow> string \<Rightarrow> file_record list \<Rightarrow> bool \<Rightarrow> disk \<Rightarrow> string option \<times> disk" where
  "publish_backup io tmp output_dir files keyed d =
     (case write_bytes io (join_path tmp ''manifest.json'') (bi_encode io (manifest_for io files keyed) @ [CHR 0x0A]) d of
        (Some e, d1) \<Rightarrow> (Some e, d1)
      | (None, d1) \<Rightarrow>
          (case stat io d1 output_dir of
             StatError e \<Rightarrow> (Some e, d1)
           | Entry _ \<Rightarrow> (Some (''backup destination already exists: '' @ output_dir), d1)
           | NoEntry \<Rightarrow>
               (case rename_path io tmp output_dir d1 of
                  (Some e, d2) \<Rightarrow> (Some (''publish backup: '' @ e), d2)
                | (None, d2) \<Rightarrow> (None, d2))))"

definition fill_backup :: "backup_io \<Rightarrow> string \<Rightarrow> string \<Rightarrow> string \<Rightarrow> string \<Rightarrow> disk \<Rightarrow> string option \<times> disk" where
  "fill_backup io db_path artifacts_dir output_dir tmp d =
     (let db_backup = join_path tmp ''svrtools.db''
      in case bi_fault io ''sqlite'' db_path of
           Some e \<Rightarrow> (Some (''database: '' @ e), d)
         | None \<Rightarrow>
             (case (case read_bytes io d db_path of Inl e \<Rightarrow> Inl e | Inr b \<Rightarrow> bi_vacuum io b) of
                Inl e \<Rightarrow> (Some (''database backup: '' @ e), d)
              | Inr copy \<Rightarrow>
                  let d1 = put_node db_backup (FileNode copy) d
                  in case describe_file io d1 db_backup ''svrtools.db'' of
                       Inl e \<Rightarrow> (Some e, d1)
                     | Inr database_file \<Rightarrow>
                         (case copy_tree io artifacts_dir (join_path tmp ''artifacts'') d1 of
                            (Inl e, d2) \<Rightarrow> (Some (''artifact backup: '' @ e), d2)
                          | (Inr artifact_files, d2) \<Rightarrow>
                              (case backup_key io artifacts_dir tmp d2 of
                                 (Inl e, d3) \<Rightarrow> (Some e, d3)
                               | (Inr None, d3) \<Rightarrow>
                                   publish_backup io tmp output_dir (sort_files (database_file # artifact_files)) False d3
                               | (Inr (Some key_file), d3) \<Rightarrow>
                                   publish_backup io tmp output_dir
                                     (sort_files (sort_files (database_file # artifact_files) @ [key_file])) True d3))))"

definition create_backup :: "backup_io \<Rightarrow> string \<Rightarrow> string \<Rightarrow> string \<Rightarrow> disk \<Rightarrow> string option \<times> disk" where
  "create_backup io db_path artifacts_dir output_dir d =
     (if unsupported_database_url db_path
      then (Some (''unsupported database '' @ bi_quote io db_path @ '': backup supports SQLite only''), d)
      else case stat io d db_path of
          StatError e \<Rightarrow> (Some (''database: '' @ e), d)
        | NoEntry \<Rightarrow> (Some (''database: '' @ no_such_file), d)
        | Entry _ \<Rightarrow>
            (case mkdir_all io (dir_name output_dir) d of
               (Some e, d1) \<Rightarrow> (Some e, d1)
             | (None, d1) \<Rightarrow>
                 (case mkdir_temp io (dir_name output_dir) ''.backup-'' d1 of
                    (Inl e, d2) \<Rightarrow> (Some e, d2)
                  | (Inr tmp, d2) \<Rightarrow>
                      (case fill_backup io db_path artifacts_dir output_dir tmp d2 of
                         (e, d3) \<Rightarrow> (e, snd (remove_all io tmp d3))))))"

end
