(* ===== verification/BackupProps.thy ===== *)
theory BackupProps
  imports Backup ArtifactProps
begin

text \<open>
  What a restore may touch, that a failed one leaves the destinations as they were, and what verification establishes.  A first part
  relates paths to locations: a manifest path that \<open>validateRelativePath\<close> accepts lies under the directory it is joined to.
\<close>

section \<open>Cleaned paths\<close>

definition plain_elems :: "string list \<Rightarrow> bool" where
  "plain_elems es \<longleftrightarrow> list_all plain_name es"

text \<open>Leading double dots, only in a relative path, then plain names; in the stack the other way round.\<close>

definition clean_stack :: "bool \<Rightarrow> string list \<Rightarrow> bool" where
  "clean_stack rooted st \<longleftrightarrow> (\<exists>n es. st = rev es @ replicate n ''..'' \<and> plain_elems es \<and> (rooted \<longrightarrow> n = 0))"

lemma clean_stack_elems:
  assumes "clean_stack rooted st" "\<forall>e \<in> set es. CHR ''/'' \<notin> set e"
  shows "clean_stack rooted (clean_elems rooted st es)"
  using assms
proof (induction es arbitrary: st)
  case (Cons e es)
  obtain n xs where st: "st = rev xs @ replicate n ''..''" "plain_elems xs" "rooted \<longrightarrow> n = 0"
    using Cons.prems(1) by (auto simp: clean_stack_def)
  consider "e = [] \<or> e = ''.''" | "e = ''..''" | "plain_name e"
    using Cons.prems(2) by (auto simp: plain_name_def)
  then show ?case
  proof cases
    case 1
    then show ?thesis using Cons by auto
  next
    case 2
    show ?thesis
    proof (cases xs rule: rev_cases)
      case Nil
      have "clean_stack rooted (if rooted then [] else [''..''])" "\<not> rooted \<Longrightarrow> clean_stack rooted (replicate (Suc n) ''..'')"
        unfolding clean_stack_def by (auto simp: plain_elems_def intro: exI [of _ "[]"] exI [of _ 0] exI [of _ "Suc 0"] exI [of _ "Suc n"])
      then show ?thesis using 2 Nil st Cons by (cases n) auto
    next
      case (snoc ys y)
      have "plain_elems ys" "y \<noteq> ''..''" using snoc st(2) by (auto simp: plain_elems_def plain_name_def)
      then have "clean_stack rooted (rev ys @ replicate n ''..'')" using st(3) by (auto simp: clean_stack_def)
      then show ?thesis using 2 snoc st(1) \<open>y \<noteq> ''..''\<close> Cons by simp
    qed
  next
    case 3
    then have "e # st = rev (xs @ [e]) @ replicate n ''..''" "plain_elems (xs @ [e])"
      using st by (auto simp: plain_elems_def)
    then have "clean_stack rooted (e # st)" using st(3) unfolding clean_stack_def by blast
    then show ?thesis using 3 Cons by (auto simp: plain_name_def)
  qed
qed simp

lemma path_elems_shape:
  obtains n es where "path_elems p = replicate n ''..'' @ es" "plain_elems es" "rooted_path p \<longrightarrow> n = 0"
proof -
  have "clean_stack (rooted_path p) []"
    unfolding clean_stack_def by (auto simp: plain_elems_def intro!: exI [of _ 0] exI [of _ "[]"])
  then have "clean_stack (rooted_path p) (clean_elems (rooted_path p) [] (split_on (CHR ''/'') p))"
    by (rule clean_stack_elems) (use split_on_no_sep in blast)
  then obtain n es where "clean_elems (rooted_path p) [] (split_on (CHR ''/'') p) = rev es @ replicate n ''..''"
    "plain_elems es" "rooted_path p \<longrightarrow> n = 0" unfolding clean_stack_def by blast
  then show ?thesis using that [of n es] by (simp add: path_elems_def)
qed

lemma split_join:
  assumes "es \<noteq> []" "\<forall>e \<in> set es. CHR ''/'' \<notin> set e"
  shows "split_on (CHR ''/'') (join_with ''/'' es) = es"
  using assms
proof (induction es)
  case (Cons e es)
  then show ?case by (cases es) (auto simp: split_on_plain split_on_append)
qed simp

lemma clean_elems_plain: "plain_elems es \<Longrightarrow> clean_elems rooted st es = rev es @ st"
  by (induction es arbitrary: st) (auto simp: plain_elems_def plain_name_def)

lemma clean_elems_dots: "clean_elems False (replicate k ''..'') (replicate n ''..'') = replicate (n + k) ''..''"
proof (induction n arbitrary: k)
  case (Suc n)
  have "clean_elems False (replicate k ''..'') (replicate (Suc n) ''..'') = clean_elems False (replicate (Suc k) ''..'') (replicate n ''..'')"
    by (cases k) simp_all
  then show ?case using Suc [of "Suc k"] by (simp add: replicate_app_Cons_same)
qed simp

lemma plain_no_slash: "plain_elems es \<Longrightarrow> e \<in> set (replicate n ''..'' @ es) \<Longrightarrow> CHR ''/'' \<notin> set e \<and> e \<noteq> []"
proof -
  assume p: "plain_elems es" and e: "e \<in> set (replicate n ''..'' @ es)"
  have "e = ''..'' \<or> e \<in> set es" using e by (simp split: if_splits) blast
  then show ?thesis
  proof
    assume "e \<in> set es"
    then have "plain_name e" using p by (simp add: plain_elems_def list_all_iff)
    then show ?thesis by (simp add: plain_name_def)
  qed simp
qed

lemma first_char_join: "e \<noteq> [] \<Longrightarrow> join_with sep (e # es) \<noteq> [] \<and> hd (join_with sep (e # es)) = hd e"
proof -
  assume "e \<noteq> []"
  moreover have "\<exists>rest. join_with sep (e # es) = e @ rest" by (cases es) simp_all
  ultimately show ?thesis by fastforce
qed

lemma elems_roots: "path_elems ''/'' = []" "path_elems ''.'' = []"
  by code_simp+

lemma rooted_clean: "rooted_path (clean_path p) = rooted_path p"
proof (cases "rooted_path p")
  case True
  then show ?thesis by (simp add: clean_path_def rooted_path_def has_prefix_def)
next
  case False
  obtain n es where e: "path_elems p = replicate n ''..'' @ es" "plain_elems es" by (rule path_elems_shape)
  show ?thesis
  proof (cases "path_elems p")
    case Nil
    then show ?thesis using False by (simp add: clean_path_def rooted_path_def has_prefix_def)
  next
    case (Cons x xs)
    have "x \<in> set (replicate n ''..'' @ es)" using Cons e(1) by (metis list.set_intros(1))
    then have x: "CHR ''/'' \<notin> set x" "x \<noteq> []" using plain_no_slash [OF e(2)] by auto
    then have "hd x \<noteq> CHR ''/''" by (cases x) auto
    then show ?thesis
      using False first_char_join [OF x(2), of "''/''" xs] Cons
      by (cases "join_with ''/'' (x # xs)") (auto simp: clean_path_def rooted_path_def has_prefix_def)
  qed
qed

lemma elems_shape_again:
  assumes "plain_elems es" "r \<longrightarrow> n = 0"
  shows "clean_elems r [] (replicate n ''..'' @ es) = rev (replicate n ''..'' @ es)"
  using assms clean_elems_dots [of 0 n] by (cases r) (simp_all add: clean_elems_append clean_elems_plain)

lemma elems_join:
  assumes "plain_elems es" "replicate n ''..'' @ es \<noteq> []"
  shows "path_elems (join_with ''/'' (replicate n ''..'' @ es)) = replicate n ''..'' @ es"
    "\<not> rooted_path (join_with ''/'' (replicate n ''..'' @ es))"
    "n = 0 \<Longrightarrow> path_elems (''/'' @ join_with ''/'' es) = es"
proof -
  let ?es = "replicate n ''..'' @ es"
  have noslash: "CHR ''/'' \<notin> set e \<and> e \<noteq> []" if "e \<in> set ?es" for e using plain_no_slash [OF assms(1) that] .
  obtain x xs where x: "?es = x # xs" using assms(2) by (cases ?es) auto
  then have "x \<in> set ?es" by simp
  then have "x \<noteq> []" "CHR ''/'' \<notin> set x" using noslash by blast+
  then have "x \<noteq> []" "hd x \<noteq> CHR ''/''" using hd_in_set [of x] by metis+
  then show rel: "\<not> rooted_path (join_with ''/'' ?es)"
    using first_char_join [of x "''/''" xs] unfolding x
    by (cases "join_with ''/'' (x # xs)") (auto simp: rooted_path_def has_prefix_def)
  have split: "split_on (CHR ''/'') (join_with ''/'' ?es) = ?es" using split_join [OF assms(2)] noslash by blast
  then show "path_elems (join_with ''/'' ?es) = ?es"
    using elems_shape_again [OF assms(1), of False n] rel unfolding path_elems_def by simp
  show "path_elems (''/'' @ join_with ''/'' es) = es" if "n = 0"
    using split elems_shape_again [OF assms(1), of True n] that
    by (simp add: path_elems_def rooted_path_def has_prefix_def)
qed

lemma elems_clean: "path_elems (clean_path p) = path_elems p"
proof -
  obtain n es where e: "path_elems p = replicate n ''..'' @ es" "plain_elems es" "rooted_path p \<longrightarrow> n = 0" by (rule path_elems_shape)
  show ?thesis
  proof (cases "path_elems p = []")
    case True
    then show ?thesis
      by (simp add: clean_path_def elems_roots)
  next
    case False
    then have ne: "replicate n ''..'' @ es \<noteq> []" using e(1) by simp
    note j = elems_join [OF e(2) ne]
    have "join_with ''/'' (path_elems p) \<noteq> []" using j(1) ne e(1) by (auto simp: path_elems_def rooted_path_def has_prefix_def)
    then show ?thesis using j e by (cases "rooted_path p") (simp_all add: clean_path_def Let_def)
  qed
qed

lemma loc_clean [simp]: "loc_of (clean_path p) = loc_of p"
  by (simp add: loc_of_def rooted_clean elems_clean)

lemma loc_join:
  assumes "a \<noteq> []" "r \<noteq> []" "plain_elems (split_on (CHR ''/'') r)"
  shows "loc_of (join_path a r) = (fst (loc_of a), snd (loc_of a) @ split_on (CHR ''/'') r)"
proof -
  have "join_path a r = clean_path (a @ ''/'' @ r)" using assms by (simp add: join_path_def)
  moreover have "path_elems (a @ ''/'' @ r) = path_elems a @ split_on (CHR ''/'') r"
    using rooted_append [OF assms(1), of "''/'' @ r"]
    by (simp add: path_elems_def split_on_concat clean_elems_append clean_elems_plain [OF assms(3)])
  moreover have "rooted_path (a @ ''/'' @ r) = rooted_path a" by (rule rooted_append [OF assms(1)])
  ultimately show ?thesis by (simp add: loc_of_def elems_clean rooted_clean)
qed

section \<open>Paths of a manifest\<close>

lemma join_with_append:
  "us \<noteq> [] \<Longrightarrow> vs \<noteq> [] \<Longrightarrow> join_with sep (us @ vs) = join_with sep us @ sep @ join_with sep vs"
proof (induction us)
  case (Cons u us)
  obtain v ws where v: "vs = v # ws" using Cons.prems(2) by (cases vs) auto
  then show ?case using Cons by (cases us) auto
qed simp

lemma split_element:
  assumes "e \<in> set (split_on sep p)"
  shows "p = e \<or> (\<exists>a. p = a @ sep # e) \<or> (\<exists>b. p = e @ sep # b) \<or> (\<exists>a b. p = a @ sep # e @ sep # b)"
proof -
  obtain us vs where s: "split_on sep p = us @ e # vs" using assms by (meson split_list)
  have p: "p = join_with [sep] (us @ e # vs)" using join_split_on [of sep p] s by simp
  have tail: "join_with [sep] (e # vs) = (if vs = [] then e else e @ sep # join_with [sep] vs)" by (cases vs) simp_all
  show ?thesis
  proof (cases "us = []")
    case True
    then show ?thesis using p tail by (cases "vs = []") auto
  next
    case False
    then have "p = join_with [sep] us @ sep # join_with [sep] (e # vs)"
      using p join_with_append [of us "e # vs" "[sep]"] by simp
    then show ?thesis using tail by (cases "vs = []") auto
  qed
qed

lemma split_map_refines:
  assumes "f sep = sep" "e \<in> set (split_on sep p)" "sep \<notin> set (map f e)"
  shows "map f e \<in> set (split_on sep (map f p))"
  using split_element [OF assms(2)] assms(1,3)
  by (elim disjE exE) (simp_all add: split_on_plain split_on_concat)

definition slashes :: "string \<Rightarrow> string" where
  "slashes p = map (\<lambda>c. if c = CHR 0x5C then CHR ''/'' else c) p"

lemma safe_plain:
  assumes "validate_relative_path io p = None" "p \<noteq> ''.''"
  shows "p \<noteq> []" "plain_elems (split_on (CHR ''/'') p)"
proof -
  let ?n = "slashes p"
  have v: "p \<noteq> []" "\<not> has_prefix ?n ''/''" "clean_path ?n = ?n" "?n \<noteq> ''..''" "\<not> has_prefix ?n ''../''"
    using assms(1) by (auto simp: validate_relative_path_def Let_def slashes_def split: if_splits)
  show "p \<noteq> []" by (rule v(1))
  obtain k es where e: "path_elems ?n = replicate k ''..'' @ es" "plain_elems es" by (rule path_elems_shape)
  have rel: "\<not> rooted_path ?n" using v(2) by (simp add: rooted_path_def)
  have nd: "?n \<noteq> ''.''" using assms(2) by (auto simp: slashes_def map_eq_Cons_conv split: if_splits)
  have ne: "path_elems ?n \<noteq> []" using v(3) nd rel by (auto simp: clean_path_def)
  have join: "?n = join_with ''/'' (path_elems ?n)"
    using v(3) rel ne join_with_empty [of "path_elems ?n" "''/''"] plain_no_slash [OF e(2), of _ k] e(1)
    by (auto simp: clean_path_def Let_def split: if_splits)
  have "k = 0"
  proof (rule ccontr)
    assume "k \<noteq> 0"
    then obtain j where "path_elems ?n = ''..'' # replicate j ''..'' @ es" using e(1) by (cases k) simp_all
    then have "?n = join_with ''/'' (''..'' # replicate j ''..'' @ es)" using join by metis
    then show False using v(4,5) by (cases "replicate j ''..'' @ es") (simp_all add: has_prefix_def)
  qed
  then have "path_elems ?n = es" using e(1) by simp
  moreover have "split_on (CHR ''/'') (join_with ''/'' (path_elems ?n)) = path_elems ?n"
    using split_join [OF ne] plain_no_slash [OF e(2), of _ k] e(1) by simp
  ultimately have "split_on (CHR ''/'') ?n = es" using join by simp
  then have all: "e \<noteq> [] \<and> e \<noteq> ''.'' \<and> e \<noteq> ''..''" if "e \<in> set (split_on (CHR ''/'') ?n)" for e
    using that e(2) by (auto simp: plain_elems_def list_all_iff plain_name_def)
  have "plain_name x" if x: "x \<in> set (split_on (CHR ''/'') p)" for x
  proof -
    have same: "slashes x = x" if "x \<in> {[], ''.'', ''..''}" using that by (auto simp: slashes_def)
    have "x \<notin> {[], ''.'', ''..''}"
    proof
      assume h: "x \<in> {[], ''.'', ''..''}"
      then have "CHR ''/'' \<notin> set (slashes x)" by (auto simp: slashes_def)
      then have "slashes x \<in> set (split_on (CHR ''/'') ?n)"
        unfolding slashes_def by (intro split_map_refines [OF _ x]) simp_all
      then show False using all same [OF h] h by auto
    qed
    then show ?thesis using split_on_no_sep [OF x] by (auto simp: plain_name_def)
  qed
  then show "plain_elems (split_on (CHR ''/'') p)" by (simp add: plain_elems_def list_all_iff)
qed

text \<open>The directory of a cleaned path is one element up.\<close>

lemma dir_text:
  assumes "CHR ''/'' \<notin> set e"
  shows "dir_name (a @ ''/'' @ e) = clean_path (a @ ''/'')" "dir_name e = ''.''"
proof -
  have "dropWhile (\<lambda>c. c \<noteq> CHR ''/'') (rev e @ CHR ''/'' # rev a) = CHR ''/'' # rev a"
    using assms by (subst dropWhile_append2) auto
  then show "dir_name (a @ ''/'' @ e) = clean_path (a @ ''/'')" by (simp add: dir_name_def)
  have d: "dropWhile (\<lambda>c. c \<noteq> CHR ''/'') (rev e) = []" using assms by auto
  have "clean_path (rev []) = ''.''" by code_simp
  then show "dir_name e = ''.''" unfolding dir_name_def d .
qed

lemma elems_slash: "a \<noteq> [] \<Longrightarrow> loc_of (a @ ''/'') = loc_of a"
  using rooted_append [of a "''/''"] split_on_concat [of "CHR ''/''" a "[]"]
  by (simp add: loc_of_def path_elems_def clean_elems_append)

lemma loc_dir:
  assumes "path_elems p = xs @ [e]" "plain_name e"
  shows "loc_of (dir_name (clean_path p)) = (rooted_path p, xs)"
proof -
  have e: "CHR ''/'' \<notin> set e" using assms(2) by (simp add: plain_name_def)
  have ne: "e \<noteq> []" using assms(2) by (simp add: plain_name_def)
  obtain n es where shape: "path_elems p = replicate n ''..'' @ es" "plain_elems es" "rooted_path p \<longrightarrow> n = 0" by (rule path_elems_shape)
  have "es \<noteq> []"
  proof
    assume "es = []"
    then have "e \<in> set (replicate n ''..'')" using shape(1) assms(1) by (metis append_Nil2 in_set_conv_decomp)
    then have "e = ''..''" by (simp split: if_splits)
    then show False using assms(2) by (simp add: plain_name_def)
  qed
  then obtain ys y where "es = ys @ [y]" by (cases es rule: rev_cases) auto
  then have xs: "xs = replicate n ''..'' @ ys" "plain_elems ys" using shape(1,2) assms(1) by (simp_all add: plain_elems_def)
  show ?thesis
  proof (cases "xs = []")
    case True
    then have "clean_path p = (if rooted_path p then [] @ ''/'' @ e else e)" using assms(1) ne by (simp add: clean_path_def)
    moreover have "dir_name ([] @ ''/'' @ e) = ''/''"
      unfolding dir_text(1) [OF e] by code_simp
    ultimately show ?thesis
      using True dir_text(2) [OF e] by (simp add: loc_of_def elems_roots) (simp add: rooted_path_def has_prefix_def)
  next
    case False
    let ?b = "join_with ''/'' xs"
    note j = elems_join [OF xs(2), of n, folded xs(1), OF False]
    have b: "?b \<noteq> []" using j(1) False by (auto simp: path_elems_def rooted_path_def has_prefix_def)
    have body: "join_with ''/'' (xs @ [e]) = ?b @ ''/'' @ e" using False by (rule join_with_snoc)
    have "clean_path p = (if rooted_path p then (''/'' @ ?b) @ ''/'' @ e else ?b @ ''/'' @ e)"
      using body assms(1) by (simp add: clean_path_def Let_def)
    then have "dir_name (clean_path p) = (if rooted_path p then clean_path ((''/'' @ ?b) @ ''/'') else clean_path (?b @ ''/''))"
      using dir_text(1) [OF e] by metis
    moreover have "loc_of (''/'' @ ?b) = (True, xs)" if "rooted_path p"
      using j(3) that shape(3) xs(1) by (simp add: loc_of_def) (simp add: rooted_path_def has_prefix_def)
    moreover have "loc_of ?b = (False, xs)" using j(1,2) by (simp add: loc_of_def)
    ultimately show ?thesis using elems_slash [OF b] elems_slash [of "''/'' @ ?b"] by (cases "rooted_path p") simp_all
  qed
qed

section \<open>Trees\<close>

text \<open>What a disk holds at and beneath a path, by the path elements below it.\<close>

definition tree :: "disk \<Rightarrow> loc \<Rightarrow> string list \<Rightarrow> node option" where
  "tree d l es = map_of d (fst l, snd l @ es)"

definition apart :: "loc \<Rightarrow> loc \<Rightarrow> bool" where
  "apart a b \<longleftrightarrow> \<not> beneath a b \<and> \<not> beneath b a"

lemma node_tree: "node_at d p = tree d (loc_of p) []"
  by (simp add: node_at_def tree_def)

lemma beneath_extend [simp]: "beneath (r, es) (r, es @ fs)"
  by (simp add: beneath_def)

lemma beneath_append: "beneath a q \<longleftrightarrow> (\<exists>es. q = (fst a, snd a @ es))"
proof
  assume u: "beneath a q"
  then have "fst q = fst a" "take (length (snd a)) (snd q) = snd a" by (simp_all add: beneath_def)
  then have "q = (fst a, snd a @ drop (length (snd a)) (snd q))"
    using append_take_drop_id [of "length (snd a)" "snd q"] by (cases q) simp
  then show "\<exists>es. q = (fst a, snd a @ es)" by blast
qed (auto simp: beneath_def)

lemma beneath_refl [simp]: "beneath a a"
  by (simp add: beneath_def)

lemma beneath_trans: "beneath a b \<Longrightarrow> beneath b c \<Longrightarrow> beneath a c"
  by (auto simp: beneath_append)

lemma apart_disjoint:
  assumes "apart a b"
  shows "\<not> (beneath a q \<and> beneath b q)"
proof
  assume q: "beneath a q \<and> beneath b q"
  then obtain es where "q = (fst a, snd a @ es)" using beneath_append by blast
  moreover obtain fs where "q = (fst b, snd b @ fs)" using q beneath_append by blast
  ultimately have "fst a = fst b" "snd a @ es = snd b @ fs" by simp_all
  then have "(\<exists>us. snd a = snd b @ us) \<or> (\<exists>us. snd b = snd a @ us)" by (auto simp: append_eq_append_conv2) (metis+)
  then have "beneath a b \<or> beneath b a"
    using \<open>fst a = fst b\<close> by (cases a; cases b) (auto simp: beneath_append)
  then show False using assms by (simp add: apart_def)
qed

lemma apart_sym: "apart a b \<Longrightarrow> apart b a"
  by (simp add: apart_def)

lemma map_of_keep: "map_of (filter (\<lambda>(q, _). P q) d) q = (if P q then map_of d q else None)"
  by (induction d) auto

lemma map_of_put: "map_of (put_node p n d) q = (if q = loc_of p then Some n else map_of d q)"
  by (simp add: put_node_def map_of_keep)

lemma map_of_drop: "map_of (drop_tree p d) q = (if beneath (loc_of p) q then None else map_of d q)"
  by (simp add: drop_tree_def map_of_keep)

lemma tree_drop:
  "tree (drop_tree p d) (loc_of p) = (\<lambda>_. None)" "apart l (loc_of p) \<Longrightarrow> tree (drop_tree p d) l = tree d l"
proof -
  show "tree (drop_tree p d) (loc_of p) = (\<lambda>_. None)" by (simp add: tree_def [abs_def] map_of_drop beneath_append)
  assume a: "apart l (loc_of p)"
  have "\<not> beneath (loc_of p) (fst l, snd l @ es)" for es
    using apart_disjoint [OF a, of "(fst l, snd l @ es)"] by (auto simp: beneath_append)
  then show "tree (drop_tree p d) l = tree d l" by (simp add: tree_def [abs_def] map_of_drop)
qed

lemma map_of_move:
  assumes "apart (loc_of a) (loc_of b)"
  shows "map_of (move_tree a b d) q =
    (if beneath (loc_of b) q then map_of d (fst (loc_of a), snd (loc_of a) @ below (loc_of b) q)
     else if beneath (loc_of a) q then None else map_of d q)"
proof (induction d)
  case (Cons x d)
  obtain k n where x: "x = (k, n)" by fastforce
  let ?A = "loc_of a" and ?B = "loc_of b"
  have ab: "beneath ?A k \<Longrightarrow> \<not> beneath ?B k" "beneath ?A q \<Longrightarrow> \<not> beneath ?B q" using apart_disjoint [OF assms] by blast+
  consider (A) "beneath ?A k" | (B) "\<not> beneath ?A k" "beneath ?B k" | (other) "\<not> beneath ?A k" "\<not> beneath ?B k" by blast
  then show ?case
  proof cases
    case A
    then obtain es where k: "k = (fst ?A, snd ?A @ es)" by (auto simp: beneath_append)
    have hit: "(fst ?B, snd ?B @ below ?A k) = q \<longleftrightarrow> beneath ?B q \<and> k = (fst ?A, snd ?A @ below ?B q)"
      by (auto simp: k below_def beneath_append)
    show ?thesis using A ab Cons hit by (auto simp: x move_tree_def)
  next
    case B
    have "k \<noteq> (fst ?A, snd ?A @ below ?B q)" using B(1) by (auto simp: beneath_append)
    moreover have "move_tree a b (x # d) = move_tree a b d" using B by (simp add: x move_tree_def)
    moreover have "\<not> beneath ?B q \<Longrightarrow> q \<noteq> k" using B(2) by blast
    ultimately show ?thesis using Cons by (auto simp: x)
  next
    case other
    then have "k \<noteq> (fst ?A, snd ?A @ below ?B q)" by (auto simp: beneath_append)
    then show ?thesis using other Cons by (auto simp: x move_tree_def)
  qed
qed (simp add: move_tree_def)

lemma tree_move:
  assumes "apart (loc_of a) (loc_of b)"
  shows "tree (move_tree a b d) (loc_of b) = tree d (loc_of a)" "tree (move_tree a b d) (loc_of a) = (\<lambda>_. None)"
    "apart l (loc_of a) \<Longrightarrow> apart l (loc_of b) \<Longrightarrow> tree (move_tree a b d) l = tree d l"
proof -
  show "tree (move_tree a b d) (loc_of b) = tree d (loc_of a)"
    by (simp add: tree_def [abs_def] map_of_move [OF assms] below_def beneath_append)
  have "\<not> beneath (loc_of b) (fst (loc_of a), snd (loc_of a) @ es)" for es
    using apart_disjoint [OF assms, of "(fst (loc_of a), snd (loc_of a) @ es)"] by (auto simp: beneath_append)
  then show "tree (move_tree a b d) (loc_of a) = (\<lambda>_. None)"
    by (simp add: tree_def [abs_def] map_of_move [OF assms]) (simp add: beneath_append)
  assume l: "apart l (loc_of a)" "apart l (loc_of b)"
  have "\<not> beneath (loc_of a) (fst l, snd l @ es) \<and> \<not> beneath (loc_of b) (fst l, snd l @ es)" for es
    using apart_disjoint [OF l(1), of "(fst l, snd l @ es)"] apart_disjoint [OF l(2), of "(fst l, snd l @ es)"]
    by (auto simp: beneath_append)
  then show "tree (move_tree a b d) l = tree d l" by (simp add: tree_def [abs_def] map_of_move [OF assms])
qed

section \<open>Where a restore writes\<close>

definition changes :: "(loc \<Rightarrow> bool) \<Rightarrow> disk \<Rightarrow> disk \<Rightarrow> bool" where
  "changes P d d' \<longleftrightarrow> (\<forall>q. \<not> P q \<longrightarrow> map_of d' q = map_of d q)"

lemma changes_refl [simp]: "changes P d d"
  by (simp add: changes_def)

lemma changesD: "changes P d d' \<Longrightarrow> \<not> P q \<Longrightarrow> map_of d' q = map_of d q"
  unfolding changes_def by blast

lemma changes_trans: "changes P a b \<Longrightarrow> changes P b c \<Longrightarrow> changes P a c"
  by (simp add: changes_def)

lemma changes_mono: "changes P d d' \<Longrightarrow> (\<And>q. P q \<Longrightarrow> Q q) \<Longrightarrow> changes Q d d'"
  by (auto simp: changes_def)

lemma changes_put: "P (loc_of p) \<Longrightarrow> changes P d (put_node p n d)"
  by (auto simp: changes_def map_of_put)

lemma changes_mkdir: "mkdir_all io p d = (r, d') \<Longrightarrow> P (loc_of p) \<Longrightarrow> changes P d d'"
  by (auto simp: mkdir_all_def changes_put split: option.splits node.splits)

lemma changes_write: "write_bytes io p b d = (r, d') \<Longrightarrow> P (loc_of p) \<Longrightarrow> changes P d d'"
  by (auto simp: write_bytes_def changes_put split: option.splits if_splits)

lemma changes_remove: "remove_all io p d = (r, d') \<Longrightarrow> (\<And>q. beneath (loc_of p) q \<Longrightarrow> P q) \<Longrightarrow> changes P d d'"
  by (auto simp: remove_all_def changes_def map_of_drop split: option.splits)

lemma rename_cases:
  assumes "rename_path io a b d = (r, d')"
  obtains (Failed) e where "r = Some e" "d' = d"
  | (Moved) "r = None" "d' = move_tree a b d" "node_at d a \<noteq> None" "node_at d b \<noteq> Some DirNode" "\<not> beneath (loc_of a) (loc_of b)"
proof (cases "bi_fault io ''rename'' a")
  case None
  then show ?thesis using assms Failed Moved by (auto simp: rename_path_def split: if_splits)
next
  case (Some e)
  then show ?thesis using assms Failed [of e] by (simp add: rename_path_def)
qed

lemma changes_move:
  assumes "\<And>q. beneath (loc_of a) q \<Longrightarrow> P q" "\<And>q. beneath (loc_of b) q \<Longrightarrow> P q"
  shows "changes P d (move_tree a b d)"
  unfolding changes_def
proof (intro allI impI)
  fix q assume "\<not> P q"
  then have q: "\<not> beneath (loc_of a) q" "\<not> beneath (loc_of b) q" using assms by blast+
  show "map_of (move_tree a b d) q = map_of d q"
  proof (induction d)
    case (Cons x d)
    have "(fst (loc_of b), snd (loc_of b) @ es) \<noteq> q" for es using q(2) by (auto simp: beneath_append)
    then show ?case using Cons q by (cases x) (auto simp: move_tree_def)
  qed (simp add: move_tree_def)
qed

lemma changes_rename:
  assumes "rename_path io a b d = (r, d')" "\<And>q. beneath (loc_of a) q \<Longrightarrow> P q" "\<And>q. beneath (loc_of b) q \<Longrightarrow> P q"
  shows "changes P d d'"
  using assms(1) by (cases rule: rename_cases) (auto intro: changes_move assms)

lemma copy_cases:
  assumes "copy_file io src dst d = (r, d')" "P (loc_of dst)" "P (loc_of (dir_name dst))"
  shows "changes P d d'" "r = None \<Longrightarrow> \<exists>b. node_at d' dst = Some (FileNode b)"
proof -
  consider (stop) e where "r = Some e" "d' = d" | (go) m d1 where "mkdir_all io (dir_name dst) d = (m, d1)"
    "m \<noteq> None \<and> r = m \<and> d' = d1 \<or> m = None \<and> (\<exists>w d2. write_bytes io dst [] d1 = (w, d2)
       \<and> (r \<noteq> None \<and> d' = d2 \<or> (\<exists>b. d' = put_node dst (FileNode b) d2)))"
  proof (cases "bi_fault io ''open'' src")
    case (Some e)
    then show ?thesis using assms(1) stop [of e] by (simp add: copy_file_def)
  next
    case None
    obtain m d1 where m: "mkdir_all io (dir_name dst) d = (m, d1)" by fastforce
    obtain w d2 where w: "write_bytes io dst [] d1 = (w, d2)" by fastforce
    show ?thesis
    proof (cases "node_at d src \<in> {None, Some (LinkNode None)}")
      case True
      then show ?thesis using assms(1) None stop [of no_such_file] by (simp add: copy_file_def)
    next
      case False
      have c: "(case m of Some e \<Rightarrow> (Some e, d1) | None \<Rightarrow> (case w of Some e \<Rightarrow> (Some e, d2) | None \<Rightarrow>
         (case read_bytes io d2 src of Inl e \<Rightarrow> (Some e, d2) | Inr b \<Rightarrow>
            (case bi_fault io ''copy'' dst of Some e \<Rightarrow> (Some e, put_node dst (FileNode (take (bi_short io dst) b)) d2)
             | None \<Rightarrow> (bi_fault io ''sync'' dst, put_node dst (FileNode b) d2))))) = (r, d')"
        using assms(1) unfolding copy_file_def by (simp only: None option.case False if_False m prod.case w)
      show ?thesis
      proof (rule go [OF m], cases m)
        case None
        then show "m \<noteq> None \<and> r = m \<and> d' = d1 \<or> m = None \<and> (\<exists>w d2. write_bytes io dst [] d1 = (w, d2)
       \<and> (r \<noteq> None \<and> d' = d2 \<or> (\<exists>b. d' = put_node dst (FileNode b) d2)))"
          using c w by (cases w; cases "read_bytes io d2 src"; cases "bi_fault io ''copy'' dst") auto
      qed (use c in auto)
    qed
  qed
  then have "changes P d d' \<and> (r = None \<longrightarrow> (\<exists>b. node_at d' dst = Some (FileNode b)))"
  proof cases
    case go
    have 1: "changes P d d1" using changes_mkdir [OF go(1)] assms(3) by blast
    from go(2) show ?thesis
    proof (elim disjE conjE exE)
      fix w d2
      assume w: "write_bytes io dst [] d1 = (w, d2)" and "d' = d2" "r \<noteq> None"
      then show ?thesis using changes_trans [OF 1 changes_write [OF w]] assms(2) by auto
    next
      fix w d2 b
      assume w: "write_bytes io dst [] d1 = (w, d2)" and d': "d' = put_node dst (FileNode b) d2"
      have "changes P d d2" using changes_trans [OF 1 changes_write [OF w]] assms(2) by auto
      then show ?thesis using changes_put [of P dst d2 "FileNode b"] assms(2) changes_trans d'
        by (auto simp: node_at_def map_of_put)
    qed (use 1 in auto)
  qed simp
  then show "changes P d d'" "r = None \<Longrightarrow> \<exists>b. node_at d' dst = Some (FileNode b)" by blast+
qed

lemma changes_restore_files:
  assumes "restore_files io dir tmp_art m fs d = (r, d')" "tmp_art \<noteq> []" "mf_artifacts_dir m = ''artifacts''"
    and "\<forall>f \<in> set fs. validate_relative_path io (fr_path f) = None"
  shows "changes (beneath (loc_of tmp_art)) d d'"
  using assms
proof (induction io dir tmp_art m fs d rule: restore_files.induct)
  case (2 io dir tmp_art m f fs d)
  show ?case
  proof (cases "\<not> is_artifact m f \<or> (fr_path f = mf_encryption_key m \<and> mf_encryption_key m = encrypted_key_path)")
    case True
    then show ?thesis using 2 by simp
  next
    case False
    let ?src = "join_path dir (fr_path f)" and ?rel = "trim_prefix (fr_path f) (mf_artifacts_dir m @ ''/'')"
    let ?dst = "join_path tmp_art ?rel"
    have art: "has_prefix (fr_path f) ''artifacts/''" using False 2(5) by (simp add: is_artifact_def)
    then obtain rel where p: "fr_path f = ''artifacts/'' @ rel" by (auto simp: has_prefix_iff)
    then have rel: "?rel = rel" using 2(5) by (simp add: trim_prefix_def has_prefix_def)
    have "validate_relative_path io (fr_path f) = None" using 2(6) by simp
    then have "plain_elems (split_on (CHR ''/'') (fr_path f))" using p by (intro safe_plain) auto
    moreover have "split_on (CHR ''/'') (fr_path f) = ''artifacts'' # split_on (CHR ''/'') rel" unfolding p by simp
    ultimately have plain: "plain_elems (split_on (CHR ''/'') rel)" by (simp add: plain_elems_def)
    then have "rel \<noteq> []" by (auto simp: plain_elems_def plain_name_def)
    note loc = loc_join [OF 2(4) this plain]
    have under: "beneath (loc_of tmp_art) (loc_of ?dst)" unfolding rel loc by (cases "loc_of tmp_art") simp
    obtain xs e where xs: "split_on (CHR ''/'') rel = xs @ [e]" by (cases "split_on (CHR ''/'') rel" rule: rev_cases) simp_all
    then have "plain_name e" using plain by (simp add: plain_elems_def)
    moreover have "join_path tmp_art rel = clean_path (tmp_art @ ''/'' @ rel)" using 2(4) \<open>rel \<noteq> []\<close> by (simp add: join_path_def)
    moreover from this have "path_elems (tmp_art @ ''/'' @ rel) = (snd (loc_of tmp_art) @ xs) @ [e]"
      "rooted_path (tmp_art @ ''/'' @ rel) = fst (loc_of tmp_art)"
      using loc xs by (simp_all add: loc_of_def elems_clean rooted_clean)
    ultimately have "loc_of (dir_name ?dst) = (fst (loc_of tmp_art), snd (loc_of tmp_art) @ xs)"
      using loc_dir unfolding rel by metis
    then have dir: "beneath (loc_of tmp_art) (loc_of (dir_name ?dst))" by (simp add: beneath_def)
    obtain c d1 where c: "copy_file io ?src ?dst d = (c, d1)" by fastforce
    have 1: "changes (beneath (loc_of tmp_art)) d d1" by (rule copy_cases(1) [OF c under dir])
    show ?thesis
    proof (cases c)
      case None
      then have "changes (beneath (loc_of tmp_art)) d1 d'" using False c 2(3-6) by (intro 2(2)) auto
      then show ?thesis by (rule changes_trans [OF 1])
    next
      case (Some e)
      have "restore_files io dir tmp_art m (f # fs) d = (c, d1)"
        using Some by (simp only: restore_files.simps False if_False c prod.case option.case)
      then show ?thesis using 2(3) 1 by simp
    qed
  qed
qed simp

lemma changes_restore_key:
  assumes "restore_key io dir tmp_art m d = (r, d')" "tmp_art \<noteq> []"
  shows "changes (beneath (loc_of tmp_art)) d d'"
proof -
  have "plain_elems (split_on (CHR ''/'') ''.key'')" by code_simp
  then have "beneath (loc_of tmp_art) (loc_of (join_path tmp_art ''.key''))"
    using loc_join [OF assms(2), of "''.key''"] by (simp add: beneath_def)
  then have w: "write_bytes io (join_path tmp_art ''.key'') k d = (x, y) \<Longrightarrow> changes (beneath (loc_of tmp_art)) d y" for k x y
    by (metis changes_write)
  show ?thesis
    using assms(1) by (auto simp: restore_key_def dest!: w split: if_splits sum.splits prod.splits option.splits)
qed

text \<open>The names under which the destinations are kept, and all places of one restore.\<close>

definition kept_name :: "backup_io \<Rightarrow> string \<Rightarrow> string" where
  "kept_name io p = p @ ''.pre-restore-'' @ bi_stamp io p"

definition staging_db :: "string \<Rightarrow> string" where
  "staging_db db_target = db_target @ ''.restore-tmp''"

definition staging_artifacts :: "backup_io \<Rightarrow> string \<Rightarrow> string" where
  "staging_artifacts io art_target = join_path (dir_name art_target) (''.artifacts-restore-'' @ bi_temp io)"

definition restore_places :: "backup_io \<Rightarrow> string \<Rightarrow> string \<Rightarrow> string list" where
  "restore_places io db_target art_target =
     [db_target, art_target, kept_name io db_target, kept_name io art_target, staging_db db_target, staging_artifacts io art_target]"

definition within :: "string list \<Rightarrow> loc \<Rightarrow> bool" where
  "within ps q \<longleftrightarrow> (\<exists>p \<in> set ps. beneath (loc_of p) q)"

lemma move_aside_cases:
  assumes "move_aside io p d = ((b, r), d')"
  obtains (Absent) "\<not> exists_path io d p" "b = []" "r = None" "d' = d"
  | (Present) "exists_path io d p" "b = kept_name io p" "rename_path io p b d = (r, d')"
  using assms by (auto simp: move_aside_def kept_name_def Let_def split: if_splits prod.splits)

lemma changes_aside:
  "move_aside io p d = (x, d') \<Longrightarrow> changes (within [p, kept_name io p]) d d'"
proof -
  assume m: "move_aside io p d = (x, d')"
  obtain b r where "x = (b, r)" by fastforce
  with m have "move_aside io p d = ((b, r), d')" by simp
  then show ?thesis
    by (cases rule: move_aside_cases) (auto simp: within_def intro: changes_rename)
qed

lemma changes_restore_aside:
  "restore_aside io b p d = (r, d') \<Longrightarrow> b \<in> {[], kept_name io p} \<Longrightarrow> changes (within [p, kept_name io p]) d d'"
  by (auto simp: restore_aside_def within_def intro: changes_rename split: if_splits)

lemma changes_remove_if: "remove_if_there io p d = (r, d') \<Longrightarrow> changes (within [p]) d d'"
  by (auto simp: remove_if_there_def within_def intro: changes_remove split: if_splits)

lemma within_mono: "changes (within ps) d d' \<Longrightarrow> set ps \<subseteq> set qs \<Longrightarrow> changes (within qs) d d'"
  by (erule changes_mono) (auto simp: within_def)

lemma changes_rollback:
  assumes "rollback io db art b1 b2 d = (r, d')" "b1 \<in> {[], kept_name io db}" "b2 \<in> {[], kept_name io art}"
  shows "changes (within (restore_places io db art)) d d'"
proof -
  let ?C = "changes (within (restore_places io db art))"
  obtain e1 d1 e2 d2 e3 d3 e4 where s: "remove_if_there io db d = (e1, d1)" "remove_if_there io art d1 = (e2, d2)"
    "restore_aside io b1 db d2 = (e3, d3)" "restore_aside io b2 art d3 = (e4, d')"
    using assms(1) by (auto simp: rollback_def Let_def split: prod.splits)
  have "?C d d1" "?C d1 d2" "?C d2 d3" "?C d3 d'"
    using s(1,2)[THEN changes_remove_if] changes_restore_aside [OF s(3) assms(2)] changes_restore_aside [OF s(4) assms(3)]
    by (auto intro: within_mono simp: restore_places_def)
  then show ?thesis using changes_trans by blast
qed

lemma changes_publish:
  assumes "publish_forced io (staging_db db) (staging_artifacts io art) db art d = (r, d')
    \<or> publish_fresh io (staging_db db) (staging_artifacts io art) db art d = (r, d')"
  shows "changes (within (restore_places io db art)) d d'"
proof -
  let ?C = "changes (within (restore_places io db art))"
  have ren: "?C x y" if "rename_path io a b x = (e, y)" "a \<in> set (restore_places io db art)" "b \<in> set (restore_places io db art)"
    for a b x y e by (rule changes_rename [OF that(1)]) (use that(2,3) in \<open>auto simp: within_def\<close>)
  have side: "?C x y" if "move_aside io p x = (e, y)" "p \<in> {db, art}" for p x y e
    using changes_aside [OF that(1)] by (rule within_mono) (use that(2) in \<open>auto simp: restore_places_def\<close>)
  have undone: "?C x y" if "restore_aside io b p x = (e, y)" "b \<in> {[], kept_name io p}" "p \<in> {db, art}" for b p x y e
    using changes_restore_aside [OF that(1,2)] by (rule within_mono) (use that(3) in \<open>auto simp: restore_places_def\<close>)
  have rem: "?C x y" if "remove_all io db x = (e, y)" for x y e
    by (rule changes_remove [OF that]) (auto simp: within_def restore_places_def)
  have kept: "b \<in> {[], kept_name io p}" if "move_aside io p x = ((b, e), y)" for b p x y e
    using that by (cases rule: move_aside_cases) auto
  have mem: "db \<in> set (restore_places io db art)" "art \<in> set (restore_places io db art)"
    "staging_db db \<in> set (restore_places io db art)" "staging_artifacts io art \<in> set (restore_places io db art)"
    by (simp_all add: restore_places_def)
  from assms show ?thesis
  proof
    assume f: "publish_fresh io (staging_db db) (staging_artifacts io art) db art d = (r, d')"
    obtain e1 d1 where r1: "rename_path io (staging_db db) db d = (e1, d1)" by fastforce
    obtain e2 d2 where r2: "rename_path io (staging_artifacts io art) art d1 = (e2, d2)" by fastforce
    obtain e3 d3 where r3: "remove_all io db d2 = (e3, d3)" by fastforce
    have "?C d d1" "?C d1 d2" "?C d2 d3" using ren [OF r1] ren [OF r2] rem [OF r3] mem by blast+
    moreover have "d' \<in> {d1, d2, d3}" using f r1 r2 r3 by (auto simp: publish_fresh_def split: option.splits)
    ultimately show ?thesis using changes_trans by blast
  next
    assume f: "publish_forced io (staging_db db) (staging_artifacts io art) db art d = (r, d')"
    obtain b1 e1 d1 where m1: "move_aside io db d = ((b1, e1), d1)" by (metis surj_pair)
    obtain b2 e2 d2 where m2: "move_aside io art d1 = ((b2, e2), d2)" by (metis surj_pair)
    obtain x1 y1 where a: "restore_aside io b1 db d2 = (x1, y1)" by fastforce
    obtain e3 d3 where r1: "rename_path io (staging_db db) db d2 = (e3, d3)" by fastforce
    obtain x2 y2 where k3: "rollback io db art b1 b2 d3 = (x2, y2)" by fastforce
    obtain e4 d4 where r2: "rename_path io (staging_artifacts io art) art d3 = (e4, d4)" by fastforce
    obtain x3 y3 where k4: "rollback io db art b1 b2 d4 = (x3, y3)" by fastforce
    have "?C d d1" "?C d1 d2" "?C d2 y1" "?C d2 d3" "?C d3 y2" "?C d3 d4" "?C d4 y3"
      using side [OF m1] side [OF m2] undone [OF a kept [OF m1]] ren [OF r1] ren [OF r2] mem
        changes_rollback [OF k3 kept [OF m1] kept [OF m2]] changes_rollback [OF k4 kept [OF m1] kept [OF m2]]
      by blast+
    moreover have "d' \<in> {d1, y1, y2, y3, d4}"
      using f m1 m2 a r1 k3 r2 k4 by (auto simp: publish_forced_def split: option.splits)
    ultimately show ?thesis using changes_trans by (elim insertE emptyE) blast+
  qed
qed

section \<open>The steps of a restore\<close>

definition scratch_place :: "backup_io \<Rightarrow> string \<Rightarrow> string \<Rightarrow> loc \<Rightarrow> bool" where
  "scratch_place io db art q \<longleftrightarrow>
     within [staging_db db, staging_artifacts io art] q \<or> q = loc_of (dir_name db) \<or> q = loc_of (dir_name art)"

lemma verify_files_safe:
  "verify_files io d dir seen fs = None \<Longrightarrow> \<forall>f \<in> set fs. validate_relative_path io (fr_path f) = None"
  by (induction io d dir seen fs rule: verify_files.induct) (auto split: option.splits if_splits sum.splits)

lemma verify_manifest:
  assumes "verify_backup io d dir = None" "read_manifest io d dir = Inr m"
  shows "\<forall>f \<in> set (mf_files m). validate_relative_path io (fr_path f) = None" "mf_artifacts_dir m = ''artifacts''"
proof -
  have "verify_files io d dir [] (mf_files m) = None"
    using assms by (auto simp: verify_backup_def Let_def split: option.splits if_splits)
  then show "\<forall>f \<in> set (mf_files m). validate_relative_path io (fr_path f) = None" by (rule verify_files_safe)
  show "mf_artifacts_dir m = ''artifacts''"
    using assms(2) by (auto simp: read_manifest_def split: sum.splits if_splits)
qed

lemma staging_nonempty: "staging_artifacts io art \<noteq> []"
proof -
  have "clean_path p \<noteq> []" for p by (auto simp: clean_path_def Let_def)
  then show ?thesis by (simp add: staging_artifacts_def join_path_def)
qed

lemma staging_dir: "dir_name (staging_db db) = dir_name db"
proof -
  have "dropWhile (\<lambda>c. c \<noteq> CHR ''/'') (rev ''.restore-tmp'' @ rev db) = dropWhile (\<lambda>c. c \<noteq> CHR ''/'') (rev db)"
    by simp
  then show ?thesis by (simp add: staging_db_def dir_name_def)
qed

lemma staged_cases:
  assumes "restore_staged io dir db art force m (staging_db db) (staging_artifacts io art) d = (r, d')"
    and "\<forall>f \<in> set (mf_files m). validate_relative_path io (fr_path f) = None" "mf_artifacts_dir m = ''artifacts''"
  obtains (Stopped) "r \<noteq> None" "changes (beneath (loc_of (staging_artifacts io art))) d d'"
  | (Published) d1 where "changes (beneath (loc_of (staging_artifacts io art))) d d1"
      "(if force then publish_forced else publish_fresh) io (staging_db db) (staging_artifacts io art) db art d1 = (r, d')"
proof -
  obtain e1 d1 where f: "restore_files io dir (staging_artifacts io art) m (mf_files m) d = (e1, d1)" by fastforce
  obtain e2 d2 where k: "restore_key io dir (staging_artifacts io art) m d1 = (e2, d2)" by fastforce
  have c: "changes (beneath (loc_of (staging_artifacts io art))) d d1" "changes (beneath (loc_of (staging_artifacts io art))) d d2"
    using changes_restore_files [OF f staging_nonempty assms(3,2)] changes_restore_key [OF k staging_nonempty] changes_trans
    by blast+
  show ?thesis
  proof (cases "e1 = None \<and> e2 = None \<and> validate_sqlite_database io d2 (staging_db db) = None")
    case True
    then have "(if force then publish_forced else publish_fresh) io (staging_db db) (staging_artifacts io art) db art d2 = (r, d')"
      using assms(1) f k by (simp add: restore_staged_def)
    then show ?thesis by (rule Published [OF c(2)])
  next
    case False
    then have "r \<noteq> None \<and> d' \<in> {d1, d2}"
      using assms(1) f k by (auto simp: restore_staged_def split: option.splits)
    then show ?thesis using Stopped c by blast
  qed
qed

lemma mkdir_temp_cases:
  assumes "mkdir_temp io (dir_name art) ''.artifacts-restore-'' d = (p, d')"
  obtains (Failed) e where "p = Inl e" "d' = d"
  | (Made) "p = Inr (staging_artifacts io art)" "node_at d (staging_artifacts io art) = None"
      "d' = put_node (staging_artifacts io art) DirNode d"
  using assms unfolding mkdir_temp_def Let_def staging_artifacts_def [symmetric]
  by (cases "bi_fault io ''mkdirtemp'' (dir_name art)"; cases "node_at d (staging_artifacts io art)") auto

lemma restore_cases:
  assumes "restore_backup io dir db art force d = (r, d')"
  obtains (Stopped) "r \<noteq> None" "changes (scratch_place io db art) d d'"
  | (Published) m d1 d2 where "verify_backup io d dir = None" "read_manifest io d dir = Inr m"
      "force \<or> \<not> exists_path io d db \<and> \<not> exists_path io d art"
      "changes (scratch_place io db art) d d1"
      "apart (loc_of (staging_db db)) (loc_of (staging_artifacts io art)) \<Longrightarrow> \<exists>b. node_at d1 (staging_db db) = Some (FileNode b)"
      "(if force then publish_forced else publish_fresh) io (staging_db db) (staging_artifacts io art) db art d1 = (r, d2)"
      "changes (within [staging_db db, staging_artifacts io art]) d2 d'"
proof -
  let ?S = "scratch_place io db art" and ?t = "staging_db db" and ?a = "staging_artifacts io art"
  have beneath_S: "changes (beneath (loc_of p)) x y \<Longrightarrow> changes ?S x y" if "p \<in> {?t, ?a}" for p x y
    using that by (auto elim!: changes_mono simp: scratch_place_def within_def)
  show ?thesis
  proof (cases "verify_backup io d dir")
    case (Some e)
    then have "r = Some e" "d' = d" using assms by (simp_all add: restore_backup_def)
    then show ?thesis using Stopped by simp
  next
    case ver: None
    show ?thesis
    proof (cases "read_manifest io d dir")
      case (Inl e)
      then have "r = Some e" "d' = d" using ver assms by (simp_all add: restore_backup_def)
      then show ?thesis using Stopped by simp
    next
      case man: (Inr m)
      obtain e1 d1 where m1: "mkdir_all io (dir_name db) d = (e1, d1)" by fastforce
      obtain e2 d2 where m2: "mkdir_all io (dir_name art) d1 = (e2, d2)" by fastforce
      have c12: "changes ?S d d1" "changes ?S d d2"
        using changes_mkdir [OF m1, of ?S] changes_mkdir [OF m2, of ?S] changes_trans
        by (auto simp: scratch_place_def)
      obtain e3 d3 where cp: "copy_file io (join_path dir (mf_database m)) ?t d2 = (e3, d3)" by fastforce
      have t: "?S (loc_of ?t)" "?S (loc_of (dir_name ?t))" by (simp_all add: scratch_place_def within_def staging_dir)
      have c3: "changes ?S d d3" using changes_trans [OF c12(2) copy_cases(1) [OF cp t]] .
      obtain p d4 where mt: "mkdir_temp io (dir_name art) ''.artifacts-restore-'' d3 = (p, d4)" by fastforce
      have c4: "changes ?S d d4"
        using mt by (cases rule: mkdir_temp_cases)
          (use c3 changes_trans [OF c3 changes_put [of ?S ?a d3 DirNode]] in \<open>simp_all add: scratch_place_def within_def\<close>)
      have p: "(\<exists>e. p = Inl e) \<or> p = Inr ?a" using mt by (cases rule: mkdir_temp_cases) simp_all
      show ?thesis
      proof (cases "unsupported_database_url db \<or> \<not> force \<and> (exists_path io d db \<or> exists_path io d art) \<or> e1 \<noteq> None \<or> e2 \<noteq> None")
        case True
        then have "r \<noteq> None \<and> d' \<in> {d, d1, d2}"
          using assms ver man m1 m2 by (auto simp: restore_backup_def split: option.splits if_splits)
        then show ?thesis using Stopped c12 by auto
      next
        case go: False
        have rm_t: "changes (within [?t, ?a]) x (snd (remove_all io ?t x))" for x
          by (rule changes_remove [OF prod.collapse [symmetric]]) (simp add: within_def)
        have rm_a: "changes (within [?t, ?a]) x (snd (remove_all io ?a x))" for x
          by (rule changes_remove [OF prod.collapse [symmetric]]) (simp add: within_def)
        have in_S: "changes (within [?t, ?a]) x y \<Longrightarrow> changes ?S x y" for x y
          by (erule changes_mono) (simp add: scratch_place_def)
        show ?thesis
        proof (cases "e3 = None \<and> p = Inr ?a")
          case False
          then have "r \<noteq> None \<and> (d' = snd (remove_all io ?t d3) \<or> d' = snd (remove_all io ?t d4))"
            using assms ver man m1 m2 go cp mt p
            by (auto simp: restore_backup_def Let_def staging_db_def [symmetric] split: option.splits sum.splits)
          then show ?thesis using Stopped changes_trans [OF c3 in_S [OF rm_t]] changes_trans [OF c4 in_S [OF rm_t]] by blast
        next
          case True
          obtain x d5 where st: "restore_staged io dir db art force m ?t ?a d4 = (x, d5)" by fastforce
          have res: "r = x" "d' = snd (remove_all io ?t (snd (remove_all io ?a d5)))"
            using assms ver man m1 m2 go cp mt True st
            by (auto simp: restore_backup_def Let_def staging_db_def [symmetric])
          have rms: "changes (within [?t, ?a]) d5 d'" unfolding res(2) using changes_trans [OF rm_a rm_t] .
          from st verify_manifest [OF ver man] show ?thesis
          proof (cases rule: staged_cases)
            case Stopped
            then show ?thesis
              using res(1) that(1) changes_trans [OF changes_trans [OF c4 beneath_S [of ?a]] in_S [OF rms]] by blast
          next
            case (Published d1')
            have staged: "\<exists>b. node_at d1' ?t = Some (FileNode b)" if "apart (loc_of ?t) (loc_of ?a)"
            proof -
              obtain b where b: "node_at d3 ?t = Some (FileNode b)" using copy_cases(2) [OF cp t] True by blast
              have "node_at d4 ?t = node_at d3 ?t"
                using mt by (cases rule: mkdir_temp_cases) (use b in \<open>auto simp: node_at_def map_of_put\<close>)
              moreover have "node_at d1' ?t = node_at d4 ?t"
                unfolding node_at_def by (rule changesD [OF Published(1)]) (use that in \<open>simp add: apart_def\<close>)
              ultimately show ?thesis using b by simp
            qed
            have to: "changes ?S d d1'" using changes_trans [OF c4 beneath_S [OF _ Published(1)]] by simp
            have mode: "force \<or> \<not> exists_path io d db \<and> \<not> exists_path io d art" using go by blast
            show ?thesis by (rule that(2) [OF ver man mode to staged Published(2) [folded res(1)] rms])
          qed
        qed
      qed
    qed
  qed
qed


section \<open>All or nothing\<close>

text \<open>
  The destinations are files or directories, or absent; the places of the restore are apart, and the system calls that
  inspect and put back the destinations work.
\<close>

definition restorable :: "backup_io \<Rightarrow> disk \<Rightarrow> string \<Rightarrow> string \<Rightarrow> string \<Rightarrow> bool" where
  "restorable io d db art p \<longleftrightarrow>
     \<not> beneath (loc_of p) (loc_of (dir_name db)) \<and> \<not> beneath (loc_of p) (loc_of (dir_name art))
     \<and> (node_at d p = None \<longrightarrow> tree d (loc_of p) = (\<lambda>_. None)) \<and> node_at d p \<noteq> Some (LinkNode None)
     \<and> bi_fault io ''stat'' p = None \<and> bi_fault io ''stat'' (kept_name io p) = None
     \<and> bi_fault io ''remove'' p = None \<and> bi_fault io ''rename'' (kept_name io p) = None"

definition undoable :: "backup_io \<Rightarrow> disk \<Rightarrow> string \<Rightarrow> string \<Rightarrow> bool" where
  "undoable io d db art \<longleftrightarrow>
     sorted_wrt (\<lambda>p q. apart (loc_of p) (loc_of q)) (restore_places io db art)
     \<and> restorable io d db art db \<and> restorable io d db art art"

lemma exists_tree:
  "bi_fault io ''stat'' p = None \<Longrightarrow>
     exists_path io d p \<longleftrightarrow> tree d (loc_of p) [] \<noteq> None \<and> tree d (loc_of p) [] \<noteq> Some (LinkNode None)"
  by (auto simp: exists_path_def stat_def node_tree split: option.splits node.splits)

lemma tree_changes: "changes P d d' \<Longrightarrow> (\<And>q. P q \<Longrightarrow> \<not> beneath l q) \<Longrightarrow> tree d' l = tree d l"
proof (rule ext)
  fix es assume c: "changes P d d'" and P: "\<And>q. P q \<Longrightarrow> \<not> beneath l q"
  have "beneath l (fst l, snd l @ es)" by (simp add: beneath_def)
  then show "tree d' l es = tree d l es" unfolding tree_def using P changesD [OF c] by blast
qed

text \<open>A rename between two places that are apart.\<close>

lemma rename_trees:
  assumes "rename_path io a b d = (r, d')" "apart (loc_of a) (loc_of b)"
  obtains (Failed) e where "r = Some e" "d' = d"
  | (Moved) "r = None" "tree d' (loc_of b) = tree d (loc_of a)" "tree d' (loc_of a) = (\<lambda>_. None)"
      "\<And>l. apart l (loc_of a) \<Longrightarrow> apart l (loc_of b) \<Longrightarrow> tree d' l = tree d l" "tree d (loc_of a) [] \<noteq> None"
  using assms(1)
proof (cases rule: rename_cases)
  case Moved
  then show ?thesis using that(2) tree_move [OF assms(2)] by (auto simp: node_tree)
qed (use that in auto)

text \<open>Putting one destination back: whatever is there now is removed, and what was kept returns.\<close>

definition kept_ok :: "backup_io \<Rightarrow> string \<Rightarrow> string \<Rightarrow> (string list \<Rightarrow> node option) \<Rightarrow> disk \<Rightarrow> bool" where
  "kept_ok io p b T d \<longleftrightarrow>
     (b = [] \<and> T = (\<lambda>_. None)
      \<or> b = kept_name io p \<and> tree d (loc_of b) = T \<and> T [] \<noteq> None \<and> T [] \<noteq> Some (LinkNode None))"

lemma put_back:
  assumes "apart (loc_of p) (loc_of (kept_name io p))" "bi_fault io ''stat'' (kept_name io p) = None"
    "bi_fault io ''rename'' (kept_name io p) = None" "kept_ok io p b T d" "tree d (loc_of p) = (\<lambda>_. None)"
    "restore_aside io b p d = (r, d')"
  shows "tree d' (loc_of p) = T" "apart l (loc_of p) \<Longrightarrow> apart l (loc_of (kept_name io p)) \<Longrightarrow> tree d' l = tree d l"
proof -
  have nonempty: "kept_name io p \<noteq> []" by (simp add: kept_name_def)
  consider (none) "b = []" "T = (\<lambda>_. None)" "d' = d" | (kept) "b = kept_name io p" "tree d (loc_of b) = T" "d' = move_tree b p d"
  proof (cases "b = []")
    case True
    then show ?thesis using assms(4,6) none nonempty by (auto simp: kept_ok_def restore_aside_def)
  next
    case False
    then have b: "b = kept_name io p" "tree d (loc_of b) = T" "T [] \<noteq> None" "T [] \<noteq> Some (LinkNode None)"
      using assms(4) by (auto simp: kept_ok_def)
    then have "exists_path io d b" using exists_tree [of io b d] assms(2) by simp
    moreover have "rename_path io b p d = (None, move_tree b p d)"
      using b assms(1,3,5) by (simp add: rename_path_def node_tree apart_def)
    ultimately show ?thesis using kept b False assms(6) by (simp add: restore_aside_def)
  qed
  then have "tree d' (loc_of p) = T \<and> (apart l (loc_of p) \<longrightarrow> apart l (loc_of (kept_name io p)) \<longrightarrow> tree d' l = tree d l)" for l
  proof cases
    case kept
    have "apart (loc_of b) (loc_of p)" using kept(1) assms(1) by (simp add: apart_sym)
    then show ?thesis using tree_move [where a = b and b = p and d = d] kept by simp
  qed (simp add: assms(5))
  then show "tree d' (loc_of p) = T" "apart l (loc_of p) \<Longrightarrow> apart l (loc_of (kept_name io p)) \<Longrightarrow> tree d' l = tree d l"
    by blast+
qed

lemma remove_there:
  assumes "bi_fault io ''stat'' p = None" "bi_fault io ''remove'' p = None" "remove_if_there io p d = (r, d')"
    and "tree d (loc_of p) = (\<lambda>_. None) \<or> (\<exists>b. tree d (loc_of p) [] = Some (FileNode b))"
  shows "tree d' (loc_of p) = (\<lambda>_. None)" "apart l (loc_of p) \<Longrightarrow> tree d' l = tree d l"
proof -
  have "d' = d \<and> tree d (loc_of p) = (\<lambda>_. None) \<or> d' = drop_tree p d"
    using assms exists_tree [OF assms(1), of d] by (auto simp: remove_if_there_def remove_all_def split: if_splits)
  then show "tree d' (loc_of p) = (\<lambda>_. None)" "apart l (loc_of p) \<Longrightarrow> tree d' l = tree d l"
    using tree_drop(1) [of p d] tree_drop(2) [of l p d] by (elim disjE conjE; simp)+
qed

lemma places_apart:
  assumes "undoable io d db art"
  shows "apart (loc_of db) (loc_of art)" "apart (loc_of db) (loc_of (kept_name io db))" "apart (loc_of db) (loc_of (kept_name io art))"
    "apart (loc_of db) (loc_of (staging_db db))" "apart (loc_of db) (loc_of (staging_artifacts io art))"
    "apart (loc_of art) (loc_of (kept_name io db))" "apart (loc_of art) (loc_of (kept_name io art))"
    "apart (loc_of art) (loc_of (staging_db db))" "apart (loc_of art) (loc_of (staging_artifacts io art))"
    "apart (loc_of (kept_name io db)) (loc_of (kept_name io art))" "apart (loc_of (kept_name io db)) (loc_of (staging_db db))"
    "apart (loc_of (kept_name io db)) (loc_of (staging_artifacts io art))"
    "apart (loc_of (kept_name io art)) (loc_of (staging_db db))" "apart (loc_of (kept_name io art)) (loc_of (staging_artifacts io art))"
    "apart (loc_of (staging_db db)) (loc_of (staging_artifacts io art))"
  using assms unfolding undoable_def restore_places_def by simp_all

lemma undoable_calls:
  assumes "undoable io d db art" "p \<in> {db, art}"
  shows "bi_fault io ''stat'' p = None" "bi_fault io ''stat'' (kept_name io p) = None" "bi_fault io ''remove'' p = None"
    "bi_fault io ''rename'' (kept_name io p) = None" "node_at d p = None \<Longrightarrow> tree d (loc_of p) = (\<lambda>_. None)"
    "node_at d p \<noteq> Some (LinkNode None)" "\<not> beneath (loc_of p) (loc_of (dir_name db))"
    "\<not> beneath (loc_of p) (loc_of (dir_name art))" "apart (loc_of p) (loc_of (kept_name io p))"
proof -
  have c: "restorable io d db art p" using assms by (auto simp: undoable_def)
  show "bi_fault io ''stat'' p = None" "bi_fault io ''stat'' (kept_name io p) = None" "bi_fault io ''remove'' p = None"
    "bi_fault io ''rename'' (kept_name io p) = None" "node_at d p = None \<Longrightarrow> tree d (loc_of p) = (\<lambda>_. None)"
    "node_at d p \<noteq> Some (LinkNode None)" "\<not> beneath (loc_of p) (loc_of (dir_name db))"
    "\<not> beneath (loc_of p) (loc_of (dir_name art))"
    using c by (simp_all add: restorable_def)
  show "apart (loc_of p) (loc_of (kept_name io p))" using assms(2) places_apart(2,7) [OF assms(1)] by auto
qed

lemma kept_ok_cong: "tree d' (loc_of (kept_name io p)) = tree d (loc_of (kept_name io p)) \<Longrightarrow> kept_ok io p b T d' = kept_ok io p b T d"
  by (auto simp: kept_ok_def)

lemma aside_trees:
  assumes "move_aside io p d = ((b, e), d')" "bi_fault io ''stat'' p = None" "apart (loc_of p) (loc_of (kept_name io p))"
    and "tree d (loc_of p) [] = None \<longrightarrow> tree d (loc_of p) = (\<lambda>_. None)" "tree d (loc_of p) [] \<noteq> Some (LinkNode None)"
  obtains (Failed) "e \<noteq> None" "d' = d"
  | (Done) "e = None" "kept_ok io p b (tree d (loc_of p)) d'" "tree d' (loc_of p) = (\<lambda>_. None)"
      "\<And>l. apart l (loc_of p) \<Longrightarrow> apart l (loc_of (kept_name io p)) \<Longrightarrow> tree d' l = tree d l"
  using assms(1)
proof (cases rule: move_aside_cases)
  case Absent
  then have "tree d (loc_of p) = (\<lambda>_. None)" using exists_tree [OF assms(2), of d] assms(4,5) by auto
  then show ?thesis using Absent that(2) by (simp add: kept_ok_def)
next
  case Present
  from Present(3) assms(3) show ?thesis
    unfolding Present(2)
  proof (cases rule: rename_trees)
    case Failed
    then show ?thesis using that(1) by simp
  next
    case Moved
    then show ?thesis using that(2) Present(2) assms(5) by (simp add: kept_ok_def)
  qed
qed

lemma rollback_restores:
  assumes u: "undoable io d0 db art" and rb: "rollback io db art b1 b2 d = (r, d')"
    and k: "kept_ok io db b1 T1 d" "kept_ok io art b2 T2 d"
    and t: "tree d (loc_of art) = (\<lambda>_. None)"
      "tree d (loc_of db) = (\<lambda>_. None) \<or> (\<exists>b. tree d (loc_of db) [] = Some (FileNode b))"
  shows "tree d' (loc_of db) = T1 \<and> tree d' (loc_of art) = T2"
proof -
  note ap = places_apart [OF u] places_apart [OF u, THEN apart_sym]
  have calls: "db \<in> {db, art}" "art \<in> {db, art}" by simp_all
  note cd = undoable_calls [OF u calls(1)] and ca = undoable_calls [OF u calls(2)]
  obtain e1 d1 e2 d2 e3 d3 e4 where s: "remove_if_there io db d = (e1, d1)" "remove_if_there io art d1 = (e2, d2)"
    "restore_aside io b1 db d2 = (e3, d3)" "restore_aside io b2 art d3 = (e4, d')"
    using rb by (auto simp: rollback_def Let_def split: prod.splits)
  note r1 = remove_there [OF cd(1,3) s(1) t(2)]
  have t1: "tree d1 (loc_of art) = (\<lambda>_. None)" using r1(2) ap t(1) by simp
  note r2 = remove_there [OF ca(1,3) s(2) disjI1, OF t1]
  have k2: "kept_ok io db b1 T1 d2" "kept_ok io art b2 T2 d2"
    using k kept_ok_cong [of d2 io db d] kept_ok_cong [of d2 io art d] r1(2) r2(2) ap by simp_all
  have t2: "tree d2 (loc_of db) = (\<lambda>_. None)" using r1(1) r2(2) ap by simp
  note b1 = put_back [OF cd(9,2,4) k2(1) t2 s(3)]
  have k3: "kept_ok io art b2 T2 d3" using k2(2) kept_ok_cong [of d3 io art d2] b1(2) ap by simp
  have t3: "tree d3 (loc_of art) = (\<lambda>_. None)" using b1(2) r2(1) ap by simp
  note b2 = put_back [OF ca(9,2,4) k3 t3 s(4)]
  show ?thesis using b1(1) b2 ap by simp
qed

lemma forced_fails:
  assumes u: "undoable io d0 db art" and same: "tree d (loc_of db) = tree d0 (loc_of db)" "tree d (loc_of art) = tree d0 (loc_of art)"
    and staged: "\<exists>b. node_at d (staging_db db) = Some (FileNode b)"
    and f: "publish_forced io (staging_db db) (staging_artifacts io art) db art d = (Some e, d')"
  shows "tree d' (loc_of db) = tree d0 (loc_of db) \<and> tree d' (loc_of art) = tree d0 (loc_of art)"
proof -
  note ap = places_apart [OF u] places_apart [OF u, THEN apart_sym]
  have calls: "db \<in> {db, art}" "art \<in> {db, art}" by simp_all
  note cd = undoable_calls [OF u calls(1)] and ca = undoable_calls [OF u calls(2)]
  obtain b1 e1 d1 where m1: "move_aside io db d = ((b1, e1), d1)" by (metis surj_pair)
  obtain b2 e2 d2 where m2: "move_aside io art d1 = ((b2, e2), d2)" by (metis surj_pair)
  obtain e3 d3 where r1: "rename_path io (staging_db db) db d2 = (e3, d3)" by fastforce
  obtain e4 d4 where r2: "rename_path io (staging_artifacts io art) art d3 = (e4, d4)" by fastforce
  have closed_db: "tree d (loc_of db) [] = None \<longrightarrow> tree d (loc_of db) = (\<lambda>_. None)" "tree d (loc_of db) [] \<noteq> Some (LinkNode None)"
    using same(1) cd(5,6) by (simp_all add: node_tree)
  from m1 cd(1,9) closed_db show ?thesis
  proof (cases rule: aside_trees)
    case Failed
    then have "d' = d" using f m1 by (auto simp: publish_forced_def)
    then show ?thesis using same by simp
  next
    case k1: Done
    have a1: "tree d1 (loc_of art) = tree d0 (loc_of art)" using k1(4) ap same by simp
    have closed_art: "tree d1 (loc_of art) [] = None \<longrightarrow> tree d1 (loc_of art) = (\<lambda>_. None)"
      "tree d1 (loc_of art) [] \<noteq> Some (LinkNode None)"
      using a1 ca(5,6) by (simp_all add: node_tree)
    from m2 ca(1,9) closed_art show ?thesis
    proof (cases rule: aside_trees)
      case Failed
      obtain x y where ra: "restore_aside io b1 db d2 = (x, y)" by fastforce
      then have "d' = y" using f m1 m2 k1(1) Failed by (auto simp: publish_forced_def)
      then show ?thesis
        using put_back [OF cd(9,2,4) k1(2,3)] ra Failed a1 same ap by simp
    next
      case k2: Done
      have kd: "kept_ok io db b1 (tree d0 (loc_of db)) d2"
        using k1(2) kept_ok_cong [of d2 io db d1] k2(4) ap same by simp
      have ka: "kept_ok io art b2 (tree d0 (loc_of art)) d2" using k2(2) a1 by simp
      have dn: "tree d2 (loc_of db) = (\<lambda>_. None)" using k2(4) k1(3) ap by simp
      have st: "\<exists>b. tree d2 (loc_of (staging_db db)) [] = Some (FileNode b)"
        using staged k1(4) k2(4) ap by (simp add: node_tree)
      have d3: "kept_ok io db b1 (tree d0 (loc_of db)) d3 \<and> kept_ok io art b2 (tree d0 (loc_of art)) d3
        \<and> tree d3 (loc_of art) = (\<lambda>_. None)
        \<and> (tree d3 (loc_of db) = (\<lambda>_. None) \<or> (\<exists>b. tree d3 (loc_of db) [] = Some (FileNode b)))"
        using r1 ap(19)
      proof (cases rule: rename_trees)
        case Failed
        then show ?thesis using kd ka dn k2(3) by simp
      next
        case Moved
        then show ?thesis
          using kd ka st k2(3) ap kept_ok_cong [of d3 io db d2] kept_ok_cong [of d3 io art d2] by simp
      qed
      obtain x y where rb: "rollback io db art b1 b2 d3 = (x, y)" by fastforce
      have "d' = y"
      proof (cases e3)
        case None
        from r2 have "e4 \<noteq> None \<and> d4 = d3"
        proof (cases rule: rename_cases)
          case Moved
          then show ?thesis using f m1 m2 k1(1) k2(1) r1 r2 None by (simp add: publish_forced_def)
        qed simp
        then show ?thesis using f m1 m2 k1(1) k2(1) r1 r2 None rb by (auto simp: publish_forced_def)
      next
        case (Some e')
        then show ?thesis using f m1 m2 k1(1) k2(1) r1 rb by (auto simp: publish_forced_def)
      qed
      then show ?thesis
        using rollback_restores [OF u rb, of "tree d0 (loc_of db)" "tree d0 (loc_of art)"] d3 by blast
    qed
  qed
qed

lemma fresh_fails:
  assumes u: "undoable io d0 db art" and same: "tree d (loc_of db) = tree d0 (loc_of db)" "tree d (loc_of art) = tree d0 (loc_of art)"
    and absent: "\<not> exists_path io d0 db" "\<not> exists_path io d0 art"
    and f: "publish_fresh io (staging_db db) (staging_artifacts io art) db art d = (Some e, d')"
  shows "tree d' (loc_of db) = tree d0 (loc_of db) \<and> tree d' (loc_of art) = tree d0 (loc_of art)"
proof -
  note ap = places_apart [OF u] places_apart [OF u, THEN apart_sym]
  have calls: "db \<in> {db, art}" "art \<in> {db, art}" by simp_all
  note cd = undoable_calls [OF u calls(1)] and ca = undoable_calls [OF u calls(2)]
  have none: "tree d0 (loc_of db) = (\<lambda>_. None)"
    using absent(1) exists_tree [OF cd(1), of d0] cd(5,6) by (auto simp: node_tree)
  obtain e1 d1 where r1: "rename_path io (staging_db db) db d = (e1, d1)" by fastforce
  obtain e2 d2 where r2: "rename_path io (staging_artifacts io art) art d1 = (e2, d2)" by fastforce
  from r1 ap(19) show ?thesis
  proof (cases rule: rename_trees)
    case Failed
    then show ?thesis using f r1 same by (simp add: publish_fresh_def)
  next
    case m1: Moved
    have a1: "tree d1 (loc_of art) = tree d0 (loc_of art)" using m1(4) ap same by simp
    from r2 show ?thesis
    proof (cases rule: rename_cases)
      case Failed
      then have "d' = drop_tree db d1" using f r1 r2 m1(1) cd(3) by (simp add: publish_fresh_def remove_all_def)
      then show ?thesis using tree_drop(1) [of db d1] tree_drop(2) [of "loc_of art" db d1] ap none a1 by simp
    next
      case Moved
      then show ?thesis using f r1 r2 m1(1) by (simp add: publish_fresh_def)
    qed
  qed
qed


section \<open>What verification establishes\<close>

definition intact :: "backup_io \<Rightarrow> disk \<Rightarrow> string \<Rightarrow> file_record \<Rightarrow> bool" where
  "intact io d dir f \<longleftrightarrow>
     (\<exists>b. node_at d (join_path dir (fr_path f)) = Some (FileNode b)
        \<and> fr_size f = int (length b) \<and> fr_sha f = cy_sum (bi_crypto io) b)"

lemma describe_intact:
  assumes "describe_file io d p mp = Inr f"
  obtains b where "node_at d p = Some (FileNode b)" "f = \<lparr>fr_path = mp, fr_size = int (length b), fr_sha = cy_sum (bi_crypto io) b\<rparr>"
proof -
  obtain n where n: "node_at d p = Some n" "\<And>l. n \<noteq> LinkNode l"
    using assms by (auto simp: describe_file_def lstat_def split: option.splits stat_result.splits node.splits)
  then show ?thesis
    using assms that by (cases n) (auto simp: describe_file_def lstat_def read_bytes_def split: option.splits)
qed

lemma verify_files_intact:
  "verify_files io d dir seen fs = None \<Longrightarrow>
     (\<forall>f \<in> set fs. intact io d dir f \<and> fr_path f \<notin> set seen) \<and> distinct (map fr_path fs)"
proof (induction io d dir seen fs rule: verify_files.induct)
  case (2 io d dir seen f fs)
  obtain a where a: "fr_path f \<notin> set seen" "describe_file io d (join_path dir (fr_path f)) (fr_path f) = Inr a"
    "fr_size a = fr_size f" "fr_sha a = fr_sha f" "verify_files io d dir (fr_path f # seen) fs = None"
    using 2(2) by (auto split: option.splits if_splits sum.splits)
  have v: "validate_relative_path io (fr_path f) = None" using 2(2) by (simp split: option.splits)
  from a(2) have "intact io d dir f" by (rule describe_intact) (use a(3,4) in \<open>auto simp: intact_def\<close>)
  then show ?case using a 2(1) [OF v a(1,2)] by auto
qed simp

lemma order_by_mem: "(q, n) \<in> set (walk d dir) \<longleftrightarrow> (\<exists>k. (k, n) \<in> set d \<and> beneath (loc_of dir) k \<and> q = below (loc_of dir) k)"
  by (auto simp: walk_def image_iff)

text \<open>
  What \<open>verifyBackup\<close> accepts.  The manifest names exactly one database; its paths are distinct, safe and each a regular
  file of the recorded size and SHA-256 digest; SQLite finds the database intact; and the directory holds no other file.
\<close>

theorem verified_backup:
  assumes "verify_backup io d dir = None"
  shows "\<exists>m. read_manifest io d dir = Inr m \<and> mf_database m = ''svrtools.db''
    \<and> distinct (map fr_path (mf_files m))
    \<and> (\<forall>f \<in> set (mf_files m). intact io d dir f \<and> validate_relative_path io (fr_path f) = None)
    \<and> count_where (\<lambda>f. fr_path f = ''svrtools.db'') (mf_files m) = 1
    \<and> validate_sqlite_database io d (join_path dir ''svrtools.db'') = None
    \<and> (\<forall>k n. (k, n) \<in> set d \<and> beneath (loc_of dir) k \<and> n \<noteq> DirNode \<longrightarrow>
         rel_path (below (loc_of dir) k) \<in> insert ''manifest.json'' (fr_path ` set (mf_files m)))"
proof -
  obtain m where m: "read_manifest io d dir = Inr m" using assms by (auto simp: verify_backup_def split: sum.splits)
  have v: "validate_manifest io m = None" "verify_files io d dir [] (mf_files m) = None"
    "validate_sqlite_database io d (join_path dir (mf_database m)) = None" "extra_files d dir (map fr_path (mf_files m)) = []"
    using assms m by (auto simp: verify_backup_def Let_def split: option.splits if_splits)
  have db: "mf_database m = ''svrtools.db''" using m by (auto simp: read_manifest_def split: sum.splits if_splits)
  have one: "count_where (\<lambda>f. fr_path f = ''svrtools.db'') (mf_files m) = 1"
    using v(1) [unfolded validate_manifest_def Let_def first_error_None set_append ball_Un] by (simp add: db)
  have rest: "rel_path (below (loc_of dir) k) \<in> insert ''manifest.json'' (fr_path ` set (mf_files m))"
    if k: "(k, n) \<in> set d" "beneath (loc_of dir) k" "n \<noteq> DirNode" for k n
  proof -
    have "(below (loc_of dir) k, n) \<in> set (walk d dir)" using k order_by_mem by blast
    then have "rel_path (below (loc_of dir) k) \<in> set (map (rel_path \<circ> fst) (filter (\<lambda>(_, n). n \<noteq> DirNode) (walk d dir)))"
      using k(3) by force
    moreover have "\<forall>rel \<in> set (map (rel_path \<circ> fst) (filter (\<lambda>(_, n). n \<noteq> DirNode) (walk d dir))).
        \<not> (rel \<noteq> ''manifest.json'' \<and> rel \<notin> set (map fr_path (mf_files m)))"
      using v(4) unfolding extra_files_def filter_empty_conv .
    ultimately show ?thesis by auto
  qed
  have files: "distinct (map fr_path (mf_files m))"
    "\<forall>f \<in> set (mf_files m). intact io d dir f \<and> validate_relative_path io (fr_path f) = None"
    using verify_files_intact [OF v(2)] verify_files_safe [OF v(2)] by blast+
  show ?thesis
    by (intro exI [of _ m] conjI m db one files v(3) [unfolded db] allI impI) (elim conjE, rule rest)
qed

text \<open>The artifact key in a backup is opened by the key that wrapped it.\<close>

theorem backup_key_roundtrip:
  assumes "opens_sealed (bi_crypto io)" "length (bi_nonce io) = nonce_size" "length key = 32"
    and "encrypt_backup_key io key wrapping_key = Inr encoded"
  shows "decrypt_backup_key (bi_crypto io) encoded wrapping_key = Inr key"
  using assms by (auto simp: encrypt_backup_key_def decrypt_backup_key_def opens_sealed_def split: option.splits)

section \<open>An example\<close>

definition sample_manifest :: backup_manifest where
  "sample_manifest = \<lparr>mf_version = 1, mf_created_at = ''2026'', mf_database = ''svrtools.db'', mf_artifacts_dir = ''artifacts'',
     mf_artifact_files = 1, mf_encryption_key = [], mf_key_recovery = [],
     mf_files = [\<lparr>fr_path = ''artifacts/a.bin'', fr_size = 3, fr_sha = replicate 64 (CHR ''3'')\<rparr>,
       \<lparr>fr_path = ''svrtools.db'', fr_size = 2, fr_sha = replicate 64 (CHR ''2'')\<rparr>]\<rparr>"

definition sample_backup_io :: "(string \<Rightarrow> string \<Rightarrow> string option) \<Rightarrow> backup_io" where
  "sample_backup_io fault = \<lparr>bi_fault = fault, bi_short = (\<lambda>_. 0), bi_temp = ''1'', bi_stamp = (\<lambda>_. ''t''), bi_now = ''2026'',
     bi_getenv = (\<lambda>_. []), bi_crypto = \<lparr>cy_sum = (\<lambda>b. replicate 64 (if length b = 3 then CHR ''3'' else CHR ''2'')),
       cy_seal = (\<lambda>_ _ d _. d), cy_open = (\<lambda>_ _ d _. Some d)\<rparr>, bi_nonce = [],
     bi_decode = (\<lambda>_. Inr sample_manifest), bi_encode = (\<lambda>_. []), bi_rfc3339 = (\<lambda>_. True), bi_quote = id,
     bi_vacuum = Inr, bi_integrity = (\<lambda>_. Inr ''ok''), bi_foreign_keys = (\<lambda>_. Inr False)\<rparr>"

definition sample_disk :: disk where
  "sample_disk = [(loc_of ''/b'', DirNode), (loc_of ''/b/manifest.json'', FileNode ''m''), (loc_of ''/b/svrtools.db'', FileNode ''db''),
     (loc_of ''/b/artifacts'', DirNode), (loc_of ''/b/artifacts/a.bin'', FileNode ''abc''),
     (loc_of ''/d'', DirNode), (loc_of ''/d/s.db'', FileNode ''old''), (loc_of ''/d/art'', DirNode),
     (loc_of ''/d/art/x.bin'', FileNode ''x'')]"

text \<open>A forced restore whose last rename fails.\<close>

definition sample_fault :: "string \<Rightarrow> string \<Rightarrow> string option" where
  "sample_fault call p = (if call = ''rename'' \<and> p = ''/d/.artifacts-restore-1'' then Some ''io error'' else None)"

definition sample_restore :: "string option \<times> disk" where
  "sample_restore = restore_backup (sample_backup_io sample_fault) ''/b'' ''/d/s.db'' ''/d/art'' True sample_disk"

lemma sample_verified: "verify_backup (sample_backup_io sample_fault) sample_disk ''/b'' = None"
  by code_simp

lemma sample_restore_failed: "fst sample_restore = Some ''io error''"
  by code_simp

lemma sample_restore_eq:
  "restore_backup (sample_backup_io sample_fault) ''/b'' ''/d/s.db'' ''/d/art'' True sample_disk = (Some ''io error'', snd sample_restore)"
  using sample_restore_failed by (metis sample_restore_def prod.collapse)

theorem verified_backup_witness:
  "\<exists>m. read_manifest (sample_backup_io sample_fault) sample_disk ''/b'' = Inr m \<and> distinct (map fr_path (mf_files m))"
  using verified_backup [OF sample_verified] by blast


lemma sample_undoable: "undoable (sample_backup_io sample_fault) sample_disk ''/d/s.db'' ''/d/art''"
proof -
  have a: "sorted_wrt (\<lambda>p q. apart (loc_of p) (loc_of q)) (restore_places (sample_backup_io sample_fault) ''/d/s.db'' ''/d/art'')"
    and n: "node_at sample_disk ''/d/s.db'' = Some (FileNode ''old'')" "node_at sample_disk ''/d/art'' = Some DirNode"
    and b: "\<not> beneath (loc_of ''/d/s.db'') (loc_of (dir_name ''/d/s.db''))" "\<not> beneath (loc_of ''/d/s.db'') (loc_of (dir_name ''/d/art''))"
      "\<not> beneath (loc_of ''/d/art'') (loc_of (dir_name ''/d/s.db''))" "\<not> beneath (loc_of ''/d/art'') (loc_of (dir_name ''/d/art''))"
    by code_simp+
  show ?thesis
    unfolding undoable_def restorable_def
    using a n b by (simp add: sample_backup_io_def sample_fault_def kept_name_def)
qed


end
