(* ===== verification/Client.thy ===== *)
theory Client
  imports Json
begin

text \<open>
  \<open>packages/sdk-go/client/client.go\<close>: the HTTP client of the command line and terminal interfaces.  A call sends one request
  and returns an error or the decoded answer.  What the control plane answers may depend on the requests it has
  received before: \<open>cn_net\<close> takes their list.  Decoding JSON into a Go type is a function for each type; the base URL is
  one that \<open>http.NewRequest\<close> parses.
\<close>

section \<open>Escaping, as \<open>net/url\<close> does it\<close>

definition upper_hex :: "nat \<Rightarrow> char" where
  "upper_hex n = (if n < 10 then char_of (48 + n) else char_of (55 + n))"

definition percent :: "char \<Rightarrow> string" where
  "percent c = [CHR ''%'', upper_hex (code c div 16), upper_hex (code c mod 16)]"

definition unreserved :: "char \<Rightarrow> bool" where
  "unreserved c \<longleftrightarrow> is_lower c \<or> is_upper c \<or> is_digit c \<or> c \<in> {CHR ''-'', CHR ''_'', CHR ''.'', CHR ''~''}"

definition segment_char :: "char \<Rightarrow> bool" where
  "segment_char c \<longleftrightarrow> unreserved c \<or> c \<in> {CHR ''$'', CHR ''&'', CHR ''+'', CHR ''='', CHR '':'', CHR ''@''}"

definition path_escape :: "string \<Rightarrow> string" where
  "path_escape s = concat (map (\<lambda>c. if segment_char c then [c] else percent c) s)"

definition query_escape :: "string \<Rightarrow> string" where
  "query_escape s = concat (map (\<lambda>c. if unreserved c then [c] else if c = CHR '' '' then ''+'' else percent c) s)"

section \<open>Requests\<close>

record client =
  cl_base_url :: string
  cl_user_id :: string
  cl_api_token :: string
  cl_runner_token :: string

record request =
  hr_method :: string
  hr_base :: string
  hr_path :: string
  hr_headers :: "(string \<times> string) list"
  hr_body :: string

datatype http_reply = NoReply string | HttpReply int string

type_synonym 'a decoder = "string \<Rightarrow> string + 'a"

record connection =
  cn_client :: client
  cn_net :: "request list \<Rightarrow> request \<Rightarrow> http_reply"
  cn_error :: "(string \<times> string) decoder"

type_synonym 'a call = "request list \<Rightarrow> (string + 'a) \<times> request list"

definition new_client :: "(string \<Rightarrow> string) \<Rightarrow> string \<Rightarrow> client" where
  "new_client getenv base_url =
     \<lparr>cl_base_url = base_url, cl_user_id = [], cl_api_token = getenv ''VPS_API_TOKEN'', cl_runner_token = getenv ''VPS_RUNNER_TOKEN''\<rparr>"

definition set_user :: "string \<Rightarrow> client \<Rightarrow> client" where
  "set_user user_id c = c\<lparr>cl_user_id := user_id\<rparr>"

definition set_token :: "string \<Rightarrow> client \<Rightarrow> client" where
  "set_token token c = c\<lparr>cl_api_token := token\<rparr>"

definition set_auth :: "client \<Rightarrow> (string \<times> string) list" where
  "set_auth c =
     (if cl_api_token c \<noteq> [] then [(''Authorization'', ''Bearer '' @ cl_api_token c)]
      else if cl_user_id c \<noteq> [] then [(''X-VPS-User'', cl_user_id c)] else [])"

definition runner_header :: "client \<Rightarrow> (string \<times> string) list" where
  "runner_header c = (if cl_runner_token c \<noteq> [] then [(''X-VPS-Runner-Token'', cl_runner_token c)] else [])"

definition parse_api_error :: "connection \<Rightarrow> int \<Rightarrow> string \<Rightarrow> string" where
  "parse_api_error cn status body =
     (case cn_error cn body of
        Inr (e, nxt) \<Rightarrow> if e \<noteq> [] then (if nxt \<noteq> [] then e @ [CHR 0x0A] @ nxt else e) else ''unexpected status: '' @ int_str status
      | Inl _ \<Rightarrow> ''unexpected status: '' @ int_str status)"

text \<open>What the three methods share: send, look at the status, decode.\<close>

definition exchange :: "connection \<Rightarrow> (int \<Rightarrow> bool) \<Rightarrow> 'a decoder \<Rightarrow> request \<Rightarrow> 'a call" where
  "exchange cn success dec rq sent =
     (case cn_net cn sent rq of
        NoReply e \<Rightarrow> Inl (''request failed: '' @ e)
      | HttpReply status body \<Rightarrow> if \<not> success status then Inl (parse_api_error cn status body) else dec body,
      sent @ [rq])"

definition get_json :: "connection \<Rightarrow> string \<Rightarrow> 'a decoder \<Rightarrow> 'a call" where
  "get_json cn path dec =
     (let c = cn_client cn
      in exchange cn (\<lambda>s. s = 200) dec
           \<lparr>hr_method = ''GET'', hr_base = cl_base_url c, hr_path = path, hr_headers = set_auth c @ runner_header c, hr_body = []\<rparr>)"

definition post_with_headers ::
  "connection \<Rightarrow> string \<Rightarrow> json \<Rightarrow> 'a decoder \<Rightarrow> (string \<times> string) list \<Rightarrow> 'a call" where
  "post_with_headers cn path body dec headers =
     (let c = cn_client cn
      in exchange cn (\<lambda>s. 200 \<le> s \<and> s < 300) dec
           \<lparr>hr_method = ''POST'', hr_base = cl_base_url c, hr_path = path,
            hr_headers = (''Content-Type'', ''application/json'') # filter (\<lambda>(_, v). v \<noteq> []) headers @ set_auth c @ runner_header c,
            hr_body = json_text body\<rparr>)"

definition post_json :: "connection \<Rightarrow> string \<Rightarrow> json \<Rightarrow> 'a decoder \<Rightarrow> 'a call" where
  "post_json cn path body dec = post_with_headers cn path body dec []"

definition delete_json :: "connection \<Rightarrow> string \<Rightarrow> 'a decoder \<Rightarrow> 'a call" where
  "delete_json cn path dec =
     (let c = cn_client cn
      in exchange cn (\<lambda>s. 200 \<le> s \<and> s < 300) dec
           \<lparr>hr_method = ''DELETE'', hr_base = cl_base_url c, hr_path = path, hr_headers = set_auth c @ runner_header c, hr_body = []\<rparr>)"

definition jstrs :: "(string \<times> string) list \<Rightarrow> json" where
  "jstrs ps = jmap (map (\<lambda>(k, v). (k, JStr v)) ps)"

section \<open>Identity, health and AI analysis\<close>

record ai_evidence =
  ae_id :: string
  ae_kind :: string
  ae_title :: string
  ae_content :: string
  ae_source_uri :: string

text \<open>A field tagged \<open>omitempty\<close> is left out when it is empty.\<close>

definition omit_empty :: "string \<Rightarrow> string \<Rightarrow> (string \<times> json) list" where
  "omit_empty k v = (if v = [] then [] else [(k, JStr v)])"

definition ai_evidence_json :: "ai_evidence \<Rightarrow> json" where
  "ai_evidence_json e = JObj (omit_empty ''id'' (ae_id e) @ [(''kind'', JStr (ae_kind e)), (''title'', JStr (ae_title e)),
     (''content'', JStr (ae_content e))] @ omit_empty ''source_uri'' (ae_source_uri e))"

definition analyze_ai :: "connection \<Rightarrow> 'a decoder \<Rightarrow> string \<Rightarrow> string \<Rightarrow> ai_evidence list \<Rightarrow> 'a call" where
  "analyze_ai cn dec question execution_id evidence =
     post_json cn ''/api/v1/ai/analyze''
       (JObj ([(''question'', JStr question)] @ omit_empty ''execution_id'' execution_id
              @ (if evidence = [] then [] else [(''evidence'', JArr (map ai_evidence_json evidence))]))) dec"

definition health :: "connection \<Rightarrow> 'a decoder \<Rightarrow> 'a call" where
  "health cn dec = get_json cn ''/api/v1/health'' dec"

definition ready :: "connection \<Rightarrow> 'a decoder \<Rightarrow> 'a call" where
  "ready cn dec = get_json cn ''/api/v1/ready'' dec"

definition who_am_i :: "connection \<Rightarrow> 'a decoder \<Rightarrow> 'a call" where
  "who_am_i cn dec = get_json cn ''/api/v1/whoami'' dec"

definition create_api_token :: "connection \<Rightarrow> 'a decoder \<Rightarrow> string \<Rightarrow> string \<Rightarrow> int \<Rightarrow> 'a call" where
  "create_api_token cn dec name user_id expires_in =
     post_json cn ''/api/v1/auth/tokens''
       (jmap [(''name'', JStr name), (''user_id'', JStr user_id), (''expires_in'', JInt expires_in)]) dec"

definition revoke_api_token :: "connection \<Rightarrow> 'a decoder \<Rightarrow> string \<Rightarrow> 'a call" where
  "revoke_api_token cn dec token_id = delete_json cn (''/api/v1/auth/tokens/'' @ path_escape token_id) dec"

section \<open>Servers\<close>

record server_item =
  si_id :: string
  si_name :: string
  si_hostname :: string
  si_public_ip :: string
  si_private_ip :: string
  si_ssh_port :: int
  si_ssh_username :: string
  si_ssh_credential_ref :: string
  si_ssh_host_key_fingerprint :: string
  si_environment :: string
  si_provider :: string
  si_os_name :: string
  si_os_version :: string
  si_kernel :: string
  si_arch :: string
  si_status :: string
  si_last_seen_at :: string
  si_last_check_at :: string
  si_created_at :: string
  si_tags :: "(string \<times> string) list"

definition list_servers :: "connection \<Rightarrow> 'a decoder \<Rightarrow> string \<Rightarrow> string \<Rightarrow> string \<Rightarrow> 'a call" where
  "list_servers cn dec environment tag_key tag_value =
     (let param = (\<lambda>(path, sep) (k, v). if v \<noteq> [] then (path @ sep @ k @ ''='' @ query_escape v, ''&'') else (path, sep));
          (path, _) = foldl param (''/api/v1/servers'', ''?'')
            [(''environment'', environment), (''tag_key'', tag_key), (''tag_value'', tag_value)]
      in get_json cn path dec)"

record add_server_request =
  as_name :: string
  as_hostname :: string
  as_public_ip :: string
  as_private_ip :: string
  as_ssh_port :: int
  as_ssh_username :: string
  as_ssh_credential_ref :: string
  as_ssh_host_key_fingerprint :: string
  as_environment :: string
  as_provider :: string
  as_tags :: "(string \<times> string) list"

text \<open>A nil slice is written as \<open>null\<close>.\<close>

definition add_server :: "connection \<Rightarrow> 'a decoder \<Rightarrow> add_server_request \<Rightarrow> 'a call" where
  "add_server cn dec q =
     post_json cn ''/api/v1/servers''
       (JObj [(''name'', JStr (as_name q)), (''hostname'', JStr (as_hostname q)), (''public_ip'', JStr (as_public_ip q)),
              (''private_ip'', JStr (as_private_ip q)), (''ssh_port'', JInt (as_ssh_port q)),
              (''ssh_username'', JStr (as_ssh_username q)), (''ssh_credential_ref'', JStr (as_ssh_credential_ref q)),
              (''ssh_host_key_fingerprint'', JStr (as_ssh_host_key_fingerprint q)), (''environment'', JStr (as_environment q)),
              (''provider'', JStr (as_provider q)),
              (''tags'', if as_tags q = [] then JNull
                         else JArr (map (\<lambda>(k, v). JObj [(''key'', JStr k), (''value'', JStr v)]) (as_tags q)))]) dec"

definition get_server :: "connection \<Rightarrow> 'a decoder \<Rightarrow> string \<Rightarrow> 'a call" where
  "get_server cn dec server_id = get_json cn (''/api/v1/servers/'' @ path_escape server_id) dec"

definition check_server :: "connection \<Rightarrow> 'a decoder \<Rightarrow> string \<Rightarrow> 'a call" where
  "check_server cn dec server_id = post_json cn (''/api/v1/servers/'' @ path_escape server_id @ ''/check'') JNull dec"

section \<open>Runners\<close>

record register_runner_request =
  rr_name :: string
  rr_version :: string
  rr_hostname :: string
  rr_platform :: string
  rr_ip_address :: string
  rr_runner_type :: string

definition list_runners :: "connection \<Rightarrow> 'a decoder \<Rightarrow> 'a call" where
  "list_runners cn dec = get_json cn ''/api/v1/runners'' dec"

definition register_runner_call :: "connection \<Rightarrow> 'a decoder \<Rightarrow> register_runner_request \<Rightarrow> 'a call" where
  "register_runner_call cn dec q =
     post_json cn ''/api/v1/runners''
       (JObj [(''name'', JStr (rr_name q)), (''version'', JStr (rr_version q)), (''hostname'', JStr (rr_hostname q)),
              (''platform'', JStr (rr_platform q)), (''ip_address'', JStr (rr_ip_address q)),
              (''runner_type'', JStr (rr_runner_type q))]) dec"

definition runner_heartbeat :: "connection \<Rightarrow> 'a decoder \<Rightarrow> string \<Rightarrow> string \<Rightarrow> string \<Rightarrow> string \<Rightarrow> 'a call" where
  "runner_heartbeat cn dec runner_id hostname platform version =
     post_json cn ''/api/v1/runners/heartbeat''
       (jstrs [(''runner_id'', runner_id), (''hostname'', hostname), (''platform'', platform), (''version'', version)]) dec"

definition create_registration_token_for_runner :: "connection \<Rightarrow> 'a decoder \<Rightarrow> string \<Rightarrow> 'a call" where
  "create_registration_token_for_runner cn dec runner_id =
     post_json cn ''/api/v1/runners/registration-token''
       (if runner_id \<noteq> [] then jstrs [(''runner_id'', runner_id)] else JNull) dec"

definition create_registration_token :: "connection \<Rightarrow> 'a decoder \<Rightarrow> 'a call" where
  "create_registration_token cn dec = create_registration_token_for_runner cn dec []"

definition rotate_runner_token :: "connection \<Rightarrow> 'a decoder \<Rightarrow> string \<Rightarrow> 'a call" where
  "rotate_runner_token cn dec runner_id =
     post_json cn (''/api/v1/runners/'' @ path_escape runner_id @ ''/rotate-token'') JNull dec"

section \<open>Executions\<close>

record execution_detail =
  xd_id :: string
  xd_actor_user_id :: string
  xd_actor_role :: string
  xd_execution_type :: string
  xd_status :: string
  xd_risk_level :: string
  xd_environment :: string
  xd_reason :: string
  xd_command_preview :: string
  xd_command_hash :: string
  xd_timeout_seconds :: int
  xd_requested_at :: string
  xd_started_at :: string
  xd_finished_at :: string
  xd_error_summary :: string
  xd_delegated_by :: string
  xd_approval_id :: string

record execution_target_item =
  xt_id :: string
  xt_server_id :: string
  xt_runner_id :: string
  xt_status :: string
  xt_exit_code :: int
  xt_stdout :: string
  xt_stderr :: string
  xt_error :: string
  xt_started_at :: string
  xt_finished_at :: string

record execution_response =
  xr_execution :: execution_detail
  xr_targets :: "execution_target_item list"

record execution_list_item =
  xl_id :: string
  xl_actor_user_id :: string
  xl_actor_role :: string
  xl_execution_type :: string
  xl_status :: string
  xl_command_preview :: string
  xl_target_count :: int
  xl_succeeded_count :: int
  xl_failed_count :: int
  xl_requested_at :: string
  xl_started_at :: string
  xl_finished_at :: string
  xl_delegated_by :: string
  xl_approval_id :: string

definition idempotency_header :: "string \<Rightarrow> (string \<times> string) list" where
  "idempotency_header key = [(''Idempotency-Key'', key)]"

definition create_execution_with_key :: "connection \<Rightarrow> 'a decoder \<Rightarrow> string \<Rightarrow> string \<Rightarrow> string \<Rightarrow> string \<Rightarrow> 'a call" where
  "create_execution_with_key cn dec target command reason key =
     post_with_headers cn ''/api/v1/executions''
       (JObj [(''target'', JStr target), (''command'', JStr command), (''reason'', JStr reason)]) dec (idempotency_header key)"

definition create_execution_call :: "connection \<Rightarrow> 'a decoder \<Rightarrow> string \<Rightarrow> string \<Rightarrow> string \<Rightarrow> 'a call" where
  "create_execution_call cn dec target command reason = create_execution_with_key cn dec target command reason []"

definition get_execution :: "connection \<Rightarrow> 'a decoder \<Rightarrow> string \<Rightarrow> 'a call" where
  "get_execution cn dec execution_id = get_json cn (''/api/v1/executions/'' @ path_escape execution_id) dec"

definition list_executions :: "connection \<Rightarrow> 'a decoder \<Rightarrow> string \<Rightarrow> string \<Rightarrow> 'a call" where
  "list_executions cn dec status limit =
     (let path = ''/api/v1/executions'';
          (path, sep) = (if status \<noteq> [] then (path @ ''?status='' @ query_escape status, ''&'') else (path, ''?''));
          path = (if limit \<noteq> [] then path @ sep @ ''limit='' @ query_escape limit else path)
      in get_json cn path dec)"

definition list_filtered :: "string \<Rightarrow> connection \<Rightarrow> 'a decoder \<Rightarrow> string \<Rightarrow> string \<Rightarrow> 'a call" where
  "list_filtered flag cn dec status limit =
     get_json cn (''/api/v1/executions?'' @ flag @ ''=true''
       @ (if status \<noteq> [] then ''&status='' @ query_escape status else [])
       @ (if limit \<noteq> [] then ''&limit='' @ query_escape limit else [])) dec"

definition list_my_executions :: "connection \<Rightarrow> 'a decoder \<Rightarrow> string \<Rightarrow> string \<Rightarrow> 'a call" where
  "list_my_executions = list_filtered ''mine''"

definition list_delegated_executions :: "connection \<Rightarrow> 'a decoder \<Rightarrow> string \<Rightarrow> string \<Rightarrow> 'a call" where
  "list_delegated_executions = list_filtered ''delegated''"

definition cancel_execution :: "connection \<Rightarrow> 'a decoder \<Rightarrow> string \<Rightarrow> 'a call" where
  "cancel_execution cn dec execution_id =
     post_json cn (''/api/v1/executions/'' @ path_escape execution_id @ ''/cancel'') JNull dec"

section \<open>Audit, schedules and automation\<close>

record audit_item =
  ai_id :: string
  ai_organisation_id :: string
  ai_actor_id :: string
  ai_action :: string
  ai_target_type :: string
  ai_target_id :: string
  ai_result :: string
  ai_metadata :: string
  ai_created_at :: string

definition list_audit :: "connection \<Rightarrow> 'a decoder \<Rightarrow> string \<Rightarrow> 'a call" where
  "list_audit cn dec limit = get_json cn (''/api/v1/audit?limit='' @ query_escape limit) dec"

definition verify_audit :: "connection \<Rightarrow> 'a decoder \<Rightarrow> 'a call" where
  "verify_audit cn dec = get_json cn ''/api/v1/audit/verify'' dec"

record schedule_item =
  sl_id :: string
  sl_name :: string
  sl_runbook_name :: string
  sl_target :: string
  sl_reason :: string
  sl_params :: string
  sl_interval_seconds :: int
  sl_next_run_at :: string
  sl_enabled :: bool
  sl_last_run_at :: string
  sl_last_error :: string

record create_schedule_request =
  cq_name :: string
  cq_runbook_name :: string
  cq_target :: string
  cq_reason :: string
  cq_params :: "(string \<times> string) list"
  cq_interval_seconds :: int
  cq_next_run_at :: string

definition list_schedules :: "connection \<Rightarrow> 'a decoder \<Rightarrow> 'a call" where
  "list_schedules cn dec = get_json cn ''/api/v1/schedules'' dec"

definition create_schedule_call :: "connection \<Rightarrow> 'a decoder \<Rightarrow> create_schedule_request \<Rightarrow> 'a call" where
  "create_schedule_call cn dec q =
     post_json cn ''/api/v1/schedules''
       (JObj ([(''name'', JStr (cq_name q)), (''runbook_name'', JStr (cq_runbook_name q)), (''target'', JStr (cq_target q)),
               (''reason'', JStr (cq_reason q)), (''params'', jstrs (cq_params q)),
               (''interval_seconds'', JInt (cq_interval_seconds q))] @ omit_empty ''next_run_at'' (cq_next_run_at q))) dec"

definition disable_schedule :: "connection \<Rightarrow> 'a decoder \<Rightarrow> string \<Rightarrow> 'a call" where
  "disable_schedule cn dec schedule_id = delete_json cn (''/api/v1/schedules/'' @ path_escape schedule_id) dec"

definition automation_status :: "connection \<Rightarrow> 'a decoder \<Rightarrow> 'a call" where
  "automation_status cn dec = get_json cn ''/api/v1/automation/status'' dec"

definition pause_automation :: "connection \<Rightarrow> 'a decoder \<Rightarrow> string \<Rightarrow> 'a call" where
  "pause_automation cn dec reason = post_json cn ''/api/v1/automation/pause'' (jstrs [(''reason'', reason)]) dec"

definition resume_automation :: "connection \<Rightarrow> 'a decoder \<Rightarrow> 'a call" where
  "resume_automation cn dec = post_json cn ''/api/v1/automation/resume'' JNull dec"

section \<open>Runbooks and approvals\<close>

record runbook_item =
  ri_id :: string
  ri_name :: string
  ri_title :: string
  ri_description :: string
  ri_status :: string
  ri_risk :: string
  ri_command :: string
  ri_created_at :: string
  ri_permitted :: bool
  ri_allowed_roles :: string

definition search_runbooks :: "connection \<Rightarrow> 'a decoder \<Rightarrow> string \<Rightarrow> 'a call" where
  "search_runbooks cn dec query =
     get_json cn (''/api/v1/runbooks'' @ (if query \<noteq> [] then ''?search='' @ query_escape query else [])) dec"

definition list_runbooks :: "connection \<Rightarrow> 'a decoder \<Rightarrow> 'a call" where
  "list_runbooks cn dec = search_runbooks cn dec []"

definition get_runbook :: "connection \<Rightarrow> 'a decoder \<Rightarrow> string \<Rightarrow> 'a call" where
  "get_runbook cn dec name = get_json cn (''/api/v1/runbooks/'' @ path_escape name) dec"

record create_runbook_request =
  br_name :: string
  br_title :: string
  br_description :: string
  br_risk :: string
  br_command :: string
  br_timeout :: int
  br_environment :: string
  br_yaml :: string

definition create_runbook_call :: "connection \<Rightarrow> 'a decoder \<Rightarrow> create_runbook_request \<Rightarrow> 'a call" where
  "create_runbook_call cn dec q =
     post_json cn ''/api/v1/runbooks''
       (JObj [(''name'', JStr (br_name q)), (''title'', JStr (br_title q)), (''description'', JStr (br_description q)),
              (''risk'', JStr (br_risk q)), (''command'', JStr (br_command q)), (''timeout'', JInt (br_timeout q)),
              (''environment'', JStr (br_environment q)), (''yaml'', JStr (br_yaml q))]) dec"

definition publish_runbook_call :: "connection \<Rightarrow> 'a decoder \<Rightarrow> string \<Rightarrow> 'a call" where
  "publish_runbook_call cn dec name = post_json cn (''/api/v1/runbooks/'' @ path_escape name @ ''/publish'') JNull dec"

text \<open>The answer is any JSON object.\<close>

type_synonym answer = "(string \<times> json) list"

definition run_runbook_request ::
  "connection \<Rightarrow> answer decoder \<Rightarrow> string \<Rightarrow> string \<Rightarrow> string \<Rightarrow> (string \<times> string) list \<Rightarrow> bool \<Rightarrow> string \<Rightarrow> answer call" where
  "run_runbook_request cn dec name target reason params dry_run key =
     post_with_headers cn (''/api/v1/runbooks/'' @ path_escape name @ ''/run'')
       (jmap [(''target'', JStr target), (''reason'', JStr reason), (''params'', jstrs params), (''dry_run'', JBool dry_run)])
       dec (idempotency_header key)"

definition run_runbook_with_key ::
  "connection \<Rightarrow> answer decoder \<Rightarrow> string \<Rightarrow> string \<Rightarrow> string \<Rightarrow> (string \<times> string) list \<Rightarrow> string \<Rightarrow> answer call" where
  "run_runbook_with_key cn dec name target reason params key = run_runbook_request cn dec name target reason params False key"

definition run_runbook_call ::
  "connection \<Rightarrow> answer decoder \<Rightarrow> string \<Rightarrow> string \<Rightarrow> string \<Rightarrow> (string \<times> string) list \<Rightarrow> answer call" where
  "run_runbook_call cn dec name target reason params = run_runbook_with_key cn dec name target reason params []"

definition preflight_runbook ::
  "connection \<Rightarrow> answer decoder \<Rightarrow> string \<Rightarrow> string \<Rightarrow> string \<Rightarrow> (string \<times> string) list \<Rightarrow> answer call" where
  "preflight_runbook cn dec name target reason params = run_runbook_request cn dec name target reason params True []"

record approval_item =
  pi_id :: string
  pi_requester_name :: string
  pi_action_type :: string
  pi_status :: string
  pi_risk_level :: string
  pi_reason :: string
  pi_target_type :: string
  pi_target_id :: string
  pi_expires_at :: string
  pi_created_at :: string

record approval_detail =
  pd_id :: string
  pd_requester_id :: string
  pd_requester_name :: string
  pd_action_type :: string
  pd_status :: string
  pd_risk_level :: string
  pd_reason :: string
  pd_target_type :: string
  pd_target_id :: string
  pd_target_snapshot :: string
  pd_request_payload :: answer
  pd_expires_at :: string
  pd_created_at :: string
  pd_decided_at :: string
  pd_decision_note :: string

definition get_approval :: "connection \<Rightarrow> 'a decoder \<Rightarrow> string \<Rightarrow> 'a call" where
  "get_approval cn dec approval_id = get_json cn (''/api/v1/approvals/'' @ path_escape approval_id) dec"

definition list_approvals :: "connection \<Rightarrow> 'a decoder \<Rightarrow> string \<Rightarrow> 'a call" where
  "list_approvals cn dec status =
     get_json cn (''/api/v1/approvals'' @ (if status \<noteq> [] then ''?status='' @ query_escape status else [])) dec"

definition approval_note_body :: "string list \<Rightarrow> json" where
  "approval_note_body note = (case note of [] \<Rightarrow> JNull | n # _ \<Rightarrow> if n = [] then JNull else jstrs [(''note'', n)])"

definition approve_approval :: "connection \<Rightarrow> 'a decoder \<Rightarrow> string \<Rightarrow> string list \<Rightarrow> 'a call" where
  "approve_approval cn dec approval_id note =
     post_json cn (''/api/v1/approvals/'' @ path_escape approval_id @ ''/approve'') (approval_note_body note) dec"

definition deny_approval :: "connection \<Rightarrow> 'a decoder \<Rightarrow> string \<Rightarrow> string list \<Rightarrow> 'a call" where
  "deny_approval cn dec approval_id note =
     post_json cn (''/api/v1/approvals/'' @ path_escape approval_id @ ''/deny'') (approval_note_body note) dec"

end
