(* ===== verification/Routes.thy ===== *)
theory Routes
  imports Client Paths
begin

text \<open>
  \<open>apps/api/routes.go\<close>: the table of routes, as Go's \<open>ServeMux\<close> reads and searches it, and what the client's requests reach.
  \<open>http_route\<close> answers for a method and a request target: the handler with the values of its wildcards, a redirect to the
  cleaned path, or 405 or 404.
\<close>

section \<open>Reading a path\<close>

definition is_hex :: "char \<Rightarrow> bool" where
  "is_hex c \<longleftrightarrow> is_digit c \<or> (65 \<le> code c \<and> code c \<le> 70) \<or> (97 \<le> code c \<and> code c \<le> 102)"

definition unhex_digit :: "char \<Rightarrow> nat" where
  "unhex_digit c = (if is_digit c then code c - 48 else if code c \<le> 70 then code c - 55 else code c - 87)"

fun path_unescape :: "string \<Rightarrow> string option" where
  "path_unescape [] = Some []"
| "path_unescape (c # s) =
     (if c \<noteq> CHR ''%'' then map_option ((#) c) (path_unescape s)
      else case s of
          a # b # s' \<Rightarrow>
            if is_hex a \<and> is_hex b then map_option ((#) (char_of (16 * unhex_digit a + unhex_digit b))) (path_unescape s') else None
        | _ \<Rightarrow> None)"

definition segment :: "string \<Rightarrow> string" where
  "segment s = (case path_unescape s of Some u \<Rightarrow> u | None \<Rightarrow> s)"

text \<open>\<open>cleanPath\<close> of \<open>net/http\<close>.\<close>

definition mux_clean :: "string \<Rightarrow> string" where
  "mux_clean p =
     (let q = (if p = [] \<or> hd p \<noteq> CHR ''/'' then CHR ''/'' # p else p);
          c = clean_path q
      in if p = [] then ''/'' else if has_suffix q ''/'' \<and> c \<noteq> ''/'' then c @ ''/'' else c)"

section \<open>The table\<close>

datatype pattern_segment = Fixed string | Wildcard string

definition parse_segment :: "string \<Rightarrow> pattern_segment" where
  "parse_segment s = (if has_prefix s ''{'' then Wildcard (butlast (tl s)) else Fixed s)"

definition parse_pattern :: "string \<Rightarrow> string \<times> pattern_segment list" where
  "parse_pattern p =
     (case cut_at (CHR '' '') p of
        None \<Rightarrow> ([], map parse_segment (split_on (CHR ''/'') (tl p)))
      | Some (m, path) \<Rightarrow> (m, map parse_segment (split_on (CHR ''/'') (tl path))))"

text \<open>\<open>Session\<close>: wrapped in \<open>withAuth\<close>.\<close>

datatype guard = Session | Unguarded

definition route_table :: "(string \<times> guard \<times> string) list" where
  "route_table =
    [(''GET /api/v1/health'', Unguarded, ''health''),
     (''GET /api/v1/ready'', Unguarded, ''ready''),
     (''GET /metrics'', Unguarded, ''metrics''),
     (''GET /api/v1/whoami'', Session, ''handleWhoAmI''),
     (''POST /api/v1/ai/analyze'', Session, ''handleAIAnalyze''),
     (''POST /api/v1/auth/tokens'', Session, ''handleCreateAPIToken''),
     (''DELETE /api/v1/auth/tokens/{tokenID}'', Session, ''handleRevokeAPIToken''),
     (''GET /api/v1/servers'', Session, ''handleListServers''),
     (''POST /api/v1/servers'', Session, ''handleAddServer''),
     (''GET /api/v1/servers/{serverID}'', Session, ''handleGetServer''),
     (''PUT /api/v1/servers/{serverID}'', Session, ''handleUpdateServer''),
     (''PATCH /api/v1/servers/{serverID}'', Session, ''handleUpdateServer''),
     (''DELETE /api/v1/servers/{serverID}'', Session, ''handleArchiveServer''),
     (''POST /api/v1/servers/{serverID}/check'', Session, ''handleCheckServer''),
     (''GET /api/v1/runners'', Session, ''handleListRunners''),
     (''POST /api/v1/runners'', Unguarded, ''handleRegisterRunner''),
     (''POST /api/v1/runners/heartbeat'', Unguarded, ''handleRunnerHeartbeat''),
     (''POST /api/v1/runners/registration-token'', Session, ''handleCreateRegistrationToken''),
     (''POST /api/v1/runners/manage'', Session, ''handleCreateManagedRunner''),
     (''PUT /api/v1/runners/{runnerID}'', Session, ''handleUpdateRunner''),
     (''PATCH /api/v1/runners/{runnerID}'', Session, ''handleUpdateRunner''),
     (''DELETE /api/v1/runners/{runnerID}'', Session, ''handleRevokeRunner''),
     (''POST /api/v1/runners/{runnerID}/rotate-token'', Session, ''handleRotateRunnerToken''),
     (''GET /api/v1/executions'', Session, ''handleListExecutions''),
     (''POST /api/v1/executions'', Session, ''handleCreateExecution''),
     (''GET /api/v1/executions/{execID}'', Session, ''handleGetExecution''),
     (''POST /api/v1/executions/{execID}/cancel'', Session, ''handleCancelExecution''),
     (''GET /api/v1/jobs/next'', Unguarded, ''handleClaimJob''),
     (''POST /api/v1/jobs/result'', Unguarded, ''handleSubmitResult''),
     (''POST /api/v1/jobs/renew'', Unguarded, ''handleRenewLease''),
     (''GET /api/v1/audit'', Session, ''handleSearchAudit''),
     (''GET /api/v1/audit/verify'', Session, ''handleVerifyAudit''),
     (''GET /api/v1/runbooks'', Session, ''handleListRunbooks''),
     (''POST /api/v1/runbooks'', Session, ''handleCreateRunbook''),
     (''GET /api/v1/runbooks/{name}'', Session, ''handleGetRunbook''),
     (''PUT /api/v1/runbooks/{name}'', Session, ''handleUpdateRunbook''),
     (''PATCH /api/v1/runbooks/{name}'', Session, ''handleUpdateRunbook''),
     (''DELETE /api/v1/runbooks/{name}'', Session, ''handleArchiveRunbook''),
     (''POST /api/v1/runbooks/{name}/run'', Session, ''handleRunRunbook''),
     (''POST /api/v1/runbooks/{name}/publish'', Session, ''handlePublishRunbook''),
     (''GET /api/v1/approvals'', Session, ''handleListApprovals''),
     (''GET /api/v1/approvals/{approvalID}'', Session, ''handleGetApproval''),
     (''POST /api/v1/approvals/{approvalID}/approve'', Session, ''handleApprove''),
     (''POST /api/v1/approvals/{approvalID}/deny'', Session, ''handleDeny''),
     (''GET /api/v1/schedules'', Session, ''handleListSchedules''),
     (''POST /api/v1/schedules'', Session, ''handleCreateSchedule''),
     (''DELETE /api/v1/schedules/{scheduleID}'', Session, ''handleDisableSchedule''),
     (''GET /api/v1/automation/status'', Session, ''handleAutomationStatus''),
     (''POST /api/v1/automation/pause'', Session, ''handlePauseAutomation''),
     (''POST /api/v1/automation/resume'', Session, ''handleResumeAutomation'')]"

text \<open>\<open>pathHandler\<close>: an empty value is answered with 400; otherwise the handler gets it.\<close>

datatype 'r path_result = MissingValue string | Next 'r

definition path_handler :: "string \<Rightarrow> (string \<Rightarrow> 'r) \<Rightarrow> string \<Rightarrow> 'r path_result" where
  "path_handler name next value = (if value = [] then MissingValue (''missing '' @ name) else Next (next value))"

section \<open>Searching it\<close>

type_synonym 'h entries = "(pattern_segment list \<times> 'h) list"

fun after_lit :: "string \<Rightarrow> 'h entries \<Rightarrow> 'h entries" where
  "after_lit s [] = []"
| "after_lit s ((Fixed l # p, h) # rs) = (if l = s then (p, h) # after_lit s rs else after_lit s rs)"
| "after_lit s (_ # rs) = after_lit s rs"

fun after_wild :: "'h entries \<Rightarrow> 'h entries" where
  "after_wild [] = []"
| "after_wild ((Wildcard _ # p, h) # rs) = (p, h) # after_wild rs"
| "after_wild (_ # rs) = after_wild rs"

text \<open>A literal is tried before a wildcard, and the trailing slash matches no wildcard.\<close>

fun match_path :: "'h entries \<Rightarrow> string list \<Rightarrow> ('h \<times> string list) option" where
  "match_path rs [] = (case filter (\<lambda>(p, _). p = []) rs of [] \<Rightarrow> None | (_, h) # _ \<Rightarrow> Some (h, []))"
| "match_path rs (s # ss) =
     (if rs = [] then None
      else case match_path (after_lit s rs) ss of
          Some r \<Rightarrow> Some r
        | None \<Rightarrow>
            if s = [] \<or> s = ''/'' then None
            else map_option (\<lambda>(h, vs). (h, s # vs)) (match_path (after_wild rs) ss))"

definition entries_of :: "string \<Rightarrow> (guard \<times> string) entries" where
  "entries_of meth =
     map (\<lambda>(p, g, h). (snd (parse_pattern p), g, h)) (filter (\<lambda>(p, _, _). fst (parse_pattern p) = meth) route_table)"

datatype routed = Handled guard string "string list" | Redirected string | MethodNotAllowed | NotFound

definition http_route :: "string \<Rightarrow> string \<Rightarrow> routed" where
  "http_route meth target =
     (let path = takeWhile (\<lambda>c. c \<noteq> CHR ''?'') target;
          clean = mux_clean path;
          segs = map segment (split_on (CHR ''/'') (tl clean))
      in if clean \<noteq> path then Redirected clean
         else case match_path (entries_of (if meth = ''HEAD'' then ''GET'' else meth)) segs of
             Some ((g, h), vs) \<Rightarrow> Handled g h vs
           | None \<Rightarrow>
               if \<exists>m \<in> {''GET'', ''POST'', ''PUT'', ''PATCH'', ''DELETE''}. match_path (entries_of m) segs \<noteq> None
               then MethodNotAllowed else NotFound)"

section \<open>Paths of plain elements\<close>

lemma elems_of_plain: "list_all plain_name es \<Longrightarrow> clean_elems r st es = rev es @ st"
  by (induction es arbitrary: st) (auto simp: plain_name_def)

lemma split_join_plain: "es \<noteq> [] \<Longrightarrow> list_all plain_name es \<Longrightarrow> split_on (CHR ''/'') (join_with ''/'' es) = es"
  by (induction "''/''" es rule: join_with.induct) (auto simp: plain_name_def split_on_plain split_on_append)

lemma clean_plain:
  assumes "es \<noteq> []" "list_all plain_name es"
  shows "clean_path (''/'' @ join_with ''/'' es) = ''/'' @ join_with ''/'' es"
proof -
  have "split_on (CHR ''/'') (''/'' @ join_with ''/'' es) = [] # es" using split_join_plain [OF assms] by simp
  then have "path_elems (''/'' @ join_with ''/'' es) = es"
    using assms(2) by (simp add: path_elems_def elems_of_plain)
  then show ?thesis by (simp add: clean_path_def rooted_path_def has_prefix_def)
qed

lemma last_join: "es \<noteq> [] \<Longrightarrow> list_all plain_name es \<Longrightarrow> last (''/'' @ join_with ''/'' es) \<noteq> CHR ''/'' \<and> join_with ''/'' es \<noteq> []"
proof (induction "''/''" es rule: join_with.induct)
  case (2 x)
  then have "x \<noteq> []" "CHR ''/'' \<notin> set x" by (auto simp: plain_name_def)
  then have "last x \<noteq> CHR ''/''" using last_in_set [of x] by metis
  then show ?case using \<open>x \<noteq> []\<close> by simp
next
  case (3 x y ys)
  then show ?case by (auto simp: plain_name_def)
qed simp

lemma mux_clean_plain:
  assumes "es \<noteq> []" "list_all plain_name es"
  shows "mux_clean (''/'' @ join_with ''/'' es) = ''/'' @ join_with ''/'' es"
proof -
  let ?p = "''/'' @ join_with ''/'' es"
  have "rev ?p \<noteq> []" "hd (rev ?p) \<noteq> CHR ''/''" using last_join [OF assms] by (auto simp: hd_rev simp del: rev_append rev.simps)
  then have "\<not> has_suffix ?p ''/''" by (cases "rev ?p") (auto simp: has_suffix_def has_prefix_def)
  then show ?thesis using clean_plain [OF assms] by (simp add: mux_clean_def Let_def)
qed

lemma route_plain:
  assumes "es \<noteq> []" "list_all plain_name es" "list_all (\<lambda>e. CHR ''?'' \<notin> set e) es" "q = [] \<or> hd q = CHR ''?''"
    and "match_path (entries_of meth) (map segment es) = Some ((g, h), vs)" "meth \<noteq> ''HEAD''"
  shows "http_route meth ((''/'' @ join_with ''/'' es) @ q) = Handled g h vs"
proof -
  let ?p = "''/'' @ join_with ''/'' es"
  have "CHR ''?'' \<notin> set (join_with ''/'' es)"
    using assms(3) by (induction "''/''" es rule: join_with.induct) auto
  then have "\<forall>c \<in> set ?p. c \<noteq> CHR ''?''" by auto
  then have "takeWhile (\<lambda>c. c \<noteq> CHR ''?'') (?p @ q) = ?p @ takeWhile (\<lambda>c. c \<noteq> CHR ''?'') q"
    by (simp add: takeWhile_append)
  moreover have "takeWhile (\<lambda>c. c \<noteq> CHR ''?'') q = []" using assms(4) by (cases q) auto
  ultimately have t: "takeWhile (\<lambda>c. c \<noteq> CHR ''?'') (?p @ q) = ?p" by simp
  have tl: "tl ?p = join_with ''/'' es" by simp
  show ?thesis
    unfolding http_route_def t mux_clean_plain [OF assms(1,2)] Let_def tl split_join_plain [OF assms(1,2)]
    using assms(5,6) by simp
qed

section \<open>Escaped identifiers\<close>

lemma code_lt: "code c < 256" by (simp add: code_def)

lemma hex_back: "n < 16 \<Longrightarrow> is_hex (upper_hex n) \<and> unhex_digit (upper_hex n) = n"
  by (auto simp: is_hex_def unhex_digit_def upper_hex_def is_digit_def code_char_of)

lemma percent_back: "path_unescape (percent c @ s) = map_option ((#) c) (path_unescape s)"
proof -
  have h: "code c div 16 < 16" "code c mod 16 < 16" using code_lt [of c] by simp_all
  have "char_of (16 * (code c div 16) + code c mod 16) = c" by (simp add: code_def)
  then show ?thesis using hex_back [OF h(1)] hex_back [OF h(2)] by (simp add: percent_def)
qed

lemma escape_Cons: "path_escape (c # s) = (if segment_char c then [c] else percent c) @ path_escape s"
  by (simp add: path_escape_def)

lemma unescape_escape: "path_unescape (path_escape s) = Some s"
proof (induction s)
  case (Cons c s)
  have "segment_char c \<Longrightarrow> c \<noteq> CHR ''%''"
    by (auto simp: segment_char_def unreserved_def is_lower_def is_upper_def is_digit_def code_def)
  then show ?case using Cons by (simp add: escape_Cons percent_back)
qed (simp add: path_escape_def)

lemma segment_escape: "segment (path_escape s) = s"
  by (simp add: segment_def unescape_escape)

lemma upper_hex_char: "n < 16 \<Longrightarrow> upper_hex n \<notin> {CHR ''/'', CHR ''?'', CHR ''.''}"
proof -
  assume "n < 16"
  then have "code (upper_hex n) \<notin> {47, 63, 46}" by (auto simp: upper_hex_def code_char_of)
  then show ?thesis by (auto simp: code_def)
qed

lemma escape_chars: "c \<in> set (path_escape s) \<Longrightarrow> c \<noteq> CHR ''/'' \<and> c \<noteq> CHR ''?''"
proof -
  assume "c \<in> set (path_escape s)"
  then obtain x where x: "c \<in> set (if segment_char x then [x] else percent x)" unfolding path_escape_def set_concat by force
  have "code x div 16 < 16" "code x mod 16 < 16" using code_lt [of x] by simp_all
  then show ?thesis using x upper_hex_char
    by (auto simp: percent_def segment_char_def unreserved_def is_lower_def is_upper_def is_digit_def code_def split: if_splits)
qed

text \<open>The identifiers for which \<open>url.PathEscape\<close> gives an element that a server's path cleaning leaves alone.\<close>

definition addressable :: "string \<Rightarrow> bool" where
  "addressable i \<longleftrightarrow> i \<noteq> [] \<and> i \<noteq> ''.'' \<and> i \<noteq> ''..'' \<and> i \<noteq> ''/''"

lemma escape_plain: "addressable i \<Longrightarrow> plain_name (path_escape i)"
proof -
  assume a: "addressable i"
  have e: "path_escape [] = []" "path_escape ''.'' = ''.''" "path_escape ''..'' = ''..''" by code_simp+
  have "path_escape i \<noteq> path_escape j" if "i \<noteq> j" for j using unescape_escape that by (metis option.inject)
  then show ?thesis using a e escape_chars [of _ i] by (auto simp: plain_name_def addressable_def) metis+
qed

lemma plain_segment: "list_all segment_char s \<Longrightarrow> path_escape s = s"
  by (induction s) (auto simp: path_escape_def)

section \<open>Descending along literals\<close>

fun descend :: "'h entries \<Rightarrow> string list \<Rightarrow> 'h entries option" where
  "descend rs [] = Some rs"
| "descend rs (w # ws) = (if after_wild rs = [] then descend (after_lit w rs) ws else None)"

lemma match_nothing [simp]: "match_path [] ss = None"
  by (cases ss) simp_all

lemma match_descend: "descend rs ws = Some rs' \<Longrightarrow> match_path rs (ws @ ss) = match_path rs' ss"
proof (induction ws arbitrary: rs)
  case (Cons w ws)
  then have "after_wild rs = []" "match_path (after_lit w rs) (ws @ ss) = match_path rs' ss" by (auto split: if_splits)
  then show ?case by (cases "rs = []") (auto split: option.split)
qed simp

lemma entries_read:
  "entries_of ''GET'' =
    [([Fixed ''api'', Fixed ''v1'', Fixed ''health''], Unguarded, ''health''),
     ([Fixed ''api'', Fixed ''v1'', Fixed ''ready''], Unguarded, ''ready''),
     ([Fixed ''metrics''], Unguarded, ''metrics''),
     ([Fixed ''api'', Fixed ''v1'', Fixed ''whoami''], Session, ''handleWhoAmI''),
     ([Fixed ''api'', Fixed ''v1'', Fixed ''servers''], Session, ''handleListServers''),
     ([Fixed ''api'', Fixed ''v1'', Fixed ''servers'', Wildcard ''serverID''], Session, ''handleGetServer''),
     ([Fixed ''api'', Fixed ''v1'', Fixed ''runners''], Session, ''handleListRunners''),
     ([Fixed ''api'', Fixed ''v1'', Fixed ''executions''], Session, ''handleListExecutions''),
     ([Fixed ''api'', Fixed ''v1'', Fixed ''executions'', Wildcard ''execID''], Session, ''handleGetExecution''),
     ([Fixed ''api'', Fixed ''v1'', Fixed ''jobs'', Fixed ''next''], Unguarded, ''handleClaimJob''),
     ([Fixed ''api'', Fixed ''v1'', Fixed ''audit''], Session, ''handleSearchAudit''),
     ([Fixed ''api'', Fixed ''v1'', Fixed ''audit'', Fixed ''verify''], Session, ''handleVerifyAudit''),
     ([Fixed ''api'', Fixed ''v1'', Fixed ''runbooks''], Session, ''handleListRunbooks''),
     ([Fixed ''api'', Fixed ''v1'', Fixed ''runbooks'', Wildcard ''name''], Session, ''handleGetRunbook''),
     ([Fixed ''api'', Fixed ''v1'', Fixed ''approvals''], Session, ''handleListApprovals''),
     ([Fixed ''api'', Fixed ''v1'', Fixed ''approvals'', Wildcard ''approvalID''], Session, ''handleGetApproval''),
     ([Fixed ''api'', Fixed ''v1'', Fixed ''schedules''], Session, ''handleListSchedules''),
     ([Fixed ''api'', Fixed ''v1'', Fixed ''automation'', Fixed ''status''], Session, ''handleAutomationStatus'')]"
  "entries_of ''POST'' =
    [([Fixed ''api'', Fixed ''v1'', Fixed ''ai'', Fixed ''analyze''], Session, ''handleAIAnalyze''),
     ([Fixed ''api'', Fixed ''v1'', Fixed ''auth'', Fixed ''tokens''], Session, ''handleCreateAPIToken''),
     ([Fixed ''api'', Fixed ''v1'', Fixed ''servers''], Session, ''handleAddServer''),
     ([Fixed ''api'', Fixed ''v1'', Fixed ''servers'', Wildcard ''serverID'', Fixed ''check''], Session, ''handleCheckServer''),
     ([Fixed ''api'', Fixed ''v1'', Fixed ''runners''], Unguarded, ''handleRegisterRunner''),
     ([Fixed ''api'', Fixed ''v1'', Fixed ''runners'', Fixed ''heartbeat''], Unguarded, ''handleRunnerHeartbeat''),
     ([Fixed ''api'', Fixed ''v1'', Fixed ''runners'', Fixed ''registration-token''], Session, ''handleCreateRegistrationToken''),
     ([Fixed ''api'', Fixed ''v1'', Fixed ''runners'', Fixed ''manage''], Session, ''handleCreateManagedRunner''),
     ([Fixed ''api'', Fixed ''v1'', Fixed ''runners'', Wildcard ''runnerID'', Fixed ''rotate-token''], Session, ''handleRotateRunnerToken''),
     ([Fixed ''api'', Fixed ''v1'', Fixed ''executions''], Session, ''handleCreateExecution''),
     ([Fixed ''api'', Fixed ''v1'', Fixed ''executions'', Wildcard ''execID'', Fixed ''cancel''], Session, ''handleCancelExecution''),
     ([Fixed ''api'', Fixed ''v1'', Fixed ''jobs'', Fixed ''result''], Unguarded, ''handleSubmitResult''),
     ([Fixed ''api'', Fixed ''v1'', Fixed ''jobs'', Fixed ''renew''], Unguarded, ''handleRenewLease''),
     ([Fixed ''api'', Fixed ''v1'', Fixed ''runbooks''], Session, ''handleCreateRunbook''),
     ([Fixed ''api'', Fixed ''v1'', Fixed ''runbooks'', Wildcard ''name'', Fixed ''run''], Session, ''handleRunRunbook''),
     ([Fixed ''api'', Fixed ''v1'', Fixed ''runbooks'', Wildcard ''name'', Fixed ''publish''], Session, ''handlePublishRunbook''),
     ([Fixed ''api'', Fixed ''v1'', Fixed ''approvals'', Wildcard ''approvalID'', Fixed ''approve''], Session, ''handleApprove''),
     ([Fixed ''api'', Fixed ''v1'', Fixed ''approvals'', Wildcard ''approvalID'', Fixed ''deny''], Session, ''handleDeny''),
     ([Fixed ''api'', Fixed ''v1'', Fixed ''schedules''], Session, ''handleCreateSchedule''),
     ([Fixed ''api'', Fixed ''v1'', Fixed ''automation'', Fixed ''pause''], Session, ''handlePauseAutomation''),
     ([Fixed ''api'', Fixed ''v1'', Fixed ''automation'', Fixed ''resume''], Session, ''handleResumeAutomation'')]"
  "entries_of ''DELETE'' =
    [([Fixed ''api'', Fixed ''v1'', Fixed ''auth'', Fixed ''tokens'', Wildcard ''tokenID''], Session, ''handleRevokeAPIToken''),
     ([Fixed ''api'', Fixed ''v1'', Fixed ''servers'', Wildcard ''serverID''], Session, ''handleArchiveServer''),
     ([Fixed ''api'', Fixed ''v1'', Fixed ''runners'', Wildcard ''runnerID''], Session, ''handleRevokeRunner''),
     ([Fixed ''api'', Fixed ''v1'', Fixed ''runbooks'', Wildcard ''name''], Session, ''handleArchiveRunbook''),
     ([Fixed ''api'', Fixed ''v1'', Fixed ''schedules'', Wildcard ''scheduleID''], Session, ''handleDisableSchedule'')]"
  by code_simp+

lemma below_routes:
  "descend (entries_of ''GET'') [''api'', ''v1'', ''servers''] =
     Some [([], Session, ''handleListServers''), ([Wildcard ''serverID''], Session, ''handleGetServer'')]"
  "descend (entries_of ''GET'') [''api'', ''v1'', ''executions''] =
     Some [([], Session, ''handleListExecutions''), ([Wildcard ''execID''], Session, ''handleGetExecution'')]"
  "descend (entries_of ''GET'') [''api'', ''v1'', ''runbooks''] =
     Some [([], Session, ''handleListRunbooks''), ([Wildcard ''name''], Session, ''handleGetRunbook'')]"
  "descend (entries_of ''GET'') [''api'', ''v1'', ''approvals''] =
     Some [([], Session, ''handleListApprovals''), ([Wildcard ''approvalID''], Session, ''handleGetApproval'')]"
  "descend (entries_of ''DELETE'') [''api'', ''v1'', ''schedules''] =
     Some [([Wildcard ''scheduleID''], Session, ''handleDisableSchedule'')]"
  "descend (entries_of ''DELETE'') [''api'', ''v1'', ''auth'', ''tokens''] =
     Some [([Wildcard ''tokenID''], Session, ''handleRevokeAPIToken'')]"
  "descend (entries_of ''POST'') [''api'', ''v1'', ''servers''] =
     Some [([], Session, ''handleAddServer''), ([Wildcard ''serverID'', Fixed ''check''], Session, ''handleCheckServer'')]"
  "descend (entries_of ''POST'') [''api'', ''v1'', ''runners''] =
     Some [([], Unguarded, ''handleRegisterRunner''), ([Fixed ''heartbeat''], Unguarded, ''handleRunnerHeartbeat''), ([Fixed ''registration-token''], Session, ''handleCreateRegistrationToken''), ([Fixed ''manage''], Session, ''handleCreateManagedRunner''), ([Wildcard ''runnerID'', Fixed ''rotate-token''], Session, ''handleRotateRunnerToken'')]"
  "descend (entries_of ''POST'') [''api'', ''v1'', ''executions''] =
     Some [([], Session, ''handleCreateExecution''), ([Wildcard ''execID'', Fixed ''cancel''], Session, ''handleCancelExecution'')]"
  "descend (entries_of ''POST'') [''api'', ''v1'', ''runbooks''] =
     Some [([], Session, ''handleCreateRunbook''), ([Wildcard ''name'', Fixed ''run''], Session, ''handleRunRunbook''), ([Wildcard ''name'', Fixed ''publish''], Session, ''handlePublishRunbook'')]"
  "descend (entries_of ''POST'') [''api'', ''v1'', ''approvals''] =
     Some [([Wildcard ''approvalID'', Fixed ''approve''], Session, ''handleApprove''), ([Wildcard ''approvalID'', Fixed ''deny''], Session, ''handleDeny'')]"
  unfolding entries_read by code_simp+

section \<open>Every call of the client reaches its handler\<close>

definition word :: "string \<Rightarrow> bool" where
  "word w \<longleftrightarrow> plain_name w \<and> list_all segment_char w"

lemma route_item:
  assumes "addressable i" "list_all word (xs @ ys)" "meth \<noteq> ''HEAD''"
    and "descend (entries_of meth) xs = Some rs" "match_path rs (i # ys) = Some ((g, h), vs)"
  shows "http_route meth (''/'' @ join_with ''/'' (xs @ path_escape i # ys)) = Handled g h vs"
proof -
  let ?es = "xs @ path_escape i # ys"
  have w: "word x \<Longrightarrow> segment x = x \<and> CHR ''?'' \<notin> set x \<and> plain_name x" for x
    using segment_escape [of x] plain_segment [of x] escape_chars [of _ x] by (auto simp: word_def)
  then have "map segment xs = xs" "map segment ys = ys" using assms(2) by (simp_all add: map_idI list_all_iff)
  then have seg: "map segment ?es = xs @ i # ys" by (simp add: segment_escape)
  have "list_all plain_name ?es" using w assms(2) escape_plain [OF assms(1)] by (simp add: list_all_iff)
  moreover have "list_all (\<lambda>e. CHR ''?'' \<notin> set e) ?es" using w assms(2) escape_chars [of _ i] by (auto simp: list_all_iff)
  ultimately have "http_route meth ((''/'' @ join_with ''/'' ?es) @ []) = Handled g h vs"
    using assms(3,5) match_descend [OF assms(4), of "i # ys"] by (intro route_plain) (simp_all only: seg, simp_all)
  then show ?thesis by simp
qed

text \<open>The one request of a call, and where it arrives.\<close>

definition reaches :: "'a call \<Rightarrow> guard \<Rightarrow> string \<Rightarrow> string list \<Rightarrow> bool" where
  "reaches c g h vs \<longleftrightarrow>
     (\<forall>sent. \<exists>rq. snd (c sent) = sent @ [rq] \<and> http_route (hr_method rq) (hr_path rq) = Handled g h vs)"

lemma reaches_get: "http_route ''GET'' path = Handled g h vs \<Longrightarrow> reaches (get_json cn path dec) g h vs"
  by (simp add: reaches_def get_json_def exchange_def Let_def)

lemma reaches_headers: "http_route ''POST'' path = Handled g h vs \<Longrightarrow> reaches (post_with_headers cn path b dec hs) g h vs"
  by (simp add: reaches_def post_with_headers_def exchange_def Let_def)

lemma reaches_post: "http_route ''POST'' path = Handled g h vs \<Longrightarrow> reaches (post_json cn path b dec) g h vs"
  by (simp add: post_json_def reaches_headers)

lemma reaches_delete: "http_route ''DELETE'' path = Handled g h vs \<Longrightarrow> reaches (delete_json cn path dec) g h vs"
  by (simp add: reaches_def delete_json_def exchange_def Let_def)

lemma words:
  "word ''api''" "word ''v1''" "word ''servers''" "word ''executions''" "word ''runbooks''" "word ''approvals''" "word ''schedules''" "word ''auth''" "word ''tokens''" "word ''runners''" "word ''check''" "word ''rotate-token''" "word ''cancel''" "word ''publish''" "word ''run''" "word ''approve''" "word ''deny''"
  "word ''ai''" "word ''analyze''" "word ''health''" "word ''ready''" "word ''whoami''" "word ''heartbeat''" "word ''registration-token''" "word ''audit''" "word ''verify''" "word ''automation''" "word ''status''" "word ''pause''" "word ''resume''"
  by code_simp+

text \<open>
  C23: a call of the Go client that names a thing reaches the handler of that call, behind a session, with exactly the identifier the caller
  gave, whatever characters it has: no identifier leads to another endpoint.  The excepted ones are those the
  server's path cleaning changes.
\<close>

theorem calls_reach_handlers:
  assumes "addressable i"
  shows "reaches (get_server cn dec i) Session ''handleGetServer'' [i]
    \<and> reaches (check_server cn dec i) Session ''handleCheckServer'' [i]
    \<and> reaches (rotate_runner_token cn dec i) Session ''handleRotateRunnerToken'' [i]
    \<and> reaches (get_execution cn dec i) Session ''handleGetExecution'' [i]
    \<and> reaches (cancel_execution cn dec i) Session ''handleCancelExecution'' [i]
    \<and> reaches (get_runbook cn dec i) Session ''handleGetRunbook'' [i]
    \<and> reaches (publish_runbook_call cn dec i) Session ''handlePublishRunbook'' [i]
    \<and> reaches (run_runbook_request cn ans i target reason params dry_run key) Session ''handleRunRunbook'' [i]
    \<and> reaches (get_approval cn dec i) Session ''handleGetApproval'' [i]
    \<and> reaches (approve_approval cn dec i note) Session ''handleApprove'' [i]
    \<and> reaches (deny_approval cn dec i note) Session ''handleDeny'' [i]
    \<and> reaches (disable_schedule cn dec i) Session ''handleDisableSchedule'' [i]
    \<and> reaches (revoke_api_token cn dec i) Session ''handleRevokeAPIToken'' [i]"
proof -
  have ne: "i \<noteq> []" "i \<noteq> ''/''" using assms by (simp_all add: addressable_def)
  have getserver: "http_route ''GET'' (''/api/v1/servers/'' @ path_escape i) = Handled Session ''handleGetServer'' [i]"
    using route_item [OF assms _ _ below_routes(1), of "[]"] ne by (simp add: words)
  have getexecution: "http_route ''GET'' (''/api/v1/executions/'' @ path_escape i) = Handled Session ''handleGetExecution'' [i]"
    using route_item [OF assms _ _ below_routes(2), of "[]"] ne by (simp add: words)
  have getrunbook: "http_route ''GET'' (''/api/v1/runbooks/'' @ path_escape i) = Handled Session ''handleGetRunbook'' [i]"
    using route_item [OF assms _ _ below_routes(3), of "[]"] ne by (simp add: words)
  have getapproval: "http_route ''GET'' (''/api/v1/approvals/'' @ path_escape i) = Handled Session ''handleGetApproval'' [i]"
    using route_item [OF assms _ _ below_routes(4), of "[]"] ne by (simp add: words)
  have disableschedule: "http_route ''DELETE'' (''/api/v1/schedules/'' @ path_escape i) = Handled Session ''handleDisableSchedule'' [i]"
    using route_item [OF assms _ _ below_routes(5), of "[]"] ne by (simp add: words)
  have revokeapitoken: "http_route ''DELETE'' (''/api/v1/auth/tokens/'' @ path_escape i) = Handled Session ''handleRevokeAPIToken'' [i]"
    using route_item [OF assms _ _ below_routes(6), of "[]"] ne by (simp add: words)
  have checkserver: "http_route ''POST'' (''/api/v1/servers/'' @ path_escape i @ ''/check'') = Handled Session ''handleCheckServer'' [i]"
    using route_item [OF assms _ _ below_routes(7), of "[''check'']"] ne by (simp add: words)
  have rotaterunnertoken: "http_route ''POST'' (''/api/v1/runners/'' @ path_escape i @ ''/rotate-token'') = Handled Session ''handleRotateRunnerToken'' [i]"
    using route_item [OF assms _ _ below_routes(8), of "[''rotate-token'']"] ne by (simp add: words)
  have cancelexecution: "http_route ''POST'' (''/api/v1/executions/'' @ path_escape i @ ''/cancel'') = Handled Session ''handleCancelExecution'' [i]"
    using route_item [OF assms _ _ below_routes(9), of "[''cancel'']"] ne by (simp add: words)
  have publishrunbook: "http_route ''POST'' (''/api/v1/runbooks/'' @ path_escape i @ ''/publish'') = Handled Session ''handlePublishRunbook'' [i]"
    using route_item [OF assms _ _ below_routes(10), of "[''publish'']"] ne by (simp add: words)
  have runrunbook: "http_route ''POST'' (''/api/v1/runbooks/'' @ path_escape i @ ''/run'') = Handled Session ''handleRunRunbook'' [i]"
    using route_item [OF assms _ _ below_routes(10), of "[''run'']"] ne by (simp add: words)
  have approve: "http_route ''POST'' (''/api/v1/approvals/'' @ path_escape i @ ''/approve'') = Handled Session ''handleApprove'' [i]"
    using route_item [OF assms _ _ below_routes(11), of "[''approve'']"] ne by (simp add: words)
  have deny: "http_route ''POST'' (''/api/v1/approvals/'' @ path_escape i @ ''/deny'') = Handled Session ''handleDeny'' [i]"
    using route_item [OF assms _ _ below_routes(11), of "[''deny'']"] ne by (simp add: words)
  show ?thesis
    unfolding get_server_def check_server_def rotate_runner_token_def get_execution_def cancel_execution_def get_runbook_def
      publish_runbook_call_def run_runbook_request_def get_approval_def approve_approval_def deny_approval_def disable_schedule_def
      revoke_api_token_def
    by (intro conjI reaches_get reaches_post reaches_headers reaches_delete) (rule getserver getexecution getrunbook getapproval disableschedule revokeapitoken checkserver rotaterunnertoken cancelexecution publishrunbook runrunbook approve deny)+
qed

definition sample_connection :: connection where
  "sample_connection =
     \<lparr>cn_client = new_client (\<lambda>_. []) ''http://localhost:8080'', cn_net = (\<lambda>_ _. HttpReply 404 []), cn_error = (\<lambda>_. Inr ([], []))\<rparr>"

theorem calls_reach_handlers_witness:
  "reaches (cancel_execution sample_connection Inr ''../e 1?x'') Session ''handleCancelExecution'' [''../e 1?x'']"
  using calls_reach_handlers [of "''../e 1?x''" sample_connection Inr "\<lambda>_. Inr []" "[]" "[]" "[]" False "[]" "[]"]
  by (simp add: addressable_def)

definition query_part :: "string \<Rightarrow> bool" where
  "query_part q \<longleftrightarrow> q = [] \<or> hd q = CHR ''?''"

lemma route_words:
  assumes "xs \<noteq> []" "list_all word xs" "query_part q" "meth \<noteq> ''HEAD''" "match_path (entries_of meth) xs = Some ((g, h), [])"
  shows "http_route meth ((''/'' @ join_with ''/'' xs) @ q) = Handled g h []"
proof -
  have w: "word x \<Longrightarrow> segment x = x \<and> CHR ''?'' \<notin> set x \<and> plain_name x" for x
    using segment_escape [of x] plain_segment [of x] escape_chars [of _ x] by (auto simp: word_def)
  then have "map segment xs = xs" using assms(2) by (simp add: map_idI list_all_iff)
  moreover have "list_all plain_name xs" "list_all (\<lambda>e. CHR ''?'' \<notin> set e) xs" using w assms(2) by (auto simp: list_all_iff)
  ultimately show ?thesis using assms by (intro route_plain) (simp_all add: query_part_def)
qed

lemma servers_query: "\<exists>q. list_servers cn dec e k v = get_json cn (''/api/v1/servers'' @ q) dec \<and> query_part q"
  by (auto simp: list_servers_def query_part_def)

lemma executions_query: "\<exists>q. list_executions cn dec s l = get_json cn (''/api/v1/executions'' @ q) dec \<and> query_part q"
  by (auto simp: list_executions_def query_part_def Let_def)

text \<open>The calls without an identifier in their path reach their handlers whatever their arguments, which go into the query or the body.\<close>

lemma collection_matches:
  "match_path (entries_of ''POST'') [''api'', ''v1'', ''ai'', ''analyze''] = Some ((Session, ''handleAIAnalyze''), [])"
  "match_path (entries_of ''GET'') [''api'', ''v1'', ''health''] = Some ((Unguarded, ''health''), [])"
  "match_path (entries_of ''GET'') [''api'', ''v1'', ''ready''] = Some ((Unguarded, ''ready''), [])"
  "match_path (entries_of ''GET'') [''api'', ''v1'', ''whoami''] = Some ((Session, ''handleWhoAmI''), [])"
  "match_path (entries_of ''POST'') [''api'', ''v1'', ''auth'', ''tokens''] = Some ((Session, ''handleCreateAPIToken''), [])"
  "match_path (entries_of ''GET'') [''api'', ''v1'', ''servers''] = Some ((Session, ''handleListServers''), [])"
  "match_path (entries_of ''POST'') [''api'', ''v1'', ''servers''] = Some ((Session, ''handleAddServer''), [])"
  "match_path (entries_of ''GET'') [''api'', ''v1'', ''runners''] = Some ((Session, ''handleListRunners''), [])"
  "match_path (entries_of ''POST'') [''api'', ''v1'', ''runners''] = Some ((Unguarded, ''handleRegisterRunner''), [])"
  "match_path (entries_of ''POST'') [''api'', ''v1'', ''runners'', ''heartbeat''] = Some ((Unguarded, ''handleRunnerHeartbeat''), [])"
  "match_path (entries_of ''POST'') [''api'', ''v1'', ''runners'', ''registration-token''] = Some ((Session, ''handleCreateRegistrationToken''), [])"
  "match_path (entries_of ''POST'') [''api'', ''v1'', ''executions''] = Some ((Session, ''handleCreateExecution''), [])"
  "match_path (entries_of ''GET'') [''api'', ''v1'', ''executions''] = Some ((Session, ''handleListExecutions''), [])"
  "match_path (entries_of ''GET'') [''api'', ''v1'', ''audit''] = Some ((Session, ''handleSearchAudit''), [])"
  "match_path (entries_of ''GET'') [''api'', ''v1'', ''audit'', ''verify''] = Some ((Session, ''handleVerifyAudit''), [])"
  "match_path (entries_of ''GET'') [''api'', ''v1'', ''schedules''] = Some ((Session, ''handleListSchedules''), [])"
  "match_path (entries_of ''POST'') [''api'', ''v1'', ''schedules''] = Some ((Session, ''handleCreateSchedule''), [])"
  "match_path (entries_of ''GET'') [''api'', ''v1'', ''automation'', ''status''] = Some ((Session, ''handleAutomationStatus''), [])"
  "match_path (entries_of ''POST'') [''api'', ''v1'', ''automation'', ''pause''] = Some ((Session, ''handlePauseAutomation''), [])"
  "match_path (entries_of ''POST'') [''api'', ''v1'', ''automation'', ''resume''] = Some ((Session, ''handleResumeAutomation''), [])"
  "match_path (entries_of ''GET'') [''api'', ''v1'', ''runbooks''] = Some ((Session, ''handleListRunbooks''), [])"
  "match_path (entries_of ''POST'') [''api'', ''v1'', ''runbooks''] = Some ((Session, ''handleCreateRunbook''), [])"
  "match_path (entries_of ''GET'') [''api'', ''v1'', ''approvals''] = Some ((Session, ''handleListApprovals''), [])"
  unfolding entries_read by code_simp+

lemma collection_routes:
  assumes "query_part q"
  shows
    "http_route ''POST'' (''/api/v1/ai/analyze'' @ q) = Handled Session ''handleAIAnalyze'' []"
    "http_route ''GET'' (''/api/v1/health'' @ q) = Handled Unguarded ''health'' []"
    "http_route ''GET'' (''/api/v1/ready'' @ q) = Handled Unguarded ''ready'' []"
    "http_route ''GET'' (''/api/v1/whoami'' @ q) = Handled Session ''handleWhoAmI'' []"
    "http_route ''POST'' (''/api/v1/auth/tokens'' @ q) = Handled Session ''handleCreateAPIToken'' []"
    "http_route ''GET'' (''/api/v1/servers'' @ q) = Handled Session ''handleListServers'' []"
    "http_route ''POST'' (''/api/v1/servers'' @ q) = Handled Session ''handleAddServer'' []"
    "http_route ''GET'' (''/api/v1/runners'' @ q) = Handled Session ''handleListRunners'' []"
    "http_route ''POST'' (''/api/v1/runners'' @ q) = Handled Unguarded ''handleRegisterRunner'' []"
    "http_route ''POST'' (''/api/v1/runners/heartbeat'' @ q) = Handled Unguarded ''handleRunnerHeartbeat'' []"
    "http_route ''POST'' (''/api/v1/runners/registration-token'' @ q) = Handled Session ''handleCreateRegistrationToken'' []"
    "http_route ''POST'' (''/api/v1/executions'' @ q) = Handled Session ''handleCreateExecution'' []"
    "http_route ''GET'' (''/api/v1/executions'' @ q) = Handled Session ''handleListExecutions'' []"
    "http_route ''GET'' (''/api/v1/audit'' @ q) = Handled Session ''handleSearchAudit'' []"
    "http_route ''GET'' (''/api/v1/audit/verify'' @ q) = Handled Session ''handleVerifyAudit'' []"
    "http_route ''GET'' (''/api/v1/schedules'' @ q) = Handled Session ''handleListSchedules'' []"
    "http_route ''POST'' (''/api/v1/schedules'' @ q) = Handled Session ''handleCreateSchedule'' []"
    "http_route ''GET'' (''/api/v1/automation/status'' @ q) = Handled Session ''handleAutomationStatus'' []"
    "http_route ''POST'' (''/api/v1/automation/pause'' @ q) = Handled Session ''handlePauseAutomation'' []"
    "http_route ''POST'' (''/api/v1/automation/resume'' @ q) = Handled Session ''handleResumeAutomation'' []"
    "http_route ''GET'' (''/api/v1/runbooks'' @ q) = Handled Session ''handleListRunbooks'' []"
    "http_route ''POST'' (''/api/v1/runbooks'' @ q) = Handled Session ''handleCreateRunbook'' []"
    "http_route ''GET'' (''/api/v1/approvals'' @ q) = Handled Session ''handleListApprovals'' []"
  subgoal using route_words [OF _ _ assms _ collection_matches(1)] by (simp add: words)
  subgoal using route_words [OF _ _ assms _ collection_matches(2)] by (simp add: words)
  subgoal using route_words [OF _ _ assms _ collection_matches(3)] by (simp add: words)
  subgoal using route_words [OF _ _ assms _ collection_matches(4)] by (simp add: words)
  subgoal using route_words [OF _ _ assms _ collection_matches(5)] by (simp add: words)
  subgoal using route_words [OF _ _ assms _ collection_matches(6)] by (simp add: words)
  subgoal using route_words [OF _ _ assms _ collection_matches(7)] by (simp add: words)
  subgoal using route_words [OF _ _ assms _ collection_matches(8)] by (simp add: words)
  subgoal using route_words [OF _ _ assms _ collection_matches(9)] by (simp add: words)
  subgoal using route_words [OF _ _ assms _ collection_matches(10)] by (simp add: words)
  subgoal using route_words [OF _ _ assms _ collection_matches(11)] by (simp add: words)
  subgoal using route_words [OF _ _ assms _ collection_matches(12)] by (simp add: words)
  subgoal using route_words [OF _ _ assms _ collection_matches(13)] by (simp add: words)
  subgoal using route_words [OF _ _ assms _ collection_matches(14)] by (simp add: words)
  subgoal using route_words [OF _ _ assms _ collection_matches(15)] by (simp add: words)
  subgoal using route_words [OF _ _ assms _ collection_matches(16)] by (simp add: words)
  subgoal using route_words [OF _ _ assms _ collection_matches(17)] by (simp add: words)
  subgoal using route_words [OF _ _ assms _ collection_matches(18)] by (simp add: words)
  subgoal using route_words [OF _ _ assms _ collection_matches(19)] by (simp add: words)
  subgoal using route_words [OF _ _ assms _ collection_matches(20)] by (simp add: words)
  subgoal using route_words [OF _ _ assms _ collection_matches(21)] by (simp add: words)
  subgoal using route_words [OF _ _ assms _ collection_matches(22)] by (simp add: words)
  subgoal using route_words [OF _ _ assms _ collection_matches(23)] by (simp add: words)
  done

theorem collection_calls_reach_handlers:
  "reaches (analyze_ai cn dec question execution_id evidence) Session ''handleAIAnalyze'' []
    \<and> reaches (health cn dec) Unguarded ''health'' []
    \<and> reaches (ready cn dec) Unguarded ''ready'' []
    \<and> reaches (who_am_i cn dec) Session ''handleWhoAmI'' []
    \<and> reaches (create_api_token cn dec name user_id expires_in) Session ''handleCreateAPIToken'' []
    \<and> reaches (list_servers cn dec environment tag_key tag_value) Session ''handleListServers'' []
    \<and> reaches (add_server cn dec server) Session ''handleAddServer'' []
    \<and> reaches (list_runners cn dec) Session ''handleListRunners'' []
    \<and> reaches (register_runner_call cn dec runner) Unguarded ''handleRegisterRunner'' []
    \<and> reaches (runner_heartbeat cn dec runner_id hostname platform version) Unguarded ''handleRunnerHeartbeat'' []
    \<and> reaches (create_registration_token_for_runner cn dec runner_id) Session ''handleCreateRegistrationToken'' []
    \<and> reaches (create_execution_with_key cn dec target command reason key) Session ''handleCreateExecution'' []
    \<and> reaches (list_executions cn dec status limit) Session ''handleListExecutions'' []
    \<and> reaches (list_filtered flag cn dec status limit) Session ''handleListExecutions'' []
    \<and> reaches (list_audit cn dec limit) Session ''handleSearchAudit'' []
    \<and> reaches (verify_audit cn dec) Session ''handleVerifyAudit'' []
    \<and> reaches (list_schedules cn dec) Session ''handleListSchedules'' []
    \<and> reaches (create_schedule_call cn dec schedule) Session ''handleCreateSchedule'' []
    \<and> reaches (automation_status cn dec) Session ''handleAutomationStatus'' []
    \<and> reaches (pause_automation cn dec reason) Session ''handlePauseAutomation'' []
    \<and> reaches (resume_automation cn dec) Session ''handleResumeAutomation'' []
    \<and> reaches (search_runbooks cn dec query) Session ''handleListRunbooks'' []
    \<and> reaches (create_runbook_call cn dec runbook) Session ''handleCreateRunbook'' []
    \<and> reaches (list_approvals cn dec status) Session ''handleListApprovals'' []"
proof -
  have q: "reaches (list_servers cn dec environment tag_key tag_value) Session ''handleListServers'' []"
    "reaches (list_executions cn dec status limit) Session ''handleListExecutions'' []"
    using servers_query [of cn dec environment tag_key tag_value] executions_query [of cn dec status limit]
      reaches_get [OF collection_routes(6)] reaches_get [OF collection_routes(13)] by metis+
  have plain: "http_route m (path @ []) = res \<Longrightarrow> http_route m path = res" for m path res by simp
  have none: "query_part []" by (simp add: query_part_def)
  note routes = collection_routes [OF none, THEN plain]
  have w: "reaches (list_filtered flag cn dec status limit) Session ''handleListExecutions'' []"
    "reaches (list_audit cn dec limit) Session ''handleSearchAudit'' []"
    "reaches (search_runbooks cn dec query) Session ''handleListRunbooks'' []"
    "reaches (list_approvals cn dec status) Session ''handleListApprovals'' []"
    using collection_routes(13) [of "''?'' @ _"] collection_routes(14) [of "''?'' @ _"] collection_routes(21) [of "if query \<noteq> [] then _ else []"]
      collection_routes(23) [of "if status \<noteq> [] then _ else []"]
    by (simp_all add: list_filtered_def list_audit_def search_runbooks_def list_approvals_def query_part_def reaches_get)
  show ?thesis
    unfolding analyze_ai_def health_def ready_def who_am_i_def create_api_token_def add_server_def list_runners_def
      register_runner_call_def runner_heartbeat_def create_registration_token_for_runner_def create_execution_with_key_def
      verify_audit_def list_schedules_def create_schedule_call_def automation_status_def pause_automation_def
      resume_automation_def create_runbook_call_def
    by (intro conjI q w reaches_get reaches_post reaches_headers) (rule routes)+
qed

end
