(* ===== verification/Tui.thy ===== *)
theory Tui
  imports Client Runbook Config
begin

text \<open>
  \<open>apps/cli/tui.go\<close>: the state of the terminal interface and its \<open>Update\<close>.  The widgets (the tables, the list and the
  text inputs of the bubbles library) are a record of functions over types of their own; a key is what its \<open>String\<close>
  method gives.  The interface calls the control plane inside \<open>Update\<close>, so a turn takes and returns the requests sent so far.
  \<open>None\<close> is a panic: the dereference of a nil pointer.  Drawing the screens is left out.
\<close>

section \<open>State\<close>

datatype screen =
    ScreenHome | ScreenServers | ScreenRunbooks | ScreenExecutions | ScreenApprovals | ScreenSchedules | ScreenAudit
  | ScreenHelp | ScreenExecutionDetail | ScreenRunbookRun | ScreenScheduleCreate | ScreenApprovalDetail | ScreenApprovalDeny

type_synonym row = "string list"

text \<open>\<open>'t\<close> is a table, \<open>'l\<close> the list of runbooks, \<open>'i\<close> a text input and \<open>'c\<close> the command an input returns.\<close>

record ('t, 'l, 'i, 'c) widgets =
  tb_set_rows :: "row list \<Rightarrow> 't \<Rightarrow> 't"
  tb_set_width :: "int \<Rightarrow> 't \<Rightarrow> 't"
  tb_update :: "string \<Rightarrow> 't \<Rightarrow> 't"
  tb_cursor :: "'t \<Rightarrow> int"
  ls_set_items :: "runbook_item list \<Rightarrow> 'l \<Rightarrow> 'l"
  ls_set_width :: "int \<Rightarrow> 'l \<Rightarrow> 'l"
  ls_set_height :: "int \<Rightarrow> 'l \<Rightarrow> 'l"
  ls_update :: "string \<Rightarrow> 'l \<Rightarrow> 'l"
  ls_index :: "'l \<Rightarrow> int"
  in_value :: "'i \<Rightarrow> string"
  in_focused :: "'i \<Rightarrow> bool"
  in_focus :: "'i \<Rightarrow> 'i"
  in_blur :: "'i \<Rightarrow> 'i"
  in_set_value :: "string \<Rightarrow> 'i \<Rightarrow> 'i"
  in_update :: "string \<Rightarrow> 'i \<Rightarrow> 'i \<times> 'c"

record decoders =
  dc_servers :: "server_item list decoder"
  dc_runbooks :: "runbook_item list decoder"
  dc_executions :: "execution_list_item list decoder"
  dc_approvals :: "approval_item list decoder"
  dc_schedules :: "schedule_item list decoder"
  dc_audit :: "audit_item list decoder"
  dc_execution :: "execution_response decoder"
  dc_approval :: "approval_detail decoder"
  dc_answer :: "answer decoder"
  dc_strings :: "(string \<times> string) list decoder"

record ('t, 'l, 'i, 'c) ui_world =
  uw_conn :: connection
  uw_dec :: decoders
  uw_widgets :: "('t, 'l, 'i, 'c) widgets"
  uw_quote :: "string \<Rightarrow> string"

record ('t, 'l, 'i) tui =
  ui_screen :: screen
  ui_width :: int
  ui_height :: int
  ui_err :: string
  ui_msg :: string
  ui_server_table :: 't
  ui_servers :: "server_item list"
  ui_runbook_list :: 'l
  ui_runbooks :: "runbook_item list"
  ui_exec_table :: 't
  ui_executions :: "execution_list_item list"
  ui_approval_table :: 't
  ui_approvals :: "approval_item list"
  ui_schedule_table :: 't
  ui_schedules :: "schedule_item list"
  ui_audit_input :: 'i
  ui_audit_events :: "audit_item list"
  ui_selected_exec :: "execution_response option"
  ui_selected_approval :: "approval_detail option"
  ui_selected_runbook :: "runbook_item option"
  ui_run_inputs :: "'i list"
  ui_approval_note :: 'i
  ui_schedule_inputs :: "'i list"
  ui_pending_approval :: string
  ui_confirm :: string
  ui_quitting :: bool

text \<open>
  The inputs of the two forms are kept in the order in which the focus moves: target, reason, parameters of a run;
  name, runbook, target, reason, parameters, interval, first run of a schedule.
\<close>

definition new_tui_model :: "('t \<times> 't \<times> 't \<times> 't) \<Rightarrow> 'l \<Rightarrow> 'i \<Rightarrow> 'i list \<Rightarrow> 'i \<Rightarrow> 'i list \<Rightarrow> ('t, 'l, 'i) tui" where
  "new_tui_model tables runbook_list audit_input run_inputs note schedule_inputs =
     (case tables of (st, et, apt, sct) \<Rightarrow>
       \<lparr>ui_screen = ScreenHome, ui_width = 0, ui_height = 0, ui_err = [], ui_msg = [], ui_server_table = st, ui_servers = [],
        ui_runbook_list = runbook_list, ui_runbooks = [], ui_exec_table = et, ui_executions = [], ui_approval_table = apt,
        ui_approvals = [], ui_schedule_table = sct, ui_schedules = [], ui_audit_input = audit_input, ui_audit_events = [],
        ui_selected_exec = None, ui_selected_approval = None, ui_selected_runbook = None, ui_run_inputs = run_inputs,
        ui_approval_note = note, ui_schedule_inputs = schedule_inputs, ui_pending_approval = [], ui_confirm = [],
        ui_quitting = False\<rparr>)"

datatype ui_event = WindowSize int int | Key string | OtherEvent

datatype 'c ui_cmd = NoCmd | QuitCmd | BlinkCmd | InputCmd 'c

type_synonym ('t, 'l, 'i, 'c) turn = "(('t, 'l, 'i) tui \<times> 'c ui_cmd) \<times> request list"

section \<open>Rows\<close>

definition server_rows :: "server_item list \<Rightarrow> row list" where
  "server_rows = map (\<lambda>s. [si_id s, si_name s, si_hostname s, si_environment s, si_status s])"

definition truncate_text :: "string \<Rightarrow> nat \<Rightarrow> string" where
  "truncate_text s n = (if length s \<le> n then s else take n s @ ''...'')"

definition exec_rows :: "execution_list_item list \<Rightarrow> row list" where
  "exec_rows = map (\<lambda>e. [xl_id e, xl_status e,
     int_str (xl_succeeded_count e) @ ''/'' @ int_str (xl_failed_count e) @ ''/'' @ int_str (xl_target_count e),
     truncate_text (xl_command_preview e) 40])"

definition approval_rows :: "approval_item list \<Rightarrow> row list" where
  "approval_rows = map (\<lambda>a. [pi_id a, pi_requester_name a, pi_action_type a, pi_status a, pi_reason a])"

definition schedule_rows :: "schedule_item list \<Rightarrow> row list" where
  "schedule_rows = map (\<lambda>s. [sl_name s, sl_runbook_name s, sl_target s, sl_next_run_at s,
     if sl_enabled s then ''enabled'' else ''disabled''])"

section \<open>Loading\<close>

definition load_servers :: "('t, 'l, 'i, 'c) ui_world \<Rightarrow> ('t, 'l, 'i) tui \<Rightarrow> request list \<Rightarrow> ('t, 'l, 'i) tui \<times> request list" where
  "load_servers w m sent =
     (case list_servers (uw_conn w) (dc_servers (uw_dec w)) [] [] [] sent of
        (Inl _, sent1) \<Rightarrow> (m, sent1)
      | (Inr xs, sent1) \<Rightarrow>
          (m\<lparr>ui_servers := xs, ui_server_table := tb_set_rows (uw_widgets w) (server_rows xs) (ui_server_table m)\<rparr>, sent1))"

definition load_runbooks :: "('t, 'l, 'i, 'c) ui_world \<Rightarrow> ('t, 'l, 'i) tui \<Rightarrow> request list \<Rightarrow> ('t, 'l, 'i) tui \<times> request list" where
  "load_runbooks w m sent =
     (case list_runbooks (uw_conn w) (dc_runbooks (uw_dec w)) sent of
        (Inl _, sent1) \<Rightarrow> (m, sent1)
      | (Inr xs, sent1) \<Rightarrow>
          (m\<lparr>ui_runbooks := xs, ui_runbook_list := ls_set_items (uw_widgets w) xs (ui_runbook_list m)\<rparr>, sent1))"

definition load_executions :: "('t, 'l, 'i, 'c) ui_world \<Rightarrow> ('t, 'l, 'i) tui \<Rightarrow> request list \<Rightarrow> ('t, 'l, 'i) tui \<times> request list" where
  "load_executions w m sent =
     (case list_executions (uw_conn w) (dc_executions (uw_dec w)) [] ''50'' sent of
        (Inl _, sent1) \<Rightarrow> (m, sent1)
      | (Inr xs, sent1) \<Rightarrow>
          (m\<lparr>ui_executions := xs, ui_exec_table := tb_set_rows (uw_widgets w) (exec_rows xs) (ui_exec_table m)\<rparr>, sent1))"

definition load_approvals :: "('t, 'l, 'i, 'c) ui_world \<Rightarrow> ('t, 'l, 'i) tui \<Rightarrow> request list \<Rightarrow> ('t, 'l, 'i) tui \<times> request list" where
  "load_approvals w m sent =
     (case list_approvals (uw_conn w) (dc_approvals (uw_dec w)) [] sent of
        (Inl _, sent1) \<Rightarrow> (m, sent1)
      | (Inr xs, sent1) \<Rightarrow>
          (m\<lparr>ui_approvals := xs, ui_approval_table := tb_set_rows (uw_widgets w) (approval_rows xs) (ui_approval_table m)\<rparr>, sent1))"

text \<open>A failure is shown under \<open>failed\<close>, or not at all.\<close>

definition load_schedules ::
  "('t, 'l, 'i, 'c) ui_world \<Rightarrow> string option \<Rightarrow> ('t, 'l, 'i) tui \<Rightarrow> request list \<Rightarrow> ('t, 'l, 'i) tui \<times> request list" where
  "load_schedules w failed m sent =
     (case list_schedules (uw_conn w) (dc_schedules (uw_dec w)) sent of
        (Inl e, sent1) \<Rightarrow> (case failed of None \<Rightarrow> m | Some f \<Rightarrow> m\<lparr>ui_err := f @ e\<rparr>, sent1)
      | (Inr xs, sent1) \<Rightarrow>
          (m\<lparr>ui_schedules := xs, ui_schedule_table := tb_set_rows (uw_widgets w) (schedule_rows xs) (ui_schedule_table m)\<rparr>, sent1))"

section \<open>Focus\<close>

fun first_focused :: "('i \<Rightarrow> bool) \<Rightarrow> 'i list \<Rightarrow> nat option" where
  "first_focused focused [] = None"
| "first_focused focused (x # xs) = (if focused x then Some 0 else map_option Suc (first_focused focused xs))"

text \<open>The loop of \<open>focusRunbookInput\<close> and \<open>focusScheduleInput\<close>.\<close>

definition cycle_focus :: "('t, 'l, 'i, 'c) widgets \<Rightarrow> bool \<Rightarrow> 'i list \<Rightarrow> 'i list" where
  "cycle_focus wd forward inputs =
     (let n = length inputs; found = first_focused (in_focused wd) inputs;
          current = (case found of None \<Rightarrow> 0 | Some i \<Rightarrow> i);
          blurred = (case found of None \<Rightarrow> inputs | Some i \<Rightarrow> inputs[i := in_blur wd (inputs ! i)]);
          target = (if forward then (current + 1) mod n else (current + n - 1) mod n)
      in blurred[target := in_focus wd (blurred ! target)])"

text \<open>A key goes to the focused input, to the last one when none before it is focused.\<close>

definition type_key :: "('t, 'l, 'i, 'c) widgets \<Rightarrow> string \<Rightarrow> 'i list \<Rightarrow> 'i list \<times> 'c" where
  "type_key wd key inputs =
     (let i = (case first_focused (in_focused wd) (butlast inputs) of None \<Rightarrow> length inputs - 1 | Some i \<Rightarrow> i);
          (x, c) = in_update wd key (inputs ! i)
      in (inputs[i := x], c))"

section \<open>The forms\<close>

definition param_error_text :: "(string \<Rightarrow> string) \<Rightarrow> list_error \<Rightarrow> string" where
  "param_error_text quote e =
     (case e of
        EmptyEntry \<Rightarrow> ''parameter list contains an empty entry''
      | InvalidEntry part \<Rightarrow> ''invalid parameter '' @ quote part @ '', expected name=value''
      | DuplicateEntry name \<Rightarrow> ''parameter '' @ quote name @ '' is provided more than once'')"

definition form_value :: "('t, 'l, 'i, 'c) widgets \<Rightarrow> 'i list \<Rightarrow> nat \<Rightarrow> string" where
  "form_value wd inputs i = trim_space (in_value wd (inputs ! i))"

definition leave_run :: "('t, 'l, 'i, 'c) widgets \<Rightarrow> ('t, 'l, 'i) tui \<Rightarrow> ('t, 'l, 'i) tui" where
  "leave_run wd m =
     m\<lparr>ui_screen := ScreenRunbooks, ui_selected_runbook := None, ui_run_inputs := map (in_blur wd) (ui_run_inputs m)\<rparr>"

definition queued_message :: "answer \<Rightarrow> string" where
  "queued_message answer =
     (if map_of answer ''status'' = Some (JStr ''awaiting_approval'') then ''Task submitted. Approval is required before execution.''
      else case map_of answer ''execution_id'' of
          Some (JStr i) \<Rightarrow> if i \<noteq> [] then ''Task queued. Execution ID: '' @ i else ''Task submitted.''
        | _ \<Rightarrow> ''Task submitted.'')"

definition run_form_key ::
  "('t, 'l, 'i, 'c) ui_world \<Rightarrow> string \<Rightarrow> ('t, 'l, 'i) tui \<Rightarrow> request list \<Rightarrow> ('t, 'l, 'i, 'c) turn option" where
  "run_form_key w key m sent =
     (let wd = uw_widgets w; inputs = ui_run_inputs m;
          values = parse_parameter_values (in_value wd (inputs ! 2))
      in if key \<in> {''ctrl+c'', ''q'', ''esc''} then Some ((leave_run wd m, NoCmd), sent)
         else if key \<in> {''tab'', ''shift+tab''}
         then Some ((m\<lparr>ui_run_inputs := cycle_focus wd (key = ''tab'') inputs\<rparr>, NoCmd), sent)
         else if key = ''p'' then
           (case values of
              Inl e \<Rightarrow> Some ((m\<lparr>ui_err := ''preflight failed: '' @ param_error_text (uw_quote w) e\<rparr>, NoCmd), sent)
            | Inr params \<Rightarrow>
                (case ui_selected_runbook m of
                   None \<Rightarrow> None
                 | Some rb \<Rightarrow>
                     (case preflight_runbook (uw_conn w) (dc_answer (uw_dec w)) (ri_name rb) (form_value wd inputs 0)
                             (form_value wd inputs 1) params sent of
                        (Inl e, sent1) \<Rightarrow> Some ((m\<lparr>ui_err := ''preflight failed: '' @ e\<rparr>, NoCmd), sent1)
                      | (Inr answer, sent1) \<Rightarrow>
                          Some ((m\<lparr>ui_err := [],
                                   ui_msg := (if map_of answer ''approval_required'' = Some (JBool True)
                                     then ''Preflight passed. Approval is required before execution.''
                                     else ''Preflight passed. Press Enter to submit the task.'')\<rparr>, NoCmd), sent1))))
         else if key = ''enter'' then
           (if form_value wd inputs 0 = [] then Some ((m\<lparr>ui_err := ''target is required''\<rparr>, NoCmd), sent)
            else case values of
                Inl e \<Rightarrow> Some ((m\<lparr>ui_err := ''task not submitted: '' @ param_error_text (uw_quote w) e\<rparr>, NoCmd), sent)
              | Inr params \<Rightarrow>
                  (case ui_selected_runbook m of
                     None \<Rightarrow> None
                   | Some rb \<Rightarrow>
                       (case run_runbook_call (uw_conn w) (dc_answer (uw_dec w)) (ri_name rb) (form_value wd inputs 0)
                               (form_value wd inputs 1) params sent of
                          (Inl e, sent1) \<Rightarrow> Some ((m\<lparr>ui_err := ''task submission failed: '' @ e\<rparr>, NoCmd), sent1)
                        | (Inr answer, sent1) \<Rightarrow>
                            Some ((leave_run wd (m\<lparr>ui_err := [], ui_msg := queued_message answer\<rparr>), NoCmd), sent1))))
         else case type_key wd key inputs of (inputs', c) \<Rightarrow> Some ((m\<lparr>ui_run_inputs := inputs'\<rparr>, InputCmd c), sent))"

definition blur_schedule_inputs :: "('t, 'l, 'i, 'c) widgets \<Rightarrow> ('t, 'l, 'i) tui \<Rightarrow> ('t, 'l, 'i) tui" where
  "blur_schedule_inputs wd m = m\<lparr>ui_schedule_inputs := map (in_blur wd) (ui_schedule_inputs m)\<rparr>"

definition schedule_form_key ::
  "('t, 'l, 'i, 'c) ui_world \<Rightarrow> string \<Rightarrow> ('t, 'l, 'i) tui \<Rightarrow> request list \<Rightarrow> ('t, 'l, 'i, 'c) turn" where
  "schedule_form_key w key m sent =
     (let wd = uw_widgets w; inputs = ui_schedule_inputs m; value = form_value wd inputs
      in if key \<in> {''ctrl+c'', ''q'', ''esc''}
         then ((blur_schedule_inputs wd (m\<lparr>ui_screen := ScreenSchedules\<rparr>), NoCmd), sent)
         else if key \<in> {''tab'', ''shift+tab''}
         then ((m\<lparr>ui_schedule_inputs := cycle_focus wd (key = ''tab'') inputs\<rparr>, NoCmd), sent)
         else if key = ''enter'' then
           (if value 0 = [] \<or> value 1 = [] \<or> value 2 = [] \<or> value 3 = []
            then ((m\<lparr>ui_err := ''name, runbook, target, and reason are required''\<rparr>, NoCmd), sent)
            else case atoi (value 5) of
                None \<Rightarrow> ((m\<lparr>ui_err := ''interval must be at least 60 seconds''\<rparr>, NoCmd), sent)
              | Some interval \<Rightarrow>
                  if interval < 60 then ((m\<lparr>ui_err := ''interval must be at least 60 seconds''\<rparr>, NoCmd), sent)
                  else case parse_parameter_values (in_value wd (inputs ! 4)) of
                      Inl e \<Rightarrow> ((m\<lparr>ui_err := ''schedule not created: '' @ param_error_text (uw_quote w) e\<rparr>, NoCmd), sent)
                    | Inr params \<Rightarrow>
                        (case create_schedule_call (uw_conn w) (dc_strings (uw_dec w))
                                \<lparr>cq_name = value 0, cq_runbook_name = value 1, cq_target = value 2, cq_reason = value 3,
                                 cq_params = params, cq_interval_seconds = interval, cq_next_run_at = value 6\<rparr> sent of
                           (Inl e, sent1) \<Rightarrow> ((m\<lparr>ui_err := ''schedule creation failed: '' @ e\<rparr>, NoCmd), sent1)
                         | (Inr _, sent1) \<Rightarrow>
                             (case load_schedules w None
                                     (blur_schedule_inputs wd (m\<lparr>ui_err := [], ui_msg := ''Created schedule '' @ value 0,
                                        ui_screen := ScreenSchedules\<rparr>)) sent1 of
                                (m', sent2) \<Rightarrow> ((m', NoCmd), sent2))))
         else case type_key wd key inputs of (inputs', c) \<Rightarrow> ((m\<lparr>ui_schedule_inputs := inputs'\<rparr>, InputCmd c), sent))"

section \<open>The screens with keys of their own\<close>

text \<open>\<open>None\<close>: the key is left to the switch that all screens share.\<close>

definition execution_detail_key ::
  "('t, 'l, 'i, 'c) ui_world \<Rightarrow> string \<Rightarrow> ('t, 'l, 'i) tui \<Rightarrow> request list \<Rightarrow> ('t, 'l, 'i, 'c) turn option" where
  "execution_detail_key w key m sent =
     (if key \<in> {''q'', ''esc''}
      then Some ((m\<lparr>ui_screen := ScreenExecutions, ui_selected_exec := None, ui_confirm := []\<rparr>, NoCmd), sent)
      else if key = ''c'' then
        (case ui_selected_exec m of
           None \<Rightarrow> Some ((m\<lparr>ui_err := ''only created or queued executions can be cancelled''\<rparr>, NoCmd), sent)
         | Some x \<Rightarrow>
             let i = xd_id (xr_execution x)
             in if xd_status (xr_execution x) \<noteq> ''created'' \<and> xd_status (xr_execution x) \<noteq> ''queued''
                then Some ((m\<lparr>ui_err := ''only created or queued executions can be cancelled''\<rparr>, NoCmd), sent)
                else if ui_confirm m \<noteq> i @ '':cancel''
                then Some ((m\<lparr>ui_confirm := i @ '':cancel'', ui_msg := ''Press c again to cancel '' @ i\<rparr>, NoCmd), sent)
                else case cancel_execution (uw_conn w) (dc_strings (uw_dec w)) i sent of
                    (Inl e, sent1) \<Rightarrow> Some ((m\<lparr>ui_confirm := [], ui_err := ''cancel failed: '' @ e\<rparr>, NoCmd), sent1)
                  | (Inr _, sent1) \<Rightarrow>
                      (case get_execution (uw_conn w) (dc_execution (uw_dec w)) i sent1 of
                         (refreshed, sent2) \<Rightarrow>
                           let m1 = m\<lparr>ui_confirm := [],
                                      ui_selected_exec := (case refreshed of Inl _ \<Rightarrow> Some x | Inr y \<Rightarrow> Some y)\<rparr>
                           in case load_executions w m1 sent2 of
                               (m2, sent3) \<Rightarrow>
                                 Some ((m2\<lparr>ui_err := [], ui_msg := ''Execution cancelled: '' @ i\<rparr>, NoCmd), sent3)))
      else None)"

definition deny_form_key ::
  "('t, 'l, 'i, 'c) ui_world \<Rightarrow> string \<Rightarrow> ('t, 'l, 'i) tui \<Rightarrow> request list \<Rightarrow> ('t, 'l, 'i, 'c) turn" where
  "deny_form_key w key m sent =
     (let wd = uw_widgets w; leave = (\<lambda>m. m\<lparr>ui_screen := ScreenApprovals, ui_approval_note := in_blur wd (ui_approval_note m),
                                             ui_pending_approval := []\<rparr>)
      in if key \<in> {''ctrl+c'', ''q'', ''esc''} then ((leave m, NoCmd), sent)
         else if key = ''enter'' then
           (let note = trim_space (in_value wd (ui_approval_note m))
            in if note = [] then ((m\<lparr>ui_err := ''a denial note is required''\<rparr>, NoCmd), sent)
               else case deny_approval (uw_conn w) (dc_strings (uw_dec w)) (ui_pending_approval m) [note] sent of
                   (Inl e, sent1) \<Rightarrow> ((m\<lparr>ui_err := ''deny failed: '' @ e\<rparr>, NoCmd), sent1)
                 | (Inr _, sent1) \<Rightarrow>
                     (case load_approvals w (leave (m\<lparr>ui_msg := ''Denied '' @ ui_pending_approval m, ui_err := []\<rparr>)) sent1 of
                        (m', sent2) \<Rightarrow> ((m', NoCmd), sent2)))
         else case in_update wd key (ui_approval_note m) of
             (x, c) \<Rightarrow> ((m\<lparr>ui_approval_note := x\<rparr>, InputCmd c), sent))"

definition matching_events :: "string \<Rightarrow> audit_item list \<Rightarrow> audit_item list" where
  "matching_events actor events = (if actor = [] then events else filter (\<lambda>e. ai_actor_id e = actor \<or> ai_action e = actor) events)"

definition audit_key ::
  "('t, 'l, 'i, 'c) ui_world \<Rightarrow> string \<Rightarrow> ('t, 'l, 'i) tui \<Rightarrow> request list \<Rightarrow> ('t, 'l, 'i, 'c) turn" where
  "audit_key w key m sent =
     (let wd = uw_widgets w; blurred = in_blur wd (ui_audit_input m)
      in if key \<in> {''ctrl+c'', ''q''} then ((m\<lparr>ui_screen := ScreenHome, ui_audit_input := blurred\<rparr>, NoCmd), sent)
         else if key = ''h'' then ((m\<lparr>ui_screen := ScreenHelp, ui_audit_input := blurred\<rparr>, NoCmd), sent)
         else if key \<in> {''r'', ''enter''} then
           (case list_audit (uw_conn w) (dc_audit (uw_dec w)) ''50'' sent of
              (Inl e, sent1) \<Rightarrow> ((m\<lparr>ui_err := ''audit refresh failed: '' @ e\<rparr>, NoCmd), sent1)
            | (Inr events, sent1) \<Rightarrow>
                let shown = matching_events (in_value wd (ui_audit_input m)) events
                in ((m\<lparr>ui_audit_events := shown, ui_msg := ''Showing '' @ nat_str (length shown) @ '' audit events''\<rparr>, NoCmd), sent1))
         else case in_update wd key (ui_audit_input m) of (x, c) \<Rightarrow> ((m\<lparr>ui_audit_input := x\<rparr>, InputCmd c), sent))"

section \<open>The shared switch\<close>

definition pass_to_component :: "('t, 'l, 'i, 'c) widgets \<Rightarrow> string \<Rightarrow> ('t, 'l, 'i) tui \<Rightarrow> ('t, 'l, 'i) tui" where
  "pass_to_component wd key m =
     (case ui_screen m of
        ScreenServers \<Rightarrow> m\<lparr>ui_server_table := tb_update wd key (ui_server_table m)\<rparr>
      | ScreenExecutions \<Rightarrow> m\<lparr>ui_exec_table := tb_update wd key (ui_exec_table m)\<rparr>
      | ScreenApprovals \<Rightarrow> m\<lparr>ui_approval_table := tb_update wd key (ui_approval_table m)\<rparr>
      | ScreenSchedules \<Rightarrow> m\<lparr>ui_schedule_table := tb_update wd key (ui_schedule_table m)\<rparr>
      | ScreenRunbooks \<Rightarrow> m\<lparr>ui_runbook_list := ls_update wd key (ui_runbook_list m)\<rparr>
      | _ \<Rightarrow> m)"

text \<open>The element under a cursor, if the cursor is inside the slice.\<close>

definition under_cursor :: "int \<Rightarrow> 'a list \<Rightarrow> 'a option" where
  "under_cursor i xs = (if 0 \<le> i \<and> i < int (length xs) then Some (xs ! nat i) else None)"

definition current_runbook :: "('t, 'l, 'i, 'c) widgets \<Rightarrow> ('t, 'l, 'i) tui \<Rightarrow> runbook_item option" where
  "current_runbook wd m = under_cursor (ls_index wd (ui_runbook_list m)) (ui_runbooks m)"

definition current_approval :: "('t, 'l, 'i, 'c) widgets \<Rightarrow> ('t, 'l, 'i) tui \<Rightarrow> approval_item option" where
  "current_approval wd m = under_cursor (tb_cursor wd (ui_approval_table m)) (ui_approvals m)"

definition current_schedule :: "('t, 'l, 'i, 'c) widgets \<Rightarrow> ('t, 'l, 'i) tui \<Rightarrow> schedule_item option" where
  "current_schedule wd m = under_cursor (tb_cursor wd (ui_schedule_table m)) (ui_schedules m)"

definition refresh_key :: "('t, 'l, 'i, 'c) ui_world \<Rightarrow> ('t, 'l, 'i) tui \<Rightarrow> request list \<Rightarrow> ('t, 'l, 'i) tui \<times> request list" where
  "refresh_key w m sent =
     (case ui_screen m of
        ScreenServers \<Rightarrow> load_servers w m sent
      | ScreenExecutions \<Rightarrow> load_executions w m sent
      | ScreenApprovals \<Rightarrow> load_approvals w m sent
      | ScreenSchedules \<Rightarrow> load_schedules w (Some ''schedule refresh failed: '') m sent
      | ScreenRunbooks \<Rightarrow> load_runbooks w m sent
      | ScreenAudit \<Rightarrow>
          (case list_audit (uw_conn w) (dc_audit (uw_dec w)) ''50'' sent of
             (Inl _, sent1) \<Rightarrow> (m, sent1)
           | (Inr events, sent1) \<Rightarrow> (m\<lparr>ui_audit_events := events\<rparr>, sent1))
      | _ \<Rightarrow> (m, sent))"

definition bool_text :: "bool \<Rightarrow> string" where
  "bool_text b = (if b then ''true'' else ''false'')"

text \<open>The case \<open>enter\<close>, one \<open>if\<close> after the other.\<close>

definition enter_audit :: "('t, 'l, 'i, 'c) ui_world \<Rightarrow> ('t, 'l, 'i) tui \<Rightarrow> request list \<Rightarrow> ('t, 'l, 'i) tui \<times> request list" where
  "enter_audit w m sent =
     (if ui_screen m = ScreenAudit then
        (case list_audit (uw_conn w) (dc_audit (uw_dec w)) ''50'' sent of
           (Inl _, sent1) \<Rightarrow> (m, sent1)
         | (Inr events, sent1) \<Rightarrow>
             (m\<lparr>ui_audit_events := matching_events (in_value (uw_widgets w) (ui_audit_input m)) events\<rparr>, sent1))
      else (m, sent))"

definition enter_executions :: "('t, 'l, 'i, 'c) ui_world \<Rightarrow> ('t, 'l, 'i) tui \<Rightarrow> request list \<Rightarrow> ('t, 'l, 'i) tui \<times> request list" where
  "enter_executions w m sent =
     (if ui_screen m = ScreenExecutions then
        (case under_cursor (tb_cursor (uw_widgets w) (ui_exec_table m)) (ui_executions m) of
           None \<Rightarrow> (m, sent)
         | Some x \<Rightarrow>
             (case get_execution (uw_conn w) (dc_execution (uw_dec w)) (xl_id x) sent of
                (Inl _, sent1) \<Rightarrow> (m, sent1)
              | (Inr d, sent1) \<Rightarrow> (m\<lparr>ui_selected_exec := Some d, ui_screen := ScreenExecutionDetail\<rparr>, sent1)))
      else (m, sent))"

definition enter_key :: "('t, 'l, 'i, 'c) ui_world \<Rightarrow> ('t, 'l, 'i) tui \<Rightarrow> request list \<Rightarrow> ('t, 'l, 'i) tui \<times> request list" where
  "enter_key w m sent =
     (if ui_screen m = ScreenRunbooks then
        (case current_runbook (uw_widgets w) m of
           None \<Rightarrow> (m, sent)
         | Some rb \<Rightarrow>
             (m\<lparr>ui_msg := ''Runbook: '' @ ri_name rb @ ''  Risk: '' @ ri_risk rb @ ''  Permitted: '' @ bool_text (ri_permitted rb)
                          @ ''  Role: '' @ ri_allowed_roles rb\<rparr>, sent))
      else
        let (m1, sent1) = enter_audit w m sent;
            (m2, sent2) = enter_executions w m1 sent1
        in if ui_screen m2 = ScreenApprovals then
             (case current_approval (uw_widgets w) m2 of
                None \<Rightarrow> (m2, sent2)
              | Some a \<Rightarrow>
                  (case get_approval (uw_conn w) (dc_approval (uw_dec w)) (pi_id a) sent2 of
                     (Inl e, sent3) \<Rightarrow> (m2\<lparr>ui_err := ''approval detail failed: '' @ e\<rparr>, sent3)
                   | (Inr d, sent3) \<Rightarrow> (m2\<lparr>ui_selected_approval := Some d, ui_screen := ScreenApprovalDetail\<rparr>, sent3)))
           else
             let m3 = (if ui_screen m2 = ScreenExecutionDetail
                       then m2\<lparr>ui_screen := ScreenExecutions, ui_selected_exec := None\<rparr> else m2)
             in (if ui_screen m3 = ScreenApprovalDetail
                 then m3\<lparr>ui_screen := ScreenApprovals, ui_selected_approval := None\<rparr> else m3, sent2))"

definition select_key :: "('t, 'l, 'i, 'c) widgets \<Rightarrow> ('t, 'l, 'i) tui \<Rightarrow> ('t, 'l, 'i) tui" where
  "select_key wd m =
     (if ui_screen m \<noteq> ScreenRunbooks then m
      else case current_runbook wd m of
          None \<Rightarrow> m
        | Some rb \<Rightarrow>
            if \<not> ri_permitted rb then m\<lparr>ui_err := ''you are not permitted to run this runbook''\<rparr>
            else m\<lparr>ui_selected_runbook := Some rb,
                   ui_run_inputs :=
                     [in_focus wd (in_set_value wd ''server:srv_demo'' (ui_run_inputs m ! 0)),
                      in_blur wd (in_set_value wd [] (ui_run_inputs m ! 1)),
                      in_blur wd (in_set_value wd [] (ui_run_inputs m ! 2))],
                   ui_screen := ScreenRunbookRun, ui_err := [], ui_msg := ''Press p for preflight, then Enter to submit.''\<rparr>)"

definition approve_key :: "('t, 'l, 'i, 'c) ui_world \<Rightarrow> ('t, 'l, 'i) tui \<Rightarrow> request list \<Rightarrow> ('t, 'l, 'i) tui \<times> request list" where
  "approve_key w m sent =
     (if ui_screen m \<noteq> ScreenApprovals then (m, sent)
      else case current_approval (uw_widgets w) m of
          None \<Rightarrow> (m, sent)
        | Some a \<Rightarrow>
            let i = pi_id a
            in if ui_confirm m \<noteq> i @ '':approve''
               then (m\<lparr>ui_confirm := i @ '':approve'', ui_msg := ''Press a again to approve '' @ i\<rparr>, sent)
               else case approve_approval (uw_conn w) (dc_strings (uw_dec w)) i [] sent of
                   (Inl e, sent1) \<Rightarrow> (m\<lparr>ui_confirm := [], ui_err := ''approve failed: '' @ e\<rparr>, sent1)
                 | (Inr _, sent1) \<Rightarrow> load_approvals w (m\<lparr>ui_confirm := [], ui_msg := ''Approved '' @ i\<rparr>) sent1)"

definition deny_key :: "('t, 'l, 'i, 'c) widgets \<Rightarrow> ('t, 'l, 'i) tui \<Rightarrow> ('t, 'l, 'i) tui" where
  "deny_key wd m =
     (case current_approval wd m of
        None \<Rightarrow> m
      | Some a \<Rightarrow>
          let i = pi_id a
          in if ui_confirm m \<noteq> i @ '':deny''
             then m\<lparr>ui_confirm := i @ '':deny'', ui_msg := ''Press d again to deny '' @ i\<rparr>
             else m\<lparr>ui_confirm := [], ui_pending_approval := i,
                    ui_approval_note := in_focus wd (in_set_value wd [] (ui_approval_note m)),
                    ui_screen := ScreenApprovalDeny, ui_err := [], ui_msg := ''Enter a reason for denying '' @ i\<rparr>)"

definition disable_key :: "('t, 'l, 'i, 'c) ui_world \<Rightarrow> ('t, 'l, 'i) tui \<Rightarrow> request list \<Rightarrow> ('t, 'l, 'i) tui \<times> request list" where
  "disable_key w m sent =
     (case current_schedule (uw_widgets w) m of
        None \<Rightarrow> (m, sent)
      | Some s \<Rightarrow>
          let i = sl_id s
          in if \<not> sl_enabled s then (m\<lparr>ui_msg := ''Schedule is already disabled''\<rparr>, sent)
             else if ui_confirm m \<noteq> i @ '':disable''
             then (m\<lparr>ui_confirm := i @ '':disable'', ui_msg := ''Press d again to disable '' @ sl_name s\<rparr>, sent)
             else case disable_schedule (uw_conn w) (dc_strings (uw_dec w)) i sent of
                 (Inl e, sent1) \<Rightarrow> (m\<lparr>ui_confirm := [], ui_err := ''disable schedule failed: '' @ e\<rparr>, sent1)
               | (Inr _, sent1) \<Rightarrow> load_schedules w None (m\<lparr>ui_confirm := [], ui_msg := ''Disabled '' @ sl_name s\<rparr>) sent1)"

definition new_schedule_key :: "('t, 'l, 'i, 'c) widgets \<Rightarrow> ('t, 'l, 'i) tui \<Rightarrow> ('t, 'l, 'i) tui \<times> 'c ui_cmd" where
  "new_schedule_key wd m =
     (if ui_screen m \<noteq> ScreenSchedules then (m, NoCmd)
      else
        let inputs = map (\<lambda>(v, x). in_blur wd (in_set_value wd v x))
              (zip [[], [], ''server:srv_demo'', [], [], ''3600'', []] (ui_schedule_inputs m))
        in (m\<lparr>ui_schedule_inputs := inputs[0 := in_focus wd (inputs ! 0)], ui_screen := ScreenScheduleCreate, ui_err := [],
              ui_msg := ''Create a schedule for a published runbook.''\<rparr>, BlinkCmd))"

definition shared_key ::
  "('t, 'l, 'i, 'c) ui_world \<Rightarrow> string \<Rightarrow> ('t, 'l, 'i) tui \<Rightarrow> request list \<Rightarrow> ('t, 'l, 'i, 'c) turn" where
  "shared_key w key m sent =
     (let wd = uw_widgets w; open_screen = (\<lambda>s. m\<lparr>ui_screen := s, ui_err := []\<rparr>);
          plain = (\<lambda>(m', sent'). ((m', NoCmd), sent'))
      in if key \<in> {''ctrl+c'', ''q''} then
           (if ui_screen m = ScreenHome then ((m\<lparr>ui_quitting := True\<rparr>, QuitCmd), sent) else ((open_screen ScreenHome, NoCmd), sent))
         else if key = ''1'' then plain (load_servers w (open_screen ScreenServers) sent)
         else if key = ''2'' then plain (load_runbooks w (open_screen ScreenRunbooks) sent)
         else if key = ''3'' then plain (load_executions w (open_screen ScreenExecutions) sent)
         else if key = ''4'' then plain (load_approvals w (open_screen ScreenApprovals) sent)
         else if key = ''5'' then plain (load_schedules w (Some ''schedule list failed: '') (open_screen ScreenSchedules) sent)
         else if key = ''6''
         then (((open_screen ScreenAudit)\<lparr>ui_audit_input := in_focus wd (ui_audit_input m)\<rparr>, BlinkCmd), sent)
         else if key = ''h'' then ((m\<lparr>ui_screen := ScreenHelp\<rparr>, NoCmd), sent)
         else if key = ''r'' then plain (refresh_key w m sent)
         else if key = ''enter'' then plain (enter_key w m sent)
         else if key = ''x'' then ((select_key wd m, NoCmd), sent)
         else if key = ''a'' then plain (approve_key w m sent)
         else if key = ''d'' then
           (if ui_screen m = ScreenApprovals then ((deny_key wd m, NoCmd), sent)
            else if ui_screen m = ScreenSchedules then plain (disable_key w m sent) else ((m, NoCmd), sent))
         else if key = ''n'' then (new_schedule_key wd m, sent)
         else ((m, NoCmd), sent))"

section \<open>Update\<close>

definition resize :: "('t, 'l, 'i, 'c) widgets \<Rightarrow> int \<Rightarrow> int \<Rightarrow> ('t, 'l, 'i) tui \<Rightarrow> ('t, 'l, 'i) tui" where
  "resize wd width height m =
     (let cw = max 20 (width - 4); ch = max 4 (height - 8)
      in m\<lparr>ui_width := width, ui_height := height,
           ui_server_table := tb_set_width wd cw (ui_server_table m), ui_exec_table := tb_set_width wd cw (ui_exec_table m),
           ui_approval_table := tb_set_width wd cw (ui_approval_table m),
           ui_schedule_table := tb_set_width wd cw (ui_schedule_table m),
           ui_runbook_list := ls_set_height wd ch (ls_set_width wd cw (ui_runbook_list m))\<rparr>)"

definition press_key ::
  "('t, 'l, 'i, 'c) ui_world \<Rightarrow> string \<Rightarrow> ('t, 'l, 'i) tui \<Rightarrow> request list \<Rightarrow> ('t, 'l, 'i, 'c) turn option" where
  "press_key w key m sent =
     (let shared = shared_key w key (pass_to_component (uw_widgets w) key m) sent
      in case ui_screen m of
           ScreenRunbookRun \<Rightarrow> run_form_key w key m sent
         | ScreenScheduleCreate \<Rightarrow> Some (schedule_form_key w key m sent)
         | ScreenExecutionDetail \<Rightarrow>
             (case execution_detail_key w key m sent of Some t \<Rightarrow> Some t | None \<Rightarrow> Some shared)
         | ScreenApprovalDeny \<Rightarrow> Some (deny_form_key w key m sent)
         | ScreenAudit \<Rightarrow> Some (audit_key w key m sent)
         | _ \<Rightarrow> Some shared)"

definition update_tui ::
  "('t, 'l, 'i, 'c) ui_world \<Rightarrow> ui_event \<Rightarrow> ('t, 'l, 'i) tui \<Rightarrow> request list \<Rightarrow> ('t, 'l, 'i, 'c) turn option" where
  "update_tui w ev m sent =
     (case ev of
        WindowSize width height \<Rightarrow> Some ((resize (uw_widgets w) width height m, NoCmd), sent)
      | Key key \<Rightarrow> press_key w key m sent
      | OtherEvent \<Rightarrow> Some ((m, NoCmd), sent))"

text \<open>A session: the events one after the other, from a model and the requests sent before.\<close>

fun tui_session ::
  "('t, 'l, 'i, 'c) ui_world \<Rightarrow> ui_event list \<Rightarrow> ('t, 'l, 'i) tui \<times> request list \<Rightarrow> (('t, 'l, 'i) tui \<times> request list) option" where
  "tui_session w [] st = Some st"
| "tui_session w (ev # evs) st =
     (case update_tui w ev (fst st) (snd st) of
        None \<Rightarrow> None
      | Some ((m, _), sent) \<Rightarrow> tui_session w evs (m, sent))"

end
