(* ===== verification/TuiProps.thy ===== *)
theory TuiProps
  imports Tui
begin

text \<open>
  What a session of the terminal interface can do, for any behaviour of the widgets and any answers: it never
  dereferences nil, it sends a decision only after the key was pressed twice on the thing decided, and it never
  shows the detail of an execution.
\<close>

section \<open>Requests\<close>

definition sends :: "'a call \<Rightarrow> request \<Rightarrow> bool" where
  "sends c rq \<longleftrightarrow> snd (c []) = [rq]"

definition appends :: "'a call \<Rightarrow> bool" where
  "appends c \<longleftrightarrow> (\<forall>sent. snd (c sent) = sent @ snd (c []))"

lemma appends_exchange: "appends (exchange cn success dec rq)"
  by (simp add: appends_def exchange_def)

lemma appends_basic: "appends (get_json cn p dec)" "appends (post_json cn p b dec)" "appends (post_with_headers cn p b dec hs)"
  "appends (delete_json cn p dec)"
  by (simp_all add: get_json_def post_json_def post_with_headers_def delete_json_def Let_def appends_exchange)

lemma one_request: "appends c \<Longrightarrow> c sent = (r, sent') \<Longrightarrow> sends c rq \<Longrightarrow> sent' = sent @ [rq]"
  unfolding appends_def sends_def by (metis snd_conv)

lemma sends_get: "sends (get_json cn p dec) rq \<Longrightarrow> hr_method rq = ''GET''"
  by (auto simp: sends_def get_json_def exchange_def Let_def)

lemma ex_sends: "\<exists>rq. sends (exchange cn success dec rq0) rq"
  by (simp add: sends_def exchange_def)

lemma ex_sends_basic: "\<exists>rq. sends (get_json cn p dec) rq" "\<exists>rq. sends (post_json cn p b dec) rq"
  "\<exists>rq. sends (post_with_headers cn p b dec hs) rq" "\<exists>rq. sends (delete_json cn p dec) rq"
  by (simp_all add: get_json_def post_json_def post_with_headers_def delete_json_def Let_def ex_sends)

text \<open>Any single call: the log grows by one request that the call sends.\<close>

definition one_call :: "'a call \<Rightarrow> bool" where
  "one_call c \<longleftrightarrow> appends c \<and> (\<exists>rq. sends c rq)"

lemma one_call_basic: "one_call (get_json cn p dec)" "one_call (post_json cn p b dec)" "one_call (post_with_headers cn p b dec hs)"
  "one_call (delete_json cn p dec)"
  by (simp_all add: one_call_def appends_basic ex_sends_basic)

lemma list_servers_get: "\<exists>p. list_servers cn dec e k v = get_json cn p dec"
  by (auto simp: list_servers_def Let_def split: prod.split)

lemma list_executions_get: "\<exists>p. list_executions cn dec s l = get_json cn p dec"
  by (auto simp: list_executions_def Let_def)

lemma one_calls:
  "one_call (approve_approval cn d9 i n)" "one_call (deny_approval cn d10 i n)" "one_call (disable_schedule cn d11 i)"
  "one_call (create_schedule_call cn d12 q)" "one_call (run_runbook_request cn d13 name target reason params dry key)"
  by (simp_all add: approve_approval_def deny_approval_def disable_schedule_def create_schedule_call_def run_runbook_request_def
      one_call_basic)

lemma one_callD: "one_call c \<Longrightarrow> c sent = (r, sent') \<Longrightarrow> \<exists>rq. sends c rq \<and> sent' = sent @ [rq]"
  using one_request [of c sent r sent'] by (auto simp: one_call_def)

text \<open>A call that only reads.\<close>

definition reads :: "'a call \<Rightarrow> bool" where
  "reads c \<longleftrightarrow> one_call c \<and> (\<forall>rq. sends c rq \<longrightarrow> hr_method rq = ''GET'')"

lemma reads_get: "reads (get_json cn p dec)"
  using sends_get by (auto simp: reads_def one_call_basic)

lemma reads_calls:
  "reads (list_servers cn d1 e k v)" "reads (list_runbooks cn d2)" "reads (list_executions cn d3 s l)"
  "reads (list_approvals cn d4 s)" "reads (list_schedules cn d5)" "reads (list_audit cn d6 l)"
  "reads (get_execution cn d7 i)" "reads (get_approval cn d8 i)"
proof -
  show "reads (list_servers cn d1 e k v)" using list_servers_get [of cn d1 e k v] reads_get by metis
  show "reads (list_executions cn d3 s l)" using list_executions_get [of cn d3 s l] reads_get by metis
qed (simp_all add: list_runbooks_def search_runbooks_def list_approvals_def list_schedules_def list_audit_def get_execution_def
    get_approval_def reads_get)

section \<open>What a turn leaves as it is\<close>

text \<open>The part of the model that decides what is sent.\<close>

definition core :: "('t, 'l, 'i) tui \<Rightarrow> screen \<times> string \<times> runbook_item option \<times> string" where
  "core m = (ui_screen m, ui_confirm m, ui_selected_runbook m, ui_pending_approval m)"

definition reading :: "request list \<Rightarrow> request list \<Rightarrow> bool" where
  "reading sent sent' \<longleftrightarrow> (\<exists>rs. sent' = sent @ rs \<and> (\<forall>rq \<in> set rs. hr_method rq = ''GET''))"

lemma reading_refl [simp]: "reading sent sent"
  by (simp add: reading_def)

lemma reading_trans: "reading a b \<Longrightarrow> reading b c \<Longrightarrow> reading a c"
  unfolding reading_def by fastforce

lemma reading_call: "reads c \<Longrightarrow> c sent = (r, sent') \<Longrightarrow> reading sent sent'"
  by (auto simp: reads_def reading_def dest: one_callD)

lemmas reading_calls = reads_calls [THEN reading_call]

lemma loads:
  "load_servers w m sent = (m', sent') \<Longrightarrow> core m' = core m \<and> reading sent sent'"
  "load_runbooks w m sent = (m', sent') \<Longrightarrow> core m' = core m \<and> reading sent sent'"
  "load_executions w m sent = (m', sent') \<Longrightarrow> core m' = core m \<and> reading sent sent'"
  "load_approvals w m sent = (m', sent') \<Longrightarrow> core m' = core m \<and> reading sent sent'"
  "load_schedules w f m sent = (m', sent') \<Longrightarrow> core m' = core m \<and> reading sent sent'"
  by (auto simp: load_servers_def load_runbooks_def load_executions_def load_approvals_def load_schedules_def core_def
      split: prod.splits sum.splits option.splits dest: reading_calls)

lemma core_pass: "core (pass_to_component wd key m) = core m"
  by (simp add: pass_to_component_def core_def split: screen.split)

lemma core_screen: "core m' = core m \<Longrightarrow> ui_screen m' = ui_screen m"
  by (simp add: core_def)

section \<open>What was chosen, and what may be sent\<close>

text \<open>The key pressed and the identifier under the cursor, on the screens where decisions are made.\<close>

type_synonym choice = "string \<times> screen \<times> string"

definition choices_of :: "('t, 'l, 'i, 'c) ui_world \<Rightarrow> ui_event \<Rightarrow> ('t, 'l, 'i) tui \<Rightarrow> choice list" where
  "choices_of w ev m =
     (case ev of
        Key key \<Rightarrow>
          (let wd = uw_widgets w; m1 = pass_to_component wd key m
           in case ui_screen m of
                ScreenApprovals \<Rightarrow> (case current_approval wd m1 of None \<Rightarrow> [] | Some a \<Rightarrow> [(key, ScreenApprovals, pi_id a)])
              | ScreenSchedules \<Rightarrow> (case current_schedule wd m1 of None \<Rightarrow> [] | Some s \<Rightarrow> [(key, ScreenSchedules, sl_id s)])
              | _ \<Rightarrow> [])
      | _ \<Rightarrow> [])"

fun session_choices ::
  "('t, 'l, 'i, 'c) ui_world \<Rightarrow> ui_event list \<Rightarrow> ('t, 'l, 'i) tui \<times> request list \<Rightarrow> choice list" where
  "session_choices w [] st = []"
| "session_choices w (ev # evs) st =
     choices_of w ev (fst st)
     @ (case update_tui w ev (fst st) (snd st) of None \<Rightarrow> [] | Some ((m, _), sent) \<Rightarrow> session_choices w evs (m, sent))"

definition allowed :: "('t, 'l, 'i, 'c) ui_world \<Rightarrow> choice list \<Rightarrow> request \<Rightarrow> bool" where
  "allowed w h rq \<longleftrightarrow>
     hr_method rq = ''GET''
     \<or> (\<exists>i. sends (approve_approval (uw_conn w) (dc_strings (uw_dec w)) i []) rq \<and> 2 \<le> count_list h (''a'', ScreenApprovals, i))
     \<or> (\<exists>i note. sends (deny_approval (uw_conn w) (dc_strings (uw_dec w)) i [note]) rq \<and> note \<noteq> []
          \<and> 2 \<le> count_list h (''d'', ScreenApprovals, i))
     \<or> (\<exists>i. sends (disable_schedule (uw_conn w) (dc_strings (uw_dec w)) i) rq \<and> 2 \<le> count_list h (''d'', ScreenSchedules, i))
     \<or> (\<exists>(rb :: runbook_item) target reason params dry_run. ri_permitted rb \<and> (dry_run \<or> target \<noteq> [])
          \<and> sends (run_runbook_request (uw_conn w) (dc_answer (uw_dec w)) (ri_name rb) target reason params dry_run []) rq)
     \<or> (\<exists>q. sends (create_schedule_call (uw_conn w) (dc_strings (uw_dec w)) q) rq \<and> 60 \<le> cq_interval_seconds q
          \<and> cq_name q \<noteq> [] \<and> cq_runbook_name q \<noteq> [] \<and> cq_target q \<noteq> [] \<and> cq_reason q \<noteq> [])"

definition core_ok :: "choice list \<Rightarrow> screen \<times> string \<times> runbook_item option \<times> string \<Rightarrow> bool" where
  "core_ok h c \<longleftrightarrow>
     (case c of (s, confirm, rb, pending) \<Rightarrow>
        s \<noteq> ScreenExecutionDetail \<and> (s = ScreenRunbookRun \<longrightarrow> rb \<noteq> None) \<and> (\<forall>x. rb = Some x \<longrightarrow> ri_permitted x)
        \<and> (\<forall>i. confirm = i @ '':approve'' \<longrightarrow> 1 \<le> count_list h (''a'', ScreenApprovals, i))
        \<and> (\<forall>i. confirm = i @ '':deny'' \<longrightarrow> 1 \<le> count_list h (''d'', ScreenApprovals, i))
        \<and> (\<forall>i. confirm = i @ '':disable'' \<longrightarrow> 1 \<le> count_list h (''d'', ScreenSchedules, i))
        \<and> (s = ScreenApprovalDeny \<longrightarrow> 2 \<le> count_list h (''d'', ScreenApprovals, pending)))"

definition session_ok :: "('t, 'l, 'i, 'c) ui_world \<Rightarrow> choice list \<Rightarrow> ('t, 'l, 'i) tui \<times> request list \<Rightarrow> bool" where
  "session_ok w h st \<longleftrightarrow> core_ok h (core (fst st)) \<and> (\<forall>rq \<in> set (snd st). allowed w h rq)"

lemma count_list_add: "n \<le> count_list h c \<Longrightarrow> n \<le> count_list (h @ x) c"
  by simp

lemma allowed_add: "allowed w h rq \<Longrightarrow> allowed w (h @ x) rq"
  unfolding allowed_def by (blast intro: count_list_add)

lemma core_ok_add: "core_ok h c \<Longrightarrow> core_ok (h @ x) c"
  by (cases c) (simp add: core_ok_def trans_le_add1)

lemma session_ok_add: "session_ok w h st \<Longrightarrow> session_ok w (h @ x) st"
  by (auto simp: session_ok_def intro: core_ok_add allowed_add)

text \<open>Turns that change nothing of the core, and only read.\<close>

lemma ok_reading: "session_ok w h (m, sent) \<Longrightarrow> core m' = core m \<Longrightarrow> reading sent sent' \<Longrightarrow> session_ok w h (m', sent')"
  by (auto simp: session_ok_def reading_def allowed_def)

lemma ok_call:
  "session_ok w h (m, sent) \<Longrightarrow> one_call c \<Longrightarrow> (\<And>rq. sends c rq \<Longrightarrow> allowed w h rq) \<Longrightarrow> c sent = (r, sent') \<Longrightarrow>
     session_ok w h (m, sent')"
  by (drule (1) one_callD) (auto simp: session_ok_def)

lemma ok_fields [simp]:
  "session_ok w h (m\<lparr>ui_err := x0\<rparr>, sent) = session_ok w h (m, sent)"
  "session_ok w h (m\<lparr>ui_msg := x1\<rparr>, sent) = session_ok w h (m, sent)"
  "session_ok w h (m\<lparr>ui_run_inputs := x2\<rparr>, sent) = session_ok w h (m, sent)"
  "session_ok w h (m\<lparr>ui_schedule_inputs := x3\<rparr>, sent) = session_ok w h (m, sent)"
  "session_ok w h (m\<lparr>ui_audit_input := x4\<rparr>, sent) = session_ok w h (m, sent)"
  "session_ok w h (m\<lparr>ui_approval_note := x5\<rparr>, sent) = session_ok w h (m, sent)"
  "session_ok w h (m\<lparr>ui_audit_events := x6\<rparr>, sent) = session_ok w h (m, sent)"
  "session_ok w h (m\<lparr>ui_selected_exec := x7\<rparr>, sent) = session_ok w h (m, sent)"
  "session_ok w h (m\<lparr>ui_selected_approval := x8\<rparr>, sent) = session_ok w h (m, sent)"
  "session_ok w h (m\<lparr>ui_quitting := x9\<rparr>, sent) = session_ok w h (m, sent)"
  "session_ok w h (m\<lparr>ui_width := x10\<rparr>, sent) = session_ok w h (m, sent)"
  "session_ok w h (m\<lparr>ui_height := x11\<rparr>, sent) = session_ok w h (m, sent)"
  "session_ok w h (m\<lparr>ui_server_table := x12\<rparr>, sent) = session_ok w h (m, sent)"
  "session_ok w h (m\<lparr>ui_exec_table := x13\<rparr>, sent) = session_ok w h (m, sent)"
  "session_ok w h (m\<lparr>ui_approval_table := x14\<rparr>, sent) = session_ok w h (m, sent)"
  "session_ok w h (m\<lparr>ui_schedule_table := x15\<rparr>, sent) = session_ok w h (m, sent)"
  "session_ok w h (m\<lparr>ui_runbook_list := x16\<rparr>, sent) = session_ok w h (m, sent)"
  "session_ok w h (m\<lparr>ui_servers := x17\<rparr>, sent) = session_ok w h (m, sent)"
  "session_ok w h (m\<lparr>ui_runbooks := x18\<rparr>, sent) = session_ok w h (m, sent)"
  "session_ok w h (m\<lparr>ui_executions := x19\<rparr>, sent) = session_ok w h (m, sent)"
  "session_ok w h (m\<lparr>ui_approvals := x20\<rparr>, sent) = session_ok w h (m, sent)"
  "session_ok w h (m\<lparr>ui_schedules := x21\<rparr>, sent) = session_ok w h (m, sent)"
  by (simp_all add: session_ok_def core_def)

section \<open>The forms\<close>

lemma ok_leave: "session_ok w h (m, sent) \<Longrightarrow> session_ok w h (leave_run wd m, sent)"
  by (auto simp: session_ok_def core_ok_def core_def leave_run_def)

lemma leave_fields: "session_ok w h (leave_run wd (m\<lparr>ui_err := e, ui_msg := x\<rparr>), sent) = session_ok w h (leave_run wd m, sent)"
  by (simp add: session_ok_def core_def leave_run_def)

lemma run_form_ok:
  assumes "session_ok w h (m, sent)" "ui_screen m = ScreenRunbookRun"
  shows "\<exists>m' c sent'. run_form_key w key m sent = Some ((m', c), sent') \<and> session_ok w h (m', sent')"
proof -
  obtain rb where rb: "ui_selected_runbook m = Some rb" "ri_permitted rb"
    using assms by (auto simp: session_ok_def core_ok_def core_def)
  have post: "session_ok w h (m, sent')" if "run_runbook_request (uw_conn w) (dc_answer (uw_dec w)) (ri_name rb) target reason params dry [] sent = (r, sent')"
    "dry \<or> target \<noteq> []" for target reason params dry r sent'
    using ok_call [OF assms(1) one_calls(5) _ that(1)] that(2) rb(2) unfolding allowed_def by blast
  show ?thesis
    using rb assms(1) post unfolding run_form_key_def Let_def preflight_runbook_def run_runbook_call_def run_runbook_with_key_def
    by (auto simp: leave_fields split: sum.split prod.split intro!: ok_leave)
qed

lemma ok_blur: "session_ok w h (blur_schedule_inputs wd m, sent) = session_ok w h (m, sent)"
  by (simp add: session_ok_def core_def blur_schedule_inputs_def)

text \<open>A screen that needs nothing.\<close>

definition free_screen :: "screen \<Rightarrow> bool" where
  "free_screen s \<longleftrightarrow> s \<notin> {ScreenRunbookRun, ScreenExecutionDetail, ScreenApprovalDeny}"

lemma ok_screen: "session_ok w h (m, sent) \<Longrightarrow> free_screen s \<Longrightarrow> session_ok w h (m\<lparr>ui_screen := s\<rparr>, sent)"
  by (auto simp: session_ok_def core_ok_def core_def free_screen_def)

lemma free_screens [simp]: "free_screen ScreenHome" "free_screen ScreenServers" "free_screen ScreenRunbooks"
  "free_screen ScreenExecutions" "free_screen ScreenApprovals" "free_screen ScreenSchedules" "free_screen ScreenAudit"
  "free_screen ScreenHelp" "free_screen ScreenScheduleCreate" "free_screen ScreenApprovalDetail"
  by (simp_all add: free_screen_def)

lemma ok_loads:
  "session_ok w h (m, sent) \<Longrightarrow> load_servers w m sent = (m', sent') \<Longrightarrow> session_ok w h (m', sent')"
  "session_ok w h (m, sent) \<Longrightarrow> load_runbooks w m sent = (m', sent') \<Longrightarrow> session_ok w h (m', sent')"
  "session_ok w h (m, sent) \<Longrightarrow> load_executions w m sent = (m', sent') \<Longrightarrow> session_ok w h (m', sent')"
  "session_ok w h (m, sent) \<Longrightarrow> load_approvals w m sent = (m', sent') \<Longrightarrow> session_ok w h (m', sent')"
  "session_ok w h (m, sent) \<Longrightarrow> load_schedules w f m sent = (m', sent') \<Longrightarrow> session_ok w h (m', sent')"
  using ok_reading loads by metis+

lemma ok_read: "session_ok w h (m, sent) \<Longrightarrow> reads c \<Longrightarrow> c sent = (r, sent') \<Longrightarrow> session_ok w h (m, sent')"
  using ok_reading [OF _ refl] reading_call by metis

lemmas ok_reads = reads_calls [THEN ok_read [rotated]]

text \<open>A turn is followed branch by branch.\<close>

definition turn_ok :: "('t, 'l, 'i, 'c) ui_world \<Rightarrow> choice list \<Rightarrow> ('t, 'l, 'i, 'c) turn \<Rightarrow> bool" where
  "turn_ok w h t \<longleftrightarrow> session_ok w h (fst (fst t), snd t)"

lemma turn_pair: "turn_ok w h ((m, c), sent) = session_ok w h (m, sent)"
  by (simp add: turn_ok_def)

lemma turn_intros:
  "(b \<Longrightarrow> turn_ok w h t) \<Longrightarrow> (\<not> b \<Longrightarrow> turn_ok w h u) \<Longrightarrow> turn_ok w h (if b then t else u)"
  "(x = None \<Longrightarrow> turn_ok w h t) \<Longrightarrow> (\<And>y. x = Some y \<Longrightarrow> turn_ok w h (f y)) \<Longrightarrow> turn_ok w h (case_option t f x)"
  "(\<And>e. v = Inl e \<Longrightarrow> turn_ok w h (g e)) \<Longrightarrow> (\<And>y. v = Inr y \<Longrightarrow> turn_ok w h (k y)) \<Longrightarrow> turn_ok w h (case_sum g k v)"
  "(\<And>y z. p = (y, z) \<Longrightarrow> turn_ok w h (j y z)) \<Longrightarrow> turn_ok w h (case_prod j p)"
  by (auto split: option.split sum.split prod.split)

lemma state_intros:
  "(b \<Longrightarrow> session_ok w h t) \<Longrightarrow> (\<not> b \<Longrightarrow> session_ok w h u) \<Longrightarrow> session_ok w h (if b then t else u)"
  "(x = None \<Longrightarrow> session_ok w h t) \<Longrightarrow> (\<And>y. x = Some y \<Longrightarrow> session_ok w h (f y)) \<Longrightarrow> session_ok w h (case_option t f x)"
  "(\<And>e. v = Inl e \<Longrightarrow> session_ok w h (g e)) \<Longrightarrow> (\<And>y. v = Inr y \<Longrightarrow> session_ok w h (k y)) \<Longrightarrow> session_ok w h (case_sum g k v)"
  "(\<And>y z. p = (y, z) \<Longrightarrow> session_ok w h (j y z)) \<Longrightarrow> session_ok w h (case_prod j p)"
  by (auto split: option.split sum.split prod.split)

lemma schedule_form_ok:
  assumes "session_ok w h (m, sent)"
  shows "turn_ok w h (schedule_form_key w key m sent)"
proof -
  have post: "session_ok w h (m, s1)" if "create_schedule_call (uw_conn w) (dc_strings (uw_dec w)) q sent = (r, s1)"
    "60 \<le> cq_interval_seconds q" "cq_name q \<noteq> []" "cq_runbook_name q \<noteq> []" "cq_target q \<noteq> []" "cq_reason q \<noteq> []" for q r s1
    using ok_call [OF assms(1) one_calls(4) _ that(1)] that(2-) unfolding allowed_def by blast
  have loaded: "session_ok w h (m2, s2)"
    if "load_schedules w None (blur_schedule_inputs wd (m\<lparr>ui_err := [], ui_msg := x, ui_screen := ScreenSchedules\<rparr>)) s1 = (m2, s2)"
      "session_ok w h (m, s1)" for x s1 m2 s2 wd
    by (rule ok_loads(5) [OF _ that(1)]) (simp add: ok_blur ok_screen that(2))
  show ?thesis
    unfolding schedule_form_key_def Let_def
    apply (intro turn_intros; (unfold turn_pair)?)
    apply (simp_all only: ok_fields assms ok_blur)
    apply (rule ok_screen [OF assms], simp)
    apply (erule post; simp)
    apply (erule loaded, erule post; simp)
    done
qed

lemma deny_form_ok:
  assumes "session_ok w h (m, sent)" "ui_screen m = ScreenApprovalDeny"
  shows "turn_ok w h (deny_form_key w key m sent)"
proof -
  have twice: "2 \<le> count_list h (''d'', ScreenApprovals, ui_pending_approval m)"
    using assms by (simp add: session_ok_def core_ok_def core_def)
  have post: "session_ok w h (m, s1)"
    if "deny_approval (uw_conn w) (dc_strings (uw_dec w)) (ui_pending_approval m) [n] sent = (r, s1)" "n \<noteq> []" for n r s1
    using ok_call [OF assms(1) one_calls(2) _ that(1)] that(2) twice unfolding allowed_def by blast
  have leave: "session_ok w h (m2\<lparr>ui_screen := ScreenApprovals, ui_approval_note := n, ui_pending_approval := []\<rparr>, s1)"
    if "session_ok w h (m2, s1)" for m2 n s1
    using that by (auto simp: session_ok_def core_ok_def core_def)
  show ?thesis
    unfolding deny_form_key_def Let_def
    apply (intro turn_intros; (unfold turn_pair)?)
    apply (simp_all only: ok_fields assms leave)
    apply (erule post, assumption)
    apply (erule ok_loads(4) [rotated], rule leave, simp only: ok_fields, erule post, assumption)
    done
qed

lemma audit_ok:
  assumes "session_ok w h (m, sent)"
  shows "turn_ok w h (audit_key w key m sent)"
  unfolding audit_key_def Let_def
  apply (intro turn_intros; (unfold turn_pair)?)
  apply (simp_all only: ok_fields assms ok_screen free_screens)
  apply (rule ok_read [OF assms reads_calls(6)], assumption)+
  done

section \<open>The shared switch\<close>

lemma tags [simp]:
  "i @ '':approve'' \<noteq> j @ '':deny''" "i @ '':deny'' \<noteq> j @ '':approve''" "i @ '':disable'' \<noteq> j @ '':deny''"
  "i @ '':deny'' \<noteq> j @ '':disable''" "i @ '':approve'' \<noteq> j @ '':disable''" "i @ '':disable'' \<noteq> j @ '':approve''"
  by (auto dest: arg_cong [of _ _ last])

lemma ok_confirm:
  assumes "session_ok w h (m, sent)"
  shows "1 \<le> count_list h (''a'', ScreenApprovals, i) \<Longrightarrow> session_ok w h (m\<lparr>ui_confirm := i @ '':approve''\<rparr>, sent)"
    "1 \<le> count_list h (''d'', ScreenApprovals, i) \<Longrightarrow> session_ok w h (m\<lparr>ui_confirm := i @ '':deny''\<rparr>, sent)"
    "1 \<le> count_list h (''d'', ScreenSchedules, i) \<Longrightarrow> session_ok w h (m\<lparr>ui_confirm := i @ '':disable''\<rparr>, sent)"
    "session_ok w h (m\<lparr>ui_confirm := []\<rparr>, sent)"
  using assms by (simp_all add: session_ok_def core_ok_def core_def)

text \<open>The press of this key is counted: once now, and twice when it confirms.\<close>

definition counted :: "choice list \<Rightarrow> string \<Rightarrow> screen \<Rightarrow> string \<Rightarrow> string \<Rightarrow> string \<Rightarrow> bool" where
  "counted h confirm s key i tag \<longleftrightarrow>
     1 \<le> count_list h (key, s, i) \<and> (confirm = i @ tag \<longrightarrow> 2 \<le> count_list h (key, s, i))"

lemma approve_ok:
  assumes "session_ok w h (m, sent)"
    and "\<And>a. ui_screen m = ScreenApprovals \<Longrightarrow> current_approval (uw_widgets w) m = Some a \<Longrightarrow>
      counted h (ui_confirm m) ScreenApprovals ''a'' (pi_id a) '':approve''"
  shows "session_ok w h (approve_key w m sent)"
proof -
  have post: "session_ok w h (m, s1)"
    if "approve_approval (uw_conn w) (dc_strings (uw_dec w)) i [] sent = (r, s1)" "2 \<le> count_list h (''a'', ScreenApprovals, i)" for i r s1
    using ok_call [OF assms(1) one_calls(1) _ that(1)] that(2) unfolding allowed_def by blast
  show ?thesis
    unfolding approve_key_def Let_def
    apply (intro state_intros)
    apply (simp_all only: ok_fields assms)
    apply (rule ok_confirm(1) [OF assms(1)], use assms(2) in \<open>simp add: counted_def\<close>)
    apply (rule ok_confirm(4), erule post, use assms(2) in \<open>simp add: counted_def\<close>)
    apply (rule ok_loads(4) [OF _ surjective_pairing, simplified], simp only: ok_fields, rule ok_confirm(4), erule post,
        use assms(2) in \<open>simp add: counted_def\<close>)
    done
qed

lemma deny_ok:
  assumes "session_ok w h (m, sent)"
    and "\<And>a. current_approval wd m = Some a \<Longrightarrow> counted h (ui_confirm m) ScreenApprovals ''d'' (pi_id a) '':deny''"
  shows "session_ok w h (deny_key wd m, sent)"
proof (cases "current_approval wd m")
  case (Some a)
  note c = assms(2) [OF Some, unfolded counted_def]
  show ?thesis
  proof (cases "ui_confirm m = pi_id a @ '':deny''")
    case True
    then show ?thesis using assms(1) c Some by (simp add: deny_key_def session_ok_def core_ok_def core_def Let_def)
  next
    case False
    then show ?thesis using ok_confirm(2) [OF assms(1)] c Some by (simp add: deny_key_def Let_def)
  qed
qed (simp add: deny_key_def assms(1))

lemma disable_ok:
  assumes "session_ok w h (m, sent)"
    and "\<And>s. current_schedule (uw_widgets w) m = Some s \<Longrightarrow> counted h (ui_confirm m) ScreenSchedules ''d'' (sl_id s) '':disable''"
  shows "session_ok w h (disable_key w m sent)"
proof -
  have post: "session_ok w h (m, s1)"
    if "disable_schedule (uw_conn w) (dc_strings (uw_dec w)) i sent = (r, s1)" "2 \<le> count_list h (''d'', ScreenSchedules, i)" for i r s1
    using ok_call [OF assms(1) one_calls(3) _ that(1)] that(2) unfolding allowed_def by blast
  show ?thesis
    unfolding disable_key_def Let_def
    apply (intro state_intros)
    apply (simp_all only: ok_fields assms)
    apply (rule ok_confirm(3) [OF assms(1)], use assms(2) in \<open>simp add: counted_def\<close>)
    apply (rule ok_confirm(4), erule post, use assms(2) in \<open>simp add: counted_def\<close>)
    apply (rule ok_loads(5) [OF _ surjective_pairing, simplified], simp only: ok_fields, rule ok_confirm(4), erule post,
        use assms(2) in \<open>simp add: counted_def\<close>)
    done
qed

lemma select_ok: "session_ok w h (m, sent) \<Longrightarrow> session_ok w h (select_key wd m, sent)"
  by (auto simp: select_key_def session_ok_def core_ok_def core_def split: option.split)

lemma new_schedule_ok: "session_ok w h (m, sent) \<Longrightarrow> turn_ok w h (new_schedule_key wd m, sent)"
  by (auto simp: new_schedule_key_def Let_def turn_ok_def ok_screen)

lemma ok_loaded: "session_ok w h (m, sent) \<Longrightarrow> session_ok w h (load_servers w m sent)"
  "session_ok w h (m, sent) \<Longrightarrow> session_ok w h (load_runbooks w m sent)"
  "session_ok w h (m, sent) \<Longrightarrow> session_ok w h (load_executions w m sent)"
  "session_ok w h (m, sent) \<Longrightarrow> session_ok w h (load_approvals w m sent)"
  "session_ok w h (m, sent) \<Longrightarrow> session_ok w h (load_schedules w f m sent)"
  by (rule ok_loads [OF _ surjective_pairing, simplified], assumption)+

lemma refresh_ok: "session_ok w h (m, sent) \<Longrightarrow> session_ok w h (refresh_key w m sent)"
  using ok_read [OF _ reads_calls(6)] by (auto simp: refresh_key_def ok_loaded split: screen.split sum.split prod.split)

text \<open>The detail of an execution is opened and closed by the same press.\<close>

lemma enter_audit_ok: "session_ok w h (m, sent) \<Longrightarrow> session_ok w h (enter_audit w m sent)"
  using ok_read [OF _ reads_calls(6)] by (auto simp: enter_audit_def split: sum.split prod.split)

lemma enter_executions_ok:
  assumes "session_ok w h (m, sent)" "enter_executions w m sent = (m', sent')"
  shows "session_ok w h (m'\<lparr>ui_screen := ScreenExecutions, ui_selected_exec := None\<rparr>, sent')
    \<and> (ui_screen m' \<noteq> ScreenExecutionDetail \<longrightarrow> session_ok w h (m', sent'))"
proof -
  have r: "session_ok w h (m, s1)" if "get_execution (uw_conn w) (dc_execution (uw_dec w)) i sent = (r, s1)" for i r s1
    using ok_read [OF assms(1) reads_calls(7) that] .
  have screen: "session_ok w h (m\<lparr>ui_selected_exec := x, ui_screen := s\<rparr>, s1) = session_ok w h (m\<lparr>ui_screen := s\<rparr>, s1)" for s x s1
    by (simp add: session_ok_def core_def)
  show ?thesis
    using assms r ok_screen [of w h m _ ScreenExecutions]
    by (auto simp: enter_executions_def screen split: if_splits option.splits sum.splits prod.splits)
qed

lemma enter_ok:
  assumes "session_ok w h (m, sent)"
  shows "session_ok w h (enter_key w m sent)"
proof -
  obtain m1 s1 where e1: "enter_audit w m sent = (m1, s1)" by fastforce
  obtain m2 s2 where e2: "enter_executions w m1 s1 = (m2, s2)" by fastforce
  have ok1: "session_ok w h (m1, s1)" using enter_audit_ok [OF assms] e1 by simp
  note ok2 = enter_executions_ok [OF ok1 e2]
  have r: "session_ok w h (m2, s3)" if "get_approval (uw_conn w) (dc_approval (uw_dec w)) i s2 = (r, s3)"
    "ui_screen m2 = ScreenApprovals" for i r s3
    using ok2 that(2) by (intro ok_read [OF _ reads_calls(8) that(1)]) simp
  show ?thesis
    using assms ok2 r unfolding enter_key_def e1 e2 Let_def prod.case
    by (auto intro: ok_screen split: option.split sum.split prod.split)
qed

lemma shared_ok:
  assumes "session_ok w h (m, sent)"
    and "\<And>a. ui_screen m = ScreenApprovals \<Longrightarrow> current_approval (uw_widgets w) m = Some a \<Longrightarrow> key = ''a'' \<Longrightarrow>
      counted h (ui_confirm m) ScreenApprovals ''a'' (pi_id a) '':approve''"
    and "\<And>a. ui_screen m = ScreenApprovals \<Longrightarrow> current_approval (uw_widgets w) m = Some a \<Longrightarrow> key = ''d'' \<Longrightarrow>
      counted h (ui_confirm m) ScreenApprovals ''d'' (pi_id a) '':deny''"
    and "\<And>s. ui_screen m = ScreenSchedules \<Longrightarrow> current_schedule (uw_widgets w) m = Some s \<Longrightarrow> key = ''d'' \<Longrightarrow>
      counted h (ui_confirm m) ScreenSchedules ''d'' (sl_id s) '':disable''"
  shows "turn_ok w h (shared_key w key m sent)"
proof -
  have plain: "turn_ok w h (case p of (x, y) \<Rightarrow> ((x, NoCmd), y)) = session_ok w h p" for p
    by (simp add: turn_ok_def split: prod.split)
  show ?thesis
    unfolding shared_key_def Let_def
    apply (intro turn_intros(1))
    apply (simp_all only: plain turn_pair ok_fields assms(1) ok_screen free_screens ok_loaded refresh_ok enter_ok select_ok new_schedule_ok)
    apply (rule approve_ok [OF assms(1) assms(2)]; simp)
    apply (rule deny_ok [OF assms(1) assms(3)]; simp)
    apply (rule disable_ok [OF assms(1) assms(4)]; simp)
    done
qed

section \<open>One event\<close>

lemma counted_now:
  assumes "session_ok w h0 (m, sent)" "h = h0 @ [(key, s, i)]"
    and "\<And>j. ui_confirm m = j @ tag \<Longrightarrow> 1 \<le> count_list h0 (key, s, j)"
  shows "counted h (ui_confirm m) s key i tag"
  using assms(2) assms(3) [of i] by (auto simp: counted_def)

lemma pass_fields: "ui_screen (pass_to_component wd key m) = ui_screen m" "ui_confirm (pass_to_component wd key m) = ui_confirm m"
  using core_pass [of wd key m] by (simp_all add: core_def)

lemma update_ok:
  assumes "session_ok w h (m, sent)"
  shows "\<exists>m' c sent'. update_tui w ev m sent = Some ((m', c), sent') \<and> session_ok w (h @ choices_of w ev m) (m', sent')"
proof -
  let ?h = "h @ choices_of w ev m"
  note ok = session_ok_add [OF assms, of "choices_of w ev m"]
  have wrap: "\<exists>m' c sent'. Some t = Some ((m', c), sent') \<and> session_ok w ?h (m', sent')" if "turn_ok w ?h t" for t
    using that by (cases t) (auto simp: turn_ok_def)
  show ?thesis
  proof (cases ev)
    case (WindowSize a b)
    then show ?thesis using ok by (simp add: update_tui_def resize_def Let_def)
  next
    case OtherEvent
    then show ?thesis using ok by (simp add: update_tui_def)
  next
    case (Key key)
    let ?m1 = "pass_to_component (uw_widgets w) key m"
    have confirm: "ui_confirm m = i @ '':approve'' \<Longrightarrow> 1 \<le> count_list h (''a'', ScreenApprovals, i)"
      "ui_confirm m = i @ '':deny'' \<Longrightarrow> 1 \<le> count_list h (''d'', ScreenApprovals, i)"
      "ui_confirm m = i @ '':disable'' \<Longrightarrow> 1 \<le> count_list h (''d'', ScreenSchedules, i)" for i
      using assms by (auto simp: session_ok_def core_ok_def core_def)
    have shared: "turn_ok w ?h (shared_key w key ?m1 sent)"
    proof (rule shared_ok)
      show "session_ok w ?h (?m1, sent)" by (rule ok_reading [OF ok core_pass reading_refl])
    qed (use confirm in \<open>auto simp: pass_fields choices_of_def Key Let_def intro!: counted_now [OF assms]\<close>)
    have screen: "ui_screen m \<noteq> ScreenExecutionDetail" using assms by (simp add: session_ok_def core_ok_def core_def)
    show ?thesis
      using wrap [OF shared] wrap [OF schedule_form_ok [OF ok]] wrap [OF deny_form_ok [OF ok]] wrap [OF audit_ok [OF ok]]
        run_form_ok [OF ok] screen
      unfolding update_tui_def Key ui_event.case press_key_def Let_def
      by (cases "ui_screen m") (simp_all only: screen.case, simp_all)
  qed
qed

section \<open>Sessions\<close>

lemma session_runs:
  "session_ok w h st \<Longrightarrow> \<exists>st'. tui_session w evs st = Some st' \<and> session_ok w (h @ session_choices w evs st) st'"
proof (induction evs arbitrary: h st)
  case (Cons ev evs)
  obtain m sent where st: "st = (m, sent)" by fastforce
  obtain m' c sent' where u: "update_tui w ev m sent = Some ((m', c), sent')" "session_ok w (h @ choices_of w ev m) (m', sent')"
    using update_ok Cons.prems st by blast
  then show ?case using Cons.IH [OF u(2)] by (simp add: st)
qed simp

lemma session_start: "session_ok w [] (new_tui_model tables l a ins n sins, [])"
  by (simp add: session_ok_def core_ok_def core_def new_tui_model_def split: prod.split)

text \<open>
  The terminal interface never dereferences nil in \<open>Update\<close>: from its first screen, any sequence of events is worked off, whatever the
  widgets do and whatever the control plane answers.
\<close>

theorem session_never_panics: "tui_session w evs (new_tui_model tables l a ins n sins, []) \<noteq> None"
  using session_runs [OF session_start] by fastforce

text \<open>
  C22: what a session may send.  Every request of a session only reads, or it is one of these: an approval of a request, a denial of it
  with a reason, or the disabling of a schedule, and then the key was pressed at least twice with exactly that
  request or schedule under the cursor; a run of a runbook that was listed as permitted, with a
  target unless it is a preflight; or a new schedule with all its fields and an interval of at least a minute.
\<close>

theorem decisions_confirmed:
  assumes "tui_session w evs (new_tui_model tables l a ins n sins, []) = Some (m, sent)" "rq \<in> set sent"
    and "h = session_choices w evs (new_tui_model tables l a ins n sins, [])"
  shows "hr_method rq = ''GET''
     \<or> (\<exists>i. sends (approve_approval (uw_conn w) (dc_strings (uw_dec w)) i []) rq \<and> 2 \<le> count_list h (''a'', ScreenApprovals, i))
     \<or> (\<exists>i note. sends (deny_approval (uw_conn w) (dc_strings (uw_dec w)) i [note]) rq \<and> note \<noteq> []
          \<and> 2 \<le> count_list h (''d'', ScreenApprovals, i))
     \<or> (\<exists>i. sends (disable_schedule (uw_conn w) (dc_strings (uw_dec w)) i) rq \<and> 2 \<le> count_list h (''d'', ScreenSchedules, i))
     \<or> (\<exists>(rb :: runbook_item) target reason params dry_run. ri_permitted rb \<and> (dry_run \<or> target \<noteq> [])
          \<and> sends (run_runbook_request (uw_conn w) (dc_answer (uw_dec w)) (ri_name rb) target reason params dry_run []) rq)
     \<or> (\<exists>q. sends (create_schedule_call (uw_conn w) (dc_strings (uw_dec w)) q) rq \<and> 60 \<le> cq_interval_seconds q
          \<and> cq_name q \<noteq> [] \<and> cq_runbook_name q \<noteq> [] \<and> cq_target q \<noteq> [] \<and> cq_reason q \<noteq> [])"
  using session_runs [OF session_start, of w evs tables l a ins n sins] assms
  by (simp add: session_ok_def allowed_def)

lemma sent_line:
  "sends (post_with_headers cn p b dec hs) rq \<Longrightarrow> hr_method rq = ''POST'' \<and> hr_path rq = p"
  "sends (post_json cn p b dec) rq \<Longrightarrow> hr_method rq = ''POST'' \<and> hr_path rq = p"
  "sends (delete_json cn p dec2) rq \<Longrightarrow> hr_method rq = ''DELETE''"
  by (auto simp: sends_def post_json_def post_with_headers_def delete_json_def exchange_def Let_def)

lemma allowed_no_cancel: "allowed w h rq \<Longrightarrow> \<not> sends (cancel_execution cn dec i) rq"
proof
  assume a: "allowed w h rq" and "sends (cancel_execution cn dec i) rq"
  then have c: "hr_method rq = ''POST''" "hr_path rq = ''/api/v1/executions/'' @ path_escape i @ ''/cancel''"
    by (auto simp: cancel_execution_def dest: sent_line)
  show False
    using a c unfolding allowed_def approve_approval_def deny_approval_def disable_schedule_def run_runbook_request_def
      create_schedule_call_def
    by (auto dest!: sent_line)
qed

text \<open>
  C40: the detail of an execution can not be reached: a press of enter on the list opens it and closes it again, so no session shows
  that screen, and none ever asks to cancel an execution, although the interface has a key for it.
\<close>

theorem execution_detail_unreachable:
  assumes "tui_session w evs (new_tui_model tables l a ins n sins, []) = Some (m, sent)"
  shows "ui_screen m \<noteq> ScreenExecutionDetail
    \<and> \<not> (\<exists>rq i. rq \<in> set sent \<and> sends (cancel_execution (uw_conn w) (dc_strings (uw_dec w)) i) rq)"
proof -
  have "session_ok w (session_choices w evs (new_tui_model tables l a ins n sins, [])) (m, sent)"
    using session_runs [OF session_start, of w evs tables l a ins n sins] assms by simp
  then show ?thesis using allowed_no_cancel by (fastforce simp: session_ok_def core_ok_def core_def)
qed

section \<open>A session\<close>

definition sample_widgets :: "(unit, unit, string, unit) widgets" where
  "sample_widgets =
     \<lparr>tb_set_rows = (\<lambda>_ t. t), tb_set_width = (\<lambda>_ t. t), tb_update = (\<lambda>_ t. t), tb_cursor = (\<lambda>_. 0),
      ls_set_items = (\<lambda>_ l. l), ls_set_width = (\<lambda>_ l. l), ls_set_height = (\<lambda>_ l. l), ls_update = (\<lambda>_ l. l), ls_index = (\<lambda>_. 0),
      in_value = (\<lambda>x. x), in_focused = (\<lambda>_. False), in_focus = (\<lambda>x. x), in_blur = (\<lambda>x. x), in_set_value = (\<lambda>v _. v),
      in_update = (\<lambda>k x. (x @ k, ()))\<rparr>"

definition sample_item :: approval_item where
  "sample_item = \<lparr>pi_id = ''ap1'', pi_requester_name = ''Jo'', pi_action_type = ''runbook'', pi_status = ''pending'', pi_risk_level = ''high'',
     pi_reason = ''patch'', pi_target_type = ''server'', pi_target_id = ''s1'', pi_expires_at = [], pi_created_at = []\<rparr>"

definition sample_listed :: execution_list_item where
  "sample_listed = \<lparr>xl_id = ''e1'', xl_actor_user_id = [], xl_actor_role = [], xl_execution_type = [], xl_status = ''queued'',
     xl_command_preview = ''uptime'', xl_target_count = 1, xl_succeeded_count = 0, xl_failed_count = 0, xl_requested_at = [],
     xl_started_at = [], xl_finished_at = [], xl_delegated_by = [], xl_approval_id = []\<rparr>"

definition sample_detail :: execution_response where
  "sample_detail = \<lparr>xr_execution = \<lparr>xd_id = ''e1'', xd_actor_user_id = [], xd_actor_role = [], xd_execution_type = [],
     xd_status = ''queued'', xd_risk_level = [], xd_environment = [], xd_reason = [], xd_command_preview = ''uptime'',
     xd_command_hash = [], xd_timeout_seconds = 60, xd_requested_at = [], xd_started_at = [], xd_finished_at = [],
     xd_error_summary = [], xd_delegated_by = [], xd_approval_id = []\<rparr>, xr_targets = []\<rparr>"

definition sample_world :: "(unit, unit, string, unit) ui_world" where
  "sample_world =
     \<lparr>uw_conn = \<lparr>cn_client = new_client (\<lambda>_. []) ''http://localhost:8080'', cn_net = (\<lambda>_ _. HttpReply 200 []),
                 cn_error = (\<lambda>_. Inr ([], []))\<rparr>,
      uw_dec = \<lparr>dc_servers = (\<lambda>_. Inr []), dc_runbooks = (\<lambda>_. Inr []), dc_executions = (\<lambda>_. Inr [sample_listed]),
                dc_approvals = (\<lambda>_. Inr [sample_item]), dc_schedules = (\<lambda>_. Inr []), dc_audit = (\<lambda>_. Inr []),
                dc_execution = (\<lambda>_. Inr sample_detail), dc_approval = Inl, dc_answer = Inl, dc_strings = (\<lambda>_. Inr [])\<rparr>,
      uw_widgets = sample_widgets, uw_quote = (\<lambda>s. s)\<rparr>"

definition sample_start :: "(unit, unit, string) tui" where
  "sample_start = new_tui_model ((), (), (), ()) () [] [[], [], []] [] [[], [], [], [], [], [], []]"

definition approving :: "ui_event list" where
  "approving = [Key ''4'', Key ''a'', Key ''a'']"

lemma approving_sent:
  "map_option (\<lambda>(m, sent). (ui_msg m, length sent, hr_method (sent ! 1), hr_path (sent ! 1))) (tui_session sample_world approving (sample_start, []))
   = Some (''Approved ap1'', 3, ''POST'', ''/api/v1/approvals/ap1/approve'')"
  by code_simp

theorem decisions_confirmed_witness:
  "\<exists>m sent. tui_session sample_world approving (sample_start, []) = Some (m, sent) \<and> hr_path (sent ! 1) = ''/api/v1/approvals/ap1/approve''
     \<and> allowed sample_world (session_choices sample_world approving (sample_start, [])) (sent ! 1)"
proof -
  obtain m sent where s: "tui_session sample_world approving (sample_start, []) = Some (m, sent)" "length sent = 3"
    "hr_path (sent ! 1) = ''/api/v1/approvals/ap1/approve''"
    using approving_sent by (auto simp: map_option_case split: option.splits)
  have "sent ! 1 \<in> set sent" using s(2) by simp
  from decisions_confirmed [OF s(1) [unfolded sample_start_def] this refl]
  have "allowed sample_world (session_choices sample_world approving (sample_start, [])) (sent ! 1)"
    unfolding allowed_def sample_start_def .
  then show ?thesis using s(1,3) by (intro exI conjI)
qed

definition looking :: "ui_event list" where
  "looking = [Key ''3'', Key ''enter'', Key ''c'', Key ''c'']"

lemma looking_sent:
  "map_option (\<lambda>(m, sent). (ui_screen m, map (\<lambda>rq. (hr_method rq, hr_path rq)) sent)) (tui_session sample_world looking (sample_start, []))
   = Some (ScreenExecutions, [(''GET'', ''/api/v1/executions?limit=50''), (''GET'', ''/api/v1/executions/e1'')])"
  by code_simp

theorem execution_detail_unreachable_witness:
  "\<exists>m sent. tui_session sample_world looking (sample_start, []) = Some (m, sent) \<and> length sent = 2 \<and> ui_screen m \<noteq> ScreenExecutionDetail"
proof -
  obtain m sent where s: "tui_session sample_world looking (sample_start, []) = Some (m, sent)" "length sent = 2"
    using looking_sent by (auto simp: map_option_case split: option.splits)
  show ?thesis using execution_detail_unreachable [OF s(1) [unfolded sample_start_def]] s by blast
qed

end
