(* ===== verification/Spec2Isabelle.thy ===== *)
theory Spec2Isabelle
  imports Jobsign Authz Runbook Schedule RateLimit Dialect QueueProps ExecProps ApprovalProps AutomationProps RunnerProps
    ServerProps EndToEnd MigrationProps Lifecycle BackupProps Routes TuiProps
begin

text \<open>
  VPS tools: a control plane (\<open>apps/api\<close>) that keeps servers, runbooks, executions and approvals in a SQL
  database, runners (\<open>apps/runner\<close>) that claim jobs over HTTP and run them over SSH, and a command line
  client.  This library models the control plane's decisions and state changes as functions and
  proves what operators rely on.

  \<^bold>\<open>How the code is written down.\<close>  A handler is a function of what it reads from outside (\<open>env\<close>: two clocks,
  random identifiers, HMAC and SHA-256, redaction, the artifact store, and \<open>fails\<close>, which says for every
  database statement whether it returns an error), the caller, the decoded request and the database, and gives the
  answer and the new database.  \<open>db\<close> (theory \<open>Database\<close>) has one list of records per table of \<open>apps/api/migrate.go\<close>; an
  \<open>UPDATE ... WHERE\<close> is \<open>update_where\<close>, a single-row \<open>SELECT\<close> is \<open>first_row\<close>.  A transaction is a sum, the error
  answer or the answer with the new database (theory \<open>Transaction\<close>); rolling back is giving back the old one.  Strings are
  lists of bytes, times are whole seconds, Go integers are \<open>int\<close>: the counters and durations of the code stay far below \<open>2^63\<close>.

  \<^bold>\<open>Theories and sources.\<close>
  \<^item> \<open>Prelude\<close>: strings, order, updates and counts of rows; \<open>Json\<close>: JSON values and \<open>json.Marshal\<close>.
  \<^item> \<open>Jobsign\<close>: \<open>packages/jobsign\<close>; \<open>Authz\<close>: \<open>packages/authz\<close>; \<open>Runbook\<close>: \<open>packages/runbooks\<close>; \<open>Schedule\<close>:
    \<open>packages/automation\<close>; \<open>Dialect\<close>: \<open>packages/db/dialect\<close>; \<open>RateLimit\<close>: \<open>ratelimit.go\<close>, \<open>reconcile_throttle.go\<close>.
  \<^item> \<open>Database\<close>, \<open>AuditLog\<close>: the tables, answers, timeline and hash-chained audit log (\<open>helpers.go\<close>, \<open>audit.go\<close>).
  \<^item> \<open>Auth\<close>: API tokens, runner credentials and \<open>withAuth\<close> (\<open>auth.go\<close>, \<open>middleware.go\<close>, \<open>tenant_context.go\<close>).
  \<^item> \<open>Queue\<close>, \<open>QueueInv\<close>, \<open>QueueProps\<close>: \<open>jobs.go\<close> and \<open>queue.go\<close>, the invariant of the queue, and its properties.
  \<^item> \<open>Executions\<close>, \<open>ExecProps\<close>: \<open>executions.go\<close>; \<open>RunbookApi\<close>, \<open>Approvals\<close>, \<open>ApprovalProps\<close>: \<open>runbooks.go\<close>.
  \<^item> \<open>Dispatch\<close>, \<open>Notify\<close>: \<open>packages/dispatch\<close> and \<open>dispatch.go\<close>; \<open>Automation\<close>, \<open>AutomationProps\<close>: \<open>automation.go\<close>, the embedded
    scheduler; \<open>Runners\<close>, \<open>RunnerProps\<close>: \<open>runners.go\<close>; \<open>Servers\<close>, \<open>ServerProps\<close>: \<open>servers.go\<close>.
  \<^item> The runner process: \<open>Paths\<close> (\<open>path/filepath\<close>), \<open>Sshcreds\<close>: \<open>packages/sshcreds\<close>; \<open>Sshx\<close>: \<open>packages/sshx\<close>, over a record
    \<open>ssh_library\<close> that stands for \<open>golang.org/x/crypto/ssh\<close>, of which only \<open>dial_checks\<close> is assumed (a connection is
    returned only after the host key callback has accepted its key); \<open>RunnerProc\<close>, \<open>RunnerProcProps\<close>: \<open>apps/runner/main.go\<close>,
    where \<open>runner_turn\<close> is one pass of the main loop and returns the events it causes.
  \<^item> \<open>Artifacts\<close>, \<open>Migration\<close>: \<open>packages/artifacts\<close>, the local and the S3 store, over a file system, an S3-compatible
    service and AES-GCM as parameters; \<open>ArtifactProps\<close>: the contract of \<open>artifacts.Store\<close> as the locale \<open>object_store\<close>,
    interpreted on both; \<open>MigrationProps\<close>.  What is assumed of the outside is \<open>opens_sealed\<close> and \<open>s3_protocol\<close>.
  \<^item> \<open>EndToEnd\<close>: what the runner does with the control plane's answer to its claim, and what it posts back; \<open>Lifecycle\<close>: the
    step relation \<open>queue_step\<close> of everything that can change the queue, and how rows evolve along it.
  \<^item> \<open>Client\<close>: \<open>packages/sdk-go/client\<close>; \<open>Routes\<close>: \<open>apps/api/routes.go\<close> as Go's \<open>ServeMux\<close> searches it; \<open>Tui\<close>, \<open>TuiProps\<close>:
    \<open>apps/cli/tui.go\<close>, the terminal interface, where \<open>update_tui\<close> is \<open>Update\<close> and \<open>tui_session\<close> works off a list of events.
  \<^item> \<open>Config\<close>: \<open>packages/config\<close>; \<open>Backup\<close>, \<open>BackupProps\<close>: \<open>apps/api/cmd/backup\<close>, over a disk of files, directories and
    links in which every system call may fail.

  \<^bold>\<open>What is shown.\<close>  The queue: a claim gives a runner one ready job in its scope, signed so that the runner's check accepts
  it until the lease ends, never takes a live lease, and a result is accepted once, under its lease, replayed
  afterwards and all or nothing.  Requests: an execution is queued only if the policy allows
  it for the one environment of its targets, once per idempotency key; a runbook run passes all its gates; an approval is
  given by another senior engineer, once, and queues exactly what was asked for; a cancelled execution is not claimed.
  The audit log: each write extends the organisation's chain and two histories with one final hash are equal.  Commands:
  a shell reads a rendered command as its template with literal parameter values.  The invariants (\<open>queue_ok\<close>,
  \<open>sys_ok\<close>) are kept by every operation of the queue, of executions, of approvals and of the scheduler.  Automation: a
  cycle runs only due schedules of organisations that are not paused and through the same gates, and the background
  reconciliation does what the transactional one does.  Runners: a revocation is final, a registration gives one live token.
  Servers: an update keeps a pin that is left out and no request records a malformed identity.  The runner process: it
  runs a command only if its signature verifies, on a host with the pinned key, with a credential from inside its
  keystore, and reports the result at most three times; end to end, that job is the claimed target's.
  Artifacts: what is put is read back, a file is replaced in one step, migrating to S3 and restoring loses nothing.
  Over any run of handlers and ticks (\<open>queue_life\<close>, \<open>attempt_single_holder\<close>) statuses move only along the state machine, what was
  authorised stays as it was and no attempt has two holders.  Operation: a validated configuration can be started with, the
  development identity is never there by default, and restoring a backup touches only its places and is all or nothing.
  Clients: every call of the Go client reaches its handler with the identifier given, and the terminal interface sends no
  decision that was not confirmed, never dereferences nil, and never gets to the detail of an execution.

  \<^bold>\<open>Bounds.\<close>  No definition needs fuel: every loop is structural or ends by a measure (\<open>backoff_loop\<close>, \<open>pieces\<close>), except
  that of \<open>Schedule.NextAfter\<close>, which may run for ever: \<open>next_from\<close> is a partial function to an option, its durations
  are 64-bit nanoseconds, and \<open>next_after_returns\<close> says when it returns.

  \<^bold>\<open>Not modelled.\<close>  Parsing of HTTP, TLS, the SSH protocol, the SQL engine, what the terminal interface draws, the commands of the
  command line, generated code and the maintenance commands other than the backup are I/O or presentation; the lease renewal that runs beside a job is given by its request only; OIDC, YAML, the hash functions and regular expressions
  are parameters.  Handlers run one at a time: two requests interleave only between statements of different
  transactions, and the guards the code repeats inside its updates are modelled where they stand.
\<close>

end
